(* ===== verification/Prelude.thy ===== *)
theory Prelude
  imports Main "HOL-Library.AList" "HOL-Library.Word" "HOL-Library.Char_ord" "HOL-Library.List_Lexorder" "HOL-Library.Product_Lexorder"
begin

text \<open>
  What every component shares: Go's maps as association lists with distinct keys (so that
  \<open>len\<close> and \<open>range\<close> compute), Go's 64-bit integers as \<open>int\<close> with the
  wrap-around and the saturation of the library written out, instants and durations in
  nanoseconds, the string helpers of the packages \<open>strings\<close> and \<open>strconv\<close> on
  ASCII bytes, and the collections of facts the component proofs draw on.
\<close>

named_theorems inv_defs \<open>definitions of the invariants\<close>
named_theorems op_defs \<open>definitions of the operations\<close>
named_theorems go_map \<open>laws of Go maps\<close>

section \<open>Go maps\<close>

type_synonym ('k, 'v) gomap = "('k \<times> 'v) list"

definition gm_ok :: "('k, 'v) gomap \<Rightarrow> bool" where
  "gm_ok m \<longleftrightarrow> distinct (map fst m)"

definition gm_get :: "('k, 'v) gomap \<Rightarrow> 'k \<Rightarrow> 'v option" where
  "gm_get m k = map_of m k"

definition gm_set :: "'k \<Rightarrow> 'v \<Rightarrow> ('k, 'v) gomap \<Rightarrow> ('k, 'v) gomap" where
  "gm_set k v m = AList.update k v m"

definition gm_del :: "'k \<Rightarrow> ('k, 'v) gomap \<Rightarrow> ('k, 'v) gomap" where
  "gm_del k m = filter (\<lambda>p. fst p \<noteq> k) m"

lemma gm_get_Nil [simp, go_map]: "gm_get [] k = None"
  by (simp add: gm_get_def)

lemma gm_get_set [simp, go_map]: "gm_get (gm_set k v m) k' = (if k' = k then Some v else gm_get m k')"
  by (simp add: gm_get_def gm_set_def update_conv')

lemma gm_get_del [simp, go_map]: "gm_get (gm_del k m) k' = (if k' = k then None else gm_get m k')"
  by (induction m) (auto simp: gm_get_def gm_del_def)

lemma gm_ok_Nil [simp]: "gm_ok []"
  by (simp add: gm_ok_def)

lemma gm_ok_set [simp, intro]: "gm_ok m \<Longrightarrow> gm_ok (gm_set k v m)"
  by (simp add: gm_ok_def gm_set_def distinct_update)

lemma gm_ok_del [simp, intro]: "gm_ok m \<Longrightarrow> gm_ok (gm_del k m)"
  unfolding gm_ok_def gm_del_def by (simp add: distinct_map_filter)

lemma gm_get_mem: "gm_ok m \<Longrightarrow> gm_get m k = Some v \<longleftrightarrow> (k, v) \<in> set m"
  by (simp add: gm_ok_def gm_get_def)

lemma gm_get_SomeD: "gm_get m k = Some v \<Longrightarrow> (k, v) \<in> set m"
  by (simp add: gm_get_def map_of_SomeD)

lemma gm_dom: "gm_get m k \<noteq> None \<longleftrightarrow> k \<in> fst ` set m"
  by (simp add: gm_get_def map_of_eq_None_iff)

lemma gm_set_keys: "fst ` set (gm_set k v m) = insert k (fst ` set m)"
  by (simp add: gm_set_def dom_update)

lemma gm_length_set:
  "length (gm_set k v m) = (if gm_get m k = None then Suc (length m) else length m)"
  by (induction m) (auto simp: gm_set_def gm_get_def)

lemma set_gm_del: "set (gm_del k m) = {p \<in> set m. fst p \<noteq> k}"
  by (auto simp: gm_del_def)

lemma set_gm_set: "gm_ok m \<Longrightarrow> set (gm_set k v m) = insert (k, v) {p \<in> set m. fst p \<noteq> k}"
  by (induction m) (auto simp: gm_set_def gm_ok_def rev_image_eqI)

lemma set_gm_set_fresh: "gm_get m k = None \<Longrightarrow> set (gm_set k v m) = insert (k, v) (set m)"
  by (induction m) (auto simp: gm_set_def gm_get_def split: if_splits)

lemma gm_length_del_le: "length (gm_del k m) \<le> length m"
  by (simp add: gm_del_def)

lemma gm_length_del:
  "gm_ok m \<Longrightarrow> gm_get m k = Some v \<Longrightarrow> length m = Suc (length (gm_del k m))"
proof (induction m)
  case (Cons p m)
  show ?case
  proof (cases "fst p = k")
    case True
    with Cons.prems have "k \<notin> fst ` set m" by (auto simp: gm_ok_def)
    then have "gm_del k m = m" unfolding gm_del_def by (auto intro!: filter_True)
    with True show ?thesis by (simp add: gm_del_def)
  next
    case False
    with Cons show ?thesis by (auto simp: gm_ok_def gm_get_def gm_del_def)
  qed
qed simp

lemma gm_length_dom: "gm_ok m \<Longrightarrow> length m = card (fst ` set m)"
  by (metis gm_ok_def distinct_card length_map set_map)

section \<open>64-bit integers, instants and durations\<close>

type_synonym go_time = int
type_synonym duration = int

definition wrap64 :: "int \<Rightarrow> int" where
  "wrap64 x = (x + 2 ^ 63) mod 2 ^ 64 - 2 ^ 63"

definition sat64 :: "int \<Rightarrow> int" where
  "sat64 x = (if x > 2 ^ 63 - 1 then 2 ^ 63 - 1 else if x < - (2 ^ 63) then - (2 ^ 63) else x)"

definition in64 :: "int \<Rightarrow> bool" where
  "in64 x \<longleftrightarrow> - (2 ^ 63) \<le> x \<and> x < 2 ^ 63"

lemma wrap64_in64 [simp, intro]: "in64 (wrap64 x)"
proof -
  have "0 \<le> (x + 2 ^ 63) mod 2 ^ 64" "(x + 2 ^ 63) mod 2 ^ 64 < (2 ^ 64 :: int)"
    by (simp_all del: power_numeral)
  then show ?thesis by (simp add: in64_def wrap64_def)
qed

lemma wrap64_id [simp]: "in64 x \<Longrightarrow> wrap64 x = x"
  by (simp add: in64_def wrap64_def)

lemma wrap64_signed_word: "wrap64 x = sint (word_of_int x :: 64 word)"
  by (simp add: wrap64_def sint_sbintrunc' signed_take_bit_eq_take_bit_shift take_bit_eq_mod ac_simps)

lemma sat64_in64 [simp, intro]: "in64 (sat64 x)"
  by (simp add: in64_def sat64_def)

lemma sat64_id [simp]: "in64 x \<Longrightarrow> sat64 x = x"
  by (simp add: in64_def sat64_def)

definition nanosecond :: duration where "nanosecond = 1"
definition millisecond :: duration where "millisecond = 1000000"
definition second :: duration where "second = 1000000000"
definition minute :: duration where "minute = 60 * second"
definition hour :: duration where "hour = 60 * minute"

text \<open>The zero \<open>time.Time\<close> is midnight of 1 January of year 1.\<close>
definition zero_time :: go_time where
  "zero_time = - 62135596800 * second"

definition is_zero :: "go_time \<Rightarrow> bool" where
  "is_zero t \<longleftrightarrow> t = zero_time"

text \<open>\<open>Time.Sub\<close> saturates at the ends of the 64-bit range.\<close>
definition time_sub :: "go_time \<Rightarrow> go_time \<Rightarrow> duration" where
  "time_sub a b = sat64 (a - b)"

lemmas duration_defs = nanosecond_def millisecond_def second_def minute_def hour_def

section \<open>Strings\<close>

text \<open>
  Go strings are byte strings. The letter and digit tests act on ASCII bytes; white space is Unicode's
  (\<open>unicode.IsSpace\<close>) in its UTF-8 encoding: six ASCII bytes, two runes of two bytes and
  seventeen of three.
\<close>

definition is_space :: "char \<Rightarrow> bool" where
  "is_space c \<longleftrightarrow> (let n = of_char c :: nat in n = 32 \<or> (9 \<le> n \<and> n \<le> 13))"

definition is_digit :: "char \<Rightarrow> bool" where
  "is_digit c \<longleftrightarrow> (let n = of_char c :: nat in 48 \<le> n \<and> n \<le> 57)"

definition is_lower :: "char \<Rightarrow> bool" where
  "is_lower c \<longleftrightarrow> (let n = of_char c :: nat in 97 \<le> n \<and> n \<le> 122)"

definition is_upper :: "char \<Rightarrow> bool" where
  "is_upper c \<longleftrightarrow> (let n = of_char c :: nat in 65 \<le> n \<and> n \<le> 90)"

definition lower_char :: "char \<Rightarrow> char" where
  "lower_char c = (if is_upper c then char_of (of_char c + 32 :: nat) else c)"

definition upper_char :: "char \<Rightarrow> char" where
  "upper_char c = (if is_lower c then char_of (of_char c - 32 :: nat) else c)"

definition to_lower :: "string \<Rightarrow> string" where "to_lower s = map lower_char s"
definition to_upper :: "string \<Rightarrow> string" where "to_upper s = map upper_char s"

definition wide_space :: "string \<Rightarrow> bool" where
  "wide_space u \<longleftrightarrow> u \<in> set [[CHR 0xC2, CHR 0x85], [CHR 0xC2, CHR 0xA0], [CHR 0xE1, CHR 0x9A, CHR 0x80],
     [CHR 0xE2, CHR 0x80, CHR 0x80], [CHR 0xE2, CHR 0x80, CHR 0x81], [CHR 0xE2, CHR 0x80, CHR 0x82], [CHR 0xE2, CHR 0x80, CHR 0x83],
     [CHR 0xE2, CHR 0x80, CHR 0x84], [CHR 0xE2, CHR 0x80, CHR 0x85], [CHR 0xE2, CHR 0x80, CHR 0x86], [CHR 0xE2, CHR 0x80, CHR 0x87],
     [CHR 0xE2, CHR 0x80, CHR 0x88], [CHR 0xE2, CHR 0x80, CHR 0x89], [CHR 0xE2, CHR 0x80, CHR 0x8A], [CHR 0xE2, CHR 0x80, CHR 0xA8],
     [CHR 0xE2, CHR 0x80, CHR 0xA9], [CHR 0xE2, CHR 0x80, CHR 0xAF], [CHR 0xE2, CHR 0x81, CHR 0x9F], [CHR 0xE3, CHR 0x80, CHR 0x80]]"

text \<open>The length of the white space rune a text begins with, and (over the reversed text) the one it ends with; 0 when there is none.\<close>

definition space_front :: "string \<Rightarrow> nat" where
  "space_front s = (if s = [] then 0 else if is_space (hd s) then 1
     else if wide_space (take 2 s) then 2 else if wide_space (take 3 s) then 3 else 0)"

definition space_rear :: "string \<Rightarrow> nat" where
  "space_rear r = (if r = [] then 0 else if is_space (hd r) then 1
     else if wide_space (rev (take 2 r)) then 2 else if wide_space (rev (take 3 r)) then 3 else 0)"

function strip :: "(string \<Rightarrow> nat) \<Rightarrow> string \<Rightarrow> string" where
  "strip f s = (if s = [] \<or> f s = 0 then s else strip f (drop (f s) s))"
  by pat_completeness auto
termination by (relation "measure (\<lambda>(f, s). length s)") auto

declare strip.simps [simp del]

text \<open>\<open>strings.TrimSpace\<close>: the runes are decoded from the front, then from the rear.\<close>
definition trim_space :: "string \<Rightarrow> string" where
  "trim_space s = rev (strip space_rear (rev (strip space_front s)))"

definition nul :: string where "nul = [CHR 0x00]"

lemmas trim_eval = trim_space_def strip.simps space_front_def space_rear_def wide_space_def is_space_def

lemma space_none [simp]: "space_front [] = 0" "space_rear [] = 0"
  by (simp_all add: space_front_def space_rear_def)

lemma strip_Nil [simp]: "strip f [] = []"
  by (simp add: strip.simps)

lemma strip_stops: "f [] = 0 \<Longrightarrow> f (strip f s) = 0"
proof (induction f s rule: strip.induct)
  case (1 f s)
  then show ?case by (cases "s = [] \<or> f s = 0") (auto simp: strip.simps [of f s])
qed

lemma strip_id: "f s = 0 \<Longrightarrow> strip f s = s"
  by (simp add: strip.simps)

lemma strip_suffix: "\<exists>xs. s = xs @ strip f s"
proof (induction f s rule: strip.induct)
  case (1 f s)
  show ?case
  proof (cases "s = [] \<or> f s = 0")
    case False
    obtain xs where "drop (f s) s = xs @ strip f (drop (f s) s)" using 1 [OF False] by (elim exE)
    then have "s = (take (f s) s @ xs) @ strip f s" using False by (metis append.assoc append_take_drop_id strip.simps)
    then show ?thesis by (rule exI)
  qed (simp add: strip.simps)
qed

lemma wide_length: "wide_space u \<Longrightarrow> length u = 2 \<or> length u = 3"
  by (auto simp: wide_space_def)

text \<open>The bytes of a wide rune: the first is no continuation byte, the others are.\<close>

definition continuation :: "char \<Rightarrow> bool" where
  "continuation c \<longleftrightarrow> (let n = of_char c :: nat in 128 \<le> n \<and> n < 192)"

definition plain :: "char \<Rightarrow> bool" where
  "plain c \<longleftrightarrow> \<not> is_space c \<and> (of_char c :: nat) < 128"

lemma wide_bytes: "wide_space (c # u) \<Longrightarrow> 192 \<le> (of_char c :: nat) \<and> list_all continuation u \<and> u \<noteq> []"
  unfolding wide_space_def by (auto simp: continuation_def)

lemma wide_plain: "wide_space u \<Longrightarrow> c \<in> set u \<Longrightarrow> \<not> plain c"
  using wide_bytes [of "hd u" "tl u"]
  by (cases u) (auto simp: plain_def continuation_def list_all_iff Let_def)

lemma continuation_not_space: "continuation c \<Longrightarrow> \<not> is_space c"
  by (auto simp: continuation_def is_space_def Let_def)

lemma space_front_plain: "plain c \<Longrightarrow> space_front (c # s) = 0"
  using wide_plain [of "take 2 (c # s)" c] wide_plain [of "take 3 (c # s)" c] by (auto simp: space_front_def plain_def)

lemma space_rear_plain: "plain c \<Longrightarrow> space_rear (c # s) = 0"
  using wide_plain [of "rev (take 2 (c # s))" c] wide_plain [of "rev (take 3 (c # s))" c] by (auto simp: space_rear_def plain_def)

lemma wide_take: "wide_space (take n s) \<Longrightarrow> length s < n \<Longrightarrow> n = 2 \<or> n = 3 \<Longrightarrow> wide_space (take 2 s) \<and> length s = 2 \<and> n = 3"
  using wide_length [of s] by auto

lemma wide_head: "wide_space u \<Longrightarrow> length u = 2 \<longleftrightarrow> hd u = CHR 0xC2"
  by (auto simp: wide_space_def)

lemma wide_front: "wide_space u \<Longrightarrow> space_front u = length u \<and> u \<noteq> [] \<and> \<not> continuation (hd u)"
proof -
  assume u: "wide_space u"
  then obtain c w where c: "u = c # w" using wide_length [of u] by (cases u) auto
  have n: "192 \<le> (of_char c :: nat)" using wide_bytes u c by blast
  have "\<not> wide_space (take 2 u)" if "length u = 3"
    using wide_head [OF u] wide_head [of "take 2 u"] that c by auto
  then show ?thesis using u n c wide_length [OF u] by (auto simp: space_front_def is_space_def continuation_def Let_def)
qed

lemma space_front_le: "space_front s \<le> length s"
proof -
  have "n \<le> length s" if "wide_space (take n s)" "n = 2 \<or> n = 3" "\<not> wide_space (take 2 s) \<or> n = 2" for n
    using wide_take [OF that(1) _ that(2)] that(2,3) by (cases "length s < n") auto
  from this [of 2] this [of 3] show ?thesis by (cases s) (simp_all add: space_front_def)
qed

text \<open>A text that ends in white space ends in a rune that the scan from the front reads as white space too.\<close>
lemma space_rear_rune:
  assumes "space_rear r \<noteq> 0"
  shows "\<exists>u. rev r = rev (drop (space_rear r) r) @ u \<and> u \<noteq> [] \<and> \<not> continuation (hd u) \<and> space_front u = length u"
proof -
  have split: "rev r = rev (drop n r) @ rev (take n r)" for n by (metis append_take_drop_id rev_append)
  have wide: ?thesis if "wide_space (rev (take n r))" "space_rear r = n" for n
    using wide_front [OF that(1)] split [of n] that(2) by blast
  have ascii: ?thesis if "r \<noteq> []" "is_space (hd r)"
    using that split [of 1] continuation_not_space by (intro exI [of _ "[hd r]"]) (cases r, auto simp: space_rear_def space_front_def)
  show ?thesis using assms wide [of 2] wide [of 3] ascii by (auto simp: space_rear_def split: if_splits)
qed

lemma trim_space_Nil [simp]: "trim_space [] = []"
  by (simp add: trim_space_def)

lemma space_front_prefix: "space_front (t @ s) = 0 \<Longrightarrow> space_front t = 0"
proof (rule ccontr)
  assume z: "space_front (t @ s) = 0" and n: "space_front t \<noteq> 0"
  then consider "t \<noteq> []" "is_space (hd t)" | k where "k = 2 \<or> k = 3" "wide_space (take k t)" "length t \<ge> k"
    using wide_take [of 2 t] wide_take [of 3 t] by (fastforce simp: space_front_def not_less split: if_splits)
  then show False using z by cases (auto simp: space_front_def split: if_splits)
qed

lemma trim_space_idem [simp]: "trim_space (trim_space s) = trim_space s"
proof -
  let ?l = "strip space_front s" and ?t = "trim_space s"
  obtain xs where "rev ?l = xs @ strip space_rear (rev ?l)" using strip_suffix by blast
  then have "rev (rev ?l) = ?t @ rev xs" unfolding trim_space_def by (metis rev_append)
  then have "space_front ?t = 0"
    using strip_stops [of space_front s] by (intro space_front_prefix [of ?t "rev xs"]) simp
  moreover have "space_rear (rev ?t) = 0" using strip_stops [of space_rear "rev ?l"] by (simp add: trim_space_def)
  ultimately show ?thesis by (metis rev_rev_ident strip_id trim_space_def)
qed

text \<open>A text whose first and last bytes are ASCII and no white space is left as it is.\<close>
lemma trim_plain: "s = '''' \<or> plain (hd s) \<and> plain (last s) \<Longrightarrow> trim_space s = s"
proof (cases s)
  case (Cons c cs)
  assume "s = '''' \<or> plain (hd s) \<and> plain (last s)"
  then have p: "plain c" "plain (last s)" using Cons by auto
  obtain r where "rev s = last s # r" using Cons by (metis append_butlast_last_id list.distinct(1) rev.simps(2) rev_rev_ident rev_swap)
  then have "space_rear (rev s) = 0" "space_front s = 0" using p Cons by (simp_all add: space_rear_plain space_front_plain)
  then show ?thesis by (simp add: trim_space_def strip_id)
qed simp

lemma trim_no_space: "list_all plain s \<Longrightarrow> trim_space s = s"
  by (cases s) (auto simp: list_all_iff intro: trim_plain)

lemma trim_not_Nil: "trim_space s \<noteq> '''' \<Longrightarrow> s \<noteq> ''''"
  by auto

lemma trim_space_space: "plain c \<Longrightarrow> plain (last (c # w)) \<Longrightarrow> is_space b \<Longrightarrow> trim_space (c # w @ [b]) = c # w"
proof -
  assume p: "plain c" "plain (last (c # w))" and b: "is_space b"
  have f: "strip space_front (c # w @ [b]) = c # w @ [b]" by (simp add: strip_id space_front_plain p)
  obtain d r where d: "rev (c # w) = d # r" "d = last (c # w)" by (metis list.collapse last_rev rev_is_Nil_conv rev_rev_ident list.distinct(1) hd_rev)
  have "strip space_rear (b # d # r) = d # r"
    using p(2) b d(2) by (subst strip.simps) (simp add: space_rear_def [of "b # _"] strip_id space_rear_plain)
  moreover have "rev (c # w @ [b]) = b # rev (c # w)" by simp
  ultimately show ?thesis unfolding trim_space_def f using d(1) by (metis rev_rev_ident)
qed

text \<open>A text without white space.\<close>

fun no_space :: "string \<Rightarrow> bool" where
  "no_space [] = True"
| "no_space (c # s) = (space_front (c # s) = 0 \<and> no_space s)"

lemma no_space_plain: "list_all plain s \<Longrightarrow> no_space s"
  by (induction s) (auto simp: space_front_plain)

lemma wide_append:
  assumes "t \<noteq> []" "wide_space (take n (t @ s))" "\<not> wide_space (take n t)" "n = 2 \<or> n = 3" "s \<noteq> []"
  shows "continuation (hd s)"
proof -
  have "length t < n" using assms(2,3) by (cases "length t < n") auto
  then obtain m where m: "n - length t = Suc m" by (metis Suc_diff_Suc)
  then have "take n (t @ s) = t @ hd s # take m (tl s)" using \<open>length t < n\<close> assms(5) by (cases s) auto
  moreover obtain c t' where "t = c # t'" using assms(1) by (cases t) auto
  ultimately show ?thesis using wide_bytes assms(2) by (simp add: list_all_iff)
qed

lemma space_front_append:
  assumes "t \<noteq> []" "s = [] \<or> \<not> continuation (hd s)"
  shows "space_front (t @ s) = space_front t"
proof (cases "s = []")
  case False
  have up: "wide_space (take n (t @ s)) \<Longrightarrow> wide_space (take n t)" if "n = 2 \<or> n = 3" for n
    using wide_append [OF assms(1) _ _ that False] assms(2) False by blast
  have down: "wide_space (take n (t @ s)) \<or> wide_space (take 2 t)" if "wide_space (take n t)" "n = 2 \<or> n = 3" for n
    using wide_take [OF that(1) _ that(2)] that by (cases "length t < n") auto
  show ?thesis using up [of 2] up [of 3] down [of 2] down [of 3] wide_take [of 2 t] assms(1)
    by (cases "length t < 2") (auto simp: space_front_def)
qed simp

lemma no_space_append: "no_space t \<Longrightarrow> no_space s \<Longrightarrow> s = [] \<or> \<not> continuation (hd s) \<Longrightarrow> no_space (t @ s)"
proof (induction t)
  case (Cons c t)
  then show ?case using space_front_append [of "c # t" s] by simp
qed simp

section \<open>Results\<close>

definition is_ok :: "'e + 'a \<Rightarrow> bool" where
  "is_ok r = (case r of Inl _ \<Rightarrow> False | Inr _ \<Rightarrow> True)"

lemma is_ok_simps [simp]: "is_ok (Inr x)" "\<not> is_ok (Inl e)"
  by (simp_all add: is_ok_def)

lemma is_ok_iff: "is_ok r \<longleftrightarrow> (\<exists>x. r = Inr x)"
  by (cases r) auto

definition bind_res :: "'e + 'a \<Rightarrow> ('a \<Rightarrow> 'e + 'b) \<Rightarrow> 'e + 'b" where
  "bind_res r f = (case r of Inl e \<Rightarrow> Inl e | Inr x \<Rightarrow> f x)"

lemma bind_res_simps [simp]: "bind_res (Inl e) f = Inl e" "bind_res (Inr x) f = f x"
  by (simp_all add: bind_res_def)

lemma bind_res_Inr: "bind_res r f = Inr y \<longleftrightarrow> (\<exists>x. r = Inr x \<and> f x = Inr y)"
  by (cases r) auto

section \<open>Lists\<close>

lemma take_length_less_iff: "length (take n xs) < length xs \<longleftrightarrow> n < length xs"
  by (simp add: min_def)

lemma sorted_wrt_take: "sorted_wrt P xs \<Longrightarrow> sorted_wrt P (take n xs)"
  by (metis append_take_drop_id sorted_wrt_append)

lemma distinct_map_fst_filter: "distinct (map f xs) \<Longrightarrow> distinct (map f (filter P xs))"
  by (rule distinct_map_filter)

section \<open>Decimal notation (strconv)\<close>

definition digit_char :: "nat \<Rightarrow> char" where
  "digit_char d = char_of (48 + d)"

fun format_nat :: "nat \<Rightarrow> string" where
  "format_nat n = (if n < 10 then [digit_char n] else format_nat (n div 10) @ [digit_char (n mod 10)])"

declare format_nat.simps [simp del]

definition format_int :: "int \<Rightarrow> string" where
  "format_int i = (if i < 0 then CHR ''-'' # format_nat (nat (- i)) else format_nat (nat i))"

definition parse_nat :: "string \<Rightarrow> nat" where
  "parse_nat s = foldl (\<lambda>acc c. 10 * acc + (of_char c - 48)) 0 s"

lemma of_char_digit [simp]: "d < 10 \<Longrightarrow> (of_char (digit_char d) :: nat) = 48 + d"
  by (simp add: digit_char_def of_char_of)

lemma is_digit_digit_char [simp]: "d < 10 \<Longrightarrow> is_digit (digit_char d)"
  by (simp add: is_digit_def Let_def)

lemma format_nat_digits: "\<forall>c\<in>set (format_nat n). is_digit c"
proof (induction n rule: format_nat.induct)
  case (1 n)
  then show ?case by (subst format_nat.simps) auto
qed

lemma format_nat_nonempty [simp]: "format_nat n \<noteq> []"
  by (subst format_nat.simps) simp

lemma parse_format_nat [simp]: "parse_nat (format_nat n) = n"
proof (induction n rule: format_nat.induct)
  case (1 n)
  then show ?case by (subst format_nat.simps) (auto simp: parse_nat_def)
qed

lemma format_nat_inject [simp]: "format_nat m = format_nat n \<longleftrightarrow> m = n"
  by (metis parse_format_nat)

lemma format_int_no_nul: "CHR 0x00 \<notin> set (format_int i)"
proof -
  have "CHR 0x00 \<notin> set (format_nat n)" for n
    using format_nat_digits [of n] by (auto simp: is_digit_def)
  then show ?thesis by (simp add: format_int_def)
qed

lemma minus_not_format_nat: "CHR ''-'' # s \<noteq> format_nat n"
proof
  assume "CHR ''-'' # s = format_nat n"
  then have "CHR ''-'' \<in> set (format_nat n)" by (metis list.set_intros(1))
  then have "is_digit CHR ''-''" using format_nat_digits by blast
  then show False by (simp add: is_digit_def)
qed

lemma format_int_inject [simp]: "format_int i = format_int j \<longleftrightarrow> i = j"
  using minus_not_format_nat by (auto simp: format_int_def) metis+

text \<open>A separator that the last part does not contain splits a string in one way.\<close>

lemma split_at_last:
  assumes "xs @ c # ys = xs' @ c # ys'" "c \<notin> set ys" "c \<notin> set ys'"
  shows "xs = xs' \<and> ys = ys'"
proof -
  have "takeWhile (\<lambda>x. x \<noteq> c) (rev (xs @ c # ys)) = rev ys"
    "takeWhile (\<lambda>x. x \<noteq> c) (rev (xs' @ c # ys')) = rev ys'"
    using assms(2,3) by (auto simp: takeWhile_append)
  then have "ys = ys'" using assms(1) by (metis rev_rev_ident)
  then show ?thesis using assms(1) by simp
qed

lemma split_at_first:
  assumes "xs @ c # ys = xs' @ c # ys'" "c \<notin> set xs" "c \<notin> set xs'"
  shows "xs = xs' \<and> ys = ys'"
proof -
  have "rev ys @ c # rev xs = rev ys' @ c # rev xs'"
    using arg_cong [OF assms(1), of rev] by simp
  from split_at_last [OF this] assms(2,3) show ?thesis by simp
qed

lemma int_div_bounds: "0 < (k::int) \<Longrightarrow> k * (x div k) \<le> x \<and> x < k * (x div k) + k"
proof -
  assume k: "0 < k"
  have "k * (x div k) + x mod k = x" by simp
  moreover have "0 \<le> x mod k" "x mod k < k" using k by simp_all
  ultimately show ?thesis by linarith
qed

lemma int_mult_le_iff: "0 < (k::int) \<Longrightarrow> m * k \<le> x \<longleftrightarrow> m \<le> x div k"
proof -
  assume k: "0 < k"
  have b: "k * (x div k) \<le> x" "x < k * (x div k) + k" using int_div_bounds [OF k, of x] by simp_all
  show ?thesis
  proof
    assume "m * k \<le> x"
    then have "k * m < k * (x div k + 1)" using b by (simp add: algebra_simps)
    then show "m \<le> x div k" using k by simp
  next
    assume "m \<le> x div k"
    then have "k * m \<le> k * (x div k)" using k by simp
    then have "k * m \<le> x" using b(1) by (rule order_trans)
    then show "m * k \<le> x" by (simp add: mult.commute)
  qed
qed

lemma int_succ_div: "0 < (k::int) \<Longrightarrow> (a + 1) div k = a div k + (if k dvd a + 1 then 1 else 0)"
proof -
  assume k: "0 < k"
  have b: "k * (a div k) \<le> a" "a < k * (a div k) + k" using int_div_bounds [OF k, of a] by simp_all
  show ?thesis
  proof (cases "k dvd a + 1")
    case True
    then obtain q where q: "a + 1 = k * q" by (elim dvdE)
    have "k * (a div k) < k * q" using b q by linarith
    then have "a div k < q" using k by simp
    moreover have "k * q \<le> k * (a div k) + k" using b q by linarith
    then have "k * q \<le> k * (a div k + 1)" by (simp add: distrib_left)
    then have "q \<le> a div k + 1" using k by simp
    ultimately have "q = a div k + 1" by simp
    then show ?thesis using True q k by simp
  next
    case False
    have "a + 1 \<noteq> k * (a div k) + k" using False by (metis dvd_add_triv_right_iff dvd_triv_left)
    then have "a + 1 = k * (a div k) + (a + 1 - k * (a div k))" "0 \<le> a + 1 - k * (a div k)"
      "a + 1 - k * (a div k) < k" using b by linarith+
    then have "(a + 1) div k = a div k" by (rule int_div_pos_eq)
    then show ?thesis using False by simp
  qed
qed

text \<open>\<open>strconv.Atoi\<close>: an optional sign, at least one digit, and a value that fits 64 bits.\<close>
definition atoi :: "string \<Rightarrow> int option" where
  "atoi s =
     (let (neg, ds) = (case s of c # cs \<Rightarrow> if c = CHR ''-'' then (True, cs)
                          else if c = CHR ''+'' then (False, cs) else (False, s)
                        | [] \<Rightarrow> (False, []));
          v = (if neg then - int (parse_nat ds) else int (parse_nat ds))
      in if ds = [] \<or> \<not> list_all is_digit ds \<or> \<not> in64 v then None else Some v)"

lemma atoi_in64: "atoi s = Some n \<Longrightarrow> in64 n"
  by (auto simp: atoi_def Let_def split: list.splits if_splits)

lemma digit_not_sign: "is_digit c \<Longrightarrow> c \<noteq> CHR ''-'' \<and> c \<noteq> CHR ''+''"
  by (auto simp: is_digit_def)

lemma atoi_format_nat: "int n < 2 ^ 63 \<Longrightarrow> atoi (format_nat n) = Some (int n)"
proof -
  assume n: "int n < 2 ^ 63"
  have d: "list_all is_digit (format_nat n)" using format_nat_digits by (simp add: list_all_iff)
  obtain c cs where f: "format_nat n = c # cs" by (cases "format_nat n") auto
  with d have "c \<noteq> CHR ''-''" "c \<noteq> CHR ''+''" using digit_not_sign by auto
  with f have "(case format_nat n of c # cs \<Rightarrow> if c = CHR ''-'' then (True, cs)
                          else if c = CHR ''+'' then (False, cs) else (False, format_nat n)
                        | [] \<Rightarrow> (False, [])) = (False, format_nat n)" by simp
  then show ?thesis unfolding atoi_def using d n by (simp add: in64_def)
qed

section \<open>Substrings\<close>

text \<open>\<open>strings.Contains\<close> and \<open>strings.ReplaceAll\<close> (for a pattern that is not empty).\<close>

definition has_prefix :: "string \<Rightarrow> string \<Rightarrow> bool" where
  "has_prefix s p \<longleftrightarrow> take (length p) s = p"

fun contains :: "string \<Rightarrow> string \<Rightarrow> bool" where
  "contains [] p = has_prefix [] p"
| "contains (c # s) p = (has_prefix (c # s) p \<or> contains s p)"

function replace_all :: "string \<Rightarrow> string \<Rightarrow> string \<Rightarrow> string" where
  "replace_all [] p r = []"
| "replace_all (c # s) p r =
     (if p \<noteq> [] \<and> has_prefix (c # s) p then r @ replace_all (drop (length p) (c # s)) p r
      else c # replace_all s p r)"
  by pat_completeness auto
termination by (relation "measure (\<lambda>(s, p, r). length s)") auto

lemma contains_iff: "contains s p \<longleftrightarrow> (\<exists>xs ys. s = xs @ p @ ys)"
proof (induction s)
  case (Cons c s)
  have "has_prefix (c # s) p \<longleftrightarrow> (\<exists>ys. c # s = p @ ys)"
    by (metis append_eq_conv_conj append_take_drop_id has_prefix_def)
  moreover have "(\<exists>xs ys. c # s = xs @ p @ ys) \<longleftrightarrow> (\<exists>ys. c # s = p @ ys) \<or> (\<exists>xs ys. s = xs @ p @ ys)"
    by (metis append_Cons append_Nil list.inject neq_Nil_conv)
  ultimately show ?case using Cons by simp
qed (auto simp: has_prefix_def)

lemma replace_all_absent: "\<not> contains s p \<Longrightarrow> replace_all s p r = s"
  by (induction s) auto

lemma set_replace_all: "set (replace_all s p r) \<subseteq> set s \<union> set r"
proof (induction s p r rule: replace_all.induct)
  case (2 c s p r)
  show ?case
  proof (cases "p \<noteq> [] \<and> has_prefix (c # s) p")
    case True
    then show ?thesis using 2(1) set_drop_subset [of "length p" "c # s"] by fastforce
  next
    case False
    then show ?thesis using 2(2) by auto
  qed
qed simp

section \<open>Division\<close>

text \<open>Go's integer division truncates towards zero.\<close>

definition go_div :: "int \<Rightarrow> int \<Rightarrow> int" where "go_div a b = sgn a * sgn b * (\<bar>a\<bar> div \<bar>b\<bar>)"
definition go_rem :: "int \<Rightarrow> int \<Rightarrow> int" where "go_rem a b = a - b * go_div a b"

lemma go_div_nonneg [simp]: "0 \<le> a \<Longrightarrow> 0 < b \<Longrightarrow> go_div a b = a div b"
  by (cases "a = 0") (auto simp: go_div_def)

lemma go_rem_nonneg [simp]: "0 \<le> a \<Longrightarrow> 0 < b \<Longrightarrow> go_rem a b = a mod b"
  by (simp add: go_rem_def minus_mult_div_eq_mod)

lemma go_rem_zero: "b \<noteq> 0 \<Longrightarrow> go_rem a b = 0 \<longleftrightarrow> b dvd a"
proof -
  have "b * go_div a b = sgn a * (\<bar>b\<bar> * (\<bar>a\<bar> div \<bar>b\<bar>))"
    by (simp add: go_div_def abs_sgn [of b] ac_simps)
  also have "\<bar>b\<bar> * (\<bar>a\<bar> div \<bar>b\<bar>) = \<bar>a\<bar>" if "b dvd a" using that by simp
  finally have "b dvd a \<Longrightarrow> b * go_div a b = a" by (simp add: sgn_mult_abs)
  moreover have "b dvd a" if "go_rem a b = 0"
  proof -
    from that have "a = b * go_div a b" by (simp add: go_rem_def)
    then show ?thesis by (rule dvdI)
  qed
  ultimately show ?thesis by (auto simp: go_rem_def)
qed

end
