(* ===== verification/Domain.thy ===== *)
theory Domain
  imports Prelude
begin

text \<open>
  \<open>internal/domain\<close>: the rows the control panel keeps and the strings their status columns
  hold, and the errors the components exchange. The string constants are abbreviations, so the
  simplifier compares the literals; a struct is a record, a \<open>*time.Time\<close> a
  \<open>go_time option\<close>, a JSON payload a byte string.
\<close>

section \<open>Errors\<close>

text \<open>The gRPC status codes the service uses, and Go errors as the callers can tell them
  apart: by \<open>errors.Is\<close> against a sentinel, by status code, or not at all.\<close>

datatype code =
    InvalidArgument | PermissionDenied | NotFound | FailedPrecondition | DeadlineExceeded
  | Unavailable | Unimplemented | Internal | AlreadyExists | ResourceExhausted | Unauthenticated
  | Aborted | Canceled | OutOfRange | DataLoss | Unknown

datatype sentinel =
    ErrNotFound | ErrConflict | ErrInvalidHello | ErrPermissionDenied | ErrReplay
  | ErrRuntimeAlreadyEnded | ErrRuntimeCredentialConnected | ErrRuntimeDataBackpressure
  | ErrUserNotFound | ErrPlanUnavailable | ErrInvalidArgument | ErrNoHealthyRuntime
  | ErrRuntimeNotReady | ErrQuotaExceeded | ErrForbidden | ErrEOF | ErrContextDone

datatype go_error =
    Sentinel sentinel string
  | Status code string
  | Plain string

type_synonym 'a result = "go_error + 'a"

primrec err_text :: "go_error \<Rightarrow> string" where
  "err_text (Sentinel s m) = m"
| "err_text (Status c m) = m"
| "err_text (Plain m) = m"

text \<open>Errors wrapped with \<open>%w\<close> before or after a text keep what callers ask of them.\<close>

primrec error_suffix :: "string \<Rightarrow> go_error \<Rightarrow> go_error" where
  "error_suffix t (Sentinel s m) = Sentinel s (m @ t)"
| "error_suffix t (Status c m) = Status c (m @ t)"
| "error_suffix t (Plain m) = Plain (m @ t)"

primrec error_prefix :: "string \<Rightarrow> go_error \<Rightarrow> go_error" where
  "error_prefix t (Sentinel s m) = Sentinel s (t @ m)"
| "error_prefix t (Status c m) = Status c (t @ m)"
| "error_prefix t (Plain m) = Plain (t @ m)"

definition errors_Is :: "go_error \<Rightarrow> sentinel \<Rightarrow> bool" where
  "errors_Is e s = (case e of Sentinel s' _ \<Rightarrow> s' = s | _ \<Rightarrow> False)"

definition status_Code :: "go_error \<Rightarrow> code" where
  "status_Code e = (case e of Status c _ \<Rightarrow> c | _ \<Rightarrow> Unknown)"

lemma errors_Is_simps [simp]:
  "errors_Is (Sentinel s m) s' \<longleftrightarrow> s = s'" "\<not> errors_Is (Status c m) s'" "\<not> errors_Is (Plain m) s'"
  by (auto simp: errors_Is_def)

lemma status_Code_simps [simp]:
  "status_Code (Status c m) = c" "status_Code (Sentinel s m) = Unknown" "status_Code (Plain m) = Unknown"
  by (simp_all add: status_Code_def)

section \<open>Runtimes\<close>

abbreviation RuntimeStatusStarting :: string where "RuntimeStatusStarting \<equiv> ''starting''"
abbreviation RuntimeStatusPaired :: string where "RuntimeStatusPaired \<equiv> ''paired''"
abbreviation RuntimeStatusActive :: string where "RuntimeStatusActive \<equiv> ''active''"
abbreviation RuntimeStatusUnhealthy :: string where "RuntimeStatusUnhealthy \<equiv> ''unhealthy''"
abbreviation RuntimeStatusHeartbeatStale :: string where "RuntimeStatusHeartbeatStale \<equiv> ''heartbeat_stale''"
abbreviation RuntimeStatusEnded :: string where "RuntimeStatusEnded \<equiv> ''ended''"
abbreviation RuntimeStatusCancelled :: string where "RuntimeStatusCancelled \<equiv> ''cancelled''"
abbreviation RuntimeStatusFailed :: string where "RuntimeStatusFailed \<equiv> ''failed''"

abbreviation ReasonUserCancelled :: string where "ReasonUserCancelled \<equiv> ''user_cancelled''"
abbreviation ReasonRuntimeExited :: string where "ReasonRuntimeExited \<equiv> ''runtime_exited''"
abbreviation ReasonHeartbeatStale :: string where "ReasonHeartbeatStale \<equiv> ''heartbeat_stale''"
abbreviation ReasonProvisionFailed :: string where "ReasonProvisionFailed \<equiv> ''provision_failed''"
abbreviation ReasonAuthFailed :: string where "ReasonAuthFailed \<equiv> ''auth_failed''"
abbreviation ReasonControlPanelShutdown :: string where "ReasonControlPanelShutdown \<equiv> ''control_panel_shutdown''"

abbreviation CleanupSucceeded :: string where "CleanupSucceeded \<equiv> ''succeeded''"
abbreviation CleanupFailed :: string where "CleanupFailed \<equiv> ''failed''"
abbreviation CleanupUserOwned :: string where "CleanupUserOwned \<equiv> ''user_owned''"

abbreviation SourceHosted :: string where "SourceHosted \<equiv> ''hosted''"
abbreviation SourceSelfHosted :: string where "SourceSelfHosted \<equiv> ''self_hosted''"
abbreviation SourceBare :: string where "SourceBare \<equiv> ''bare''"

abbreviation RoleExecutor :: string where "RoleExecutor \<equiv> ''executor''"
abbreviation RoleDebugger :: string where "RoleDebugger \<equiv> ''debugger''"

definition IsRuntimeTerminalStatus :: "string \<Rightarrow> bool" where
  "IsRuntimeTerminalStatus status \<longleftrightarrow>
     status = RuntimeStatusHeartbeatStale \<or> status = RuntimeStatusEnded \<or>
     status = RuntimeStatusCancelled \<or> status = RuntimeStatusFailed"

definition RuntimeTerminalStatusForReason :: "string \<Rightarrow> string" where
  "RuntimeTerminalStatusForReason reason =
     (if reason = ReasonUserCancelled then RuntimeStatusCancelled
      else if reason = ReasonHeartbeatStale then RuntimeStatusHeartbeatStale
      else if reason = ReasonAuthFailed \<or> reason = ReasonProvisionFailed then RuntimeStatusFailed
      else RuntimeStatusEnded)"

lemma terminal_for_reason [simp]: "IsRuntimeTerminalStatus (RuntimeTerminalStatusForReason r)"
  by (simp add: IsRuntimeTerminalStatus_def RuntimeTerminalStatusForReason_def)

lemma not_terminal [simp]:
  "\<not> IsRuntimeTerminalStatus RuntimeStatusStarting" "\<not> IsRuntimeTerminalStatus RuntimeStatusActive"
  "\<not> IsRuntimeTerminalStatus RuntimeStatusUnhealthy" "\<not> IsRuntimeTerminalStatus RuntimeStatusPaired"
  by (simp_all add: IsRuntimeTerminalStatus_def)

record debug_workspace =
  dw_host_path :: string
  dw_container_path :: string
  dw_template_path :: string
  dw_archived_template_path :: string
  dw_vscode_launch_created :: bool
  dw_vscode_launch_preserved :: bool
  dw_pycharm_doc_created :: bool
  dw_pycharm_doc_preserved :: bool
  dw_prepared_at :: "go_time option"
  dw_last_error :: string

record debug_dataset =
  dd_dataset_id :: string
  dd_user_id :: int
  dd_portfolio_id :: int
  dd_runtime_id :: string
  dd_market :: string
  dd_symbol :: string
  dd_interval :: string
  dd_start_at :: go_time
  dd_end_at :: go_time
  dd_bar_count :: int
  dd_coverage_status :: string
  dd_loaded_at :: go_time
  dd_state :: string
  dd_last_error :: string

record runtime =
  RuntimeID :: string
  CredentialKeyID :: string
  UserID :: int
  Name :: string
  Source :: string
  Role :: string
  EndpointHost :: string
  GRPCPort :: int
  DebugPort :: int
  Capabilities :: "string list"
  ResourceProfile :: string
  Version :: string
  RtStatus :: string
  TokenHash :: string
  PairedAt :: "go_time option"
  StartedAt :: "go_time option"
  EndedAt :: "go_time option"
  EndedReason :: string
  CleanupStatus :: string
  CleanupReason :: string
  CleanupAt :: "go_time option"
  HeartbeatAt :: "go_time option"
  OwnerInstanceID :: string
  OwnerAcquiredAt :: "go_time option"
  OwnerHeartbeatAt :: "go_time option"
  DebugWorkspace :: debug_workspace
  DebugDataset :: "debug_dataset option"
  CreatedAt :: go_time
  UpdatedAt :: go_time

record runtime_usage =
  UsageHosted :: int
  UsageSelfHosted :: int
  UsageBare :: int

record channel_lease =
  cl_runtime_id :: string
  cl_user_id :: int
  cl_key_id :: string
  cl_hash :: string
  cl_issued_at :: go_time
  cl_expires_at :: go_time
  cl_last_used_at :: "go_time option"
  cl_revoked_at :: "go_time option"
  cl_created_at :: go_time
  cl_updated_at :: go_time

record admission_failure =
  af_id :: int
  af_user_id :: int
  af_key_id :: string
  af_requested_runtime_id :: string
  af_requested_name :: string
  af_source :: string
  af_role :: string
  af_code :: string
  af_reason :: string
  af_consumed_runtime_id :: string
  af_first_seen_at :: go_time
  af_last_seen_at :: go_time
  af_attempt_count :: int

section \<open>Runtime commands\<close>

abbreviation CmdQueued :: string where "CmdQueued \<equiv> ''queued''"
abbreviation CmdSent :: string where "CmdSent \<equiv> ''sent''"
abbreviation CmdAcked :: string where "CmdAcked \<equiv> ''acked''"
abbreviation CmdRunning :: string where "CmdRunning \<equiv> ''running''"
abbreviation CmdSucceeded :: string where "CmdSucceeded \<equiv> ''succeeded''"
abbreviation CmdFailed :: string where "CmdFailed \<equiv> ''failed''"
abbreviation CmdTimedOut :: string where "CmdTimedOut \<equiv> ''timed_out''"
abbreviation CmdCancelled :: string where "CmdCancelled \<equiv> ''cancelled''"

record runtime_command =
  CommandID :: string
  CmdUserID :: int
  CmdRuntimeID :: string
  SessionID :: string
  IdempotencyKey :: string
  CommandType :: string
  CmdStatus :: string
  DeadlineAt :: go_time
  SentAt :: "go_time option"
  AckedAt :: "go_time option"
  CmdStartedAt :: "go_time option"
  CompletedAt :: "go_time option"
  CancelledAt :: "go_time option"
  AttemptCount :: int
  Payload :: string
  CmdResult :: string
  FailureReason :: string
  CmdCreatedAt :: go_time
  CmdUpdatedAt :: go_time

definition IsRuntimeCommandInFlightStatus :: "string \<Rightarrow> bool" where
  "IsRuntimeCommandInFlightStatus s \<longleftrightarrow> s = CmdSent \<or> s = CmdAcked \<or> s = CmdRunning"

definition IsRuntimeCommandTerminalStatus :: "string \<Rightarrow> bool" where
  "IsRuntimeCommandTerminalStatus s \<longleftrightarrow>
     s = CmdSucceeded \<or> s = CmdFailed \<or> s = CmdTimedOut \<or> s = CmdCancelled"

section \<open>Credentials\<close>

abbreviation CredActive :: string where "CredActive \<equiv> ''active''"
abbreviation CredDownloaded :: string where "CredDownloaded \<equiv> ''downloaded''"
abbreviation CredConsumed :: string where "CredConsumed \<equiv> ''consumed''"
abbreviation CredRevoked :: string where "CredRevoked \<equiv> ''revoked''"
abbreviation CredExpired :: string where "CredExpired \<equiv> ''expired''"

abbreviation IssuerUser :: string where "IssuerUser \<equiv> ''user''"
abbreviation IssuerHostedInternal :: string where "IssuerHostedInternal \<equiv> ''hosted_internal''"
abbreviation IssuerBareDebug :: string where "IssuerBareDebug \<equiv> ''bare_debug''"

record credential =
  KeyID :: string
  CredUserID :: int
  Label :: string
  CredRole :: string
  PublicKeyPEM :: string
  CredStatus :: string
  CredCreatedAt :: go_time
  DownloadedAt :: "go_time option"
  ConsumedAt :: "go_time option"
  ConsumedRuntimeID :: string
  ExpiresAt :: "go_time option"
  LastUsedAt :: "go_time option"
  RevokedAt :: "go_time option"
  HostedInternal :: bool
  ClientCertPEM :: string
  ClientCertFingerprint :: string
  ClientCertExpiresAt :: "go_time option"
  Issuer :: string

end
