(* ===== verification/Frames.thy ===== *)
theory Frames
  imports Domain
begin

text \<open>
  The messages of the RuntimeChannel stream (\<open>RuntimeFrame\<close> and its payloads), as the
  handlers of \<open>internal/runtimechannel\<close> read them, and the two translations between status
  codes and the error frames. A \<open>oneof\<close> payload is a datatype; a getter of another case, or
  of a nil message, yields \<open>None\<close>.
\<close>

datatype frame_type =
    FT_UNSPECIFIED | FT_HELLO | FT_REQUEST | FT_RESPONSE | FT_PROGRESS | FT_ABORT | FT_HEARTBEAT
  | FT_ERROR | FT_COMMAND | FT_COMMAND_ACK | FT_COMMAND_RESULT | FT_STATUS_PATCH | FT_SHUTDOWN
  | FT_DATASET_CHUNK | FT_LIVE_KLINE_BATCH | FT_DATA_ACK | FT_DATA_BACKPRESSURE | FT_DATA_END
  | FT_HELLO_ACK | FT_RESUME | FT_HEARTBEAT_ACK | FT_ORDER_UPDATE_BATCH

record any_msg =
  type_url :: string
  any_value :: string

record runtime_hello =
  h_key_id :: string
  h_runtime_id :: string
  h_name :: string
  h_endpoint_host :: string
  h_grpc_port :: int
  h_debug_port :: int
  h_capabilities :: "string list"
  h_resource_profile :: string
  h_version :: string
  h_issued_at_unix_ms :: int
  h_nonce :: string
  h_signature :: string
  h_source :: string
  h_user_id :: int

record runtime_resume =
  rs_runtime_id :: string
  rs_resume_token :: string
  rs_fingerprint :: string

record hello_ack =
  ha_runtime_id :: string
  ha_resume_token :: string
  ha_resume_expires_at :: go_time
  ha_fingerprint :: string
  ha_fingerprint_expires_at :: go_time

record status_patch =
  sp_runtime_id :: string
  sp_session_id :: string
  sp_status :: string
  sp_reason :: string
  sp_payload :: "any_msg option"

text \<open>\<open>StrategyResponse\<close> and \<open>RuntimeCommandResult\<close> carry an \<open>Any\<close> that may be nil.\<close>

datatype payload =
    NoPayload
  | P_Hello runtime_hello
  | P_Resume runtime_resume
  | P_HelloAck hello_ack
  | P_Heartbeat (hb_fingerprint: string)
  | P_HeartbeatAck string string go_time
  | P_Request (rq_method: string) (rq_request: "any_msg option")
  | P_Response "any_msg option"
  | P_Progress
  | P_Abort string
  | P_Error string string
  | P_Command string string string string any_msg
  | P_CommandAck (ack_command_id: string) (ack_status: string)
  | P_CommandResult (res_command_id: string) (res_status: string) (res_result: "any_msg option")
      (res_failure_reason: string)
  | P_StatusPatch status_patch
  | P_Shutdown string int
  | P_DatasetChunk string string int string bool
  | P_LiveKlineBatch string string int "any_msg list"
  | P_DataAck string string int
  | P_DataBackpressure string string int string
  | P_DataEnd string string string
  | P_OrderUpdateBatch string string int "any_msg list"

record runtime_frame =
  correlation_id :: string
  frame_type :: frame_type
  deadline_unix_ms :: int
  payload :: payload

record auth_runtime =
  ar_KeyID :: string
  ar_UserID :: int
  ar_RuntimeID :: string
  ar_Name :: string
  ar_Source :: string
  ar_Role :: string
  ar_EndpointHost :: string
  ar_GRPCPort :: int
  ar_DebugPort :: int
  ar_Capabilities :: "string list"
  ar_ResourceProfile :: string
  ar_Version :: string
  ar_AuthenticatedAt :: go_time

section \<open>Reading a frame\<close>

text \<open>\<open>frameCorrelationID\<close>: commands may be correlated by their command id only.\<close>
definition frameCorrelationID :: "runtime_frame option \<Rightarrow> string" where
  "frameCorrelationID f = (case f of None \<Rightarrow> '''' | Some fr \<Rightarrow>
     if correlation_id fr \<noteq> '''' then correlation_id fr
     else (case (frame_type fr, payload fr) of
         (FT_COMMAND_ACK, P_CommandAck cid _) \<Rightarrow> cid
       | (FT_COMMAND_RESULT, P_CommandResult cid _ _ _) \<Rightarrow> cid
       | _ \<Rightarrow> ''''))"

text \<open>\<open>runtimeFrameIsControl\<close>: the frame types that overtake data.\<close>
fun runtimeFrameIsControl :: "frame_type \<Rightarrow> bool" where
  "runtimeFrameIsControl FT_HELLO = True"
| "runtimeFrameIsControl FT_HEARTBEAT = True"
| "runtimeFrameIsControl FT_ABORT = True"
| "runtimeFrameIsControl FT_ERROR = True"
| "runtimeFrameIsControl FT_COMMAND = True"
| "runtimeFrameIsControl FT_COMMAND_ACK = True"
| "runtimeFrameIsControl FT_COMMAND_RESULT = True"
| "runtimeFrameIsControl FT_STATUS_PATCH = True"
| "runtimeFrameIsControl FT_SHUTDOWN = True"
| "runtimeFrameIsControl _ = False"

section \<open>Error frames\<close>

fun grpcCodeName :: "code \<Rightarrow> string" where
  "grpcCodeName InvalidArgument = ''InvalidArgument''"
| "grpcCodeName PermissionDenied = ''PermissionDenied''"
| "grpcCodeName NotFound = ''NotFound''"
| "grpcCodeName FailedPrecondition = ''FailedPrecondition''"
| "grpcCodeName DeadlineExceeded = ''DeadlineExceeded''"
| "grpcCodeName Unavailable = ''Unavailable''"
| "grpcCodeName Unimplemented = ''Unimplemented''"
| "grpcCodeName _ = ''Internal''"

definition streamErrorToStatus :: "(string \<times> string) option \<Rightarrow> go_error" where
  "streamErrorToStatus e = (case e of
     None \<Rightarrow> Status Internal ''runtime returned empty error frame''
   | Some (c, m) \<Rightarrow> Status
       (if c = ''InvalidArgument'' then InvalidArgument
        else if c = ''PermissionDenied'' then PermissionDenied
        else if c = ''NotFound'' then NotFound
        else if c = ''FailedPrecondition'' then FailedPrecondition
        else if c = ''DeadlineExceeded'' then DeadlineExceeded
        else if c = ''Unavailable'' then Unavailable
        else if c = ''Unimplemented'' then Unimplemented
        else Internal) m)"

text \<open>\<open>status.FromError\<close> recognises a status error; every other error is not one.\<close>
definition runtimeRequestErrorFrame :: "string \<Rightarrow> go_error option \<Rightarrow> runtime_frame" where
  "runtimeRequestErrorFrame cid err =
     (let (c, m) = (case err of
          None \<Rightarrow> (Internal, ''internal runtime platform proxy error'')
        | Some (Status c m) \<Rightarrow> (c, m)
        | Some e \<Rightarrow> (Internal, err_text e))
      in \<lparr>correlation_id = cid, frame_type = FT_ERROR, deadline_unix_ms = 0,
          payload = P_Error (grpcCodeName c) m\<rparr>)"

text \<open>The codes that survive the round trip through an error frame; the others become \<open>Internal\<close>.\<close>
definition portable_code :: "code \<Rightarrow> bool" where
  "portable_code c \<longleftrightarrow> c \<in> {InvalidArgument, PermissionDenied, NotFound, FailedPrecondition,
     DeadlineExceeded, Unavailable, Unimplemented, Internal}"

lemma error_code_roundtrip:
  "streamErrorToStatus (Some (grpcCodeName c, m)) = Status (if portable_code c then c else Internal) m"
  by (cases c) (simp_all add: streamErrorToStatus_def portable_code_def)

end
