(* ===== verification/ReplayCache.thy ===== *)
theory ReplayCache
  imports Prelude
begin

text \<open>
  \<open>internal/runtimechannel/replay.go\<close>: the cache of (key, nonce) pairs that makes a HELLO
  usable once. A \<open>ReplayCache\<close> is the record \<open>replay_cache\<close>; its map \<open>seen\<close> is
  a Go map and its \<open>order\<close> the slice of entries, oldest first. The mutex is held for the
  whole of \<open>CheckAndStore\<close>, so a call is one step.
\<close>

section \<open>The cache\<close>

record replay_entry =
  re_key :: string
  re_expires :: go_time

record replay_cache =
  rc_ttl :: duration
  rc_max :: int
  rc_seen :: "(string, go_time) gomap"
  rc_order :: "replay_entry list"

text \<open>\<open>replayTTL\<close> of auth.go.\<close>
definition replay_ttl :: duration where
  "replay_ttl = 30 * minute"

definition NewReplayCache :: "duration \<Rightarrow> int \<Rightarrow> replay_cache" where
  "NewReplayCache ttl maxSize =
     \<lparr>rc_ttl = (if ttl \<le> 0 then replay_ttl else ttl),
      rc_max = (if maxSize \<le> 0 then 4096 else maxSize),
      rc_seen = [], rc_order = []\<rparr>"

definition drop_seen :: "replay_entry \<Rightarrow> (string, go_time) gomap \<Rightarrow> (string, go_time) gomap" where
  "drop_seen e m = (if gm_get m (re_key e) = Some (re_expires e) then gm_del (re_key e) m else m)"

fun prune_loop :: "go_time \<Rightarrow> replay_entry list \<Rightarrow> (string, go_time) gomap
    \<Rightarrow> replay_entry list \<times> (string, go_time) gomap" where
  "prune_loop now [] m = ([], m)"
| "prune_loop now (e # es) m =
     (if now < re_expires e
      then (let (kept, m') = prune_loop now es m in (e # kept, m'))
      else prune_loop now es (drop_seen e m))"

definition pruneLocked :: "go_time \<Rightarrow> replay_cache \<Rightarrow> replay_cache" where
  "pruneLocked now c =
     (let (order, seen) = prune_loop now (rc_order c) (rc_seen c)
      in c\<lparr>rc_order := order, rc_seen := seen\<rparr>)"

text \<open>The eviction loop: while the map is too large, drop the oldest entry.\<close>
fun evict_loop :: "int \<Rightarrow> replay_entry list \<Rightarrow> (string, go_time) gomap
    \<Rightarrow> replay_entry list \<times> (string, go_time) gomap" where
  "evict_loop mx [] m = ([], m)"
| "evict_loop mx (e # es) m =
     (if int (length m) > mx then evict_loop mx es (drop_seen e m) else (e # es, m))"

definition replay_key :: "string \<Rightarrow> string \<Rightarrow> string" where
  "replay_key keyID nonce = keyID @ nul @ nonce"

definition CheckAndStore :: "replay_cache \<Rightarrow> string \<Rightarrow> string \<Rightarrow> go_time \<Rightarrow> bool \<times> replay_cache" where
  "CheckAndStore c keyID nonce now =
     (let c1 = pruneLocked now c; k = replay_key keyID nonce in
      if (case gm_get (rc_seen c1) k of Some exp \<Rightarrow> now < exp | None \<Rightarrow> False)
      then (False, c1)
      else
        let exp = now + rc_ttl c1;
            (order, seen) = evict_loop (rc_max c1)
              (rc_order c1 @ [\<lparr>re_key = k, re_expires = exp\<rparr>]) (gm_set k exp (rc_seen c1))
        in (True, c1\<lparr>rc_order := order, rc_seen := seen\<rparr>))"

text \<open>A sequence of calls, as the HELLO handler makes them over time.\<close>
fun check_all :: "replay_cache \<Rightarrow> (string \<times> string \<times> go_time) list \<Rightarrow> bool list \<times> replay_cache" where
  "check_all c [] = ([], c)"
| "check_all c ((k, n, t) # calls) =
     (let (b, c') = CheckAndStore c k n t; (bs, c'') = check_all c' calls in (b # bs, c''))"

section \<open>The invariant\<close>

text \<open>The map and the slice hold the same entries, one per key, and never more than the maximum.\<close>

definition order_agrees :: "replay_entry list \<Rightarrow> (string, go_time) gomap \<Rightarrow> bool" where
  "order_agrees es m \<longleftrightarrow> gm_ok m \<and> distinct (map re_key es) \<and>
     set m = (\<lambda>e. (re_key e, re_expires e)) ` set es"

definition replay_inv :: "replay_cache \<Rightarrow> bool" where
  "replay_inv c \<longleftrightarrow> order_agrees (rc_order c) (rc_seen c) \<and> 0 < rc_max c \<and> 0 < rc_ttl c \<and>
     int (length (rc_seen c)) \<le> rc_max c"

lemma order_agrees_length:
  assumes "order_agrees es m"
  shows "length m = length es"
proof -
  have "fst ` set m = re_key ` set es"
    using assms by (simp add: order_agrees_def image_image)
  then have "card (fst ` set m) = card (re_key ` set es)" by simp
  moreover have "card (fst ` set m) = length m"
    using assms by (simp add: order_agrees_def gm_length_dom)
  moreover have "card (re_key ` set es) = length es"
    using assms unfolding order_agrees_def by (metis distinct_card length_map set_map)
  ultimately show ?thesis by simp
qed

lemma order_agrees_get:
  "order_agrees es m \<Longrightarrow> e \<in> set es \<Longrightarrow> gm_get m (re_key e) = Some (re_expires e)"
  by (auto simp: order_agrees_def gm_get_mem)

lemma order_agrees_getD:
  "order_agrees es m \<Longrightarrow> gm_get m k = Some x \<Longrightarrow> \<exists>e\<in>set es. re_key e = k \<and> re_expires e = x"
  by (auto simp: order_agrees_def gm_get_mem)

lemma order_agrees_drop:
  assumes "order_agrees (xs @ e # ys) m"
  shows "order_agrees (xs @ ys) (drop_seen e m)"
proof -
  have "gm_get m (re_key e) = Some (re_expires e)"
    using assms order_agrees_get [of _ m e] by simp
  then have "drop_seen e m = gm_del (re_key e) m" by (simp add: drop_seen_def)
  moreover have "set (gm_del (re_key e) m) =
      (\<lambda>e. (re_key e, re_expires e)) ` set (xs @ ys)"
    using assms by (auto simp: order_agrees_def gm_del_def image_iff)
  ultimately show ?thesis
    using assms by (auto simp: order_agrees_def)
qed

lemma prune_loop_agrees:
  assumes "order_agrees (xs @ es) m" "prune_loop now es m = (kept, m')"
  shows "order_agrees (xs @ kept) m' \<and> kept = filter (\<lambda>e. now < re_expires e) es"
  using assms
proof (induction es arbitrary: xs m kept)
  case (Cons e es)
  show ?case
  proof (cases "now < re_expires e")
    case True
    with Cons.prems obtain kept' where k: "prune_loop now es m = (kept', m')" "kept = e # kept'"
      by (auto split: prod.splits)
    then show ?thesis using Cons.IH [of "xs @ [e]" m kept'] Cons.prems(1) True by auto
  next
    case False
    with Cons.prems order_agrees_drop show ?thesis by (auto intro!: Cons.IH)
  qed
qed simp

lemma evict_loop_agrees:
  "order_agrees es m \<Longrightarrow> evict_loop mx es m = (es', m') \<Longrightarrow> order_agrees es' m' \<and>
     es' = drop (length es - nat mx) es"
proof (induction mx es m rule: evict_loop.induct)
  case (2 mx e es m)
  have len: "length m = Suc (length es)"
    using order_agrees_length [OF 2(2)] by simp
  show ?case
  proof (cases "int (length m) > mx")
    case True
    have "order_agrees es (drop_seen e m)"
      using order_agrees_drop [of "[]" e es m] 2(2) by simp
    moreover have "evict_loop mx es (drop_seen e m) = (es', m')" using 2(3) True by simp
    ultimately have "order_agrees es' m' \<and> es' = drop (length es - nat mx) es"
      using 2(1) True by blast
    moreover have "length (e # es) - nat mx = Suc (length es - nat mx)"
      using True len by (cases "0 \<le> mx") (auto simp: nat_le_iff)
    ultimately show ?thesis by auto
  next
    case False
    with 2 len show ?thesis by auto
  qed
qed simp

section \<open>Every call keeps the invariant\<close>

lemma CheckAndStore_cases:
  assumes "replay_inv c" "CheckAndStore c keyID nonce now = (b, c')"
  defines "live \<equiv> filter (\<lambda>e. now < re_expires e) (rc_order c)"
    and "e' \<equiv> \<lparr>re_key = replay_key keyID nonce, re_expires = now + rc_ttl c\<rparr>"
  shows "rc_ttl c' = rc_ttl c" "rc_max c' = rc_max c"
    "order_agrees (rc_order c') (rc_seen c')"
    "b \<longleftrightarrow> replay_key keyID nonce \<notin> re_key ` set live"
    "\<not> b \<Longrightarrow> rc_order c' = live"
    "b \<Longrightarrow> rc_order c' = drop (Suc (length live) - nat (rc_max c)) (live @ [e'])"
proof -
  let ?k = "replay_key keyID nonce"
  obtain es m where pl: "prune_loop now (rc_order c) (rc_seen c) = (es, m)" by force
  have ag: "order_agrees es m" "es = live"
    using prune_loop_agrees [of "[]" "rc_order c" "rc_seen c" now es m] assms(1) pl
    by (auto simp: replay_inv_def live_def)
  have c1: "pruneLocked now c = c\<lparr>rc_order := live, rc_seen := m\<rparr>"
    using pl ag(2) by (simp add: pruneLocked_def)
  have hit: "(case gm_get m ?k of Some exp \<Rightarrow> now < exp | None \<Rightarrow> False) \<longleftrightarrow> ?k \<in> re_key ` set live"
  proof (cases "gm_get m ?k")
    case None
    then show ?thesis using order_agrees_get [OF ag(1)] ag(2) by fastforce
  next
    case (Some x)
    then obtain e where "e \<in> set live" "re_key e = ?k" "re_expires e = x"
      using order_agrees_getD [OF ag(1) Some] ag(2) by blast
    moreover from this have "?k \<in> re_key ` set live" by (metis imageI)
    ultimately show ?thesis using Some by (auto simp: live_def)
  qed
  have "rc_ttl c' = rc_ttl c \<and> rc_max c' = rc_max c \<and> order_agrees (rc_order c') (rc_seen c') \<and>
    (b \<longleftrightarrow> ?k \<notin> re_key ` set live) \<and> (\<not> b \<longrightarrow> rc_order c' = live) \<and>
    (b \<longrightarrow> rc_order c' = drop (Suc (length live) - nat (rc_max c)) (live @ [e']))"
  proof (cases "?k \<in> re_key ` set live")
    case True
    then show ?thesis using assms(2) hit ag by (auto simp: CheckAndStore_def c1)
  next
    case False
    then have none: "gm_get m ?k = None"
      using order_agrees_getD [OF ag(1)] ag(2) by (cases "gm_get m ?k") (auto, metis imageI)
    then have km: "?k \<notin> fst ` set m" using gm_dom [of m ?k] by simp
    have "set (gm_set ?k (now + rc_ttl c) m) = insert (?k, now + rc_ttl c) (set m)"
      using km unfolding gm_set_def by (induction m) auto
    then have "order_agrees (live @ [e']) (gm_set ?k (now + rc_ttl c) m)"
      using ag False by (auto simp: order_agrees_def e'_def image_iff)
    moreover obtain es' m' where
      ev: "evict_loop (rc_max c) (live @ [e']) (gm_set ?k (now + rc_ttl c) m) = (es', m')" by force
    ultimately have "order_agrees es' m' \<and> es' = drop (length (live @ [e']) - nat (rc_max c)) (live @ [e'])"
      by (rule evict_loop_agrees)
    then show ?thesis using False assms(2) hit ev none by (auto simp: CheckAndStore_def e'_def c1)
  qed
  then show "rc_ttl c' = rc_ttl c" "rc_max c' = rc_max c" "order_agrees (rc_order c') (rc_seen c')"
    "b \<longleftrightarrow> ?k \<notin> re_key ` set live" "\<not> b \<Longrightarrow> rc_order c' = live"
    "b \<Longrightarrow> rc_order c' = drop (Suc (length live) - nat (rc_max c)) (live @ [e'])"
    by blast+
qed

lemma CheckAndStore_inv:
  assumes "replay_inv c" "CheckAndStore c keyID nonce now = (b, c')"
  shows "replay_inv c'"
proof -
  note cs = CheckAndStore_cases [OF assms]
  have "length (rc_order c') \<le> nat (rc_max c)"
  proof (cases b)
    case True
    then show ?thesis using cs(6) by simp
  next
    case False
    have "length (filter (\<lambda>e. now < re_expires e) (rc_order c)) \<le> length (rc_order c)" by simp
    moreover have "length (rc_order c) \<le> nat (rc_max c)"
      using assms(1) order_agrees_length by (fastforce simp: replay_inv_def)
    ultimately show ?thesis using cs(5) [OF False] by (metis order_trans)
  qed
  then show ?thesis
    using cs(1,2,3) assms(1) order_agrees_length [OF cs(3)] by (simp add: replay_inv_def le_nat_iff)
qed

lemma NewReplayCache_inv: "replay_inv (NewReplayCache ttl mx)"
  by (simp add: replay_inv_def NewReplayCache_def order_agrees_def replay_ttl_def duration_defs)

section \<open>The interface the HELLO check relies on\<close>

text \<open>
  What a client of a replay guard may use: an accepted key is rejected until its expiry, as long
  as fewer than \<open>room\<close> other keys have been accepted since. \<open>held s k exp n\<close> says that
  \<open>k\<close> is stored until \<open>exp\<close> and survives \<open>n\<close> further acceptances.
\<close>

locale replay_guard =
  fixes check :: "'s \<Rightarrow> 'k \<Rightarrow> go_time \<Rightarrow> bool \<times> 's"
    and inv :: "'s \<Rightarrow> bool"
    and held :: "'s \<Rightarrow> 'k \<Rightarrow> go_time \<Rightarrow> nat \<Rightarrow> bool"
    and ttl :: "'s \<Rightarrow> duration"
    and room :: "'s \<Rightarrow> nat"
  assumes inv_check: "inv s \<Longrightarrow> check s k t = (b, s') \<Longrightarrow> inv s'"
    and held_accept: "inv s \<Longrightarrow> check s k t = (True, s') \<Longrightarrow> held s' k (t + ttl s) (room s - 1)"
    and held_reject: "inv s \<Longrightarrow> held s k x n \<Longrightarrow> t < x \<Longrightarrow> check s k t = (b, s') \<Longrightarrow> \<not> b"
    and held_check: "inv s \<Longrightarrow> held s k x (Suc n) \<Longrightarrow> t < x \<Longrightarrow> check s k' t = (b, s') \<Longrightarrow> held s' k x n"
    and held_mono: "held s k x n \<Longrightarrow> m \<le> n \<Longrightarrow> held s k x m"
begin

fun run :: "'s \<Rightarrow> ('k \<times> go_time) list \<Rightarrow> 's" where
  "run s [] = s"
| "run s ((k, t) # calls) = run (snd (check s k t)) calls"

lemma run_inv: "inv s \<Longrightarrow> inv (run s calls)"
  by (induction s calls rule: run.induct) (metis inv_check run.simps prod.collapse)+

lemma run_held:
  "inv s \<Longrightarrow> held s k x (length calls + n) \<Longrightarrow> \<forall>(k', t)\<in>set calls. t < x \<Longrightarrow> held (run s calls) k x n"
proof (induction s calls arbitrary: n rule: run.induct)
  case (2 s k' t calls)
  obtain b s' where c: "check s k' t = (b, s')" by force
  have "held s k x (Suc (length calls + n))" using 2(3) by simp
  then have "held s' k x (length calls + n)" using held_check [OF 2(2) _ _ c] 2(4) by simp
  with 2(1) [of n] 2(2,4) c show ?case by (auto dest: inv_check)
qed simp

lemma no_replay:
  assumes "inv s" "check s k t = (True, s')" "\<forall>(k', u)\<in>set calls. u < t + ttl s"
    "length calls < room s" "t' < t + ttl s"
  shows "\<not> fst (check (run s' calls) k t')"
proof -
  have "held s' k (t + ttl s) (length calls + 0)"
    using held_mono [OF held_accept [OF assms(1,2)]] assms(4) by simp
  then have "held (run s' calls) k (t + ttl s) 0"
    using run_held inv_check assms(1,2,3) by blast
  then show ?thesis
    using held_reject run_inv inv_check assms(1,2,5) by (metis prod.collapse)
qed

end

definition rc_check :: "replay_cache \<Rightarrow> string \<times> string \<Rightarrow> go_time \<Rightarrow> bool \<times> replay_cache" where
  "rc_check c k t = CheckAndStore c (fst k) (snd k) t"

definition rc_held :: "replay_cache \<Rightarrow> string \<times> string \<Rightarrow> go_time \<Rightarrow> nat \<Rightarrow> bool" where
  "rc_held c k x n \<longleftrightarrow> (\<exists>pre e post. rc_order c = pre @ e # post \<and>
     re_key e = replay_key (fst k) (snd k) \<and> re_expires e = x \<and> length post + n < nat (rc_max c))"

lemma rc_held_check:
  assumes "replay_inv s" "rc_held s k x (Suc n)" "t < x" "rc_check s k' t = (b, s')"
  shows "rc_held s' k x n"
proof -
  obtain pre e post where o: "rc_order s = pre @ e # post" "re_key e = replay_key (fst k) (snd k)"
    "re_expires e = x" "length post + Suc n < nat (rc_max s)"
    using assms(2) by (auto simp: rc_held_def)
  note cs = CheckAndStore_cases [OF assms(1) assms(4) [unfolded rc_check_def]]
  let ?f = "filter (\<lambda>e. t < re_expires e)"
  have fp: "length (?f post) \<le> length post" by simp
  have room: "Suc (length (?f post)) + n < nat (rc_max s)" using o(4) fp by linarith
  have live: "?f (rc_order s) = ?f pre @ e # ?f post" using o assms(3) by simp
  show ?thesis
  proof (cases b)
    case True
    define new where "new = \<lparr>re_key = replay_key (fst k') (snd k'), re_expires = t + rc_ttl s\<rparr>"
    have len: "Suc (length (?f (rc_order s))) - nat (rc_max s) \<le> length (?f pre)"
      using o(4) fp live by (simp del: length_filter_le)
    have "rc_order s' = drop (Suc (length (?f (rc_order s))) - nat (rc_max s)) (?f pre) @ e # ?f post @ [new]"
      using cs(6) True len live by (simp add: new_def)
    then show ?thesis unfolding rc_held_def using o(2,3) cs(2) room by fastforce
  next
    case False
    then have "rc_order s' = ?f pre @ e # ?f post" using cs(5) live by simp
    then show ?thesis unfolding rc_held_def using o(2,3) cs(2) room by fastforce
  qed
qed

interpretation rc: replay_guard rc_check replay_inv rc_held rc_ttl "\<lambda>c. nat (rc_max c)"
proof (unfold_locales, goal_cases)
  case (1 s k t b s') then show ?case by (auto simp: rc_check_def intro: CheckAndStore_inv)
next
  case (2 s k t s')
  note cs = CheckAndStore_cases [OF 2(1) 2(2) [unfolded rc_check_def]]
  have mx: "0 < nat (rc_max s)" using 2(1) by (simp add: replay_inv_def)
  let ?l = "filter (\<lambda>e. t < re_expires e) (rc_order s)"
  let ?e = "\<lparr>re_key = replay_key (fst k) (snd k), re_expires = t + rc_ttl s\<rparr>"
  have "rc_order s' = drop (Suc (length ?l) - nat (rc_max s)) ?l @ ?e # []"
    using cs(6) mx by simp
  moreover have "length [] + (nat (rc_max s) - 1) < nat (rc_max s')" using cs(2) mx by simp
  ultimately show ?case unfolding rc_held_def
    by (metis replay_entry.select_convs(1) replay_entry.select_convs(2))
next
  case (3 s k x n t b s')
  note cs = CheckAndStore_cases [OF 3(1) 3(4) [unfolded rc_check_def]]
  then show ?case using 3(2,3) by (auto simp: rc_held_def image_iff)
next
  case (4 s k x n t k' b s') then show ?case by (rule rc_held_check)
next
  case (5 s k x n m) then show ?case by (fastforce simp: rc_held_def)
qed

lemma CheckAndStore_rc: "CheckAndStore c k n t = rc_check c (k, n) t"
  by (simp add: rc_check_def)

lemma rc_run_check_all:
  "rc.run c (map (\<lambda>(k, n, t). ((k, n), t)) calls) = snd (check_all c calls)"
proof (induction calls arbitrary: c)
  case (Cons call calls)
  obtain k n t where "call = (k, n, t)" using prod_cases3 by blast
  with Cons show ?case by (simp add: CheckAndStore_rc split_beta)
qed simp

lemma rc_no_replay:
  assumes "replay_inv c" "CheckAndStore c keyID nonce t = (True, c')"
    and "\<forall>(k, n, u)\<in>set calls. u < t + rc_ttl c" "length calls < nat (rc_max c)"
    and "t' < t + rc_ttl c"
  shows "\<not> fst (CheckAndStore (snd (check_all c' calls)) keyID nonce t')"
  using rc.no_replay [of c "(keyID, nonce)" t c' "map (\<lambda>(k, n, t). ((k, n), t)) calls" t'] assms
  by (fastforce simp: rc_run_check_all rc_check_def)

section \<open>Properties\<close>

text \<open>
  A HELLO nonce that was accepted is refused until its time to live has passed, whatever other
  calls come in between, as long as fewer than the maximal number of entries are accepted after it.
\<close>
theorem replay_rejected_within_ttl:
  assumes "replay_inv c" "CheckAndStore c keyID nonce t = (True, c')"
    and "\<forall>(k, n, u)\<in>set calls. u < t + rc_ttl c" "length calls < nat (rc_max c)"
    and "t' < t + rc_ttl c"
  shows "\<not> fst (CheckAndStore (snd (check_all c' calls)) keyID nonce t')"
  using assms by (rule rc_no_replay)

theorem replay_rejected_within_ttl_witness:
  "\<not> fst (CheckAndStore (snd (check_all (snd (CheckAndStore (NewReplayCache 10 2) ''k'' ''n'' 100))
      [(''k'', ''m'', 105)])) ''k'' ''n'' 109)"
proof (rule replay_rejected_within_ttl [where c = "NewReplayCache 10 2" and t = 100])
  show "CheckAndStore (NewReplayCache 10 2) ''k'' ''n'' 100 =
      (True, snd (CheckAndStore (NewReplayCache 10 2) ''k'' ''n'' 100))"
    by code_simp
qed (rule NewReplayCache_inv, simp_all add: NewReplayCache_def)

text \<open>
  From a new cache on, after any calls at any times, the map and the slice hold the same
  entries and the cache never holds more than its maximum.
\<close>
theorem replay_cache_invariant:
  "replay_inv (snd (check_all (NewReplayCache ttl maxSize) calls))"
  using rc.run_inv [OF NewReplayCache_inv [of ttl maxSize], of "map (\<lambda>(k, n, t). ((k, n), t)) calls"]
  by (simp add: rc_run_check_all)

end
