(* ===== verification/StreamRegistry.thy ===== *)
theory StreamRegistry
  imports Frames
begin

text \<open>
  \<open>internal/runtimechannel/registry.go\<close>: the streams of the connected runtimes and the
  double index of them. Streams are shared by pointer (the handler of a connection keeps its own
  after the registry has dropped it), so the registry holds a store of all streams ever created
  and the indices refer to positions in it. Both mutexes are held for the whole of an operation,
  so an operation is one step.
\<close>

section \<open>Streams\<close>

type_synonym stream_id = nat

text \<open>A reply channel of capacity 16, shared between a waiting call and the stream.\<close>

record chan =
  ch_buf :: "runtime_frame list"
  ch_closed :: bool

record stream =
  st_runtime :: auth_runtime
  st_opened_at :: go_time
  st_last_frame_at :: go_time
  st_closed :: bool
  st_sender :: "(runtime_frame \<Rightarrow> go_error option) option"
  st_chans :: "chan list"
  st_in_flight :: "(string, nat) gomap"
  st_dropped :: int
  st_sent :: "runtime_frame list"

definition newRuntimeStream :: "auth_runtime \<Rightarrow> go_time \<Rightarrow> stream" where
  "newRuntimeStream rt now =
     \<lparr>st_runtime = rt, st_opened_at = now, st_last_frame_at = now, st_closed = False,
      st_sender = None, st_chans = [], st_in_flight = [], st_dropped = 0, st_sent = []\<rparr>"

definition touch :: "go_time \<Rightarrow> stream \<Rightarrow> stream" where
  "touch at s = s\<lparr>st_last_frame_at := at\<rparr>"

definition setSender :: "(runtime_frame \<Rightarrow> go_error option) \<Rightarrow> stream \<Rightarrow> stream" where
  "setSender send s = s\<lparr>st_sender := Some send\<rparr>"

fun close_chans :: "(string \<times> nat) list \<Rightarrow> chan list \<Rightarrow> chan list" where
  "close_chans [] cs = cs"
| "close_chans ((cid, i) # m) cs = close_chans m (cs[i := (cs ! i)\<lparr>ch_closed := True\<rparr>])"

definition failInFlight :: "stream \<Rightarrow> stream" where
  "failInFlight s = s\<lparr>st_in_flight := [], st_chans := close_chans (st_in_flight s) (st_chans s)\<rparr>"

text \<open>\<open>closeOnce\<close>: closing twice does nothing the second time.\<close>
definition close_stream :: "stream \<Rightarrow> stream" where
  "close_stream s = (if st_closed s then s else failInFlight (s\<lparr>st_closed := True\<rparr>))"

definition sendFrame :: "stream \<Rightarrow> runtime_frame \<Rightarrow> stream \<times> go_error option" where
  "sendFrame s frame =
     (case st_sender s of
        None \<Rightarrow> (s, Some (Status Unavailable ''runtime stream sender is not ready''))
      | Some send \<Rightarrow>
          if st_closed s then (s, Some (Status Unavailable ''runtime stream closed''))
          else (case send frame of
              Some e \<Rightarrow> (s, Some e)
            | None \<Rightarrow> (s\<lparr>st_sent := st_sent s @ [frame]\<rparr>, None)))"

definition registerCall :: "string \<Rightarrow> stream \<Rightarrow> nat \<times> stream" where
  "registerCall cid s =
     (let i = length (st_chans s) in
      (i, s\<lparr>st_chans := st_chans s @ [\<lparr>ch_buf = [], ch_closed = False\<rparr>],
            st_in_flight := gm_set cid i (st_in_flight s)\<rparr>))"

definition unregisterCall :: "string \<Rightarrow> stream \<Rightarrow> stream" where
  "unregisterCall cid s = s\<lparr>st_in_flight := gm_del cid (st_in_flight s)\<rparr>"

definition chan_capacity :: nat where "chan_capacity = 16"

definition deliver :: "runtime_frame \<Rightarrow> stream \<Rightarrow> bool \<times> stream" where
  "deliver frame s =
     (let cid = frameCorrelationID (Some frame) in
      if cid = '''' then (False, s)
      else (case gm_get (st_in_flight s) cid of
          None \<Rightarrow> (False, s)
        | Some i \<Rightarrow>
            (let c = st_chans s ! i in
             if length (ch_buf c) < chan_capacity
             then (True, s\<lparr>st_chans := (st_chans s)[i := c\<lparr>ch_buf := ch_buf c @ [frame]\<rparr>]\<rparr>)
             else (False, s\<lparr>st_dropped := st_dropped s + 1\<rparr>))))"

section \<open>The registry\<close>

record registry =
  rg_streams :: "(string, stream_id) gomap"
  rg_keys :: "(string, string list) gomap"
  rg_store :: "stream list"

definition NewRegistry :: registry where
  "NewRegistry = \<lparr>rg_streams = [], rg_keys = [], rg_store = []\<rparr>"

abbreviation stream_at :: "registry \<Rightarrow> stream_id \<Rightarrow> stream" where
  "stream_at r i \<equiv> rg_store r ! i"

definition key_set :: "registry \<Rightarrow> string \<Rightarrow> string list" where
  "key_set r k = (case gm_get (rg_keys r) k of None \<Rightarrow> [] | Some ids \<Rightarrow> ids)"

definition update_stream :: "stream_id \<Rightarrow> (stream \<Rightarrow> stream) \<Rightarrow> registry \<Rightarrow> registry" where
  "update_stream i f r = r\<lparr>rg_store := (rg_store r)[i := f (stream_at r i)]\<rparr>"

text \<open>\<open>removeLocked\<close>: drop the stream's runtime from both indices, and an emptied key set.\<close>
definition removeLocked :: "stream_id \<Rightarrow> registry \<Rightarrow> registry" where
  "removeLocked i r =
     (let rt = st_runtime (stream_at r i);
          r1 = r\<lparr>rg_streams := gm_del (ar_RuntimeID rt) (rg_streams r)\<rparr>
      in case gm_get (rg_keys r1) (ar_KeyID rt) of
           None \<Rightarrow> r1
         | Some ids \<Rightarrow>
             (let ids' = removeAll (ar_RuntimeID rt) ids in
              r1\<lparr>rg_keys := (if ids' = [] then gm_del (ar_KeyID rt) (rg_keys r1)
                            else gm_set (ar_KeyID rt) ids' (rg_keys r1))\<rparr>))"

definition close_and_remove :: "stream_id \<Rightarrow> registry \<Rightarrow> registry" where
  "close_and_remove i r = removeLocked i (update_stream i close_stream r)"

definition Register :: "registry \<Rightarrow> auth_runtime \<Rightarrow> go_time \<Rightarrow> registry \<times> (go_error + stream_id)" where
  "Register r rt now =
     (if ar_KeyID rt \<noteq> '''' \<and> (\<exists>rid\<in>set (key_set r (ar_KeyID rt)). rid \<noteq> ar_RuntimeID rt)
      then (r, Inl (Sentinel ErrRuntimeCredentialConnected ''runtime credential already connected''))
      else
        let r1 = (case gm_get (rg_streams r) (ar_RuntimeID rt) of
                    Some old \<Rightarrow> close_and_remove old r | None \<Rightarrow> r);
            sid = length (rg_store r1);
            r2 = r1\<lparr>rg_store := rg_store r1 @ [newRuntimeStream rt now],
                    rg_streams := gm_set (ar_RuntimeID rt) sid (rg_streams r1)\<rparr>
        in if ar_KeyID rt = '''' then (r2, Inr sid)
           else (r2\<lparr>rg_keys := gm_set (ar_KeyID rt)
                   (List.insert (ar_RuntimeID rt) (key_set r2 (ar_KeyID rt))) (rg_keys r2)\<rparr>, Inr sid))"

definition Unregister :: "string \<Rightarrow> registry \<Rightarrow> registry" where
  "Unregister rid r =
     (case gm_get (rg_streams r) rid of None \<Rightarrow> r | Some i \<Rightarrow> close_and_remove i r)"

fun close_ids :: "string list \<Rightarrow> registry \<Rightarrow> registry \<times> stream_id list" where
  "close_ids [] r = (r, [])"
| "close_ids (rid # rids) r =
     (case gm_get (rg_streams r) rid of
        None \<Rightarrow> close_ids rids r
      | Some i \<Rightarrow> (let (r', is) = close_ids rids (close_and_remove i r) in (r', i # is)))"

definition CloseByKeyID :: "string \<Rightarrow> registry \<Rightarrow> registry \<times> stream_id list" where
  "CloseByKeyID k r = close_ids (key_set r k) r"

definition CloseByRuntimeID :: "string \<Rightarrow> registry \<Rightarrow> registry \<times> stream_id option" where
  "CloseByRuntimeID rid r =
     (case gm_get (rg_streams r) rid of None \<Rightarrow> (r, None) | Some i \<Rightarrow> (close_and_remove i r, Some i))"

definition Snapshot :: "registry \<Rightarrow> auth_runtime list" where
  "Snapshot r = map (\<lambda>(rid, i). st_runtime (stream_at r i)) (rg_streams r)"

record stream_metric =
  sm_runtime_id :: string
  sm_key_id :: string
  sm_user_id :: int
  sm_name :: string
  sm_uptime :: duration
  sm_latency :: duration
  sm_in_flight :: nat
  sm_dropped :: int

definition MetricsSnapshot :: "go_time \<Rightarrow> registry \<Rightarrow> stream_metric list" where
  "MetricsSnapshot now r = map (\<lambda>(rid, i). let s = stream_at r i in
     \<lparr>sm_runtime_id = ar_RuntimeID (st_runtime s), sm_key_id = ar_KeyID (st_runtime s),
      sm_user_id = ar_UserID (st_runtime s), sm_name = ar_Name (st_runtime s),
      sm_uptime = time_sub now (st_opened_at s), sm_latency = time_sub now (st_last_frame_at s),
      sm_in_flight = length (st_in_flight s), sm_dropped = st_dropped s\<rparr>) (rg_streams r)"

definition FindByRuntimeID :: "registry \<Rightarrow> int \<Rightarrow> string \<Rightarrow> stream_id option" where
  "FindByRuntimeID r userID rid =
     (if rid = '''' then None
      else (case gm_get (rg_streams r) rid of
          None \<Rightarrow> None
        | Some i \<Rightarrow> if ar_UserID (st_runtime (stream_at r i)) \<noteq> userID then None else Some i))"

section \<open>The invariant of the double index\<close>

text \<open>
  A stream is open exactly when it is the registered stream of its runtime; the key index holds
  exactly the registered runtimes of the key; a key has at most one runtime; no set is empty.
\<close>

definition registry_inv :: "registry \<Rightarrow> bool" where
  "registry_inv r \<longleftrightarrow> gm_ok (rg_streams r) \<and> gm_ok (rg_keys r) \<and>
     (\<forall>rid i. gm_get (rg_streams r) rid = Some i \<longrightarrow>
        i < length (rg_store r) \<and> ar_RuntimeID (st_runtime (stream_at r i)) = rid) \<and>
     (\<forall>i < length (rg_store r). \<not> st_closed (stream_at r i) \<longleftrightarrow>
        gm_get (rg_streams r) (ar_RuntimeID (st_runtime (stream_at r i))) = Some i) \<and>
     (\<forall>k rid. rid \<in> set (key_set r k) \<longleftrightarrow> k \<noteq> '''' \<and>
        (\<exists>i. gm_get (rg_streams r) rid = Some i \<and> ar_KeyID (st_runtime (stream_at r i)) = k)) \<and>
     (\<forall>k. length (key_set r k) \<le> 1) \<and> (\<forall>k. gm_get (rg_keys r) k \<noteq> Some [])"

lemma close_stream_runtime [simp]: "st_runtime (close_stream s) = st_runtime s"
  by (simp add: close_stream_def failInFlight_def)

lemma close_stream_closed [simp]: "st_closed (close_stream s)"
  by (simp add: close_stream_def failInFlight_def)

lemma NewRegistry_inv [simp]: "registry_inv NewRegistry"
  by (simp add: registry_inv_def NewRegistry_def key_set_def)

lemma registry_invD:
  assumes "registry_inv r"
  shows "gm_ok (rg_streams r)" "gm_ok (rg_keys r)"
    "gm_get (rg_streams r) rid = Some i \<Longrightarrow> i < length (rg_store r)"
    "gm_get (rg_streams r) rid = Some i \<Longrightarrow> ar_RuntimeID (st_runtime (stream_at r i)) = rid"
    "i < length (rg_store r) \<Longrightarrow> \<not> st_closed (stream_at r i) \<longleftrightarrow>
        gm_get (rg_streams r) (ar_RuntimeID (st_runtime (stream_at r i))) = Some i"
    "rid \<in> set (key_set r k) \<longleftrightarrow> k \<noteq> '''' \<and>
        (\<exists>i. gm_get (rg_streams r) rid = Some i \<and> ar_KeyID (st_runtime (stream_at r i)) = k)"
    "length (key_set r k) \<le> 1" "gm_get (rg_keys r) k \<noteq> Some []"
  using assms unfolding registry_inv_def by blast+

lemma registry_inv_open:
  "registry_inv r \<Longrightarrow> gm_get (rg_streams r) rid = Some i \<Longrightarrow> \<not> st_closed (stream_at r i)"
  using registry_invD(3,4,5) by blast

lemma close_and_remove_streams:
  "i < length (rg_store r) \<Longrightarrow> rg_streams (close_and_remove i r) =
     gm_del (ar_RuntimeID (st_runtime (stream_at r i))) (rg_streams r)"
  by (auto simp: close_and_remove_def removeLocked_def update_stream_def Let_def split: option.splits)

lemma close_and_remove_store [simp]:
  "rg_store (close_and_remove i r) = (rg_store r)[i := close_stream (stream_at r i)]"
  by (auto simp: close_and_remove_def removeLocked_def update_stream_def Let_def split: option.splits)

lemma close_and_remove_keys:
  assumes "registry_inv r" "gm_get (rg_streams r) rid = Some i"
  shows "key_set (close_and_remove i r) k = removeAll rid (key_set r k)"
    and "gm_get (rg_keys (close_and_remove i r)) k \<noteq> Some []"
    and "gm_ok (rg_keys (close_and_remove i r))"
proof -
  note inv = registry_invD [OF assms(1)]
  have rt: "i < length (rg_store r)" "ar_RuntimeID (st_runtime (stream_at r i)) = rid"
    using inv(3,4) assms(2) by blast+
  let ?k = "ar_KeyID (st_runtime (stream_at r i))"
  have other: "rid \<notin> set (key_set r k)" if "k \<noteq> ?k"
    using inv(6) [of rid k] assms(2) that by auto
  have "key_set (close_and_remove i r) k = removeAll rid (key_set r k) \<and>
      gm_get (rg_keys (close_and_remove i r)) k \<noteq> Some [] \<and> gm_ok (rg_keys (close_and_remove i r))"
  proof (cases "k = ?k")
    case True
    then show ?thesis using rt inv(2) inv(8) [of k]
      by (auto simp: close_and_remove_def removeLocked_def update_stream_def Let_def key_set_def
          split: option.splits)
  next
    case False
    then show ?thesis using rt inv(2) inv(8) [of k] other [OF False]
      by (auto simp: close_and_remove_def removeLocked_def update_stream_def Let_def key_set_def
          removeAll_id split: option.splits)
  qed
  then show "key_set (close_and_remove i r) k = removeAll rid (key_set r k)"
    "gm_get (rg_keys (close_and_remove i r)) k \<noteq> Some []" "gm_ok (rg_keys (close_and_remove i r))"
    by blast+
qed

lemma close_and_remove_inv:
  assumes "registry_inv r" "gm_get (rg_streams r) rid = Some i"
  shows "registry_inv (close_and_remove i r)"
proof -
  note inv = registry_invD [OF assms(1)] and keys = close_and_remove_keys [OF assms]
  have i: "i < length (rg_store r)" "ar_RuntimeID (st_runtime (stream_at r i)) = rid"
    using inv(3,4) assms(2) by blast+
  have str: "rg_streams (close_and_remove i r) = gm_del rid (rg_streams r)"
    using close_and_remove_streams i by simp
  have rts: "st_runtime (stream_at (close_and_remove i r) j) = st_runtime (stream_at r j)" for j
    using i by (cases "j = i") auto
  have sid: "gm_get (rg_streams r) rid' = Some i \<longleftrightarrow> rid' = rid" for rid'
    using assms(2) i inv(4) by blast
  show ?thesis
    unfolding registry_inv_def rts keys(1) str
  proof (intro conjI allI impI)
    show "gm_ok (gm_del rid (rg_streams r))" using inv(1) by simp
    fix rid' j
    assume j: "gm_get (gm_del rid (rg_streams r)) rid' = Some j"
    then show "j < length (rg_store (close_and_remove i r))" "ar_RuntimeID (st_runtime (stream_at r j)) = rid'"
      using inv(3,4) by (auto split: if_splits)
  next
    fix j assume "j < length (rg_store (close_and_remove i r))"
    then have j: "j < length (rg_store r)" by simp
    show "(\<not> st_closed (stream_at (close_and_remove i r) j)) =
        (gm_get (gm_del rid (rg_streams r)) (ar_RuntimeID (st_runtime (stream_at r j))) = Some j)"
    proof (cases "j = i")
      case True
      then show ?thesis using i by simp
    next
      case False
      then have "stream_at (close_and_remove i r) j = stream_at r j" by simp
      moreover have "ar_RuntimeID (st_runtime (stream_at r j)) = rid \<Longrightarrow>
          gm_get (rg_streams r) rid \<noteq> Some j" using False assms(2) by simp
      ultimately show ?thesis using inv(5) [OF j] by (metis gm_get_del option.distinct(1))
    qed
  next
    fix k rid'
    show "(rid' \<in> set (removeAll rid (key_set r k))) = (k \<noteq> '''' \<and>
        (\<exists>j. gm_get (gm_del rid (rg_streams r)) rid' = Some j \<and> ar_KeyID (st_runtime (stream_at r j)) = k))"
      using inv(6) [of rid' k] by auto
  next
    fix k show "length (removeAll rid (key_set r k)) \<le> 1"
      by (rule order_trans [OF length_removeAll_less_eq inv(7)])
  qed (use keys(2,3) in auto)
qed

lemma Unregister_inv: "registry_inv r \<Longrightarrow> registry_inv (Unregister rid r)"
  by (auto simp: Unregister_def close_and_remove_inv split: option.split)

lemma CloseByRuntimeID_inv: "registry_inv r \<Longrightarrow> registry_inv (fst (CloseByRuntimeID rid r))"
  by (auto simp: CloseByRuntimeID_def close_and_remove_inv split: option.split)

lemma close_ids_inv: "registry_inv r \<Longrightarrow> registry_inv (fst (close_ids rids r))"
  by (induction rids r rule: close_ids.induct)
    (auto simp: close_and_remove_inv split: option.split prod.split)

lemma CloseByKeyID_inv: "registry_inv r \<Longrightarrow> registry_inv (fst (CloseByKeyID k r))"
  by (simp add: CloseByKeyID_def close_ids_inv)

section \<open>Registration\<close>

text \<open>The part of \<open>Register\<close> after the guard and after the old stream is gone.\<close>
definition add_stream :: "registry \<Rightarrow> auth_runtime \<Rightarrow> go_time \<Rightarrow> registry" where
  "add_stream r rt now =
     (let r2 = r\<lparr>rg_store := rg_store r @ [newRuntimeStream rt now],
                rg_streams := gm_set (ar_RuntimeID rt) (length (rg_store r)) (rg_streams r)\<rparr>
      in if ar_KeyID rt = '''' then r2
         else r2\<lparr>rg_keys := gm_set (ar_KeyID rt)
                (List.insert (ar_RuntimeID rt) (key_set r2 (ar_KeyID rt))) (rg_keys r2)\<rparr>)"

definition drop_old :: "registry \<Rightarrow> string \<Rightarrow> registry" where
  "drop_old r rid = (case gm_get (rg_streams r) rid of Some old \<Rightarrow> close_and_remove old r | None \<Rightarrow> r)"

lemma Register_unfold:
  "Register r rt now =
     (if ar_KeyID rt \<noteq> '''' \<and> (\<exists>rid\<in>set (key_set r (ar_KeyID rt)). rid \<noteq> ar_RuntimeID rt)
      then (r, Inl (Sentinel ErrRuntimeCredentialConnected ''runtime credential already connected''))
      else (add_stream (drop_old r (ar_RuntimeID rt)) rt now, Inr (length (rg_store r))))"
  by (auto simp: Register_def add_stream_def drop_old_def Let_def split: option.splits)

lemma add_stream_simps [simp]:
  "rg_streams (add_stream r rt now) = gm_set (ar_RuntimeID rt) (length (rg_store r)) (rg_streams r)"
  "rg_store (add_stream r rt now) = rg_store r @ [newRuntimeStream rt now]"
  by (simp_all add: add_stream_def Let_def)

lemma add_stream_keys:
  "key_set (add_stream r rt now) k =
     (if k \<noteq> '''' \<and> k = ar_KeyID rt then List.insert (ar_RuntimeID rt) (key_set r k) else key_set r k)"
  by (auto simp: add_stream_def Let_def key_set_def)

lemma drop_old_inv: "registry_inv r \<Longrightarrow> registry_inv (drop_old r rid)"
  by (auto simp: drop_old_def close_and_remove_inv split: option.split)

lemma drop_old_gone:
  assumes "registry_inv r"
  shows "gm_get (rg_streams (drop_old r rid)) rid = None"
    and "key_set (drop_old r rid) k = removeAll rid (key_set r k)"
    and "rid' \<noteq> rid \<Longrightarrow> gm_get (rg_streams (drop_old r rid)) rid' = gm_get (rg_streams r) rid'"
proof -
  note inv = registry_invD [OF assms]
  show "gm_get (rg_streams (drop_old r rid)) rid = None"
    using inv(3,4) by (auto simp: drop_old_def close_and_remove_streams split: option.split)
  show "key_set (drop_old r rid) k = removeAll rid (key_set r k)"
  proof (cases "gm_get (rg_streams r) rid")
    case None
    then have "rid \<notin> set (key_set r k)" by (simp add: inv(6))
    with None show ?thesis by (simp add: drop_old_def removeAll_id)
  qed (simp add: drop_old_def close_and_remove_keys [OF assms])
  show "rid' \<noteq> rid \<Longrightarrow> gm_get (rg_streams (drop_old r rid)) rid' = gm_get (rg_streams r) rid'"
    using inv(3,4) by (auto simp: drop_old_def close_and_remove_streams split: option.split)
qed

lemma add_stream_inv:
  assumes "registry_inv r" "gm_get (rg_streams r) (ar_RuntimeID rt) = None"
    "ar_KeyID rt \<noteq> '''' \<Longrightarrow> key_set r (ar_KeyID rt) = []"
  shows "registry_inv (add_stream r rt now)" (is "registry_inv ?r'")
proof -
  note inv = registry_invD [OF assms(1)]
  let ?n = "length (rg_store r)" and ?rid = "ar_RuntimeID rt"
  have old: "i < ?n" if "gm_get (rg_streams r) rid = Some i" for rid i using inv(3) that .
  have at_new: "stream_at ?r' ?n = newRuntimeStream rt now" by simp
  have at_old: "stream_at ?r' i = stream_at r i" if "i < ?n" for i using that by (simp add: nth_append)
  show ?thesis
    unfolding registry_inv_def
  proof (intro conjI allI impI)
    show "gm_ok (rg_streams ?r')" using inv(1) by simp
    show "gm_ok (rg_keys ?r')" using inv(2) by (simp add: add_stream_def Let_def)
  next
    fix rid i assume "gm_get (rg_streams ?r') rid = Some i"
    then show "i < length (rg_store ?r')" "ar_RuntimeID (st_runtime (stream_at ?r' i)) = rid"
      using old inv(4) at_new at_old
      by (auto split: if_splits simp: newRuntimeStream_def less_Suc_eq)
  next
    fix i assume i: "i < length (rg_store ?r')"
    show "(\<not> st_closed (stream_at ?r' i)) =
        (gm_get (rg_streams ?r') (ar_RuntimeID (st_runtime (stream_at ?r' i))) = Some i)"
    proof (cases "i < ?n")
      case True
      then have "\<not> st_closed (stream_at r i) \<longleftrightarrow>
          gm_get (rg_streams r) (ar_RuntimeID (st_runtime (stream_at r i))) = Some i" by (rule inv(5))
      then show ?thesis using True assms(2) at_old [OF True] by (auto simp del: add_stream_simps(2))
    next
      case False
      then have "i = ?n" using i by simp
      then show ?thesis by (simp add: newRuntimeStream_def)
    qed
  next
    fix k rid
    show "(rid \<in> set (key_set ?r' k)) = (k \<noteq> '''' \<and>
        (\<exists>i. gm_get (rg_streams ?r') rid = Some i \<and> ar_KeyID (st_runtime (stream_at ?r' i)) = k))"
    proof (cases "rid = ?rid")
      case True
      have "rid \<notin> set (key_set r k)" using inv(6) [of rid k] assms(2) True by simp
      then show ?thesis using True by (auto simp: add_stream_keys newRuntimeStream_def)
    next
      case False
      have "(\<exists>i. gm_get (rg_streams r) rid = Some i \<and> ar_KeyID (st_runtime (stream_at ?r' i)) = k) =
            (\<exists>i. gm_get (rg_streams r) rid = Some i \<and> ar_KeyID (st_runtime (stream_at r i)) = k)"
        using old at_old by metis
      then show ?thesis using False inv(6) [of rid k] by (auto simp: add_stream_keys)
    qed
  next
    fix k
    show "length (key_set ?r' k) \<le> 1"
      using inv(7) [of k] assms(3) by (auto simp: add_stream_keys)
    show "gm_get (rg_keys ?r') k \<noteq> Some []"
      using inv(8) [of k] by (auto simp: add_stream_def Let_def List.insert_def split: if_splits)
  qed
qed

lemma Register_inv:
  assumes "registry_inv r"
  shows "registry_inv (fst (Register r rt now))"
proof -
  have "key_set (drop_old r (ar_RuntimeID rt)) (ar_KeyID rt) = []"
    if "\<forall>rid\<in>set (key_set r (ar_KeyID rt)). rid = ar_RuntimeID rt"
    using that drop_old_gone(2) [OF assms] by (simp add: removeAll_filter_not_eq)
  then show ?thesis
    using assms add_stream_inv [OF drop_old_inv [OF assms] drop_old_gone(1) [OF assms]]
    by (auto simp: Register_unfold)
qed

text \<open>The handlers change a stream through their pointer; the runtime and the closing are fixed.\<close>
lemma update_stream_inv:
  assumes "registry_inv r" "\<And>s. st_runtime (f s) = st_runtime s" "\<And>s. st_closed (f s) = st_closed s"
  shows "registry_inv (update_stream i f r)"
proof -
  have rt: "st_runtime (stream_at (update_stream i f r) j) = st_runtime (stream_at r j)"
    and cl: "st_closed (stream_at (update_stream i f r) j) = st_closed (stream_at r j)"
    if "j < length (rg_store r)" for j
    using assms(2,3) that by (cases "j = i"; simp add: update_stream_def)+
  have simps: "rg_streams (update_stream i f r) = rg_streams r" "rg_keys (update_stream i f r) = rg_keys r"
    "key_set (update_stream i f r) = key_set r" "length (rg_store (update_stream i f r)) = length (rg_store r)"
    by (auto simp: update_stream_def key_set_def)
  have "(\<exists>j. gm_get (rg_streams r) rid = Some j \<and> ar_KeyID (st_runtime (stream_at (update_stream i f r) j)) = k)
      \<longleftrightarrow> (\<exists>j. gm_get (rg_streams r) rid = Some j \<and> ar_KeyID (st_runtime (stream_at r j)) = k)" for rid k
    using rt registry_invD(3) [OF assms(1)] by metis
  then show ?thesis
    using assms(1) rt cl registry_invD(3) [OF assms(1)] unfolding registry_inv_def simps
    by (simp cong: conj_cong imp_cong)
qed

lemma CloseByKeyID_cases:
  assumes "registry_inv r"
  obtains "key_set r k = []" "CloseByKeyID k r = (r, [])"
  | rid i where "key_set r k = [rid]" "gm_get (rg_streams r) rid = Some i" "k \<noteq> ''''"
      "ar_KeyID (st_runtime (stream_at r i)) = k" "CloseByKeyID k r = (close_and_remove i r, [i])"
proof -
  note inv = registry_invD [OF assms]
  consider "key_set r k = []" | rid where "key_set r k = [rid]"
    using inv(7) [of k] by (metis One_nat_def length_0_conv length_Suc_conv le_Suc_eq le_zero_eq)
  then show ?thesis
  proof cases
    case 1
    then show ?thesis using that(1) by (simp add: CloseByKeyID_def)
  next
    case 2
    then obtain i where "gm_get (rg_streams r) rid = Some i" "k \<noteq> ''''"
      "ar_KeyID (st_runtime (stream_at r i)) = k" using inv(6) [of rid k] by auto
    with 2 show ?thesis using that(2) by (simp add: CloseByKeyID_def)
  qed
qed

section \<open>The registry under any sequence of operations\<close>

text \<open>What the handlers, the revocation hooks and the calls do to the registry, one at a time.\<close>

datatype registry_op =
    Op_Register auth_runtime go_time
  | Op_Unregister string
  | Op_CloseByKeyID string
  | Op_CloseByRuntimeID string
  | Op_Touch stream_id go_time
  | Op_SetSender stream_id "runtime_frame \<Rightarrow> go_error option"
  | Op_Send stream_id runtime_frame
  | Op_RegisterCall stream_id string
  | Op_UnregisterCall stream_id string
  | Op_Deliver stream_id runtime_frame

fun apply_op :: "registry_op \<Rightarrow> registry \<Rightarrow> registry" where
  "apply_op (Op_Register rt now) r = fst (Register r rt now)"
| "apply_op (Op_Unregister rid) r = Unregister rid r"
| "apply_op (Op_CloseByKeyID k) r = fst (CloseByKeyID k r)"
| "apply_op (Op_CloseByRuntimeID rid) r = fst (CloseByRuntimeID rid r)"
| "apply_op (Op_Touch i at) r = update_stream i (touch at) r"
| "apply_op (Op_SetSender i send) r = update_stream i (setSender send) r"
| "apply_op (Op_Send i f) r = update_stream i (\<lambda>s. fst (sendFrame s f)) r"
| "apply_op (Op_RegisterCall i cid) r = update_stream i (\<lambda>s. snd (registerCall cid s)) r"
| "apply_op (Op_UnregisterCall i cid) r = update_stream i (unregisterCall cid) r"
| "apply_op (Op_Deliver i f) r = update_stream i (\<lambda>s. snd (deliver f s)) r"

lemma stream_ops_keep [simp]:
  "st_runtime (touch at s) = st_runtime s" "st_closed (touch at s) = st_closed s"
  "st_runtime (setSender send s) = st_runtime s" "st_closed (setSender send s) = st_closed s"
  "st_runtime (fst (sendFrame s f)) = st_runtime s" "st_closed (fst (sendFrame s f)) = st_closed s"
  "st_runtime (snd (registerCall cid s)) = st_runtime s" "st_closed (snd (registerCall cid s)) = st_closed s"
  "st_runtime (unregisterCall cid s) = st_runtime s" "st_closed (unregisterCall cid s) = st_closed s"
  "st_runtime (snd (deliver f s)) = st_runtime s" "st_closed (snd (deliver f s)) = st_closed s"
  by (auto simp: touch_def setSender_def sendFrame_def registerCall_def unregisterCall_def deliver_def
      Let_def split: option.splits)

lemma apply_op_inv: "registry_inv r \<Longrightarrow> registry_inv (apply_op op r)"
  by (cases op) (auto intro: Register_inv Unregister_inv CloseByKeyID_inv CloseByRuntimeID_inv update_stream_inv)

lemma fold_apply_op_inv: "registry_inv r \<Longrightarrow> registry_inv (fold apply_op ops r)"
  by (induction ops arbitrary: r) (auto intro: apply_op_inv)

section \<open>The interface the callers of a runtime rely on\<close>

text \<open>
  Every call to a runtime looks its stream up by user and runtime. What the lookup promises is all
  the delivery paths need: the frame goes to an open stream authenticated for that user and runtime.
\<close>

locale stream_directory =
  fixes find :: "'r \<Rightarrow> int \<Rightarrow> string \<Rightarrow> 'i option"
    and runtime_of :: "'r \<Rightarrow> 'i \<Rightarrow> auth_runtime"
    and open_at :: "'r \<Rightarrow> 'i \<Rightarrow> bool"
    and inv :: "'r \<Rightarrow> bool"
  assumes find_user: "inv r \<Longrightarrow> find r u rid = Some i \<Longrightarrow> ar_UserID (runtime_of r i) = u"
    and find_runtime: "inv r \<Longrightarrow> find r u rid = Some i \<Longrightarrow> ar_RuntimeID (runtime_of r i) = rid"
    and find_open: "inv r \<Longrightarrow> find r u rid = Some i \<Longrightarrow> open_at r i"
begin

lemma find_isolated:
  "inv r \<Longrightarrow> find r u rid = Some i \<Longrightarrow> find r u' rid' = Some i \<Longrightarrow> u' = u \<and> rid' = rid"
  using find_user find_runtime by metis

lemma find_unique_user:
  "inv r \<Longrightarrow> find r u rid = Some i \<Longrightarrow> find r u' rid = Some i' \<Longrightarrow> i = i' \<Longrightarrow> u = u'"
  using find_user by metis

end

interpretation reg: stream_directory FindByRuntimeID "\<lambda>r i. st_runtime (stream_at r i)"
    "\<lambda>r i. \<not> st_closed (stream_at r i)" registry_inv
proof (unfold_locales, goal_cases)
  case (1 r u rid i)
  then show ?case by (auto simp: FindByRuntimeID_def split: if_splits option.splits)
next
  case (2 r u rid i)
  then show ?case using registry_invD(4)
    by (auto simp: FindByRuntimeID_def split: if_splits option.splits)
next
  case (3 r u rid i)
  then show ?case using registry_inv_open
    by (auto simp: FindByRuntimeID_def split: if_splits option.splits)
qed

lemma CloseByKeyID_effect:
  assumes "registry_inv r" "CloseByKeyID k r = (r', closed)" "k \<noteq> ''''"
  shows "(\<forall>i < length (rg_store r). ar_KeyID (st_runtime (stream_at r i)) = k \<longrightarrow> st_closed (stream_at r' i)) \<and>
    (\<forall>i < length (rg_store r). ar_KeyID (st_runtime (stream_at r i)) \<noteq> k \<longrightarrow> stream_at r' i = stream_at r i) \<and>
    key_set r' k = [] \<and> set closed = {i. i < length (rg_store r) \<and> ar_KeyID (st_runtime (stream_at r i)) = k \<and>
      \<not> st_closed (stream_at r i)}"
proof -
  note inv = registry_invD [OF assms(1)]
  have reg: "ar_RuntimeID (st_runtime (stream_at r i)) \<in> set (key_set r k)"
    if "i < length (rg_store r)" "ar_KeyID (st_runtime (stream_at r i)) = k" "\<not> st_closed (stream_at r i)" for i
    using that inv(5) [OF that(1)] inv(6) [of "ar_RuntimeID (st_runtime (stream_at r i))" k] assms(3) by auto
  show ?thesis
    using CloseByKeyID_cases [OF assms(1), of k]
  proof cases
    case 1
    then show ?thesis using reg assms(2) by fastforce
  next
    case (2 rid i)
    have i: "i < length (rg_store r)" "ar_RuntimeID (st_runtime (stream_at r i)) = rid"
      "\<not> st_closed (stream_at r i)"
      using inv(3,4) registry_inv_open [OF assms(1)] 2(2) by blast+
    have only: "j = i" if "j < length (rg_store r)" "ar_KeyID (st_runtime (stream_at r j)) = k"
      "\<not> st_closed (stream_at r j)" for j
      using reg [OF that] inv(5) [OF that(1)] that(3) 2(1,2) by simp
    have r': "r' = close_and_remove i r" "closed = [i]" using 2(5) assms(2) by simp_all
    have "st_closed (stream_at r' j)"
      if "j < length (rg_store r)" "ar_KeyID (st_runtime (stream_at r j)) = k" for j
      using only [OF that] that i by (cases "j = i") (auto simp: r')
    moreover have "stream_at r' j = stream_at r j"
      if "ar_KeyID (st_runtime (stream_at r j)) \<noteq> k" for j
      using that 2(4) by (cases "j = i") (auto simp: r')
    moreover have "key_set r' k = []"
      using 2(1) close_and_remove_keys(1) [OF assms(1) 2(2)] by (simp add: r')
    moreover have "set closed = {i. i < length (rg_store r) \<and> ar_KeyID (st_runtime (stream_at r i)) = k \<and>
      \<not> st_closed (stream_at r i)}"
      unfolding r'(2) list.set by (intro set_eqI iffI) (use i(1,3) 2(4) only in blast)+
    ultimately show ?thesis by blast
  qed
qed

section \<open>Properties\<close>

text \<open>C30. Whatever sequence of operations the handlers, the calls and the revocations perform, the two
  indices of the registry agree: a stream is open exactly when it is the registered stream of its
  runtime, and a credential key never has two connected runtimes.
\<close>
theorem registry_double_index: "registry_inv (fold apply_op ops NewRegistry)"
  by (rule fold_apply_op_inv) simp

text \<open>Revoking a key closes every stream of that key, wherever it is held, empties the key's set,
  and leaves the streams of the other keys and their lookups as they were.
\<close>
theorem revoke_closes_exactly_the_key:
  assumes "registry_inv r" "CloseByKeyID k r = (r', closed)" "k \<noteq> ''''"
  shows "(\<forall>i < length (rg_store r). ar_KeyID (st_runtime (stream_at r i)) = k \<longrightarrow> st_closed (stream_at r' i)) \<and>
    (\<forall>i < length (rg_store r). ar_KeyID (st_runtime (stream_at r i)) \<noteq> k \<longrightarrow> stream_at r' i = stream_at r i) \<and>
    key_set r' k = [] \<and> set closed = {i. i < length (rg_store r) \<and> ar_KeyID (st_runtime (stream_at r i)) = k \<and>
      \<not> st_closed (stream_at r i)}"
  by (rule CloseByKeyID_effect [OF assms])

definition sample_runtime :: "string \<Rightarrow> string \<Rightarrow> int \<Rightarrow> auth_runtime" where
  "sample_runtime rid k uid =
     \<lparr>ar_KeyID = k, ar_UserID = uid, ar_RuntimeID = rid, ar_Name = ''rt-one'', ar_Source = SourceSelfHosted,
      ar_Role = RoleExecutor, ar_EndpointHost = '''', ar_GRPCPort = 0, ar_DebugPort = 0,
      ar_Capabilities = [], ar_ResourceProfile = '''', ar_Version = '''', ar_AuthenticatedAt = 0\<rparr>"

definition sample_registry :: registry where
  "sample_registry = fold apply_op [Op_Register (sample_runtime ''r1'' ''k1'' 7) 10,
     Op_Register (sample_runtime ''r2'' ''k2'' 7) 20] NewRegistry"

lemma sample_registry_inv: "registry_inv sample_registry"
  unfolding sample_registry_def by (rule fold_apply_op_inv) simp

theorem revoke_closes_exactly_the_key_witness:
  "st_closed (stream_at (fst (CloseByKeyID ''k1'' sample_registry)) 0) \<and>
   stream_at (fst (CloseByKeyID ''k1'' sample_registry)) 1 = stream_at sample_registry 1"
proof -
  have facts: "length (rg_store sample_registry) = 2"
    "ar_KeyID (st_runtime (stream_at sample_registry 0)) = ''k1''"
    "ar_KeyID (st_runtime (stream_at sample_registry 1)) = ''k2''"
    by code_simp+
  show ?thesis
    using revoke_closes_exactly_the_key [OF sample_registry_inv, of "''k1''"
        "fst (CloseByKeyID ''k1'' sample_registry)" "snd (CloseByKeyID ''k1'' sample_registry)"] facts
    by simp
qed

end
