(* ===== verification/FrameQueue.thy ===== *)
theory FrameQueue
  imports Frames
begin

text \<open>
  \<open>internal/runtimechannel/frame_queue.go\<close>: the bounded queue in which control frames
  overtake data frames, and the window of data chunks that were sent but not acknowledged.
\<close>

section \<open>The priority queue\<close>

record frame_queue =
  fq_capacity :: int
  fq_control :: "runtime_frame list"
  fq_data :: "runtime_frame list"

definition NewPriorityFrameQueue :: "int \<Rightarrow> frame_queue" where
  "NewPriorityFrameQueue capacity =
     \<lparr>fq_capacity = (if capacity \<le> 0 then 1 else capacity), fq_control = [], fq_data = []\<rparr>"

definition backpressure :: go_error where
  "backpressure = Sentinel ErrRuntimeDataBackpressure ''runtime data backpressure''"

definition is_control :: "runtime_frame \<Rightarrow> bool" where
  "is_control f = runtimeFrameIsControl (frame_type f)"

definition fq_size :: "frame_queue \<Rightarrow> int" where
  "fq_size q = int (length (fq_control q) + length (fq_data q))"

definition fq_enqueue :: "runtime_frame option \<Rightarrow> frame_queue \<Rightarrow> frame_queue \<times> go_error option" where
  "fq_enqueue frame q = (case frame of
       None \<Rightarrow> (q, None)
     | Some f \<Rightarrow>
         if fq_size q \<ge> fq_capacity q then (q, Some backpressure)
         else if is_control f then (q\<lparr>fq_control := fq_control q @ [f]\<rparr>, None)
         else (q\<lparr>fq_data := fq_data q @ [f]\<rparr>, None))"

definition fq_dequeue :: "frame_queue \<Rightarrow> frame_queue \<times> runtime_frame option" where
  "fq_dequeue q = (case fq_control q of
       f # fs \<Rightarrow> (q\<lparr>fq_control := fs\<rparr>, Some f)
     | [] \<Rightarrow> (case fq_data q of
           f # fs \<Rightarrow> (q\<lparr>fq_data := fs\<rparr>, Some f)
         | [] \<Rightarrow> (q, None)))"

text \<open>A client's sequence of calls, with what was accepted and what came out, in order.\<close>

datatype queue_op = Enq runtime_frame | Deq

fun run_queue :: "queue_op list \<Rightarrow> frame_queue \<Rightarrow> runtime_frame list \<times> runtime_frame list \<times> frame_queue" where
  "run_queue [] q = ([], [], q)"
| "run_queue (Enq f # ops) q =
     (let (q1, err) = fq_enqueue (Some f) q; (ins, outs, q2) = run_queue ops q1
      in (if err = None then f # ins else ins, outs, q2))"
| "run_queue (Deq # ops) q =
     (let (q1, f) = fq_dequeue q; (ins, outs, q2) = run_queue ops q1
      in (ins, (case f of None \<Rightarrow> outs | Some x \<Rightarrow> x # outs), q2))"

definition queue_inv :: "frame_queue \<Rightarrow> bool" where
  "queue_inv q \<longleftrightarrow> 0 < fq_capacity q \<and> fq_size q \<le> fq_capacity q \<and>
     list_all is_control (fq_control q) \<and> list_all (\<lambda>f. \<not> is_control f) (fq_data q)"

text \<open>
  The contract of a bounded queue with two classes: an accepted item is appended to its class, a
  removed one is the first of the urgent class if there is one, else the first of the other.
\<close>

locale two_class_queue =
  fixes enq :: "'f \<Rightarrow> 'q \<Rightarrow> 'q \<times> bool"
    and deq :: "'q \<Rightarrow> 'q \<times> 'f option"
    and urgent :: "'f \<Rightarrow> bool"
    and class_of :: "bool \<Rightarrow> 'q \<Rightarrow> 'f list"
    and inv :: "'q \<Rightarrow> bool"
  assumes enq_inv: "inv q \<Longrightarrow> enq f q = (q', ok) \<Longrightarrow> inv q'"
    and enq_ok: "inv q \<Longrightarrow> enq f q = (q', True) \<Longrightarrow>
      class_of b q' = (if b = urgent f then class_of b q @ [f] else class_of b q)"
    and enq_full: "inv q \<Longrightarrow> enq f q = (q', False) \<Longrightarrow> q' = q"
    and deq_inv: "inv q \<Longrightarrow> deq q = (q', r) \<Longrightarrow> inv q'"
    and deq_some: "inv q \<Longrightarrow> deq q = (q', Some f) \<Longrightarrow>
      class_of (urgent f) q = f # class_of (urgent f) q' \<and>
      class_of (\<not> urgent f) q' = class_of (\<not> urgent f) q \<and> (\<not> urgent f \<longrightarrow> class_of True q = [])"
    and deq_none: "inv q \<Longrightarrow> deq q = (q', None) \<Longrightarrow> q' = q \<and> class_of True q = [] \<and> class_of False q = []"
begin

fun run :: "'f option list \<Rightarrow> 'q \<Rightarrow> 'f list \<times> 'f list \<times> 'q" where
  "run [] q = ([], [], q)"
| "run (Some f # ops) q =
     (let (q1, ok) = enq f q; (ins, outs, q2) = run ops q1 in (if ok then f # ins else ins, outs, q2))"
| "run (None # ops) q =
     (let (q1, r) = deq q; (ins, outs, q2) = run ops q1
      in (ins, (case r of None \<Rightarrow> outs | Some x \<Rightarrow> x # outs), q2))"

lemma run_inv: "inv q \<Longrightarrow> run ops q = (ins, outs, q') \<Longrightarrow> inv q'"
  by (induction ops q arbitrary: ins outs rule: run.induct)
    (auto split: prod.splits dest: enq_inv deq_inv)

lemma fifo_per_class:
  "inv q \<Longrightarrow> run ops q = (ins, outs, q') \<Longrightarrow>
     class_of b q @ filter (\<lambda>f. urgent f = b) ins = filter (\<lambda>f. urgent f = b) outs @ class_of b q'"
proof (induction ops q arbitrary: ins outs rule: run.induct)
  case (2 f ops q)
  obtain q1 ok where e: "enq f q = (q1, ok)" by force
  obtain ins1 where r: "run ops q1 = (ins1, outs, q')" "ins = (if ok then f # ins1 else ins1)"
    using 2(3) e by (auto split: prod.splits)
  have "class_of b q1 @ filter (\<lambda>f. urgent f = b) ins1 = filter (\<lambda>f. urgent f = b) outs @ class_of b q'"
    using 2(1) [OF e [symmetric] refl enq_inv [OF 2(2) e] r(1)] .
  then show ?case using enq_ok [OF 2(2), of f q1 b] enq_full [OF 2(2), of f q1] e r(2)
    by (cases ok) auto
next
  case (3 ops q)
  obtain q1 r where d: "deq q = (q1, r)" by force
  obtain outs1 where run: "run ops q1 = (ins, outs1, q')"
    "outs = (case r of None \<Rightarrow> outs1 | Some x \<Rightarrow> x # outs1)"
    using 3(3) d by (auto split: prod.splits)
  have ih: "class_of b q1 @ filter (\<lambda>f. urgent f = b) ins = filter (\<lambda>f. urgent f = b) outs1 @ class_of b q'"
    using 3(1) [OF d [symmetric] refl deq_inv [OF 3(2) d] run(1)] .
  show ?case
  proof (cases r)
    case None
    then show ?thesis using ih run(2) deq_none [OF 3(2)] d by simp
  next
    case (Some f)
    then show ?thesis using ih run(2) deq_some [OF 3(2), of q1 f] d
      by (cases "urgent f = b") auto
  qed
qed simp

end

definition fq_class :: "bool \<Rightarrow> frame_queue \<Rightarrow> runtime_frame list" where
  "fq_class b q = (if b then fq_control q else fq_data q)"

interpretation fq: two_class_queue
  "\<lambda>f q. (fst (fq_enqueue (Some f) q), snd (fq_enqueue (Some f) q) = None)" fq_dequeue is_control fq_class queue_inv
  by (unfold_locales)
    (auto simp: fq_enqueue_def fq_dequeue_def fq_class_def queue_inv_def fq_size_def
      split: if_splits list.splits)

lemma run_queue_fq:
  "run_queue ops q = fq.run (map (\<lambda>op. case op of Enq f \<Rightarrow> Some f | Deq \<Rightarrow> None) ops) q"
proof (induction ops arbitrary: q)
  case (Cons op ops)
  then show ?case by (cases op) (simp_all add: split_beta)
qed simp

lemma NewPriorityFrameQueue_inv: "queue_inv (NewPriorityFrameQueue c)"
  by (simp add: queue_inv_def NewPriorityFrameQueue_def fq_size_def)

section \<open>Properties of the queue\<close>

text \<open>After any calls, each class comes out in the order it was accepted, nothing is lost or
  invented, a data frame is handed out only when no control frame waits, and the queue never holds
  more than its capacity.
\<close>
theorem priority_queue_order:
  "(let (accepted, delivered, q) = run_queue ops (NewPriorityFrameQueue capacity) in
     filter is_control accepted = filter is_control delivered @ fq_control q \<and>
     filter (\<lambda>f. \<not> is_control f) accepted = filter (\<lambda>f. \<not> is_control f) delivered @ fq_data q \<and>
     fq_size q \<le> fq_capacity q \<and>
     (case snd (fq_dequeue q) of Some f \<Rightarrow> is_control f \<or> fq_control q = [] | None \<Rightarrow> fq_size q = 0))"
proof -
  let ?q0 = "NewPriorityFrameQueue capacity"
  obtain ins outs q where r: "run_queue ops ?q0 = (ins, outs, q)" using prod_cases3 by blast
  note r' = r [unfolded run_queue_fq]
  have inv: "queue_inv q" by (rule fq.run_inv [OF NewPriorityFrameQueue_inv r'])
  have ctl: "filter is_control ins = filter is_control outs @ fq_control q"
    using fq.fifo_per_class [OF NewPriorityFrameQueue_inv r', of True]
    by (simp add: fq_class_def NewPriorityFrameQueue_def)
  have dat: "filter (\<lambda>f. \<not> is_control f) ins = filter (\<lambda>f. \<not> is_control f) outs @ fq_data q"
    using fq.fifo_per_class [OF NewPriorityFrameQueue_inv r', of False]
    by (simp add: fq_class_def NewPriorityFrameQueue_def)
  have "case snd (fq_dequeue q) of Some f \<Rightarrow> is_control f \<or> fq_control q = [] | None \<Rightarrow> fq_size q = 0"
    using inv by (auto simp: fq_dequeue_def fq_size_def queue_inv_def split: list.split)
  with inv ctl dat show ?thesis by (simp add: r queue_inv_def)
qed

end
