(* ===== verification/LiveDelivery.thy ===== *)
theory LiveDelivery
  imports StreamRegistry DataWindow
begin

text \<open>
  \<open>internal/runtimechannel/live_delivery.go\<close>: live klines, order events and dataset chunks on
  their way to a connected runtime. The state is the registry and the data window of the service;
  the transfer to another instance (\<open>RuntimeDataTransfer\<close>) is a parameter. A batch without a
  sequence number takes one from the window before its stream is looked up.
\<close>

section \<open>Batches\<close>

record channel_state =
  cs_registry :: registry
  cs_window :: data_window

record live_batch =
  lb_user :: int
  lb_runtime :: string
  lb_session :: string
  lb_stream :: string
  lb_sequence :: int
  lb_klines :: "any_msg list"

record dataset_delivery =
  dsd_user :: int
  dsd_runtime :: string
  dsd_session :: string
  dsd_dataset :: string
  dsd_sequence :: int
  dsd_payload :: string
  dsd_end :: bool

record order_batch =
  ob_user :: int
  ob_runtime :: string
  ob_session :: string
  ob_sequence :: int
  ob_events :: "any_msg list"

fun join :: "string \<Rightarrow> string list \<Rightarrow> string" where
  "join sep [] = []"
| "join sep [x] = x"
| "join sep (x # y # ys) = x @ sep @ join sep (y # ys)"

definition missingRuntimeStreamReason :: "registry \<Rightarrow> int \<Rightarrow> string \<Rightarrow> string" where
  "missingRuntimeStreamReason r userID rid =
     (let snapshot = Snapshot r;
          prefix = ''runtime connection is not owned by this control-panel instance: runtime_id='' @ rid @
            '' user_id='' @ format_int userID @ '' active_streams=''
      in if snapshot = [] then prefix @ ''0''
         else prefix @ join '','' (map (\<lambda>rt. ar_RuntimeID rt @ ''/user='' @ format_int (ar_UserID rt) @
                ''/source='' @ ar_Source rt) snapshot))"

section \<open>Delivery\<close>

text \<open>\<open>stream.sendFrame\<close> through the registry's store.\<close>
definition send_at :: "stream_id \<Rightarrow> runtime_frame \<Rightarrow> channel_state \<Rightarrow> channel_state \<times> go_error option" where
  "send_at i frame s =
     (s\<lparr>cs_registry := update_stream i (\<lambda>st. fst (sendFrame st frame)) (cs_registry s)\<rparr>,
      snd (sendFrame (stream_at (cs_registry s) i) frame))"

definition DeliverLiveKlineBatch ::
  "(live_batch \<Rightarrow> go_error option) option \<Rightarrow> go_time \<Rightarrow> live_batch \<Rightarrow> channel_state \<Rightarrow> channel_state \<times> go_error option" where
  "DeliverLiveKlineBatch transfer now b s =
     (if lb_user b \<le> 0 \<or> lb_runtime b = '''' \<or> lb_session b = '''' \<or> lb_stream b = ''''
      then (s, Some (Status InvalidArgument ''user_id, runtime_id, session_id, and stream_key are required''))
      else
        let (w, r) = (if lb_sequence b \<le> 0 then dw_enqueue (lb_session b) (lb_stream b) [] now (cs_window s)
                      else (cs_window s, Inr \<lparr>dc_session = lb_session b, dc_stream = lb_stream b,
                              dc_sequence = lb_sequence b, dc_payload = [], dc_sent_at = now\<rparr>));
            s1 = s\<lparr>cs_window := w\<rparr>
        in case r of
             Inl e \<Rightarrow> (s1, Some e)
           | Inr chunk \<Rightarrow>
               (let seq = dc_sequence chunk;
                    frame = \<lparr>correlation_id = '''', frame_type = FT_LIVE_KLINE_BATCH, deadline_unix_ms = 0,
                             payload = P_LiveKlineBatch (lb_session b) (lb_stream b) seq (lb_klines b)\<rparr>
                in case FindByRuntimeID (cs_registry s1) (lb_user b) (lb_runtime b) of
                     Some i \<Rightarrow> send_at i frame s1
                   | None \<Rightarrow> (s1, (case transfer of
                         Some f \<Rightarrow> f (b\<lparr>lb_sequence := seq\<rparr>)
                       | None \<Rightarrow> Some (Status Unavailable
                           (missingRuntimeStreamReason (cs_registry s1) (lb_user b) (lb_runtime b)))))))"

definition DeliverOrderLifecycleBatch :: "order_batch \<Rightarrow> channel_state \<Rightarrow> channel_state \<times> go_error option" where
  "DeliverOrderLifecycleBatch b s =
     (if ob_user b \<le> 0 \<or> ob_runtime b = '''' \<or> ob_session b = ''''
      then (s, Some (Status InvalidArgument ''user_id, runtime_id, and session_id are required''))
      else if ob_events b = [] then (s, None)
      else
        let seq = (if ob_sequence b \<le> 0 then int (length (ob_events b)) else ob_sequence b);
            frame = \<lparr>correlation_id = '''', frame_type = FT_ORDER_UPDATE_BATCH, deadline_unix_ms = 0,
                     payload = P_OrderUpdateBatch (ob_session b) ''order_lifecycle'' seq (ob_events b)\<rparr>
        in case FindByRuntimeID (cs_registry s) (ob_user b) (ob_runtime b) of
             None \<Rightarrow> (s, Some (Status Unavailable
               (missingRuntimeStreamReason (cs_registry s) (ob_user b) (ob_runtime b))))
           | Some i \<Rightarrow> send_at i frame s)"

definition DeliverDatasetChunk :: "go_time \<Rightarrow> dataset_delivery \<Rightarrow> channel_state \<Rightarrow> channel_state \<times> go_error option" where
  "DeliverDatasetChunk now c s =
     (if dsd_user c \<le> 0 \<or> dsd_runtime c = '''' \<or> dsd_session c = '''' \<or> dsd_dataset c = ''''
      then (s, Some (Status InvalidArgument ''user_id, runtime_id, session_id, and dataset_id are required''))
      else
        let (w, r) = (if dsd_sequence c \<le> 0
                      then dw_enqueue (dsd_session c) (dsd_dataset c) (dsd_payload c) now (cs_window s)
                      else (cs_window s, Inr \<lparr>dc_session = dsd_session c, dc_stream = dsd_dataset c,
                              dc_sequence = dsd_sequence c, dc_payload = dsd_payload c, dc_sent_at = now\<rparr>));
            s1 = s\<lparr>cs_window := w\<rparr>
        in case r of
             Inl e \<Rightarrow> (s1, Some e)
           | Inr chunk \<Rightarrow>
               (let frame = \<lparr>correlation_id = '''', frame_type = FT_DATASET_CHUNK, deadline_unix_ms = 0,
                             payload = P_DatasetChunk (dsd_dataset c) (dsd_session c) (dc_sequence chunk)
                               (dsd_payload c) (dsd_end c)\<rparr>
                in case FindByRuntimeID (cs_registry s1) (dsd_user c) (dsd_runtime c) of
                     None \<Rightarrow> (s1, Some (Status Unavailable
                       ''runtime connection is not owned by this control-panel instance''))
                   | Some i \<Rightarrow> send_at i frame s1))"

definition handleRuntimeDataAck :: "runtime_frame \<Rightarrow> channel_state \<Rightarrow> channel_state" where
  "handleRuntimeDataAck frame s = (case payload frame of
       P_DataAck sid key seq \<Rightarrow> s\<lparr>cs_window := fst (dw_ack sid key seq (cs_window s))\<rparr>
     | _ \<Rightarrow> s)"

text \<open>\<open>RunLiveDeliveryLoop\<close> over what the source yields; \<open>None\<close> means it still waits for the source.\<close>
fun RunLiveDeliveryLoop ::
  "(live_batch \<Rightarrow> go_error option) option \<Rightarrow> (live_batch result \<times> go_time) list \<Rightarrow> channel_state
     \<Rightarrow> channel_state \<times> go_error option option" where
  "RunLiveDeliveryLoop transfer [] s = (s, None)"
| "RunLiveDeliveryLoop transfer ((Inl e, now) # rest) s =
     (s, Some (if errors_Is e ErrEOF then None else Some e))"
| "RunLiveDeliveryLoop transfer ((Inr b, now) # rest) s =
     (case DeliverLiveKlineBatch transfer now b s of
        (s', Some e) \<Rightarrow> (s', Some (Some e))
      | (s', None) \<Rightarrow> RunLiveDeliveryLoop transfer rest s')"

section \<open>Delivery reaches the owner's stream only\<close>

definition sent_by :: "channel_state \<Rightarrow> stream_id \<Rightarrow> runtime_frame list" where
  "sent_by s i = st_sent (stream_at (cs_registry s) i)"

lemma sendFrame_sent:
  "st_sent (fst (sendFrame st f)) = st_sent st @ (if snd (sendFrame st f) = None then [f] else [])"
  by (auto simp: sendFrame_def split: option.splits)

lemma send_at_other: "j \<noteq> i \<Longrightarrow> sent_by (fst (send_at i f s)) j = sent_by s j"
  by (simp add: send_at_def sent_by_def update_stream_def)

lemma FindByRuntimeID_lt:
  "registry_inv r \<Longrightarrow> FindByRuntimeID r u rid = Some i \<Longrightarrow> i < length (rg_store r)"
  using registry_invD(3) by (auto simp: FindByRuntimeID_def split: if_splits option.splits)

lemma send_at_found:
  assumes "registry_inv (cs_registry s)" "FindByRuntimeID (cs_registry s) u rid = Some i"
    "send_at i f s = (s', err)"
  shows "sent_by s' j = sent_by s j @ (if err = None \<and> FindByRuntimeID (cs_registry s) u rid = Some j then [f] else [])"
  using assms FindByRuntimeID_lt [OF assms(1,2)] sendFrame_sent [of "stream_at (cs_registry s) i" f]
  by (cases "j = i") (auto simp: send_at_def sent_by_def update_stream_def)

definition live_valid :: "live_batch \<Rightarrow> bool" where
  "live_valid b \<longleftrightarrow> 0 < lb_user b \<and> lb_runtime b \<noteq> '''' \<and> lb_session b \<noteq> '''' \<and> lb_stream b \<noteq> ''''"

definition live_frame :: "live_batch \<Rightarrow> int \<Rightarrow> runtime_frame" where
  "live_frame b seq = \<lparr>correlation_id = [], frame_type = FT_LIVE_KLINE_BATCH, deadline_unix_ms = 0,
     payload = P_LiveKlineBatch (lb_session b) (lb_stream b) seq (lb_klines b)\<rparr>"

lemma live_cases:
  assumes "DeliverLiveKlineBatch transfer now b s = (s', err)"
  obtains (kept) "cs_registry s' = cs_registry s"
  | (sent) i w seq where "FindByRuntimeID (cs_registry s) (lb_user b) (lb_runtime b) = Some i"
      "send_at i (live_frame b seq) (s\<lparr>cs_window := w\<rparr>) = (s', err)"
proof (cases "live_valid b")
  case False
  then show ?thesis using assms kept by (auto simp: DeliverLiveKlineBatch_def live_valid_def not_le)
next
  case True
  define q where "q = (if lb_sequence b \<le> 0 then dw_enqueue (lb_session b) (lb_stream b) [] now (cs_window s)
      else (cs_window s, Inr \<lparr>dc_session = lb_session b, dc_stream = lb_stream b,
              dc_sequence = lb_sequence b, dc_payload = [], dc_sent_at = now\<rparr>))"
  obtain w r where q': "q = (w, r)" by force
  have d: "DeliverLiveKlineBatch transfer now b s = (case r of
       Inl e \<Rightarrow> (s\<lparr>cs_window := w\<rparr>, Some e)
     | Inr chunk \<Rightarrow> (case FindByRuntimeID (cs_registry s) (lb_user b) (lb_runtime b) of
         Some i \<Rightarrow> send_at i (live_frame b (dc_sequence chunk)) (s\<lparr>cs_window := w\<rparr>)
       | None \<Rightarrow> (s\<lparr>cs_window := w\<rparr>, (case transfer of
             Some f \<Rightarrow> f (b\<lparr>lb_sequence := dc_sequence chunk\<rparr>)
           | None \<Rightarrow> Some (Status Unavailable
               (missingRuntimeStreamReason (cs_registry s) (lb_user b) (lb_runtime b)))))))"
    using True q' unfolding DeliverLiveKlineBatch_def live_valid_def live_frame_def q_def Let_def
    by (cases r) (simp_all split del: if_split split: option.split)
  show ?thesis
  proof (cases r)
    case (Inl e)
    then show ?thesis using assms d kept by auto
  next
    case (Inr chunk)
    show ?thesis
    proof (cases "FindByRuntimeID (cs_registry s) (lb_user b) (lb_runtime b)")
      case None
      then show ?thesis using assms d Inr kept by auto
    next
      case (Some i)
      then show ?thesis using assms d Inr sent by simp
    qed
  qed
qed

lemma live_sent:
  assumes "registry_inv (cs_registry s)" "DeliverLiveKlineBatch transfer now b s = (s', err)"
  shows "sent_by s' j = sent_by s j \<or>
    (err = None \<and> FindByRuntimeID (cs_registry s) (lb_user b) (lb_runtime b) = Some j \<and>
     (\<exists>seq. sent_by s' j = sent_by s j @ [live_frame b seq]))"
  using assms(2)
proof (cases rule: live_cases)
  case kept
  then show ?thesis by (simp add: sent_by_def)
next
  case (sent i w seq)
  have "sent_by s' j = sent_by (s\<lparr>cs_window := w\<rparr>) j @
      (if err = None \<and> FindByRuntimeID (cs_registry s) (lb_user b) (lb_runtime b) = Some j then [live_frame b seq] else [])"
    using send_at_found [OF _ _ sent(2), of "lb_user b" "lb_runtime b" j] assms(1) sent(1) by simp
  then show ?thesis by (auto simp: sent_by_def split: if_splits)
qed

section \<open>Undeliverable batches\<close>

text \<open>
  A batch for a runtime without a stream on this instance takes a slot of the window and keeps it:
  the error path does not give it back and nobody can acknowledge a frame that was not sent.
\<close>

definition undeliverable :: "registry \<Rightarrow> live_batch \<Rightarrow> bool" where
  "undeliverable r b \<longleftrightarrow> live_valid b \<and> lb_sequence b \<le> 0 \<and> FindByRuntimeID r (lb_user b) (lb_runtime b) = None"

definition open_slots :: "data_window \<Rightarrow> int" where
  "open_slots w = dw_capacity w - int (length (dw_unacked w))"

lemma undeliverable_step:
  fixes now :: go_time
  assumes "window_inv n (cs_window s)" "n < 2 ^ 63 - 1" "undeliverable (cs_registry s) b"
  defines "s' \<equiv> fst (DeliverLiveKlineBatch None now b s)"
  shows "cs_registry s' = cs_registry s" "window_inv (n + 1) (cs_window s')"
    "snd (DeliverLiveKlineBatch None now b s) \<noteq> None"
    "open_slots (cs_window s') = max 0 (open_slots (cs_window s) - 1)"
proof -
  let ?w = "cs_window s"
  obtain w r where e: "dw_enqueue (lb_session b) (lb_stream b) [] now ?w = (w, r)" by force
  have inv: "window_inv (n + 1) w" using dw_enqueue_inv [OF assms(1,2)] e by (metis fst_conv)
  have cap: "dw_capacity w = dw_capacity ?w" "int (length (dw_unacked ?w)) \<le> dw_capacity ?w"
    using e assms(1) by (auto simp: dw_enqueue_def Let_def window_inv_def split: if_splits)
  have cases: "if int (length (dw_unacked ?w)) < dw_capacity ?w
       then (\<exists>c. r = Inr c) \<and> length (dw_unacked w) = Suc (length (dw_unacked ?w))
       else r = Inl backpressure \<and> w = ?w"
    using dw_enqueue_cases [OF assms(1,2) e] by (auto split: if_splits)
  have d: "DeliverLiveKlineBatch None now b s =
      (s\<lparr>cs_window := w\<rparr>, Some (case r of Inl e \<Rightarrow> e
        | Inr c \<Rightarrow> Status Unavailable (missingRuntimeStreamReason (cs_registry s) (lb_user b) (lb_runtime b))))"
    using assms(3) e by (auto simp: DeliverLiveKlineBatch_def undeliverable_def live_valid_def Let_def split: sum.split)
  show "cs_registry s' = cs_registry s" "window_inv (n + 1) (cs_window s')"
    "snd (DeliverLiveKlineBatch None now b s) \<noteq> None"
    using inv by (simp_all add: d s'_def)
  show "open_slots (cs_window s') = max 0 (open_slots ?w - 1)"
    using cases cap by (auto simp: d s'_def open_slots_def split: if_splits)
qed

lemma undeliverable_all:
  assumes "window_inv n (cs_window s)" "n + int (length bs) < 2 ^ 63"
    "\<forall>b\<in>set bs. undeliverable (cs_registry s) b"
  shows "\<exists>m \<le> n + int (length bs). window_inv m (cs_window (fold (\<lambda>b s. fst (DeliverLiveKlineBatch None now b s)) bs s)) \<and>
    open_slots (cs_window (fold (\<lambda>b s. fst (DeliverLiveKlineBatch None now b s)) bs s)) =
      max 0 (open_slots (cs_window s) - int (length bs))"
  using assms
proof (induction bs arbitrary: n s)
  case Nil
  then show ?case by (auto simp: open_slots_def window_inv_def)
next
  case (Cons b bs)
  let ?s = "fst (DeliverLiveKlineBatch None now b s)"
  note step = undeliverable_step [OF Cons.prems(1) _ , of b now]
  have b: "undeliverable (cs_registry s) b" "n < 2 ^ 63 - 1" using Cons.prems by auto
  have "\<exists>m \<le> n + 1 + int (length bs). window_inv m (cs_window (fold (\<lambda>b s. fst (DeliverLiveKlineBatch None now b s)) bs ?s)) \<and>
    open_slots (cs_window (fold (\<lambda>b s. fst (DeliverLiveKlineBatch None now b s)) bs ?s)) =
      max 0 (open_slots (cs_window ?s) - int (length bs))"
    using Cons.prems step(1,2) [OF b(2,1)] by (intro Cons.IH) auto
  then show ?case using step(4) [OF b(2,1)] by (auto simp: algebra_simps)
qed

section \<open>Properties\<close>

text \<open>A live kline batch reaches at most one stream, and only an open stream that was authenticated
  for the batch's user and runtime; every other stream is untouched.
\<close>
theorem live_batch_reaches_only_its_runtime:
  assumes "registry_inv (cs_registry s)" "DeliverLiveKlineBatch transfer now b s = (s', err)"
    and "sent_by s' j \<noteq> sent_by s j"
  shows "err = None \<and> ar_UserID (st_runtime (stream_at (cs_registry s) j)) = lb_user b \<and>
    ar_RuntimeID (st_runtime (stream_at (cs_registry s) j)) = lb_runtime b \<and>
    \<not> st_closed (stream_at (cs_registry s) j) \<and> length (sent_by s' j) = Suc (length (sent_by s j))"
proof -
  have f: "FindByRuntimeID (cs_registry s) (lb_user b) (lb_runtime b) = Some j" "err = None"
    "length (sent_by s' j) = Suc (length (sent_by s j))"
    using live_sent [OF assms(1,2), of j] assms(3) by auto
  then show ?thesis using reg.find_user reg.find_runtime reg.find_open assms(1) by blast
qed

definition sample_state :: channel_state where
  "sample_state = \<lparr>cs_registry = apply_op (Op_SetSender 0 (\<lambda>_. None)) sample_registry,
     cs_window = NewRuntimeDataWindow 1\<rparr>"

definition sample_batch :: "string \<Rightarrow> live_batch" where
  "sample_batch rid = \<lparr>lb_user = 7, lb_runtime = rid, lb_session = ''s'', lb_stream = ''btc'',
     lb_sequence = 0, lb_klines = []\<rparr>"

theorem live_batch_reaches_only_its_runtime_witness:
  "length (sent_by (fst (DeliverLiveKlineBatch None 5 (sample_batch ''r1'') sample_state)) 0) = 1"
proof -
  have inv: "registry_inv (cs_registry sample_state)"
    unfolding sample_state_def channel_state.select_convs by (rule apply_op_inv [OF sample_registry_inv])
  have "sent_by sample_state 0 = []" by code_simp
  moreover have "sent_by (fst (DeliverLiveKlineBatch None 5 (sample_batch ''r1'') sample_state)) 0 \<noteq> []"
    by code_simp
  ultimately show ?thesis
    using live_batch_reaches_only_its_runtime [OF inv prod.collapse [symmetric], of None 5 "sample_batch ''r1''" 0]
    by simp
qed

text \<open>Undeliverable batches exhaust the window: once as many batches as there are open slots have
  been tried for a runtime without a stream, every later batch without a sequence number, of any
  user, runtime and session, is refused with backpressure.
\<close>
theorem undeliverable_batches_block_every_session:
  assumes "window_inv n (cs_window s)" "n + int (length bs) < 2 ^ 63 - 1"
    and "\<forall>b\<in>set bs. undeliverable (cs_registry s) b"
    and "open_slots (cs_window s) \<le> int (length bs)"
    and "live_valid b'" "lb_sequence b' \<le> 0"
  shows "snd (DeliverLiveKlineBatch transfer now' b'
           (fold (\<lambda>b s. fst (DeliverLiveKlineBatch None now b s)) bs s)) = Some backpressure"
proof -
  let ?s = "fold (\<lambda>b s. fst (DeliverLiveKlineBatch None now b s)) bs s"
  have "open_slots (cs_window ?s) = 0"
    using undeliverable_all [of n s bs now] assms(1-4) by auto
  then show ?thesis using assms(5,6)
    by (auto simp: DeliverLiveKlineBatch_def live_valid_def open_slots_def dw_enqueue_def)
qed

theorem undeliverable_batches_block_every_session_witness:
  "snd (DeliverLiveKlineBatch None 6 (sample_batch ''r1'')
     (fst (DeliverLiveKlineBatch None 5 (sample_batch ''gone'') sample_state))) = Some backpressure"
proof -
  have w: "cs_window sample_state = NewRuntimeDataWindow 1" by (simp add: sample_state_def)
  have "window_inv 0 (cs_window sample_state)" unfolding w by (rule NewRuntimeDataWindow_inv)
  moreover have "undeliverable (cs_registry sample_state) (sample_batch ''gone'')" by code_simp
  moreover have "live_valid (sample_batch ''r1'')" "lb_sequence (sample_batch ''r1'') \<le> 0"
    by (simp_all add: live_valid_def sample_batch_def)
  moreover have "open_slots (cs_window sample_state) \<le> 1"
    by (simp add: w open_slots_def NewRuntimeDataWindow_def)
  ultimately show ?thesis
    using undeliverable_batches_block_every_session
      [of 0 sample_state "[sample_batch ''gone'']" "sample_batch ''r1''" None 6 5] by simp
qed

end
