(* ===== verification/Tables.thy ===== *)
theory Tables
  imports Domain
begin

text \<open>
  A database table is the list of its rows. \<open>UPDATE ... WHERE\<close>, \<open>DELETE\<close> and
  \<open>SELECT\<close> become \<open>map\<close> and \<open>filter\<close>; a statement is atomic, a transaction that returns
  an error leaves the table as it was. Two interfaces live here: a table with a primary key, and a
  lifecycle whose terminal rows stay as they are.
\<close>

section \<open>Statements\<close>

definition update_where :: "('r \<Rightarrow> bool) \<Rightarrow> ('r \<Rightarrow> 'r) \<Rightarrow> 'r list \<Rightarrow> 'r list" where
  "update_where P f t = map (\<lambda>r. if P r then f r else r) t"

text \<open>The row an \<open>UPDATE ... RETURNING\<close> on a key yields: the first match, after the change.\<close>
definition update_returning :: "('r \<Rightarrow> bool) \<Rightarrow> ('r \<Rightarrow> 'r) \<Rightarrow> 'r list \<Rightarrow> 'r list \<times> 'r result" where
  "update_returning P f t =
     (update_where P f t,
      case filter P t of [] \<Rightarrow> Inl (Sentinel ErrNotFound ''not found'') | r # _ \<Rightarrow> Inr (f r))"

definition select_one :: "('r \<Rightarrow> bool) \<Rightarrow> 'r list \<Rightarrow> 'r result" where
  "select_one P t = (case filter P t of [] \<Rightarrow> Inl (Sentinel ErrNotFound ''not found'') | r # _ \<Rightarrow> Inr r)"

definition coalesce :: "'a option \<Rightarrow> 'a \<Rightarrow> 'a option" where
  "coalesce x d = (case x of None \<Rightarrow> Some d | Some y \<Rightarrow> Some y)"

lemma coalesce_not_None [simp]: "coalesce x d \<noteq> None"
  by (simp add: coalesce_def split: option.split)

lemma coalesce_simps [simp]: "coalesce None d = Some d" "coalesce (Some y) d = Some y"
  by (simp_all add: coalesce_def)

text \<open>\<open>ORDER BY\<close> with \<open>LIMIT 1\<close>: the first of the least rows.\<close>
fun first_by :: "('r \<Rightarrow> 'o::linorder) \<Rightarrow> 'r list \<Rightarrow> 'r option" where
  "first_by f [] = None"
| "first_by f (r # rs) = (case first_by f rs of
     None \<Rightarrow> Some r | Some s \<Rightarrow> if f r \<le> f s then Some r else Some s)"

lemma first_by_None [simp]: "first_by f rs = None \<longleftrightarrow> rs = []"
  by (induction rs) (auto split: option.splits)

lemma first_by_Some: "first_by f rs = Some r \<Longrightarrow> r \<in> set rs \<and> (\<forall>s\<in>set rs. f r \<le> f s)"
proof (induction rs arbitrary: r)
  case (Cons x rs)
  show ?case
  proof (cases "first_by f rs")
    case None
    then show ?thesis using Cons.prems by simp
  next
    case (Some s)
    then show ?thesis using Cons.IH [OF Some] Cons.prems by (auto split: if_splits intro: order_trans)
  qed
qed simp

section \<open>Keyed tables\<close>

definition keys_ok :: "('r \<Rightarrow> 'k) \<Rightarrow> 'r list \<Rightarrow> bool" where
  "keys_ok key t \<longleftrightarrow> distinct (map key t)"

definition row :: "('r \<Rightarrow> 'k) \<Rightarrow> 'r list \<Rightarrow> 'k \<Rightarrow> 'r option" where
  "row key t k = find (\<lambda>r. key r = k) t"

lemma row_Nil [simp]: "row key [] k = None"
  by (simp add: row_def)

lemma row_Cons: "row key (r # t) k = (if key r = k then Some r else row key t k)"
  by (simp add: row_def)

lemma select_one_row: "select_one (\<lambda>r. key r = k) t =
    (case row key t k of None \<Rightarrow> Inl (Sentinel ErrNotFound ''not found'') | Some r \<Rightarrow> Inr r)"
  by (induction t) (auto simp: select_one_def row_Cons)

lemma row_SomeD: "row key t k = Some r \<Longrightarrow> r \<in> set t \<and> key r = k"
  by (induction t) (auto simp: row_Cons split: if_splits)

lemma row_mem: "keys_ok key t \<Longrightarrow> r \<in> set t \<Longrightarrow> row key t (key r) = Some r"
  by (induction t) (auto simp: keys_ok_def row_Cons)

lemma row_None: "row key t k = None \<longleftrightarrow> k \<notin> key ` set t"
  by (induction t) (auto simp: row_Cons)

lemma row_append: "row key (t @ [r]) k =
    (case row key t k of Some x \<Rightarrow> Some x | None \<Rightarrow> if key r = k then Some r else None)"
  by (induction t) (auto simp: row_Cons)

lemma update_where_keys:
  assumes "\<And>r. key (f r) = key r"
  shows "map key (update_where P f t) = map key t"
  using assms by (simp add: update_where_def)

lemma image_update_where:
  assumes "\<And>r. key (f r) = key r"
  shows "key ` set (update_where P f t) = key ` set t"
  using arg_cong [OF update_where_keys [of key f P t, OF assms], of set] by simp

lemma image_update_where_on:
  assumes "\<And>r. r \<in> set t \<Longrightarrow> P r \<Longrightarrow> key (f r) = key r"
  shows "key ` set (update_where P f t) = key ` set t"
proof -
  have "map key (update_where P f t) = map key t" using assms by (simp add: update_where_def)
  then show ?thesis by (metis list.set_map)
qed

lemma keys_ok_update [intro]:
  "(\<And>r. key (f r) = key r) \<Longrightarrow> keys_ok key t \<Longrightarrow> keys_ok key (update_where P f t)"
  by (simp add: keys_ok_def update_where_keys)

lemma row_update:
  "(\<And>r. key (f r) = key r) \<Longrightarrow> row key (update_where P f t) k =
     map_option (\<lambda>r. if P r then f r else r) (row key t k)"
  by (induction t) (auto simp: update_where_def row_Cons)

lemma keys_ok_append: "keys_ok key t \<Longrightarrow> row key t (key r) = None \<Longrightarrow> keys_ok key (t @ [r])"
  by (auto simp: keys_ok_def row_None)

lemma update_where_skip: "(\<And>x. x \<in> set t \<Longrightarrow> \<not> P x) \<Longrightarrow> update_where P f t = t"
  unfolding update_where_def by (rule map_idI) simp

lemma update_where_append: "update_where P f (xs @ ys) = update_where P f xs @ update_where P f ys"
  by (simp add: update_where_def)

lemma keys_ok_same: "keys_ok key t \<Longrightarrow> a \<in> set t \<Longrightarrow> b \<in> set t \<Longrightarrow> key a = key b \<Longrightarrow> a = b"
  by (metis row_mem option.inject)

lemma keyed_update_one:
  assumes "keys_ok key t" "c \<in> set t"
  obtains xs ys where "t = xs @ c # ys" "update_where (\<lambda>x. key x = key c) f t = xs @ f c # ys"
proof -
  obtain xs ys where t: "t = xs @ c # ys" using assms(2) by (meson split_list)
  have "distinct (map key xs @ key c # map key ys)" using assms(1) by (simp add: t keys_ok_def)
  then have n: "key c \<notin> key ` set xs" "key c \<notin> key ` set ys" by auto
  have "update_where (\<lambda>x. key x = key c) f xs = xs" by (rule update_where_skip) (metis imageI n(1))
  moreover have "update_where (\<lambda>x. key x = key c) f ys = ys" by (rule update_where_skip) (metis imageI n(2))
  moreover have "update_where (\<lambda>x. key x = key c) f (c # ys) = f c # update_where (\<lambda>x. key x = key c) f ys"
    by (simp add: update_where_def)
  ultimately show ?thesis using t by (intro that [of xs ys]) (simp_all add: update_where_append)
qed

lemma set_update_where: "set (update_where P f t) = f ` {r \<in> set t. P r} \<union> {r \<in> set t. \<not> P r}"
  by (auto simp: update_where_def)

lemma ball_update_where:
  "(\<forall>r\<in>set (update_where P f t). Q r) \<longleftrightarrow> (\<forall>r\<in>set t. if P r then Q (f r) else Q r)"
  by (auto simp: update_where_def)

lemma update_returning_Inr:
  "update_returning P f t = (t', Inr x) \<Longrightarrow> \<exists>r\<in>set t. P r \<and> x = f r"
  by (auto simp: update_returning_def filter_eq_Cons_iff split: list.splits)

lemma update_returning_Inl:
  "update_returning P f t = (t', Inl e) \<Longrightarrow> t' = t \<and> errors_Is e ErrNotFound"
  by (auto simp: update_returning_def filter_empty_conv update_where_def map_idI split: list.splits)

lemma fst_update_returning [simp]: "fst (update_returning P f t) = update_where P f t"
  by (simp add: update_returning_def)

section \<open>Partial unique indices\<close>

text \<open>A unique index \<open>ON (key) WHERE P\<close>: the rows that satisfy \<open>P\<close> form a keyed table.\<close>

lemma filter_update_keep:
  "(\<And>r. P r \<Longrightarrow> P (f r)) \<Longrightarrow> filter P (update_where (\<lambda>r. P r \<and> Q r) f t) = update_where Q f (filter P t)"
  by (induction t) (auto simp: update_where_def)

lemma filter_update_drop: "(\<And>r. \<not> P (f r)) \<Longrightarrow> filter P (update_where Q f t) = filter (\<lambda>r. \<not> Q r) (filter P t)"
  by (induction t) (auto simp: update_where_def)

lemma keys_ok_filter [intro]: "keys_ok key t \<Longrightarrow> keys_ok key (filter P t)"
  by (simp add: keys_ok_def distinct_map_filter)

lemma row_filter_keep: "keys_ok key t \<Longrightarrow> row key t k = Some r \<Longrightarrow> P r \<Longrightarrow> row key (filter P t) k = Some r"
proof -
  assume a: "keys_ok key t" "row key t k = Some r" "P r"
  then have "r \<in> set (filter P t)" "key r = k" using row_SomeD [of key t k r] by auto
  then show ?thesis using row_mem [OF keys_ok_filter [OF a(1)]] by metis
qed

lemma row_update_key:
  assumes "\<And>r. key (f r) = key r"
  shows "row key (update_where (\<lambda>r. key r = k) f t) = (row key t)(k := map_option f (row key t k))"
proof
  fix j
  have "row key t j = Some x \<Longrightarrow> key x = j" for x by (metis row_SomeD)
  then show "row key (update_where (\<lambda>r. key r = k) f t) j = ((row key t)(k := map_option f (row key t k))) j"
    by (cases "row key t j") (auto simp: row_update assms)
qed

lemma filter_row: "(case filter (\<lambda>r. P r \<and> key r = k) t of [] \<Rightarrow> None | r # _ \<Rightarrow> Some r) = row key (filter P t) k"
  by (induction t) (auto simp: row_Cons)

lemma filter_row_Nil: "filter (\<lambda>r. P r \<and> key r = k) t = [] \<longleftrightarrow> row key (filter P t) k = None"
  by (auto simp: row_None filter_empty_conv)

lemma filter_row_Cons: "filter (\<lambda>r. P r \<and> key r = k) t = x # xs \<Longrightarrow> row key (filter P t) k = Some x"
  using filter_row [of P key k t] by simp

section \<open>Lifecycles with terminal rows\<close>

text \<open>
  \<open>view\<close> is the part of a row the contract is about. Once it is terminal no step changes it, so
  neither does any sequence of steps; and what ends up terminal was changed at most once since the
  last state in which it was not.
\<close>

locale lifecycle =
  fixes step :: "'s \<Rightarrow> 's \<Rightarrow> bool"
    and inv :: "'s \<Rightarrow> bool"
    and view :: "'s \<Rightarrow> 'k \<Rightarrow> 'v option"
    and terminal :: "'v \<Rightarrow> bool"
  assumes inv_step: "step s s' \<Longrightarrow> inv s \<Longrightarrow> inv s'"
    and frozen: "step s s' \<Longrightarrow> inv s \<Longrightarrow> view s k = Some v \<Longrightarrow> terminal v \<Longrightarrow> view s' k = Some v"
begin

lemma inv_star: "step\<^sup>*\<^sup>* s s' \<Longrightarrow> inv s \<Longrightarrow> inv s'"
  by (induction rule: rtranclp_induct) (auto intro: inv_step)

lemma frozen_star: "step\<^sup>*\<^sup>* s s' \<Longrightarrow> inv s \<Longrightarrow> view s k = Some v \<Longrightarrow> terminal v \<Longrightarrow> view s' k = Some v"
  by (induction rule: rtranclp_induct) (auto intro: frozen inv_star)

lemma terminal_unique:
  assumes "step\<^sup>*\<^sup>* s s1" "step\<^sup>*\<^sup>* s1 s2" "inv s" "view s1 k = Some v" "terminal v" "view s2 k = Some v'"
  shows "v' = v"
  using frozen_star [OF assms(2) inv_star [OF assms(1,3)] assms(4,5)] assms(6) by simp

end

end
