(* ===== verification/RuntimeCommands.thy ===== *)
theory RuntimeCommands
  imports Tables
begin

text \<open>
  \<open>internal/repository/runtime_commands.go\<close>: the durable commands for a runtime, from queued over
  sent, acked and running to one of four terminal states. The state is the table
  \<open>runtime_commands\<close> (schema in migration 0016); \<open>owner\<close> reads the column
  \<open>connection_owner_instance_id\<close> of \<open>runtime_registry\<close>, and \<open>compact\<close> stands for
  \<open>json.Compact\<close>, which fails on text that is not JSON.
\<close>

section \<open>The table\<close>

type_synonym command_table = "runtime_command list"

definition command_statuses :: "string set" where
  "command_statuses = {CmdQueued, CmdSent, CmdAcked, CmdRunning, CmdSucceeded, CmdFailed, CmdTimedOut, CmdCancelled}"

definition command_types :: "string set" where
  "command_types = {''start_session'', ''stop_session'', ''finish_session'', ''shutdown_runtime'', ''status_patch''}"

definition compactJSONOrDefault :: "(string \<Rightarrow> string option) \<Rightarrow> string \<Rightarrow> string \<Rightarrow> string" where
  "compactJSONOrDefault compact raw fallback = (case compact raw of Some s \<Rightarrow> s | None \<Rightarrow> fallback)"

definition normalizeRuntimeCommandForWrite ::
  "(string \<Rightarrow> string option) \<Rightarrow> go_time \<Rightarrow> runtime_command \<Rightarrow> runtime_command" where
  "normalizeRuntimeCommandForWrite compact now cmd =
     (let status = (if CmdStatus cmd = '''' then CmdQueued else CmdStatus cmd);
          p = (if Payload cmd = '''' then ''{}'' else Payload cmd);
          q = (if CmdResult cmd = '''' then ''{}'' else CmdResult cmd);
          created = (if is_zero (CmdCreatedAt cmd) then now else CmdCreatedAt cmd);
          updated = (if is_zero (CmdUpdatedAt cmd) then created else CmdUpdatedAt cmd)
      in cmd\<lparr>CmdStatus := status,
             Payload := compactJSONOrDefault compact p ''{}'',
             CmdResult := compactJSONOrDefault compact q ''{}'',
             CmdCreatedAt := created, CmdUpdatedAt := updated\<rparr>)"

text \<open>The columns the \<open>INSERT\<close> does not name take their defaults.\<close>
definition inserted_row :: "runtime_command \<Rightarrow> runtime_command" where
  "inserted_row cmd = cmd\<lparr>SentAt := None, AckedAt := None, CmdStartedAt := None, CompletedAt := None,
     CancelledAt := None, AttemptCount := 0\<rparr>"

definition same_idempotency :: "string \<Rightarrow> string \<Rightarrow> runtime_command \<Rightarrow> bool" where
  "same_idempotency rid ik c \<longleftrightarrow> CmdRuntimeID c = rid \<and> IdempotencyKey c = ik"

definition GetRuntimeCommand :: "command_table \<Rightarrow> string \<Rightarrow> runtime_command result" where
  "GetRuntimeCommand t cid = select_one (\<lambda>c. CommandID c = cid) t"

definition GetRuntimeCommandByIdempotencyKey :: "command_table \<Rightarrow> string \<Rightarrow> string \<Rightarrow> runtime_command result" where
  "GetRuntimeCommandByIdempotencyKey t rid ik = select_one (same_idempotency rid ik) t"

text \<open>
  \<open>INSERT ... ON CONFLICT (runtime_id, idempotency_key) DO NOTHING\<close>: the arbiter index is consulted
  first; the primary key and the checks of the schema are errors of the statement.
\<close>
definition CreateRuntimeCommand ::
  "(string \<Rightarrow> string option) \<Rightarrow> go_time \<Rightarrow> runtime_command \<Rightarrow> command_table
     \<Rightarrow> command_table \<times> (runtime_command \<times> bool) result" where
  "CreateRuntimeCommand compact now cmd0 t =
     (let cmd = normalizeRuntimeCommandForWrite compact now cmd0 in
      if CmdStatus cmd \<notin> command_statuses \<or> CommandType cmd \<notin> command_types
      then (t, Inl (Plain ''check constraint violation''))
      else if IdempotencyKey cmd \<noteq> '''' \<and> (\<exists>c\<in>set t. same_idempotency (CmdRuntimeID cmd) (IdempotencyKey cmd) c)
      then (t, case GetRuntimeCommandByIdempotencyKey t (CmdRuntimeID cmd) (IdempotencyKey cmd) of
                 Inl e \<Rightarrow> Inl e | Inr existing \<Rightarrow> Inr (existing, True))
      else if CommandID cmd \<in> CommandID ` set t
      then (t, Inl (Sentinel ErrConflict ''conflict''))
      else (t @ [inserted_row cmd], Inr (inserted_row cmd, False)))"

section \<open>Claiming\<close>

definition in_flight :: "string \<Rightarrow> command_table \<Rightarrow> int" where
  "in_flight rid t = int (length (filter (\<lambda>c. CmdRuntimeID c = rid \<and>
     (CmdStatus c = CmdSent \<or> CmdStatus c = CmdAcked \<or> CmdStatus c = CmdRunning)) t))"

definition queued_for :: "string \<Rightarrow> command_table \<Rightarrow> runtime_command list" where
  "queued_for rid t = filter (\<lambda>c. CmdRuntimeID c = rid \<and> CmdStatus c = CmdQueued) t"

definition mark_sent :: "go_time \<Rightarrow> runtime_command \<Rightarrow> runtime_command" where
  "mark_sent at c = c\<lparr>CmdStatus := CmdSent, SentAt := Some at, AttemptCount := AttemptCount c + 1, CmdUpdatedAt := at\<rparr>"

text \<open>
  The transaction reads the owner and the count, and then updates the oldest queued row. The two
  halves are separate definitions because no lock spans them: \<open>FOR UPDATE SKIP LOCKED\<close> guards the
  row that is taken, not the count.
\<close>

definition claim_guard :: "(string \<Rightarrow> string option) \<Rightarrow> string \<Rightarrow> string \<Rightarrow> int \<Rightarrow> command_table \<Rightarrow> bool result" where
  "claim_guard owner rid inst limit0 t =
     (if rid = '''' \<or> inst = '''' then Inl (Sentinel ErrNotFound ''not found'')
      else
        let limit = (if limit0 \<le> 0 then 1 else limit0) in
        case owner rid of
          None \<Rightarrow> Inl (Sentinel ErrNotFound ''not found'')
        | Some cur \<Rightarrow> if cur \<noteq> inst then Inr False else Inr (in_flight rid t < limit))"

definition claim_take :: "string \<Rightarrow> go_time \<Rightarrow> command_table \<Rightarrow> command_table \<times> runtime_command option" where
  "claim_take rid at t =
     (case first_by (\<lambda>c. (CmdCreatedAt c, CommandID c)) (queued_for rid t) of
        None \<Rightarrow> (t, None)
      | Some c \<Rightarrow> (update_where (\<lambda>r. CommandID r = CommandID c) (mark_sent at) t, Some (mark_sent at c)))"

definition ClaimNextRuntimeCommand ::
  "(string \<Rightarrow> string option) \<Rightarrow> string \<Rightarrow> string \<Rightarrow> go_time \<Rightarrow> int \<Rightarrow> command_table
     \<Rightarrow> command_table \<times> (runtime_command option) result" where
  "ClaimNextRuntimeCommand owner rid inst at limit t =
     (case claim_guard owner rid inst limit t of
        Inl e \<Rightarrow> (t, Inl e)
      | Inr False \<Rightarrow> (t, Inr None)
      | Inr True \<Rightarrow> (let (t', r) = claim_take rid at t in (t', Inr r)))"

section \<open>Progress and completion\<close>

definition AcknowledgeRuntimeCommand :: "string \<Rightarrow> go_time \<Rightarrow> command_table \<Rightarrow> command_table \<times> runtime_command result" where
  "AcknowledgeRuntimeCommand cid at t = update_returning
     (\<lambda>c. CommandID c = cid \<and> (CmdStatus c = CmdSent \<or> CmdStatus c = CmdAcked))
     (\<lambda>c. c\<lparr>CmdStatus := CmdAcked, AckedAt := coalesce (AckedAt c) at, CmdUpdatedAt := at\<rparr>) t"

definition MarkRuntimeCommandRunning :: "string \<Rightarrow> go_time \<Rightarrow> command_table \<Rightarrow> command_table \<times> runtime_command result" where
  "MarkRuntimeCommandRunning cid at t = update_returning
     (\<lambda>c. CommandID c = cid \<and> (CmdStatus c = CmdSent \<or> CmdStatus c = CmdAcked \<or> CmdStatus c = CmdRunning))
     (\<lambda>c. c\<lparr>CmdStatus := CmdRunning, CmdStartedAt := coalesce (CmdStartedAt c) at, CmdUpdatedAt := at\<rparr>) t"

definition complete_row :: "string \<Rightarrow> string \<Rightarrow> string \<Rightarrow> go_time \<Rightarrow> runtime_command \<Rightarrow> runtime_command" where
  "complete_row status res reason at c = c\<lparr>CmdStatus := status, CmdResult := res, FailureReason := reason,
     CompletedAt := (if status \<noteq> CmdCancelled then coalesce (CompletedAt c) at else CompletedAt c),
     CancelledAt := (if status = CmdCancelled then coalesce (CancelledAt c) at else CancelledAt c),
     CmdUpdatedAt := at\<rparr>"

definition CompleteRuntimeCommand ::
  "(string \<Rightarrow> string option) \<Rightarrow> string \<Rightarrow> string \<Rightarrow> string \<Rightarrow> string \<Rightarrow> go_time \<Rightarrow> command_table
     \<Rightarrow> command_table \<times> runtime_command result" where
  "CompleteRuntimeCommand compact cid status res reason at t =
     (if \<not> IsRuntimeCommandTerminalStatus status
      then (t, Inl (Sentinel ErrConflict ''invalid terminal command status''))
      else update_returning
        (\<lambda>c. CommandID c = cid \<and> \<not> IsRuntimeCommandTerminalStatus (CmdStatus c))
        (complete_row status (compactJSONOrDefault compact (if res = '''' then ''{}'' else res) ''{}'') reason at) t)"

definition TimeoutRuntimeCommands :: "go_time \<Rightarrow> string \<Rightarrow> command_table \<Rightarrow> command_table \<times> runtime_command list" where
  "TimeoutRuntimeCommands at reason t =
     (let due = (\<lambda>c. DeadlineAt c \<le> at \<and> (CmdStatus c = CmdQueued \<or> CmdStatus c = CmdSent \<or>
                     CmdStatus c = CmdAcked \<or> CmdStatus c = CmdRunning));
          f = (\<lambda>c. c\<lparr>CmdStatus := CmdTimedOut, FailureReason := reason,
                     CompletedAt := coalesce (CompletedAt c) at, CmdUpdatedAt := at\<rparr>)
      in (update_where due f t, map f (filter due t)))"

definition CountRecentRuntimeCommandFailures :: "command_table \<Rightarrow> string \<Rightarrow> go_time \<Rightarrow> int" where
  "CountRecentRuntimeCommandFailures t rid since = int (length (filter (\<lambda>c. CmdRuntimeID c = rid \<and>
     (CmdStatus c = CmdFailed \<or> CmdStatus c = CmdTimedOut) \<and> since \<le> CmdUpdatedAt c) t))"

definition RuntimeCommandCircuitOpen :: "command_table \<Rightarrow> string \<Rightarrow> go_time \<Rightarrow> int \<Rightarrow> bool \<times> int" where
  "RuntimeCommandCircuitOpen t rid since threshold0 =
     (let threshold = (if threshold0 \<le> 0 then 1 else threshold0);
          failures = CountRecentRuntimeCommandFailures t rid since
      in (threshold \<le> failures, failures))"

section \<open>Steps\<close>

text \<open>What the service does to the table; new commands are created queued, as the callers do.\<close>

inductive command_step :: "(string \<Rightarrow> string option) \<Rightarrow> command_table \<Rightarrow> command_table \<Rightarrow> bool"
  for compact where
  create: "CmdStatus cmd = '''' \<or> CmdStatus cmd = CmdQueued \<Longrightarrow>
     command_step compact t (fst (CreateRuntimeCommand compact now cmd t))"
| claim: "command_step compact t (fst (ClaimNextRuntimeCommand owner rid inst at limit t))"
| ack: "command_step compact t (fst (AcknowledgeRuntimeCommand cid at t))"
| running: "command_step compact t (fst (MarkRuntimeCommandRunning cid at t))"
| complete: "command_step compact t (fst (CompleteRuntimeCommand compact cid status res reason at t))"
| timeout: "command_step compact t (fst (TimeoutRuntimeCommands at reason t))"

inductive_cases command_stepE: "command_step compact t t'"

section \<open>The invariant\<close>

definition command_row_ok :: "runtime_command \<Rightarrow> bool" where
  "command_row_ok c \<longleftrightarrow> CmdStatus c \<in> command_statuses \<and>
     AttemptCount c = (if SentAt c = None then 0 else 1) \<and>
     (CmdStatus c = CmdQueued \<longrightarrow> SentAt c = None) \<and>
     (IsRuntimeCommandInFlightStatus (CmdStatus c) \<longrightarrow> SentAt c \<noteq> None) \<and>
     (AckedAt c \<noteq> None \<longrightarrow> SentAt c \<noteq> None) \<and> (CmdStartedAt c \<noteq> None \<longrightarrow> SentAt c \<noteq> None) \<and>
     (IsRuntimeCommandTerminalStatus (CmdStatus c) \<longleftrightarrow> CompletedAt c \<noteq> None \<or> CancelledAt c \<noteq> None)"

definition command_inv :: "command_table \<Rightarrow> bool" where
  "command_inv t \<longleftrightarrow> keys_ok CommandID t \<and> (\<forall>c\<in>set t. command_row_ok c) \<and>
     distinct (map (\<lambda>c. (CmdRuntimeID c, IdempotencyKey c)) (filter (\<lambda>c. IdempotencyKey c \<noteq> '''') t))"

lemmas command_status_defs = IsRuntimeCommandInFlightStatus_def IsRuntimeCommandTerminalStatus_def command_statuses_def

lemma update_where_idem:
  assumes "\<And>c. CommandID (f c) = CommandID c" "\<And>c. CmdRuntimeID (f c) = CmdRuntimeID c"
    "\<And>c. IdempotencyKey (f c) = IdempotencyKey c"
  shows "map (\<lambda>c. (CmdRuntimeID c, IdempotencyKey c)) (filter (\<lambda>c. IdempotencyKey c \<noteq> '''') (update_where P f t)) =
    map (\<lambda>c. (CmdRuntimeID c, IdempotencyKey c)) (filter (\<lambda>c. IdempotencyKey c \<noteq> '''') t)"
  using assms by (induction t) (auto simp: update_where_def)

lemma command_inv_update:
  assumes "command_inv t" "\<And>c. CommandID (f c) = CommandID c" "\<And>c. CmdRuntimeID (f c) = CmdRuntimeID c"
    "\<And>c. IdempotencyKey (f c) = IdempotencyKey c" "\<And>c. command_row_ok c \<Longrightarrow> P c \<Longrightarrow> command_row_ok (f c)"
  shows "command_inv (update_where P f t)"
  using assms update_where_idem [OF assms(2-4)]
  by (auto simp: command_inv_def ball_update_where keys_ok_update)

lemma claim_take_cases:
  assumes "claim_take rid at t = (t', r)"
  obtains (none) "queued_for rid t = []" "t' = t" "r = None"
  | (some) c where "c \<in> set t" "CmdRuntimeID c = rid" "CmdStatus c = CmdQueued"
      "\<forall>d\<in>set (queued_for rid t). (CmdCreatedAt c, CommandID c) \<le> (CmdCreatedAt d, CommandID d)"
      "t' = update_where (\<lambda>x. CommandID x = CommandID c) (mark_sent at) t" "r = Some (mark_sent at c)"
proof (cases "first_by (\<lambda>c. (CmdCreatedAt c, CommandID c)) (queued_for rid t)")
  case None
  then have "t' = t" "r = None" using assms by (auto simp: claim_take_def)
  moreover have "queued_for rid t = []" using None by (simp only: first_by_None)
  ultimately show ?thesis by (intro none)
next
  case (Some c)
  note m = first_by_Some [OF Some]
  have c: "c \<in> set t \<and> CmdRuntimeID c = rid \<and> CmdStatus c = CmdQueued"
    using conjunct1 [OF m] by (simp add: queued_for_def)
  have e: "t' = update_where (\<lambda>x. CommandID x = CommandID c) (mark_sent at) t" "r = Some (mark_sent at c)"
    using assms by (simp_all add: claim_take_def Some)
  from c show ?thesis by (intro some [OF _ _ _ conjunct2 [OF m] e]) blast+
qed

lemma row_ok_mark_sent: "command_row_ok c \<Longrightarrow> CmdStatus c = CmdQueued \<Longrightarrow> command_row_ok (mark_sent at c)"
  by (auto simp: command_row_ok_def mark_sent_def command_status_defs)

lemma claim_take_inv: "command_inv t \<Longrightarrow> command_inv (fst (claim_take rid at t))"
proof -
  assume inv: "command_inv t"
  obtain t' r where e: "claim_take rid at t = (t', r)" by force
  then show ?thesis
  proof (cases rule: claim_take_cases)
    case none
    with e inv show ?thesis by simp
  next
    case (some c)
    have "t' = update_where (\<lambda>x. x = c) (mark_sent at) t"
      unfolding some(5) update_where_def using some(1) inv keys_ok_same [of CommandID t]
      by (auto simp: command_inv_def)
    moreover have "command_inv (update_where (\<lambda>x. x = c) (mark_sent at) t)"
      using inv some(3) by (intro command_inv_update) (auto simp: mark_sent_def dest: row_ok_mark_sent [of _ at])
    ultimately show ?thesis using e by simp
  qed
qed

lemma ClaimNext_fst:
  "fst (ClaimNextRuntimeCommand owner rid inst at limit t) =
     (if claim_guard owner rid inst limit t = Inr True then fst (claim_take rid at t) else t)"
  by (auto simp: ClaimNextRuntimeCommand_def split: sum.splits bool.splits prod.splits)

lemma row_ok_acked:
  "command_row_ok c \<Longrightarrow> CmdStatus c = CmdSent \<or> CmdStatus c = CmdAcked \<Longrightarrow>
   command_row_ok (c\<lparr>CmdStatus := CmdAcked, AckedAt := coalesce (AckedAt c) at, CmdUpdatedAt := at\<rparr>)"
  by (elim disjE; simp add: command_row_ok_def command_status_defs; auto?)

lemma row_ok_running:
  "command_row_ok c \<Longrightarrow> CmdStatus c = CmdSent \<or> CmdStatus c = CmdAcked \<or> CmdStatus c = CmdRunning \<Longrightarrow>
   command_row_ok (c\<lparr>CmdStatus := CmdRunning, CmdStartedAt := coalesce (CmdStartedAt c) at, CmdUpdatedAt := at\<rparr>)"
  by (elim disjE; simp add: command_row_ok_def command_status_defs; auto?)

lemma row_ok_timed_out:
  "command_row_ok c \<Longrightarrow> CmdStatus c = CmdQueued \<or> CmdStatus c = CmdSent \<or> CmdStatus c = CmdAcked \<or>
     CmdStatus c = CmdRunning \<Longrightarrow>
   command_row_ok (c\<lparr>CmdStatus := CmdTimedOut, FailureReason := reason,
                     CompletedAt := coalesce (CompletedAt c) at, CmdUpdatedAt := at\<rparr>)"
  by (elim disjE; simp add: command_row_ok_def command_status_defs; auto?)

lemma row_ok_complete:
  "command_row_ok c \<Longrightarrow> IsRuntimeCommandTerminalStatus status \<Longrightarrow> command_row_ok (complete_row status res reason at c)"
  unfolding IsRuntimeCommandTerminalStatus_def [of status]
  by (elim disjE; simp add: command_row_ok_def complete_row_def command_status_defs; auto?)

lemma row_ok_insert:
  "CmdStatus c = CmdQueued \<Longrightarrow> command_row_ok (inserted_row c)"
  by (simp add: command_row_ok_def inserted_row_def command_status_defs)

lemma create_inv:
  assumes "command_inv t" "CmdStatus cmd = '''' \<or> CmdStatus cmd = CmdQueued"
  shows "command_inv (fst (CreateRuntimeCommand compact now cmd t))"
proof -
  let ?c = "normalizeRuntimeCommandForWrite compact now cmd"
  have q: "CmdStatus ?c = CmdQueued"
    using assms(2) by (auto simp: normalizeRuntimeCommandForWrite_def Let_def)
  have "command_inv (t @ [inserted_row ?c])"
    if "IdempotencyKey ?c \<noteq> '''' \<longrightarrow> \<not> (\<exists>c\<in>set t. same_idempotency (CmdRuntimeID ?c) (IdempotencyKey ?c) c)"
      "CommandID ?c \<notin> CommandID ` set t"
    using assms(1) that row_ok_insert [OF q]
    by (auto simp: command_inv_def keys_ok_append row_None inserted_row_def same_idempotency_def keys_ok_def)
  then show ?thesis using assms(1) by (auto simp: CreateRuntimeCommand_def Let_def)
qed

lemma command_step_inv: "command_step compact t t' \<Longrightarrow> command_inv t \<Longrightarrow> command_inv t'"
proof (induction rule: command_step.induct)
  case (create cmd t now)
  then show ?case by (intro create_inv)
next
  case (claim t owner rid inst at limit)
  then show ?case by (simp add: ClaimNext_fst claim_take_inv)
next
  case (ack t cid at)
  then show ?case unfolding AcknowledgeRuntimeCommand_def fst_update_returning
    by (rule command_inv_update) (simp_all add: row_ok_acked)
next
  case (running t cid at)
  then show ?case unfolding MarkRuntimeCommandRunning_def fst_update_returning
    by (rule command_inv_update) (simp_all add: row_ok_running)
next
  case (complete t cid status res reason at)
  show ?case
  proof (cases "IsRuntimeCommandTerminalStatus status")
    case True
    then show ?thesis unfolding CompleteRuntimeCommand_def
      using command_inv_update [OF complete] row_ok_complete [OF _ True] by (simp add: complete_row_def)
  qed (simp add: CompleteRuntimeCommand_def complete)
next
  case (timeout t at reason)
  then show ?case unfolding TimeoutRuntimeCommands_def Let_def fst_conv
    by (rule command_inv_update) (simp_all add: row_ok_timed_out)
qed

lemma command_steps_inv: "(command_step compact)\<^sup>*\<^sup>* t t' \<Longrightarrow> command_inv t \<Longrightarrow> command_inv t'"
  by (induction rule: rtranclp_induct) (auto intro: command_step_inv)

lemma command_inv_Nil: "command_inv []"
  by (simp add: command_inv_def keys_ok_def)

section \<open>Terminal commands stay as they are\<close>

lemma row_update_skip:
  assumes "\<And>c. CommandID (f c) = CommandID c" "row CommandID t k = Some c" "\<not> P c"
  shows "row CommandID (update_where P f t) k = Some c"
  using assms by (simp add: row_update)

lemma command_frozen:
  assumes "command_step compact t t'" "command_inv t" "row CommandID t k = Some c" "IsRuntimeCommandTerminalStatus (CmdStatus c)"
  shows "row CommandID t' k = Some c"
  using assms
proof (induction rule: command_step.induct)
  case (create cmd t now)
  then show ?case by (auto simp: CreateRuntimeCommand_def Let_def row_append)
next
  case (claim t owner rid inst at limit)
  obtain t' r where e: "claim_take rid at t = (t', r)" by force
  have "row CommandID t' k = Some c"
    using e
  proof (cases rule: claim_take_cases)
    case none
    with claim show ?thesis by simp
  next
    case (some d)
    have "c \<noteq> d" using claim.prems(3) some(3) by (auto simp: command_status_defs)
    then have "CommandID c \<noteq> CommandID d"
      using keys_ok_same [of CommandID t c d] claim.prems(1) row_SomeD [OF claim.prems(2)] some(1)
      by (auto simp: command_inv_def)
    then show ?thesis unfolding some(5) using claim.prems(2)
      by (intro row_update_skip) (auto simp: mark_sent_def)
  qed
  then show ?case using claim e by (simp add: ClaimNext_fst)
next
  case (ack t cid at)
  then show ?case unfolding AcknowledgeRuntimeCommand_def fst_update_returning
    by (intro row_update_skip) (auto simp: command_status_defs)
next
  case (running t cid at)
  then show ?case unfolding MarkRuntimeCommandRunning_def fst_update_returning
    by (intro row_update_skip) (auto simp: command_status_defs)
next
  case (complete t cid status res reason at)
  then show ?case
    by (auto simp: CompleteRuntimeCommand_def complete_row_def intro!: row_update_skip)
next
  case (timeout t at reason)
  then show ?case unfolding TimeoutRuntimeCommands_def Let_def fst_conv
    by (intro row_update_skip) (auto simp: command_status_defs)
qed

interpretation cmds: lifecycle "command_step compact" command_inv "row CommandID"
    "\<lambda>c. IsRuntimeCommandTerminalStatus (CmdStatus c)" for compact
  by unfold_locales (blast intro: command_step_inv command_frozen)+

section \<open>Counting\<close>

lemma in_flight_def2:
  "in_flight rid t = int (length (filter (\<lambda>c. CmdRuntimeID c = rid \<and> IsRuntimeCommandInFlightStatus (CmdStatus c)) t))"
  by (simp add: in_flight_def IsRuntimeCommandInFlightStatus_def)

lemma claim_take_counts:
  assumes "command_inv t" "claim_take rid at t = (t', Some c)"
  shows "in_flight rid t' = in_flight rid t + 1" "length (queued_for rid t) = Suc (length (queued_for rid t'))"
proof -
  have "in_flight rid t' = in_flight rid t + 1 \<and> length (queued_for rid t) = Suc (length (queued_for rid t'))"
    using assms(2)
  proof (cases rule: claim_take_cases)
    case none
    then show ?thesis by simp
  next
    case (some d)
    have ks: "keys_ok CommandID t" using assms(1) by (simp add: command_inv_def)
    obtain xs ys where s: "t = xs @ d # ys" "t' = xs @ mark_sent at d # ys"
      using keyed_update_one [OF ks some(1), of "mark_sent at"] some(5) by metis
    show ?thesis using some(2,3) unfolding s in_flight_def queued_for_def
      by (simp add: mark_sent_def)
  qed
  then show "in_flight rid t' = in_flight rid t + 1" "length (queued_for rid t) = Suc (length (queued_for rid t'))"
    by simp_all
qed

lemma claim_take_progress: "queued_for rid t \<noteq> [] \<Longrightarrow> \<exists>t' c. claim_take rid at t = (t', Some c)"
  by (cases "first_by (\<lambda>c. (CmdCreatedAt c, CommandID c)) (queued_for rid t)") (auto simp: claim_take_def)

section \<open>Properties\<close>


definition sample_command :: "string \<Rightarrow> string \<Rightarrow> go_time \<Rightarrow> runtime_command" where
  "sample_command cid ik created = \<lparr>CommandID = cid, CmdUserID = 7, CmdRuntimeID = ''r1'', SessionID = ''s'',
     IdempotencyKey = ik, CommandType = ''start_session'', CmdStatus = CmdQueued, DeadlineAt = 1000, SentAt = None,
     AckedAt = None, CmdStartedAt = None, CompletedAt = None, CancelledAt = None, AttemptCount = 0,
     Payload = ''{}'', CmdResult = ''{}'', FailureReason = [], CmdCreatedAt = created, CmdUpdatedAt = created\<rparr>"

definition sample_table :: command_table where
  "sample_table = fst (CreateRuntimeCommand Some 5 (sample_command ''c2'' ''k2'' 20)
     (fst (CreateRuntimeCommand Some 5 (sample_command ''c1'' ''k1'' 10) [])))"

lemma sample_table_reachable: "(command_step Some)\<^sup>*\<^sup>* [] sample_table"
proof -
  have c: "CmdStatus (sample_command i k n) = CmdQueued" for i k n by (simp add: sample_command_def)
  have "command_step Some [] (fst (CreateRuntimeCommand Some 5 (sample_command ''c1'' ''k1'' 10) []))"
    "command_step Some (fst (CreateRuntimeCommand Some 5 (sample_command ''c1'' ''k1'' 10) [])) sample_table"
    unfolding sample_table_def by (rule command_step.create, simp add: c)+
  then show ?thesis by (meson r_into_rtranclp rtranclp_trans)
qed


text \<open>A command that has succeeded, failed, timed out or been cancelled keeps its whole row, whatever
  acknowledgements, results, timeouts or claims arrive later.
\<close>
theorem terminal_command_is_final:
  assumes "(command_step compact)\<^sup>*\<^sup>* [] t" "(command_step compact)\<^sup>*\<^sup>* t t'"
    and "row CommandID t k = Some c" "IsRuntimeCommandTerminalStatus (CmdStatus c)"
  shows "row CommandID t' k = Some c"
  using cmds.frozen_star [OF assms(2) cmds.inv_star [OF assms(1) command_inv_Nil] assms(3,4)] .

definition sample_done :: command_table where
  "sample_done = fst (CompleteRuntimeCommand Some ''c1'' CmdFailed '''' ''gone'' 30 sample_table)"

theorem terminal_command_is_final_witness:
  "row CommandID (fst (AcknowledgeRuntimeCommand ''c1'' 40 sample_done)) ''c1'' = row CommandID sample_done ''c1''"
proof -
  have "(command_step Some)\<^sup>*\<^sup>* [] sample_done"
    unfolding sample_done_def
    using sample_table_reachable command_step.complete by (meson rtranclp.rtrancl_into_rtrancl)
  moreover have "(command_step Some)\<^sup>*\<^sup>* sample_done (fst (AcknowledgeRuntimeCommand ''c1'' 40 sample_done))"
    by (rule r_into_rtranclp) (rule command_step.ack)
  moreover have "case row CommandID sample_done ''c1'' of None \<Rightarrow> False
      | Some c \<Rightarrow> IsRuntimeCommandTerminalStatus (CmdStatus c)"
    by code_simp
  then obtain c where "row CommandID sample_done ''c1'' = Some c" "IsRuntimeCommandTerminalStatus (CmdStatus c)"
    by (auto split: option.splits)
  ultimately show ?thesis using terminal_command_is_final by metis
qed

text \<open>A claim hands out the oldest queued command of the runtime, only to the instance that owns the
  connection, and, run on its own, never lets the commands in flight exceed the limit.
\<close>
theorem claim_respects_owner_order_and_limit:
  assumes "command_inv t" "ClaimNextRuntimeCommand owner rid inst at limit t = (t', Inr (Some c))"
  shows "owner rid = Some inst \<and> CmdRuntimeID c = rid \<and> CmdStatus c = CmdSent \<and> row CommandID t' (CommandID c) = Some c \<and>
    (\<forall>d\<in>set (queued_for rid t). (CmdCreatedAt c, CommandID c) \<le> (CmdCreatedAt d, CommandID d)) \<and>
    in_flight rid t' = in_flight rid t + 1 \<and> in_flight rid t' \<le> max 1 limit"
proof -
  have g: "claim_guard owner rid inst limit t = Inr True" and e: "claim_take rid at t = (t', Some c)"
    using assms(2) by (auto simp: ClaimNextRuntimeCommand_def split: sum.splits bool.splits prod.splits)
  have o: "owner rid = Some inst" "in_flight rid t < max 1 limit"
    using g by (auto simp: claim_guard_def Let_def split: if_splits option.splits)
  note counts = claim_take_counts [OF assms(1) e]
  show ?thesis using e
  proof (cases rule: claim_take_cases)
    case none
    then show ?thesis by simp
  next
    case (some d)
    have c: "c = mark_sent at d" using some(6) by simp
    have "row CommandID t (CommandID d) = Some d"
      using assms(1) some(1) by (simp add: command_inv_def row_mem)
    then have "row CommandID t' (CommandID d) = Some c"
      unfolding some(5) c by (subst row_update) (simp_all add: mark_sent_def)
    moreover have "CmdRuntimeID c = rid" "CmdStatus c = CmdSent" using some(2) by (simp_all add: c mark_sent_def)
    moreover have eq: "CommandID c = CommandID d" "CmdCreatedAt c = CmdCreatedAt d" by (simp_all add: c mark_sent_def)
    moreover have "in_flight rid t' \<le> max 1 limit" using o(2) counts(1) by linarith
    ultimately show ?thesis unfolding eq using o(1) counts(1) some(4) by (intro conjI)
  qed
qed

theorem claim_respects_owner_order_and_limit_witness:
  "\<exists>t' c. ClaimNextRuntimeCommand (\<lambda>_. Some ''cp'') ''r1'' ''cp'' 50 1 sample_table = (t', Inr (Some c)) \<and>
     in_flight ''r1'' t' \<le> 1"
proof -
  have "command_inv sample_table" using cmds.inv_star [OF sample_table_reachable] command_inv_Nil by blast
  moreover have "case ClaimNextRuntimeCommand (\<lambda>_. Some ''cp'') ''r1'' ''cp'' 50 1 sample_table of
      (t', Inr (Some c)) \<Rightarrow> True | _ \<Rightarrow> False"
    by code_simp
  then obtain t' c where e: "ClaimNextRuntimeCommand (\<lambda>_. Some ''cp'') ''r1'' ''cp'' 50 1 sample_table = (t', Inr (Some c))"
    by (auto split: prod.splits sum.splits option.splits)
  ultimately have "in_flight ''r1'' t' \<le> max 1 1" using claim_respects_owner_order_and_limit by blast
  with e show ?thesis by (intro exI conjI) simp_all
qed

text \<open>The limit holds only for claims that do not overlap: two transactions that both read the count
  before either writes take two commands, and the runtime has one more in flight than the limit.
\<close>
theorem concurrent_claims_exceed_limit:
  assumes "command_inv t" "0 < limit" "in_flight rid t = limit - 1" "2 \<le> length (queued_for rid t)"
    and "owner rid = Some inst" "rid \<noteq> ''''" "inst \<noteq> ''''"
  shows "claim_guard owner rid inst limit t = Inr True \<and>
    in_flight rid (fst (claim_take rid at2 (fst (claim_take rid at1 t)))) = limit + 1"
proof -
  have "queued_for rid t \<noteq> []" using assms(4) by auto
  then obtain t1 c1 where c1: "claim_take rid at1 t = (t1, Some c1)" using claim_take_progress by blast
  note n1 = claim_take_counts [OF assms(1) c1]
  have inv1: "command_inv t1" using claim_take_inv [OF assms(1), of rid at1] c1 by simp
  have "queued_for rid t1 \<noteq> []" using n1(2) assms(4) by auto
  then obtain t2 c2 where c2: "claim_take rid at2 t1 = (t2, Some c2)" using claim_take_progress by blast
  note n2 = claim_take_counts [OF inv1 c2]
  have "claim_guard owner rid inst limit t = Inr True" using assms by (simp add: claim_guard_def)
  then show ?thesis using n1(1) n2(1) c1 c2 assms(3) by simp
qed

theorem concurrent_claims_exceed_limit_witness:
  "in_flight ''r1'' (fst (claim_take ''r1'' 51 (fst (claim_take ''r1'' 50 sample_table)))) = 2"
proof -
  have "command_inv sample_table" using cmds.inv_star [OF sample_table_reachable] command_inv_Nil by blast
  moreover have "in_flight ''r1'' sample_table = 1 - 1" "2 \<le> length (queued_for ''r1'' sample_table)" by code_simp+
  ultimately show ?thesis
    using concurrent_claims_exceed_limit [of sample_table 1 "''r1''" "\<lambda>_. Some ''cp''" "''cp''" 51 50] by simp
qed

text \<open>
  Creating a command again with the same runtime and idempotency key changes nothing and returns
  the command that was created first, marked as existing.
\<close>
theorem create_command_idempotent:
  assumes "CreateRuntimeCommand compact now cmd t = (t1, Inr (c, False))"
    and "CmdRuntimeID cmd' = CmdRuntimeID cmd" "IdempotencyKey cmd' = IdempotencyKey cmd" "IdempotencyKey cmd \<noteq> ''''"
    and "CmdStatus cmd' \<in> insert '''' command_statuses" "CommandType cmd' \<in> command_types"
  shows "CreateRuntimeCommand compact now' cmd' t1 = (t1, Inr (c, True))"
proof -
  let ?n = "normalizeRuntimeCommandForWrite compact now cmd" and ?n' = "normalizeRuntimeCommandForWrite compact now' cmd'"
  have keep: "CmdRuntimeID (normalizeRuntimeCommandForWrite compact m x) = CmdRuntimeID x"
    "IdempotencyKey (normalizeRuntimeCommandForWrite compact m x) = IdempotencyKey x"
    "CommandType (normalizeRuntimeCommandForWrite compact m x) = CommandType x" for m x
    by (simp_all add: normalizeRuntimeCommandForWrite_def Let_def)
  have ok': "CmdStatus ?n' \<in> command_statuses"
    using assms(5) by (auto simp: normalizeRuntimeCommandForWrite_def Let_def command_statuses_def)
  have ins: "\<not> (\<exists>c\<in>set t. same_idempotency (CmdRuntimeID cmd) (IdempotencyKey cmd) c)"
    "t1 = t @ [inserted_row ?n]" "c = inserted_row ?n"
    using assms(1,4) by (auto simp: CreateRuntimeCommand_def Let_def keep split: if_splits sum.splits)
  have "same_idempotency (CmdRuntimeID cmd) (IdempotencyKey cmd) (inserted_row ?n)"
    by (simp add: same_idempotency_def inserted_row_def keep)
  moreover have "filter (same_idempotency (CmdRuntimeID cmd) (IdempotencyKey cmd)) t = []"
    using ins(1) by (simp add: filter_empty_conv)
  ultimately have "GetRuntimeCommandByIdempotencyKey t1 (CmdRuntimeID cmd) (IdempotencyKey cmd) = Inr c"
    "\<exists>c\<in>set t1. same_idempotency (CmdRuntimeID cmd) (IdempotencyKey cmd) c"
    unfolding GetRuntimeCommandByIdempotencyKey_def select_one_def ins(2,3) by simp_all
  then show ?thesis using ok' assms(2-6) by (simp add: CreateRuntimeCommand_def Let_def keep)
qed

theorem create_command_idempotent_witness:
  "snd (CreateRuntimeCommand Some 9 (sample_command ''other'' ''k1'' 99)
      (fst (CreateRuntimeCommand Some 5 (sample_command ''c1'' ''k1'' 10) []))) =
   Inr (inserted_row (normalizeRuntimeCommandForWrite Some 5 (sample_command ''c1'' ''k1'' 10)), True)"
proof -
  have st: "CmdStatus (sample_command i k n) = CmdQueued" "CommandType (sample_command i k n) = ''start_session''"
    "CmdRuntimeID (sample_command i k n) = ''r1''" "IdempotencyKey (sample_command i k n) = k" for i k n
    by (simp_all add: sample_command_def)
  have "CreateRuntimeCommand Some 5 (sample_command ''c1'' ''k1'' 10) [] =
      (fst (CreateRuntimeCommand Some 5 (sample_command ''c1'' ''k1'' 10) []),
       Inr (inserted_row (normalizeRuntimeCommandForWrite Some 5 (sample_command ''c1'' ''k1'' 10)), False))"
    by (simp add: CreateRuntimeCommand_def Let_def normalizeRuntimeCommandForWrite_def st command_statuses_def command_types_def)
  from create_command_idempotent [OF this, of "sample_command ''other'' ''k1'' 99" 9] show ?thesis
    by (simp add: st command_statuses_def command_types_def)
qed

end
