(* ===== verification/TimeModel.thy ===== *)
theory TimeModel
  imports Domain
begin

text \<open>
  Bar intervals, bar counts and calendar years: \<open>intervalDuration\<close>, \<open>expectedCount\<close> and
  \<open>isAlignedToInterval\<close> of \<open>internal/marketdata/coverage.go\<close>, and what Go's \<open>time\<close> package
  computes for \<open>Year\<close> and \<open>Date(y, January, 1)\<close> in UTC. Durations are int64 nanoseconds and wrap;
  \<open>Time.Sub\<close> saturates; \<open>UnixNano\<close> wraps. Formatted error texts are kept without their arguments.
\<close>

section \<open>Intervals\<close>

definition bad_interval :: "go_error" where "bad_interval = Plain ''interval is invalid''"

text \<open>The unit of an interval and its count; the products wrap at 64 bits.\<close>
definition interval_unit :: "char \<Rightarrow> int \<Rightarrow> duration result" where
  "interval_unit u n =
     (if u = CHR ''s'' then Inr (wrap64 (n * second))
      else if u = CHR ''m'' then Inr (wrap64 (n * minute))
      else if u = CHR ''h'' then Inr (wrap64 (n * hour))
      else if u = CHR ''d'' then Inr (wrap64 (wrap64 (n * 24) * hour))
      else Inl (Plain ''interval is not supported for coverage; supported units: s/m/h/d''))"

definition intervalDuration :: "string \<Rightarrow> duration result" where
  "intervalDuration interval =
     (if length interval < 2 then Inl bad_interval
      else case atoi (butlast interval) of
          None \<Rightarrow> Inl bad_interval
        | Some n \<Rightarrow> if n \<le> 0 then Inl bad_interval else interval_unit (last interval) n)"

definition isAlignedToInterval :: "go_time \<Rightarrow> duration \<Rightarrow> bool" where
  "isAlignedToInterval t d \<longleftrightarrow> 0 < d \<and> wrap64 t mod d = 0"

definition expectedCount :: "go_time \<Rightarrow> go_time \<Rightarrow> string \<Rightarrow> int result" where
  "expectedCount startAt endAt interval =
     (if \<not> startAt < endAt then Inl (Plain ''end_at must be after start_at'')
      else case intervalDuration interval of
          Inl e \<Rightarrow> Inl e
        | Inr d \<Rightarrow>
            (let diff = time_sub endAt startAt in
             if \<not> isAlignedToInterval startAt d \<or> \<not> isAlignedToInterval endAt d
             then Inl (Plain ''start_at and end_at must align to interval'')
             else if diff mod d \<noteq> 0 then Inl (Plain ''range must be an exact multiple of interval'')
             else Inr (diff div d)))"

lemma even_wrap64: "even x \<Longrightarrow> even (wrap64 x)"
  by (simp add: wrap64_def dvd_mod)

lemma interval_even:
  assumes "intervalDuration interval = Inr d"
  shows "even d"
  using assms
  by (auto simp: intervalDuration_def interval_unit_def duration_defs even_wrap64 split: if_splits option.splits)

text \<open>A saturated difference is odd, every interval is even: a count that is returned is exact.\<close>
lemma expectedCount_exact:
  assumes "expectedCount s e interval = Inr n"
  obtains d where "intervalDuration interval = Inr d" "0 < d" "n * d = e - s" "0 < n" "s < e"
proof -
  obtain d where d: "intervalDuration interval = Inr d" "s < e" "isAlignedToInterval s d"
    "time_sub e s mod d = 0" "n = time_sub e s div d"
    using assms by (auto simp: expectedCount_def Let_def split: if_splits sum.splits)
  have pos: "0 < d" using d(3) by (simp add: isAlignedToInterval_def)
  have nd: "n * d = time_sub e s" using d(4,5) by (simp add: mod_0_imp_dvd)
  have "even (time_sub e s)" using interval_even [OF d(1)] nd by (metis dvd_mult)
  then have "time_sub e s = e - s"
    using d(2) by (auto simp: time_sub_def sat64_def split: if_splits)
  with nd have nd': "n * d = e - s" by simp
  then have "0 < n" using d(2) pos by (metis diff_gt_0_iff_gt zero_less_mult_pos2)
  then show ?thesis using that d(1,2) pos nd' by blast
qed

text \<open>Aligned ends of a range that fits 64 bits have a count.\<close>
lemma expectedCount_ok:
  assumes "intervalDuration interval = Inr d" "0 < d" "in64 s" "in64 e" "in64 (e - s)"
    "s mod d = 0" "e mod d = 0" "s < e"
  shows "expectedCount s e interval = Inr ((e - s) div d)"
proof -
  have "(e - s) mod d = 0" using assms(6,7) by (metis diff_self mod_0 mod_diff_eq)
  then show ?thesis using assms
    by (simp add: expectedCount_def isAlignedToInterval_def time_sub_def Let_def)
qed

section \<open>Years\<close>

definition days_before_year :: "int \<Rightarrow> int" where
  "days_before_year y = (let a = y - 1 in 365 * a + a div 4 - a div 100 + a div 400)"

definition day :: duration where "day = 24 * hour"

definition year_start :: "int \<Rightarrow> go_time" where
  "year_start y = zero_time + days_before_year y * day"

text \<open>A first guess by the mean length of a year is at most one year off.\<close>
definition year_of :: "go_time \<Rightarrow> int" where
  "year_of t =
     (let y = (400 * ((t - zero_time) div day)) div 146097 + 1 in
      if t < year_start y then y - 1 else if year_start (y + 1) \<le> t then y + 1 else y)"

lemma day_pos [simp]: "0 < day"
  by (simp add: day_def duration_defs)

lemma days_before_year_step: "365 \<le> days_before_year (y + 1) - days_before_year y \<and>
    days_before_year (y + 1) - days_before_year y \<le> 366"
proof -
  define a where "a = y - 1"
  have "(4::int) dvd a + 1" if "100 dvd a + 1" using that by (rule dvd_trans [rotated]) simp
  moreover have "(100::int) dvd a + 1" if "400 dvd a + 1" using that by (rule dvd_trans [rotated]) simp
  ultimately have "(a + 1) div 4 - (a + 1) div 100 + (a + 1) div 400 - (a div 4 - a div 100 + a div 400) \<ge> 0 \<and>
    (a + 1) div 4 - (a + 1) div 100 + (a + 1) div 400 - (a div 4 - a div 100 + a div 400) \<le> 1"
    by (simp add: int_succ_div)
  then show ?thesis by (simp add: days_before_year_def Let_def a_def algebra_simps)
qed

lemma year_start_less: "year_start y < year_start (y + 1)"
  using days_before_year_step [of y] by (simp add: year_start_def)

lemma leap_day_bounds:
  fixes a p q r :: int
  assumes "4 * p \<le> a" "a \<le> 4 * p + 3" "100 * q \<le> a" "a \<le> 100 * q + 99" "400 * r \<le> a" "a \<le> 400 * r + 399"
  shows "146097 * a - 700 \<le> 400 * (365 * a + p - q + r)" "400 * (365 * a + p - q + r) \<le> 146097 * a + 399"
  using assms by (simp_all add: algebra_simps)

lemma days_before_year_bounds:
  shows "146097 * (y - 1) - 700 \<le> 400 * days_before_year y"
    and "400 * days_before_year y \<le> 146097 * (y - 1) + 399"
proof -
  define a where "a = y - 1"
  have "4 * (a div 4) \<le> a" "a \<le> 4 * (a div 4) + 3" "100 * (a div 100) \<le> a" "a \<le> 100 * (a div 100) + 99"
    "400 * (a div 400) \<le> a" "a \<le> 400 * (a div 400) + 399"
    using int_div_bounds [of 4 a] int_div_bounds [of 100 a] int_div_bounds [of 400 a] by simp_all
  from leap_day_bounds [OF this]
  show "146097 * (y - 1) - 700 \<le> 400 * days_before_year y" "400 * days_before_year y \<le> 146097 * (y - 1) + 399"
    unfolding days_before_year_def Let_def a_def [symmetric] by simp_all
qed

lemma year_start_le_iff: "year_start y \<le> t \<longleftrightarrow> days_before_year y \<le> (t - zero_time) div day"
proof -
  have "year_start y \<le> t \<longleftrightarrow> days_before_year y * day \<le> t - zero_time" by (auto simp: year_start_def)
  also have "\<dots> \<longleftrightarrow> days_before_year y \<le> (t - zero_time) div day"
    using int_div_bounds [OF day_pos, of "t - zero_time"] by (intro int_mult_le_iff) simp
  finally show ?thesis .
qed

lemma year_of_bounds: "year_start (year_of t) \<le> t \<and> t < year_start (year_of t + 1)"
proof -
  define d where "d = (t - zero_time) div day"
  define y where "y = (400 * d) div 146097 + 1"
  have y: "146097 * (y - 1) \<le> 400 * d" "400 * d < 146097 * y"
    unfolding y_def using int_div_bounds [of 146097 "400 * d"] by simp_all
  have lo: "days_before_year (y - 1) \<le> d" using days_before_year_bounds [of "y - 1"] y by simp
  have hi: "d < days_before_year (y + 2)" using days_before_year_bounds [of "y + 2"] y by simp
  have "year_of t = (if d < days_before_year y then y - 1 else if days_before_year (y + 1) \<le> d then y + 1 else y)"
    unfolding year_of_def Let_def d_def [symmetric] y_def [symmetric]
    by (simp add: year_start_le_iff not_le [symmetric] d_def)
  then show ?thesis using lo hi
    by (auto simp: year_start_le_iff not_le [symmetric] d_def [symmetric] add.assoc)
qed

lemma year_start_mono: "y \<le> z \<Longrightarrow> year_start y \<le> year_start z"
proof -
  have "year_start y \<le> year_start (y + int n)" for n
  proof (induction n)
    case (Suc n)
    then show ?case using year_start_less [of "y + int n"] by (simp add: ac_simps)
  qed simp
  from this [of "nat (z - y)"] show "y \<le> z \<Longrightarrow> year_start y \<le> year_start z" by simp
qed

lemma year_start_1970 [simp]: "year_start 1970 = 0"
  by (simp add: year_start_def days_before_year_def zero_time_def day_def duration_defs)

lemma year_of_unique: "year_start y \<le> t \<Longrightarrow> t < year_start (y + 1) \<Longrightarrow> year_of t = y"
proof (rule ccontr)
  assume a: "year_start y \<le> t" "t < year_start (y + 1)" "year_of t \<noteq> y"
  then consider "year_of t + 1 \<le> y" | "y + 1 \<le> year_of t" by linarith
  then show False
    using year_of_bounds [of t] a(1,2) year_start_mono [of "year_of t + 1" y] year_start_mono [of "y + 1" "year_of t"]
    by cases auto
qed

lemma year_of_1970: "0 \<le> t \<Longrightarrow> 1970 \<le> year_of t"
proof (rule ccontr)
  assume "0 \<le> t" "\<not> 1970 \<le> year_of t"
  then show False using year_of_bounds [of t] year_start_mono [of "year_of t + 1" 1970] by auto
qed

lemma year_of_mono: "s \<le> t \<Longrightarrow> year_of s \<le> year_of t"
proof (rule ccontr)
  assume "s \<le> t" "\<not> year_of s \<le> year_of t"
  then show False using year_of_bounds [of t] year_of_bounds [of s] year_start_mono [of "year_of t + 1" "year_of s"] by auto
qed

end
