(* ===== verification/MarketDataTypes.thy ===== *)
theory MarketDataTypes
  imports TimeModel
begin

text \<open>
  The rows of \<open>internal/domain/marketdata.go\<close>: streams, requests, leases, delivery and writer
  leases and coverage segments, and the strings of their state columns.
\<close>

record market_stream_key =
  mk_exchange :: string
  mk_market :: string
  mk_kind :: string
  mk_symbol :: string
  mk_interval :: string

abbreviation DesiredRunning :: string where "DesiredRunning \<equiv> ''running''"
abbreviation DesiredStopped :: string where "DesiredStopped \<equiv> ''stopped''"
abbreviation RequestPending :: string where "RequestPending \<equiv> ''pending''"
abbreviation RequestActive :: string where "RequestActive \<equiv> ''active''"
abbreviation RequestCancelled :: string where "RequestCancelled \<equiv> ''cancelled''"
abbreviation HistoryPending :: string where "HistoryPending \<equiv> ''pending''"
abbreviation HistoryRunning :: string where "HistoryRunning \<equiv> ''running''"
abbreviation HistoryVerifying :: string where "HistoryVerifying \<equiv> ''verifying''"
abbreviation HistoryReady :: string where "HistoryReady \<equiv> ''ready''"
abbreviation HistoryError :: string where "HistoryError \<equiv> ''error''"
abbreviation HistoryCancelled :: string where "HistoryCancelled \<equiv> ''cancelled''"

record market_stream =
  ms_id :: int
  ms_key :: market_stream_key
  ms_desired :: string
  ms_actual :: string
  ms_live :: bool
  ms_last_data_at :: "go_time option"
  ms_last_error :: string
  ms_last_reconciled_at :: "go_time option"
  ms_created_at :: go_time
  ms_updated_at :: go_time

record market_request =
  mr_id :: int
  mr_user_id :: int
  mr_portfolio_id :: "int option"
  mr_stream_id :: int
  mr_key :: market_stream_key
  mr_needs_live :: bool
  mr_status :: string
  mr_created_at :: go_time
  mr_updated_at :: go_time
  mr_cancelled_at :: "go_time option"

record history_request =
  hr_id :: int
  hr_user_id :: int
  hr_portfolio_id :: "int option"
  hr_key :: market_stream_key
  hr_status :: string
  hr_start :: go_time
  hr_end :: go_time
  hr_covered_start :: "go_time option"
  hr_covered_end :: "go_time option"
  hr_last_error :: string
  hr_created_at :: go_time
  hr_updated_at :: go_time
  hr_cancelled_at :: "go_time option"

record market_lease =
  ml_id :: int
  ml_session_id :: string
  ml_strategy_id :: "int option"
  ml_portfolio_id :: "int option"
  ml_stream_id :: int
  ml_expires_at :: go_time
  ml_last_heartbeat_at :: go_time
  ml_created_at :: go_time
  ml_released_at :: "go_time option"

record session_subscription =
  ss_id :: int
  ss_user_id :: int
  ss_session_id :: string
  ss_runtime_id :: string
  ss_key :: market_stream_key
  ss_environment :: int
  ss_status :: string
  ss_created_at :: go_time
  ss_updated_at :: go_time
  ss_released_at :: "go_time option"

record delivery_lease =
  dl_id :: string
  dl_subscription_id :: int
  dl_owner :: string
  dl_status :: string
  dl_acquired_at :: go_time
  dl_last_heartbeat_at :: go_time
  dl_expires_at :: go_time
  dl_last_delivery_at :: "go_time option"
  dl_last_topic :: string
  dl_last_partition :: int
  dl_last_offset :: int
  dl_released_at :: "go_time option"
  dl_created_at :: go_time
  dl_updated_at :: go_time

record delivery_failure =
  df_id :: int
  df_subscription_id :: int
  df_owner :: string
  df_topic :: string
  df_stream_key :: string
  df_code :: string
  df_reason :: string
  df_first_seen_at :: go_time
  df_last_seen_at :: go_time
  df_attempt_count :: int

record delivery_health =
  dh_subscription :: session_subscription
  dh_lease :: "delivery_lease option"
  dh_latest_failure :: "delivery_failure option"
  dh_status :: string
  dh_blocked_reason :: string
  dh_observed_at :: go_time

record writer_lease =
  wl_id :: string
  wl_key :: market_stream_key
  wl_year :: int
  wl_owner :: string
  wl_scraper :: string
  wl_collector :: string
  wl_status :: string
  wl_acquired_at :: go_time
  wl_last_heartbeat_at :: go_time
  wl_expires_at :: go_time
  wl_released_at :: "go_time option"
  wl_created_at :: go_time
  wl_updated_at :: go_time

record time_range =
  tr_start :: go_time
  tr_end :: go_time
  tr_count :: int

record coverage_segment =
  cv_id :: int
  cv_key :: market_stream_key
  cv_year :: int
  cv_start :: go_time
  cv_end :: go_time
  cv_rows :: int
  cv_source :: string
  cv_updated :: go_time

record coverage_result =
  cr_key :: market_stream_key
  cr_start :: go_time
  cr_end :: go_time
  cr_complete :: bool
  cr_expected :: int
  cr_covered :: int
  cr_segments :: "coverage_segment list"
  cr_missing :: "time_range list"
  cr_reason :: string

record coverage_validation =
  vr_key :: market_stream_key
  vr_start :: go_time
  vr_end :: go_time
  vr_ok :: bool
  vr_expected :: int
  vr_actual :: int
  vr_missing :: "time_range list"
  vr_reason :: string

end
