(* ===== verification/Coverage.thy ===== *)
theory Coverage
  imports MarketDataTypes
begin

text \<open>
  \<open>internal/marketdata/coverage.go\<close>: what part of a requested range is covered by stored bars, and
  what is missing. A segment covers the instants from its start up to, not including, its end; the
  specifications speak of these sets of instants.
\<close>

section \<open>Sets of instants\<close>

definition seg_points :: "coverage_segment \<Rightarrow> int set" where
  "seg_points c = {cv_start c ..< cv_end c}"

definition cov_points :: "coverage_segment list \<Rightarrow> int set" where
  "cov_points cs = (\<Union>c\<in>set cs. seg_points c)"

definition range_points :: "time_range list \<Rightarrow> int set" where
  "range_points rs = (\<Union>r\<in>set rs. {tr_start r ..< tr_end r})"

lemma cov_points_simps [simp]:
  "cov_points [] = {}" "cov_points (c # cs) = seg_points c \<union> cov_points cs"
  "cov_points (cs @ ds) = cov_points cs \<union> cov_points ds"
  by (auto simp: cov_points_def)

lemma range_points_simps [simp]:
  "range_points [] = {}" "range_points (r # rs) = {tr_start r ..< tr_end r} \<union> range_points rs"
  by (auto simp: range_points_def)

lemma cov_points_cong: "set cs = set ds \<Longrightarrow> cov_points cs = cov_points ds"
  by (simp add: cov_points_def)

section \<open>Missing ranges\<close>

definition maxTime :: "go_time \<Rightarrow> go_time \<Rightarrow> go_time" where "maxTime a b = (if b < a then a else b)"
definition minTime :: "go_time \<Rightarrow> go_time \<Rightarrow> go_time" where "minTime a b = (if a < b then a else b)"

lemma maxTime_max [simp]: "maxTime a b = max a b" by (simp add: maxTime_def max_def)
lemma minTime_min [simp]: "minTime a b = min a b" by (simp add: minTime_def min_def)

text \<open>The loop that clips the stored segments to the request.\<close>
fun clip_segments :: "go_time \<Rightarrow> go_time \<Rightarrow> coverage_segment list \<Rightarrow> coverage_segment list" where
  "clip_segments s e [] = []"
| "clip_segments s e (c # cs) =
     (if \<not> s < cv_end c \<or> \<not> cv_start c < e then clip_segments s e cs
      else let c' = c\<lparr>cv_start := maxTime (cv_start c) s, cv_end := minTime (cv_end c) e\<rparr>
           in if cv_start c' < cv_end c' then c' # clip_segments s e cs else clip_segments s e cs)"

definition sort_segments :: "coverage_segment list \<Rightarrow> coverage_segment list" where
  "sort_segments = sort_key (\<lambda>c. (cv_start c, cv_end c))"

fun missing_loop :: "string \<Rightarrow> go_time \<Rightarrow> go_time \<Rightarrow> coverage_segment list \<Rightarrow> time_range list result" where
  "missing_loop interval cursor e [] =
     (if cursor < e
      then (case expectedCount cursor e interval of
          Inl er \<Rightarrow> Inl er
        | Inr n \<Rightarrow> Inr [\<lparr>tr_start = cursor, tr_end = e, tr_count = n\<rparr>])
      else Inr [])"
| "missing_loop interval cursor e (c # cs) =
     (let cursor' = (if cursor < cv_end c then cv_end c else cursor) in
      if cursor < cv_start c
      then (case expectedCount cursor (cv_start c) interval of
          Inl er \<Rightarrow> Inl er
        | Inr n \<Rightarrow> (case missing_loop interval cursor' e cs of
              Inl er \<Rightarrow> Inl er
            | Inr rs \<Rightarrow> Inr (\<lparr>tr_start = cursor, tr_end = cv_start c, tr_count = n\<rparr> # rs)))
      else missing_loop interval cursor' e cs)"

definition computeMissingSegments ::
  "go_time \<Rightarrow> go_time \<Rightarrow> string \<Rightarrow> coverage_segment list \<Rightarrow> time_range list result" where
  "computeMissingSegments s e interval covered =
     (if \<not> s < e then Inl (Plain ''end_at must be after start_at'')
      else missing_loop interval s e (sort_segments (clip_segments s e covered)))"

section \<open>The sweep\<close>

lemma clip_points: "cov_points (clip_segments s e cs) = cov_points cs \<inter> {s ..< e}"
proof (induction cs)
  case (Cons c cs)
  define c' where "c' = c\<lparr>cv_start := max (cv_start c) s, cv_end := min (cv_end c) e\<rparr>"
  have i: "seg_points c \<inter> {s ..< e} = seg_points c'"
    by (simp add: seg_points_def c'_def)
  have "clip_segments s e (c # cs) = (if cv_start c' < cv_end c' then c' # clip_segments s e cs else clip_segments s e cs)"
    by (auto simp: c'_def Let_def)
  moreover have "\<not> cv_start c' < cv_end c' \<Longrightarrow> seg_points c' = {}" by (simp add: seg_points_def)
  ultimately show ?case using Cons i by (simp add: Int_Un_distrib2)
qed simp

lemma clip_bounds:
  "c \<in> set (clip_segments s e cs) \<Longrightarrow> s \<le> cv_start c \<and> cv_start c < cv_end c \<and> cv_end c \<le> e"
  by (induction cs) (auto simp: Let_def split: if_splits)

lemma set_sort_segments [simp]: "set (sort_segments cs) = set cs"
  by (simp add: sort_segments_def)

lemma sort_segments_sorted: "sorted_wrt (\<lambda>a b. cv_start a \<le> cv_start b) (sort_segments cs)"
proof -
  have "sorted (map (\<lambda>c. (cv_start c, cv_end c)) (sort_segments cs))"
    by (simp add: sort_segments_def)
  then have "sorted_wrt (\<lambda>a b. (cv_start a, cv_end a) \<le> (cv_start b, cv_end b)) (sort_segments cs)"
    by (simp add: sorted_map)
  then show ?thesis by (rule sorted_wrt_mono_rel [rotated]) auto
qed

definition count_ok :: "string \<Rightarrow> time_range \<Rightarrow> bool" where
  "count_ok interval r \<longleftrightarrow> tr_start r < tr_end r \<and>
     (\<exists>d. intervalDuration interval = Inr d \<and> 0 < d \<and> tr_count r * d = tr_end r - tr_start r)"

lemma expectedCount_count_ok:
  "expectedCount s e interval = Inr n \<Longrightarrow> count_ok interval \<lparr>tr_start = s, tr_end = e, tr_count = n\<rparr>"
  by (erule expectedCount_exact) (auto simp: count_ok_def)

lemma missing_loop_spec:
  assumes "missing_loop interval cursor e cs = Inr rs"
    and "sorted_wrt (\<lambda>a b. cv_start a \<le> cv_start b) cs"
    and "\<forall>c\<in>set cs. cv_start c < cv_end c \<and> cv_end c \<le> e"
  shows "range_points rs = {cursor ..< e} - cov_points cs \<and>
    sorted_wrt (\<lambda>a b. tr_end a < tr_start b) rs \<and>
    (\<forall>r\<in>set rs. cursor \<le> tr_start r \<and> tr_end r \<le> e \<and> count_ok interval r)"
  using assms
proof (induction interval cursor e cs arbitrary: rs rule: missing_loop.induct)
  case (1 interval cursor e)
  then show ?case using expectedCount_count_ok by (fastforce split: if_splits sum.splits)
next
  case (2 interval cursor e c cs)
  define cursor' where "cursor' = (if cursor < cv_end c then cv_end c else cursor)"
  have c: "cv_start c < cv_end c" "cv_end c \<le> e" and later: "\<forall>d\<in>set cs. cv_start c \<le> cv_start d"
    using 2(4,5) by auto
  have later': "cov_points cs \<inter> {..< cv_start c} = {}"
    using later by (auto simp: cov_points_def seg_points_def)
  show ?case
  proof (cases "cursor < cv_start c")
    case True
    obtain n rs' where n: "expectedCount cursor (cv_start c) interval = Inr n"
      and r: "missing_loop interval cursor' e cs = Inr rs'"
        "rs = \<lparr>tr_start = cursor, tr_end = cv_start c, tr_count = n\<rparr> # rs'"
      using 2(3) True by (auto simp: Let_def cursor'_def split: sum.splits)
    have cur: "cursor' = cv_end c" using True c by (simp add: cursor'_def)
    have ih: "range_points rs' = {cursor' ..< e} - cov_points cs"
      "sorted_wrt (\<lambda>a b. tr_end a < tr_start b) rs'"
      "\<forall>r\<in>set rs'. cursor' \<le> tr_start r \<and> tr_end r \<le> e \<and> count_ok interval r"
      using 2(1) [OF _ True n, of cursor' rs'] r(1) 2(4,5) by (auto simp: cursor'_def)
    have pts: "range_points rs = {cursor ..< e} - cov_points (c # cs)"
      using c True later' by (auto simp: r(2) ih(1) cur seg_points_def)
    show ?thesis using pts ih(2,3) c True cur expectedCount_count_ok [OF n] by (fastforce simp: r(2))
  next
    case False
    have ih: "range_points rs = {cursor' ..< e} - cov_points cs"
      "sorted_wrt (\<lambda>a b. tr_end a < tr_start b) rs"
      "\<forall>r\<in>set rs. cursor' \<le> tr_start r \<and> tr_end r \<le> e \<and> count_ok interval r"
      using 2(2) [OF _ False, of cursor' rs] 2(3,4,5) False by (auto simp: cursor'_def Let_def)
    have pts: "range_points rs = {cursor ..< e} - cov_points (c # cs)"
      using c False later' by (auto simp: ih(1) cursor'_def seg_points_def)
    show ?thesis using pts ih(2,3) by (auto simp: cursor'_def split: if_splits)
  qed
qed

lemma computeMissing_spec:
  assumes "computeMissingSegments s e interval covered = Inr rs"
  shows "range_points rs = {s ..< e} - cov_points covered \<and>
    sorted_wrt (\<lambda>a b. tr_end a < tr_start b) rs \<and>
    (\<forall>r\<in>set rs. s \<le> tr_start r \<and> tr_end r \<le> e \<and> count_ok interval r)"
proof -
  let ?cs = "sort_segments (clip_segments s e covered)"
  have l: "missing_loop interval s e ?cs = Inr rs"
    using assms by (auto simp: computeMissingSegments_def split: if_splits)
  have "cov_points ?cs = cov_points covered \<inter> {s ..< e}"
    using cov_points_cong [of ?cs "clip_segments s e covered"] by (simp add: clip_points)
  then show ?thesis
    using missing_loop_spec [OF l sort_segments_sorted] clip_bounds [of _ s e covered] by auto
qed

end
