(* ===== verification/CoverageMerge.thy ===== *)
theory CoverageMerge
  imports Coverage
begin

text \<open>
  The second half of \<open>internal/marketdata/coverage.go\<close>: splitting segments at the years, merging
  the stored segments of a stream for a query, and deriving segments from the raw bars. Segments
  that overlap or touch are merged within a year; a merge of two sources is \<open>mixed\<close>.
\<close>

section \<open>Splitting at the years\<close>

text \<open>\<open>time.Date(cursor.Year()+1, January, 1)\<close>; the loop advances because the next year is later.\<close>

definition next_year :: "go_time \<Rightarrow> go_time" where
  "next_year t = year_start (year_of t + 1)"

lemma next_year_less: "t < next_year t"
  using year_of_bounds by (simp add: next_year_def)

function split_loop :: "coverage_segment \<Rightarrow> go_time \<Rightarrow> coverage_segment list" where
  "split_loop seg cursor =
     (if cursor < cv_end seg
      then let partEnd = minTime (cv_end seg) (next_year cursor)
           in seg\<lparr>cv_start := cursor, cv_end := partEnd, cv_year := year_of cursor\<rparr> # split_loop seg partEnd
      else [])"
  by pat_completeness auto
termination
  by (relation "measure (\<lambda>(seg, cursor). nat (cv_end seg - cursor))") (use next_year_less in auto)

declare split_loop.simps [simp del]

definition splitCoverageSegmentByYear :: "coverage_segment \<Rightarrow> coverage_segment list" where
  "splitCoverageSegmentByYear seg = (if \<not> cv_start seg < cv_end seg then [] else split_loop seg (cv_start seg))"

text \<open>A segment within the calendar year it names.\<close>
definition in_year :: "coverage_segment \<Rightarrow> bool" where
  "in_year c \<longleftrightarrow> cv_start c < cv_end c \<and> year_start (cv_year c) \<le> cv_start c \<and> cv_end c \<le> year_start (cv_year c + 1)"

lemma split_loop_spec:
  "cov_points (split_loop seg cursor) = {cursor ..< cv_end seg} \<and>
   (\<forall>c\<in>set (split_loop seg cursor). in_year c \<and> cv_key c = cv_key seg \<and> cursor \<le> cv_start c \<and>
      cv_end c \<le> cv_end seg \<and> cv_source c = cv_source seg \<and> cv_updated c = cv_updated seg) \<and>
   sorted_wrt (\<lambda>a b. cv_end a \<le> cv_start b) (split_loop seg cursor)"
proof (induction seg cursor rule: split_loop.induct)
  case (1 seg cursor)
  show ?case
  proof (cases "cursor < cv_end seg")
    case True
    define p where "p = min (cv_end seg) (next_year cursor)"
    have p: "cursor < p" "p \<le> cv_end seg" "p \<le> year_start (year_of cursor + 1)"
      using True next_year_less [of cursor] by (auto simp: p_def next_year_def)
    note ih = 1 [OF True, of p]
    have e: "split_loop seg cursor = seg\<lparr>cv_start := cursor, cv_end := p, cv_year := year_of cursor\<rparr> # split_loop seg p"
      using True by (subst split_loop.simps) (simp add: p_def Let_def)
    show ?thesis using ih p year_of_bounds [of cursor] unfolding e
      by (auto simp: p_def seg_points_def in_year_def)
  next
    case False
    then show ?thesis by (subst (1 2 3) split_loop.simps) auto
  qed
qed

lemma split_points: "cov_points (splitCoverageSegmentByYear seg) = seg_points seg"
  using split_loop_spec [of seg "cv_start seg"] by (auto simp: splitCoverageSegmentByYear_def seg_points_def)

lemma split_in_year:
  "c \<in> set (splitCoverageSegmentByYear seg) \<Longrightarrow> in_year c \<and> cv_key c = cv_key seg \<and>
     cv_start seg \<le> cv_start c \<and> cv_end c \<le> cv_end seg"
  using split_loop_spec [of seg "cv_start seg"] by (auto simp: splitCoverageSegmentByYear_def split: if_splits)

section \<open>Merging\<close>

definition mergeCoverageSource :: "string \<Rightarrow> string \<Rightarrow> string" where
  "mergeCoverageSource a b = (if a = '''' then b else if b = '''' \<or> a = b then a else ''mixed'')"

text \<open>One round of the merge loop, on the segments collected so far.\<close>
definition merge_step :: "string \<Rightarrow> coverage_segment list \<Rightarrow> coverage_segment \<Rightarrow> coverage_segment list result" where
  "merge_step interval out seg0 =
     (case expectedCount (cv_start seg0) (cv_end seg0) interval of
        Inl er \<Rightarrow> Inl er
      | Inr n \<Rightarrow>
          (let seg = seg0\<lparr>cv_rows := n\<rparr> in
           if out = [] then Inr [seg]
           else let l = last out in
             if cv_year l = cv_year seg \<and> \<not> cv_end l < cv_start seg
             then (let l1 = l\<lparr>cv_end := (if cv_end l < cv_end seg then cv_end seg else cv_end l),
                             cv_source := mergeCoverageSource (cv_source l) (cv_source seg)\<rparr>
                   in case expectedCount (cv_start l1) (cv_end l1) interval of
                        Inl er \<Rightarrow> Inl er
                      | Inr m \<Rightarrow> Inr (butlast out @ [l1\<lparr>cv_rows := m,
                          cv_updated := (if cv_updated l < cv_updated seg then cv_updated seg else cv_updated l)\<rparr>]))
             else Inr (out @ [seg])))"

fun merge_loop :: "string \<Rightarrow> coverage_segment list \<Rightarrow> coverage_segment list \<Rightarrow> coverage_segment list result" where
  "merge_loop interval out [] = Inr out"
| "merge_loop interval out (seg # segs) = (case merge_step interval out seg of
     Inl er \<Rightarrow> Inl er | Inr out' \<Rightarrow> merge_loop interval out' segs)"

definition mergeCoverageForQuery ::
  "market_stream_key \<Rightarrow> go_time \<Rightarrow> go_time \<Rightarrow> coverage_segment list \<Rightarrow> coverage_segment list result" where
  "mergeCoverageForQuery key s e covered =
     (if \<not> s < e then Inl (Plain ''end_at must be after start_at'')
      else merge_loop (mk_interval key) []
        (sort_segments (concat (map splitCoverageSegmentByYear
           (clip_segments s e (filter (\<lambda>c. cv_key c = key) covered))))))"

text \<open>What the output of a merge looks like: in order, apart within a year, with exact counts.\<close>

definition rows_ok :: "string \<Rightarrow> coverage_segment \<Rightarrow> bool" where
  "rows_ok interval c \<longleftrightarrow> (\<exists>d. intervalDuration interval = Inr d \<and> 0 < d \<and> cv_rows c * d = cv_end c - cv_start c)"

definition apart :: "coverage_segment \<Rightarrow> coverage_segment \<Rightarrow> bool" where
  "apart a b \<longleftrightarrow> cv_end a \<le> cv_start b \<and> (cv_year a = cv_year b \<longrightarrow> cv_end a < cv_start b)"

definition merged_ok :: "string \<Rightarrow> coverage_segment list \<Rightarrow> bool" where
  "merged_ok interval out \<longleftrightarrow> sorted_wrt apart out \<and> (\<forall>c\<in>set out. in_year c \<and> rows_ok interval c)"

lemma expectedCount_rows_ok:
  "expectedCount (cv_start c) (cv_end c) interval = Inr (cv_rows c) \<Longrightarrow> rows_ok interval c"
  by (erule expectedCount_exact) (auto simp: rows_ok_def)

text \<open>A later segment of another year starts after the earlier one's year has ended.\<close>
lemma in_year_other:
  assumes "in_year a" "in_year b" "cv_start a \<le> cv_start b" "cv_year a \<noteq> cv_year b"
  shows "cv_end a \<le> cv_start b"
proof -
  have "cv_year a < cv_year b"
  proof (rule ccontr)
    assume "\<not> cv_year a < cv_year b"
    then have "cv_year b + 1 \<le> cv_year a" using assms(4) by simp
    then have "year_start (cv_year b + 1) \<le> cv_start a" using assms(1) year_start_mono by (force simp: in_year_def)
    then show False using assms(2,3) by (simp add: in_year_def)
  qed
  then have "year_start (cv_year a + 1) \<le> year_start (cv_year b)" by (intro year_start_mono) simp
  then show ?thesis using assms(1,2) by (simp add: in_year_def)
qed

lemma apart_next:
  assumes "apart a l" "cv_start l < cv_end l" "cv_end l \<le> cv_start c"
  shows "apart a c"
  using assms by (auto simp: apart_def)

lemma merged_ok_snoc:
  assumes "merged_ok interval (init @ [l])" "in_year c" "rows_ok interval c" "apart l c"
  shows "merged_ok interval (init @ [l, c])"
proof -
  have "\<forall>a\<in>set init. apart a c"
    using assms by (auto simp: merged_ok_def sorted_wrt_append in_year_def apart_def[of l c] intro!: apart_next [of _ l c])
  then show ?thesis using assms by (auto simp: merged_ok_def sorted_wrt_append)
qed

lemma merged_ok_last:
  assumes "merged_ok interval (init @ [l])" "in_year c" "rows_ok interval c" "cv_start c = cv_start l" "cv_year c = cv_year l"
  shows "merged_ok interval (init @ [c])"
  using assms by (auto simp: merged_ok_def sorted_wrt_append apart_def)

lemma merge_step_spec:
  assumes "merged_ok interval out" "in_year seg" "\<forall>c\<in>set out. cv_start c \<le> cv_start seg"
    and "merge_step interval out seg = Inr out'"
  shows "merged_ok interval out' \<and> cov_points out' = cov_points out \<union> seg_points seg \<and>
    (\<forall>c\<in>set out'. cv_start c \<le> cv_start seg) \<and> cv_key ` set out' \<subseteq> cv_key ` set out \<union> {cv_key seg}"
proof -
  obtain n where n: "expectedCount (cv_start seg) (cv_end seg) interval = Inr n"
    using assms(4) by (auto simp: merge_step_def split: sum.splits)
  define sg where "sg = seg\<lparr>cv_rows := n\<rparr>"
  have sg: "in_year sg" "rows_ok interval sg" "seg_points sg = seg_points seg" "cv_start sg = cv_start seg"
    "cv_end sg = cv_end seg" "cv_year sg = cv_year seg" "cv_key sg = cv_key seg"
    using assms(2) expectedCount_rows_ok [of sg interval] n by (simp_all add: sg_def in_year_def seg_points_def)
  show ?thesis
  proof (cases out rule: rev_cases)
    case Nil
    then have "out' = [sg]" using assms(4) n by (simp add: merge_step_def sg_def)
    then show ?thesis using Nil sg by (simp add: merged_ok_def)
  next
    case (snoc init l)
    have l: "in_year l" "cv_start l \<le> cv_start seg" using assms(1,3) snoc by (auto simp: merged_ok_def)
    show ?thesis
    proof (cases "cv_year l = cv_year seg \<and> cv_start seg \<le> cv_end l")
      case True
      define p where "p = max (cv_end l) (cv_end seg)"
      obtain m where m: "expectedCount (cv_start l) p interval = Inr m"
        and o: "out' = init @ [l\<lparr>cv_end := p, cv_source := mergeCoverageSource (cv_source l) (cv_source seg), cv_rows := m,
             cv_updated := (if cv_updated l < cv_updated seg then cv_updated seg else cv_updated l)\<rparr>]"
        using assms(4) True n snoc
        by (auto simp: merge_step_def Let_def not_less p_def max_def split: sum.splits if_splits)
      define l' where "l' = last out'"
      have l': "out' = init @ [l']" "cv_start l' = cv_start l" "cv_end l' = p" "cv_year l' = cv_year l" "cv_rows l' = m"
        "cv_key l' = cv_key l"
        by (simp_all add: l'_def o)
      have "in_year l'" using l assms(2) True by (auto simp: in_year_def l' p_def)
      moreover have "rows_ok interval l'" using m by (intro expectedCount_rows_ok) (simp add: l')
      ultimately have "merged_ok interval out'"
        using merged_ok_last [of interval init l l'] assms(1) snoc l' by simp
      moreover have "seg_points l' = seg_points l \<union> seg_points seg"
        using l assms(2) True by (auto simp: seg_points_def l' p_def in_year_def)
      ultimately show ?thesis using snoc l' l assms(3) by auto
    next
      case False
      then have o: "out' = init @ [l, sg]"
        using assms(4) n snoc by (auto simp: merge_step_def Let_def sg_def not_less)
      have "apart l sg"
        using False l sg in_year_other [of l sg] by (auto simp: apart_def)
      then have "merged_ok interval out'"
        unfolding o using assms(1) snoc sg(1,2) by (intro merged_ok_snoc) simp_all
      then show ?thesis using snoc o sg assms(3) by auto
    qed
  qed
qed

lemma merge_loop_spec:
  assumes "merged_ok interval out" "\<forall>c\<in>set segs. in_year c"
    and "sorted_wrt (\<lambda>a b. cv_start a \<le> cv_start b) segs" "\<forall>a\<in>set out. \<forall>b\<in>set segs. cv_start a \<le> cv_start b"
    and "merge_loop interval out segs = Inr res"
  shows "merged_ok interval res \<and> cov_points res = cov_points out \<union> cov_points segs \<and>
    cv_key ` set res \<subseteq> cv_key ` set out \<union> cv_key ` set segs"
  using assms
proof (induction interval out segs rule: merge_loop.induct)
  case (2 interval out seg segs)
  obtain out' where o: "merge_step interval out seg = Inr out'" using 2(6) by (auto split: sum.splits)
  note step = merge_step_spec [OF 2(2) _ _ o]
  have s: "merged_ok interval out'" "cov_points out' = cov_points out \<union> seg_points seg"
    "\<forall>c\<in>set out'. cv_start c \<le> cv_start seg" "cv_key ` set out' \<subseteq> cv_key ` set out \<union> {cv_key seg}"
    using step 2(3,5) by auto
  have ih: "merged_ok interval res \<and> cov_points res = cov_points out' \<union> cov_points segs \<and>
    cv_key ` set res \<subseteq> cv_key ` set out' \<union> cv_key ` set segs"
    using 2(3,4,6) s(1,3) o by (intro 2(1) [OF o]) (auto intro: order_trans)
  moreover have "cv_key ` set out' \<union> cv_key ` set segs \<subseteq> cv_key ` set out \<union> cv_key ` set (seg # segs)"
    using s(4) by auto
  ultimately have "cv_key ` set res \<subseteq> cv_key ` set out \<union> cv_key ` set (seg # segs)" by (meson subset_trans)
  moreover have "cov_points res = cov_points out \<union> cov_points (seg # segs)"
    using ih s(2) by (simp add: Un_assoc)
  ultimately show ?case using ih by blast
qed simp

lemma mergeCoverage_spec:
  assumes "mergeCoverageForQuery key s e covered = Inr res"
  shows "merged_ok (mk_interval key) res" "\<forall>c\<in>set res. cv_key c = key"
    "cov_points res = cov_points (filter (\<lambda>c. cv_key c = key) covered) \<inter> {s ..< e}"
proof -
  let ?cl = "clip_segments s e (filter (\<lambda>c. cv_key c = key) covered)"
  let ?segs = "concat (map splitCoverageSegmentByYear ?cl)"
  have l: "merge_loop (mk_interval key) [] (sort_segments ?segs) = Inr res"
    using assms by (auto simp: mergeCoverageForQuery_def split: if_splits)
  have pts: "cov_points ?segs = cov_points ?cl" for cl
  proof -
    have "cov_points (concat (map splitCoverageSegmentByYear cs)) = cov_points cs" for cs
      by (induction cs) (auto simp: split_points)
    then show ?thesis by simp
  qed
  have keys: "c \<in> set (clip_segments s e cs) \<Longrightarrow> cv_key c \<in> cv_key ` set cs" for c cs
    by (induction cs) (auto simp: Let_def split: if_splits)
  have k: "cv_key ` set ?segs \<subseteq> {key}" using keys split_in_year by fastforce
  have iy: "\<forall>c\<in>set ?segs. in_year c" using split_in_year by fastforce
  note spec = merge_loop_spec [OF _ _ sort_segments_sorted _ l]
  have "merged_ok (mk_interval key) res \<and> cov_points res = cov_points (sort_segments ?segs) \<and>
      cv_key ` set res \<subseteq> cv_key ` set ?segs"
    using spec iy by (auto simp: merged_ok_def)
  then have r: "merged_ok (mk_interval key) res" "cov_points res = cov_points (sort_segments ?segs)"
    "cv_key ` set res \<subseteq> {key}" using k by blast+
  show "merged_ok (mk_interval key) res" by (rule r(1))
  show "\<forall>c\<in>set res. cv_key c = key" using r(3) by blast
  show "cov_points res = cov_points (filter (\<lambda>c. cv_key c = key) covered) \<inter> {s ..< e}"
    using r(2) pts cov_points_cong [of "sort_segments ?segs" ?segs] by (simp add: clip_points)
qed

section \<open>When the merge cannot fail\<close>

text \<open>An aligned instant of the query range.\<close>
definition grid_point :: "duration \<Rightarrow> go_time \<Rightarrow> go_time \<Rightarrow> go_time \<Rightarrow> bool" where
  "grid_point d s e x \<longleftrightarrow> s \<le> x \<and> x \<le> e \<and> d dvd x"

definition grid_seg :: "duration \<Rightarrow> go_time \<Rightarrow> go_time \<Rightarrow> coverage_segment \<Rightarrow> bool" where
  "grid_seg d s e c \<longleftrightarrow> grid_point d s e (cv_start c) \<and> grid_point d s e (cv_end c) \<and> cv_start c < cv_end c"

definition query_ok :: "string \<Rightarrow> duration \<Rightarrow> go_time \<Rightarrow> go_time \<Rightarrow> bool" where
  "query_ok interval d s e \<longleftrightarrow> intervalDuration interval = Inr d \<and> 0 < d \<and> in64 s \<and> in64 e \<and> in64 (e - s)"

lemma grid_count:
  assumes "query_ok interval d s e" "grid_point d s e a" "grid_point d s e b" "a < b"
  shows "\<exists>n. expectedCount a b interval = Inr n"
proof -
  have "in64 a" "in64 b" "in64 (b - a)" using assms by (auto simp: query_ok_def grid_point_def in64_def)
  then show ?thesis using assms expectedCount_ok [of interval d a b]
    by (auto simp: query_ok_def grid_point_def)
qed

lemma year_start_aligned: "d dvd day \<Longrightarrow> d dvd year_start y"
proof -
  assume "d dvd day"
  moreover have "year_start y = (days_before_year y - 719162) * day"
    by (simp add: year_start_def zero_time_def day_def duration_defs algebra_simps)
  ultimately show ?thesis by simp
qed

lemma split_grid:
  assumes "d dvd day" "grid_seg d s e seg" "c \<in> set (splitCoverageSegmentByYear seg)"
  shows "grid_seg d s e c"
proof -
  have "\<forall>c\<in>set (split_loop seg cursor). grid_seg d s e c" if "grid_point d s e cursor" "grid_point d s e (cv_end seg)" for cursor
    using that
  proof (induction seg cursor rule: split_loop.induct)
    case (1 seg cursor)
    show ?case
    proof (cases "cursor < cv_end seg")
      case True
      define p where "p = min (cv_end seg) (next_year cursor)"
      have "d dvd p" using year_start_aligned [OF assms(1)] 1(3) by (auto simp: p_def min_def next_year_def grid_point_def)
      then have p: "grid_point d s e p" "cursor < p"
        using 1(2,3) True next_year_less [of cursor] by (auto simp: p_def grid_point_def)
      have "split_loop seg cursor = seg\<lparr>cv_start := cursor, cv_end := p, cv_year := year_of cursor\<rparr> # split_loop seg p"
        using True by (subst split_loop.simps) (simp add: p_def Let_def)
      then show ?thesis using 1(1) [OF True, of p] p 1(2,3) by (simp add: p_def grid_seg_def)
    next
      case False
      then show ?thesis by (subst split_loop.simps) simp
    qed
  qed
  then show ?thesis using assms(2,3) by (auto simp: splitCoverageSegmentByYear_def grid_seg_def split: if_splits)
qed

lemma merge_step_total:
  assumes q: "query_ok interval d s e" and g: "grid_seg d s e seg" "\<forall>c\<in>set out. grid_seg d s e c"
  shows "\<exists>out'. merge_step interval out seg = Inr out' \<and> (\<forall>c\<in>set out'. grid_seg d s e c)"
proof -
  obtain n where n: "expectedCount (cv_start seg) (cv_end seg) interval = Inr n"
    using grid_count [OF q] g(1) by (auto simp: grid_seg_def)
  show ?thesis
  proof (cases out rule: rev_cases)
    case Nil
    then show ?thesis using n g by (simp add: merge_step_def grid_seg_def)
  next
    case (snoc init l)
    define p where "p = (if cv_end l < cv_end seg then cv_end seg else cv_end l)"
    have l: "grid_seg d s e l" using g snoc by simp
    then have "grid_point d s e p" "cv_start l < p" using g(1) by (auto simp: grid_seg_def p_def)
    then obtain m where "expectedCount (cv_start l) p interval = Inr m" using grid_count [OF q] l by (auto simp: grid_seg_def)
    note m = this
    show ?thesis
    proof (cases "cv_year l = cv_year seg \<and> \<not> cv_end l < cv_start seg")
      case True
      obtain l' where "merge_step interval out seg = Inr (init @ [l'])" "cv_start l' = cv_start l" "cv_end l' = p"
        using n m True snoc by (cases "cv_end l < cv_end seg") (simp_all add: merge_step_def Let_def p_def)
      then show ?thesis using g snoc l \<open>grid_point d s e p\<close> \<open>cv_start l < p\<close> by (auto simp: grid_seg_def)
    next
      case False
      then have "merge_step interval out seg = Inr (out @ [seg\<lparr>cv_rows := n\<rparr>])"
        using n snoc by (cases "cv_year l = cv_year seg") (simp_all add: merge_step_def Let_def)
      then show ?thesis using g by (auto simp: grid_seg_def)
    qed
  qed
qed

lemma merge_loop_total:
  assumes q: "query_ok interval d s e"
  shows "\<forall>c\<in>set segs. grid_seg d s e c \<Longrightarrow> \<forall>c\<in>set out. grid_seg d s e c \<Longrightarrow>
    \<exists>res. merge_loop interval out segs = Inr res \<and> (\<forall>c\<in>set res. grid_seg d s e c)"
proof (induction segs arbitrary: out)
  case (Cons c cs)
  then obtain out' where "merge_step interval out c = Inr out'" "\<forall>c\<in>set out'. grid_seg d s e c"
    using merge_step_total [OF q, of c out] by auto
  then show ?case using Cons by simp
qed simp

lemma clip_grid:
  assumes "grid_point d s e s" "grid_point d s e e" "\<forall>c\<in>set cs. d dvd cv_start c \<and> d dvd cv_end c"
  shows "\<forall>c\<in>set (clip_segments s e cs). grid_seg d s e c"
  using assms(3)
proof (induction cs)
  case (Cons c cs)
  then show ?case using assms(1,2)
    by (auto simp: Let_def grid_seg_def grid_point_def max_def min_def)
qed simp

lemma mergeCoverage_total:
  assumes q: "query_ok (mk_interval key) d s e" and "d dvd day" "s < e" "d dvd s" "d dvd e"
    and "\<forall>c\<in>set covered. cv_key c = key \<longrightarrow> d dvd cv_start c \<and> d dvd cv_end c"
  shows "\<exists>res. mergeCoverageForQuery key s e covered = Inr res \<and> (\<forall>c\<in>set res. grid_seg d s e c)"
proof -
  let ?cl = "clip_segments s e (filter (\<lambda>c. cv_key c = key) covered)"
  have "\<forall>c\<in>set ?cl. grid_seg d s e c" using assms by (intro clip_grid) (auto simp: grid_point_def)
  then have "\<forall>c\<in>set (sort_segments (concat (map splitCoverageSegmentByYear ?cl))). grid_seg d s e c"
    using split_grid [OF assms(2)] by auto
  from merge_loop_total [OF q this, of "[]"] show ?thesis using assms(3) by (simp add: mergeCoverageForQuery_def)
qed

lemma missing_total:
  assumes q: "query_ok interval d s e"
  shows "grid_point d s e cursor \<Longrightarrow> grid_point d s e e \<Longrightarrow> \<forall>c\<in>set cs. grid_seg d s e c \<Longrightarrow>
    \<exists>rs. missing_loop interval cursor e cs = Inr rs"
proof (induction cs arbitrary: cursor)
  case Nil
  then show ?case using grid_count [OF q, of cursor e] by (cases "cursor < e") auto
next
  case (Cons c cs)
  define cursor' where "cursor' = (if cursor < cv_end c then cv_end c else cursor)"
  have "grid_point d s e cursor'" using Cons.prems by (auto simp: cursor'_def grid_seg_def)
  then obtain rs where rs: "missing_loop interval cursor' e cs = Inr rs" using Cons by auto
  show ?case
  proof (cases "cursor < cv_start c")
    case True
    then obtain n where "expectedCount cursor (cv_start c) interval = Inr n"
      using grid_count [OF q, of cursor "cv_start c"] Cons.prems by (auto simp: grid_seg_def)
    then show ?thesis using True rs by (simp add: cursor'_def Let_def)
  next
    case False
    then show ?thesis using rs by (simp add: cursor'_def Let_def)
  qed
qed

lemma computeMissing_total:
  assumes "query_ok interval d s e" "s < e" "d dvd s" "d dvd e" "\<forall>c\<in>set cs. grid_seg d s e c"
  shows "\<exists>rs. computeMissingSegments s e interval cs = Inr rs"
proof -
  have "\<forall>c\<in>set (clip_segments s e cs). grid_seg d s e c"
    using assms by (intro clip_grid) (auto simp: grid_point_def grid_seg_def)
  then show ?thesis using assms missing_total [OF assms(1), of s "sort_segments (clip_segments s e cs)"]
    by (auto simp: computeMissingSegments_def grid_point_def)
qed

end
