(* ===== verification/KlineQuery.thy ===== *)
theory KlineQuery
  imports TimeModel
begin

text \<open>
  \<open>internal/runtimechannel/market_data_query.go\<close>: reading bars from the yearly databases. The
  SQL driver is a parameter (\<open>kline_env\<close>): whether opening a data source fails, what each attempt
  of a query answers, and whether the context is done after, or while waiting after, an attempt.
  Prices are \<open>float64\<close> bit patterns that are only carried along; case mapping is that of ASCII.
\<close>

section \<open>Data\<close>

record mdq_config =
  mdq_host :: string
  mdq_port :: int
  mdq_user :: string
  mdq_password :: string
  mdq_database :: string
  mdq_sslmode :: string
  mdq_timeout :: int

record kline_query =
  kq_exchange :: string
  kq_market :: string
  kq_symbol :: string
  kq_interval :: string
  kq_start :: int
  kq_end :: int
  kq_limit :: int

record kline_row =
  kr_exchange :: string
  kr_market :: string
  kr_symbol :: string
  kr_interval :: string
  kr_open_time :: int
  kr_close_time :: int
  kr_open :: "64 word"
  kr_high :: "64 word"
  kr_low :: "64 word"
  kr_close :: "64 word"
  kr_volume :: "64 word"
  kr_timestamp :: int

text \<open>The columns of the \<open>SELECT\<close>, and the errors of the driver.\<close>

record db_row =
  db_symbol :: string
  db_open_at :: go_time
  db_close_at :: go_time
  db_prices :: "64 word \<times> 64 word \<times> 64 word \<times> 64 word"
  db_volume :: "64 word"

datatype db_error = PqError string string | NetError bool string | OtherError string | CtxError

primrec db_error_text :: "db_error \<Rightarrow> string" where
  "db_error_text (PqError c m) = m"
| "db_error_text (NetError t m) = m"
| "db_error_text (OtherError m) = m"
| "db_error_text CtxError = ''context canceled''"

text \<open>A row that \<open>Scan\<close> cannot read is \<open>None\<close>; \<open>da_err\<close> is what \<open>rows.Err\<close> says at the end.\<close>

record db_answer =
  da_rows :: "db_row option list"
  da_err :: "db_error option"

record sql_args =
  sa_from :: string
  sa_symbol :: string
  sa_start :: int
  sa_end :: int
  sa_limit :: int

record kline_env =
  ke_open :: "string \<Rightarrow> db_error option"
  ke_ask :: "string \<Rightarrow> sql_args \<Rightarrow> nat \<Rightarrow> db_error + db_answer"
  ke_done :: "string \<Rightarrow> nat \<Rightarrow> bool"
  ke_done_waiting :: "string \<Rightarrow> nat \<Rightarrow> bool"

definition defaultKlineFetchLimit :: int where "defaultKlineFetchLimit = 1000"
definition maxKlineFetchLimit :: int where "maxKlineFetchLimit = 5000"
definition defaultKlineQueryAttempts :: nat where "defaultKlineQueryAttempts = 3"

definition NewMarketDataQuery :: "mdq_config \<Rightarrow> mdq_config" where
  "NewMarketDataQuery cfg = cfg\<lparr>
     mdq_port := (if mdq_port cfg = 0 then 5432 else mdq_port cfg),
     mdq_database := (if mdq_database cfg = '''' then ''binance_{year}'' else mdq_database cfg),
     mdq_sslmode := (if mdq_sslmode cfg = '''' then ''disable'' else mdq_sslmode cfg),
     mdq_timeout := (if mdq_timeout cfg \<le> 0 then 5 else mdq_timeout cfg)\<rparr>"

section \<open>Names\<close>

definition safe_char :: "char \<Rightarrow> bool" where
  "safe_char c \<longleftrightarrow> is_lower c \<or> is_digit c \<or> c = CHR ''_''"

text \<open>The regular expression \<open>^[a-z0-9_]+$\<close>.\<close>
definition safeIdent :: "string \<Rightarrow> bool" where
  "safeIdent s \<longleftrightarrow> s \<noteq> [] \<and> list_all safe_char s"

definition databaseNameForYear :: "string \<Rightarrow> string \<Rightarrow> int \<Rightarrow> string result" where
  "databaseNameForYear template exchange0 year =
     (let exchange = to_lower (trim_space exchange0);
          t = trim_space template;
          dbName = (if t = '''' then ''{exchange}_{year}'' else t)
      in if exchange = '''' then Inl (Plain ''exchange is required'')
         else if year < 1970 then Inl (Plain ''year is invalid'')
         else if dbName = exchange then Inl (Plain ''fixed exchange database is not a supported market-data read source'')
         else let dbName1 = (if contains dbName ''{exchange}'' then replace_all dbName ''{exchange}'' exchange else dbName)
              in if contains dbName1 ''{year}'' then Inr (replace_all dbName1 ''{year}'' (format_int year))
                 else Inl (Plain ''market-data database template must include {year}''))"

definition dsnForYear :: "mdq_config \<Rightarrow> string \<Rightarrow> int \<Rightarrow> string result" where
  "dsnForYear cfg exchange year =
     (case databaseNameForYear (mdq_database cfg) exchange year of
        Inl e \<Rightarrow> Inl e
      | Inr dbName \<Rightarrow> Inr (''host='' @ mdq_host cfg @ '' port='' @ format_int (mdq_port cfg) @ '' user='' @ mdq_user cfg
          @ '' password='' @ mdq_password cfg @ '' dbname='' @ dbName @ '' sslmode='' @ mdq_sslmode cfg
          @ '' connect_timeout='' @ format_int (mdq_timeout cfg)))"

definition normalizeKlineQuery :: "kline_query \<Rightarrow> kline_query" where
  "normalizeKlineQuery req =
     (let x = to_lower (trim_space (kq_exchange req)) in
      req\<lparr>kq_exchange := (if x = '''' then ''binance'' else x),
          kq_market := to_lower (trim_space (kq_market req)),
          kq_symbol := to_upper (trim_space (kq_symbol req)),
          kq_interval := to_lower (trim_space (kq_interval req))\<rparr>)"

definition validateKlineQuery :: "kline_query \<Rightarrow> go_error option" where
  "validateKlineQuery req =
     (if kq_exchange req \<noteq> ''binance'' then Some (Plain ''only exchange=binance is supported'')
      else if kq_market req \<noteq> ''spot'' \<and> kq_market req \<noteq> ''futures'' then Some (Plain ''market must be spot or futures'')
      else if kq_symbol req = '''' \<or> \<not> safeIdent (to_lower (kq_symbol req)) then Some (Plain ''invalid symbol'')
      else if kq_interval req = '''' \<or> \<not> safeIdent (kq_interval req) then Some (Plain ''invalid interval'')
      else if kq_start req \<le> 0 \<or> kq_end req \<le> 0 \<or> kq_end req \<le> kq_start req then Some (Plain ''invalid time range'')
      else None)"

definition klineTableName :: "string \<Rightarrow> string \<Rightarrow> string \<Rightarrow> string" where
  "klineTableName market symbol interval =
     market @ ''_klines_'' @ to_lower symbol @ ''_'' @ to_lower interval"

definition dquote :: string where "dquote = [CHR 0x22]"

text \<open>\<open>None\<close> is the panic.\<close>
definition quoteIdent :: "string \<Rightarrow> string option" where
  "quoteIdent name = (if \<not> safeIdent name then None
     else Some (dquote @ replace_all name dquote (dquote @ dquote) @ dquote))"

definition unix_milli_time :: "int \<Rightarrow> go_time" where "unix_milli_time ms = ms * millisecond"
definition time_unix_milli :: "go_time \<Rightarrow> int" where "time_unix_milli t = t div millisecond"

definition yearsInRange :: "int \<Rightarrow> int \<Rightarrow> int list" where
  "yearsInRange startMS endMS = [year_of (unix_milli_time startMS) .. year_of (unix_milli_time (endMS - 1))]"

section \<open>Queries\<close>

definition isMissingMarketDataStorageError :: "db_error \<Rightarrow> bool" where
  "isMissingMarketDataStorageError e = (case e of PqError c _ \<Rightarrow> c = ''3D000'' \<or> c = ''42P01'' | _ \<Rightarrow> False)"

definition isTransientMarketDataQueryError :: "db_error \<Rightarrow> bool" where
  "isTransientMarketDataQueryError e \<longleftrightarrow>
     (case e of NetError t _ \<Rightarrow> t | _ \<Rightarrow> False) \<or>
     list_ex (contains (to_lower (db_error_text e)))
       [''dial tcp'', ''i/o timeout'', ''operation timed out'', ''connection refused'', ''connection reset'',
        ''server closed the connection unexpectedly'']"

function retry_loop ::
  "(nat \<Rightarrow> db_error + 'r) \<Rightarrow> (nat \<Rightarrow> bool) \<Rightarrow> (nat \<Rightarrow> bool) \<Rightarrow> db_error \<Rightarrow> nat \<Rightarrow> db_error + 'r" where
  "retry_loop ask ctxDone waitDone err attempt =
     (if attempt \<le> defaultKlineQueryAttempts
      then case ask attempt of
          Inr rows \<Rightarrow> Inr rows
        | Inl e \<Rightarrow>
            if ctxDone attempt \<or> isMissingMarketDataStorageError e \<or> \<not> isTransientMarketDataQueryError e \<or>
               attempt = defaultKlineQueryAttempts then Inl e
            else if waitDone attempt then Inl CtxError
            else retry_loop ask ctxDone waitDone e (attempt + 1)
      else Inl err)"
  by pat_completeness auto
termination
  by (relation "measure (\<lambda>(ask, ctxDone, waitDone, err, attempt). Suc defaultKlineQueryAttempts - attempt)") auto

declare retry_loop.simps [simp del]

definition queryRowsWithRetry :: "(nat \<Rightarrow> db_error + 'r) \<Rightarrow> (nat \<Rightarrow> bool) \<Rightarrow> (nat \<Rightarrow> bool) \<Rightarrow> db_error + 'r" where
  "queryRowsWithRetry ask ctxDone waitDone = retry_loop ask ctxDone waitDone (OtherError '''') 1"

definition kline_of :: "kline_query \<Rightarrow> db_row \<Rightarrow> kline_row" where
  "kline_of req r =
     (let (op, hi, lo, cl) = db_prices r; close_ms = time_unix_milli (db_close_at r) in
      \<lparr>kr_exchange = kq_exchange req, kr_market = kq_market req, kr_symbol = db_symbol r, kr_interval = kq_interval req,
       kr_open_time = time_unix_milli (db_open_at r), kr_close_time = close_ms,
       kr_open = op, kr_high = hi, kr_low = lo, kr_close = cl, kr_volume = db_volume r, kr_timestamp = close_ms\<rparr>)"

fun scan_rows :: "kline_query \<Rightarrow> db_row option list \<Rightarrow> kline_row list result" where
  "scan_rows req [] = Inr []"
| "scan_rows req (None # rs) = Inl (Plain ''scan kline'')"
| "scan_rows req (Some r # rs) = (case scan_rows req rs of Inl e \<Rightarrow> Inl e | Inr ks \<Rightarrow> Inr (kline_of req r # ks))"

fun fetch_years ::
  "kline_env \<Rightarrow> mdq_config \<Rightarrow> kline_query \<Rightarrow> int \<Rightarrow> string \<Rightarrow> kline_row list \<Rightarrow> int list \<Rightarrow> kline_row list result" where
  "fetch_years env cfg req limit table out [] = Inr out"
| "fetch_years env cfg req limit table out (year # years) =
     (if limit \<le> int (length out) then Inr out
      else case dsnForYear cfg (kq_exchange req) year of
          Inl e \<Rightarrow> Inl e
        | Inr dsn \<Rightarrow>
      (case ke_open env dsn of
          Some e \<Rightarrow> Inl (Plain (''open market-data db: '' @ db_error_text e))
        | None \<Rightarrow>
      (case quoteIdent table of
          None \<Rightarrow> Inl (Plain ''panic: unsafe identifier'')
        | Some from \<Rightarrow>
      (let args = \<lparr>sa_from = from, sa_symbol = kq_symbol req, sa_start = kq_start req, sa_end = kq_end req,
                   sa_limit = limit - int (length out)\<rparr>
       in case queryRowsWithRetry (ke_ask env dsn args) (ke_done env dsn) (ke_done_waiting env dsn) of
          Inl e \<Rightarrow> if isMissingMarketDataStorageError e then fetch_years env cfg req limit table out years
                   else Inl (Plain (''query klines: '' @ db_error_text e))
        | Inr ans \<Rightarrow>
            (case scan_rows req (da_rows ans) of
                Inl e \<Rightarrow> Inl e
              | Inr ks \<Rightarrow> (case da_err ans of
                    Some e \<Rightarrow> Inl (Plain (''iterate klines: '' @ db_error_text e))
                  | None \<Rightarrow> fetch_years env cfg req limit table (out @ ks) years))))))"

definition kline_limit :: "int \<Rightarrow> int" where
  "kline_limit l0 = (let l = (if l0 \<le> 0 then defaultKlineFetchLimit else l0) in
     if maxKlineFetchLimit < l then maxKlineFetchLimit else l)"

definition FetchKlines :: "kline_env \<Rightarrow> mdq_config option \<Rightarrow> kline_query \<Rightarrow> kline_row list result" where
  "FetchKlines env q req0 =
     (case q of
        None \<Rightarrow> Inl (Plain ''market-data query is not configured'')
      | Some cfg \<Rightarrow>
          (let req = normalizeKlineQuery req0 in
           case validateKlineQuery req of
             Some e \<Rightarrow> Inl e
           | None \<Rightarrow> fetch_years env cfg req (kline_limit (kq_limit req))
               (klineTableName (kq_market req) (kq_symbol req) (kq_interval req)) []
               (yearsInRange (kq_start req) (kq_end req))))"

section \<open>Table names are safe identifiers\<close>

lemma lower_lower [simp]: "lower_char (lower_char c) = lower_char c"
proof -
  have "\<not> is_upper (lower_char c)"
  proof (cases "is_upper c")
    case True
    then have "(of_char c :: nat) + 32 < 256" by (simp add: is_upper_def Let_def)
    then show ?thesis using True by (simp add: lower_char_def is_upper_def Let_def of_char_of)
  qed (simp add: lower_char_def)
  then show ?thesis by (simp add: lower_char_def [of "lower_char c"])
qed

lemma to_lower_idem [simp]: "to_lower (to_lower s) = to_lower s"
  by (simp add: to_lower_def)

lemma table_safe:
  assumes "validateKlineQuery (normalizeKlineQuery req) = None"
  defines "r \<equiv> normalizeKlineQuery req"
  shows "safeIdent (klineTableName (kq_market r) (kq_symbol r) (kq_interval r))"
proof -
  have v: "kq_market r = ''spot'' \<or> kq_market r = ''futures''" "safeIdent (to_lower (kq_symbol r))" "safeIdent (kq_interval r)"
    using assms by (auto simp: validateKlineQuery_def split: if_splits)
  have low: "to_lower (kq_interval r) = kq_interval r" by (simp add: r_def normalizeKlineQuery_def Let_def)
  have "list_all safe_char (kq_market r)" using v(1) by (auto simp: safe_char_def is_lower_def)
  moreover have "list_all safe_char ''_klines_''" "safe_char CHR ''_''" by (simp_all add: safe_char_def is_lower_def)
  ultimately show ?thesis using v(2,3) low by (auto simp: klineTableName_def safeIdent_def)
qed

lemma safe_quote: "safeIdent s \<Longrightarrow> quoteIdent s = Some (dquote @ s @ dquote)"
proof -
  assume s: "safeIdent s"
  then have "CHR 0x22 \<notin> set s" by (auto simp: safeIdent_def list_all_iff safe_char_def is_lower_def is_digit_def)
  then have "\<not> contains s dquote" by (auto simp: contains_iff dquote_def)
  then show ?thesis using s by (simp add: quoteIdent_def replace_all_absent)
qed

section \<open>Retries\<close>

lemma retry_final:
  assumes "ask attempt = r" "attempt \<le> defaultKlineQueryAttempts"
    and "\<And>e. r = Inl e \<Longrightarrow> isMissingMarketDataStorageError e"
  shows "retry_loop ask d w err attempt = r"
  using assms by (subst retry_loop.simps) (auto split: sum.splits)

lemma retry_first:
  assumes "ask 1 = r" "\<And>e. r = Inl e \<Longrightarrow> isMissingMarketDataStorageError e"
  shows "queryRowsWithRetry ask d w = r"
  unfolding queryRowsWithRetry_def using assms by (intro retry_final) (auto simp: defaultKlineQueryAttempts_def)

text \<open>Transient failures before the k-th attempt are survived; nothing else is asked again.\<close>
lemma retry_recovers:
  assumes "attempt \<le> k" "k \<le> defaultKlineQueryAttempts"
    and "\<And>a. attempt \<le> a \<Longrightarrow> a < k \<Longrightarrow> \<exists>e. ask a = Inl e \<and> isTransientMarketDataQueryError e \<and>
      \<not> isMissingMarketDataStorageError e \<and> \<not> d a \<and> \<not> w a"
    and "ask k = r" "\<And>e. r = Inl e \<Longrightarrow> \<not> isTransientMarketDataQueryError e \<or> isMissingMarketDataStorageError e \<or> k = defaultKlineQueryAttempts"
  shows "retry_loop ask d w err attempt = r"
  using assms(1,3)
proof (induction "k - attempt" arbitrary: attempt err)
  case 0
  then have "attempt = k" by simp
  then show ?case using assms(2,4,5) by (subst retry_loop.simps) (auto split: sum.splits)
next
  case (Suc n)
  then obtain e where e: "ask attempt = Inl e" "isTransientMarketDataQueryError e"
    "\<not> isMissingMarketDataStorageError e" "\<not> d attempt" "\<not> w attempt" by (metis Suc_leI diff_is_0_eq nat.simps(3) not_less order_refl)
  have "retry_loop ask d w err attempt = retry_loop ask d w e (attempt + 1)"
    using e Suc.hyps(2) assms(2) by (subst retry_loop.simps) auto
  also have "\<dots> = r" using Suc by (intro Suc.hyps(1)) auto
  finally show ?case .
qed

section \<open>What the databases hold\<close>

definition in_range :: "kline_query \<Rightarrow> db_row \<Rightarrow> bool" where
  "in_range req r \<longleftrightarrow> db_symbol r = kq_symbol req \<and> unix_milli_time (kq_start req) \<le> db_open_at r \<and>
     db_open_at r < unix_milli_time (kq_end req)"

text \<open>
  The driver answers the \<open>SELECT\<close> from tables \<open>content\<close> kept in the order of their open time; a
  database or table that does not exist is an error of its own and holds nothing.
\<close>
definition serves :: "kline_env \<Rightarrow> (string \<Rightarrow> string \<Rightarrow> db_row list) \<Rightarrow> bool" where
  "serves env content \<longleftrightarrow> (\<forall>dsn. ke_open env dsn = None) \<and>
     (\<forall>dsn tab sym s e n a. 0 < n \<longrightarrow>
        (let rows = filter (\<lambda>r. db_symbol r = sym \<and> unix_milli_time s \<le> db_open_at r \<and> db_open_at r < unix_milli_time e)
                      (content dsn tab);
             answer = ke_ask env dsn \<lparr>sa_from = dquote @ tab @ dquote, sa_symbol = sym, sa_start = s, sa_end = e, sa_limit = n\<rparr> a
         in answer = Inr \<lparr>da_rows = map Some (take (nat n) rows), da_err = None\<rparr> \<or>
            content dsn tab = [] \<and> (\<exists>m. answer = Inl m \<and> isMissingMarketDataStorageError m)))"

lemma scan_rows_Some [simp]: "scan_rows req (map Some rs) = Inr (map (kline_of req) rs)"
  by (induction rs) auto

lemma serves_query:
  assumes "serves env content" "0 < n"
    and args_def: "args = \<lparr>sa_from = dquote @ tab @ dquote, sa_symbol = kq_symbol req, sa_start = kq_start req, sa_end = kq_end req, sa_limit = n\<rparr>"
  shows "queryRowsWithRetry (ke_ask env dsn args) (ke_done env dsn) (ke_done_waiting env dsn) =
      Inr \<lparr>da_rows = map Some (take (nat n) (filter (in_range req) (content dsn tab))), da_err = None\<rparr> \<or>
    content dsn tab = [] \<and>
      (\<exists>m. queryRowsWithRetry (ke_ask env dsn args) (ke_done env dsn) (ke_done_waiting env dsn) = Inl m \<and>
         isMissingMarketDataStorageError m)"
proof -
  have r: "in_range req = (\<lambda>r. db_symbol r = kq_symbol req \<and> unix_milli_time (kq_start req) \<le> db_open_at r \<and> db_open_at r < unix_milli_time (kq_end req))"
    by (simp add: fun_eq_iff in_range_def)
  have "ke_ask env dsn args 1 = Inr \<lparr>da_rows = map Some (take (nat n) (filter (in_range req) (content dsn tab))), da_err = None\<rparr> \<or>
    content dsn tab = [] \<and> (\<exists>m. ke_ask env dsn args 1 = Inl m \<and> isMissingMarketDataStorageError m)"
    using assms(1,2) unfolding serves_def Let_def args_def r by blast
  then show ?thesis using retry_first by (metis Inl_Inr_False sum.inject(1))
qed

text \<open>The name of a yearly data source, where it has one.\<close>
definition year_rows :: "mdq_config \<Rightarrow> (string \<Rightarrow> string \<Rightarrow> db_row list) \<Rightarrow> kline_query \<Rightarrow> int \<Rightarrow> db_row list" where
  "year_rows cfg content req year = (case dsnForYear cfg (kq_exchange req) year of
     Inl e \<Rightarrow> []
   | Inr dsn \<Rightarrow> filter (in_range req) (content dsn (klineTableName (kq_market req) (kq_symbol req) (kq_interval req))))"

lemma fetch_years_exact:
  assumes "serves env content" "safeIdent (klineTableName (kq_market req) (kq_symbol req) (kq_interval req))"
    and "\<forall>y\<in>set years. \<exists>dsn. dsnForYear cfg (kq_exchange req) y = Inr dsn" "0 \<le> limit" "int (length out) \<le> limit"
  shows "fetch_years env cfg req limit (klineTableName (kq_market req) (kq_symbol req) (kq_interval req)) out years =
    Inr (take (nat limit) (out @ map (kline_of req) (concat (map (year_rows cfg content req) years))))"
  using assms(3,5)
proof (induction years arbitrary: out)
  case Nil
  then show ?case by simp
next
  case (Cons y ys)
  let ?tab = "klineTableName (kq_market req) (kq_symbol req) (kq_interval req)"
  obtain dsn where dsn: "dsnForYear cfg (kq_exchange req) y = Inr dsn" using Cons.prems by auto
  have open_ok: "ke_open env dsn = None" using assms(1) by (simp add: serves_def)
  define rs where "rs = filter (in_range req) (content dsn ?tab)"
  have yr: "year_rows cfg content req y = rs" by (simp add: year_rows_def dsn rs_def)
  show ?case
  proof (cases "limit \<le> int (length out)")
    case True
    then show ?thesis using Cons.prems by simp
  next
    case False
    define n where "n = limit - int (length out)"
    have n: "0 < n" "nat limit = length out + nat n" using False Cons.prems by (simp_all add: n_def)
    consider (rows) "queryRowsWithRetry (ke_ask env dsn \<lparr>sa_from = dquote @ ?tab @ dquote, sa_symbol = kq_symbol req,
            sa_start = kq_start req, sa_end = kq_end req, sa_limit = n\<rparr>) (ke_done env dsn) (ke_done_waiting env dsn) =
          Inr \<lparr>da_rows = map Some (take (nat n) rs), da_err = None\<rparr>"
      | (missing) m where "rs = []" "queryRowsWithRetry (ke_ask env dsn \<lparr>sa_from = dquote @ ?tab @ dquote, sa_symbol = kq_symbol req,
            sa_start = kq_start req, sa_end = kq_end req, sa_limit = n\<rparr>) (ke_done env dsn) (ke_done_waiting env dsn) = Inl m"
          "isMissingMarketDataStorageError m"
      using serves_query [OF assms(1) n(1) refl, of dsn ?tab req] unfolding rs_def by auto
    then show ?thesis
    proof cases
      case rows
      have "fetch_years env cfg req limit ?tab out (y # ys) = fetch_years env cfg req limit ?tab (out @ map (kline_of req) (take (nat n) rs)) ys"
        using rows False dsn open_ok safe_quote [OF assms(2)] by (simp add: Let_def n_def)
      also have "\<dots> = Inr (take (nat limit) ((out @ map (kline_of req) (take (nat n) rs)) @ map (kline_of req) (concat (map (year_rows cfg content req) ys))))"
        using Cons.prems n by (intro Cons.IH) auto
      also have "take (nat limit) ((out @ map (kline_of req) (take (nat n) rs)) @ map (kline_of req) (concat (map (year_rows cfg content req) ys))) =
        take (nat limit) (out @ map (kline_of req) (concat (map (year_rows cfg content req) (y # ys))))"
        using n by (simp add: yr take_map min_def)
      finally show ?thesis .
    next
      case missing
      have "fetch_years env cfg req limit ?tab out (y # ys) = fetch_years env cfg req limit ?tab out ys"
        using missing False dsn open_ok safe_quote [OF assms(2)] by (simp add: Let_def n_def)
      then show ?thesis using missing Cons by (simp add: yr)
    qed
  qed
qed

section \<open>Properties\<close>

lemma dsn_template: "1970 \<le> y \<Longrightarrow> 1970 \<le> y' \<Longrightarrow> is_ok (dsnForYear cfg x y) = is_ok (dsnForYear cfg x y')"
  by (simp add: dsnForYear_def databaseNameForYear_def Let_def)

lemma years_ok:
  assumes "0 < startMS" "is_ok (dsnForYear cfg x 1970)"
  shows "\<forall>y\<in>set (yearsInRange startMS endMS). \<exists>dsn. dsnForYear cfg x y = Inr dsn"
proof
  fix y assume "y \<in> set (yearsInRange startMS endMS)"
  then have "year_of (unix_milli_time startMS) \<le> y" by (simp add: yearsInRange_def)
  moreover have "1970 \<le> year_of (unix_milli_time startMS)"
    using assms(1) by (intro year_of_1970) (simp add: unix_milli_time_def millisecond_def)
  ultimately have "is_ok (dsnForYear cfg x y)" using assms(2) dsn_template [of y 1970] by simp
  then show "\<exists>dsn. dsnForYear cfg x y = Inr dsn" by (simp add: is_ok_iff)
qed

lemma kline_limit_pos: "0 < kline_limit l"
  by (simp add: kline_limit_def Let_def defaultKlineFetchLimit_def maxKlineFetchLimit_def)

lemma fetch_exact:
  assumes "serves env content" "is_ok (dsnForYear cfg ''binance'' 1970)"
    and "normalizeKlineQuery req0 = req" "validateKlineQuery req = None"
  shows "FetchKlines env (Some cfg) req0 =
    Inr (map (kline_of req) (take (nat (kline_limit (kq_limit req)))
      (concat (map (year_rows cfg content req) (yearsInRange (kq_start req) (kq_end req))))))"
proof -
  have v: "kq_exchange req = ''binance''" "0 < kq_start req"
    using assms(4) by (auto simp: validateKlineQuery_def split: if_splits)
  have safe: "safeIdent (klineTableName (kq_market req) (kq_symbol req) (kq_interval req))"
    using table_safe assms(3,4) by blast
  show ?thesis
    using fetch_years_exact [OF assms(1) safe years_ok, of _ cfg "kline_limit (kq_limit req)" "[]"] assms v
      kline_limit_pos [of "kq_limit req"] by (simp add: FetchKlines_def take_map)
qed

text \<open>C38. Whatever databases and tables exist, a valid query answers the first bars, up to the clamped
  limit, of the yearly tables of its range laid end to end; a database or table that does not exist
  counts as empty.\<close>

theorem fetch_klines_exact:
  assumes "serves env content" "is_ok (dsnForYear cfg ''binance'' 1970)"
    and "normalizeKlineQuery req0 = req" "validateKlineQuery req = None"
  shows "FetchKlines env (Some cfg) req0 =
    Inr (map (kline_of req) (take (nat (kline_limit (kq_limit req)))
      (concat (map (year_rows cfg content req) (yearsInRange (kq_start req) (kq_end req))))))"
  using assms by (rule fetch_exact)

definition sample_config :: mdq_config where
  "sample_config = NewMarketDataQuery \<lparr>mdq_host = ''db'', mdq_port = 0, mdq_user = ''u'', mdq_password = ''p'',
     mdq_database = '''', mdq_sslmode = '''', mdq_timeout = 0\<rparr>"

definition sample_kline_query :: kline_query where
  "sample_kline_query = \<lparr>kq_exchange = '''', kq_market = '' Spot'', kq_symbol = ''btcusdt'', kq_interval = ''1m'',
     kq_start = 60000, kq_end = 300000, kq_limit = 2\<rparr>"

definition sample_bar :: "int \<Rightarrow> db_row" where
  "sample_bar ms = \<lparr>db_symbol = ''BTCUSDT'', db_open_at = ms * millisecond, db_close_at = (ms + 59999) * millisecond,
     db_prices = (0, 0, 0, 0), db_volume = 0\<rparr>"

definition sample_content :: "string \<Rightarrow> string \<Rightarrow> db_row list" where
  "sample_content dsn tab = (if tab = ''spot_klines_btcusdt_1m'' then [sample_bar 0, sample_bar 60000, sample_bar 120000, sample_bar 180000] else [])"

definition table_env :: "(string \<Rightarrow> string \<Rightarrow> db_row list) \<Rightarrow> kline_env" where
  "table_env content = \<lparr>ke_open = (\<lambda>_. None),
     ke_ask = (\<lambda>dsn args a. Inr \<lparr>da_rows = map Some (take (nat (sa_limit args))
        (filter (\<lambda>r. db_symbol r = sa_symbol args \<and> unix_milli_time (sa_start args) \<le> db_open_at r \<and> db_open_at r < unix_milli_time (sa_end args))
           (content dsn (butlast (tl (sa_from args)))))), da_err = None\<rparr>),
     ke_done = (\<lambda>_ _. False), ke_done_waiting = (\<lambda>_ _. False)\<rparr>"

lemma table_env_serves: "serves (table_env content) content"
  by (simp add: serves_def table_env_def Let_def dquote_def butlast_append)

lemmas string_eval = char_of_def bit_Suc_0_iff to_lower_def to_upper_def lower_char_def upper_char_def is_upper_def is_lower_def is_digit_def
  trim_eval safe_char_def safeIdent_def has_prefix_def

lemma sample_dsn_ok: "is_ok (dsnForYear sample_config ''binance'' 1970)"
  by (simp add: dsnForYear_def databaseNameForYear_def sample_config_def NewMarketDataQuery_def string_eval)

lemma sample_query_normal:
  "normalizeKlineQuery sample_kline_query = \<lparr>kq_exchange = ''binance'', kq_market = ''spot'', kq_symbol = ''BTCUSDT'',
     kq_interval = ''1m'', kq_start = 60000, kq_end = 300000, kq_limit = 2\<rparr>"
  by (simp add: normalizeKlineQuery_def sample_kline_query_def string_eval)

lemma sample_query_valid: "validateKlineQuery (normalizeKlineQuery sample_kline_query) = None"
  unfolding sample_query_normal by (simp add: validateKlineQuery_def string_eval)

theorem fetch_klines_exact_witness:
  "map_sum id (map kr_open_time) (FetchKlines (table_env sample_content) (Some sample_config) sample_kline_query) = Inr [60000, 120000]"
proof -
  have y: "yearsInRange 60000 300000 = [1970]" by code_simp
  let ?req = "normalizeKlineQuery sample_kline_query"
  obtain dsn where d: "dsnForYear sample_config ''binance'' 1970 = Inr dsn" using sample_dsn_ok by (auto simp: is_ok_iff)
  have t: "klineTableName ''spot'' ''BTCUSDT'' ''1m'' = ''spot_klines_btcusdt_1m''"
    by (simp add: klineTableName_def string_eval)
  have r: "year_rows sample_config sample_content ?req 1970 = [sample_bar 60000, sample_bar 120000, sample_bar 180000]"
    unfolding sample_query_normal
    by (simp add: year_rows_def d t sample_content_def in_range_def sample_bar_def unix_milli_time_def millisecond_def)
  show ?thesis
    unfolding fetch_klines_exact [OF table_env_serves sample_dsn_ok refl sample_query_valid, of sample_content]
    by (simp add: r [unfolded sample_query_normal] y sample_query_normal kline_limit_def Let_def maxKlineFetchLimit_def numeral_2_eq_2
      kline_of_def sample_bar_def time_unix_milli_def millisecond_def)
qed

definition safe_from :: "sql_args \<Rightarrow> bool" where
  "safe_from a \<longleftrightarrow> (\<exists>t. safeIdent t \<and> sa_from a = dquote @ t @ dquote)"

lemma fetch_years_safe:
  assumes "safeIdent table" "\<And>dsn a. safe_from a \<Longrightarrow> ke_ask env' dsn a = ke_ask env dsn a"
    and "ke_open env' = ke_open env" "ke_done env' = ke_done env" "ke_done_waiting env' = ke_done_waiting env"
  shows "fetch_years env' cfg req limit table out years = fetch_years env cfg req limit table out years"
proof (induction years arbitrary: out)
  case (Cons y ys)
  have s: "ke_ask env' dsn \<lparr>sa_from = dquote @ table @ dquote, sa_symbol = sym, sa_start = s, sa_end = e, sa_limit = n\<rparr> =
      ke_ask env dsn \<lparr>sa_from = dquote @ table @ dquote, sa_symbol = sym, sa_start = s, sa_end = e, sa_limit = n\<rparr>" for dsn sym s e n
    using assms(1) by (intro assms(2)) (auto simp: safe_from_def)
  show ?case
  proof (cases "limit \<le> int (length out)")
    case False
    show ?thesis
    proof (cases "dsnForYear cfg (kq_exchange req) y")
      case (Inr dsn)
      show ?thesis using False safe_quote [OF assms(1)]
        by (simp add: Inr s Cons Let_def assms(3,4,5) split: option.split sum.split)
    qed (use False in simp)
  qed simp
qed simp

lemma fetch_years_no_panic:
  assumes "safeIdent table"
  shows "fetch_years env cfg req limit table out years \<noteq> Inl (Plain ''panic: unsafe identifier'')"
proof (induction years arbitrary: out)
  case (Cons y ys)
  have scan: "scan_rows req rs \<noteq> Inl (Plain ''panic: unsafe identifier'')" for rs
    by (induction req rs rule: scan_rows.induct) (auto split: sum.splits)
  have dsn: "dsnForYear cfg x y \<noteq> Inl (Plain ''panic: unsafe identifier'')" for x
    by (simp add: dsnForYear_def databaseNameForYear_def Let_def)
  show ?case using Cons scan dsn safe_quote [OF assms] by (auto simp: Let_def split: sum.splits option.splits)
qed simp

text \<open>Every identifier \<open>FetchKlines\<close> puts into a query is made of lower-case letters, digits and
  underscores: what the driver would answer to any other query text has no influence, and
  \<open>quoteIdent\<close> never panics.\<close>

theorem fetch_klines_identifiers_safe:
  assumes "\<And>dsn a. safe_from a \<Longrightarrow> ke_ask env' dsn a = ke_ask env dsn a"
    and "ke_open env' = ke_open env" "ke_done env' = ke_done env" "ke_done_waiting env' = ke_done_waiting env"
  shows "FetchKlines env' q req = FetchKlines env q req \<and>
    FetchKlines env q req \<noteq> Inl (Plain ''panic: unsafe identifier'')"
proof -
  have v: "validateKlineQuery (normalizeKlineQuery req) \<noteq> Some (Plain ''panic: unsafe identifier'')"
    by (simp add: validateKlineQuery_def)
  show ?thesis
  proof (cases "q = None \<or> validateKlineQuery (normalizeKlineQuery req) \<noteq> None")
    case True
    then show ?thesis using v by (auto simp: FetchKlines_def Let_def split: option.splits)
  next
    case False
    then have safe: "validateKlineQuery (normalizeKlineQuery req) = None" by simp
    show ?thesis using False fetch_years_safe [OF table_safe [OF safe] assms] fetch_years_no_panic [OF table_safe [OF safe]]
      by (auto simp: FetchKlines_def Let_def)
  qed
qed

theorem fetch_klines_identifiers_safe_witness:
  "FetchKlines (table_env sample_content\<lparr>ke_ask := (\<lambda>dsn a n. if list_all safe_char (butlast (tl (sa_from a)))
      then ke_ask (table_env sample_content) dsn a n else Inl CtxError)\<rparr>) (Some sample_config) sample_kline_query =
    FetchKlines (table_env sample_content) (Some sample_config) sample_kline_query"
  by (rule conjunct1, rule fetch_klines_identifiers_safe)
    (auto simp: safe_from_def safeIdent_def dquote_def butlast_append fun_eq_iff)

text \<open>Transient driver errors before the last attempt are retried and leave no trace; a missing
  database or table is not asked for again, and three attempts are the most.\<close>

theorem kline_query_retry:
  assumes "1 \<le> k" "k \<le> 3" "ask k = r"
    and "\<And>a. 1 \<le> a \<Longrightarrow> a < k \<Longrightarrow> \<exists>e. ask a = Inl e \<and> isTransientMarketDataQueryError e \<and>
      \<not> isMissingMarketDataStorageError e \<and> \<not> d a \<and> \<not> w a"
    and "\<And>e. r = Inl e \<Longrightarrow> \<not> isTransientMarketDataQueryError e \<or> isMissingMarketDataStorageError e \<or> k = 3"
  shows "queryRowsWithRetry ask d w = r"
  unfolding queryRowsWithRetry_def using assms
  by (intro retry_recovers [of 1 k]) (auto simp: defaultKlineQueryAttempts_def)

theorem kline_query_retry_witness:
  "queryRowsWithRetry (\<lambda>a. if a < 3 then Inl (OtherError ''dial tcp: Connection refused'') else Inr True) (\<lambda>_. False) (\<lambda>_. False) = Inr True"
proof -
  have t: "isTransientMarketDataQueryError (OtherError ''dial tcp: Connection refused'')"
    "\<not> isMissingMarketDataStorageError (OtherError ''dial tcp: Connection refused'')" by code_simp+
  show ?thesis by (rule kline_query_retry [of 3]) (use t in auto)
qed

text \<open>The month interval \<open>1M\<close> reads the table of the minute interval \<open>1m\<close>.\<close>
lemma month_reads_minute_table:
  "FetchKlines env q (req\<lparr>kq_interval := ''1M''\<rparr>) = FetchKlines env q (req\<lparr>kq_interval := ''1m''\<rparr>)"
proof -
  have "to_lower (trim_space ''1M'') = to_lower (trim_space ''1m'')" by code_simp
  then show ?thesis by (simp add: FetchKlines_def normalizeKlineQuery_def Let_def split: option.split)
qed

end
