(* ===== verification/KlineValidation.thy ===== *)
theory KlineValidation
  imports KlineQuery
begin

text \<open>
  \<open>internal/runtimechannel/coverage_validation.go\<close>: comparing the bars of a range with the grid of
  its interval. The grid loop is a partial function, because a step that is not positive would not
  advance it; \<open>None\<close> stands for a call that panics (division by a zero step) or does not return.
\<close>

record validation_gap =
  vg_start :: int
  vg_end :: int
  vg_count :: int

record validation =
  kv_ok :: bool
  kv_expected :: int
  kv_actual :: int
  kv_gaps :: "validation_gap list"
  kv_reason :: string

definition intervalStepMS :: "string \<Rightarrow> int result" where
  "intervalStepMS raw =
     (let interval = trim_space raw in
      if length interval < 2 then Inl bad_interval
      else case atoi (butlast interval) of
          None \<Rightarrow> Inl bad_interval
        | Some n \<Rightarrow>
            if n \<le> 0 then Inl bad_interval
            else let u = last interval in
              if u = CHR ''s'' then Inr (go_div (wrap64 (n * second)) millisecond)
              else if u = CHR ''m'' then Inr (go_div (wrap64 (n * minute)) millisecond)
              else if u = CHR ''h'' then Inr (go_div (wrap64 (n * hour)) millisecond)
              else if u = CHR ''d'' then Inr (go_div (wrap64 (wrap64 (n * 24) * hour)) millisecond)
              else Inl (Plain ''interval is not supported for coverage validation; supported units: s/m/h/d''))"

partial_function (option) grid_loop ::
  "int list \<Rightarrow> int \<Rightarrow> int \<Rightarrow> int \<Rightarrow> int \<Rightarrow> validation_gap list \<Rightarrow> validation_gap list option" where
  "grid_loop seen step endMS cursor missingStart gaps =
     (if cursor < endMS
      then if cursor \<in> set seen
           then if 0 \<le> missingStart
                then grid_loop seen step endMS (wrap64 (cursor + step)) (- 1)
                  (gaps @ [\<lparr>vg_start = missingStart, vg_end = cursor, vg_count = go_div (cursor - missingStart) step\<rparr>])
                else grid_loop seen step endMS (wrap64 (cursor + step)) missingStart gaps
           else grid_loop seen step endMS (wrap64 (cursor + step)) (if missingStart < 0 then cursor else missingStart) gaps
      else Some (if 0 \<le> missingStart
                 then gaps @ [\<lparr>vg_start = missingStart, vg_end = endMS, vg_count = go_div (endMS - missingStart) step\<rparr>]
                 else gaps))"

definition failed_validation :: "string \<Rightarrow> validation" where
  "failed_validation reason = \<lparr>kv_ok = False, kv_expected = 0, kv_actual = 0, kv_gaps = [], kv_reason = reason\<rparr>"

text \<open>The set of open times within the range, without repetitions.\<close>
definition seen_times :: "int \<Rightarrow> int \<Rightarrow> kline_row list \<Rightarrow> int list" where
  "seen_times startMS endMS rows =
     remdups (filter (\<lambda>t. \<not> (t < startMS \<or> endMS \<le> t)) (map kr_open_time rows))"

definition ValidateKlineRows :: "string \<Rightarrow> int \<Rightarrow> int \<Rightarrow> kline_row list \<Rightarrow> validation option" where
  "ValidateKlineRows interval startMS endMS rows =
     (case intervalStepMS interval of
        Inl e \<Rightarrow> Some (failed_validation (err_text e))
      | Inr stepMS \<Rightarrow>
          if startMS \<le> 0 \<or> endMS \<le> 0 \<or> endMS \<le> startMS then Some (failed_validation ''endMS must be after startMS'')
          else if stepMS = 0 then None
          else if go_rem (endMS - startMS) stepMS \<noteq> 0
          then Some (failed_validation ''startMS and endMS must align to interval'')
          else let seen = seen_times startMS endMS rows in
            (case grid_loop seen stepMS endMS startMS (- 1) [] of
               None \<Rightarrow> None
             | Some gaps \<Rightarrow> Some \<lparr>kv_ok = (gaps = []), kv_expected = go_div (endMS - startMS) stepMS,
                 kv_actual = int (length seen), kv_gaps = gaps,
                 kv_reason = (if gaps \<noteq> [] then ''missing kline rows'' else '''')\<rparr>))"

section \<open>The grid\<close>

definition on_grid :: "int \<Rightarrow> int \<Rightarrow> int \<Rightarrow> bool" where
  "on_grid endMS step x \<longleftrightarrow> step dvd endMS - x"

definition gap_points :: "int \<Rightarrow> int \<Rightarrow> validation_gap list \<Rightarrow> int set" where
  "gap_points endMS step gs = {x. on_grid endMS step x \<and> (\<exists>g\<in>set gs. vg_start g \<le> x \<and> x < vg_end g)}"

definition gap_ok :: "int \<Rightarrow> int \<Rightarrow> int \<Rightarrow> validation_gap \<Rightarrow> bool" where
  "gap_ok lo endMS step g \<longleftrightarrow> lo \<le> vg_start g \<and> vg_start g < vg_end g \<and> vg_end g \<le> endMS \<and>
     on_grid endMS step (vg_start g) \<and> vg_count g * step = vg_end g - vg_start g"

lemma gap_points_simps [simp]:
  "gap_points e d [] = {}"
  "gap_points e d (g # gs) = {x. on_grid e d x \<and> vg_start g \<le> x \<and> x < vg_end g} \<union> gap_points e d gs"
  by (auto simp: gap_points_def)

lemma on_grid_next: "0 < step \<Longrightarrow> on_grid e step x \<Longrightarrow> on_grid e step c \<Longrightarrow> c < x \<Longrightarrow> c + step \<le> x"
proof -
  assume a: "0 < step" "on_grid e step x" "on_grid e step c" "c < x"
  then have "step dvd (e - c) - (e - x)" unfolding on_grid_def using dvd_diff by blast
  then have "step dvd x - c" by simp
  then have "step \<le> x - c" using a(1,4) by (intro zdvd_imp_le) auto
  then show ?thesis by simp
qed

lemma gap_count: "0 < step \<Longrightarrow> on_grid e step m \<Longrightarrow> on_grid e step c \<Longrightarrow> m < c \<Longrightarrow> go_div (c - m) step * step = c - m"
proof -
  assume a: "0 < step" "on_grid e step m" "on_grid e step c" "m < c"
  then have "step dvd (e - m) - (e - c)" unfolding on_grid_def using dvd_diff by blast
  then show ?thesis using a by simp
qed

lemma gap_ok_mono: "gap_ok lo e d g \<Longrightarrow> lo' \<le> lo \<Longrightarrow> gap_ok lo' e d g"
  by (auto simp: gap_ok_def)

lemma grid_loop_spec:
  assumes "0 < step" "on_grid e step c" "c \<le> e" "0 < c" "e < 2 ^ 63"
    and "m < 0 \<or> on_grid e step m \<and> m < c"
  shows "\<exists>gs. grid_loop seen step e c m gaps = Some (gaps @ gs) \<and>
    gap_points e step gs = {x. on_grid e step x \<and> (if m < 0 then c else m) \<le> x \<and> x < e \<and> (x < c \<or> x \<notin> set seen)} \<and>
    sorted_wrt (\<lambda>a b. vg_end a < vg_start b) gs \<and> (\<forall>g\<in>set gs. gap_ok (if m < 0 then c else m) e step g)"
  using assms
proof (induction "nat ((e - c) div step)" arbitrary: c m gaps rule: less_induct)
  case less
  note step = less.prems(1)
  show ?case
  proof (cases "c < e")
    case False
    then have ce: "c = e" using less.prems by simp
    have g: "grid_loop seen step e c m gaps = Some (if 0 \<le> m
         then gaps @ [\<lparr>vg_start = m, vg_end = e, vg_count = go_div (e - m) step\<rparr>] else gaps)"
      using False by (subst grid_loop.simps) simp
    show ?thesis
    proof (cases "m < 0")
      case True
      then show ?thesis using g ce by (intro exI [of _ "[]"]) auto
    next
      case m: False
      then have "on_grid e step m" "m < e" using less.prems ce by auto
      then show ?thesis using g m ce gap_count [OF step _ less.prems(2), of m] step
        by (intro exI [of _ "[\<lparr>vg_start = m, vg_end = e, vg_count = go_div (e - m) step\<rparr>]"]) (auto simp: gap_ok_def)
    qed
  next
    case True
    have n: "c + step \<le> e" using on_grid_next [OF step _ less.prems(2) True] by (simp add: on_grid_def)
    have w: "wrap64 (c + step) = c + step" using n less.prems by (intro wrap64_id) (simp add: in64_def)
    have og: "on_grid e step (c + step)" using less.prems(2)
      by (simp add: on_grid_def) (metis diff_diff_eq dvd_diff dvd_refl)
    have dec: "nat ((e - (c + step)) div step) < nat ((e - c) div step)"
    proof -
      have "(e - c) div step = (e - (c + step)) div step + 1"
        using step div_add_self2 [of step "e - (c + step)"] by (simp add: algebra_simps)
      moreover have "0 \<le> (e - (c + step)) div step" using n step by (simp add: pos_imp_zdiv_nonneg_iff)
      ultimately show ?thesis by simp
    qed
    have nxt: "on_grid e step x \<Longrightarrow> c + step \<le> x \<longleftrightarrow> c < x" for x
      using on_grid_next [OF step _ less.prems(2), of x] step by auto
    have lt: "on_grid e step x \<Longrightarrow> x < c + step \<longleftrightarrow> x \<le> c" for x
      using nxt [of x] by auto
    note IH = less.hyps [OF dec step og n _ less.prems(5)]
    consider (close) "c \<in> set seen" "0 \<le> m" | (go) "c \<in> set seen" "m < 0" | (miss) "c \<notin> set seen" by linarith
    then show ?thesis
    proof cases
      case close
      define g where "g = \<lparr>vg_start = m, vg_end = c, vg_count = go_div (c - m) step\<rparr>"
      have m: "on_grid e step m" "m < c" using close less.prems by auto
      obtain gs where gs: "grid_loop seen step e (c + step) (- 1) (gaps @ [g]) = Some ((gaps @ [g]) @ gs)"
        "gap_points e step gs = {x. on_grid e step x \<and> c + step \<le> x \<and> x < e \<and> (x < c + step \<or> x \<notin> set seen)}"
        "sorted_wrt (\<lambda>a b. vg_end a < vg_start b) gs" "\<forall>g\<in>set gs. gap_ok (c + step) e step g"
        using IH [of "- 1" "gaps @ [g]"] less.prems(4) step by auto
      have "grid_loop seen step e c m gaps = Some (gaps @ g # gs)"
        using gs(1) True close w by (subst grid_loop.simps) (simp add: g_def)
      moreover have "gap_points e step (g # gs) = {x. on_grid e step x \<and> m \<le> x \<and> x < e \<and> (x < c \<or> x \<notin> set seen)}"
        unfolding gap_points_simps gs(2) using True m close by (auto simp: g_def nxt lt) (metis linorder_less_linear)
      moreover have "gap_ok m e step g" using m True gap_count [OF step m(1) less.prems(2) m(2)] by (simp add: gap_ok_def g_def)
      moreover have "\<forall>g'\<in>set gs. vg_end g < vg_start g' \<and> gap_ok m e step g'"
        using gs(4) m step by (auto simp: g_def gap_ok_def)
      ultimately show ?thesis using gs(3) close by (intro exI [of _ "g # gs"]) auto
    next
      case go
      obtain gs where gs: "grid_loop seen step e (c + step) m gaps = Some (gaps @ gs)"
        "gap_points e step gs = {x. on_grid e step x \<and> c + step \<le> x \<and> x < e \<and> (x < c + step \<or> x \<notin> set seen)}"
        "sorted_wrt (\<lambda>a b. vg_end a < vg_start b) gs" "\<forall>g\<in>set gs. gap_ok (c + step) e step g"
        using IH [of m gaps] less.prems(4) step go by auto
      have "grid_loop seen step e c m gaps = Some (gaps @ gs)"
        using gs(1) True go w by (subst grid_loop.simps) simp
      moreover have "gap_points e step gs = {x. on_grid e step x \<and> c \<le> x \<and> x < e \<and> (x < c \<or> x \<notin> set seen)}"
        unfolding gs(2) using go by (auto simp: nxt lt) (metis order.order_iff_strict)
      ultimately show ?thesis using gs(3,4) go step gap_ok_mono [of "c + step" e step _ c] by (intro exI [of _ gs]) auto
    next
      case miss
      define m' where "m' = (if m < 0 then c else m)"
      have m': "0 \<le> m'" "on_grid e step m'" "m' < c + step" "m' \<le> c" using less.prems step by (auto simp: m'_def)
      obtain gs where gs: "grid_loop seen step e (c + step) m' gaps = Some (gaps @ gs)"
        "gap_points e step gs = {x. on_grid e step x \<and> m' \<le> x \<and> x < e \<and> (x < c + step \<or> x \<notin> set seen)}"
        "sorted_wrt (\<lambda>a b. vg_end a < vg_start b) gs" "\<forall>g\<in>set gs. gap_ok m' e step g"
        using IH [of m' gaps] less.prems(4) step m' by auto
      have "grid_loop seen step e c m gaps = Some (gaps @ gs)"
        using gs(1) True miss w by (subst grid_loop.simps) (simp add: m'_def)
      moreover have "gap_points e step gs = {x. on_grid e step x \<and> m' \<le> x \<and> x < e \<and> (x < c \<or> x \<notin> set seen)}"
        unfolding gs(2) using miss by (auto simp: nxt lt)
      ultimately show ?thesis using gs(3,4) by (intro exI [of _ gs]) (simp add: m'_def)
    qed
  qed
qed

section \<open>Properties\<close>

lemma set_seen_times: "set (seen_times s e rows) = {t \<in> kr_open_time ` set rows. s \<le> t \<and> t < e}"
  by (auto simp: seen_times_def)

lemma validation_exact:
  assumes "intervalStepMS interval = Inr step" "0 < step" "0 < startMS" "startMS < endMS" "endMS < 2 ^ 63"
    and "step dvd endMS - startMS"
  shows "\<exists>v. ValidateKlineRows interval startMS endMS rows = Some v \<and>
    gap_points endMS step (kv_gaps v) =
      {x. on_grid endMS step x \<and> startMS \<le> x \<and> x < endMS \<and> x \<notin> kr_open_time ` set rows} \<and>
    sorted_wrt (\<lambda>a b. vg_end a < vg_start b) (kv_gaps v) \<and>
    (\<forall>g\<in>set (kv_gaps v). gap_ok startMS endMS step g) \<and>
    (kv_ok v \<longleftrightarrow> {x. on_grid endMS step x \<and> startMS \<le> x \<and> x < endMS} \<subseteq> kr_open_time ` set rows) \<and>
    kv_expected v * step = endMS - startMS"
proof -
  let ?seen = "seen_times startMS endMS rows"
  obtain gs where gs: "grid_loop ?seen step endMS startMS (- 1) [] = Some gs"
    "gap_points endMS step gs = {x. on_grid endMS step x \<and> startMS \<le> x \<and> x < endMS \<and> (x < startMS \<or> x \<notin> set ?seen)}"
    "sorted_wrt (\<lambda>a b. vg_end a < vg_start b) gs" "\<forall>g\<in>set gs. gap_ok startMS endMS step g"
    using grid_loop_spec [of step endMS startMS "- 1" ?seen "[]"] assms by (auto simp: on_grid_def)
  have v: "ValidateKlineRows interval startMS endMS rows = Some \<lparr>kv_ok = (gs = []), kv_expected = go_div (endMS - startMS) step,
     kv_actual = int (length ?seen), kv_gaps = gs, kv_reason = (if gs \<noteq> [] then ''missing kline rows'' else '''')\<rparr>"
    using assms gs(1) by (simp add: ValidateKlineRows_def Let_def)
  have pts: "gap_points endMS step gs = {x. on_grid endMS step x \<and> startMS \<le> x \<and> x < endMS \<and> x \<notin> kr_open_time ` set rows}"
    unfolding gs(2) set_seen_times by auto
  have "gs = [] \<longleftrightarrow> gap_points endMS step gs = {}"
  proof (cases gs)
    case (Cons g t)
    then have "vg_start g \<in> gap_points endMS step gs" using gs(4) by (auto simp: gap_ok_def)
    then show ?thesis using Cons by auto
  qed simp
  then show ?thesis unfolding v using gs(3,4) pts assms(2,4,6) by auto
qed

text \<open>For a range that is a multiple of the step the comparison returns; its gaps are disjoint runs,
  in order and apart, with exact counts, that together are exactly the grid instants no bar opens at,
  and it is OK exactly when there is none.\<close>

theorem kline_validation_exact:
  assumes "intervalStepMS interval = Inr step" "0 < step" "0 < startMS" "startMS < endMS" "endMS < 2 ^ 63"
    and "step dvd endMS - startMS"
  shows "\<exists>v. ValidateKlineRows interval startMS endMS rows = Some v \<and>
    gap_points endMS step (kv_gaps v) =
      {x. on_grid endMS step x \<and> startMS \<le> x \<and> x < endMS \<and> x \<notin> kr_open_time ` set rows} \<and>
    sorted_wrt (\<lambda>a b. vg_end a < vg_start b) (kv_gaps v) \<and>
    (\<forall>g\<in>set (kv_gaps v). gap_ok startMS endMS step g) \<and>
    (kv_ok v \<longleftrightarrow> {x. on_grid endMS step x \<and> startMS \<le> x \<and> x < endMS} \<subseteq> kr_open_time ` set rows) \<and>
    kv_expected v * step = endMS - startMS"
  using assms by (rule validation_exact)

definition bar_at :: "int \<Rightarrow> kline_row" where
  "bar_at t = \<lparr>kr_exchange = ''binance'', kr_market = ''spot'', kr_symbol = ''BTCUSDT'', kr_interval = ''1m'',
     kr_open_time = t, kr_close_time = t + 59999, kr_open = 0, kr_high = 0, kr_low = 0, kr_close = 0, kr_volume = 0,
     kr_timestamp = t + 59999\<rparr>"

lemma step_1m: "intervalStepMS ''1m'' = Inr 60000"
proof -
  have "atoi ''1'' = Some 1" by (simp add: atoi_def parse_nat_def is_digit_def in64_def)
  moreover have "trim_space ''1m'' = ''1m''" by (simp add: trim_eval)
  moreover have "wrap64 (minute) = minute" by (intro wrap64_id) (simp add: in64_def duration_defs)
  ultimately show ?thesis by (simp add: intervalStepMS_def go_div_def duration_defs)
qed

theorem kline_validation_exact_witness:
  "\<exists>v. ValidateKlineRows ''1m'' 60000 300000 [bar_at 60000, bar_at 180000] = Some v \<and> \<not> kv_ok v \<and> kv_expected v = 4 \<and>
     120000 \<in> gap_points 300000 60000 (kv_gaps v)"
proof -
  obtain v where v: "ValidateKlineRows ''1m'' 60000 300000 [bar_at 60000, bar_at 180000] = Some v"
    and pts: "gap_points 300000 60000 (kv_gaps v) = {x. on_grid 300000 60000 x \<and> 60000 \<le> x \<and> x < 300000 \<and>
      x \<notin> kr_open_time ` set [bar_at 60000, bar_at 180000]}"
    and ok: "kv_ok v \<longleftrightarrow> {x. on_grid 300000 60000 x \<and> 60000 \<le> x \<and> x < 300000} \<subseteq> kr_open_time ` set [bar_at 60000, bar_at 180000]"
    and n: "kv_expected v * 60000 = 300000 - 60000"
    using kline_validation_exact [OF step_1m, of 60000 300000 "[bar_at 60000, bar_at 180000]"] by auto
  have "120000 \<in> {x. on_grid 300000 60000 x \<and> 60000 \<le> x \<and> x < (300000 :: int)}" by (simp add: on_grid_def)
  moreover have "(120000 :: int) \<notin> kr_open_time ` set [bar_at 60000, bar_at 180000]" by (simp add: bar_at_def)
  ultimately have "\<not> kv_ok v" "120000 \<in> gap_points 300000 60000 (kv_gaps v)" unfolding ok pts by blast+
  then show ?thesis using v n by auto
qed

text \<open>A bar that opens between two grid instants counts as an actual row, although it fills no gap.\<close>
lemma unaligned_rows_counted:
  "map_option (\<lambda>v. (kv_ok v, kv_expected v, kv_actual v)) (ValidateKlineRows ''1m'' 60000 120000 [bar_at 60001]) = Some (False, 1, 1)"
proof -
  have "grid_loop [60001] 60000 120000 60000 (- 1) [] = Some [\<lparr>vg_start = 60000, vg_end = 120000, vg_count = 1\<rparr>]"
    by (subst grid_loop.simps, simp add: wrap64_def, subst grid_loop.simps, simp)
  then show ?thesis by (simp add: ValidateKlineRows_def step_1m seen_times_def bar_at_def)
qed

end
