(* ===== verification/StreamKeys.thy ===== *)
theory StreamKeys
  imports MarketDataTypes
begin

text \<open>
  Request validation of \<open>internal/marketdata/service.go\<close>: stream keys, scopes, ranges, states and
  lease durations. Protobuf sub-messages may be nil, hence the options; a \<open>Timestamp\<close> is the instant
  it denotes. The regular expressions are written as predicates, and error texts as literals.
\<close>

definition invalid :: "string \<Rightarrow> 'a result" where "invalid m = Inl (Status InvalidArgument m)"

lemma invalid_neq [simp]: "invalid m \<noteq> Inr x" "Inr x \<noteq> invalid m"
  by (simp_all add: invalid_def)

section \<open>Keys\<close>

definition valid_exchange :: "string \<Rightarrow> bool" where "valid_exchange s \<longleftrightarrow> s \<in> {''binance'', ''okx''}"
definition valid_market :: "string \<Rightarrow> bool" where "valid_market s \<longleftrightarrow> s \<in> {''spot'', ''futures''}"
definition valid_writer_kind :: "string \<Rightarrow> bool" where
  "valid_writer_kind s \<longleftrightarrow> s \<in> {''kline'', ''funding_rate'', ''open_interest'', ''orderbook''}"
definition valid_symbol :: "string \<Rightarrow> bool" where
  "valid_symbol s \<longleftrightarrow> 2 \<le> length s \<and> length s \<le> 30 \<and> list_all (\<lambda>c. is_upper c \<or> is_digit c) s"

definition valid_intervals :: "string list" where
  "valid_intervals = [''1s'', ''5s'', ''10s'', ''30s'', ''1m'', ''3m'', ''5m'', ''15m'', ''30m'', ''1h'', ''2h'', ''4h'',
     ''6h'', ''8h'', ''12h'', ''1d'', ''3d'', ''1w'', ''1M'']"

definition valid_interval :: "string \<Rightarrow> bool" where "valid_interval s \<longleftrightarrow> s \<in> set valid_intervals"

definition clean_key :: "market_stream_key \<Rightarrow> market_stream_key" where
  "clean_key k = \<lparr>mk_exchange = trim_space (to_lower (mk_exchange k)), mk_market = trim_space (to_lower (mk_market k)),
     mk_kind = trim_space (to_lower (mk_kind k)), mk_symbol = trim_space (to_upper (mk_symbol k)),
     mk_interval = trim_space (mk_interval k)\<rparr>"

definition validateStreamKey :: "market_stream_key option \<Rightarrow> market_stream_key result" where
  "validateStreamKey raw = (case raw of None \<Rightarrow> invalid ''key is required''
   | Some r \<Rightarrow>
      (let k = clean_key r in
       if mk_exchange k = '''' then invalid ''key.exchange is required''
       else if \<not> valid_exchange (mk_exchange k) then invalid ''key.exchange must be 'binance' or 'okx' ''
       else if \<not> valid_market (mk_market k) then invalid ''key.market must be 'spot' or 'futures' ''
       else if mk_kind k \<noteq> ''kline'' then invalid ''key.kind must be 'kline' (v1 scope)''
       else if \<not> valid_symbol (mk_symbol k) then invalid ''key.symbol must be 2-30 upper-case alphanum''
       else if \<not> valid_interval (mk_interval k) then invalid ''key.interval invalid''
       else Inr k))"

definition validateWriterKey :: "market_stream_key option \<Rightarrow> market_stream_key result" where
  "validateWriterKey raw = (case raw of None \<Rightarrow> invalid ''key is required''
   | Some r \<Rightarrow>
      (let k = clean_key r in
       if \<not> valid_exchange (mk_exchange k) then invalid ''key.exchange must be 'binance' or 'okx' ''
       else if \<not> valid_market (mk_market k) then invalid ''key.market must be 'spot' or 'futures' ''
       else if \<not> valid_writer_kind (mk_kind k) then invalid ''key.kind must be kline/funding_rate/open_interest/orderbook''
       else if \<not> valid_symbol (mk_symbol k) then invalid ''key.symbol must be 2-30 upper-case alphanum''
       else if mk_kind k = ''kline'' \<and> \<not> valid_interval (mk_interval k) then invalid ''key.interval invalid''
       else if mk_kind k \<noteq> ''kline'' \<and> mk_interval k \<noteq> '''' then invalid ''key.interval must be empty for writer kind''
       else if (mk_kind k = ''funding_rate'' \<or> mk_kind k = ''open_interest'') \<and> mk_market k \<noteq> ''futures''
       then invalid ''writer kind requires market=futures''
       else Inr k))"

section \<open>Scopes, ranges and states\<close>

definition requireUserID :: "int \<Rightarrow> go_error option" where
  "requireUserID u = (if u \<le> 0 then Some (Status InvalidArgument ''user_id is required'') else None)"

abbreviation ScopeLive :: string where "ScopeLive \<equiv> ''live''"
abbreviation ScopeHistorical :: string where "ScopeHistorical \<equiv> ''historical''"

definition normalizeRequestScope :: "string \<Rightarrow> string result" where
  "normalizeRequestScope raw =
     (let scope = trim_space (to_lower raw) in
      if scope = '''' then Inr ScopeLive
      else if scope = ScopeLive then Inr ScopeLive
      else if scope = ScopeHistorical then Inr ScopeHistorical
      else invalid ''scope must be 'live' or 'historical' '')"

definition validateHistoricalRange :: "go_time option \<Rightarrow> go_time option \<Rightarrow> (go_time \<times> go_time) result" where
  "validateHistoricalRange start e =
     (case (start, e) of
        (Some s, Some t) \<Rightarrow>
          if is_zero s \<or> is_zero t
          then invalid ''historical scope requires non-zero requested_start_at and requested_end_at''
          else if \<not> s < t then invalid ''requested_end_at must be after requested_start_at''
          else Inr (s, t)
      | _ \<Rightarrow> invalid ''historical scope requires requested_start_at and requested_end_at'')"

definition normalizeHistoryStatus :: "string \<Rightarrow> string result" where
  "normalizeHistoryStatus raw =
     (let s = trim_space (to_lower raw) in
      if s \<in> {HistoryRunning, HistoryVerifying, HistoryReady, HistoryError} then Inr s
      else invalid ''history status is not recognized'')"

definition minLeaseTTL :: duration where "minLeaseTTL = 30 * second"
definition maxLeaseTTL :: duration where "maxLeaseTTL = 5 * minute"
definition defaultLeaseTTL :: duration where "defaultLeaseTTL = 90 * second"

text \<open>The duration every lease RPC computes from \<open>ttl_seconds\<close> (an int32).\<close>
definition lease_ttl :: "int \<Rightarrow> duration" where
  "lease_ttl ttlSeconds =
     (let t0 = ttlSeconds * second;
          t1 = (if t0 = 0 then defaultLeaseTTL else t0);
          t2 = (if t1 < minLeaseTTL then minLeaseTTL else t1)
      in if maxLeaseTTL < t2 then maxLeaseTTL else t2)"

lemma lease_ttl_bounds: "minLeaseTTL \<le> lease_ttl n \<and> lease_ttl n \<le> maxLeaseTTL \<and> lease_ttl 0 = defaultLeaseTTL"
  by (simp add: lease_ttl_def Let_def minLeaseTTL_def maxLeaseTTL_def defaultLeaseTTL_def duration_defs)

section \<open>Reported segments\<close>

record raw_segment =
  rg_key :: "market_stream_key option"
  rg_year :: int
  rg_start :: "go_time option"
  rg_end :: "go_time option"
  rg_rows :: int
  rg_source :: string

definition validateCoverageSegment :: "raw_segment option \<Rightarrow> coverage_segment result" where
  "validateCoverageSegment raw0 =
     (case raw0 of None \<Rightarrow> invalid ''coverage segment is required''
      | Some raw \<Rightarrow>
     (case validateStreamKey (rg_key raw) of Inl e \<Rightarrow> Inl e
      | Inr key \<Rightarrow>
      if rg_year raw < 1970 then invalid ''coverage segment year is invalid''
      else (case (rg_start raw, rg_end raw) of
          (Some s, Some e) \<Rightarrow>
            if is_zero s \<or> is_zero e then invalid ''coverage segment start_at and end_at must be non-zero''
            else if \<not> s < e then invalid ''coverage segment end_at must be after start_at''
            else if s < year_start (rg_year raw) \<or> \<not> s < year_start (rg_year raw + 1)
            then invalid ''coverage segment start_at must fall within year UTC''
            else if year_start (rg_year raw + 1) < e then invalid ''coverage segment end_at must not exceed the year''
            else if rg_rows raw \<le> 0 then invalid ''coverage segment row_count must be positive''
            else if trim_space (rg_source raw) = '''' then invalid ''coverage segment source is required''
            else (case expectedCount s e (mk_interval key) of
                Inl er \<Rightarrow> invalid (''coverage segment interval: '' @ err_text er)
              | Inr n \<Rightarrow>
                  if rg_rows raw \<noteq> n then invalid ''coverage segment row_count does not match''
                  else Inr \<lparr>cv_id = 0, cv_key = key, cv_year = rg_year raw, cv_start = s, cv_end = e,
                    cv_rows = rg_rows raw, cv_source = trim_space (rg_source raw), cv_updated = zero_time\<rparr>)
        | _ \<Rightarrow> invalid ''coverage segment start_at and end_at are required'')))"

section \<open>Accepted keys are canonical\<close>

lemma lower_of_lower: "list_all (\<lambda>c. \<not> is_upper c) s \<Longrightarrow> to_lower s = s"
  by (induction s) (auto simp: to_lower_def lower_char_def)

lemma upper_of_upper: "list_all (\<lambda>c. \<not> is_lower c) s \<Longrightarrow> to_upper s = s"
  by (induction s) (auto simp: to_upper_def upper_char_def)

lemma valid_key_ok:
  assumes "validateStreamKey raw = Inr key"
  shows "valid_exchange (mk_exchange key) \<and> valid_market (mk_market key) \<and> mk_kind key = ''kline'' \<and>
    valid_symbol (mk_symbol key) \<and> valid_interval (mk_interval key)"
  using assms by (auto simp: validateStreamKey_def Let_def invalid_def split: option.splits if_splits)

lemma symbol_clean:
  assumes "list_all (\<lambda>c. is_upper c \<or> is_digit c) s"
  shows "trim_space (to_upper s) = s"
proof -
  have "list_all (\<lambda>c. \<not> is_lower c) s" "list_all plain s"
    using assms by (auto simp: list_all_iff is_upper_def is_digit_def is_lower_def plain_def is_space_def Let_def)
  then show ?thesis by (simp add: upper_of_upper trim_no_space)
qed

lemma name_clean:
  assumes "list_all (\<lambda>c. is_lower c \<or> is_digit c \<or> c = CHR ''_'') s"
  shows "trim_space (to_lower s) = s" "trim_space s = s"
proof -
  have "list_all (\<lambda>c. \<not> is_upper c) s" "list_all plain s"
    using assms by (auto simp: list_all_iff is_upper_def is_digit_def is_lower_def plain_def is_space_def Let_def)
  then show "trim_space (to_lower s) = s" "trim_space s = s" by (simp_all add: lower_of_lower trim_no_space)
qed

lemma clean_valid:
  assumes "valid_exchange (mk_exchange k)" "valid_market (mk_market k)" "mk_kind k = ''kline''"
    "valid_symbol (mk_symbol k)" "valid_interval (mk_interval k)"
  shows "clean_key k = k"
proof -
  have "list_all (\<lambda>c. is_lower c \<or> is_digit c \<or> c = CHR ''_'') (mk_exchange k)"
    "list_all (\<lambda>c. is_lower c \<or> is_digit c \<or> c = CHR ''_'') (mk_market k)"
    "list_all (\<lambda>c. is_lower c \<or> is_digit c \<or> c = CHR ''_'') (mk_kind k)"
    using assms(1,2,3) by (auto simp: valid_exchange_def valid_market_def is_lower_def)
  note n = this [THEN name_clean(1)]
  have "list_all (list_all plain) valid_intervals"
    by (simp add: valid_intervals_def plain_def is_space_def)
  then have i: "trim_space (mk_interval k) = mk_interval k"
    using assms(5) by (intro trim_no_space) (simp add: valid_interval_def list_all_iff)
  show ?thesis using n i symbol_clean [of "mk_symbol k"] assms(4) by (simp add: clean_key_def valid_symbol_def)
qed

end
