(* ===== verification/CoverageStore.thy ===== *)
theory CoverageStore
  imports CoverageMerge Tables
begin

text \<open>
  The coverage index of \<open>internal/marketdata/repository/timescale.go\<close>: the table
  \<open>market_data_coverage_segments\<close>, the range query, and the merge of a reported segment with every
  stored segment of its stream and year it overlaps or touches. An advisory lock on the stream and
  year makes a merge atomic; the sequence of \<open>segment_id\<close> is \<open>ct_next\<close>.
\<close>

section \<open>Counting, as the repository does it\<close>

definition coverageIntervalDuration :: "string \<Rightarrow> duration result" where
  "coverageIntervalDuration interval =
     (if length interval < 2 then Inl bad_interval
      else case atoi (butlast interval) of
          None \<Rightarrow> Inl bad_interval
        | Some n \<Rightarrow> if n \<le> 0 then Inl bad_interval else interval_unit (last interval) n)"

definition isAlignedToCoverageInterval :: "go_time \<Rightarrow> duration \<Rightarrow> bool" where
  "isAlignedToCoverageInterval t d \<longleftrightarrow> 0 < d \<and> wrap64 t mod d = 0"

definition coverageExpectedCount :: "go_time \<Rightarrow> go_time \<Rightarrow> string \<Rightarrow> int result" where
  "coverageExpectedCount startAt endAt interval =
     (if \<not> startAt < endAt then Inl (Plain ''end_at must be after start_at'')
      else case coverageIntervalDuration interval of
          Inl e \<Rightarrow> Inl e
        | Inr d \<Rightarrow>
            (let diff = time_sub endAt startAt in
             if \<not> isAlignedToCoverageInterval startAt d \<or> \<not> isAlignedToCoverageInterval endAt d
             then Inl (Plain ''start_at and end_at must align to interval'')
             else if diff mod d \<noteq> 0 then Inl (Plain ''range must be an exact multiple of interval'')
             else Inr (diff div d)))"

lemma coverageExpectedCount_same: "coverageExpectedCount = expectedCount"
proof -
  have eq: "coverageIntervalDuration = intervalDuration" "isAlignedToCoverageInterval = isAlignedToInterval"
    by (simp_all add: fun_eq_iff coverageIntervalDuration_def intervalDuration_def
      isAlignedToCoverageInterval_def isAlignedToInterval_def)
  show ?thesis unfolding coverageExpectedCount_def [abs_def] expectedCount_def [abs_def] eq by (rule refl)
qed

section \<open>The lock key\<close>

text \<open>FNV-1a on 64 bits; the key text joins the five parts and the year.\<close>

definition fnv64a :: "string \<Rightarrow> 64 word" where
  "fnv64a s = foldl (\<lambda>h c. (xor h (of_nat (of_char c))) * 1099511628211) 14695981039346656037 s"

definition marketDataCoverageLockKey :: "market_stream_key \<Rightarrow> int \<Rightarrow> int" where
  "marketDataCoverageLockKey key year = sint (fnv64a (mk_exchange key @ ''|'' @ mk_market key @ ''|'' @ mk_kind key @ ''|'' @
     mk_symbol key @ ''|'' @ mk_interval key @ ''|'' @ format_int year))"

section \<open>The table\<close>

record coverage_table =
  ct_rows :: "coverage_segment list"
  ct_next :: int

definition QueryMarketDataCoverage_rows :: "coverage_table \<Rightarrow> market_stream_key \<Rightarrow> go_time \<Rightarrow> go_time \<Rightarrow> coverage_segment list" where
  "QueryMarketDataCoverage_rows t key s e =
     sort_segments (filter (\<lambda>c. cv_key c = key \<and> s < cv_end c \<and> cv_start c < e) (ct_rows t))"

definition touches :: "market_stream_key \<Rightarrow> int \<Rightarrow> go_time \<Rightarrow> go_time \<Rightarrow> coverage_segment \<Rightarrow> bool" where
  "touches key year s e c \<longleftrightarrow> cv_key c = key \<and> cv_year c = year \<and> s \<le> cv_end c \<and> cv_start c \<le> e"

text \<open>One pass over the rows found: those not seen before widen the merged range.\<close>
fun scan_candidates ::
  "(int, coverage_segment) gomap \<Rightarrow> go_time \<Rightarrow> go_time \<Rightarrow> bool \<Rightarrow> coverage_segment list
     \<Rightarrow> (int, coverage_segment) gomap \<times> go_time \<times> go_time \<times> bool" where
  "scan_candidates cands s e found [] = (cands, s, e, found)"
| "scan_candidates cands s e found (c # cs) =
     (if gm_get cands (cv_id c) \<noteq> None then scan_candidates cands s e found cs
      else scan_candidates (gm_set (cv_id c) c cands) (if cv_start c < s then cv_start c else s)
             (if e < cv_end c then cv_end c else e) True cs)"

lemma scan_found:
  "scan_candidates cands s e found cs = (cands', s', e', found') \<Longrightarrow>
     fst ` set cands \<subseteq> fst ` set cands' \<and> fst ` set cands' \<subseteq> fst ` set cands \<union> cv_id ` set cs \<and>
     (found' \<and> \<not> found \<longrightarrow> (\<exists>c\<in>set cs. cv_id c \<notin> fst ` set cands \<and> cv_id c \<in> fst ` set cands')) \<and> (found \<longrightarrow> found')"
proof (induction cands s e found cs rule: scan_candidates.induct)
  case (2 cands s e found c cs)
  show ?case
  proof (cases "gm_get cands (cv_id c) = None")
    case True
    then have new: "cv_id c \<notin> fst ` set cands" using gm_dom [of cands "cv_id c"] by auto
    show ?thesis using 2(2) [OF _ , simplified True] 2(3) True new by (auto simp: gm_set_keys)
  next
    case False
    then show ?thesis using 2(1,3) by auto
  qed
qed auto

lemma scan_decreases:
  assumes "scan_candidates cands s e False (sort_segments (filter (touches key year s e) rows)) = (cands', s', e', True)"
  shows "card (cv_id ` set rows - fst ` set cands') < card (cv_id ` set rows - fst ` set cands)"
proof -
  from scan_found [OF assms] obtain c where "fst ` set cands \<subseteq> fst ` set cands'" "c \<in> set rows"
    "cv_id c \<notin> fst ` set cands" "cv_id c \<in> fst ` set cands'" by auto
  then have "cv_id ` set rows - fst ` set cands' \<subset> cv_id ` set rows - fst ` set cands" by blast
  then show ?thesis by (simp add: psubset_card_mono)
qed

text \<open>The loop ends because every further round has found a row not seen before.\<close>
function widen_loop ::
  "coverage_segment list \<Rightarrow> market_stream_key \<Rightarrow> int \<Rightarrow> (int, coverage_segment) gomap \<Rightarrow> go_time \<Rightarrow> go_time
     \<Rightarrow> (int, coverage_segment) gomap \<times> go_time \<times> go_time" where
  "widen_loop rows key year cands s e =
     (case scan_candidates cands s e False (sort_segments (filter (touches key year s e) rows)) of
        (cands', s', e', foundNew) \<Rightarrow>
          if foundNew then widen_loop rows key year cands' s' e' else (cands', s', e'))"
  by pat_completeness auto
termination
  by (relation "measure (\<lambda>(rows, key, year, cands, s, e). card (cv_id ` set rows - fst ` set cands))")
    (auto dest!: sym [of _ "scan_candidates _ _ _ _ _"] intro!: scan_decreases)

declare widen_loop.simps [simp del]

definition same_segment :: "coverage_segment \<Rightarrow> coverage_segment \<Rightarrow> bool" where
  "same_segment a b \<longleftrightarrow> cv_key a = cv_key b \<and> cv_year a = cv_year b \<and> cv_start a = cv_start b \<and> cv_end a = cv_end b"

text \<open>\<open>INSERT ... ON CONFLICT DO UPDATE\<close> under the unique index, behind the schema's checks.\<close>
definition upsert_segment :: "go_time \<Rightarrow> coverage_segment \<Rightarrow> coverage_table \<Rightarrow> coverage_table \<times> coverage_segment result" where
  "upsert_segment now c t =
     (if cv_source c = '''' \<or> cv_year c < 1970 \<or> cv_rows c \<le> 0 then (t, Inl (Plain ''check constraint violation''))
      else case filter (same_segment c) (ct_rows t) of
          old # _ \<Rightarrow> (let new = old\<lparr>cv_rows := cv_rows c, cv_source := cv_source c, cv_updated := now\<rparr>
             in (t\<lparr>ct_rows := update_where (same_segment c) (\<lambda>_. new) (ct_rows t)\<rparr>, Inr new))
        | [] \<Rightarrow> (let new = c\<lparr>cv_id := ct_next t, cv_updated := now\<rparr>
             in (t\<lparr>ct_rows := ct_rows t @ [new], ct_next := ct_next t + 1\<rparr>, Inr new)))"

definition mergeMarketDataCoverageSegment ::
  "go_time \<Rightarrow> coverage_segment \<Rightarrow> coverage_table \<Rightarrow> coverage_table \<times> coverage_segment result" where
  "mergeMarketDataCoverageSegment now incoming t =
     (let (cands, s, e) = widen_loop (ct_rows t) (cv_key incoming) (cv_year incoming) [] (cv_start incoming) (cv_end incoming);
          rest = t\<lparr>ct_rows := filter (\<lambda>c. gm_get cands (cv_id c) = None) (ct_rows t)\<rparr>
      in case coverageExpectedCount s e (mk_interval (cv_key incoming)) of
           Inl er \<Rightarrow> (t, Inl er)
         | Inr n \<Rightarrow> (case upsert_segment now (incoming\<lparr>cv_start := s, cv_end := e, cv_rows := n\<rparr>) rest of
               (t', Inl er) \<Rightarrow> (t, Inl er)
             | (t', Inr c) \<Rightarrow> (t', Inr c)))"

text \<open>Each segment is a transaction of its own; the first failure ends the call.\<close>
fun MergeMarketDataCoverageSegments ::
  "go_time \<Rightarrow> coverage_segment list \<Rightarrow> coverage_table \<Rightarrow> coverage_table \<times> coverage_segment list result" where
  "MergeMarketDataCoverageSegments now [] t = (t, Inr [])"
| "MergeMarketDataCoverageSegments now (c # cs) t =
     (case mergeMarketDataCoverageSegment now c t of
        (t', Inl er) \<Rightarrow> (t', Inl er)
      | (t', Inr m) \<Rightarrow> (case MergeMarketDataCoverageSegments now cs t' of
            (t'', Inl er) \<Rightarrow> (t'', Inl er)
          | (t'', Inr ms) \<Rightarrow> (t'', Inr (m # ms))))"

section \<open>Widening\<close>

definition widened ::
  "coverage_segment list \<Rightarrow> market_stream_key \<Rightarrow> int \<Rightarrow> go_time \<Rightarrow> go_time
     \<Rightarrow> (int, coverage_segment) gomap \<Rightarrow> go_time \<Rightarrow> go_time \<Rightarrow> bool" where
  "widened rows key year s0 e0 cands s e \<longleftrightarrow> gm_ok cands \<and> s < e \<and>
     (\<forall>(i, c)\<in>set cands. c \<in> set rows \<and> cv_id c = i \<and> cv_key c = key \<and> cv_year c = year) \<and>
     {s ..< e} = {s0 ..< e0} \<union> (\<Union>p\<in>set cands. seg_points (snd p))"

lemma scan_widened:
  assumes "widened rows key year s0 e0 cands s e"
    and "\<forall>c\<in>set cs. c \<in> set rows \<and> cv_start c < cv_end c \<and> touches key year s e c"
    and "scan_candidates cands s e found cs = (cands', s', e', found')"
  shows "widened rows key year s0 e0 cands' s' e' \<and>
    (\<not> found' \<longrightarrow> cands' = cands \<and> s' = s \<and> e' = e \<and> (\<forall>c\<in>set cs. cv_id c \<in> fst ` set cands))"
  using assms
proof (induction cands s e found cs rule: scan_candidates.induct)
  case (2 cands s e found c cs)
  show ?case
  proof (cases "gm_get cands (cv_id c) = None")
    case False
    then have "cv_id c \<in> fst ` set cands" using gm_dom [of cands "cv_id c"] by auto
    then show ?thesis using 2(1) [OF False 2(3)] 2(4,5) False by auto
  next
    case True
    define cands1 where "cands1 = gm_set (cv_id c) c cands"
    define s1 where "s1 = (if cv_start c < s then cv_start c else s)"
    define e1 where "e1 = (if e < cv_end c then cv_end c else e)"
    have c: "c \<in> set rows" "cv_start c < cv_end c" "cv_key c = key" "cv_year c = year" "s \<le> cv_end c" "cv_start c \<le> e"
      using 2(4) by (auto simp: touches_def)
    have se: "s < e" using 2(3) by (simp add: widened_def)
    have st: "set cands1 = insert (cv_id c, c) (set cands)"
      unfolding cands1_def by (rule set_gm_set_fresh [OF True])
    have "{s1 ..< e1} = {s ..< e} \<union> seg_points c"
      using c se by (auto simp: s1_def e1_def seg_points_def)
    moreover have "s1 < e1" using se c by (auto simp: s1_def e1_def)
    moreover have "gm_ok cands1" using 2(3) by (auto simp: cands1_def widened_def)
    ultimately have w: "widened rows key year s0 e0 cands1 s1 e1"
      using 2(3) c unfolding widened_def st by auto
    have t: "\<forall>d\<in>set cs. d \<in> set rows \<and> cv_start d < cv_end d \<and> touches key year s1 e1 d"
      using 2(4) by (auto simp: touches_def s1_def e1_def)
    have step: "scan_candidates cands1 s1 e1 True cs = (cands', s', e', found')"
      using 2(5) True by (simp add: cands1_def s1_def e1_def)
    have "found'" using scan_found [OF step] by simp
    then show ?thesis
      using 2(2) [of] True w t step by (simp add: cands1_def [symmetric] s1_def [symmetric] e1_def [symmetric])
  qed
qed simp

lemma widen_widened:
  assumes "widened rows key year s0 e0 cands s e" "\<forall>c\<in>set rows. cv_start c < cv_end c"
    and "widen_loop rows key year cands s e = (cands', s', e')"
  shows "widened rows key year s0 e0 cands' s' e' \<and>
    (\<forall>c\<in>set rows. touches key year s' e' c \<longrightarrow> cv_id c \<in> fst ` set cands')"
  using assms
proof (induction rows key year cands s e rule: widen_loop.induct)
  case (1 rows key year cands s e)
  let ?cs = "sort_segments (filter (touches key year s e) rows)"
  obtain cands1 s1 e1 f where sc: "scan_candidates cands s e False ?cs = (cands1, s1, e1, f)"
    by (metis prod_cases4)
  have "\<forall>c\<in>set ?cs. c \<in> set rows \<and> cv_start c < cv_end c \<and> touches key year s e c" using 1(3) by auto
  note w = scan_widened [OF 1(2) this sc]
  show ?case
  proof (cases f)
    case True
    then have "widen_loop rows key year cands1 s1 e1 = (cands', s', e')"
      using 1(4) sc by (subst (asm) widen_loop.simps) simp
    then show ?thesis using 1(1) [OF sc [symmetric] refl refl] True w 1(3) by simp
  next
    case False
    then have "cands' = cands1" "s' = s1" "e' = e1"
      using 1(4) sc by (subst (asm) widen_loop.simps; simp)+
    then show ?thesis using w False by auto
  qed
qed

lemma widen_result:
  assumes "\<forall>c\<in>set rows. cv_start c < cv_end c" "s < e" "widen_loop rows key year [] s e = (cands, s', e')"
  shows "widened rows key year s e cands s' e' \<and> (\<forall>c\<in>set rows. touches key year s' e' c \<longrightarrow> cv_id c \<in> fst ` set cands)"
  using assms by (intro widen_widened) (auto simp: widened_def)

section \<open>The index invariant and what a merge adds\<close>

text \<open>Rows with one stream and year neither overlap nor touch.\<close>
definition separate :: "coverage_segment \<Rightarrow> coverage_segment \<Rightarrow> bool" where
  "separate a b \<longleftrightarrow> cv_end a < cv_start b \<or> cv_end b < cv_start a"

text \<open>A row counts the bars between its aligned ends.\<close>
definition counted :: "coverage_segment \<Rightarrow> bool" where
  "counted c \<longleftrightarrow> expectedCount (cv_start c) (cv_end c) (mk_interval (cv_key c)) = Inr (cv_rows c)"

definition cov_inv :: "coverage_table \<Rightarrow> bool" where
  "cov_inv t \<longleftrightarrow> keys_ok cv_id (ct_rows t) \<and>
     (\<forall>c\<in>set (ct_rows t). cv_id c < ct_next t \<and> in_year c \<and> counted c) \<and>
     (\<forall>a\<in>set (ct_rows t). \<forall>b\<in>set (ct_rows t).
        cv_key a = cv_key b \<and> cv_year a = cv_year b \<and> cv_id a \<noteq> cv_id b \<longrightarrow> separate a b)"

text \<open>The abstract content of the index: the covered instants of a stream in a year.\<close>
definition covered :: "coverage_table \<Rightarrow> market_stream_key \<Rightarrow> int \<Rightarrow> int set" where
  "covered t key year = cov_points (filter (\<lambda>c. cv_key c = key \<and> cv_year c = year) (ct_rows t))"

lemma covered_iff: "x \<in> covered t key year \<longleftrightarrow>
    (\<exists>c\<in>set (ct_rows t). cv_key c = key \<and> cv_year c = year \<and> x \<in> seg_points c)"
  by (auto simp: covered_def cov_points_def)

lemma points_in_year:
  assumes "s < e" "{s ..< e} \<subseteq> {a ..< b}"
  shows "a \<le> s \<and> e \<le> (b :: int)"
  using assms by (simp add: atLeastLessThan_subset_iff)

lemma merge_unfold:
  assumes inv: "cov_inv t" and inc: "in_year incoming"
    and ok: "mergeMarketDataCoverageSegment now incoming t = (t', Inr m)"
  obtains C s e n where
    "widened (ct_rows t) (cv_key incoming) (cv_year incoming) (cv_start incoming) (cv_end incoming) C s e"
    "\<forall>c\<in>set (ct_rows t). touches (cv_key incoming) (cv_year incoming) s e c \<longrightarrow> cv_id c \<in> fst ` set C"
    "expectedCount s e (mk_interval (cv_key incoming)) = Inr n"
    "m = incoming\<lparr>cv_start := s, cv_end := e, cv_rows := n, cv_id := ct_next t, cv_updated := now\<rparr>"
    "t' = t\<lparr>ct_rows := filter (\<lambda>c. cv_id c \<notin> fst ` set C) (ct_rows t) @ [m], ct_next := ct_next t + 1\<rparr>"
proof -
  obtain C s e where w: "widen_loop (ct_rows t) (cv_key incoming) (cv_year incoming) [] (cv_start incoming) (cv_end incoming) = (C, s, e)"
    by (metis prod_cases3)
  have pos: "\<forall>c\<in>set (ct_rows t). cv_start c < cv_end c" using inv by (auto simp: cov_inv_def in_year_def)
  have lt: "cv_start incoming < cv_end incoming" using inc by (simp add: in_year_def)
  note wd = widen_result [OF pos lt w]
  let ?rest = "filter (\<lambda>c. cv_id c \<notin> fst ` set C) (ct_rows t)"
  have rest: "filter (\<lambda>c. gm_get C (cv_id c) = None) (ct_rows t) = ?rest"
    using gm_dom [of C] by (metis (mono_tags, lifting))
  obtain n where n: "expectedCount s e (mk_interval (cv_key incoming)) = Inr n"
    using ok w by (auto simp: mergeMarketDataCoverageSegment_def Let_def coverageExpectedCount_same split: sum.splits)
  define new where "new = incoming\<lparr>cv_start := s, cv_end := e, cv_rows := n\<rparr>"
  have none: "filter (same_segment new) ?rest = []"
  proof (rule filter_False, rule ballI)
    fix c assume c: "c \<in> set ?rest"
    show "\<not> same_segment new c"
    proof
      assume "same_segment new c"
      then have "touches (cv_key incoming) (cv_year incoming) s e c"
        using wd by (auto simp: touches_def same_segment_def new_def widened_def)
      then show False using wd c by auto
    qed
  qed
  have up: "(case upsert_segment now new (t\<lparr>ct_rows := ?rest\<rparr>) of (t', Inl er) \<Rightarrow> (t, Inl er) | (t', Inr c) \<Rightarrow> (t', Inr c)) = (t', Inr m)"
    using ok unfolding mergeMarketDataCoverageSegment_def w Let_def split_conv rest coverageExpectedCount_same n sum.case new_def by simp
  then have "m = new\<lparr>cv_id := ct_next t, cv_updated := now\<rparr>"
    "t' = t\<lparr>ct_rows := ?rest @ [m], ct_next := ct_next t + 1\<rparr>"
    using none by (auto simp: upsert_segment_def Let_def split: if_splits)
  moreover from this have "m = incoming\<lparr>cv_start := s, cv_end := e, cv_rows := n, cv_id := ct_next t, cv_updated := now\<rparr>"
    by (simp add: new_def)
  ultimately show ?thesis using that [OF _ _ n, of C] wd by blast
qed

lemma merge_result:
  assumes inv: "cov_inv t" and inc: "in_year incoming"
    and ok: "mergeMarketDataCoverageSegment now incoming t = (t', Inr m)"
  shows "cov_inv t'"
    and "covered t' key year = (if key = cv_key incoming \<and> year = cv_year incoming
           then covered t key year \<union> seg_points incoming else covered t key year)"
    and "m \<in> set (ct_rows t')" "cv_key m = cv_key incoming" "cv_year m = cv_year incoming"
      "seg_points incoming \<subseteq> seg_points m"
proof -
  let ?k = "cv_key incoming" and ?y = "cv_year incoming"
  obtain C s e n where w: "widened (ct_rows t) ?k ?y (cv_start incoming) (cv_end incoming) C s e"
    and all: "\<forall>c\<in>set (ct_rows t). touches ?k ?y s e c \<longrightarrow> cv_id c \<in> fst ` set C"
    and n: "expectedCount s e (mk_interval ?k) = Inr n"
    and m: "m = incoming\<lparr>cv_start := s, cv_end := e, cv_rows := n, cv_id := ct_next t, cv_updated := now\<rparr>"
    and t': "t' = t\<lparr>ct_rows := filter (\<lambda>c. cv_id c \<notin> fst ` set C) (ct_rows t) @ [m], ct_next := ct_next t + 1\<rparr>"
    by (rule merge_unfold [OF assms])
  let ?rest = "filter (\<lambda>c. cv_id c \<notin> fst ` set C) (ct_rows t)"
  have se: "s < e" and C: "\<And>p. p \<in> set C \<Longrightarrow> snd p \<in> set (ct_rows t) \<and> cv_id (snd p) = fst p \<and> cv_key (snd p) = ?k \<and> cv_year (snd p) = ?y"
    and pts: "{s ..< e} = seg_points incoming \<union> (\<Union>p\<in>set C. seg_points (snd p))"
    using w by (auto simp: widened_def seg_points_def)
  have keys: "keys_ok cv_id (ct_rows t)" using inv by (simp add: cov_inv_def)
  have inC: "cv_key c = ?k \<and> cv_year c = ?y \<and> seg_points c \<subseteq> {s ..< e}" if "c \<in> set (ct_rows t)" "cv_id c \<in> fst ` set C" for c
  proof -
    from that obtain p where p: "p \<in> set C" "fst p = cv_id c" by auto
    then have "snd p = c" using C [OF p(1)] that(1) keys keys_ok_same [of cv_id] by metis
    then show ?thesis using C [OF p(1)] pts p(1) by auto
  qed
  have mm: "seg_points m = {s ..< e}" "cv_start m = s" "cv_end m = e" "cv_key m = ?k" "cv_year m = ?y" "cv_id m = ct_next t"
    by (simp_all add: m seg_points_def)
  have "{s ..< e} \<subseteq> {year_start ?y ..< year_start (?y + 1)}"
  proof -
    have "seg_points c \<subseteq> {year_start ?y ..< year_start (?y + 1)}" if "in_year c" "cv_year c = ?y" for c
      using that by (auto simp: in_year_def seg_points_def)
    then show ?thesis unfolding pts using inc C inv unfolding cov_inv_def by blast
  qed
  from points_in_year [OF se this] have iy: "in_year m" using se by (simp add: in_year_def mm)
  have rk: "counted m" using n by (simp add: m counted_def)
  have sep: "separate c m" if "c \<in> set ?rest" "cv_key c = ?k" "cv_year c = ?y" for c
  proof -
    have "\<not> touches ?k ?y s e c" using all that(1) by auto
    then show ?thesis using that by (auto simp: touches_def separate_def mm)
  qed
  have fresh: "cv_id c < ct_next t" if "c \<in> set ?rest" for c using inv that by (auto simp: cov_inv_def)
  have "keys_ok cv_id (?rest @ [m])"
  proof (rule keys_ok_append)
    show "keys_ok cv_id ?rest" using keys by (simp add: keys_ok_def distinct_map_filter)
    show "row cv_id ?rest (cv_id m) = None" unfolding row_None mm using fresh by fastforce
  qed
  moreover have "separate a b" if ab: "a \<in> set (?rest @ [m])" "b \<in> set (?rest @ [m])" "cv_key a = cv_key b"
      "cv_year a = cv_year b" "cv_id a \<noteq> cv_id b" for a b
  proof -
    have flip: "separate m c \<longleftrightarrow> separate c m" for c by (auto simp: separate_def)
    consider "a \<in> set ?rest" "b \<in> set ?rest" | "a = m" "b \<in> set ?rest" | "a \<in> set ?rest" "b = m" | "a = m" "b = m"
      using ab(1,2) by auto
    then show ?thesis
    proof cases
      case 1
      then show ?thesis using inv that(3-5) unfolding cov_inv_def by auto
    next
      case 2
      then show ?thesis using sep [of b] that(3,4) mm flip by metis
    next
      case 3
      then show ?thesis using sep [of a] that(3,4) mm by metis
    next
      case 4
      then show ?thesis using that(5) by simp
    qed
  qed
  moreover have "cv_id c < ct_next t + 1 \<and> in_year c \<and> counted c" if "c \<in> set (?rest @ [m])" for c
    using that inv iy rk mm by (auto simp: cov_inv_def)
  ultimately show "cov_inv t'" unfolding cov_inv_def t' by simp
  show "covered t' key year = (if key = ?k \<and> year = ?y then covered t key year \<union> seg_points incoming else covered t key year)"
  proof (intro set_eqI)
    fix x
    show "x \<in> covered t' key year \<longleftrightarrow> x \<in> (if key = ?k \<and> year = ?y then covered t key year \<union> seg_points incoming else covered t key year)"
    proof (cases "key = ?k \<and> year = ?y")
      case True
      have 1: "x \<in> covered t' key year \<longleftrightarrow> (\<exists>c\<in>set ?rest. cv_key c = ?k \<and> cv_year c = ?y \<and> x \<in> seg_points c) \<or> x \<in> {s ..< e}"
        using True mm unfolding covered_iff t' by auto
      have 2: "x \<in> covered t key year \<longleftrightarrow> (\<exists>c\<in>set (ct_rows t). cv_key c = ?k \<and> cv_year c = ?y \<and> x \<in> seg_points c)"
        using True unfolding covered_iff by auto
      have 3: "x \<in> {s ..< e} \<longleftrightarrow> x \<in> seg_points incoming \<or> (\<exists>p\<in>set C. x \<in> seg_points (snd p))"
        unfolding pts by auto
      have 4: "\<exists>c\<in>set (ct_rows t). cv_key c = ?k \<and> cv_year c = ?y \<and> x \<in> seg_points c" if "p \<in> set C" "x \<in> seg_points (snd p)" for p
        using C [OF that(1)] that(2) by blast
      have 5: "x \<in> {s ..< e}" if "c \<in> set (ct_rows t)" "c \<notin> set ?rest" "x \<in> seg_points c" for c
        using inC [of c] that by auto
      have 6: "set ?rest \<subseteq> set (ct_rows t)" by auto
      have "x \<in> covered t' key year \<longleftrightarrow> x \<in> covered t key year \<or> x \<in> seg_points incoming"
        unfolding 1 2 using 3 4 5 6 by blast
      then show ?thesis using True by simp
    next
      case False
      have "c \<in> set ?rest" if "c \<in> set (ct_rows t)" "cv_key c = key" "cv_year c = year" for c
        using False inC [of c] that by auto
      then have "x \<in> covered t' key year \<longleftrightarrow> x \<in> covered t key year"
        using False mm unfolding covered_iff t' by auto
      then show ?thesis using False by (simp only: if_False)
    qed
  qed
  show "m \<in> set (ct_rows t')" "cv_key m = ?k" "cv_year m = ?y" by (simp_all add: t' mm)
  show "seg_points incoming \<subseteq> seg_points m" using pts mm by blast
qed

lemma merge_error_keeps: "mergeMarketDataCoverageSegment now incoming t = (t', Inl er) \<Longrightarrow> t' = t"
  by (auto simp: mergeMarketDataCoverageSegment_def Let_def split: sum.splits prod.splits)

section \<open>The contract of a coverage index\<close>

text \<open>
  What the queries need of the index: merging a segment adds exactly its instants, and a range query
  returns rows that cover, within the range, exactly what the index covers.
\<close>

locale coverage_index =
  fixes inv :: "'s \<Rightarrow> bool"
    and abs :: "'s \<Rightarrow> market_stream_key \<Rightarrow> int \<Rightarrow> int set"
    and merge :: "go_time \<Rightarrow> coverage_segment \<Rightarrow> 's \<Rightarrow> 's \<times> coverage_segment result"
    and query :: "'s \<Rightarrow> market_stream_key \<Rightarrow> go_time \<Rightarrow> go_time \<Rightarrow> coverage_segment list"
  assumes merge_ok: "inv t \<Longrightarrow> in_year c \<Longrightarrow> merge now c t = (t', Inr m) \<Longrightarrow>
      inv t' \<and> (\<forall>k y. abs t' k y = (if k = cv_key c \<and> y = cv_year c then abs t k y \<union> seg_points c else abs t k y))"
    and merge_error: "merge now c t = (t', Inl er) \<Longrightarrow> t' = t"
    and query_ok: "cov_points (query t k s e) \<inter> {s ..< e} = (\<Union>y. abs t k y) \<inter> {s ..< e}"
begin

lemma merge_inv: "inv t \<Longrightarrow> in_year c \<Longrightarrow> inv (fst (merge now c t))"
  using merge_ok merge_error by (metis prod.exhaust_sel sum.exhaust)

lemma merge_grows: "inv t \<Longrightarrow> in_year c \<Longrightarrow> abs t k y \<subseteq> abs (fst (merge now c t)) k y"
proof -
  assume a: "inv t" "in_year c"
  obtain t' r where m: "merge now c t = (t', r)" by (cases "merge now c t")
  show ?thesis
  proof (cases r)
    case (Inl er)
    then show ?thesis using merge_error [of now c t t' er] m by simp
  next
    case (Inr x)
    then show ?thesis using merge_ok [OF a, of now t' x] m by simp
  qed
qed

text \<open>A range query after an accepted report finds the reported instants.\<close>
lemma reported_found:
  assumes "inv t" "in_year c" "merge now c t = (t', Inr m)"
  shows "seg_points c \<inter> {s ..< e} \<subseteq> cov_points (query t' (cv_key c) s e)"
  using merge_ok [OF assms] query_ok [of t' "cv_key c" s e] by auto

end

lemma query_covered: "cov_points (QueryMarketDataCoverage_rows t k s e) \<inter> {s ..< e} = (\<Union>y. covered t k y) \<inter> {s ..< e}"
proof (rule set_eqI)
  fix x
  have "x \<in> cov_points (QueryMarketDataCoverage_rows t k s e) \<inter> {s ..< e} \<longleftrightarrow>
      (\<exists>c\<in>set (ct_rows t). cv_key c = k \<and> x \<in> seg_points c) \<and> x \<in> {s ..< e}"
    by (force simp: QueryMarketDataCoverage_rows_def cov_points_def seg_points_def)
  also have "\<dots> \<longleftrightarrow> x \<in> (\<Union>y. covered t k y) \<inter> {s ..< e}" by (auto simp: covered_iff)
  finally show "x \<in> cov_points (QueryMarketDataCoverage_rows t k s e) \<inter> {s ..< e} \<longleftrightarrow> x \<in> (\<Union>y. covered t k y) \<inter> {s ..< e}" .
qed

interpretation cov: coverage_index cov_inv covered mergeMarketDataCoverageSegment QueryMarketDataCoverage_rows
proof unfold_locales
  fix t c now t' m
  assume a: "cov_inv t" "in_year c" "mergeMarketDataCoverageSegment now c t = (t', Inr m)"
  show "cov_inv t' \<and> (\<forall>k y. covered t' k y = (if k = cv_key c \<and> y = cv_year c then covered t k y \<union> seg_points c else covered t k y))"
    using merge_result(1) [OF a] merge_result(2) [OF a] by (intro conjI allI)
qed (rule merge_error_keeps query_covered; assumption?)+

section \<open>Properties\<close>

definition year_points :: "coverage_segment list \<Rightarrow> market_stream_key \<Rightarrow> int \<Rightarrow> int set" where
  "year_points cs key year = cov_points (filter (\<lambda>c. cv_key c = key \<and> cv_year c = year) cs)"

lemma MergeSegments_spec:
  assumes "cov_inv t" "\<forall>c\<in>set cs. in_year c" "MergeMarketDataCoverageSegments now cs t = (t', r)"
  shows "cov_inv t' \<and> (\<exists>n. (is_ok r \<longrightarrow> n = length cs) \<and>
      (\<forall>key year. covered t' key year = covered t key year \<union> year_points (take n cs) key year))"
  using assms
proof (induction cs arbitrary: t t' r)
  case Nil
  then show ?case by (auto simp: year_points_def intro: exI [of _ 0])
next
  case (Cons c cs)
  obtain t1 r1 where m: "mergeMarketDataCoverageSegment now c t = (t1, r1)"
    by (cases "mergeMarketDataCoverageSegment now c t")
  show ?case
  proof (cases r1)
    case (Inl er)
    then have "t' = t" "r = Inl er" using Cons.prems(3) m merge_error_keeps by auto
    then show ?thesis using Cons.prems(1) by (auto simp: year_points_def intro: exI [of _ 0])
  next
    case (Inr x)
    note step = cov.merge_ok [OF Cons.prems(1) _ m [unfolded Inr]]
    obtain t2 r2 where rest: "MergeMarketDataCoverageSegments now cs t1 = (t2, r2)"
      by (cases "MergeMarketDataCoverageSegments now cs t1")
    then obtain n where n: "cov_inv t2" "is_ok r2 \<longrightarrow> n = length cs"
      "\<forall>key year. covered t2 key year = covered t1 key year \<union> year_points (take n cs) key year"
      using Cons.IH [of t1 t2 r2] step Cons.prems(2) by auto
    have "t' = t2" "is_ok r \<longleftrightarrow> is_ok r2" using Cons.prems(3) m Inr rest by (auto split: sum.splits)
    moreover have "covered t2 key year = covered t key year \<union> year_points (take (Suc n) (c # cs)) key year" for key year
      using n(3) step Cons.prems(2) by (auto simp: year_points_def)
    ultimately show ?thesis using n by (intro conjI exI [of _ "Suc n"]) auto
  qed
qed

text \<open>C37. However reports are merged, the rows of a stream and year stay apart, correctly counted and
  within their year; a report that is accepted adds exactly the instants of its segments to what the
  index covers and leaves every other stream and year alone; one that fails half way has added a prefix.\<close>

theorem coverage_index_merge:
  assumes "cov_inv t" "\<forall>c\<in>set cs. in_year c" "MergeMarketDataCoverageSegments now cs t = (t', r)"
  shows "cov_inv t' \<and> (\<exists>n. (is_ok r \<longrightarrow> n = length cs) \<and>
      (\<forall>key year. covered t' key year = covered t key year \<union> year_points (take n cs) key year))"
  using MergeSegments_spec [OF assms] .

definition sample_key :: market_stream_key where
  "sample_key = \<lparr>mk_exchange = ''binance'', mk_market = ''spot'', mk_kind = ''kline'', mk_symbol = ''BTCUSDT'', mk_interval = ''1m''\<rparr>"

definition sample_segment :: "int \<Rightarrow> int \<Rightarrow> coverage_segment" where
  "sample_segment a b = \<lparr>cv_id = 0, cv_key = sample_key, cv_year = 1970, cv_start = a * minute, cv_end = b * minute,
     cv_rows = b - a, cv_source = ''scraper'', cv_updated = zero_time\<rparr>"

lemma sample_in_year: "0 \<le> a \<Longrightarrow> a < b \<Longrightarrow> b \<le> 1440 \<Longrightarrow> in_year (sample_segment a b)"
  using year_start_1970 by (simp add: in_year_def sample_segment_def year_start_def days_before_year_def zero_time_def day_def duration_defs)

theorem coverage_index_merge_witness:
  "cov_inv (fst (MergeMarketDataCoverageSegments 0 [sample_segment 0 2, sample_segment 4 6, sample_segment 2 4] \<lparr>ct_rows = [], ct_next = 1\<rparr>))"
proof -
  let ?t = "\<lparr>ct_rows = [], ct_next = 1\<rparr>" and ?cs = "[sample_segment 0 2, sample_segment 4 6, sample_segment 2 4]"
  have "cov_inv ?t" by (simp add: cov_inv_def keys_ok_def)
  moreover have "\<forall>c\<in>set ?cs. in_year c" by (simp add: sample_in_year)
  moreover obtain t' r where "MergeMarketDataCoverageSegments 0 ?cs ?t = (t', r)" by (cases "MergeMarketDataCoverageSegments 0 ?cs ?t")
  ultimately show ?thesis using coverage_index_merge [of ?t ?cs 0 t' r] by simp
qed

end
