(* ===== verification/CoverageQuery.thy ===== *)
theory CoverageQuery
  imports StreamKeys CoverageStore KlineValidation
begin

text \<open>
  The coverage RPCs of \<open>internal/marketdata/service.go\<close>: what the index covers of a range, completed
  from the raw bars where it has gaps; validation of a range against the raw bars; and reading bars.
  \<open>fetch\<close> is the \<open>KlineQuerier\<close> of the service, \<open>None\<close> when it has none.
\<close>

type_synonym kline_fetch = "kline_query \<Rightarrow> kline_row list result"

definition rawKlineValidationFetchLimit :: int where "rawKlineValidationFetchLimit = 5000"
definition defaultRawKlineQueryLimit :: int where "defaultRawKlineQueryLimit = 100"
definition maxRawKlineQueryLimit :: int where "maxRawKlineQueryLimit = 1000"
definition rawCoverageSource :: string where "rawCoverageSource = ''raw_storage''"

section \<open>Segments from bars\<close>

text \<open>One round over the sorted open times: a new segment, or one bar more on the last.\<close>
definition raw_step ::
  "market_stream_key \<Rightarrow> string \<Rightarrow> go_time \<Rightarrow> duration \<Rightarrow> int \<Rightarrow> coverage_segment list \<Rightarrow> int \<Rightarrow> int \<Rightarrow> coverage_segment list" where
  "raw_step key source now step stepMS segs previousMS openMS =
     (let openAt = unix_milli_time openMS; endAt = openAt + step in
      if segs = [] \<or> openMS \<noteq> wrap64 (previousMS + stepMS)
      then segs @ [\<lparr>cv_id = 0, cv_key = key, cv_year = year_of openAt, cv_start = openAt, cv_end = endAt,
             cv_rows = 1, cv_source = source, cv_updated = now\<rparr>]
      else butlast segs @ [(last segs)\<lparr>cv_end := endAt, cv_rows := cv_rows (last segs) + 1\<rparr>])"

fun raw_segments ::
  "market_stream_key \<Rightarrow> string \<Rightarrow> go_time \<Rightarrow> duration \<Rightarrow> int \<Rightarrow> coverage_segment list \<Rightarrow> int \<Rightarrow> int list \<Rightarrow> coverage_segment list" where
  "raw_segments key source now step stepMS segs previousMS [] = segs"
| "raw_segments key source now step stepMS segs previousMS (openMS # opens) =
     raw_segments key source now step stepMS (raw_step key source now step stepMS segs previousMS openMS) openMS opens"

fun recount :: "string \<Rightarrow> coverage_segment list \<Rightarrow> coverage_segment list result" where
  "recount interval [] = Inr []"
| "recount interval (c # cs) = (case expectedCount (cv_start c) (cv_end c) interval of
     Inl er \<Rightarrow> Inl er
   | Inr n \<Rightarrow> (case recount interval cs of Inl er \<Rightarrow> Inl er | Inr ds \<Rightarrow> Inr (c\<lparr>cv_rows := n\<rparr> # ds)))"

text \<open>The open times that lie in the range and on its grid.\<close>
definition grid_opens :: "int \<Rightarrow> int \<Rightarrow> int \<Rightarrow> kline_row list \<Rightarrow> int list" where
  "grid_opens startMS endMS stepMS rows = sort (remdups (filter
     (\<lambda>t. \<not> (t < startMS \<or> endMS \<le> t) \<and> go_rem (t - startMS) stepMS = 0) (map kr_open_time rows)))"

definition coverageSegmentsFromKlineRows ::
  "go_time \<Rightarrow> market_stream_key \<Rightarrow> go_time \<Rightarrow> go_time \<Rightarrow> kline_row list \<Rightarrow> string \<Rightarrow> coverage_segment list result" where
  "coverageSegmentsFromKlineRows now key startAt endAt rows source =
     (case intervalDuration (mk_interval key) of
        Inl e \<Rightarrow> Inl e
      | Inr step \<Rightarrow>
          (let stepMS = go_div step millisecond; startMS = time_unix_milli startAt; endMS = time_unix_milli endAt in
           if stepMS \<le> 0 \<or> endMS \<le> startMS then Inl (Plain ''invalid coverage range'')
           else let opens = grid_opens startMS endMS stepMS rows in
             if opens = [] then Inr []
             else recount (mk_interval key) (concat (map splitCoverageSegmentByYear
                    (raw_segments key source now step stepMS [] 0 opens)))))"

section \<open>Reading all bars of a range\<close>

datatype raw_error = FetchFailed go_error | NoAdvance

definition kline_query_for :: "market_stream_key \<Rightarrow> int \<Rightarrow> int \<Rightarrow> int \<Rightarrow> kline_query" where
  "kline_query_for key startMS endMS limit = \<lparr>kq_exchange = mk_exchange key, kq_market = mk_market key,
     kq_symbol = mk_symbol key, kq_interval = mk_interval key, kq_start = startMS, kq_end = endMS, kq_limit = limit\<rparr>"

fun max_open :: "int \<Rightarrow> kline_row list \<Rightarrow> int" where
  "max_open m [] = m"
| "max_open m (r # rs) = max_open (if m < kr_open_time r then kr_open_time r else m) rs"

function fetch_loop ::
  "kline_fetch \<Rightarrow> market_stream_key \<Rightarrow> int \<Rightarrow> int \<Rightarrow> int \<Rightarrow> kline_row list \<Rightarrow> raw_error + kline_row list" where
  "fetch_loop fetch key stepMS endMS nextStartMS rows =
     (if nextStartMS < endMS
      then case fetch (kline_query_for key nextStartMS endMS rawKlineValidationFetchLimit) of
          Inl e \<Rightarrow> Inl (FetchFailed e)
        | Inr [] \<Rightarrow> Inr rows
        | Inr (r # rs) \<Rightarrow>
            (let nextStart = wrap64 (max_open (kr_open_time r) rs + stepMS) in
             if nextStart \<le> nextStartMS then Inl NoAdvance
             else fetch_loop fetch key stepMS endMS nextStart (rows @ r # rs))
      else Inr rows)"
  by pat_completeness auto
termination
  by (relation "measure (\<lambda>(fetch, key, stepMS, endMS, next, rows). nat (endMS - next))") auto

declare fetch_loop.simps [simp del]

definition fetchRawKlinesForCoverage ::
  "kline_fetch \<Rightarrow> market_stream_key \<Rightarrow> go_time \<Rightarrow> go_time \<Rightarrow> kline_row list result" where
  "fetchRawKlinesForCoverage fetch key startAt endAt =
     (case intervalDuration (mk_interval key) of
        Inl e \<Rightarrow> Inl e
      | Inr step \<Rightarrow> (case fetch_loop fetch key (go_div step millisecond) (time_unix_milli endAt) (time_unix_milli startAt) [] of
            Inl (FetchFailed e) \<Rightarrow> Inl e
          | Inl NoAdvance \<Rightarrow> Inl (Plain ''raw kline query did not advance'')
          | Inr rows \<Rightarrow> Inr rows))"

section \<open>QueryMarketDataCoverage\<close>

definition wrap_err :: "code \<Rightarrow> string \<Rightarrow> 'a result \<Rightarrow> 'a result" where
  "wrap_err c m r = (case r of Inl e \<Rightarrow> Inl (Status c (m @ '': '' @ err_text e)) | Inr x \<Rightarrow> Inr x)"

lemma wrap_err_Inr [simp]: "wrap_err c m r = Inr x \<longleftrightarrow> r = Inr x" "wrap_err c m (Inr y) = Inr y"
  by (auto simp: wrap_err_def split: sum.splits)

fun fill_gaps ::
  "kline_fetch \<Rightarrow> go_time \<Rightarrow> market_stream_key \<Rightarrow> coverage_segment list \<Rightarrow> time_range list \<Rightarrow> coverage_segment list result" where
  "fill_gaps fetch now key acc [] = Inr acc"
| "fill_gaps fetch now key acc (gap # gaps) =
     (case wrap_err Unavailable ''fetch raw klines for coverage'' (fetchRawKlinesForCoverage fetch key (tr_start gap) (tr_end gap)) of
        Inl e \<Rightarrow> Inl e
      | Inr rows \<Rightarrow>
          (case wrap_err Internal ''build raw kline coverage''
                  (coverageSegmentsFromKlineRows now key (tr_start gap) (tr_end gap) rows rawCoverageSource) of
             Inl e \<Rightarrow> Inl e
           | Inr segs \<Rightarrow> fill_gaps fetch now key (acc @ segs) gaps))"

definition coverageWithRawFallback ::
  "kline_fetch option \<Rightarrow> go_time \<Rightarrow> market_stream_key \<Rightarrow> go_time \<Rightarrow> go_time \<Rightarrow> coverage_segment list
     \<Rightarrow> coverage_segment list result" where
  "coverageWithRawFallback fetch now key s e indexed =
     (case wrap_err Internal ''merge indexed coverage'' (mergeCoverageForQuery key s e indexed) of
        Inl er \<Rightarrow> Inl er
      | Inr cov \<Rightarrow>
          (case fetch of
             None \<Rightarrow> Inr cov
           | Some f \<Rightarrow>
               (case wrap_err Internal ''compute indexed coverage gaps'' (computeMissingSegments s e (mk_interval key) cov) of
                  Inl er \<Rightarrow> Inl er
                | Inr [] \<Rightarrow> Inr cov
                | Inr missing \<Rightarrow>
                    (case fill_gaps f now key cov missing of
                       Inl er \<Rightarrow> Inl er
                     | Inr all \<Rightarrow> wrap_err Internal ''merge raw coverage'' (mergeCoverageForQuery key s e all)))))"

text \<open>The checks of the requested range that the three queries share.\<close>
definition query_range :: "go_time option \<Rightarrow> go_time option \<Rightarrow> (go_time \<times> go_time) result" where
  "query_range start e0 =
     (case (start, e0) of
        (Some s, Some e) \<Rightarrow>
          if is_zero s \<or> is_zero e then invalid ''start_at and end_at must be non-zero''
          else if \<not> s < e then invalid ''end_at must be after start_at''
          else Inr (s, e)
      | _ \<Rightarrow> invalid ''start_at and end_at are required'')"

record range_request =
  rr_key :: "market_stream_key option"
  rr_start :: "go_time option"
  rr_end :: "go_time option"

definition coverage_answer ::
  "market_stream_key \<Rightarrow> go_time \<Rightarrow> go_time \<Rightarrow> int \<Rightarrow> coverage_segment list \<Rightarrow> time_range list \<Rightarrow> coverage_result" where
  "coverage_answer key s e tot cov missing =
     (let missingCount = sum_list (map tr_count missing); coveredCount = tot - missingCount in
      \<lparr>cr_key = key, cr_start = s, cr_end = e, cr_complete = (missing = []), cr_expected = tot,
       cr_covered = (if coveredCount < 0 then 0 else coveredCount), cr_segments = cov, cr_missing = missing, cr_reason = ''''\<rparr>)"

definition QueryMarketDataCoverage ::
  "kline_fetch option \<Rightarrow> go_time \<Rightarrow> coverage_table \<Rightarrow> range_request \<Rightarrow> coverage_result result" where
  "QueryMarketDataCoverage fetch now t req =
     bind_res (validateStreamKey (rr_key req)) (\<lambda>key.
     bind_res (query_range (rr_start req) (rr_end req)) (\<lambda>(s, e).
     bind_res (wrap_err InvalidArgument ''coverage interval'' (expectedCount s e (mk_interval key))) (\<lambda>tot.
     bind_res (coverageWithRawFallback fetch now key s e (QueryMarketDataCoverage_rows t key s e)) (\<lambda>cov.
     bind_res (wrap_err Internal ''compute missing coverage'' (computeMissingSegments s e (mk_interval key) cov)) (\<lambda>missing.
     Inr (coverage_answer key s e tot cov missing))))))"

section \<open>The other RPCs\<close>

text \<open>\<open>None\<close> where \<open>ValidateKlineRows\<close> would not return.\<close>
definition ValidateMarketDataCoverage ::
  "kline_fetch option \<Rightarrow> range_request \<Rightarrow> coverage_validation result option" where
  "ValidateMarketDataCoverage fetch req =
     (case bind_res (validateStreamKey (rr_key req)) (\<lambda>key.
           bind_res (query_range (rr_start req) (rr_end req)) (\<lambda>(s, e).
           bind_res (wrap_err InvalidArgument ''coverage interval'' (expectedCount s e (mk_interval key))) (\<lambda>tot.
           case fetch of
             None \<Rightarrow> Inl (Status FailedPrecondition ''market-data raw kline query is not configured'')
           | Some f \<Rightarrow>
               bind_res (wrap_err InvalidArgument ''coverage interval'' (intervalDuration (mk_interval key))) (\<lambda>step.
               case fetch_loop f key (go_div step millisecond) (time_unix_milli e) (time_unix_milli s) [] of
                 Inl (FetchFailed er) \<Rightarrow> Inl (Status Unavailable (''fetch raw klines: '' @ err_text er))
               | Inl NoAdvance \<Rightarrow> Inl (Status Internal ''raw kline query did not advance'')
               | Inr rows \<Rightarrow> Inr (key, s, e, tot, rows))))) of
        Inl er \<Rightarrow> Some (Inl er)
      | Inr (key, s, e, tot, rows) \<Rightarrow>
          map_option (\<lambda>v. Inr \<lparr>vr_key = key, vr_start = s, vr_end = e, vr_ok = kv_ok v, vr_expected = tot,
              vr_actual = kv_actual v,
              vr_missing = map (\<lambda>g. \<lparr>tr_start = unix_milli_time (vg_start g), tr_end = unix_milli_time (vg_end g),
                                    tr_count = vg_count g\<rparr>) (kv_gaps v),
              vr_reason = kv_reason v\<rparr>)
            (ValidateKlineRows (mk_interval key) (time_unix_milli s) (time_unix_milli e) rows))"

record kline_page =
  kp_key :: market_stream_key
  kp_rows :: "kline_row list"
  kp_count :: int
  kp_truncated :: bool
  kp_limit :: int

definition query_limit :: "int \<Rightarrow> int" where
  "query_limit l0 = (let l = (if l0 \<le> 0 then defaultRawKlineQueryLimit else l0) in
     if maxRawKlineQueryLimit < l then maxRawKlineQueryLimit else l)"

definition QueryMarketDataKlines :: "kline_fetch option \<Rightarrow> range_request \<Rightarrow> int \<Rightarrow> kline_page result" where
  "QueryMarketDataKlines fetch req limit0 =
     bind_res (validateStreamKey (rr_key req)) (\<lambda>key.
     bind_res (query_range (rr_start req) (rr_end req)) (\<lambda>(s, e).
     bind_res (wrap_err InvalidArgument ''kline interval'' (intervalDuration (mk_interval key))) (\<lambda>_.
     case fetch of
       None \<Rightarrow> Inl (Status FailedPrecondition ''market-data raw kline query is not configured'')
     | Some f \<Rightarrow>
         (let limit = query_limit limit0 in
          bind_res (wrap_err Unavailable ''fetch raw klines''
              (f (kline_query_for key (time_unix_milli s) (time_unix_milli e) (limit + 1)))) (\<lambda>rows0.
          let truncated = limit < int (length rows0); rows = (if truncated then take (nat limit) rows0 else rows0) in
          Inr \<lparr>kp_key = key, kp_rows = rows, kp_count = int (length rows), kp_truncated = truncated, kp_limit = limit\<rparr>)))))"

fun validate_segments :: "raw_segment option list \<Rightarrow> coverage_segment list result" where
  "validate_segments [] = Inr []"
| "validate_segments (r # rs) = bind_res (validateCoverageSegment r) (\<lambda>c. bind_res (validate_segments rs) (\<lambda>cs. Inr (c # cs)))"

definition ReportMarketDataCoverageSegments ::
  "go_time \<Rightarrow> raw_segment option list \<Rightarrow> coverage_table \<Rightarrow> coverage_table \<times> coverage_segment list result" where
  "ReportMarketDataCoverageSegments now raws t =
     (if raws = [] then (t, invalid ''at least one coverage segment is required'')
      else case validate_segments raws of
          Inl e \<Rightarrow> (t, Inl e)
        | Inr segs \<Rightarrow> (case MergeMarketDataCoverageSegments now segs t of
            (t', r) \<Rightarrow> (t', wrap_err Internal ''merge market-data coverage segments'' r)))"

section \<open>The intervals a validated key can have\<close>

definition interval_fact :: "string \<Rightarrow> bool" where
  "interval_fact i = (case intervalDuration i of Inl _ \<Rightarrow> i = ''1w'' \<or> i = ''1M''
     | Inr d \<Rightarrow> 0 < d \<and> d mod second = 0 \<and> d \<le> 3 * day \<and> (i = ''3d'' \<or> day mod d = 0))"

lemma interval_facts: "list_all interval_fact valid_intervals"
  unfolding valid_intervals_def list.pred_inject
  by (intro conjI; simp add: interval_fact_def intervalDuration_def atoi_def parse_nat_def is_digit_def in64_def
      interval_unit_def duration_defs day_def wrap64_def)

lemma valid_interval_duration:
  assumes "valid_interval i" "intervalDuration i = Inr d"
  shows "0 < d" "second dvd d" "d \<le> 3 * day" "i \<noteq> ''3d'' \<Longrightarrow> d dvd day"
  using assms interval_facts
  by (auto simp: valid_interval_def interval_fact_def list_all_iff dest!: bspec split: sum.splits)

section \<open>What the segments built from bars cover\<close>

definition bar_span :: "duration \<Rightarrow> int \<Rightarrow> int set" where
  "bar_span step openMS = {unix_milli_time openMS ..< unix_milli_time openMS + step}"

definition segs_ok :: "market_stream_key \<Rightarrow> coverage_segment list \<Rightarrow> bool" where
  "segs_ok key cs \<longleftrightarrow> (\<forall>c\<in>set cs. cv_key c = key \<and> cv_start c < cv_end c)"

lemma raw_step_spec:
  assumes "0 < step" "step = stepMS * millisecond" "segs_ok key segs"
    and "segs \<noteq> [] \<Longrightarrow> cv_end (last segs) = unix_milli_time prev + step"
    and "segs \<noteq> [] \<Longrightarrow> in64 (prev + stepMS)"
    and out_def: "out = raw_step key source now step stepMS segs prev o1"
  shows "segs_ok key out" "out \<noteq> []" "cv_end (last out) = unix_milli_time o1 + step"
    "cov_points out = cov_points segs \<union> bar_span step o1"
proof -
  have "segs_ok key out \<and> out \<noteq> [] \<and> cv_end (last out) = unix_milli_time o1 + step \<and>
    cov_points out = cov_points segs \<union> bar_span step o1"
  proof (cases "segs = [] \<or> o1 \<noteq> wrap64 (prev + stepMS)")
    case True
    then show ?thesis using assms(1,3)
      by (auto simp: out_def raw_step_def Let_def segs_ok_def seg_points_def bar_span_def)
  next
    case False
    then obtain init l where segs: "segs = init @ [l]" by (metis rev_exhaust)
    have o1: "unix_milli_time o1 = cv_end l"
      using False assms(2,4,5) segs by (simp add: unix_milli_time_def algebra_simps)
    have l: "cv_start l < cv_end l" "cv_key l = key" using assms(3) segs by (auto simp: segs_ok_def)
    have out: "out = init @ [l\<lparr>cv_end := unix_milli_time o1 + step, cv_rows := cv_rows l + 1\<rparr>]"
      using False segs by (simp add: out_def raw_step_def Let_def)
    have "seg_points (l\<lparr>cv_end := cv_end l + step, cv_rows := cv_rows l + 1\<rparr>) = seg_points l \<union> {cv_end l ..< cv_end l + step}"
      using l(1) assms(1) by (auto simp: seg_points_def)
    then show ?thesis using assms(1,3) segs l by (auto simp: out o1 segs_ok_def bar_span_def)
  qed
  then show "segs_ok key out" "out \<noteq> []" "cv_end (last out) = unix_milli_time o1 + step"
    "cov_points out = cov_points segs \<union> bar_span step o1" by simp_all
qed

lemma raw_segments_spec:
  assumes "0 < step" "step = stepMS * millisecond" "segs_ok key segs" "\<forall>t\<in>set opens. in64 (t + stepMS)"
    and "segs \<noteq> [] \<Longrightarrow> cv_end (last segs) = unix_milli_time prev + step \<and> in64 (prev + stepMS)"
  shows "segs_ok key (raw_segments key source now step stepMS segs prev opens) \<and>
    cov_points (raw_segments key source now step stepMS segs prev opens) = cov_points segs \<union> (\<Union>t\<in>set opens. bar_span step t)"
  using assms(3-5)
proof (induction opens arbitrary: segs prev)
  case (Cons t opens)
  note s = raw_step_spec [OF assms(1,2) Cons.prems(1) _ _ refl, of prev source now t]
  have "segs_ok key (raw_step key source now step stepMS segs prev t)"
    "cv_end (last (raw_step key source now step stepMS segs prev t)) = unix_milli_time t + step"
    "cov_points (raw_step key source now step stepMS segs prev t) = cov_points segs \<union> bar_span step t"
    using s Cons.prems(3) by blast+
  then show ?case using Cons.IH [of "raw_step key source now step stepMS segs prev t" t] Cons.prems(2) by auto
qed simp

lemma recount_spec:
  "recount interval cs = Inr ds \<Longrightarrow> cov_points ds = cov_points cs \<and> cv_key ` set ds = cv_key ` set cs \<and>
     (\<forall>d\<in>set ds. rows_ok interval d)"
proof (induction cs arbitrary: ds)
  case (Cons c cs)
  then obtain n ds' where n: "expectedCount (cv_start c) (cv_end c) interval = Inr n" "recount interval cs = Inr ds'"
    "ds = c\<lparr>cv_rows := n\<rparr> # ds'" by (auto split: sum.splits)
  have "rows_ok interval (c\<lparr>cv_rows := n\<rparr>)" using n(1) by (intro expectedCount_rows_ok) simp
  moreover have "seg_points (c\<lparr>cv_rows := n\<rparr>) = seg_points c" by (simp add: seg_points_def)
  ultimately show ?case using Cons.IH [OF n(2)] n(3) by simp
qed simp

lemma split_concat_points: "cov_points (concat (map splitCoverageSegmentByYear cs)) = cov_points cs"
  by (induction cs) (auto simp: split_points)

lemma raw_coverage_spec:
  assumes ok: "coverageSegmentsFromKlineRows now key s e rows source = Inr segs"
    and d: "intervalDuration (mk_interval key) = Inr d" "0 < d" "millisecond dvd d"
    and range: "in64 (time_unix_milli s)" "in64 (time_unix_milli e + d)"
  shows "cov_points segs = (\<Union>t\<in>set (grid_opens (time_unix_milli s) (time_unix_milli e) (d div millisecond) rows). bar_span d t)"
    "cv_key ` set segs \<subseteq> {key}"
proof -
  let ?m = "d div millisecond" and ?s = "time_unix_milli s" and ?e = "time_unix_milli e"
  let ?opens = "grid_opens ?s ?e ?m rows"
  let ?raw = "raw_segments key source now d ?m [] 0 ?opens"
  have dm: "d = ?m * millisecond" using d(3) by simp
  have mpos: "0 < ?m" using d(2,3) by (auto simp: millisecond_def elim!: dvdE)
  have gd: "go_div d millisecond = ?m" using d(2) by (simp add: millisecond_def)
  have "\<forall>t\<in>set ?opens. in64 (t + ?m)"
  proof
    fix t assume "t \<in> set ?opens"
    then have "?s \<le> t" "t < ?e" by (auto simp: grid_opens_def)
    moreover have "?m \<le> d" using dm mpos by (simp add: millisecond_def)
    ultimately show "in64 (t + ?m)" using range mpos by (simp add: in64_def)
  qed
  from raw_segments_spec [OF d(2) dm _ this, of key "[]" 0 source now]
  have raw: "segs_ok key ?raw" "cov_points ?raw = (\<Union>t\<in>set ?opens. bar_span d t)" by (auto simp: segs_ok_def)
  consider "?opens = []" "segs = []" | "recount (mk_interval key) (concat (map splitCoverageSegmentByYear ?raw)) = Inr segs"
    using ok d(1) by (auto simp: coverageSegmentsFromKlineRows_def Let_def gd split: if_splits)
  then have "cov_points segs = (\<Union>t\<in>set ?opens. bar_span d t) \<and> cv_key ` set segs \<subseteq> {key}"
  proof cases
    case 2
    have "cv_key ` set (concat (map splitCoverageSegmentByYear ?raw)) \<subseteq> {key}"
      using raw(1) split_in_year by (fastforce simp: segs_ok_def)
    then show ?thesis using recount_spec [OF 2] raw(2) split_concat_points by simp
  qed simp
  then show "cov_points segs = (\<Union>t\<in>set ?opens. bar_span d t)" "cv_key ` set segs \<subseteq> {key}" by simp_all
qed

lemma fetch_loop_rows:
  "fetch_loop fetch key stepMS endMS next rows = Inr out \<Longrightarrow>
     \<forall>r\<in>set out. r \<in> set rows \<or> (\<exists>a b l rs. fetch (kline_query_for key a b l) = Inr rs \<and> r \<in> set rs)"
proof (induction fetch key stepMS endMS "next" rows rule: fetch_loop.induct)
  case (1 fetch key stepMS endMS "next" rows)
  show ?case
  proof (cases "next < endMS")
    case False
    then show ?thesis using 1(2) by (subst (asm) fetch_loop.simps) auto
  next
    case True
    let ?q = "kline_query_for key next endMS rawKlineValidationFetchLimit"
    consider (empty) "fetch ?q = Inr []" "out = rows"
      | (more) r rs where "fetch ?q = Inr (r # rs)" "\<not> wrap64 (max_open (kr_open_time r) rs + stepMS) \<le> next"
          "fetch_loop fetch key stepMS endMS (wrap64 (max_open (kr_open_time r) rs + stepMS)) (rows @ r # rs) = Inr out"
      using 1(2) True by (subst (asm) fetch_loop.simps) (auto simp: Let_def split: sum.splits list.splits if_splits)
    then show ?thesis
    proof cases
      case more
      have ih: "\<forall>x\<in>set out. x \<in> set (rows @ r # rs) \<or> (\<exists>a b l rs. fetch (kline_query_for key a b l) = Inr rs \<and> x \<in> set rs)"
        using 1(1) [OF True more(1) refl refl more(2,3)] .
      have "\<exists>a b l rs'. fetch (kline_query_for key a b l) = Inr rs' \<and> x \<in> set rs'" if "x \<in> set (r # rs)" for x
        using more(1) that by blast
      then show ?thesis using ih by (metis Un_iff set_append)
    qed simp
  qed
qed

section \<open>The answer of a coverage query\<close>

lemma range_count:
  assumes "intervalDuration interval = Inr d" "sorted_wrt (\<lambda>a b. tr_end a < tr_start b) rs" "\<forall>r\<in>set rs. count_ok interval r"
  shows "sum_list (map tr_count rs) * d = int (card (range_points rs)) \<and> finite (range_points rs)"
  using assms(2,3)
proof (induction rs)
  case (Cons r rs)
  have r: "tr_start r < tr_end r" "tr_count r * d = tr_end r - tr_start r"
    using Cons.prems(2) assms(1) by (auto simp: count_ok_def)
  have "{tr_start r ..< tr_end r} \<inter> range_points rs = {}"
    using Cons.prems(1) by (fastforce simp: range_points_def)
  then have "card (range_points (r # rs)) = card {tr_start r ..< tr_end r} + card (range_points rs)"
    using Cons by (simp add: card_Un_disjoint)
  then show ?case using Cons r by (simp add: distrib_right)
qed simp

lemma fetchRaw_rows:
  assumes "fetchRawKlinesForCoverage f key a b = Inr rows" "r \<in> set rows"
  shows "\<exists>x y l rs. f (kline_query_for key x y l) = Inr rs \<and> r \<in> set rs"
  using assms fetch_loop_rows [of f key _ _ _ "[]" rows]
  by (auto simp: fetchRawKlinesForCoverage_def split: sum.splits raw_error.splits)

lemma fill_gaps_spec:
  assumes "fill_gaps f now key acc gaps = Inr cov" "intervalDuration (mk_interval key) = Inr d" "0 < d" "millisecond dvd d"
    and "\<forall>g\<in>set gaps. in64 (time_unix_milli (tr_start g)) \<and> in64 (time_unix_milli (tr_end g) + d)"
  shows "cov_points acc \<subseteq> cov_points cov \<and> (\<forall>x\<in>cov_points cov. x \<in> cov_points acc \<or>
    (\<exists>a b l rs r. f (kline_query_for key a b l) = Inr rs \<and> r \<in> set rs \<and> x \<in> bar_span d (kr_open_time r)))"
  using assms(1,5)
proof (induction gaps arbitrary: acc)
  case (Cons g gaps)
  obtain rows segs where rows: "fetchRawKlinesForCoverage f key (tr_start g) (tr_end g) = Inr rows"
    and segs: "coverageSegmentsFromKlineRows now key (tr_start g) (tr_end g) rows rawCoverageSource = Inr segs"
    and rest: "fill_gaps f now key (acc @ segs) gaps = Inr cov"
    using Cons.prems(1) by (auto split: sum.splits)
  note sp = raw_coverage_spec(1) [OF segs assms(2,3,4)]
  have "\<exists>a b l rs r. f (kline_query_for key a b l) = Inr rs \<and> r \<in> set rs \<and> x \<in> bar_span d (kr_open_time r)"
    if "x \<in> cov_points segs" for x
  proof -
    from that sp Cons.prems(2) obtain r where "r \<in> set rows" "x \<in> bar_span d (kr_open_time r)"
      by (auto simp: grid_opens_def)
    then show ?thesis using fetchRaw_rows [OF rows] by blast
  qed
  moreover have "cov_points (acc @ segs) \<subseteq> cov_points cov \<and> (\<forall>x\<in>cov_points cov. x \<in> cov_points (acc @ segs) \<or>
      (\<exists>a b l rs r. f (kline_query_for key a b l) = Inr rs \<and> r \<in> set rs \<and> x \<in> bar_span d (kr_open_time r)))"
    using Cons.IH [OF rest] Cons.prems(2) by simp
  ultimately show ?case by auto
qed simp

lemma fill_gaps_mono: "fill_gaps f now key acc gaps = Inr out \<Longrightarrow> set acc \<subseteq> set out"
proof (induction gaps arbitrary: acc)
  case (Cons g gaps)
  then obtain segs where "fill_gaps f now key (acc @ segs) gaps = Inr out" by (auto split: sum.splits)
  from Cons.IH [OF this] show ?case by simp
qed simp

lemma query_rows_points:
  "cov_points (filter (\<lambda>c. cv_key c = key) (QueryMarketDataCoverage_rows t key s e)) \<inter> {s ..< e} =
   cov_points (filter (\<lambda>c. cv_key c = key) (ct_rows t)) \<inter> {s ..< e}"
  by (auto simp: QueryMarketDataCoverage_rows_def cov_points_def seg_points_def)

text \<open>What a segment of the answer may rest on: the index, or a bar some query returned.\<close>
definition backed :: "kline_fetch option \<Rightarrow> coverage_table \<Rightarrow> market_stream_key \<Rightarrow> duration \<Rightarrow> int \<Rightarrow> bool" where
  "backed fetch t key d x \<longleftrightarrow> x \<in> cov_points (filter (\<lambda>c. cv_key c = key) (ct_rows t)) \<or>
     (\<exists>f a b l rs r. fetch = Some f \<and> f (kline_query_for key a b l) = Inr rs \<and> r \<in> set rs \<and> x \<in> bar_span d (kr_open_time r))"

lemma milli_in64:
  assumes "in64 s" "0 \<le> d" "d \<le> 3 * day"
  shows "in64 (time_unix_milli s) \<and> in64 (time_unix_milli s + d)"
proof -
  have "- (2 ^ 63) div 1000000 \<le> s div 1000000" "s div 1000000 \<le> (2 ^ 63) div (1000000 :: int)"
    using assms(1) unfolding in64_def by (intro zdiv_mono1; simp)+
  then show ?thesis using assms(2,3)
    by (simp add: in64_def time_unix_milli_def millisecond_def day_def duration_defs)
qed

lemma fallback_spec:
  assumes ok: "coverageWithRawFallback fetch now key s e (QueryMarketDataCoverage_rows t key s e) = Inr cov"
    and d: "intervalDuration (mk_interval key) = Inr d" "0 < d" "millisecond dvd d" "d \<le> 3 * day" "in64 s" "in64 e"
  shows "merged_ok (mk_interval key) cov" "cov_points cov \<subseteq> {s ..< e}" "\<forall>x\<in>cov_points cov. backed fetch t key d x"
    "cov_points (filter (\<lambda>c. cv_key c = key) (ct_rows t)) \<inter> {s ..< e} \<subseteq> cov_points cov"
proof -
  obtain cov0 where c0: "mergeCoverageForQuery key s e (QueryMarketDataCoverage_rows t key s e) = Inr cov0"
    using ok by (auto simp: coverageWithRawFallback_def split: sum.splits)
  note m0 = mergeCoverage_spec [OF c0, unfolded query_rows_points]
  consider "cov = cov0" | f missing all where "fetch = Some f" "computeMissingSegments s e (mk_interval key) cov0 = Inr missing"
      "fill_gaps f now key cov0 missing = Inr all" "mergeCoverageForQuery key s e all = Inr cov"
  proof (cases fetch)
    case None
    then show ?thesis using ok c0 that(1) by (simp add: coverageWithRawFallback_def)
  next
    case (Some f)
    obtain missing where ms: "computeMissingSegments s e (mk_interval key) cov0 = Inr missing"
      using ok c0 Some by (cases "computeMissingSegments s e (mk_interval key) cov0") (auto simp: coverageWithRawFallback_def wrap_err_def)
    show ?thesis
    proof (cases missing)
      case Nil
      then show ?thesis using ok c0 Some ms that(1) by (simp add: coverageWithRawFallback_def)
    next
      case (Cons g gs)
      obtain all where all: "fill_gaps f now key cov0 missing = Inr all"
        using ok c0 Some ms Cons by (cases "fill_gaps f now key cov0 missing") (auto simp: coverageWithRawFallback_def)
      then have "mergeCoverageForQuery key s e all = Inr cov"
        using ok c0 Some ms Cons by (simp add: coverageWithRawFallback_def)
      then show ?thesis using that(2) Some ms all by blast
    qed
  qed
  then have "merged_ok (mk_interval key) cov \<and> cov_points cov \<subseteq> {s ..< e} \<and> (\<forall>x\<in>cov_points cov. backed fetch t key d x) \<and>
    cov_points (filter (\<lambda>c. cv_key c = key) (ct_rows t)) \<inter> {s ..< e} \<subseteq> cov_points cov"
  proof cases
    case 1
    then show ?thesis using m0 by (auto simp: backed_def)
  next
    case 2
    have gaps: "\<forall>g\<in>set missing. in64 (time_unix_milli (tr_start g)) \<and> in64 (time_unix_milli (tr_end g) + d)"
    proof
      fix g assume that: "g \<in> set missing"
      show "in64 (time_unix_milli (tr_start g)) \<and> in64 (time_unix_milli (tr_end g) + d)"
    proof -
      have "s \<le> tr_start g" "tr_end g \<le> e" "tr_start g < tr_end g"
        using computeMissing_spec [OF 2(2)] that by (auto simp: count_ok_def)
      then have "in64 (tr_start g)" "in64 (tr_end g)" using d(5,6) by (auto simp: in64_def)
      then show ?thesis using milli_in64 [of "tr_start g" d] milli_in64 [of "tr_end g" d] d(2,4) by simp
    qed
    qed
    have fg: "cov_points cov0 \<subseteq> cov_points all" "\<forall>x\<in>cov_points all. x \<in> cov_points cov0 \<or>
       (\<exists>a b l rs r. f (kline_query_for key a b l) = Inr rs \<and> r \<in> set rs \<and> x \<in> bar_span d (kr_open_time r))"
      using fill_gaps_spec [OF 2(3) d(1-3) gaps] by blast+
    note m = mergeCoverage_spec [OF 2(4)]
    have sub: "cov_points (filter (\<lambda>c. cv_key c = key) all) \<subseteq> cov_points all" by (auto simp: cov_points_def)
    have keep: "cov_points cov0 \<subseteq> cov_points (filter (\<lambda>c. cv_key c = key) all)"
    proof -
      have "set cov0 \<subseteq> set all" using fill_gaps_mono [OF 2(3)] .
      then show ?thesis using m0(2) by (auto simp: cov_points_def)
    qed
    have "backed fetch t key d x" if "x \<in> cov_points cov" for x
    proof -
      have "x \<in> cov_points all" using that m(3) sub by blast
      then show ?thesis using fg(2) m0(3) 2(1) unfolding backed_def by blast
    qed
    moreover have "cov_points (filter (\<lambda>c. cv_key c = key) (ct_rows t)) \<inter> {s ..< e} \<subseteq> cov_points cov"
      using m0(3) keep m(3) by blast
    ultimately show ?thesis using m by auto
  qed
  then show "merged_ok (mk_interval key) cov" "cov_points cov \<subseteq> {s ..< e}" "\<forall>x\<in>cov_points cov. backed fetch t key d x"
    "cov_points (filter (\<lambda>c. cv_key c = key) (ct_rows t)) \<inter> {s ..< e} \<subseteq> cov_points cov" by simp_all
qed

section \<open>Properties\<close>

lemma query_unfold:
  assumes "QueryMarketDataCoverage fetch now t req = Inr r"
  obtains key s e n cov missing where "validateStreamKey (rr_key req) = Inr key" "expectedCount s e (mk_interval key) = Inr n"
    "coverageWithRawFallback fetch now key s e (QueryMarketDataCoverage_rows t key s e) = Inr cov"
    "computeMissingSegments s e (mk_interval key) cov = Inr missing" "r = coverage_answer key s e n cov missing"
  using assms by (auto simp: QueryMarketDataCoverage_def bind_res_Inr)


lemma counted_aligned:
  assumes "counted c" "intervalDuration (mk_interval (cv_key c)) = Inr d" "in64 (cv_start c)" "in64 (cv_end c)"
  shows "d dvd cv_start c \<and> d dvd cv_end c"
  using assms by (auto simp: counted_def expectedCount_def isAlignedToInterval_def Let_def split: if_splits)

text \<open>A query of an aligned range never fails on a healthy index when no raw query is configured,
  unless the interval is three days.\<close>

theorem query_coverage_total:
  assumes "cov_inv t" "validateStreamKey (rr_key req) = Inr key" "mk_interval key \<noteq> ''3d''"
    and "rr_start req = Some s" "rr_end req = Some e" "expectedCount s e (mk_interval key) = Inr n"
    and "\<not> is_zero s" "\<not> is_zero e" "in64 s" "in64 e" "in64 (e - s)"
    and "\<forall>c\<in>set (ct_rows t). cv_key c = key \<longrightarrow> in64 (cv_start c) \<and> in64 (cv_end c)"
  shows "is_ok (QueryMarketDataCoverage None now t req)"
proof -
  obtain d where d: "intervalDuration (mk_interval key) = Inr d" "0 < d" "s < e"
    using assms(6) by (rule expectedCount_exact)
  have al: "d dvd s" "d dvd e"
    using assms(6,9,10) d(1) by (auto simp: expectedCount_def isAlignedToInterval_def Let_def split: if_splits)
  have day: "d dvd day" using valid_interval_duration(4) [OF _ d(1) assms(3)] valid_key_ok [OF assms(2)] by simp
  have q: "query_ok (mk_interval key) d s e" using assms(9-11) d by (simp add: query_ok_def)
  let ?rows = "QueryMarketDataCoverage_rows t key s e"
  have rows: "\<forall>c\<in>set ?rows. cv_key c = key \<longrightarrow> d dvd cv_start c \<and> d dvd cv_end c"
    using assms(1,12) d(1) counted_aligned by (auto simp: QueryMarketDataCoverage_rows_def cov_inv_def)
  obtain cov where cov: "mergeCoverageForQuery key s e ?rows = Inr cov" "\<forall>c\<in>set cov. grid_seg d s e c"
    using mergeCoverage_total [OF q day d(3) al rows] by auto
  obtain ms where "computeMissingSegments s e (mk_interval key) cov = Inr ms"
    using computeMissing_total [OF q d(3) al cov(2)] by auto
  then show ?thesis
    using assms d(3) cov(1) by (simp add: QueryMarketDataCoverage_def query_range_def coverageWithRawFallback_def)
qed

section \<open>Witnesses\<close>

lemma interval_1m: "intervalDuration ''1m'' = Inr minute"
  by (simp add: intervalDuration_def atoi_def parse_nat_def is_digit_def in64_def interval_unit_def duration_defs wrap64_def)

lemma sample_key_valid: "validateStreamKey (Some sample_key) = Inr sample_key"
proof -
  have v: "valid_exchange (mk_exchange sample_key)" "valid_market (mk_market sample_key)" "mk_kind sample_key = ''kline''"
    "valid_symbol (mk_symbol sample_key)" "valid_interval (mk_interval sample_key)"
    by (simp_all add: sample_key_def valid_exchange_def valid_market_def valid_symbol_def valid_interval_def valid_intervals_def
      is_upper_def is_digit_def)
  have "mk_exchange sample_key \<noteq> ''''" by (simp add: sample_key_def)
  then show ?thesis using v clean_valid [OF v] by (simp add: validateStreamKey_def)
qed

definition sample_index :: coverage_table where
  "sample_index = \<lparr>ct_rows = [(sample_segment 1 3)\<lparr>cv_id := 1\<rparr>], ct_next = 2\<rparr>"

definition sample_range :: range_request where
  "sample_range = \<lparr>rr_key = Some sample_key, rr_start = Some 0, rr_end = Some (5 * minute)\<rparr>"

lemma sample_count: "0 \<le> a \<Longrightarrow> a < b \<Longrightarrow> b \<le> 1440 \<Longrightarrow> expectedCount (a * minute) (b * minute) ''1m'' = Inr (b - a)"
proof -
  assume ab: "0 \<le> a" "a < b" "b \<le> 1440"
  then have "in64 (a * minute)" "in64 (b * minute)" "in64 (b * minute - a * minute)"
    by (simp_all add: in64_def duration_defs)
  moreover have "(b * minute - a * minute) div minute = b - a"
  proof -
    have "b * minute - a * minute = (b - a) * minute" by (simp add: left_diff_distrib)
    then show ?thesis by (simp add: duration_defs)
  qed
  ultimately show ?thesis using ab expectedCount_ok [OF interval_1m, of "a * minute" "b * minute"]
    by (simp add: duration_defs)
qed

lemma sample_index_inv: "cov_inv sample_index"
proof -
  have "in_year (sample_segment 1 3)" by (rule sample_in_year) simp_all
  then show ?thesis using sample_count [of 1 3]
    by (simp add: cov_inv_def sample_index_def keys_ok_def counted_def sample_segment_def sample_key_def in_year_def)
qed

theorem query_coverage_total_witness: "is_ok (QueryMarketDataCoverage None 0 sample_index sample_range)"
  by (rule query_coverage_total [OF sample_index_inv, of _ sample_key 0 "5 * minute" 5])
    (use sample_key_valid sample_count [of 0 5] in \<open>simp_all add: sample_range_def is_zero_def zero_time_def duration_defs in64_def
       sample_index_def sample_segment_def sample_key_def\<close>)


text \<open>A three-day bar that spans the New Year cannot be covered: its halves do not align with the grid.\<close>
lemma three_day_bar_at_new_year:
  "\<not> is_ok (coverageSegmentsFromKlineRows 0 (sample_key\<lparr>mk_interval := ''3d''\<rparr>) (363 * day) (366 * day)
     [bar_at (363 * 86400000)] rawCoverageSource)"
proof -
  let ?key = "sample_key\<lparr>mk_interval := ''3d''\<rparr>"
  have d: "intervalDuration ''3d'' = Inr (3 * day)"
    by (simp add: intervalDuration_def atoi_def parse_nat_def is_digit_def in64_def interval_unit_def duration_defs day_def wrap64_def)
  have y: "year_start 1970 = 0" "year_start 1971 = 365 * day"
    by (simp_all add: year_start_def days_before_year_def zero_time_def day_def duration_defs)
  have yo: "year_of (363 * day) = 1970"
    using y by (intro year_of_unique) (simp_all add: day_def duration_defs)
  have opens: "grid_opens 31363200000 31622400000 259200000 [bar_at 31363200000] = [31363200000]"
    by (simp add: grid_opens_def bar_at_def)
  define seg where "seg = \<lparr>cv_id = 0, cv_key = ?key, cv_year = 1970, cv_start = 363 * day, cv_end = 366 * day,
     cv_rows = 1, cv_source = rawCoverageSource, cv_updated = 0\<rparr>"
  have raw: "raw_segments ?key rawCoverageSource 0 (3 * day) 259200000 [] 0 [31363200000] = [seg]"
    using yo by (simp add: raw_step_def Let_def seg_def unix_milli_time_def day_def duration_defs)
  have nx: "next_year (363 * day) = 365 * day" by (simp add: next_year_def yo y)
  have se: "cv_start seg = 363 * day" "cv_end seg = 366 * day" "cv_year seg = 1970" by (simp_all add: seg_def)
  have "split_loop seg (363 * day) = seg\<lparr>cv_end := 365 * day\<rparr> # split_loop seg (365 * day)"
    by (subst split_loop.simps) (simp add: se nx yo min_def, simp add: seg_def Let_def)
  then have sp: "splitCoverageSegmentByYear seg = seg\<lparr>cv_end := 365 * day\<rparr> # split_loop seg (365 * day)"
    by (simp add: splitCoverageSegmentByYear_def se)
  have bad: "\<not> is_ok (expectedCount (363 * day) (365 * day) ''3d'')"
    by (simp add: expectedCount_def d isAlignedToInterval_def Let_def day_def duration_defs wrap64_def)
  have "\<not> is_ok (recount ''3d'' (splitCoverageSegmentByYear seg))"
    using bad unfolding sp by (auto simp: is_ok_iff seg_def split: sum.splits)
  then show ?thesis
    by (simp add: coverageSegmentsFromKlineRows_def d Let_def time_unix_milli_def day_def duration_defs go_div_def)
      (use opens raw in \<open>simp add: day_def duration_defs\<close>)
qed

end
