(* ===== verification/MarketStore.thy ===== *)
theory MarketStore
  imports StreamKeys Tables
begin

text \<open>
  The control-plane tables of \<open>internal/marketdata/repository/timescale.go\<close> and the operations on
  streams, live and historical requests, and session leases (schema in migrations 0003 to 0006).
  \<open>now\<close> is the database's \<open>NOW()\<close>, \<open>wall\<close> the clock of the Go process. An operation is a function
  on the tables, as it runs alone; one that fails leaves them as they were. In the code the statements of an
  operation are separate and read committed, so what overlapping operations do to the aggregate of a stream is
  modelled apart: \<open>recompute_from\<close> takes the snapshot its subqueries read as an argument, \<open>traffic\<close> in
  \<open>MarketService\<close> gives it any. Live and historical requests draw their ids from
  one sequence.
\<close>

section \<open>The tables\<close>

record market_db =
  md_streams :: "market_stream list"
  md_stream_seq :: int
  md_requests :: "market_request list"
  md_histories :: "history_request list"
  md_request_seq :: int
  md_leases :: "market_lease list"
  md_lease_seq :: int
  md_subs :: "session_subscription list"
  md_sub_seq :: int
  md_dleases :: "delivery_lease list"
  md_failures :: "delivery_failure list"
  md_failure_seq :: int
  md_writers :: "writer_lease list"

definition not_found :: "'a result" where "not_found = Inl (Sentinel ErrNotFound ''not found'')"
definition denied :: "'a result" where "denied = Inl (Sentinel ErrPermissionDenied ''permission denied'')"

section \<open>Streams\<close>

definition new_stream :: "go_time \<Rightarrow> market_stream_key \<Rightarrow> int \<Rightarrow> market_stream" where
  "new_stream now key sid = \<lparr>ms_id = sid, ms_key = key, ms_desired = DesiredRunning, ms_actual = ''pending'',
     ms_live = False, ms_last_data_at = None, ms_last_error = '''', ms_last_reconciled_at = None,
     ms_created_at = now, ms_updated_at = now\<rparr>"

text \<open>\<open>INSERT ... ON CONFLICT (key) DO UPDATE SET updated_at = NOW()\<close>.\<close>
definition UpsertMarketDataStream :: "go_time \<Rightarrow> market_stream_key \<Rightarrow> market_db \<Rightarrow> market_db \<times> market_stream" where
  "UpsertMarketDataStream now key db =
     (case filter (\<lambda>s. ms_key s = key) (md_streams db) of
        s # _ \<Rightarrow> (db\<lparr>md_streams := update_where (\<lambda>s. ms_key s = key) (\<lambda>s. s\<lparr>ms_updated_at := now\<rparr>) (md_streams db)\<rparr>,
                  s\<lparr>ms_updated_at := now\<rparr>)
      | [] \<Rightarrow> (let s = new_stream now key (md_stream_seq db)
               in (db\<lparr>md_streams := md_streams db @ [s], md_stream_seq := md_stream_seq db + 1\<rparr>, s)))"

definition has_request :: "int \<Rightarrow> market_db \<Rightarrow> bool" where
  "has_request sid db \<longleftrightarrow> list_ex (\<lambda>r. mr_stream_id r = sid \<and> mr_status r \<noteq> RequestCancelled) (md_requests db)"

definition has_live_request :: "int \<Rightarrow> market_db \<Rightarrow> bool" where
  "has_live_request sid db \<longleftrightarrow>
     list_ex (\<lambda>r. mr_stream_id r = sid \<and> mr_status r \<noteq> RequestCancelled \<and> mr_needs_live r) (md_requests db)"

definition lease_active :: "go_time \<Rightarrow> market_lease \<Rightarrow> bool" where
  "lease_active now l \<longleftrightarrow> ml_released_at l = None \<and> now < ml_expires_at l"

definition has_lease :: "go_time \<Rightarrow> int \<Rightarrow> market_db \<Rightarrow> bool" where
  "has_lease now sid db \<longleftrightarrow> list_ex (\<lambda>l. ml_stream_id l = sid \<and> lease_active now l) (md_leases db)"

text \<open>
  The \<open>UPDATE\<close> of the aggregate. The \<open>EXISTS\<close> subqueries read the snapshot of the statement, which is
  a parameter: alone, a transaction sees its own state; a concurrent one sees an older one.
\<close>
definition recompute_row :: "go_time \<Rightarrow> market_db \<Rightarrow> market_stream \<Rightarrow> market_stream" where
  "recompute_row now snapshot s = s\<lparr>
     ms_desired := (if has_request (ms_id s) snapshot then DesiredRunning else DesiredStopped),
     ms_live := (has_live_request (ms_id s) snapshot \<or> has_lease now (ms_id s) snapshot),
     ms_updated_at := now\<rparr>"

definition recompute_from :: "go_time \<Rightarrow> market_db \<Rightarrow> int \<Rightarrow> market_db \<Rightarrow> market_db" where
  "recompute_from now snapshot sid db =
     db\<lparr>md_streams := update_where (\<lambda>s. ms_id s = sid) (recompute_row now snapshot) (md_streams db)\<rparr>"

definition recomputeMarketDataStreamAggregate :: "go_time \<Rightarrow> int \<Rightarrow> market_db \<Rightarrow> market_db result" where
  "recomputeMarketDataStreamAggregate now sid db =
     (if list_ex (\<lambda>s. ms_id s = sid) (md_streams db) then Inr (recompute_from now db sid db) else not_found)"

definition GetMarketDataStream :: "market_db \<Rightarrow> int \<Rightarrow> market_stream result" where
  "GetMarketDataStream db sid = select_one (\<lambda>s. ms_id s = sid) (md_streams db)"

definition GetMarketDataStreamByKey :: "market_db \<Rightarrow> market_stream_key \<Rightarrow> market_stream result" where
  "GetMarketDataStreamByKey db key = select_one (\<lambda>s. ms_key s = key) (md_streams db)"

definition ListMarketDataStreams_rows :: "market_db \<Rightarrow> market_stream list" where
  "ListMarketDataStreams_rows db = sort_key ms_id (md_streams db)"

definition UpdateMarketDataStreamActualState ::
  "go_time \<Rightarrow> int \<Rightarrow> string \<Rightarrow> go_time option \<Rightarrow> string \<Rightarrow> market_db \<Rightarrow> market_db \<times> unit result" where
  "UpdateMarketDataStreamActualState now sid state lastData lastErr db =
     (let f = (\<lambda>s. s\<lparr>ms_actual := state, ms_last_reconciled_at := Some now, ms_updated_at := now,
            ms_last_data_at := (if lastData \<noteq> None then lastData else ms_last_data_at s),
            ms_last_error := (if lastErr \<noteq> '''' then lastErr else ms_last_error s)\<rparr>)
      in if list_ex (\<lambda>s. ms_id s = sid) (md_streams db)
         then (db\<lparr>md_streams := update_where (\<lambda>s. ms_id s = sid) f (md_streams db)\<rparr>, Inr ())
         else (db, not_found))"

section \<open>Live requests\<close>

definition GetMarketDataRequest :: "market_db \<Rightarrow> int \<Rightarrow> int \<Rightarrow> market_request result" where
  "GetMarketDataRequest db rid uid =
     bind_res (select_one (\<lambda>r. mr_id r = rid) (md_requests db)) (\<lambda>r. if mr_user_id r \<noteq> uid then denied else Inr r)"

definition same_request :: "int \<Rightarrow> market_stream_key \<Rightarrow> market_request \<Rightarrow> bool" where
  "same_request uid key r \<longleftrightarrow> mr_user_id r = uid \<and> mr_key r = key \<and> mr_status r \<noteq> RequestCancelled"

text \<open>\<open>COALESCE($n, column)\<close> for a nullable parameter.\<close>
definition or_keep :: "'a option \<Rightarrow> 'a option \<Rightarrow> 'a option" where
  "or_keep new old = (case new of Some x \<Rightarrow> Some x | None \<Rightarrow> old)"

definition UpsertMarketDataRequest ::
  "go_time \<Rightarrow> int \<Rightarrow> int option \<Rightarrow> market_stream_key \<Rightarrow> bool \<Rightarrow> market_db \<Rightarrow> market_db \<times> market_request result" where
  "UpsertMarketDataRequest now uid pid key needsLive db =
     (let (db1, st) = UpsertMarketDataStream now key db; sid = ms_id st in
      case filter (same_request uid key) (md_requests db1) of
        old # _ \<Rightarrow>
          (let db2 = db1\<lparr>md_requests := update_where (\<lambda>r. mr_id r = mr_id old)
                 (\<lambda>r. r\<lparr>mr_needs_live := needsLive, mr_portfolio_id := or_keep pid (mr_portfolio_id r),
                      mr_status := RequestActive, mr_updated_at := now\<rparr>) (md_requests db1)\<rparr>
           in case recomputeMarketDataStreamAggregate now sid db2 of
                Inl e \<Rightarrow> (db, Inl e)
              | Inr db3 \<Rightarrow> (db3, GetMarketDataRequest db3 (mr_id old) uid))
      | [] \<Rightarrow>
          (let rid = md_request_seq db1;
               new = \<lparr>mr_id = rid, mr_user_id = uid, mr_portfolio_id = pid, mr_stream_id = sid, mr_key = key,
                   mr_needs_live = needsLive, mr_status = RequestActive, mr_created_at = now, mr_updated_at = now,
                   mr_cancelled_at = None\<rparr>;
               db2 = db1\<lparr>md_requests := md_requests db1 @ [new], md_request_seq := rid + 1\<rparr>
           in case recomputeMarketDataStreamAggregate now sid db2 of
                Inl e \<Rightarrow> (db, Inl e)
              | Inr db3 \<Rightarrow> (db3, GetMarketDataRequest db3 rid uid)))"

definition cancel_request_row :: "go_time \<Rightarrow> int \<Rightarrow> market_request list \<Rightarrow> market_request list" where
  "cancel_request_row now rid = update_where (\<lambda>r. mr_id r = rid \<and> mr_status r \<noteq> RequestCancelled)
     (\<lambda>r. r\<lparr>mr_status := RequestCancelled, mr_cancelled_at := Some now, mr_updated_at := now\<rparr>)"

text \<open>The owner and the stream of a request never change, so it does not matter that they are read before the transaction; the
  recomputation may read an older snapshot when cancellations overlap, see \<open>concurrent_cancels\<close>.\<close>
definition CancelMarketDataRequest_row :: "go_time \<Rightarrow> int \<Rightarrow> int \<Rightarrow> market_db \<Rightarrow> market_db \<times> unit result" where
  "CancelMarketDataRequest_row now rid uid db =
     (case select_one (\<lambda>r. mr_id r = rid) (md_requests db) of
        Inl e \<Rightarrow> (db, Inl e)
      | Inr r \<Rightarrow>
          if mr_user_id r \<noteq> uid then (db, denied)
          else case recomputeMarketDataStreamAggregate now (mr_stream_id r)
                      (db\<lparr>md_requests := cancel_request_row now rid (md_requests db)\<rparr>) of
                 Inl e \<Rightarrow> (db, Inl e)
               | Inr db' \<Rightarrow> (db', Inr ()))"

definition ListMarketDataRequestsByUser :: "market_db \<Rightarrow> int \<Rightarrow> market_request list" where
  "ListMarketDataRequestsByUser db uid =
     sort_key (\<lambda>r. - mr_id r) (filter (\<lambda>r. mr_user_id r = uid \<and> mr_status r \<noteq> RequestCancelled) (md_requests db))"

definition page_limit :: "int \<Rightarrow> int" where
  "page_limit limit = (let l = (if limit \<le> 0 then 50 else limit) in if 200 < l then 200 else l)"

definition ListMarketDataRequestsByUserPage :: "market_db \<Rightarrow> int \<Rightarrow> int \<Rightarrow> int \<Rightarrow> market_request list \<times> int \<times> bool" where
  "ListMarketDataRequestsByUserPage db uid limit0 offset0 =
     (let limit = page_limit limit0; offset = (if offset0 < 0 then 0 else offset0);
          rows = ListMarketDataRequestsByUser db uid;
          out = take (nat (limit + 1)) (drop (nat offset) rows);
          hasMore = limit < int (length out)
      in (if hasMore then take (nat limit) out else out, int (length rows), hasMore))"

section \<open>Session leases\<close>

definition CreateOrRenewLease ::
  "go_time \<Rightarrow> go_time \<Rightarrow> string \<Rightarrow> int option \<Rightarrow> int option \<Rightarrow> int \<Rightarrow> duration \<Rightarrow> market_db \<Rightarrow> market_db \<times> market_lease result" where
  "CreateOrRenewLease wall now session strategy pid sid ttl db =
     (let expires = wall + ttl;
          same = (\<lambda>l. ml_session_id l = session \<and> ml_stream_id l = sid);
          renew = (\<lambda>l. l\<lparr>ml_expires_at := expires, ml_last_heartbeat_at := now, ml_released_at := None,
                 ml_strategy_id := or_keep strategy (ml_strategy_id l), ml_portfolio_id := or_keep pid (ml_portfolio_id l)\<rparr>);
          (db1, lease) = (case filter same (md_leases db) of
              l # _ \<Rightarrow> (db\<lparr>md_leases := update_where same renew (md_leases db)\<rparr>, renew l)
            | [] \<Rightarrow> (let l = \<lparr>ml_id = md_lease_seq db, ml_session_id = session, ml_strategy_id = strategy, ml_portfolio_id = pid,
                     ml_stream_id = sid, ml_expires_at = expires, ml_last_heartbeat_at = now, ml_created_at = now, ml_released_at = None\<rparr>
                in (db\<lparr>md_leases := md_leases db @ [l], md_lease_seq := md_lease_seq db + 1\<rparr>, l)))
      in case recomputeMarketDataStreamAggregate now sid db1 of
           Inl e \<Rightarrow> (db, Inl e)
         | Inr db2 \<Rightarrow> (db2, Inr lease))"

definition ReleaseLease :: "go_time \<Rightarrow> string \<Rightarrow> int \<Rightarrow> market_db \<Rightarrow> market_db \<times> unit result" where
  "ReleaseLease now session sid db =
     (case recomputeMarketDataStreamAggregate now sid (db\<lparr>md_leases := update_where
              (\<lambda>l. ml_session_id l = session \<and> ml_stream_id l = sid \<and> ml_released_at l = None)
              (\<lambda>l. l\<lparr>ml_released_at := Some now\<rparr>) (md_leases db)\<rparr>) of
        Inl e \<Rightarrow> (db, Inl e)
      | Inr db' \<Rightarrow> (db', Inr ()))"

definition CountActiveLeasesForStream :: "go_time \<Rightarrow> market_db \<Rightarrow> int \<Rightarrow> int" where
  "CountActiveLeasesForStream now db sid =
     int (length (filter (\<lambda>l. ml_stream_id l = sid \<and> lease_active now l) (md_leases db)))"

definition CountActiveLeasesByStream :: "go_time \<Rightarrow> market_db \<Rightarrow> (int, int) gomap" where
  "CountActiveLeasesByStream now db =
     map (\<lambda>sid. (sid, CountActiveLeasesForStream now db sid))
       (remdups (map ml_stream_id (filter (lease_active now) (md_leases db))))"

definition ListActiveLeasesForStream :: "go_time \<Rightarrow> market_db \<Rightarrow> int \<Rightarrow> market_lease list" where
  "ListActiveLeasesForStream now db sid =
     sort_key (\<lambda>l. - ml_expires_at l) (filter (\<lambda>l. ml_stream_id l = sid \<and> lease_active now l) (md_leases db))"

fun recompute_all :: "go_time \<Rightarrow> int list \<Rightarrow> market_db \<Rightarrow> market_db result" where
  "recompute_all now [] db = Inr db"
| "recompute_all now (sid # sids) db = bind_res (recomputeMarketDataStreamAggregate now sid db) (recompute_all now sids)"

text \<open>\<open>at\<close> is the caller's instant, \<open>now\<close> the database's.\<close>
definition ExpireStaleLeases :: "go_time \<Rightarrow> go_time \<Rightarrow> market_db \<Rightarrow> market_db \<times> int result" where
  "ExpireStaleLeases at now db =
     (let stale = (\<lambda>l. ml_released_at l = None \<and> ml_expires_at l \<le> at);
          hit = filter stale (md_leases db);
          db1 = db\<lparr>md_leases := update_where stale (\<lambda>l. l\<lparr>ml_released_at := Some at\<rparr>) (md_leases db)\<rparr>
      in case recompute_all now (remdups (map ml_stream_id hit)) db1 of
           Inl e \<Rightarrow> (db, Inl e)
         | Inr db2 \<Rightarrow> (db2, Inr (int (length hit))))"

section \<open>Historical requests\<close>

definition getMarketDataHistoryRequest :: "market_db \<Rightarrow> int \<Rightarrow> int \<Rightarrow> history_request result" where
  "getMarketDataHistoryRequest db rid uid =
     bind_res (select_one (\<lambda>r. hr_id r = rid) (md_histories db)) (\<lambda>r. if hr_user_id r \<noteq> uid then denied else Inr r)"

definition same_window :: "int \<Rightarrow> market_stream_key \<Rightarrow> go_time \<Rightarrow> go_time \<Rightarrow> history_request \<Rightarrow> bool" where
  "same_window uid key s e r \<longleftrightarrow> hr_user_id r = uid \<and> hr_key r = key \<and> hr_start r = s \<and> hr_end r = e \<and>
     hr_status r \<noteq> HistoryCancelled"

definition UpsertMarketDataHistoryRequest ::
  "go_time \<Rightarrow> int \<Rightarrow> int option \<Rightarrow> market_stream_key \<Rightarrow> go_time \<Rightarrow> go_time \<Rightarrow> market_db \<Rightarrow> market_db \<times> history_request result" where
  "UpsertMarketDataHistoryRequest now uid pid key s e db =
     (case filter (same_window uid key s e) (md_histories db) of
        old # _ \<Rightarrow>
          (let db1 = db\<lparr>md_histories := update_where (\<lambda>r. hr_id r = hr_id old)
                 (\<lambda>r. r\<lparr>hr_portfolio_id := or_keep pid (hr_portfolio_id r),
                      hr_status := (if hr_status r = HistoryError then HistoryPending else hr_status r),
                      hr_last_error := (if hr_status r = HistoryError then '''' else hr_last_error r),
                      hr_updated_at := now\<rparr>) (md_histories db)\<rparr>
           in (db1, getMarketDataHistoryRequest db1 (hr_id old) uid))
      | [] \<Rightarrow>
          if \<not> s < e then (db, Inl (Plain ''insert history request: check constraint violation''))
          else (let rid = md_request_seq db;
               new = \<lparr>hr_id = rid, hr_user_id = uid, hr_portfolio_id = pid, hr_key = key, hr_status = HistoryPending,
                   hr_start = s, hr_end = e, hr_covered_start = None, hr_covered_end = None, hr_last_error = '''',
                   hr_created_at = now, hr_updated_at = now, hr_cancelled_at = None\<rparr>;
               db1 = db\<lparr>md_histories := md_histories db @ [new], md_request_seq := rid + 1\<rparr>
           in (db1, getMarketDataHistoryRequest db1 rid uid)))"

definition CancelMarketDataHistoryRequest :: "go_time \<Rightarrow> int \<Rightarrow> int \<Rightarrow> market_db \<Rightarrow> market_db \<times> unit result" where
  "CancelMarketDataHistoryRequest now rid uid db =
     (case select_one (\<lambda>r. hr_id r = rid) (md_histories db) of
        Inl e \<Rightarrow> (db, Inl e)
      | Inr r \<Rightarrow>
          if hr_user_id r \<noteq> uid then (db, denied)
          else (db\<lparr>md_histories := update_where (\<lambda>r. hr_id r = rid \<and> hr_status r \<noteq> HistoryCancelled)
                 (\<lambda>r. r\<lparr>hr_status := HistoryCancelled, hr_cancelled_at := Some now, hr_updated_at := now\<rparr>)
                 (md_histories db)\<rparr>, Inr ()))"

definition ListMarketDataHistoryRequestsByUser :: "market_db \<Rightarrow> int \<Rightarrow> history_request list" where
  "ListMarketDataHistoryRequestsByUser db uid = sort_key (\<lambda>r. - hr_id r)
     (filter (\<lambda>r. hr_user_id r = uid \<and> hr_status r \<noteq> HistoryReady \<and> hr_status r \<noteq> HistoryCancelled) (md_histories db))"

definition ListMarketDataHistoryRequests_rows :: "market_db \<Rightarrow> bool \<Rightarrow> history_request list" where
  "ListMarketDataHistoryRequests_rows db includeTerminal = sort_key (\<lambda>r. - hr_id r)
     (if includeTerminal then md_histories db
      else filter (\<lambda>r. hr_status r \<noteq> HistoryReady \<and> hr_status r \<noteq> HistoryCancelled) (md_histories db))"

text \<open>The \<open>UPDATE\<close> names only the id; the unique index on the windows that are not cancelled can refuse it.\<close>
definition UpdateMarketDataHistoryRequestState ::
  "go_time \<Rightarrow> int \<Rightarrow> string \<Rightarrow> go_time option \<Rightarrow> go_time option \<Rightarrow> string \<Rightarrow> market_db \<Rightarrow> market_db \<times> history_request result" where
  "UpdateMarketDataHistoryRequestState now rid status cs ce lastErr db =
     (case select_one (\<lambda>r. hr_id r = rid) (md_histories db) of
        Inl e \<Rightarrow> (db, Inl e)
      | Inr r \<Rightarrow>
          if status \<noteq> HistoryCancelled \<and>
             list_ex (\<lambda>x. hr_id x \<noteq> rid \<and> same_window (hr_user_id r) (hr_key r) (hr_start r) (hr_end r) x) (md_histories db)
          then (db, Inl (Plain ''duplicate key value violates unique constraint''))
          else (let db1 = db\<lparr>md_histories := update_where (\<lambda>r. hr_id r = rid)
                  (\<lambda>r. r\<lparr>hr_status := status, hr_covered_start := cs, hr_covered_end := ce, hr_last_error := lastErr,
                       hr_updated_at := now\<rparr>) (md_histories db)\<rparr>
                in (db1, getMarketDataHistoryRequest db1 rid (hr_user_id r))))"

section \<open>The invariant\<close>

definition stream_names :: "market_db \<Rightarrow> (int \<times> market_stream_key) set" where
  "stream_names db = (\<lambda>s. (ms_id s, ms_key s)) ` set (md_streams db)"

definition streams_ok :: "market_db \<Rightarrow> bool" where
  "streams_ok db \<longleftrightarrow> keys_ok ms_id (md_streams db) \<and> keys_ok ms_key (md_streams db) \<and>
     (\<forall>s\<in>set (md_streams db). ms_id s < md_stream_seq db)"

text \<open>Every request and lease refers to a stream, a request to the one with its key.\<close>
definition refs_ok :: "market_db \<Rightarrow> bool" where
  "refs_ok db \<longleftrightarrow> (\<forall>r\<in>set (md_requests db). (mr_stream_id r, mr_key r) \<in> stream_names db) \<and>
     (\<forall>l\<in>set (md_leases db). ml_stream_id l \<in> fst ` stream_names db)"

text \<open>One sequence names live and historical requests.\<close>
definition ids_ok :: "market_db \<Rightarrow> bool" where
  "ids_ok db \<longleftrightarrow> distinct (map mr_id (md_requests db) @ map hr_id (md_histories db)) \<and>
     (\<forall>i\<in>set (map mr_id (md_requests db) @ map hr_id (md_histories db)). i < md_request_seq db)"

definition active_ok :: "market_db \<Rightarrow> bool" where
  "active_ok db \<longleftrightarrow> (\<forall>a\<in>set (md_requests db). \<forall>b\<in>set (md_requests db).
     mr_status a \<noteq> RequestCancelled \<and> mr_status b \<noteq> RequestCancelled \<and> mr_user_id a = mr_user_id b \<and> mr_key a = mr_key b
       \<longrightarrow> mr_id a = mr_id b)"

definition has_unreleased :: "int \<Rightarrow> market_db \<Rightarrow> bool" where
  "has_unreleased sid db \<longleftrightarrow> (\<exists>l\<in>set (md_leases db). ml_stream_id l = sid \<and> ml_released_at l = None)"

text \<open>The aggregate columns say what the requests and leases of the stream say; a lease that has
  expired but was not released yet may still keep the live flag.\<close>
definition agg_ok :: "go_time \<Rightarrow> market_db \<Rightarrow> market_stream \<Rightarrow> bool" where
  "agg_ok now db s \<longleftrightarrow> ms_desired s = (if has_request (ms_id s) db then DesiredRunning else DesiredStopped) \<and>
     (has_live_request (ms_id s) db \<or> has_lease now (ms_id s) db \<longrightarrow> ms_live s) \<and>
     (ms_live s \<longrightarrow> has_live_request (ms_id s) db \<or> has_unreleased (ms_id s) db)"

definition market_inv :: "go_time \<Rightarrow> market_db \<Rightarrow> bool" where
  "market_inv now db \<longleftrightarrow> streams_ok db \<and> refs_ok db \<and> ids_ok db \<and> active_ok db \<and>
     (\<forall>s\<in>set (md_streams db). agg_ok now db s)"

lemma list_ex_update_where: "list_ex P (update_where Q f t) \<longleftrightarrow> (\<exists>r\<in>set t. if Q r then P (f r) else P r)"
  by (auto simp: update_where_def list_ex_iff)

lemmas demand_defs = has_request_def has_live_request_def has_lease_def has_unreleased_def lease_active_def list_ex_iff

lemma has_lease_later: "now \<le> now' \<Longrightarrow> has_lease now' sid db \<Longrightarrow> has_lease now sid db"
  by (force simp: demand_defs)

lemma agg_later: "now \<le> now' \<Longrightarrow> agg_ok now db s \<Longrightarrow> agg_ok now' db s"
  using has_lease_later by (auto simp: agg_ok_def)

lemma has_lease_unreleased: "has_lease now sid db \<Longrightarrow> has_unreleased sid db"
  by (auto simp: demand_defs)

text \<open>A recomputation makes the aggregate of its stream exact and leaves the others.\<close>

lemma recompute_streams:
  "md_streams (recompute_from now snap sid db) = update_where (\<lambda>s. ms_id s = sid) (recompute_row now snap) (md_streams db)"
  "md_requests (recompute_from now snap sid db) = md_requests db" "md_leases (recompute_from now snap sid db) = md_leases db"
  "md_histories (recompute_from now snap sid db) = md_histories db" "md_stream_seq (recompute_from now snap sid db) = md_stream_seq db"
  "md_request_seq (recompute_from now snap sid db) = md_request_seq db"
  by (simp_all add: recompute_from_def)

lemma recompute_row_simps [simp]: "ms_id (recompute_row now snap s) = ms_id s" "ms_key (recompute_row now snap s) = ms_key s"
  by (simp_all add: recompute_row_def)

lemma recompute_demand [simp]:
  "has_request i (recompute_from now snap sid db) = has_request i db"
  "has_live_request i (recompute_from now snap sid db) = has_live_request i db"
  "has_lease t i (recompute_from now snap sid db) = has_lease t i db"
  "has_unreleased i (recompute_from now snap sid db) = has_unreleased i db"
  by (simp_all add: has_request_def has_live_request_def has_lease_def has_unreleased_def recompute_streams)

lemma recompute_names [simp]: "stream_names (recompute_from now snap sid db) = stream_names db"
  by (simp add: stream_names_def recompute_streams image_update_where)

lemma recompute_keeps [simp]:
  "streams_ok (recompute_from now snap sid db) = streams_ok db" "refs_ok (recompute_from now snap sid db) = refs_ok db"
  "ids_ok (recompute_from now snap sid db) = ids_ok db" "active_ok (recompute_from now snap sid db) = active_ok db"
proof -
  have k: "map ms_id (update_where (\<lambda>s. ms_id s = sid) (recompute_row now snap) t) = map ms_id t"
    "map ms_key (update_where (\<lambda>s. ms_id s = sid) (recompute_row now snap) t) = map ms_key t" for t
    by (simp_all add: update_where_keys)
  show "streams_ok (recompute_from now snap sid db) = streams_ok db"
    by (auto simp: streams_ok_def keys_ok_def recompute_streams k ball_update_where)
  show "refs_ok (recompute_from now snap sid db) = refs_ok db"
    by (simp add: refs_ok_def recompute_streams)
  show "ids_ok (recompute_from now snap sid db) = ids_ok db" "active_ok (recompute_from now snap sid db) = active_ok db"
    by (simp_all add: ids_ok_def active_ok_def recompute_streams)
qed

text \<open>The invariant up to the aggregates of some streams: what recomputations of those streams restore.\<close>

definition inv_but :: "go_time \<Rightarrow> int set \<Rightarrow> market_db \<Rightarrow> bool" where
  "inv_but now S db \<longleftrightarrow> streams_ok db \<and> refs_ok db \<and> ids_ok db \<and> active_ok db \<and>
     (\<forall>s\<in>set (md_streams db). ms_id s \<notin> S \<longrightarrow> agg_ok now db s)"

lemma inv_but_none: "inv_but now {} db \<longleftrightarrow> market_inv now db"
  by (simp add: inv_but_def market_inv_def)

lemma inv_but_mono: "inv_but now S db \<Longrightarrow> S \<subseteq> T \<Longrightarrow> inv_but now T db"
  by (auto simp: inv_but_def)

lemma inv_but_recompute_from:
  assumes "inv_but now S db"
  shows "inv_but now (S - {sid}) (recompute_from now db sid db)"
proof -
  let ?db = "recompute_from now db sid db"
  have "agg_ok now ?db (recompute_row now db s)" for s
    using has_lease_unreleased by (auto simp: agg_ok_def recompute_row_def)
  moreover have "agg_ok now ?db s \<longleftrightarrow> agg_ok now db s" for s
    by (simp add: agg_ok_def)
  ultimately have "\<forall>s\<in>set (md_streams ?db). ms_id s \<notin> S - {sid} \<longrightarrow> agg_ok now ?db s"
    using assms by (auto simp: inv_but_def recompute_streams set_update_where)
  then show ?thesis using assms by (simp add: inv_but_def)
qed

lemma recompute_Inr: "recomputeMarketDataStreamAggregate now sid db = Inr db' \<longleftrightarrow>
    sid \<in> ms_id ` set (md_streams db) \<and> db' = recompute_from now db sid db"
  by (auto simp: recomputeMarketDataStreamAggregate_def not_found_def list_ex_iff)

lemma inv_but_recompute:
  "inv_but now (insert sid S) db \<Longrightarrow> recomputeMarketDataStreamAggregate now sid db = Inr db' \<Longrightarrow> inv_but now S db'"
  using inv_but_recompute_from [of now "insert sid S" db sid] by (auto simp: recompute_Inr elim: inv_but_mono)

lemma inv_but_recompute_all:
  "recompute_all now sids db = Inr db' \<Longrightarrow> inv_but now (set sids \<union> S) db \<Longrightarrow> inv_but now S db'"
proof (induction sids arbitrary: db)
  case (Cons sid sids)
  from Cons.prems(1) obtain d where d: "recomputeMarketDataStreamAggregate now sid db = Inr d" "recompute_all now sids d = Inr db'"
    by (auto simp: bind_res_Inr)
  have "inv_but now (set sids \<union> S) d"
    using inv_but_recompute_from [OF Cons.prems(2), of sid] d(1) by (auto simp: recompute_Inr elim: inv_but_mono)
  then show ?case using Cons.IH d(2) by blast
qed simp

lemma inv_but_later: "now \<le> now' \<Longrightarrow> inv_but now S db \<Longrightarrow> inv_but now' S db"
  using agg_later by (auto simp: inv_but_def)

lemma inv_but_insert: "inv_but now S db \<Longrightarrow> inv_but now (insert sid S) db"
  by (rule inv_but_mono) auto

text \<open>A recomputation that read an older snapshot spoils no aggregate but that of its stream.\<close>

lemma inv_but_stale:
  assumes "inv_but now S db"
  shows "inv_but now (insert sid S) (recompute_from now snap sid db)"
proof -
  have "agg_ok now (recompute_from now snap sid db) s \<longleftrightarrow> agg_ok now db s" for s by (simp add: agg_ok_def)
  then show ?thesis using assms by (auto simp: inv_but_def recompute_streams set_update_where)
qed


text \<open>The aggregate of a stream reads nothing but the requests and leases of that stream.\<close>

definition demand_of :: "int \<Rightarrow> market_db \<Rightarrow> (string \<times> bool) set \<times> (go_time option \<times> go_time) set" where
  "demand_of sid db = ((\<lambda>r. (mr_status r, mr_needs_live r)) ` {r \<in> set (md_requests db). mr_stream_id r = sid},
     (\<lambda>l. (ml_released_at l, ml_expires_at l)) ` {l \<in> set (md_leases db). ml_stream_id l = sid})"

lemma demand_of_alt:
  "has_request sid db \<longleftrightarrow> (\<exists>p\<in>fst (demand_of sid db). fst p \<noteq> RequestCancelled)"
  "has_live_request sid db \<longleftrightarrow> (\<exists>p\<in>fst (demand_of sid db). fst p \<noteq> RequestCancelled \<and> snd p)"
  "has_lease now sid db \<longleftrightarrow> (\<exists>p\<in>snd (demand_of sid db). fst p = None \<and> now < snd p)"
  "has_unreleased sid db \<longleftrightarrow> (\<exists>p\<in>snd (demand_of sid db). fst p = None)"
  by (auto simp: demand_defs demand_of_def)

lemma agg_frame: "demand_of (ms_id s) db' = demand_of (ms_id s) db \<Longrightarrow> agg_ok now db' s = agg_ok now db s"
  by (simp add: agg_ok_def demand_of_alt)

lemma agg_same_row:
  "ms_id s' = ms_id s \<Longrightarrow> ms_desired s' = ms_desired s \<Longrightarrow> ms_live s' = ms_live s \<Longrightarrow> agg_ok now db s' = agg_ok now db s"
  by (simp add: agg_ok_def)

lemma demand_frame:
  "{r \<in> set (md_requests db'). mr_stream_id r = sid} = {r \<in> set (md_requests db). mr_stream_id r = sid} \<Longrightarrow>
   {l \<in> set (md_leases db'). ml_stream_id l = sid} = {l \<in> set (md_leases db). ml_stream_id l = sid} \<Longrightarrow>
   demand_of sid db' = demand_of sid db"
  by (simp add: demand_of_def)

lemma update_where_slice:
  assumes "\<And>r. r \<in> set t \<Longrightarrow> P r \<Longrightarrow> part r \<noteq> k" "\<And>r. part (f r) = part r"
  shows "{r \<in> set (update_where P f t). part r = k} = {r \<in> set t. part r = k}"
  by (auto simp: set_update_where assms(2) dest: assms(1))


text \<open>A stream is created at most once per key, and it starts without any request or lease.\<close>

lemma upsert_stream:
  assumes "inv_but now S db" "UpsertMarketDataStream now key db = (db1, st)"
  shows "inv_but now (insert (ms_id st) S) db1" "(ms_id st, key) \<in> stream_names db1"
    "md_requests db1 = md_requests db" "md_request_seq db1 = md_request_seq db" "md_histories db1 = md_histories db"
    "md_leases db1 = md_leases db"
proof -
  have inv: "streams_ok db" "refs_ok db" "ids_ok db" "active_ok db" "\<And>s. s \<in> set (md_streams db) \<Longrightarrow> ms_id s \<notin> S \<Longrightarrow> agg_ok now db s"
    using assms(1) by (simp_all add: inv_but_def)
  have "inv_but now (insert (ms_id st) S) db1 \<and> (ms_id st, key) \<in> stream_names db1 \<and> md_requests db1 = md_requests db \<and>
    md_request_seq db1 = md_request_seq db \<and> md_histories db1 = md_histories db \<and> md_leases db1 = md_leases db"
  proof (cases "filter (\<lambda>s. ms_key s = key) (md_streams db)")
    case (Cons s rest)
    let ?t = "update_where (\<lambda>s. ms_key s = key) (\<lambda>s. s\<lparr>ms_updated_at := now\<rparr>) (md_streams db)"
    have s: "s \<in> set (md_streams db)" "ms_key s = key" using Cons by (auto simp: filter_eq_Cons_iff)
    have db1: "db1 = db\<lparr>md_streams := ?t\<rparr>" "ms_id st = ms_id s"
      using assms(2) Cons by (auto simp: UpsertMarketDataStream_def)
    have "map ms_id ?t = map ms_id (md_streams db)" "map ms_key ?t = map ms_key (md_streams db)"
      by (simp_all add: update_where_keys)
    then have so: "streams_ok db1" using inv(1) by (auto simp: streams_ok_def keys_ok_def db1 ball_update_where)
    have nm: "stream_names db1 = stream_names db" by (simp add: stream_names_def db1 image_update_where)
    have dm: "demand_of i db1 = demand_of i db" for i by (rule demand_frame) (simp_all add: db1)
    have ag: "agg_ok now db1 r" if r: "r \<in> set (md_streams db1)" "ms_id r \<notin> S" for r
    proof -
      from r(1) obtain r0 where r0: "r0 \<in> set (md_streams db)" "r = r0 \<or> r = r0\<lparr>ms_updated_at := now\<rparr>"
        by (auto simp: db1 set_update_where)
      then have "agg_ok now db1 r = agg_ok now db1 r0" by (auto simp: agg_ok_def)
      moreover have "ms_id r0 \<notin> S" using r0(2) r(2) by auto
      ultimately show ?thesis using inv(5) [OF r0(1)] agg_frame [OF dm] by simp
    qed
    have "refs_ok db1" using inv(2) nm by (simp add: refs_ok_def db1(1))
    moreover have "ids_ok db1 = ids_ok db" "active_ok db1 = active_ok db" by (simp_all add: ids_ok_def active_ok_def db1(1))
    moreover have "(ms_id s, ms_key s) \<in> stream_names db" using s(1) by (simp add: stream_names_def)
    ultimately show ?thesis using so nm ag s(2) inv(3,4) by (simp add: inv_but_def db1(2)) (simp add: db1(1))
  next
    case Nil
    let ?s = "new_stream now key (md_stream_seq db)"
    have db1: "db1 = db\<lparr>md_streams := md_streams db @ [?s], md_stream_seq := md_stream_seq db + 1\<rparr>" "st = ?s"
      using assms(2) Nil by (auto simp: UpsertMarketDataStream_def Let_def)
    have new: "md_stream_seq db \<notin> ms_id ` set (md_streams db)" "key \<notin> ms_key ` set (md_streams db)"
      using inv(1) Nil by (force simp: streams_ok_def filter_empty_conv)+
    have so: "streams_ok db1" using inv(1) new by (auto simp: streams_ok_def keys_ok_def db1 new_stream_def)
    have dm: "demand_of i db1 = demand_of i db" for i by (rule demand_frame) (simp_all add: db1)
    have nm: "stream_names db1 = insert (md_stream_seq db, key) (stream_names db)"
      by (simp add: stream_names_def db1(1) new_stream_def)
    have "refs_ok db1" using inv(2) nm by (auto simp: refs_ok_def db1(1))
    moreover have "ids_ok db1 = ids_ok db" "active_ok db1 = active_ok db" by (simp_all add: ids_ok_def active_ok_def db1(1))
    moreover have "agg_ok now db1 s" if "s \<in> set (md_streams db)" "ms_id s \<notin> S" for s
      using inv(5) [OF that] agg_frame [OF dm] by simp
    ultimately show ?thesis using so nm inv(3,4) by (auto simp: inv_but_def db1 new_stream_def)
  qed
  then show "inv_but now (insert (ms_id st) S) db1" "(ms_id st, key) \<in> stream_names db1"
    "md_requests db1 = md_requests db" "md_request_seq db1 = md_request_seq db" "md_histories db1 = md_histories db"
    "md_leases db1 = md_leases db" by simp_all
qed

text \<open>A change of the requests and leases that concerns one stream.\<close>

lemma inv_but_change:
  assumes "inv_but now S db"
    and "md_streams db' = md_streams db" "md_stream_seq db' = md_stream_seq db"
    and "refs_ok db'" "ids_ok db'" "active_ok db'"
    and "\<And>i. i \<notin> S \<Longrightarrow> demand_of i db' = demand_of i db"
  shows "inv_but now S db'"
  using assms agg_frame [OF assms(7)] by (simp add: inv_but_def streams_ok_def)


section \<open>Every operation keeps the invariant\<close>

text \<open>What \<open>active_ok\<close> reads of a request.\<close>
definition request_face :: "market_request \<Rightarrow> int \<times> int \<times> market_stream_key \<times> bool" where
  "request_face r = (mr_id r, mr_user_id r, mr_key r, mr_status r \<noteq> RequestCancelled)"

lemma active_ok_face: "active_ok db \<longleftrightarrow> (\<forall>(i, u, k, a)\<in>request_face ` set (md_requests db).
    \<forall>(j, v, l, b)\<in>request_face ` set (md_requests db). a \<and> b \<and> u = v \<and> k = l \<longrightarrow> i = j)"
  by (simp add: active_ok_def request_face_def)

lemma fresh_id:
  assumes "distinct (xs @ ys) \<and> (\<forall>i\<in>set (xs @ ys). i < (n::int))"
  shows "distinct ((xs @ [n]) @ ys) \<and> (\<forall>i\<in>set ((xs @ [n]) @ ys). i < n + 1)"
    "distinct (xs @ ys @ [n]) \<and> (\<forall>i\<in>set (xs @ ys @ [n]). i < n + 1)"
  using assms by (auto intro: less_imp_le)

lemma active_ok_insert:
  assumes "active_ok db" "\<And>r. r \<in> set (md_requests db) \<Longrightarrow> \<not> same_request (mr_user_id n) (mr_key n) r"
    "md_requests db' = md_requests db @ [n]"
  shows "active_ok db'"
  unfolding active_ok_def
proof (intro ballI impI, elim conjE)
  fix a b assume ab: "a \<in> set (md_requests db')" "b \<in> set (md_requests db')" "mr_status a \<noteq> RequestCancelled"
    "mr_status b \<noteq> RequestCancelled" "mr_user_id a = mr_user_id b" "mr_key a = mr_key b"
  then consider "a \<in> set (md_requests db)" "b \<in> set (md_requests db)" | "a = n" "b = n"
    using assms(2) by (auto simp: assms(3) same_request_def)
  then show "mr_id a = mr_id b"
    by cases (use assms(1) ab in \<open>auto simp only: active_ok_def\<close>)
qed

lemma ids_ok_requests: "ids_ok db \<Longrightarrow> keys_ok mr_id (md_requests db)" "ids_ok db \<Longrightarrow> keys_ok hr_id (md_histories db)"
  by (auto simp: ids_ok_def keys_ok_def)

lemma names_unique: "streams_ok db \<Longrightarrow> (i, k) \<in> stream_names db \<Longrightarrow> (j, k) \<in> stream_names db \<Longrightarrow> i = j"
  by (auto simp: stream_names_def streams_ok_def dest: keys_ok_same [of ms_key])

lemma update_requests:
  assumes inv: "inv_but now S db"
    and f: "\<And>r. mr_id (f r) = mr_id r" "\<And>r. mr_stream_id (f r) = mr_stream_id r" "\<And>r. mr_key (f r) = mr_key r"
    and on: "\<And>r. r \<in> set (md_requests db) \<Longrightarrow> P r \<Longrightarrow> mr_stream_id r \<in> S"
    and act: "active_ok (db\<lparr>md_requests := update_where P f (md_requests db)\<rparr>)"
  shows "inv_but now S (db\<lparr>md_requests := update_where P f (md_requests db)\<rparr>)"
proof (rule inv_but_change [OF inv])
  let ?db = "db\<lparr>md_requests := update_where P f (md_requests db)\<rparr>"
  have "refs_ok db" "ids_ok db" using inv by (simp_all add: inv_but_def)
  moreover have "stream_names ?db = stream_names db" by (simp add: stream_names_def)
  ultimately show "refs_ok ?db" by (simp add: refs_ok_def ball_update_where f)
  have "map mr_id (update_where P f (md_requests db)) = map mr_id (md_requests db)"
    by (rule update_where_keys) (rule f)
  with \<open>ids_ok db\<close> show "ids_ok ?db" by (simp add: ids_ok_def flip: set_map)
  show "demand_of i ?db = demand_of i db" if "i \<notin> S" for i
    by (rule demand_frame) (use on that in \<open>auto intro!: update_where_slice simp: f\<close>)
qed (simp_all add: act)

lemma UpsertMarketDataRequest_inv:
  assumes "inv_but now S db" "UpsertMarketDataRequest now uid pid key needsLive db = (db', res)"
  shows "inv_but now S db'"
proof -
  obtain db1 st where up: "UpsertMarketDataStream now key db = (db1, st)" by fastforce
  note st = upsert_stream [OF assms(1) up]
  let ?sid = "ms_id st"
  have ok: "ids_ok db1" "active_ok db1" "streams_ok db1" "refs_ok db1" using st(1) by (simp_all add: inv_but_def)
  show ?thesis
  proof (cases "filter (same_request uid key) (md_requests db1)")
    case (Cons old rest)
    let ?f = "\<lambda>r. r\<lparr>mr_needs_live := needsLive, mr_portfolio_id := or_keep pid (mr_portfolio_id r),
                  mr_status := RequestActive, mr_updated_at := now\<rparr>"
    let ?db2 = "db1\<lparr>md_requests := update_where (\<lambda>r. mr_id r = mr_id old) ?f (md_requests db1)\<rparr>"
    have old: "old \<in> set (md_requests db1)" "same_request uid key old" using Cons by (auto simp: filter_eq_Cons_iff)
    have "(mr_stream_id old, key) \<in> stream_names db1" using ok(4) old by (auto simp: refs_ok_def same_request_def)
    then have sid: "mr_stream_id old = ?sid" using names_unique [OF ok(3)] st(2) by blast
    have one: "r = old" if "r \<in> set (md_requests db1)" "mr_id r = mr_id old" for r
      using keys_ok_same [OF ids_ok_requests(1) [OF ok(1)] that(1) old(1) that(2)] .
    have "request_face (?f r) = request_face r" if "r \<in> set (md_requests db1)" "mr_id r = mr_id old" for r
      using old(2) one [OF that] by (simp add: request_face_def same_request_def)
    then have "request_face ` set (md_requests ?db2) = request_face ` set (md_requests db1)"
      by (simp add: image_update_where_on)
    then have "active_ok ?db2" using ok(2) by (simp add: active_ok_face)
    then have "inv_but now (insert ?sid S) ?db2" using one sid by (intro update_requests st(1)) auto
    moreover have "db' = db \<or> recomputeMarketDataStreamAggregate now ?sid ?db2 = Inr db'"
      using assms(2) Cons by (simp add: UpsertMarketDataRequest_def up split: sum.splits)
    ultimately show ?thesis using assms(1) inv_but_recompute by blast
  next
    case Nil
    let ?new = "\<lparr>mr_id = md_request_seq db1, mr_user_id = uid, mr_portfolio_id = pid, mr_stream_id = ?sid, mr_key = key,
                   mr_needs_live = needsLive, mr_status = RequestActive, mr_created_at = now, mr_updated_at = now,
                   mr_cancelled_at = None\<rparr>"
    let ?db2 = "db1\<lparr>md_requests := md_requests db1 @ [?new], md_request_seq := md_request_seq db1 + 1\<rparr>"
    have "inv_but now (insert ?sid S) ?db2"
    proof (rule inv_but_change [OF st(1)])
      show "refs_ok ?db2" using ok(4) st(2) by (auto simp: refs_ok_def stream_names_def)
      show "ids_ok ?db2"
        using fresh_id(1) [OF ok(1) [unfolded ids_ok_def]] by (simp add: ids_ok_def)
      have "\<not> same_request uid key r" if "r \<in> set (md_requests db1)" for r using Nil that by (simp add: filter_empty_conv)
      then show "active_ok ?db2" by (intro active_ok_insert [OF ok(2)]) auto
      show "demand_of i ?db2 = demand_of i db1" if "i \<notin> insert ?sid S" for i
        by (rule demand_frame) (use that in auto)
    qed simp_all
    moreover have "db' = db \<or> recomputeMarketDataStreamAggregate now ?sid ?db2 = Inr db'"
      using assms(2) Nil by (cases "recomputeMarketDataStreamAggregate now ?sid ?db2") (auto simp: UpsertMarketDataRequest_def up Let_def)
    ultimately show ?thesis using assms(1) inv_but_recompute by blast
  qed
qed


lemma CancelMarketDataRequest_inv:
  assumes "inv_but now S db" "CancelMarketDataRequest_row now rid uid db = (db', res)"
  shows "inv_but now S db'"
proof (cases "db' = db")
  case False
  let ?P = "\<lambda>r. mr_id r = rid \<and> mr_status r \<noteq> RequestCancelled"
  let ?f = "\<lambda>r. r\<lparr>mr_status := RequestCancelled, mr_cancelled_at := Some now, mr_updated_at := now\<rparr>"
  let ?db1 = "db\<lparr>md_requests := update_where ?P ?f (md_requests db)\<rparr>"
  obtain r where r: "select_one (\<lambda>r. mr_id r = rid) (md_requests db) = Inr r"
    "recomputeMarketDataStreamAggregate now (mr_stream_id r) ?db1 = Inr db'"
    using assms(2) False by (auto simp: CancelMarketDataRequest_row_def cancel_request_row_def split: sum.splits if_splits)
  then have mem: "r \<in> set (md_requests db)" "mr_id r = rid" by (auto simp: select_one_def filter_eq_Cons_iff split: list.splits)
  have ib: "inv_but now (insert (mr_stream_id r) S) db" by (rule inv_but_insert [OF assms(1)])
  then have "ids_ok db" "active_ok db" by (simp_all add: inv_but_def)
  then have one: "x = r" if "x \<in> set (md_requests db)" "mr_id x = rid" for x
    using keys_ok_same [OF ids_ok_requests(1) that(1) mem(1)] that(2) mem(2) by simp
  have "\<forall>b\<in>set (md_requests ?db1). mr_status b \<noteq> RequestCancelled \<longrightarrow> b \<in> set (md_requests db)"
    by (simp add: ball_update_where)
  then have "active_ok ?db1" using \<open>active_ok db\<close> unfolding active_ok_def by blast
  then have "inv_but now (insert (mr_stream_id r) S) ?db1" using one by (intro update_requests ib) auto
  then show ?thesis using r(2) inv_but_recompute by blast
qed (use assms in simp)

text \<open>Session leases: only the lease table changes, on one stream.\<close>

lemma update_leases:
  assumes inv: "inv_but now S db"
    and f: "\<And>l. ml_stream_id (f l) = ml_stream_id l"
    and on: "\<And>l. l \<in> set (md_leases db) \<Longrightarrow> P l \<Longrightarrow> ml_stream_id l \<in> S"
  shows "inv_but now S (db\<lparr>md_leases := update_where P f (md_leases db)\<rparr>)"
proof (rule inv_but_change [OF inv])
  let ?db = "db\<lparr>md_leases := update_where P f (md_leases db)\<rparr>"
  have ok: "refs_ok db" "ids_ok db" "active_ok db" using inv by (simp_all add: inv_but_def)
  have "stream_names ?db = stream_names db" by (simp add: stream_names_def)
  with ok(1) show "refs_ok ?db" by (simp add: refs_ok_def ball_update_where f)
  have "ids_ok ?db = ids_ok db" "active_ok ?db = active_ok db" by (simp_all add: ids_ok_def active_ok_def)
  with ok show "ids_ok ?db" "active_ok ?db" by simp_all
  show "demand_of i ?db = demand_of i db" if "i \<notin> S" for i
    by (rule demand_frame) (use on that in \<open>auto intro!: update_where_slice simp: f\<close>)
qed simp_all

lemma CreateOrRenewLease_inv:
  assumes "inv_but now S db" "CreateOrRenewLease wall now session strategy pid sid ttl db = (db', res)"
  shows "inv_but now S db'"
proof (cases "db' = db")
  case False
  let ?same = "\<lambda>l. ml_session_id l = session \<and> ml_stream_id l = sid"
  have ib: "inv_but now (insert sid S) db" by (rule inv_but_insert [OF assms(1)])
  show ?thesis
  proof (cases "filter ?same (md_leases db)")
    case (Cons l rest)
    let ?f = "\<lambda>l. l\<lparr>ml_expires_at := wall + ttl, ml_last_heartbeat_at := now, ml_released_at := None,
                 ml_strategy_id := or_keep strategy (ml_strategy_id l), ml_portfolio_id := or_keep pid (ml_portfolio_id l)\<rparr>"
    have rec: "recomputeMarketDataStreamAggregate now sid (db\<lparr>md_leases := update_where ?same ?f (md_leases db)\<rparr>) = Inr db'"
      using assms(2) False Cons by (auto simp: CreateOrRenewLease_def Let_def split: sum.splits)
    have "inv_but now (insert sid S) (db\<lparr>md_leases := update_where ?same ?f (md_leases db)\<rparr>)"
      by (rule update_leases [OF ib]) auto
    then show ?thesis using rec inv_but_recompute by blast
  next
    case Nil
    have "\<exists>l. ml_stream_id l = sid \<and>
        recomputeMarketDataStreamAggregate now sid (db\<lparr>md_leases := md_leases db @ [l], md_lease_seq := md_lease_seq db + 1\<rparr>) = Inr db'"
      using assms(2) False Nil by (auto simp: CreateOrRenewLease_def Let_def split: sum.splits intro!: exI)
    then obtain l where l: "ml_stream_id l = sid" and
      rec: "recomputeMarketDataStreamAggregate now sid (db\<lparr>md_leases := md_leases db @ [l], md_lease_seq := md_lease_seq db + 1\<rparr>) = Inr db'"
      by blast
    let ?db1 = "db\<lparr>md_leases := md_leases db @ [l], md_lease_seq := md_lease_seq db + 1\<rparr>"
    have "inv_but now (insert sid S) ?db1"
    proof (rule inv_but_change [OF ib])
      have ok: "refs_ok db" "ids_ok db" "active_ok db" using ib by (simp_all add: inv_but_def)
      have "sid \<in> fst ` stream_names db" using rec by (auto simp: recompute_Inr stream_names_def image_image)
      moreover have "stream_names ?db1 = stream_names db" by (simp add: stream_names_def)
      ultimately show "refs_ok ?db1" using ok(1) l by (simp add: refs_ok_def)
      have "ids_ok ?db1 = ids_ok db" "active_ok ?db1 = active_ok db" by (simp_all add: ids_ok_def active_ok_def)
      with ok show "ids_ok ?db1" "active_ok ?db1" by simp_all
      show "demand_of i ?db1 = demand_of i db" if "i \<notin> insert sid S" for i
        by (rule demand_frame) (use that l in auto)
    qed simp_all
    then show ?thesis using rec inv_but_recompute by blast
  qed
qed (use assms in simp)

lemma ReleaseLease_inv:
  assumes "inv_but now S db" "ReleaseLease now session sid db = (db', res)"
  shows "inv_but now S db'"
proof (cases "db' = db")
  case False
  let ?P = "\<lambda>l. ml_session_id l = session \<and> ml_stream_id l = sid \<and> ml_released_at l = None"
  let ?f = "\<lambda>l. l\<lparr>ml_released_at := Some now\<rparr>"
  have rec: "recomputeMarketDataStreamAggregate now sid (db\<lparr>md_leases := update_where ?P ?f (md_leases db)\<rparr>) = Inr db'"
    using assms(2) False by (auto simp: ReleaseLease_def split: sum.splits)
  have "inv_but now (insert sid S) (db\<lparr>md_leases := update_where ?P ?f (md_leases db)\<rparr>)"
    by (rule update_leases [OF inv_but_insert [OF assms(1)]]) auto
  then show ?thesis using rec inv_but_recompute by blast
qed (use assms in simp)

lemma ExpireStaleLeases_inv:
  assumes "inv_but now S db" "ExpireStaleLeases at now db = (db', res)"
  shows "inv_but now S db'"
proof (cases "db' = db")
  case False
  let ?stale = "\<lambda>l. ml_released_at l = None \<and> ml_expires_at l \<le> at"
  let ?sids = "remdups (map ml_stream_id (filter ?stale (md_leases db)))"
  let ?f = "\<lambda>l. l\<lparr>ml_released_at := Some at\<rparr>"
  have rec: "recompute_all now ?sids (db\<lparr>md_leases := update_where ?stale ?f (md_leases db)\<rparr>) = Inr db'"
    using assms(2) False by (auto simp: ExpireStaleLeases_def Let_def split: sum.splits)
  have "inv_but now (set ?sids \<union> S) (db\<lparr>md_leases := update_where ?stale ?f (md_leases db)\<rparr>)"
    by (rule update_leases [OF inv_but_mono [OF assms(1)]]) auto
  then show ?thesis using rec inv_but_recompute_all by blast
qed (use assms in simp)


lemma UpdateMarketDataStreamActualState_inv:
  assumes "inv_but now S db" "UpdateMarketDataStreamActualState now sid state lastData lastErr db = (db', res)"
  shows "inv_but now S db'"
proof (cases "db' = db")
  case False
  define f where "f = (\<lambda>s :: market_stream. s\<lparr>ms_actual := state, ms_last_reconciled_at := Some now, ms_updated_at := now,
            ms_last_data_at := (if lastData \<noteq> None then lastData else ms_last_data_at s),
            ms_last_error := (if lastErr \<noteq> '''' then lastErr else ms_last_error s)\<rparr>)"
  have f: "ms_id (f s) = ms_id s" "ms_key (f s) = ms_key s" "ms_desired (f s) = ms_desired s" "ms_live (f s) = ms_live s" for s
    by (simp_all add: f_def)
  have db': "db' = db\<lparr>md_streams := update_where (\<lambda>s. ms_id s = sid) f (md_streams db)\<rparr>"
    using assms(2) False by (auto simp: UpdateMarketDataStreamActualState_def Let_def f_def split: if_splits)
  have "map ms_id (md_streams db') = map ms_id (md_streams db)" "map ms_key (md_streams db') = map ms_key (md_streams db)"
    by (simp_all add: db' update_where_keys f)
  moreover have nm: "stream_names db' = stream_names db" by (simp add: stream_names_def db' image_update_where f)
  moreover have dm: "demand_of i db' = demand_of i db" for i by (rule demand_frame) (simp_all add: db')
  have "agg_ok now db' s = agg_ok now db s" "agg_ok now db' (f s) = agg_ok now db s" for s
    using agg_frame [OF dm] agg_same_row [of "f s" s now db'] f by simp_all
  moreover have "ids_ok db' = ids_ok db" "active_ok db' = active_ok db" by (simp_all add: ids_ok_def active_ok_def db')
  ultimately show ?thesis using assms(1)
    by (auto simp: inv_but_def streams_ok_def keys_ok_def refs_ok_def db' ball_update_where f)
qed (use assms in simp)

text \<open>Historical requests share the sequence of ids with the live ones and have their own windows.\<close>

definition history_ok :: "market_db \<Rightarrow> bool" where
  "history_ok db \<longleftrightarrow> (\<forall>a\<in>set (md_histories db). hr_start a < hr_end a \<and> (\<forall>b\<in>set (md_histories db).
     same_window (hr_user_id a) (hr_key a) (hr_start a) (hr_end a) b \<and> hr_status a \<noteq> HistoryCancelled \<longrightarrow> hr_id a = hr_id b))"

lemma inv_histories:
  assumes "inv_but now S db" "ids_ok db'" "md_streams db' = md_streams db" "md_requests db' = md_requests db"
    "md_leases db' = md_leases db" "md_stream_seq db' = md_stream_seq db"
  shows "inv_but now S db'"
proof -
  have "agg_ok now db' s = agg_ok now db s" for s
    by (rule agg_frame, rule demand_frame) (simp_all add: assms)
  moreover have "active_ok db' = active_ok db" "stream_names db' = stream_names db"
    by (simp_all add: active_ok_def stream_names_def assms)
  ultimately show ?thesis using assms by (simp add: inv_but_def streams_ok_def refs_ok_def)
qed

lemma update_histories:
  assumes "inv_but now S db" "\<And>r. hr_id (f r) = hr_id r"
  shows "inv_but now S (db\<lparr>md_histories := update_where P f (md_histories db)\<rparr>)"
proof (rule inv_histories [OF assms(1)])
  have "map hr_id (update_where P f (md_histories db)) = map hr_id (md_histories db)"
    by (rule update_where_keys) (rule assms)
  then show "ids_ok (db\<lparr>md_histories := update_where P f (md_histories db)\<rparr>)"
    using assms(1) by (simp add: inv_but_def ids_ok_def flip: set_map)
qed simp_all

lemma history_okD:
  "history_ok db \<Longrightarrow> a \<in> set (md_histories db) \<Longrightarrow> b \<in> set (md_histories db) \<Longrightarrow>
   same_window (hr_user_id a) (hr_key a) (hr_start a) (hr_end a) b \<and> hr_status a \<noteq> HistoryCancelled \<Longrightarrow> hr_id a = hr_id b"
  unfolding history_ok_def by blast

text \<open>An update that keeps the window and, where it can wake a cancelled row, finds no other one.\<close>
lemma history_ok_update:
  assumes "history_ok db" "ids_ok db"
    and f: "\<And>r. hr_id (f r) = hr_id r" "\<And>r. hr_user_id (f r) = hr_user_id r" "\<And>r. hr_key (f r) = hr_key r"
      "\<And>r. hr_start (f r) = hr_start r" "\<And>r. hr_end (f r) = hr_end r"
    and wake: "\<And>r x. r \<in> set (md_histories db) \<Longrightarrow> P r \<Longrightarrow> hr_status (f r) \<noteq> HistoryCancelled \<Longrightarrow> x \<in> set (md_histories db) \<Longrightarrow>
       hr_id x \<noteq> hr_id r \<Longrightarrow> \<not> same_window (hr_user_id r) (hr_key r) (hr_start r) (hr_end r) x"
    and one: "\<And>r x. r \<in> set (md_histories db) \<Longrightarrow> P r \<Longrightarrow> x \<in> set (md_histories db) \<Longrightarrow> P x \<Longrightarrow> hr_id r = hr_id x"
  shows "history_ok (db\<lparr>md_histories := update_where P f (md_histories db)\<rparr>)"
proof -
  let ?g = "\<lambda>r. if P r then f r else r"
  have g: "hr_id (?g r) = hr_id r" "hr_user_id (?g r) = hr_user_id r" "hr_key (?g r) = hr_key r"
      "hr_start (?g r) = hr_start r" "hr_end (?g r) = hr_end r" for r by (simp_all add: f)
  have "hr_id a = hr_id b" if a: "a \<in> set (md_histories db)" and b: "b \<in> set (md_histories db)"
    and w: "hr_user_id a = hr_user_id b" "hr_key a = hr_key b" "hr_start a = hr_start b" "hr_end a = hr_end b"
    and live: "hr_status (?g a) \<noteq> HistoryCancelled" "hr_status (?g b) \<noteq> HistoryCancelled" for a b
  proof (cases "P a \<or> P b")
    case False
    then have "same_window (hr_user_id a) (hr_key a) (hr_start a) (hr_end a) b \<and> hr_status a \<noteq> HistoryCancelled"
      using w live by (simp add: same_window_def)
    then show ?thesis using history_okD [OF assms(1) a b] by blast
  next
    case True
    then show ?thesis
      using wake [OF a _ _ b] wake [OF b _ _ a] one [OF a _ b] w live
      by (cases "hr_id a = hr_id b") (auto simp: same_window_def split: if_splits)
  qed
  note pair = this
  have "hr_id a = hr_id b" if ab: "a \<in> set (update_where P f (md_histories db))" "b \<in> set (update_where P f (md_histories db))"
    "same_window (hr_user_id a) (hr_key a) (hr_start a) (hr_end a) b" "hr_status a \<noteq> HistoryCancelled" for a b
  proof -
    obtain a0 b0 where o: "a0 \<in> set (md_histories db)" "b0 \<in> set (md_histories db)" "a = ?g a0" "b = ?g b0"
      using ab(1,2) by (auto simp only: update_where_def set_map)
    have "hr_id a0 = hr_id b0"
      by (rule pair [OF o(1,2)]) (use ab(3,4) in \<open>simp_all only: o(3,4) same_window_def g simp_thms\<close>)
    then show ?thesis by (simp only: o(3,4) g)
  qed
  moreover have "hr_start a < hr_end a" if "a \<in> set (update_where P f (md_histories db))" for a
    using that assms(1) unfolding update_where_def set_map history_ok_def by (elim imageE) (simp only: g)
  ultimately show ?thesis by (simp add: history_ok_def)
qed


lemma UpsertMarketDataHistoryRequest_inv:
  assumes "inv_but now S db" "history_ok db" "UpsertMarketDataHistoryRequest now uid pid key s e db = (db', res)"
  shows "inv_but now S db' \<and> history_ok db'"
proof -
  have ids: "ids_ok db" using assms(1) by (simp add: inv_but_def)
  show ?thesis
  proof (cases "filter (same_window uid key s e) (md_histories db)")
    case (Cons old rest)
    let ?f = "\<lambda>r. r\<lparr>hr_portfolio_id := or_keep pid (hr_portfolio_id r),
                      hr_status := (if hr_status r = HistoryError then HistoryPending else hr_status r),
                      hr_last_error := (if hr_status r = HistoryError then '''' else hr_last_error r),
                      hr_updated_at := now\<rparr>"
    let ?db1 = "db\<lparr>md_histories := update_where (\<lambda>r. hr_id r = hr_id old) ?f (md_histories db)\<rparr>"
    have old: "old \<in> set (md_histories db)" "same_window uid key s e old" using Cons by (auto simp: filter_eq_Cons_iff)
    have one: "r = old" if "r \<in> set (md_histories db)" "hr_id r = hr_id old" for r
      using keys_ok_same [OF ids_ok_requests(2) [OF ids] that(1) old(1) that(2)] .
    have "\<not> same_window (hr_user_id r) (hr_key r) (hr_start r) (hr_end r) x"
      if "r \<in> set (md_histories db)" "hr_id r = hr_id old" "x \<in> set (md_histories db)" "hr_id x \<noteq> hr_id r" for r x
      using history_okD [OF assms(2) old(1) that(3)] one [OF that(1,2)] old(2) that(4) by (auto simp: same_window_def)
    then have "history_ok ?db1" by (intro history_ok_update assms(2) ids) auto
    moreover have "inv_but now S ?db1" by (rule update_histories [OF assms(1)]) simp
    moreover have "db' = ?db1" using assms(3) Cons by (simp add: UpsertMarketDataHistoryRequest_def Let_def)
    ultimately show ?thesis by simp
  next
    case Nil
    show ?thesis
    proof (cases "s < e")
      case True
      let ?new = "\<lparr>hr_id = md_request_seq db, hr_user_id = uid, hr_portfolio_id = pid, hr_key = key, hr_status = HistoryPending,
                   hr_start = s, hr_end = e, hr_covered_start = None, hr_covered_end = None, hr_last_error = '''',
                   hr_created_at = now, hr_updated_at = now, hr_cancelled_at = None\<rparr>"
      let ?db1 = "db\<lparr>md_histories := md_histories db @ [?new], md_request_seq := md_request_seq db + 1\<rparr>"
      have "ids_ok ?db1" using fresh_id(2) [OF ids [unfolded ids_ok_def]] by (simp add: ids_ok_def)
      then have "inv_but now S ?db1" by (rule inv_histories [OF assms(1)]) simp_all
      moreover have none: "\<not> same_window uid key s e x" if "x \<in> set (md_histories db)" for x
        using Nil that by (simp add: filter_empty_conv)
      have "history_ok ?db1" unfolding history_ok_def
      proof (intro ballI conjI impI)
        fix a assume a: "a \<in> set (md_histories ?db1)"
        then show "hr_start a < hr_end a" using True assms(2) by (auto simp: history_ok_def)
        fix b assume b: "b \<in> set (md_histories ?db1)"
          and w: "same_window (hr_user_id a) (hr_key a) (hr_start a) (hr_end a) b \<and> hr_status a \<noteq> HistoryCancelled"
        consider "a \<in> set (md_histories db)" "b \<in> set (md_histories db)" | "a = ?new" "b = ?new"
          using a b w none by (auto simp: same_window_def)
        then show "hr_id a = hr_id b"
          by cases (use history_okD [OF assms(2) _ _ w] in blast, simp)
      qed
      moreover have "db' = ?db1" using assms(3) Nil True by (simp add: UpsertMarketDataHistoryRequest_def Let_def)
      ultimately show ?thesis by simp
    next
      case False
      then show ?thesis using assms Nil by (simp add: UpsertMarketDataHistoryRequest_def)
    qed
  qed
qed

lemma CancelMarketDataHistoryRequest_inv:
  assumes "inv_but now S db" "history_ok db" "CancelMarketDataHistoryRequest now rid uid db = (db', res)"
  shows "inv_but now S db' \<and> history_ok db'"
proof (cases "db' = db")
  case False
  let ?P = "\<lambda>r. hr_id r = rid \<and> hr_status r \<noteq> HistoryCancelled"
  let ?f = "\<lambda>r. r\<lparr>hr_status := HistoryCancelled, hr_cancelled_at := Some now, hr_updated_at := now\<rparr>"
  have db': "db' = db\<lparr>md_histories := update_where ?P ?f (md_histories db)\<rparr>"
    using assms(3) False by (auto simp: CancelMarketDataHistoryRequest_def split: sum.splits if_splits)
  have "ids_ok db" using assms(1) by (simp add: inv_but_def)
  then have "history_ok db'" unfolding db' by (intro history_ok_update assms(2)) auto
  moreover have "inv_but now S db'" unfolding db' by (rule update_histories [OF assms(1)]) simp
  ultimately show ?thesis by simp
qed (use assms in simp)

lemma UpdateMarketDataHistoryRequestState_inv:
  assumes "inv_but now S db" "history_ok db" "UpdateMarketDataHistoryRequestState now rid status cs ce lastErr db = (db', res)"
  shows "inv_but now S db' \<and> history_ok db'"
proof (cases "db' = db")
  case False
  let ?f = "\<lambda>r. r\<lparr>hr_status := status, hr_covered_start := cs, hr_covered_end := ce, hr_last_error := lastErr,
                       hr_updated_at := now\<rparr>"
  have ids: "ids_ok db" using assms(1) by (simp add: inv_but_def)
  obtain r where r: "select_one (\<lambda>r. hr_id r = rid) (md_histories db) = Inr r"
    and wake: "status = HistoryCancelled \<or> \<not> list_ex (\<lambda>x. hr_id x \<noteq> rid \<and> same_window (hr_user_id r) (hr_key r) (hr_start r) (hr_end r) x) (md_histories db)"
    and db': "db' = db\<lparr>md_histories := update_where (\<lambda>r. hr_id r = rid) ?f (md_histories db)\<rparr>"
    using assms(3) False by (auto simp: UpdateMarketDataHistoryRequestState_def Let_def split: sum.splits if_splits)
  then have mem: "r \<in> set (md_histories db)" "hr_id r = rid" by (auto simp: select_one_def filter_eq_Cons_iff split: list.splits)
  have one: "x = r" if "x \<in> set (md_histories db)" "hr_id x = rid" for x
    using keys_ok_same [OF ids_ok_requests(2) [OF ids] that(1) mem(1)] that(2) mem(2) by simp
  have "\<not> same_window (hr_user_id y) (hr_key y) (hr_start y) (hr_end y) x"
    if "y \<in> set (md_histories db)" "hr_id y = rid" "status \<noteq> HistoryCancelled" "x \<in> set (md_histories db)" "hr_id x \<noteq> hr_id y" for x y
    using wake that one [OF that(1,2)] by (auto simp: list_ex_iff)
  then have "history_ok db'" unfolding db' by (intro history_ok_update assms(2) ids) auto
  moreover have "inv_but now S db'" unfolding db' by (rule update_histories [OF assms(1)]) simp
  ultimately show ?thesis by simp
qed (use assms in simp)


section \<open>Reachable states\<close>

text \<open>A step is one transaction; the clock of the database does not go back.\<close>

inductive market_step :: "go_time \<times> market_db \<Rightarrow> go_time \<times> market_db \<Rightarrow> bool" where
  ask: "t \<le> now \<Longrightarrow> market_step (t, db) (now, fst (UpsertMarketDataRequest now uid pid key needsLive db))"
| cancel: "t \<le> now \<Longrightarrow> market_step (t, db) (now, fst (CancelMarketDataRequest_row now rid uid db))"
| lease: "t \<le> now \<Longrightarrow> market_step (t, db) (now, fst (CreateOrRenewLease wall now session strategy pid sid ttl db))"
| release: "t \<le> now \<Longrightarrow> market_step (t, db) (now, fst (ReleaseLease now session sid db))"
| expire: "t \<le> now \<Longrightarrow> market_step (t, db) (now, fst (ExpireStaleLeases at now db))"
| report: "t \<le> now \<Longrightarrow> market_step (t, db) (now, fst (UpdateMarketDataStreamActualState now sid state lastData lastErr db))"
| ask_history: "t \<le> now \<Longrightarrow> market_step (t, db) (now, fst (UpsertMarketDataHistoryRequest now uid pid key s e db))"
| cancel_history: "t \<le> now \<Longrightarrow> market_step (t, db) (now, fst (CancelMarketDataHistoryRequest now rid uid db))"
| report_history: "t \<le> now \<Longrightarrow> market_step (t, db) (now, fst (UpdateMarketDataHistoryRequestState now rid status cs ce lastErr db))"

inductive_cases market_stepE: "market_step (t, db) (now, db')"

definition empty_db :: market_db where
  "empty_db = \<lparr>md_streams = [], md_stream_seq = 1, md_requests = [], md_histories = [], md_request_seq = 1, md_leases = [],
     md_lease_seq = 1, md_subs = [], md_sub_seq = 1, md_dleases = [], md_failures = [], md_failure_seq = 1, md_writers = []\<rparr>"

lemma empty_inv: "market_inv now empty_db" "history_ok empty_db"
  by (simp_all add: empty_db_def market_inv_def streams_ok_def keys_ok_def refs_ok_def ids_ok_def active_ok_def history_ok_def)

lemma other_ops_histories:
  "md_histories (fst (UpsertMarketDataRequest now uid pid key needsLive db)) = md_histories db"
  "md_histories (fst (CancelMarketDataRequest_row now rid uid db)) = md_histories db"
  "md_histories (fst (CreateOrRenewLease wall now session strategy pid sid ttl db)) = md_histories db"
  "md_histories (fst (ReleaseLease now session sid db)) = md_histories db"
  "md_histories (fst (UpdateMarketDataStreamActualState now sid state lastData lastErr db)) = md_histories db"
  by (auto simp: UpsertMarketDataRequest_def UpsertMarketDataStream_def Let_def CancelMarketDataRequest_row_def
      CreateOrRenewLease_def ReleaseLease_def UpdateMarketDataStreamActualState_def recompute_Inr recompute_streams
      split: list.split sum.split)

lemma recompute_all_histories: "recompute_all now sids db = Inr db' \<Longrightarrow> md_histories db' = md_histories db"
  by (induction sids arbitrary: db) (auto simp: bind_res_Inr recompute_Inr recompute_streams)

lemma ExpireStaleLeases_histories: "md_histories (fst (ExpireStaleLeases at now db)) = md_histories db"
  by (auto simp: ExpireStaleLeases_def Let_def dest: recompute_all_histories split: sum.split)

lemma history_ok_same: "md_histories db' = md_histories db \<Longrightarrow> history_ok db' = history_ok db"
  by (simp add: history_ok_def)

lemma market_step_inv:
  assumes "market_step (t, db) (now, db')" "inv_but t S db" "history_ok db"
  shows "inv_but now S db' \<and> history_ok db'"
proof -
  from assms(1) have "t \<le> now" by (auto elim: market_stepE)
  then have inv: "inv_but now S db" using assms(2) inv_but_later by blast
  note same = assms(3) other_ops_histories [THEN history_ok_same] ExpireStaleLeases_histories [THEN history_ok_same]
  from assms(1) show ?thesis
  proof (cases rule: market_step.cases)
    case ask_history
    then show ?thesis using UpsertMarketDataHistoryRequest_inv [OF inv assms(3) surjective_pairing] by simp
  next
    case cancel_history
    then show ?thesis using CancelMarketDataHistoryRequest_inv [OF inv assms(3) surjective_pairing] by simp
  next
    case report_history
    then show ?thesis using UpdateMarketDataHistoryRequestState_inv [OF inv assms(3) surjective_pairing] by simp
  next
    case ask
    then show ?thesis using UpsertMarketDataRequest_inv [OF inv surjective_pairing] same by simp
  next
    case cancel
    then show ?thesis using CancelMarketDataRequest_inv [OF inv surjective_pairing] same by simp
  next
    case lease
    then show ?thesis using CreateOrRenewLease_inv [OF inv surjective_pairing] same by simp
  next
    case release
    then show ?thesis using ReleaseLease_inv [OF inv surjective_pairing] same by simp
  next
    case expire
    then show ?thesis using ExpireStaleLeases_inv [OF inv surjective_pairing] same by simp
  next
    case report
    then show ?thesis using UpdateMarketDataStreamActualState_inv [OF inv surjective_pairing] same by simp
  qed
qed

lemma market_reach:
  "market_step\<^sup>*\<^sup>* c c' \<Longrightarrow> market_inv (fst c) (snd c) \<and> history_ok (snd c) \<Longrightarrow> market_inv (fst c') (snd c') \<and> history_ok (snd c')"
proof (induction rule: rtranclp_induct)
  case (step y z)
  then show ?case using market_step_inv [of "fst y" "snd y" "fst z" "snd z" "{}"] by (simp add: inv_but_none)
qed simp


text \<open>Whatever transactions ran since the empty database, one after the other: a stream is wanted
  (\<open>desired_state = running\<close>) exactly while a request on it is not cancelled, live delivery is on
  whenever a live request or an unexpired lease asks for it, and is on only when a live request or a
  lease that was not released asks for it; keys and ids are unique, a user has at most one active
  request per key and one per historical window, and every request and lease names a stream that exists
  (with the request's own key).\<close>
theorem market_store_invariant:
  assumes "market_step\<^sup>*\<^sup>* (t0, empty_db) (t, db)"
  shows "market_inv t db \<and> history_ok db"
  using market_reach [OF assms] empty_inv by simp

definition btc_1m :: market_stream_key where
  "btc_1m = \<lparr>mk_exchange = ''binance'', mk_market = ''spot'', mk_kind = ''kline'', mk_symbol = ''BTCUSDT'', mk_interval = ''1m''\<rparr>"

definition asked_db :: market_db where "asked_db = fst (UpsertMarketDataRequest 10 7 None btc_1m True empty_db)"

lemma asked_db_value: "asked_db = empty_db\<lparr>
    md_streams := [\<lparr>ms_id = 1, ms_key = btc_1m, ms_desired = DesiredRunning, ms_actual = ''pending'', ms_live = True,
       ms_last_data_at = None, ms_last_error = '''', ms_last_reconciled_at = None, ms_created_at = 10, ms_updated_at = 10\<rparr>],
    md_stream_seq := 2,
    md_requests := [\<lparr>mr_id = 1, mr_user_id = 7, mr_portfolio_id = None, mr_stream_id = 1, mr_key = btc_1m, mr_needs_live = True,
       mr_status = RequestActive, mr_created_at = 10, mr_updated_at = 10, mr_cancelled_at = None\<rparr>],
    md_request_seq := 2\<rparr>"
  by (simp add: asked_db_def UpsertMarketDataRequest_def UpsertMarketDataStream_def empty_db_def Let_def new_stream_def
      recomputeMarketDataStreamAggregate_def recompute_from_def recompute_row_def update_where_def has_request_def has_live_request_def)

theorem market_store_invariant_witness: "market_inv 10 asked_db \<and> history_ok asked_db"
  by (rule market_store_invariant [of 0], rule r_into_rtranclp, unfold asked_db_def, rule ask) simp

section \<open>Concurrent cancellations\<close>

text \<open>
  Two cancellations of the last two requests of a stream overlap under READ COMMITTED. Each statement
  reads the snapshot taken when it started: neither sees the other's cancellation, and the second waits
  for the row of the stream, then writes the value its own subqueries gave.
\<close>
definition concurrent_cancels :: "go_time \<Rightarrow> int \<Rightarrow> int \<Rightarrow> int \<Rightarrow> market_db \<Rightarrow> market_db" where
  "concurrent_cancels now sid a b db =
     (let seen_a = db\<lparr>md_requests := cancel_request_row now a (md_requests db)\<rparr>;
          seen_b = db\<lparr>md_requests := cancel_request_row now b (md_requests db)\<rparr>;
          both = db\<lparr>md_requests := cancel_request_row now b (cancel_request_row now a (md_requests db))\<rparr>
      in recompute_from now seen_b sid (recompute_from now seen_a sid both))"

text \<open>When the last two active requests of a stream are cancelled by overlapping transactions,
  the stream stays \<open>running\<close> although no request wants it any more.\<close>
theorem concurrent_cancels_leave_stream_running:
  assumes reqs: "md_requests db = [a, b]" "mr_id a \<noteq> mr_id b" "mr_stream_id a = sid" "mr_stream_id b = sid"
    and active: "mr_status a \<noteq> RequestCancelled" "mr_status b \<noteq> RequestCancelled"
    and stream: "s \<in> set (md_streams db)" "ms_id s = sid"
    and final_def: "final = concurrent_cancels now sid (mr_id a) (mr_id b) db"
  shows "\<not> has_request sid final \<and> (\<exists>x\<in>set (md_streams final). ms_id x = sid \<and> ms_desired x = DesiredRunning)"
proof
  show "\<not> has_request sid final"
    using assms(1-6) by (simp add: final_def concurrent_cancels_def Let_def has_request_def recompute_streams cancel_request_row_def update_where_def)
  let ?b = "db\<lparr>md_requests := cancel_request_row now (mr_id b) (md_requests db)\<rparr>"
  have "has_request sid ?b"
    using assms(1-6) by (simp add: has_request_def cancel_request_row_def update_where_def)
  then have "ms_desired (recompute_row now ?b x) = DesiredRunning" if "ms_id x = sid" for x
    using that by (simp add: recompute_row_def)
  moreover let ?a = "db\<lparr>md_requests := cancel_request_row now (mr_id a) (md_requests db)\<rparr>"
  have upd: "x \<in> set t \<Longrightarrow> P x \<Longrightarrow> f x \<in> set (update_where P f t)" for P f t and x :: market_stream
    by (simp add: set_update_where)
  have "recompute_row now ?b (recompute_row now ?a s) \<in> set (md_streams final)"
    unfolding final_def concurrent_cancels_def Let_def recompute_streams using stream by (intro upd) simp_all
  ultimately show "\<exists>x\<in>set (md_streams final). ms_id x = sid \<and> ms_desired x = DesiredRunning"
    using stream(2) by (metis recompute_row_simps(1))
qed

definition two_requests :: market_db where
  "two_requests = asked_db\<lparr>md_requests := md_requests asked_db @ [(hd (md_requests asked_db))\<lparr>mr_id := 2, mr_user_id := 8\<rparr>]\<rparr>"

theorem concurrent_cancels_leave_stream_running_witness:
  "\<not> has_request 1 (concurrent_cancels 20 1 1 2 two_requests) \<and>
   (\<exists>x\<in>set (md_streams (concurrent_cancels 20 1 1 2 two_requests)). ms_id x = 1 \<and> ms_desired x = DesiredRunning)"
  using concurrent_cancels_leave_stream_running [of two_requests "hd (md_requests asked_db)"
      "(hd (md_requests asked_db))\<lparr>mr_id := 2, mr_user_id := 8\<rparr>" 1 "hd (md_streams asked_db)" "concurrent_cancels 20 1 1 2 two_requests" 20]
  by (simp add: two_requests_def asked_db_value)

section \<open>Cancelled requests and state reports\<close>

text \<open>A cancelled historical request does not stay cancelled: a worker's state report is written
  over it whenever the user has no other request for the same window.\<close>
theorem report_revives_cancelled_history:
  assumes "select_one (\<lambda>r. hr_id r = rid) (md_histories db) = Inr r" "hr_status r = HistoryCancelled"
    and "\<not> list_ex (\<lambda>x. hr_id x \<noteq> rid \<and> same_window (hr_user_id r) (hr_key r) (hr_start r) (hr_end r) x) (md_histories db)"
  shows "snd (UpdateMarketDataHistoryRequestState now rid HistoryReady cs ce lastErr db) =
    Inr (r\<lparr>hr_status := HistoryReady, hr_covered_start := cs, hr_covered_end := ce, hr_last_error := lastErr, hr_updated_at := now\<rparr>)"
proof -
  obtain pre post where db: "md_histories db = pre @ r # post" "\<forall>x\<in>set pre. hr_id x \<noteq> rid" "hr_id r = rid"
    using assms(1) by (auto simp: select_one_def filter_eq_Cons_iff split: list.splits)
  show ?thesis using assms db
    by (simp add: UpdateMarketDataHistoryRequestState_def Let_def getMarketDataHistoryRequest_def select_one_def
        update_where_def filter_empty_conv)
qed

definition cancelled_window :: market_db where
  "cancelled_window = fst (CancelMarketDataHistoryRequest 20 1 7 (fst (UpsertMarketDataHistoryRequest 10 7 None btc_1m 1 2 empty_db)))"

theorem report_revives_cancelled_history_witness:
  "is_ok (snd (UpdateMarketDataHistoryRequestState 30 1 HistoryReady (Some 1) (Some 2) '''' cancelled_window))"
proof -
  have c: "md_histories cancelled_window = [\<lparr>hr_id = 1, hr_user_id = 7, hr_portfolio_id = None, hr_key = btc_1m,
      hr_status = HistoryCancelled, hr_start = 1, hr_end = 2, hr_covered_start = None, hr_covered_end = None, hr_last_error = '''',
      hr_created_at = 10, hr_updated_at = 20, hr_cancelled_at = Some 20\<rparr>]"
    by (simp add: cancelled_window_def UpsertMarketDataHistoryRequest_def CancelMarketDataHistoryRequest_def empty_db_def Let_def
        update_where_def select_one_def)
  show ?thesis
    using report_revives_cancelled_history [of 1 cancelled_window "hd (md_histories cancelled_window)" 30 "Some 1" "Some 2" "''''"]
    by (simp add: c select_one_def)
qed

end
