(* ===== verification/ExclusiveLease.thy ===== *)
theory ExclusiveLease
  imports Tables
begin

text \<open>
  The contract of a lease table: at most one holder per key, taken by \<open>acquire\<close> (an upsert whose
  \<open>WHERE\<close> clause admits the owner itself or an expired row) and given up by \<open>release\<close>. A request to
  acquire carries its instant, its key and the one who asks. The contract is stated for any state and
  is discharged for the delivery leases and the writer leases of the market-data store.
\<close>

inductive foreign_step ::
  "('q \<Rightarrow> 's \<Rightarrow> 's \<times> 'r result) \<Rightarrow> ('p \<Rightarrow> 's \<Rightarrow> 's \<times> unit result) \<Rightarrow> ('q \<Rightarrow> go_time) \<Rightarrow> ('q \<Rightarrow> string) \<Rightarrow> ('p \<Rightarrow> string) \<Rightarrow>
   string \<Rightarrow> go_time \<Rightarrow> 's \<Rightarrow> 's \<Rightarrow> bool"
  for acquire release at who rwho me until where
  take: "who q \<noteq> me \<Longrightarrow> at q < until \<Longrightarrow> foreign_step acquire release at who rwho me until s (fst (acquire q s))"
| give: "rwho p \<noteq> me \<Longrightarrow> foreign_step acquire release at who rwho me until s (fst (release p s))"

locale exclusive_lease =
  fixes inv :: "'s \<Rightarrow> bool"
    and holder :: "'s \<Rightarrow> 'k \<Rightarrow> (string \<times> go_time) option"
    and acquire :: "'q \<Rightarrow> 's \<Rightarrow> 's \<times> 'r result"
    and release :: "'p \<Rightarrow> 's \<Rightarrow> 's \<times> unit result"
    and at :: "'q \<Rightarrow> go_time" and what :: "'q \<Rightarrow> 'k" and who :: "'q \<Rightarrow> string" and until :: "'q \<Rightarrow> go_time"
    and rwho :: "'p \<Rightarrow> string"
  assumes acquire_inv: "inv s \<Longrightarrow> inv (fst (acquire q s))"
    and release_inv: "inv s \<Longrightarrow> inv (fst (release p s))"
    and acquire_fails: "snd (acquire q s) = Inl e \<Longrightarrow> fst (acquire q s) = s"
    and acquire_ok: "inv s \<Longrightarrow> snd (acquire q s) = Inr r \<Longrightarrow>
       holder (fst (acquire q s)) = (holder s)(what q \<mapsto> (who q, until q))"
    and acquire_guard: "inv s \<Longrightarrow> snd (acquire q s) = Inr r \<Longrightarrow> holder s (what q) = Some (me, t) \<Longrightarrow> me = who q \<or> t \<le> at q"
    and release_own: "inv s \<Longrightarrow> holder s k = Some (me, t) \<Longrightarrow> rwho p \<noteq> me \<Longrightarrow> holder (fst (release p s)) k = Some (me, t)"
begin

lemma not_displaced:
  assumes "inv s" "holder s k = Some (me, t)" "who q \<noteq> me" "at q < t"
  shows "holder (fst (acquire q s)) k = Some (me, t)"
proof (cases "snd (acquire q s)")
  case (Inl e)
  then show ?thesis using acquire_fails assms by simp
next
  case (Inr r)
  have "what q \<noteq> k" using acquire_guard [OF assms(1) Inr, of me t] assms(2-4) by auto
  then show ?thesis using acquire_ok [OF assms(1) Inr] assms(2) by simp
qed

lemma refused:
  assumes "inv s" "holder s (what q) = Some (me, t)" "who q \<noteq> me" "at q < t"
  shows "\<exists>e. acquire q s = (s, Inl e)"
proof (cases "snd (acquire q s)")
  case (Inl e)
  then show ?thesis using acquire_fails [OF Inl] by (metis surjective_pairing)
next
  case (Inr r)
  then show ?thesis using acquire_guard [OF assms(1) Inr assms(2)] assms(3,4) by simp
qed

text \<open>Whatever the others acquire or release before the expiry, the holder keeps the key.\<close>
lemma holder_kept:
  assumes "(foreign_step acquire release at who rwho me t)\<^sup>*\<^sup>* s s'" "inv s" "holder s k = Some (me, t)"
  shows "inv s' \<and> holder s' k = Some (me, t)"
  using assms
proof (induction rule: rtranclp_induct)
  case (step y z)
  then have y: "inv y" "holder y k = Some (me, t)" by simp_all
  from step(2) show ?case
    by cases (use y acquire_inv release_inv not_displaced release_own in auto)
qed simp

end

end
