(* ===== verification/MarketLeases.thy ===== *)
theory MarketLeases
  imports MarketStore ExclusiveLease
begin

text \<open>
  The delivery side of \<open>internal/marketdata/repository/timescale.go\<close>: session subscriptions, stream
  delivery leases with their progress and failures, and writer leases (migrations 0017, 0018, 0022,
  0024, 0027). A lease id (\<open>uuid\<close>) is an argument. Both kinds of lease satisfy the contract of
  \<open>exclusive_lease\<close>.
\<close>

abbreviation LeaseActive :: string where "LeaseActive \<equiv> ''active''"
abbreviation LeaseReleased :: string where "LeaseReleased \<equiv> ''released''"

section \<open>Session subscriptions\<close>

definition same_sub :: "string \<Rightarrow> market_stream_key \<Rightarrow> int \<Rightarrow> session_subscription \<Rightarrow> bool" where
  "same_sub session key env s \<longleftrightarrow> ss_status s = LeaseActive \<and> ss_session_id s = session \<and> ss_key s = key \<and> ss_environment s = env"

definition upsert_subscription ::
  "go_time \<Rightarrow> int \<Rightarrow> string \<Rightarrow> string \<Rightarrow> int \<Rightarrow> market_stream_key \<Rightarrow> market_db \<Rightarrow> market_db \<times> session_subscription" where
  "upsert_subscription now uid session rid env key db =
     (let f = (\<lambda>s. s\<lparr>ss_user_id := uid, ss_runtime_id := rid, ss_updated_at := now\<rparr>) in
      case filter (same_sub session key env) (md_subs db) of
        s # _ \<Rightarrow> (db\<lparr>md_subs := update_where (same_sub session key env) f (md_subs db)\<rparr>, f s)
      | [] \<Rightarrow> (let s = \<lparr>ss_id = md_sub_seq db, ss_user_id = uid, ss_session_id = session, ss_runtime_id = rid, ss_key = key,
              ss_environment = env, ss_status = LeaseActive, ss_created_at = now, ss_updated_at = now, ss_released_at = None\<rparr>
             in (db\<lparr>md_subs := md_subs db @ [s], md_sub_seq := md_sub_seq db + 1\<rparr>, s)))"

text \<open>The \<open>CHECK\<close> constraints of the table; one refused row rolls the transaction back.\<close>
definition sub_row_ok :: "market_stream_key \<Rightarrow> bool" where
  "sub_row_ok key \<longleftrightarrow> valid_market (mk_market key) \<and> valid_writer_kind (mk_kind key)"

fun upsert_subs ::
  "go_time \<Rightarrow> int \<Rightarrow> string \<Rightarrow> string \<Rightarrow> int \<Rightarrow> market_stream_key list \<Rightarrow> market_db \<Rightarrow> (market_db \<times> session_subscription list) result" where
  "upsert_subs now uid session rid env [] db = Inr (db, [])"
| "upsert_subs now uid session rid env (key # keys) db =
     (if \<not> sub_row_ok key then Inl (Plain ''check constraint violation'')
      else let (db1, s) = upsert_subscription now uid session rid env key db
           in bind_res (upsert_subs now uid session rid env keys db1) (\<lambda>(db2, ss). Inr (db2, s # ss)))"

definition UpsertSessionMarketDataSubscriptions ::
  "go_time \<Rightarrow> int \<Rightarrow> string \<Rightarrow> string \<Rightarrow> int \<Rightarrow> market_stream_key list \<Rightarrow> market_db \<Rightarrow> market_db \<times> session_subscription list result" where
  "UpsertSessionMarketDataSubscriptions now uid session rid env keys db =
     (case upsert_subs now uid session rid env keys db of
        Inl e \<Rightarrow> (db, Inl e)
      | Inr (db', ss) \<Rightarrow> (db', Inr ss))"

definition ReleaseSessionMarketDataSubscriptions_rows :: "go_time \<Rightarrow> string \<Rightarrow> string \<Rightarrow> market_db \<Rightarrow> market_db \<times> int" where
  "ReleaseSessionMarketDataSubscriptions_rows now session rid db =
     (let hit = (\<lambda>s. ss_session_id s = session \<and> (rid = '''' \<or> ss_runtime_id s = rid) \<and> ss_status s = LeaseActive)
      in (db\<lparr>md_subs := update_where hit
             (\<lambda>s. s\<lparr>ss_status := LeaseReleased, ss_released_at := Some now, ss_updated_at := now\<rparr>) (md_subs db)\<rparr>,
          int (length (filter hit (md_subs db)))))"

text \<open>The join with \<open>runtime_registry\<close>: \<open>reg\<close> holds its rows.\<close>
definition ListActiveSessionMarketDataSubscriptions :: "runtime list \<Rightarrow> market_db \<Rightarrow> session_subscription list" where
  "ListActiveSessionMarketDataSubscriptions reg db = sort_key ss_id (filter (\<lambda>s. ss_status s = LeaseActive \<and>
     list_ex (\<lambda>r. RuntimeID r = ss_runtime_id s \<and> UserID r = ss_user_id s \<and>
        RtStatus r \<notin> {RuntimeStatusHeartbeatStale, RuntimeStatusEnded, RuntimeStatusCancelled, RuntimeStatusFailed}) reg) (md_subs db))"

section \<open>Delivery leases\<close>

definition lease_ttl_or_default :: "duration \<Rightarrow> duration" where
  "lease_ttl_or_default ttl = (if ttl \<le> 0 then 90 * second else ttl)"

abbreviation dl_active :: "delivery_lease \<Rightarrow> bool" where "dl_active l \<equiv> dl_status l = LeaseActive"

definition CreateOrRenewStreamDeliveryLease_row ::
  "go_time \<Rightarrow> go_time \<Rightarrow> string \<Rightarrow> int \<Rightarrow> string \<Rightarrow> duration \<Rightarrow> market_db \<Rightarrow> market_db \<times> delivery_lease result" where
  "CreateOrRenewStreamDeliveryLease_row now wall leaseID sub owner ttl db =
     (let expires = wall + lease_ttl_or_default ttl in
      if owner = '''' then (db, Inl (Plain ''check constraint violation''))
      else case filter (\<lambda>l. dl_active l \<and> dl_subscription_id l = sub) (md_dleases db) of
        l # _ \<Rightarrow>
          if dl_owner l = owner \<or> dl_expires_at l \<le> now
          then (let f = (\<lambda>l. l\<lparr>dl_owner := owner, dl_acquired_at := (if dl_owner l = owner then dl_acquired_at l else now),
                      dl_last_heartbeat_at := now, dl_expires_at := expires, dl_updated_at := now\<rparr>)
                in (db\<lparr>md_dleases := update_where (\<lambda>l. dl_active l \<and> dl_subscription_id l = sub) f (md_dleases db)\<rparr>, Inr (f l)))
          else (db, denied)
      | [] \<Rightarrow>
          if \<not> list_ex (\<lambda>s. ss_id s = sub) (md_subs db) then (db, Inl (Plain ''foreign key constraint violation''))
          else if list_ex (\<lambda>l. dl_id l = leaseID) (md_dleases db) then (db, Inl (Plain ''duplicate key''))
          else (let l = \<lparr>dl_id = leaseID, dl_subscription_id = sub, dl_owner = owner, dl_status = LeaseActive,
                   dl_acquired_at = now, dl_last_heartbeat_at = now, dl_expires_at = expires, dl_last_delivery_at = None,
                   dl_last_topic = '''', dl_last_partition = 0, dl_last_offset = 0, dl_released_at = None,
                   dl_created_at = now, dl_updated_at = now\<rparr>
                in (db\<lparr>md_dleases := md_dleases db @ [l]\<rparr>, Inr l)))"

definition RecordStreamDeliveryProgress ::
  "go_time \<Rightarrow> int \<Rightarrow> string \<Rightarrow> string \<Rightarrow> int \<Rightarrow> int \<Rightarrow> go_time \<Rightarrow> market_db \<Rightarrow> market_db \<times> unit result" where
  "RecordStreamDeliveryProgress now sub owner topic part offset at db =
     (let hit = (\<lambda>l. dl_active l \<and> dl_subscription_id l = sub \<and> dl_owner l = owner);
          f = (\<lambda>l. l\<lparr>dl_last_delivery_at := Some at, dl_last_topic := topic, dl_last_partition := part,
                dl_last_offset := offset, dl_last_heartbeat_at := at, dl_updated_at := now\<rparr>)
      in if list_ex hit (md_dleases db) then (db\<lparr>md_dleases := update_where hit f (md_dleases db)\<rparr>, Inr ())
         else (db, not_found))"

definition fill_failure :: "go_time \<Rightarrow> delivery_failure \<Rightarrow> delivery_failure" where
  "fill_failure wall f0 =
     (let f1 = (if df_reason f0 = '''' then f0\<lparr>df_reason := ''stream delivery failed''\<rparr> else f0);
          f2 = (if is_zero (df_last_seen_at f1) then f1\<lparr>df_last_seen_at := wall\<rparr> else f1);
          f3 = (if is_zero (df_first_seen_at f2) then f2\<lparr>df_first_seen_at := df_last_seen_at f2\<rparr> else f2)
      in if df_attempt_count f3 \<le> 0 then f3\<lparr>df_attempt_count := 1\<rparr> else f3)"

definition same_failure :: "delivery_failure \<Rightarrow> delivery_failure \<Rightarrow> bool" where
  "same_failure f g \<longleftrightarrow> df_subscription_id g = df_subscription_id f \<and> df_owner g = df_owner f \<and> df_topic g = df_topic f \<and>
     df_stream_key g = df_stream_key f \<and> df_code g = df_code f"

definition RecordStreamDeliveryFailure :: "go_time \<Rightarrow> delivery_failure \<Rightarrow> market_db \<Rightarrow> market_db" where
  "RecordStreamDeliveryFailure wall failure db =
     (let f = fill_failure wall failure in
      if list_ex (same_failure f) (md_failures db)
      then db\<lparr>md_failures := update_where (same_failure f)
             (\<lambda>g. g\<lparr>df_reason := df_reason f, df_last_seen_at := df_last_seen_at f, df_attempt_count := df_attempt_count g + 1\<rparr>)
             (md_failures db)\<rparr>
      else db\<lparr>md_failures := md_failures db @ [f\<lparr>df_id := md_failure_seq db\<rparr>], md_failure_seq := md_failure_seq db + 1\<rparr>)"

text \<open>\<open>LEFT JOIN LATERAL\<close> takes the latest active lease and the latest failure of each subscription.\<close>
definition health_row :: "market_db \<Rightarrow> session_subscription \<Rightarrow> delivery_health" where
  "health_row db s = \<lparr>dh_subscription = s,
     dh_lease = first_by (\<lambda>l. - dl_updated_at l) (filter (\<lambda>l. dl_active l \<and> dl_subscription_id l = ss_id s) (md_dleases db)),
     dh_latest_failure = first_by (\<lambda>f. - df_last_seen_at f) (filter (\<lambda>f. df_subscription_id f = ss_id s) (md_failures db)),
     dh_status = '''', dh_blocked_reason = '''', dh_observed_at = zero_time\<rparr>"

definition ListSessionDeliveryHealth_rows :: "market_db \<Rightarrow> int \<Rightarrow> string \<Rightarrow> string \<Rightarrow> delivery_health list" where
  "ListSessionDeliveryHealth_rows db uid session rid = map (health_row db)
     (sort_key (\<lambda>s. - ss_updated_at s) (sort_key (\<lambda>s. - ss_id s)
       (filter (\<lambda>s. ss_user_id s = uid \<and> ss_status s = LeaseActive \<and> (session = '''' \<or> ss_session_id s = session) \<and>
          (rid = '''' \<or> ss_runtime_id s = rid)) (md_subs db))))"

definition ReleaseStreamDeliveryLease_row :: "go_time \<Rightarrow> string \<Rightarrow> string \<Rightarrow> market_db \<Rightarrow> market_db \<times> unit result" where
  "ReleaseStreamDeliveryLease_row now leaseID owner db =
     (let hit = (\<lambda>l. dl_id l = leaseID \<and> dl_owner l = owner \<and> dl_active l)
      in if list_ex hit (md_dleases db)
         then (db\<lparr>md_dleases := update_where hit
                 (\<lambda>l. l\<lparr>dl_status := LeaseReleased, dl_released_at := Some now, dl_updated_at := now\<rparr>) (md_dleases db)\<rparr>, Inr ())
         else (db, not_found))"

section \<open>Writer leases\<close>

type_synonym writer_domain = "market_stream_key \<times> int"

definition wl_domain :: "writer_lease \<Rightarrow> writer_domain" where "wl_domain l = (wl_key l, wl_year l)"

abbreviation wl_active :: "writer_lease \<Rightarrow> bool" where "wl_active l \<equiv> wl_status l = LeaseActive"

definition writer_row_ok :: "market_stream_key \<Rightarrow> int \<Rightarrow> string \<Rightarrow> string \<Rightarrow> bool" where
  "writer_row_ok key year owner collector \<longleftrightarrow> valid_exchange (mk_exchange key) \<and> valid_market (mk_market key) \<and>
     valid_writer_kind (mk_kind key) \<and> 1970 \<le> year \<and> owner \<noteq> '''' \<and> collector \<noteq> ''''"

definition CreateOrRenewMarketDataWriterLease_row ::
  "go_time \<Rightarrow> go_time \<Rightarrow> string \<Rightarrow> market_stream_key \<Rightarrow> int \<Rightarrow> string \<Rightarrow> string \<Rightarrow> string \<Rightarrow> duration \<Rightarrow>
   market_db \<Rightarrow> market_db \<times> writer_lease result" where
  "CreateOrRenewMarketDataWriterLease_row now wall leaseID key year owner scraper collector ttl db =
     (let expires = wall + lease_ttl_or_default ttl;
          taken = list_ex (\<lambda>l. wl_id l = leaseID) (md_writers db) in
      if \<not> writer_row_ok key year owner collector then (db, Inl (Plain ''check constraint violation''))
      else case filter (\<lambda>l. wl_active l \<and> wl_domain l = (key, year)) (md_writers db) of
        l # _ \<Rightarrow>
          if \<not> (wl_owner l = owner \<or> wl_expires_at l \<le> now) then (db, denied)
          else if wl_owner l \<noteq> owner \<and> taken then (db, Inl (Plain ''duplicate key''))
          else (let f = (\<lambda>l. l\<lparr>wl_id := (if wl_owner l = owner then wl_id l else leaseID), wl_owner := owner,
                      wl_scraper := scraper, wl_collector := collector,
                      wl_acquired_at := (if wl_owner l = owner then wl_acquired_at l else now),
                      wl_last_heartbeat_at := now, wl_expires_at := expires, wl_released_at := None, wl_updated_at := now\<rparr>)
                in (db\<lparr>md_writers := update_where (\<lambda>l. wl_active l \<and> wl_domain l = (key, year)) f (md_writers db)\<rparr>, Inr (f l)))
      | [] \<Rightarrow>
          if taken then (db, Inl (Plain ''duplicate key''))
          else (let l = \<lparr>wl_id = leaseID, wl_key = key, wl_year = year, wl_owner = owner, wl_scraper = scraper,
                   wl_collector = collector, wl_status = LeaseActive, wl_acquired_at = now, wl_last_heartbeat_at = now,
                   wl_expires_at = expires, wl_released_at = None, wl_created_at = now, wl_updated_at = now\<rparr>
                in (db\<lparr>md_writers := md_writers db @ [l]\<rparr>, Inr l)))"

definition ReleaseMarketDataWriterLease_row :: "go_time \<Rightarrow> string \<Rightarrow> string \<Rightarrow> market_db \<Rightarrow> market_db \<times> unit result" where
  "ReleaseMarketDataWriterLease_row now leaseID owner db =
     (let hit = (\<lambda>l. wl_id l = leaseID \<and> wl_owner l = owner \<and> wl_active l)
      in if list_ex hit (md_writers db)
         then (db\<lparr>md_writers := update_where hit
                 (\<lambda>l. l\<lparr>wl_status := LeaseReleased, wl_released_at := Some now, wl_updated_at := now\<rparr>) (md_writers db)\<rparr>, Inr ())
         else (db, not_found))"


section \<open>Both kinds of lease are exclusive\<close>

definition dl_table :: "market_db \<Rightarrow> delivery_lease list" where "dl_table db = filter dl_active (md_dleases db)"
definition dl_holder :: "market_db \<Rightarrow> int \<Rightarrow> (string \<times> go_time) option" where
  "dl_holder db sub = map_option (\<lambda>l. (dl_owner l, dl_expires_at l)) (row dl_subscription_id (dl_table db) sub)"
definition dl_inv :: "market_db \<Rightarrow> bool" where "dl_inv db \<longleftrightarrow> keys_ok dl_subscription_id (dl_table db)"

lemma dl_acquire:
  assumes "CreateOrRenewStreamDeliveryLease_row now wall lid sub owner ttl db = (db', Inr l)" "dl_inv db"
  shows "dl_inv db'" "dl_holder db' = (dl_holder db)(sub \<mapsto> (owner, wall + lease_ttl_or_default ttl))"
    "dl_holder db sub = Some (me, t) \<Longrightarrow> me = owner \<or> t \<le> now"
proof -
  let ?new = "(owner, wall + lease_ttl_or_default ttl)"
  have "dl_inv db' \<and> dl_holder db' = (dl_holder db)(sub \<mapsto> ?new) \<and> (dl_holder db sub = Some (me, t) \<longrightarrow> me = owner \<or> t \<le> now)"
  proof (cases "filter (\<lambda>l. dl_active l \<and> dl_subscription_id l = sub) (md_dleases db)")
    case Nil
    then have none: "row dl_subscription_id (dl_table db) sub = None" by (simp add: dl_table_def filter_row_Nil)
    have l: "dl_active l" "dl_subscription_id l = sub" "dl_owner l = owner" "dl_expires_at l = wall + lease_ttl_or_default ttl"
      "dl_table db' = dl_table db @ [l]"
      using assms(1) Nil by (auto simp: CreateOrRenewStreamDeliveryLease_row_def Let_def dl_table_def split: if_splits)
    have "dl_inv db'" using assms(2) none l by (simp add: dl_inv_def keys_ok_append)
    moreover have "dl_holder db' k = ((dl_holder db)(sub \<mapsto> ?new)) k" for k
      using none l by (cases "k = sub") (auto simp: dl_holder_def row_append split: option.split)
    ultimately show ?thesis using none by (auto simp: dl_holder_def)
  next
    case (Cons x xs)
    let ?f = "\<lambda>l. l\<lparr>dl_owner := owner, dl_acquired_at := (if dl_owner l = owner then dl_acquired_at l else now),
              dl_last_heartbeat_at := now, dl_expires_at := wall + lease_ttl_or_default ttl, dl_updated_at := now\<rparr>"
    have x: "row dl_subscription_id (dl_table db) sub = Some x" using Cons by (simp add: dl_table_def filter_row_Cons)
    have g: "dl_owner x = owner \<or> dl_expires_at x \<le> now"
      and db': "dl_table db' = update_where (\<lambda>l. dl_subscription_id l = sub) ?f (dl_table db)"
      using assms(1) Cons by (auto simp: CreateOrRenewStreamDeliveryLease_row_def Let_def dl_table_def filter_update_keep denied_def split: if_splits)
    have "dl_inv db'" using assms(2) by (simp add: dl_inv_def db' keys_ok_update)
    moreover have "dl_holder db' = (dl_holder db)(sub \<mapsto> ?new)"
      using x by (auto simp: dl_holder_def db' row_update_key)
    ultimately show ?thesis using g x by (auto simp: dl_holder_def)
  qed
  then show "dl_inv db'" "dl_holder db' = (dl_holder db)(sub \<mapsto> ?new)" "dl_holder db sub = Some (me, t) \<Longrightarrow> me = owner \<or> t \<le> now"
    by auto
qed

lemma dl_refused: "CreateOrRenewStreamDeliveryLease_row now wall lid sub owner ttl db = (db', Inl e) \<Longrightarrow> db' = db"
  by (auto simp: CreateOrRenewStreamDeliveryLease_row_def Let_def denied_def split: list.splits if_splits)

lemma dl_release:
  assumes "ReleaseStreamDeliveryLease_row now lid owner db = (db', res)" "dl_inv db"
  shows "dl_inv db'" "dl_holder db k = Some (me, t) \<Longrightarrow> owner \<noteq> me \<Longrightarrow> dl_holder db' k = Some (me, t)"
proof -
  let ?hit = "\<lambda>l. dl_id l = lid \<and> dl_owner l = owner \<and> dl_active l"
  have d: "db' = db \<or> dl_table db' = filter (\<lambda>l. \<not> ?hit l) (dl_table db)"
    using assms(1) by (auto simp: ReleaseStreamDeliveryLease_row_def Let_def dl_table_def filter_update_drop split: if_splits)
  then show "dl_inv db'" using assms(2) by (auto simp: dl_inv_def)
  assume h: "dl_holder db k = Some (me, t)" "owner \<noteq> me"
  then obtain l where l: "row dl_subscription_id (dl_table db) k = Some l" "dl_owner l = me" "dl_expires_at l = t"
    by (auto simp: dl_holder_def)
  have "row dl_subscription_id (filter (\<lambda>l. \<not> ?hit l) (dl_table db)) k = Some l"
    using row_filter_keep [OF _ l(1)] assms(2) l(2) h(2) by (auto simp: dl_inv_def)
  then show "dl_holder db' k = Some (me, t)" using d h(1) l by (auto simp: dl_holder_def)
qed

type_synonym delivery_ask = "go_time \<times> go_time \<times> string \<times> int \<times> string \<times> duration"
type_synonym lease_release = "go_time \<times> string \<times> string"

definition dl_take :: "delivery_ask \<Rightarrow> market_db \<Rightarrow> market_db \<times> delivery_lease result" where
  "dl_take q = (case q of (now, wall, lid, sub, owner, ttl) \<Rightarrow> CreateOrRenewStreamDeliveryLease_row now wall lid sub owner ttl)"
definition dl_give :: "lease_release \<Rightarrow> market_db \<Rightarrow> market_db \<times> unit result" where
  "dl_give p = (case p of (now, lid, owner) \<Rightarrow> ReleaseStreamDeliveryLease_row now lid owner)"
definition dl_at :: "delivery_ask \<Rightarrow> go_time" where "dl_at q = fst q"
definition dl_who :: "delivery_ask \<Rightarrow> string" where "dl_who q = (case q of (now, wall, lid, sub, owner, ttl) \<Rightarrow> owner)"
definition dl_what :: "delivery_ask \<Rightarrow> int" where "dl_what q = (case q of (now, wall, lid, sub, owner, ttl) \<Rightarrow> sub)"
definition dl_until :: "delivery_ask \<Rightarrow> go_time" where
  "dl_until q = (case q of (now, wall, lid, sub, owner, ttl) \<Rightarrow> wall + lease_ttl_or_default ttl)"
definition give_who :: "lease_release \<Rightarrow> string" where "give_who p = snd (snd p)"

lemmas dl_ask_defs = dl_take_def dl_give_def dl_at_def dl_who_def dl_what_def dl_until_def give_who_def

interpretation delivery: exclusive_lease dl_inv dl_holder dl_take dl_give dl_at dl_what dl_who dl_until give_who
proof
  fix db :: market_db and q :: delivery_ask and p :: lease_release and k :: int and me :: string and t :: go_time and r e
  obtain now wall lid sub owner ttl where q: "q = (now, wall, lid, sub, owner, ttl)" by (cases q)
  obtain now' lid' owner' where p: "p = (now', lid', owner')" by (cases p)
  obtain db1 r1 where 1: "CreateOrRenewStreamDeliveryLease_row now wall lid sub owner ttl db = (db1, r1)" by fastforce
  obtain db2 r2 where 2: "ReleaseStreamDeliveryLease_row now' lid' owner' db = (db2, r2)" by fastforce
  show "dl_inv (fst (dl_take q db))" if "dl_inv db"
    using dl_acquire(1) [OF _ that, of now wall lid sub owner ttl db1] dl_refused [of now wall lid sub owner ttl db db1] that 1
    by (cases r1) (auto simp: dl_take_def q)
  show "dl_inv (fst (dl_give p db))" if "dl_inv db" using dl_release(1) [OF 2 that] 2 by (simp add: dl_give_def p)
  show "fst (dl_take q db) = db" if "snd (dl_take q db) = Inl e"
    using that 1 dl_refused by (simp add: dl_take_def q)
  show "dl_holder (fst (dl_take q db)) = (dl_holder db)(dl_what q \<mapsto> (dl_who q, dl_until q))"
    if "dl_inv db" "snd (dl_take q db) = Inr r"
    using that 1 dl_acquire(2) [OF _ that(1)] by (simp add: dl_ask_defs q)
  show "me = dl_who q \<or> t \<le> dl_at q"
    if "dl_inv db" "snd (dl_take q db) = Inr r" "dl_holder db (dl_what q) = Some (me, t)"
    using that 1 dl_acquire(3) [OF _ that(1)] by (simp add: dl_ask_defs q)
  show "dl_holder (fst (dl_give p db)) k = Some (me, t)"
    if "dl_inv db" "dl_holder db k = Some (me, t)" "give_who p \<noteq> me"
    using that 2 dl_release(2) [OF 2 that(1,2)] by (simp add: dl_ask_defs p)
qed


definition wl_table :: "market_db \<Rightarrow> writer_lease list" where "wl_table db = filter wl_active (md_writers db)"
definition wl_holder :: "market_db \<Rightarrow> writer_domain \<Rightarrow> (string \<times> go_time) option" where
  "wl_holder db d = map_option (\<lambda>l. (wl_owner l, wl_expires_at l)) (row wl_domain (wl_table db) d)"
definition wl_inv :: "market_db \<Rightarrow> bool" where "wl_inv db \<longleftrightarrow> keys_ok wl_domain (wl_table db)"

lemma wl_acquire:
  assumes "CreateOrRenewMarketDataWriterLease_row now wall lid key year owner scraper collector ttl db = (db', Inr l)" "wl_inv db"
  shows "wl_inv db'" "wl_holder db' = (wl_holder db)((key, year) \<mapsto> (owner, wall + lease_ttl_or_default ttl))"
    "wl_holder db (key, year) = Some (me, t) \<Longrightarrow> me = owner \<or> t \<le> now"
proof -
  let ?d = "(key, year)" and ?new = "(owner, wall + lease_ttl_or_default ttl)"
  have "wl_inv db' \<and> wl_holder db' = (wl_holder db)(?d \<mapsto> ?new) \<and> (wl_holder db ?d = Some (me, t) \<longrightarrow> me = owner \<or> t \<le> now)"
  proof (cases "filter (\<lambda>l. wl_active l \<and> wl_domain l = ?d) (md_writers db)")
    case Nil
    then have none: "row wl_domain (wl_table db) ?d = None" by (simp add: wl_table_def filter_row_Nil)
    have l: "wl_active l" "wl_domain l = ?d" "wl_owner l = owner" "wl_expires_at l = wall + lease_ttl_or_default ttl"
      "wl_table db' = wl_table db @ [l]"
      using assms(1) Nil by (auto simp: CreateOrRenewMarketDataWriterLease_row_def Let_def wl_table_def wl_domain_def split: if_splits)
    have "wl_inv db'" using assms(2) none l by (simp add: wl_inv_def keys_ok_append)
    moreover have "wl_holder db' k = ((wl_holder db)(?d \<mapsto> ?new)) k" for k
      using none l by (cases "k = ?d") (auto simp: wl_holder_def row_append split: option.split)
    ultimately show ?thesis using none by (auto simp: wl_holder_def)
  next
    case (Cons x xs)
    let ?f = "\<lambda>l. l\<lparr>wl_id := (if wl_owner l = owner then wl_id l else lid), wl_owner := owner,
              wl_scraper := scraper, wl_collector := collector,
              wl_acquired_at := (if wl_owner l = owner then wl_acquired_at l else now),
              wl_last_heartbeat_at := now, wl_expires_at := wall + lease_ttl_or_default ttl, wl_released_at := None, wl_updated_at := now\<rparr>"
    have x: "row wl_domain (wl_table db) ?d = Some x" using Cons by (simp add: wl_table_def filter_row_Cons)
    have g: "wl_owner x = owner \<or> wl_expires_at x \<le> now"
      and db': "wl_table db' = update_where (\<lambda>l. wl_domain l = ?d) ?f (wl_table db)"
      using assms(1) Cons by (auto simp: CreateOrRenewMarketDataWriterLease_row_def Let_def wl_table_def filter_update_keep denied_def split: if_splits)
    have k: "wl_domain (?f r) = wl_domain r" for r by (simp add: wl_domain_def)
    have "wl_inv db'" using assms(2) by (simp add: wl_inv_def db' keys_ok_update k)
    moreover have "wl_holder db' = (wl_holder db)(?d \<mapsto> ?new)"
      using x by (auto simp: wl_holder_def db' row_update_key k)
    ultimately show ?thesis using g x by (auto simp: wl_holder_def)
  qed
  then show "wl_inv db'" "wl_holder db' = (wl_holder db)(?d \<mapsto> ?new)" "wl_holder db ?d = Some (me, t) \<Longrightarrow> me = owner \<or> t \<le> now"
    by auto
qed

lemma wl_refused: "CreateOrRenewMarketDataWriterLease_row now wall lid key year owner scraper collector ttl db = (db', Inl e) \<Longrightarrow> db' = db"
  by (auto simp: CreateOrRenewMarketDataWriterLease_row_def Let_def denied_def split: list.splits if_splits)

lemma wl_release:
  assumes "ReleaseMarketDataWriterLease_row now lid owner db = (db', res)" "wl_inv db"
  shows "wl_inv db'" "wl_holder db k = Some (me, t) \<Longrightarrow> owner \<noteq> me \<Longrightarrow> wl_holder db' k = Some (me, t)"
proof -
  let ?hit = "\<lambda>l. wl_id l = lid \<and> wl_owner l = owner \<and> wl_active l"
  have d: "db' = db \<or> wl_table db' = filter (\<lambda>l. \<not> ?hit l) (wl_table db)"
    using assms(1) by (auto simp: ReleaseMarketDataWriterLease_row_def Let_def wl_table_def filter_update_drop split: if_splits)
  then show "wl_inv db'" using assms(2) by (auto simp: wl_inv_def)
  assume h: "wl_holder db k = Some (me, t)" "owner \<noteq> me"
  then obtain l where l: "row wl_domain (wl_table db) k = Some l" "wl_owner l = me" "wl_expires_at l = t"
    by (auto simp: wl_holder_def)
  have "row wl_domain (filter (\<lambda>l. \<not> ?hit l) (wl_table db)) k = Some l"
    using row_filter_keep [OF _ l(1)] assms(2) l(2) h(2) by (auto simp: wl_inv_def)
  then show "wl_holder db' k = Some (me, t)" using d h(1) l by (auto simp: wl_holder_def)
qed

type_synonym writer_ask = "go_time \<times> go_time \<times> string \<times> writer_domain \<times> string \<times> string \<times> string \<times> duration"

definition wl_take :: "writer_ask \<Rightarrow> market_db \<Rightarrow> market_db \<times> writer_lease result" where
  "wl_take q = (case q of (now, wall, lid, (key, year), owner, scraper, collector, ttl) \<Rightarrow>
     CreateOrRenewMarketDataWriterLease_row now wall lid key year owner scraper collector ttl)"
definition wl_give :: "lease_release \<Rightarrow> market_db \<Rightarrow> market_db \<times> unit result" where
  "wl_give p = (case p of (now, lid, owner) \<Rightarrow> ReleaseMarketDataWriterLease_row now lid owner)"
definition wl_at :: "writer_ask \<Rightarrow> go_time" where "wl_at q = fst q"
definition wl_who :: "writer_ask \<Rightarrow> string" where
  "wl_who q = (case q of (now, wall, lid, d, owner, scraper, collector, ttl) \<Rightarrow> owner)"
definition wl_what :: "writer_ask \<Rightarrow> writer_domain" where
  "wl_what q = (case q of (now, wall, lid, d, owner, scraper, collector, ttl) \<Rightarrow> d)"
definition wl_until :: "writer_ask \<Rightarrow> go_time" where
  "wl_until q = (case q of (now, wall, lid, d, owner, scraper, collector, ttl) \<Rightarrow> wall + lease_ttl_or_default ttl)"

lemmas wl_ask_defs = wl_take_def wl_give_def wl_at_def wl_who_def wl_what_def wl_until_def give_who_def

interpretation writer: exclusive_lease wl_inv wl_holder wl_take wl_give wl_at wl_what wl_who wl_until give_who
proof
  fix db :: market_db and q :: writer_ask and p :: lease_release and k :: writer_domain and me :: string and t :: go_time and r e
  obtain now wall lid key year owner scraper collector ttl
    where q: "q = (now, wall, lid, (key, year), owner, scraper, collector, ttl)" by (metis surj_pair)
  obtain now' lid' owner' where p: "p = (now', lid', owner')" by (cases p)
  obtain db1 r1 where 1: "CreateOrRenewMarketDataWriterLease_row now wall lid key year owner scraper collector ttl db = (db1, r1)" by fastforce
  obtain db2 r2 where 2: "ReleaseMarketDataWriterLease_row now' lid' owner' db = (db2, r2)" by fastforce
  show "wl_inv (fst (wl_take q db))" if "wl_inv db"
    using wl_acquire(1) [OF _ that, of now wall lid key year owner scraper collector ttl db1]
      wl_refused [of now wall lid key year owner scraper collector ttl db db1] that 1
    by (cases r1) (auto simp: wl_take_def q)
  show "wl_inv (fst (wl_give p db))" if "wl_inv db" using wl_release(1) [OF 2 that] 2 by (simp add: wl_give_def p)
  show "fst (wl_take q db) = db" if "snd (wl_take q db) = Inl e"
    using that 1 wl_refused by (simp add: wl_take_def q)
  show "wl_holder (fst (wl_take q db)) = (wl_holder db)(wl_what q \<mapsto> (wl_who q, wl_until q))"
    if "wl_inv db" "snd (wl_take q db) = Inr r"
    using that 1 wl_acquire(2) [OF _ that(1)] by (simp add: wl_ask_defs q)
  show "me = wl_who q \<or> t \<le> wl_at q"
    if "wl_inv db" "snd (wl_take q db) = Inr r" "wl_holder db (wl_what q) = Some (me, t)"
    using that 1 wl_acquire(3) [OF _ that(1)] by (simp add: wl_ask_defs q)
  show "wl_holder (fst (wl_give p db)) k = Some (me, t)"
    if "wl_inv db" "wl_holder db k = Some (me, t)" "give_who p \<noteq> me"
    using that 2 wl_release(2) [OF 2 that(1,2)] by (simp add: wl_ask_defs p)
qed

text \<open>The instance that holds the writer lease of a stream and year keeps it until it expires: no
  sequence of acquire and release requests of other instances, all before the expiry, displaces it.\<close>
theorem writer_lease_exclusive:
  assumes "(foreign_step wl_take wl_give wl_at wl_who give_who me t)\<^sup>*\<^sup>* db db'"
    and "wl_inv db" "wl_holder db (key, year) = Some (me, t)"
  shows "wl_inv db' \<and> wl_holder db' (key, year) = Some (me, t)"
  by (rule writer.holder_kept [OF assms])

definition writer_held :: market_db where
  "writer_held = fst (wl_take (0, 0, ''mdwl-1'', (btc_1m, 2024), ''a'', ''s'', ''c'', 100) empty_db)"

definition writer_challenged :: market_db where
  "writer_challenged = fst (wl_take (50, 50, ''mdwl-2'', (btc_1m, 2024), ''b'', ''s'', ''c'', 100) writer_held)"

theorem writer_lease_exclusive_witness: "wl_holder writer_challenged (btc_1m, 2024) = Some (''a'', 100)"
proof -
  have h: "wl_inv writer_held" "wl_holder writer_held (btc_1m, 2024) = Some (''a'', 100)"
    by (simp_all add: writer_held_def wl_take_def CreateOrRenewMarketDataWriterLease_row_def empty_db_def btc_1m_def writer_row_ok_def
        valid_exchange_def valid_market_def valid_writer_kind_def wl_inv_def wl_holder_def wl_table_def keys_ok_def lease_ttl_or_default_def
        wl_domain_def row_Cons Let_def)
  have "foreign_step wl_take wl_give wl_at wl_who give_who ''a'' 100 writer_held writer_challenged"
    unfolding writer_challenged_def by (rule foreign_step.take) (simp_all add: wl_at_def wl_who_def)
  then show ?thesis using writer_lease_exclusive [OF r_into_rtranclp h(1,2)] by blast
qed

text \<open>A delivery instance keeps the lease of a subscription until it expires, whatever the other
  instances request meanwhile.\<close>
theorem delivery_lease_exclusive:
  assumes "(foreign_step dl_take dl_give dl_at dl_who give_who me t)\<^sup>*\<^sup>* db db'"
    and "dl_inv db" "dl_holder db sub = Some (me, t)"
  shows "dl_inv db' \<and> dl_holder db' sub = Some (me, t)"
  by (rule delivery.holder_kept [OF assms])

definition subscribed_db :: market_db where
  "subscribed_db = fst (UpsertSessionMarketDataSubscriptions 0 7 ''s1'' ''rt1'' 1 [btc_1m] empty_db)"

definition delivery_held :: market_db where
  "delivery_held = fst (dl_take (0, 0, ''sdl-1'', 1, ''a'', 100) subscribed_db)"

definition delivery_challenged :: market_db where
  "delivery_challenged = fst (dl_take (50, 50, ''sdl-2'', 1, ''b'', 100) delivery_held)"

theorem delivery_lease_exclusive_witness: "dl_holder delivery_challenged 1 = Some (''a'', 100)"
proof -
  have h: "dl_inv delivery_held" "dl_holder delivery_held 1 = Some (''a'', 100)"
    by (simp_all add: delivery_held_def subscribed_db_def UpsertSessionMarketDataSubscriptions_def upsert_subscription_def
        dl_take_def CreateOrRenewStreamDeliveryLease_row_def empty_db_def btc_1m_def sub_row_ok_def
        valid_market_def valid_writer_kind_def dl_inv_def dl_holder_def dl_table_def keys_ok_def lease_ttl_or_default_def row_Cons Let_def)
  have "foreign_step dl_take dl_give dl_at dl_who give_who ''a'' 100 delivery_held delivery_challenged"
    unfolding delivery_challenged_def by (rule foreign_step.take) (simp_all add: dl_at_def dl_who_def)
  then show ?thesis using delivery_lease_exclusive [OF r_into_rtranclp h(1,2)] by blast
qed

end
