(* ===== verification/MarketProto.thy ===== *)
theory MarketProto
  imports MarketLeases
begin

text \<open>
  The messages of the market-data RPCs and the converters \<open>toProto...\<close> of
  \<open>internal/marketdata/service.go\<close>. A missing \<open>Timestamp\<close> or sub-message is \<open>None\<close>; protobuf has no
  absent integer, so an absent id becomes 0.
\<close>

definition or_zero :: "int option \<Rightarrow> int" where
  "or_zero x = (case x of None \<Rightarrow> 0 | Some v \<Rightarrow> v)"

text \<open>The way back, in the handlers: an id that is not positive is absent.\<close>
definition positive_id :: "int \<Rightarrow> int option" where
  "positive_id v = (if 0 < v then Some v else None)"

lemma positive_or_zero: "(\<forall>v. x = Some v \<longrightarrow> 0 < v) \<Longrightarrow> positive_id (or_zero x) = x"
  by (cases x) (auto simp: positive_id_def or_zero_def)

record p_stream =
  ps_id :: int
  ps_key :: market_stream_key
  ps_desired :: string
  ps_actual :: string
  ps_live :: bool
  ps_last_error :: string
  ps_lease_count :: int
  ps_created :: go_time
  ps_updated :: go_time
  ps_last_data :: "go_time option"
  ps_reconciled :: "go_time option"

record p_request =
  pr_id :: int
  pr_user :: int
  pr_portfolio :: int
  pr_stream :: int
  pr_key :: market_stream_key
  pr_live :: bool
  pr_status :: string
  pr_scope :: string
  pr_start :: "go_time option"
  pr_end :: "go_time option"
  pr_covered_start :: "go_time option"
  pr_covered_end :: "go_time option"
  pr_last_error :: string
  pr_ready :: bool
  pr_created :: go_time
  pr_updated :: go_time
  pr_cancelled :: "go_time option"

record p_lease =
  pl_id :: int
  pl_session :: string
  pl_strategy :: int
  pl_portfolio :: int
  pl_stream :: int
  pl_expires :: go_time
  pl_heartbeat :: go_time
  pl_created :: go_time
  pl_released :: "go_time option"

record p_failure =
  pf_id :: int
  pf_subscription :: int
  pf_owner :: string
  pf_topic :: string
  pf_stream_key :: string
  pf_code :: string
  pf_reason :: string
  pf_attempts :: int
  pf_first :: "go_time option"
  pf_last :: "go_time option"

record p_health =
  ph_subscription :: session_subscription
  ph_lease :: "delivery_lease option"
  ph_failure :: "p_failure option"
  ph_status :: string
  ph_reason :: string
  ph_observed :: "go_time option"

definition toProtoStream :: "market_stream \<Rightarrow> int \<Rightarrow> p_stream" where
  "toProtoStream s n = \<lparr>ps_id = ms_id s, ps_key = ms_key s, ps_desired = ms_desired s, ps_actual = ms_actual s,
     ps_live = ms_live s, ps_last_error = ms_last_error s, ps_lease_count = sint (word_of_int n :: 32 word),
     ps_created = ms_created_at s, ps_updated = ms_updated_at s, ps_last_data = ms_last_data_at s,
     ps_reconciled = ms_last_reconciled_at s\<rparr>"

definition toProtoRequest :: "market_request \<Rightarrow> p_request" where
  "toProtoRequest r = \<lparr>pr_id = mr_id r, pr_user = mr_user_id r, pr_portfolio = or_zero (mr_portfolio_id r),
     pr_stream = mr_stream_id r, pr_key = mr_key r, pr_live = mr_needs_live r, pr_status = mr_status r, pr_scope = ScopeLive,
     pr_start = None, pr_end = None, pr_covered_start = None, pr_covered_end = None, pr_last_error = '''', pr_ready = False,
     pr_created = mr_created_at r, pr_updated = mr_updated_at r, pr_cancelled = mr_cancelled_at r\<rparr>"

definition toProtoHistoryRequest :: "history_request \<Rightarrow> p_request" where
  "toProtoHistoryRequest r = \<lparr>pr_id = hr_id r, pr_user = hr_user_id r, pr_portfolio = or_zero (hr_portfolio_id r),
     pr_stream = 0, pr_key = hr_key r, pr_live = False, pr_status = hr_status r, pr_scope = ScopeHistorical,
     pr_start = Some (hr_start r), pr_end = Some (hr_end r), pr_covered_start = hr_covered_start r,
     pr_covered_end = hr_covered_end r, pr_last_error = hr_last_error r, pr_ready = (hr_status r = HistoryReady),
     pr_created = hr_created_at r, pr_updated = hr_updated_at r, pr_cancelled = hr_cancelled_at r\<rparr>"

definition toProtoLease :: "market_lease \<Rightarrow> p_lease" where
  "toProtoLease l = \<lparr>pl_id = ml_id l, pl_session = ml_session_id l, pl_strategy = or_zero (ml_strategy_id l),
     pl_portfolio = or_zero (ml_portfolio_id l), pl_stream = ml_stream_id l, pl_expires = ml_expires_at l,
     pl_heartbeat = ml_last_heartbeat_at l, pl_created = ml_created_at l, pl_released = ml_released_at l\<rparr>"

definition unless_zero :: "go_time \<Rightarrow> go_time option" where
  "unless_zero t = (if is_zero t then None else Some t)"

definition toProtoStreamDeliveryFailure :: "delivery_failure \<Rightarrow> p_failure" where
  "toProtoStreamDeliveryFailure f = \<lparr>pf_id = df_id f, pf_subscription = df_subscription_id f, pf_owner = df_owner f,
     pf_topic = df_topic f, pf_stream_key = df_stream_key f, pf_code = df_code f, pf_reason = df_reason f,
     pf_attempts = sint (word_of_int (df_attempt_count f) :: 32 word),
     pf_first = unless_zero (df_first_seen_at f), pf_last = unless_zero (df_last_seen_at f)\<rparr>"

text \<open>The messages of a subscription and of a delivery lease have the fields of the row.\<close>
definition toProtoSessionDeliveryHealth :: "delivery_health \<Rightarrow> p_health" where
  "toProtoSessionDeliveryHealth h = \<lparr>ph_subscription = dh_subscription h, ph_lease = dh_lease h,
     ph_failure = map_option toProtoStreamDeliveryFailure (dh_latest_failure h),
     ph_status = dh_status h, ph_reason = dh_blocked_reason h, ph_observed = unless_zero (dh_observed_at h)\<rparr>"

section \<open>Delivery health\<close>

definition deliveryProgressGrace :: duration where "deliveryProgressGrace = defaultLeaseTTL"

definition classifyDeliveryHealth :: "delivery_health \<Rightarrow> go_time \<Rightarrow> delivery_health" where
  "classifyDeliveryHealth item0 now =
     (let item = item0\<lparr>dh_observed_at := now\<rparr> in
      case dh_lease item of
        None \<Rightarrow>
          if time_sub now (ss_created_at (dh_subscription item)) < deliveryProgressGrace
          then item\<lparr>dh_status := ''warming_up'', dh_blocked_reason := ''waiting for delivery lease''\<rparr>
          else item\<lparr>dh_status := ''delivery_blocked'', dh_blocked_reason := ''no active delivery lease''\<rparr>
      | Some l \<Rightarrow>
          if \<not> is_zero (dl_expires_at l) \<and> \<not> now < dl_expires_at l
          then item\<lparr>dh_status := ''delivery_blocked'', dh_blocked_reason := ''delivery lease expired''\<rparr>
          else case dl_last_delivery_at l of
            None \<Rightarrow>
              if time_sub now (ss_created_at (dh_subscription item)) < deliveryProgressGrace
              then item\<lparr>dh_status := ''warming_up'', dh_blocked_reason := ''waiting for first delivered bar''\<rparr>
              else item\<lparr>dh_status := ''delivery_blocked'', dh_blocked_reason := ''no delivered bars observed''\<rparr>
          | Some t \<Rightarrow>
              if 2 * deliveryProgressGrace < time_sub now t
              then item\<lparr>dh_status := ''delivery_blocked'', dh_blocked_reason := ''delivery progress is stale''\<rparr>
              else item\<lparr>dh_status := ''delivering'', dh_blocked_reason := ''''\<rparr>)"

lemma sat64_le: "in64 b \<Longrightarrow> sat64 x \<le> b \<longleftrightarrow> x \<le> b \<or> b = 2 ^ 63 - 1"
  by (auto simp: sat64_def in64_def)

lemma grace_values: "deliveryProgressGrace = 90 * second" "in64 (2 * deliveryProgressGrace)"
  "2 * deliveryProgressGrace \<noteq> 2 ^ 63 - 1"
  by (simp_all add: deliveryProgressGrace_def defaultLeaseTTL_def duration_defs in64_def)

text \<open>Health is three-valued and says what the delivery lease says: \<open>delivering\<close> means an unexpired
  lease with a bar delivered in the last three minutes, \<open>warming_up\<close> needs a subscription younger than 90
  seconds, and exactly the other statuses carry a reason.\<close>
theorem delivery_health_exact:
  assumes "h = classifyDeliveryHealth item now"
  shows "dh_status h \<in> {''delivering'', ''warming_up'', ''delivery_blocked''} \<and>
    (dh_status h = ''delivering'' \<longleftrightarrow> (\<exists>l t. dh_lease item = Some l \<and> (is_zero (dl_expires_at l) \<or> now < dl_expires_at l) \<and>
       dl_last_delivery_at l = Some t \<and> now - t \<le> 180 * second)) \<and>
    (dh_status h = ''warming_up'' \<longrightarrow> now - ss_created_at (dh_subscription item) < 90 * second) \<and>
    (dh_blocked_reason h = '''' \<longleftrightarrow> dh_status h = ''delivering'') \<and>
    dh_subscription h = dh_subscription item \<and> dh_lease h = dh_lease item \<and> dh_latest_failure h = dh_latest_failure item"
proof -
  have stale: "\<not> 2 * deliveryProgressGrace < time_sub now t \<longleftrightarrow> now - t \<le> 180 * second" for t
    using sat64_le [OF grace_values(2), of "now - t"] grace_values(3) by (simp add: time_sub_def not_less) (simp add: grace_values(1))
  have young: "time_sub now t < deliveryProgressGrace \<Longrightarrow> now - t < 90 * second" for t
    by (simp add: time_sub_def grace_values(1) sat64_def second_def split: if_splits)
  show ?thesis
  proof (cases "dh_lease item")
    case None
    then show ?thesis using assms young by (auto simp: classifyDeliveryHealth_def Let_def)
  next
    case (Some l)
    show ?thesis
    proof (cases "dl_last_delivery_at l")
      case None
      then show ?thesis using assms Some young by (auto simp: classifyDeliveryHealth_def Let_def)
    next
      case (Some t)
      then show ?thesis using assms \<open>dh_lease item = Some l\<close> stale [of t] by (auto simp: classifyDeliveryHealth_def Let_def)
    qed
  qed
qed

definition sample_health :: delivery_health where
  "sample_health = \<lparr>dh_subscription = \<lparr>ss_id = 1, ss_user_id = 7, ss_session_id = ''s1'', ss_runtime_id = ''rt1'', ss_key = btc_1m,
     ss_environment = 1, ss_status = LeaseActive, ss_created_at = 0, ss_updated_at = 0, ss_released_at = None\<rparr>,
     dh_lease = None, dh_latest_failure = None, dh_status = '''', dh_blocked_reason = '''', dh_observed_at = zero_time\<rparr>"

theorem delivery_health_exact_witness:
  "dh_status (classifyDeliveryHealth sample_health (91 * second)) = ''delivery_blocked''"
  using delivery_health_exact [OF refl, of sample_health "91 * second"] by (auto simp: sample_health_def second_def)

end
