(* ===== verification/MarketService.thy ===== *)
theory MarketService
  imports MarketProto
begin

text \<open>
  The request, lease and delivery RPCs of \<open>internal/marketdata/service.go\<close> over the store. Fields of a
  message are arguments; a handler returns the store it leaves and its answer. \<open>now\<close> is the database
  clock, \<open>wall\<close> the clock of the process. The queries of the store that only fail with the connection
  do not fail here.
\<close>

definition internal :: "string \<Rightarrow> go_error \<Rightarrow> 'a result" where
  "internal m e = Inl (Status Internal (m @ '': '' @ err_text e))"

definition activeLeaseCount :: "go_time \<Rightarrow> market_db \<Rightarrow> int \<Rightarrow> int" where
  "activeLeaseCount now db sid = CountActiveLeasesForStream now db sid"

definition proto_stream :: "go_time \<Rightarrow> market_db \<Rightarrow> market_stream \<Rightarrow> p_stream" where
  "proto_stream now db s = toProtoStream s (activeLeaseCount now db (ms_id s))"

section \<open>Requests\<close>

type_synonym request_entry = "p_request \<times> p_stream option"

definition CreateMarketDataRequest ::
  "go_time \<Rightarrow> int \<Rightarrow> int \<Rightarrow> market_stream_key option \<Rightarrow> string \<Rightarrow> bool \<Rightarrow> go_time option \<Rightarrow> go_time option \<Rightarrow>
   market_db \<Rightarrow> market_db \<times> request_entry result" where
  "CreateMarketDataRequest now uid pid rawKey rawScope needsLive start e db =
     (case requireUserID uid of Some er \<Rightarrow> (db, Inl er) | None \<Rightarrow>
     (case validateStreamKey rawKey of Inl er \<Rightarrow> (db, Inl er) | Inr key \<Rightarrow>
     (case normalizeRequestScope rawScope of Inl er \<Rightarrow> (db, Inl er) | Inr scope \<Rightarrow>
      if scope = ScopeHistorical
      then if needsLive then (db, invalid ''historical scope does not support needs_live_delivery=true'')
        else (case validateHistoricalRange start e of Inl er \<Rightarrow> (db, Inl er) | Inr (s, t) \<Rightarrow>
             (case UpsertMarketDataHistoryRequest now uid (positive_id pid) key s t db of
                (db', Inl er) \<Rightarrow> (db', internal ''upsert historical market-data request'' er)
              | (db', Inr r) \<Rightarrow> (db', Inr (toProtoHistoryRequest r, None))))
      else (case UpsertMarketDataRequest now uid (positive_id pid) key needsLive db of
                (db', Inl er) \<Rightarrow> (db', internal ''upsert market-data request'' er)
              | (db', Inr r) \<Rightarrow>
                  (case GetMarketDataStream db' (mr_stream_id r) of
                     Inl er \<Rightarrow> (db', internal ''get stream for new request'' er)
                   | Inr st \<Rightarrow> (db', Inr (toProtoRequest r, Some (proto_stream now db' st))))))))"

definition CancelMarketDataRequest :: "go_time \<Rightarrow> int \<Rightarrow> int \<Rightarrow> market_db \<Rightarrow> market_db \<times> unit result" where
  "CancelMarketDataRequest now uid rid db =
     (case requireUserID uid of Some er \<Rightarrow> (db, Inl er) | None \<Rightarrow>
      if rid \<le> 0 then (db, invalid ''request_id is required'')
      else (let (db1, res1) = CancelMarketDataRequest_row now rid uid db;
                (db2, res2) = (case res1 of
                   Inl e \<Rightarrow> if errors_Is e ErrNotFound then CancelMarketDataHistoryRequest now rid uid db1 else (db1, res1)
                 | Inr _ \<Rightarrow> (db1, res1))
            in case res2 of
                 Inr _ \<Rightarrow> (db2, Inr ())
               | Inl e \<Rightarrow>
                   if errors_Is e ErrNotFound then (db2, Inl (Status NotFound ''market-data request not found''))
                   else if errors_Is e ErrPermissionDenied then (db2, Inl (Status PermissionDenied ''request does not belong to user''))
                   else (db2, internal ''cancel request'' e)))"

fun with_streams :: "go_time \<Rightarrow> market_db \<Rightarrow> market_request list \<Rightarrow> request_entry list result" where
  "with_streams now db [] = Inr []"
| "with_streams now db (r # rs) =
     (case GetMarketDataStream db (mr_stream_id r) of
        Inl e \<Rightarrow> internal ''get stream for request'' e
      | Inr st \<Rightarrow> bind_res (with_streams now db rs) (\<lambda>out. Inr ((toProtoRequest r, Some (proto_stream now db st)) # out)))"

definition all_entries :: "go_time \<Rightarrow> int \<Rightarrow> market_db \<Rightarrow> request_entry list result" where
  "all_entries now uid db =
     bind_res (with_streams now db (ListMarketDataRequestsByUser db uid)) (\<lambda>live.
       Inr (sort_key (\<lambda>x. - pr_id (fst x))
         (live @ map (\<lambda>r. (toProtoHistoryRequest r, None)) (ListMarketDataHistoryRequestsByUser db uid))))"

text \<open>The answer: entries, \<open>has_more\<close> and \<open>total\<close>.\<close>
definition ListMarketDataRequests :: "go_time \<Rightarrow> int \<Rightarrow> int \<Rightarrow> int \<Rightarrow> market_db \<Rightarrow> (request_entry list \<times> bool \<times> int) result" where
  "ListMarketDataRequests now uid limit0 offset0 db =
     (case requireUserID uid of Some er \<Rightarrow> Inl er | None \<Rightarrow>
      bind_res (all_entries now uid db) (\<lambda>out.
        if limit0 \<le> 0 \<and> offset0 \<le> 0 then Inr (out, False, int (length out))
        else (let limit = page_limit limit0; offset = (if offset0 < 0 then 0 else offset0);
                  hasMore = offset + limit < int (length out);
                  page = (if int (length out) \<le> offset then []
                          else (let en = (if int (length out) < offset + limit then int (length out) else offset + limit)
                                in take (nat (en - offset)) (drop (nat offset) out)))
              in Inr (page, hasMore, int (length out)))))"

definition GetMarketDataStreamStatus :: "go_time \<Rightarrow> int \<Rightarrow> market_stream_key option \<Rightarrow> market_db \<Rightarrow> p_stream result" where
  "GetMarketDataStreamStatus now sid rawKey db =
     (case (if 0 < sid then Inr (GetMarketDataStream db sid)
            else bind_res (validateStreamKey rawKey) (\<lambda>key. Inr (GetMarketDataStreamByKey db key))) of
        Inl e \<Rightarrow> Inl e
      | Inr (Inl e) \<Rightarrow> if errors_Is e ErrNotFound then Inl (Status NotFound ''stream not found'') else internal ''get stream'' e
      | Inr (Inr st) \<Rightarrow> Inr (proto_stream now db st))"

text \<open>A stream without leases is absent from the counts; a missing key of a Go map reads 0.\<close>
definition ListMarketDataStreams :: "go_time \<Rightarrow> market_db \<Rightarrow> p_stream list" where
  "ListMarketDataStreams now db =
     map (\<lambda>s. toProtoStream s (case map_of (CountActiveLeasesByStream now db) (ms_id s) of None \<Rightarrow> 0 | Some n \<Rightarrow> n))
       (ListMarketDataStreams_rows db)"

definition ListMarketDataHistoryRequests :: "bool \<Rightarrow> market_db \<Rightarrow> p_request list" where
  "ListMarketDataHistoryRequests includeTerminal db = map toProtoHistoryRequest (ListMarketDataHistoryRequests_rows db includeTerminal)"

section \<open>Reports and session leases\<close>

definition ReportMarketDataStreamState ::
  "go_time \<Rightarrow> int \<Rightarrow> string \<Rightarrow> go_time option \<Rightarrow> string \<Rightarrow> market_db \<Rightarrow> market_db \<times> p_stream result" where
  "ReportMarketDataStreamState now sid rawState lastData lastErr db =
     (let actual = trim_space (to_lower rawState) in
      if sid \<le> 0 then (db, invalid ''stream_id is required'')
      else if actual \<notin> {''pending'', ''starting'', ''running'', ''draining'', ''stopped'', ''error''}
      then (db, invalid ''actual_state is not recognized'')
      else case UpdateMarketDataStreamActualState now sid actual lastData lastErr db of
        (db', Inl e) \<Rightarrow> if errors_Is e ErrNotFound then (db', Inl (Status NotFound ''stream not found''))
                       else (db', internal ''update stream state'' e)
      | (db', Inr _) \<Rightarrow> (db', case GetMarketDataStream db' sid of Inl e \<Rightarrow> internal ''refetch stream'' e
                                 | Inr st \<Rightarrow> Inr (proto_stream now db' st)))"

definition ReportMarketDataHistoryRequestState ::
  "go_time \<Rightarrow> int \<Rightarrow> string \<Rightarrow> go_time option \<Rightarrow> go_time option \<Rightarrow> string \<Rightarrow> market_db \<Rightarrow> market_db \<times> p_request result" where
  "ReportMarketDataHistoryRequestState now rid rawStatus cs ce lastErr db =
     (if rid \<le> 0 then (db, invalid ''request_id is required'')
      else case normalizeHistoryStatus rawStatus of Inl e \<Rightarrow> (db, Inl e) | Inr st \<Rightarrow>
       (case UpdateMarketDataHistoryRequestState now rid st cs ce lastErr db of
          (db', Inl e) \<Rightarrow> if errors_Is e ErrNotFound then (db', Inl (Status NotFound ''history request not found''))
                         else (db', internal ''update history request state'' e)
        | (db', Inr r) \<Rightarrow> (db', Inr (toProtoHistoryRequest r))))"

definition CreateOrRenewMarketDataLease ::
  "go_time \<Rightarrow> go_time \<Rightarrow> string \<Rightarrow> int \<Rightarrow> int \<Rightarrow> int \<Rightarrow> int \<Rightarrow> market_db \<Rightarrow> market_db \<times> p_lease result" where
  "CreateOrRenewMarketDataLease wall now session strategy pid sid ttlSeconds db =
     (if trim_space session = '''' then (db, invalid ''session_id is required'')
      else if sid \<le> 0 then (db, invalid ''stream_id is required'')
      else case CreateOrRenewLease wall now session (positive_id strategy) (positive_id pid) sid (lease_ttl ttlSeconds) db of
        (db', Inl e) \<Rightarrow> (db', internal ''create/renew lease'' e)
      | (db', Inr l) \<Rightarrow> (db', Inr (toProtoLease l)))"

definition ReleaseMarketDataLease :: "go_time \<Rightarrow> string \<Rightarrow> int \<Rightarrow> market_db \<Rightarrow> market_db \<times> unit result" where
  "ReleaseMarketDataLease now session sid db =
     (if trim_space session = '''' then (db, invalid ''session_id is required'')
      else if sid \<le> 0 then (db, invalid ''stream_id is required'')
      else case ReleaseLease now session sid db of
        (db', Inl e) \<Rightarrow> (db', internal ''release lease'' e)
      | (db', Inr _) \<Rightarrow> (db', Inr ()))"

section \<open>Delivery subscriptions and leases\<close>

fun validate_keys :: "market_stream_key option list \<Rightarrow> market_stream_key list result" where
  "validate_keys [] = Inr []"
| "validate_keys (raw # raws) =
     bind_res (validateStreamKey raw) (\<lambda>k. bind_res (validate_keys raws) (\<lambda>ks. Inr (k # ks)))"

definition CreateSessionMarketDataSubscriptions ::
  "go_time \<Rightarrow> int \<Rightarrow> string \<Rightarrow> string \<Rightarrow> int \<Rightarrow> market_stream_key option list \<Rightarrow> market_db \<Rightarrow> market_db \<times> session_subscription list result" where
  "CreateSessionMarketDataSubscriptions now uid rawSession rawRuntime env rawKeys db =
     (let session = trim_space rawSession; rid = trim_space rawRuntime in
      case requireUserID uid of Some er \<Rightarrow> (db, Inl er) | None \<Rightarrow>
      if session = '''' then (db, invalid ''session_id is required'')
      else if rid = '''' then (db, invalid ''runtime_id is required'')
      else if env \<noteq> 1 then (db, invalid ''session market-data subscriptions are only supported for demo environment'')
      else if rawKeys = [] then (db, invalid ''at least one stream key is required'')
      else case validate_keys rawKeys of Inl e \<Rightarrow> (db, Inl e) | Inr keys \<Rightarrow>
       (case UpsertSessionMarketDataSubscriptions now uid session rid env keys db of
          (db', Inl e) \<Rightarrow> (db', internal ''create session subscriptions'' e)
        | (db', Inr subs) \<Rightarrow> (db', Inr subs)))"

definition ReleaseSessionMarketDataSubscriptions :: "go_time \<Rightarrow> string \<Rightarrow> string \<Rightarrow> market_db \<Rightarrow> market_db \<times> int result" where
  "ReleaseSessionMarketDataSubscriptions now rawSession rawRuntime db =
     (let session = trim_space rawSession in
      if session = '''' then (db, invalid ''session_id is required'')
      else let (db', n) = ReleaseSessionMarketDataSubscriptions_rows now session (trim_space rawRuntime) db in (db', Inr n))"

definition CreateOrRenewStreamDeliveryLease ::
  "go_time \<Rightarrow> go_time \<Rightarrow> string \<Rightarrow> int \<Rightarrow> string \<Rightarrow> int \<Rightarrow> market_db \<Rightarrow> market_db \<times> delivery_lease result" where
  "CreateOrRenewStreamDeliveryLease now wall leaseID sub rawOwner ttlSeconds db =
     (let owner = trim_space rawOwner in
      if sub \<le> 0 then (db, invalid ''subscription_id is required'')
      else if owner = '''' then (db, invalid ''owner_instance_id is required'')
      else case CreateOrRenewStreamDeliveryLease_row now wall leaseID sub owner (lease_ttl ttlSeconds) db of
        (db', Inl e) \<Rightarrow>
          if errors_Is e ErrPermissionDenied
          then (db', Inl (Status FailedPrecondition ''stream delivery lease is owned by another active instance''))
          else (db', internal ''create/renew stream delivery lease'' e)
      | (db', Inr l) \<Rightarrow> (db', Inr l))"

definition ReleaseStreamDeliveryLease :: "go_time \<Rightarrow> string \<Rightarrow> string \<Rightarrow> market_db \<Rightarrow> market_db \<times> unit result" where
  "ReleaseStreamDeliveryLease now leaseID owner db =
     (if trim_space leaseID = '''' then (db, invalid ''lease_id is required'')
      else if trim_space owner = '''' then (db, invalid ''owner_instance_id is required'')
      else case ReleaseStreamDeliveryLease_row now leaseID owner db of
        (db', Inl e) \<Rightarrow> if errors_Is e ErrNotFound then (db', Inl (Status NotFound ''stream delivery lease not found''))
                       else (db', internal ''release stream delivery lease'' e)
      | (db', Inr _) \<Rightarrow> (db', Inr ()))"

definition ListSessionDeliveryHealth :: "go_time \<Rightarrow> int \<Rightarrow> string \<Rightarrow> string \<Rightarrow> market_db \<Rightarrow> p_health list result" where
  "ListSessionDeliveryHealth wall uid rawSession rawRuntime db =
     (case requireUserID uid of Some er \<Rightarrow> Inl er | None \<Rightarrow>
      Inr (map (\<lambda>item. toProtoSessionDeliveryHealth (classifyDeliveryHealth item wall))
        (ListSessionDeliveryHealth_rows db uid (trim_space rawSession) (trim_space rawRuntime))))"

definition CreateOrRenewMarketDataWriterLease ::
  "go_time \<Rightarrow> go_time \<Rightarrow> string \<Rightarrow> market_stream_key option \<Rightarrow> int \<Rightarrow> string \<Rightarrow> string \<Rightarrow> string \<Rightarrow> int \<Rightarrow>
   market_db \<Rightarrow> market_db \<times> writer_lease result" where
  "CreateOrRenewMarketDataWriterLease now wall leaseID rawKey year rawOwner rawScraper rawCollector ttlSeconds db =
     (case validateWriterKey rawKey of Inl e \<Rightarrow> (db, Inl e) | Inr key \<Rightarrow>
     (let owner = trim_space rawOwner; scraper = trim_space rawScraper; collector = trim_space rawCollector in
      if year < 1970 then (db, invalid ''year is invalid'')
      else if owner = '''' then (db, invalid ''owner_instance_id is required'')
      else if scraper = '''' then (db, invalid ''scraper_instance_id is required'')
      else if collector = '''' then (db, invalid ''collector_id is required'')
      else case CreateOrRenewMarketDataWriterLease_row now wall leaseID key year owner scraper collector (lease_ttl ttlSeconds) db of
        (db', Inl e) \<Rightarrow>
          if errors_Is e ErrPermissionDenied
          then (db', Inl (Status FailedPrecondition ''market-data writer lease is owned by another active instance''))
          else (db', internal ''create/renew market-data writer lease'' e)
      | (db', Inr l) \<Rightarrow> (db', Inr l)))"

definition ReleaseMarketDataWriterLease :: "go_time \<Rightarrow> string \<Rightarrow> string \<Rightarrow> market_db \<Rightarrow> market_db \<times> unit result" where
  "ReleaseMarketDataWriterLease now leaseID owner db =
     (if trim_space leaseID = '''' then (db, invalid ''lease_id is required'')
      else if trim_space owner = '''' then (db, invalid ''owner_instance_id is required'')
      else case ReleaseMarketDataWriterLease_row now leaseID owner db of
        (db', Inl e) \<Rightarrow> if errors_Is e ErrNotFound then (db', Inl (Status NotFound ''market-data writer lease not found''))
                       else (db', internal ''release market-data writer lease'' e)
      | (db', Inr _) \<Rightarrow> (db', Inr ()))"


section \<open>All RPCs keep the store consistent\<close>

definition core :: "market_db \<Rightarrow> market_stream list \<times> int \<times> market_request list \<times> history_request list \<times> int \<times> market_lease list" where
  "core db = (md_streams db, md_stream_seq db, md_requests db, md_histories db, md_request_seq db, md_leases db)"

definition side :: "market_db \<Rightarrow> delivery_lease list \<times> writer_lease list" where
  "side db = (md_dleases db, md_writers db)"

text \<open>The invariant of the service, up to the aggregates of the streams in \<open>S\<close>.\<close>
definition service_inv :: "go_time \<Rightarrow> int set \<Rightarrow> market_db \<Rightarrow> bool" where
  "service_inv t S db \<longleftrightarrow> inv_but t S db \<and> history_ok db \<and> dl_inv db \<and> wl_inv db"

lemma core_same: "core db' = core db \<Longrightarrow> inv_but t S db' = inv_but t S db \<and> history_ok db' = history_ok db"
  by (simp add: core_def inv_but_def streams_ok_def refs_ok_def ids_ok_def active_ok_def agg_ok_def history_ok_def
      stream_names_def demand_defs)

lemma side_same: "side db' = side db \<Longrightarrow> dl_inv db' = dl_inv db \<and> wl_inv db' = wl_inv db"
  by (simp add: side_def dl_inv_def wl_inv_def dl_table_def wl_table_def)

lemma recompute_side: "recomputeMarketDataStreamAggregate now sid db = Inr db' \<Longrightarrow> side db' = side db"
  by (auto simp: recompute_Inr recompute_from_def side_def)

lemma recompute_all_side: "recompute_all now sids db = Inr db' \<Longrightarrow> side db' = side db"
proof (induction sids arbitrary: db)
  case (Cons sid sids)
  then show ?case using recompute_side by (fastforce simp: bind_res_Inr)
qed simp

lemma upsert_stream_side: "side (fst (UpsertMarketDataStream now key db)) = side db"
  by (auto simp: UpsertMarketDataStream_def Let_def side_def split: list.split)

lemma market_step_side:
  assumes "market_step (t, db) (now, db')"
  shows "side db' = side db"
  using assms
proof (cases rule: market_step.cases)
  case (ask uid pid key needsLive)
  obtain db1 st where up: "UpsertMarketDataStream now key db = (db1, st)" by fastforce
  then have "side db1 = side db" using upsert_stream_side [of now key db] by simp
  then show ?thesis unfolding ask
    by (auto simp: UpsertMarketDataRequest_def up Let_def dest!: recompute_side split: list.split sum.split) (auto simp: side_def)
next
  case expire
  then show ?thesis by (auto simp: ExpireStaleLeases_def Let_def dest!: recompute_all_side split: sum.split) (auto simp: side_def)
qed (auto simp: CancelMarketDataRequest_row_def CreateOrRenewLease_def ReleaseLease_def UpdateMarketDataStreamActualState_def
      UpsertMarketDataHistoryRequest_def CancelMarketDataHistoryRequest_def UpdateMarketDataHistoryRequestState_def Let_def
      dest!: recompute_side split: sum.split list.split, auto simp: side_def)

lemma market_step_service: "market_step (t, db) (now, db') \<Longrightarrow> service_inv t S db \<Longrightarrow> service_inv now S db'"
  using market_step_inv [of t db now db' S] side_same [OF market_step_side] by (simp add: service_inv_def)

lemma upsert_subs_frame: "upsert_subs now uid session rid env keys db = Inr (db', ss) \<Longrightarrow> core db' = core db \<and> side db' = side db"
proof (induction keys arbitrary: db ss)
  case (Cons key keys)
  obtain db1 s where u: "upsert_subscription now uid session rid env key db = (db1, s)" by fastforce
  then have "core db1 = core db \<and> side db1 = side db"
    by (auto simp: upsert_subscription_def Let_def core_def side_def split: list.splits)
  then show ?case using Cons u by (auto simp: bind_res_Inr split: if_splits)
qed simp

lemma delivery_frame:
  "core (fst (UpsertSessionMarketDataSubscriptions now uid session rid env keys db)) = core db"
  "side (fst (UpsertSessionMarketDataSubscriptions now uid session rid env keys db)) = side db"
  "core (fst (ReleaseSessionMarketDataSubscriptions_rows now session rid db)) = core db"
  "side (fst (ReleaseSessionMarketDataSubscriptions_rows now session rid db)) = side db"
  "core (fst (dl_take q db)) = core db" "core (fst (dl_give p db)) = core db"
  "core (fst (wl_take w db)) = core db" "core (fst (wl_give p db)) = core db"
  "wl_inv (fst (dl_take q db)) = wl_inv db" "wl_inv (fst (dl_give p db)) = wl_inv db"
  "dl_inv (fst (wl_take w db)) = dl_inv db" "dl_inv (fst (wl_give p db)) = dl_inv db"
  by (auto simp: UpsertSessionMarketDataSubscriptions_def ReleaseSessionMarketDataSubscriptions_rows_def
      dl_take_def dl_give_def wl_take_def wl_give_def CreateOrRenewStreamDeliveryLease_row_def ReleaseStreamDeliveryLease_row_def
      CreateOrRenewMarketDataWriterLease_row_def ReleaseMarketDataWriterLease_row_def Let_def core_def side_def dl_inv_def wl_inv_def
      dl_table_def wl_table_def dest!: upsert_subs_frame split: sum.split prod.split list.split)

text \<open>One RPC, its handler running alone.\<close>
inductive rpc :: "go_time \<times> market_db \<Rightarrow> go_time \<times> market_db \<Rightarrow> bool" where
  create: "t \<le> now \<Longrightarrow> rpc (t, db) (now, fst (CreateMarketDataRequest now uid pid key scope live s e db))"
| cancel: "t \<le> now \<Longrightarrow> rpc (t, db) (now, fst (CancelMarketDataRequest now uid rid db))"
| report_stream: "t \<le> now \<Longrightarrow> rpc (t, db) (now, fst (ReportMarketDataStreamState now sid state lastData lastErr db))"
| report_history: "t \<le> now \<Longrightarrow> rpc (t, db) (now, fst (ReportMarketDataHistoryRequestState now rid state cs ce lastErr db))"
| lease: "t \<le> now \<Longrightarrow> rpc (t, db) (now, fst (CreateOrRenewMarketDataLease wall now session strategy pid sid ttl db))"
| release: "t \<le> now \<Longrightarrow> rpc (t, db) (now, fst (ReleaseMarketDataLease now session sid db))"
| subscribe: "t \<le> now \<Longrightarrow> rpc (t, db) (now, fst (CreateSessionMarketDataSubscriptions now uid session runtime env keys db))"
| unsubscribe: "t \<le> now \<Longrightarrow> rpc (t, db) (now, fst (ReleaseSessionMarketDataSubscriptions now session runtime db))"
| deliver: "t \<le> now \<Longrightarrow> rpc (t, db) (now, fst (CreateOrRenewStreamDeliveryLease now wall lid sub owner ttl db))"
| undeliver: "t \<le> now \<Longrightarrow> rpc (t, db) (now, fst (ReleaseStreamDeliveryLease now lid owner db))"
| take_writer: "t \<le> now \<Longrightarrow> rpc (t, db) (now, fst (CreateOrRenewMarketDataWriterLease now wall lid wkey year owner scraper collector ttl db))"
| give_writer: "t \<le> now \<Longrightarrow> rpc (t, db) (now, fst (ReleaseMarketDataWriterLease now lid owner db))"

lemma service_later: "t \<le> now \<Longrightarrow> service_inv t S db \<Longrightarrow> service_inv now S db"
  using inv_but_later by (auto simp: service_inv_def)

text \<open>The operations of the store, by themselves.\<close>

lemma op_service:
  assumes "service_inv now S db"
  shows "service_inv now S (fst (UpsertMarketDataRequest now uid pid key needsLive db))"
    "service_inv now S (fst (CancelMarketDataRequest_row now rid uid db))"
    "service_inv now S (fst (CreateOrRenewLease wall now session strategy pid sid ttl db))"
    "service_inv now S (fst (ReleaseLease now session sid db))"
    "service_inv now S (fst (UpdateMarketDataStreamActualState now sid state lastData lastErr db))"
    "service_inv now S (fst (UpsertMarketDataHistoryRequest now uid pid key s e db))"
    "service_inv now S (fst (CancelMarketDataHistoryRequest now rid uid db))"
    "service_inv now S (fst (UpdateMarketDataHistoryRequestState now rid status cs ce lastErr db))"
  by (rule market_step_service [OF _ assms], rule market_step.intros, simp)+

lemma side_op_service:
  assumes "service_inv now S db"
  shows "service_inv now S (fst (UpsertSessionMarketDataSubscriptions now uid session rid env keys db))"
    "service_inv now S (fst (ReleaseSessionMarketDataSubscriptions_rows now session rid db))"
    "service_inv now S (fst (dl_take q db))" "service_inv now S (fst (dl_give p db))"
    "service_inv now S (fst (wl_take w db))" "service_inv now S (fst (wl_give p db))"
  using assms delivery.acquire_inv [of db q] delivery.release_inv [of db p] writer.acquire_inv [of db w] writer.release_inv [of db p]
    core_same [OF delivery_frame(1)] core_same [OF delivery_frame(3)] side_same [OF delivery_frame(2)] side_same [OF delivery_frame(4)]
    core_same [OF delivery_frame(5)] core_same [OF delivery_frame(6)] core_same [OF delivery_frame(7)] core_same [OF delivery_frame(8)]
  by (simp_all add: service_inv_def delivery_frame)

lemma create_service:
  assumes "service_inv now S db"
  shows "service_inv now S (fst (CreateMarketDataRequest now uid pid key scope live s e db))"
proof (cases "requireUserID uid")
  case None
  show ?thesis
  proof (cases "validateStreamKey key")
    case (Inr k)
    note v = this
    show ?thesis
    proof (cases "normalizeRequestScope scope")
      case (Inr sc)
      obtain d1 r1 where 1: "UpsertMarketDataRequest now uid (positive_id pid) k live db = (d1, r1)" by fastforce
      then have d1: "service_inv now S d1" using op_service(1) [OF assms, of uid "positive_id pid" k live] by simp
      show ?thesis
      proof (cases "sc = ScopeHistorical \<and> \<not> live \<and> is_ok (validateHistoricalRange s e)")
        case True
        then obtain a b where ab: "validateHistoricalRange s e = Inr (a, b)" by (auto simp: is_ok_iff)
        obtain d2 r2 where 2: "UpsertMarketDataHistoryRequest now uid (positive_id pid) k a b db = (d2, r2)" by fastforce
        then have "service_inv now S d2" using op_service(6) [OF assms, of uid "positive_id pid" k a b] by simp
        then show ?thesis using None v Inr True ab 2 by (cases r2) (simp_all add: CreateMarketDataRequest_def)
      next
        case False
        show ?thesis
        proof (cases "sc = ScopeHistorical")
          case True
          with False have "live \<or> (\<exists>er. validateHistoricalRange s e = Inl er)" by (cases "validateHistoricalRange s e") auto
          then show ?thesis using None v Inr True assms by (auto simp: CreateMarketDataRequest_def)
        next
          case False
          then show ?thesis using None v Inr 1 d1
            by (cases r1) (simp_all add: CreateMarketDataRequest_def split: sum.split)
        qed
      qed
    qed (use None Inr assms in \<open>simp add: CreateMarketDataRequest_def\<close>)
  qed (use None assms in \<open>simp add: CreateMarketDataRequest_def\<close>)
qed (simp add: CreateMarketDataRequest_def assms)

lemma cancel_service:
  assumes "service_inv now S db"
  shows "service_inv now S (fst (CancelMarketDataRequest now uid rid db))"
proof -
  obtain d1 r1 where 1: "CancelMarketDataRequest_row now rid uid db = (d1, r1)" by fastforce
  then have d1: "service_inv now S d1" using op_service(2) [OF assms, of rid uid] by simp
  obtain d2 r2 where 2: "CancelMarketDataHistoryRequest now rid uid d1 = (d2, r2)" by fastforce
  then have d2: "service_inv now S d2" using op_service(7) [OF d1, of rid uid] by simp
  show ?thesis
    by (cases r1; cases r2) (use assms d1 d2 1 2 in \<open>auto simp: CancelMarketDataRequest_def Let_def split: option.split\<close>)
qed

lemma report_service:
  assumes "service_inv now S db"
  shows "service_inv now S (fst (ReportMarketDataStreamState now sid state lastData lastErr db))"
    "service_inv now S (fst (ReportMarketDataHistoryRequestState now rid hstate cs ce lastErr db))"
    "service_inv now S (fst (CreateOrRenewMarketDataLease wall now session strategy pid sid ttl db))"
    "service_inv now S (fst (ReleaseMarketDataLease now session sid db))"
proof -
  note op = op_service [OF assms]
  show "service_inv now S (fst (ReportMarketDataStreamState now sid state lastData lastErr db))"
  proof -
    obtain d r where u: "UpdateMarketDataStreamActualState now sid (trim_space (to_lower state)) lastData lastErr db = (d, r)" by fastforce
    then have "service_inv now S d" using op(5) [of sid "trim_space (to_lower state)" lastData lastErr] by simp
    then show ?thesis using assms u
      by (cases r) (simp_all add: ReportMarketDataStreamState_def Let_def del: insert_iff)
  qed
  show "service_inv now S (fst (ReportMarketDataHistoryRequestState now rid hstate cs ce lastErr db))"
  proof (cases "normalizeHistoryStatus hstate")
    case (Inr st)
    then show ?thesis using op(8) [of rid st cs ce lastErr] assms
      by (auto simp: ReportMarketDataHistoryRequestState_def split: prod.split sum.split)
  qed (simp add: ReportMarketDataHistoryRequestState_def assms)
  show "service_inv now S (fst (CreateOrRenewMarketDataLease wall now session strategy pid sid ttl db))"
    using op(3) [of wall session "positive_id strategy" "positive_id pid" sid "lease_ttl ttl"] assms
    by (auto simp: CreateOrRenewMarketDataLease_def split: prod.split sum.split)
  show "service_inv now S (fst (ReleaseMarketDataLease now session sid db))"
    using op(4) [of session sid] assms by (auto simp: ReleaseMarketDataLease_def split: prod.split sum.split)
qed

lemma delivery_service:
  assumes "service_inv now S db"
  shows "service_inv now S (fst (CreateSessionMarketDataSubscriptions now uid session runtime env keys db))"
    "service_inv now S (fst (ReleaseSessionMarketDataSubscriptions now session runtime db))"
    "service_inv now S (fst (CreateOrRenewStreamDeliveryLease now wall lid sub owner ttl db))"
    "service_inv now S (fst (ReleaseStreamDeliveryLease now lid owner db))"
    "service_inv now S (fst (CreateOrRenewMarketDataWriterLease now wall lid wkey year owner scraper collector ttl db))"
    "service_inv now S (fst (ReleaseMarketDataWriterLease now lid owner db))"
proof -
  note op = side_op_service [OF assms]
  show "service_inv now S (fst (CreateSessionMarketDataSubscriptions now uid session runtime env keys db))"
  proof (cases "validate_keys keys")
    case (Inr ks)
    then show ?thesis using op(1) [of uid "trim_space session" "trim_space runtime" env ks] assms
      by (auto simp: CreateSessionMarketDataSubscriptions_def Let_def split: option.split prod.split sum.split)
  qed (simp add: CreateSessionMarketDataSubscriptions_def assms Let_def split: option.split)
  show "service_inv now S (fst (ReleaseSessionMarketDataSubscriptions now session runtime db))"
    using op(2) [of "trim_space session" "trim_space runtime"] assms
    by (auto simp: ReleaseSessionMarketDataSubscriptions_def Let_def split: prod.split)
  show "service_inv now S (fst (CreateOrRenewStreamDeliveryLease now wall lid sub owner ttl db))"
    using op(3) [of "(now, wall, lid, sub, trim_space owner, lease_ttl ttl)"] assms
    by (auto simp: CreateOrRenewStreamDeliveryLease_def dl_take_def Let_def split: prod.split sum.split)
  show "service_inv now S (fst (ReleaseStreamDeliveryLease now lid owner db))"
    using op(4) [of "(now, lid, owner)"] assms by (auto simp: ReleaseStreamDeliveryLease_def dl_give_def split: prod.split sum.split)
  show "service_inv now S (fst (CreateOrRenewMarketDataWriterLease now wall lid wkey year owner scraper collector ttl db))"
  proof (cases "validateWriterKey wkey")
    case (Inr k)
    then show ?thesis
      using op(5) [of "(now, wall, lid, (k, year), trim_space owner, trim_space scraper, trim_space collector, lease_ttl ttl)"] assms
      by (auto simp: CreateOrRenewMarketDataWriterLease_def wl_take_def Let_def split: prod.split sum.split)
  qed (simp add: CreateOrRenewMarketDataWriterLease_def assms)
  show "service_inv now S (fst (ReleaseMarketDataWriterLease now lid owner db))"
    using op(6) [of "(now, lid, owner)"] assms by (auto simp: ReleaseMarketDataWriterLease_def wl_give_def split: prod.split sum.split)
qed


lemma rpc_service: "rpc (t, db) (now, db') \<Longrightarrow> service_inv t S db \<Longrightarrow> service_inv now S db'"
proof (cases rule: rpc.cases, assumption)
qed (use service_later create_service cancel_service report_service delivery_service in \<open>simp_all\<close>)

lemma empty_service: "service_inv t {} empty_db"
  using empty_inv by (simp add: service_inv_def inv_but_none dl_inv_def wl_inv_def dl_table_def wl_table_def empty_db_def keys_ok_def)

text \<open>
  What concurrent handlers do to the tables. Each RPC changes the rows of its own transaction and then recomputes the aggregate of one
  stream, or of none; it holds the lock of that stream's row until it commits, so that the transactions of a stream commit one after the
  other. Alone, the recomputation reads what the tables hold. When it had to wait for another transaction, it reads the snapshot that it
  took before (READ COMMITTED): here any tables. \<open>S\<close> collects the streams whose aggregate was ever recomputed that way.
\<close>
inductive traffic :: "go_time \<times> int set \<times> market_db \<Rightarrow> go_time \<times> int set \<times> market_db \<Rightarrow> bool" where
  alone: "rpc (t, db) (now, db') \<Longrightarrow> traffic (t, S, db) (now, S, db')"
| overlapped: "rpc (t, db) (now, db') \<Longrightarrow> traffic (t, S, db) (now, insert sid S, recompute_from now snapshot sid db')"

lemma recompute_from_side: "side (recompute_from now snapshot sid db) = side db"
  by (simp add: recompute_from_def side_def)

lemma overlapped_service:
  assumes "service_inv now S db"
  shows "service_inv now (insert sid S) (recompute_from now snapshot sid db)"
proof -
  have "history_ok (recompute_from now snapshot sid db)"
    using assms history_ok_same [OF recompute_streams(4)] by (simp add: service_inv_def)
  then show ?thesis
    using assms inv_but_stale side_same [OF recompute_from_side] by (simp add: service_inv_def)
qed

lemma traffic_service:
  assumes "traffic\<^sup>*\<^sup>* c c'" "c = (t, S, db)" "c' = (t', S', db')" "service_inv t S db"
  shows "service_inv t' S' db'"
  using assms(1,3)
proof (induction arbitrary: t' S' db' rule: rtranclp_induct)
  case (step y z)
  obtain t1 S1 d1 where y: "y = (t1, S1, d1)" by (cases y)
  then have inv: "service_inv t1 S1 d1" using step.IH by simp
  show ?case using step.hyps(2) unfolding y step.prems
  proof (cases rule: traffic.cases)
    case alone
    then show ?thesis using rpc_service inv by blast
  next
    case (overlapped d2 sid snapshot)
    then show ?thesis using overlapped_service [OF rpc_service [OF _ inv]] by blast
  qed
qed (use assms(2,4) in simp)

text \<open>C34. Whatever RPCs the market-data service answers, accepted or refused, in any order: ids and keys stay unique, every request and
  lease names a stream that exists (a request the one with its key), a user has at most one active request per key and one per
  historical window, no subscription has two active delivery leases, and no stream and year has two active writer leases. This holds
  of overlapping RPCs as well, with one exception: the aggregate of a stream that was recomputed from an older snapshot, by an RPC that
  overlapped another one on the same stream, may be wrong. The aggregate of every other stream is right: it is wanted exactly while a
  request on it is not cancelled, and its live flag agrees with its requests and leases.\<close>
theorem market_service_invariant:
  assumes "traffic\<^sup>*\<^sup>* (t0, {}, empty_db) (t, S, db)"
  shows "streams_ok db \<and> refs_ok db \<and> ids_ok db \<and> active_ok db \<and> history_ok db \<and>
    (\<forall>s\<in>set (md_streams db). ms_id s \<notin> S \<longrightarrow> agg_ok t db s) \<and>
    (\<forall>a\<in>set (md_dleases db). \<forall>b\<in>set (md_dleases db).
       dl_active a \<and> dl_active b \<and> dl_subscription_id a = dl_subscription_id b \<longrightarrow> a = b) \<and>
    (\<forall>a\<in>set (md_writers db). \<forall>b\<in>set (md_writers db).
       wl_active a \<and> wl_active b \<and> wl_key a = wl_key b \<and> wl_year a = wl_year b \<longrightarrow> a = b)"
proof -
  have inv: "service_inv t S db" using traffic_service [OF assms refl refl empty_service] .
  then have k: "keys_ok dl_subscription_id (filter dl_active (md_dleases db))" "keys_ok wl_domain (filter wl_active (md_writers db))"
    by (simp_all add: service_inv_def dl_inv_def wl_inv_def dl_table_def wl_table_def)
  have "a = b" if "a \<in> set (md_dleases db)" "b \<in> set (md_dleases db)" "dl_active a" "dl_active b" "dl_subscription_id a = dl_subscription_id b" for a b
    using keys_ok_same [OF k(1)] that by simp
  moreover have "a = b" if "a \<in> set (md_writers db)" "b \<in> set (md_writers db)" "wl_active a" "wl_active b" "wl_key a = wl_key b" "wl_year a = wl_year b" for a b
    using keys_ok_same [OF k(2)] that by (simp add: wl_domain_def)
  ultimately show ?thesis using inv by (auto simp: service_inv_def inv_but_def)
qed

text \<open>Two requests for one stream, of two users: the second RPC overlapped the first, its recomputation saw no request at all.\<close>
theorem market_service_invariant_witness:
  "let db = fst (CreateMarketDataRequest 5 7 0 (Some btc_1m) '''' True None None empty_db);
       db' = recompute_from 6 empty_db 1 (fst (CreateMarketDataRequest 6 8 0 (Some btc_1m) '''' True None None db))
   in (\<forall>s\<in>set (md_streams db). agg_ok 5 db s) \<and> active_ok db' \<and> refs_ok db'"
proof -
  let ?db = "fst (CreateMarketDataRequest 5 7 0 (Some btc_1m) '''' True None None empty_db)"
  let ?db2 = "fst (CreateMarketDataRequest 6 8 0 (Some btc_1m) '''' True None None ?db)"
  have 1: "traffic (5, {}, empty_db) (5, {}, ?db)" by (rule traffic.alone, rule rpc.create) simp
  have 2: "traffic (5, {}, ?db) (6, {1}, recompute_from 6 empty_db 1 ?db2)" by (rule traffic.overlapped, rule rpc.create) simp
  show ?thesis
    using market_service_invariant [OF r_into_rtranclp [of traffic, OF 1]]
      market_service_invariant [OF converse_rtranclp_into_rtranclp [of traffic, OF 1 r_into_rtranclp [of traffic, OF 2]]]
    by (simp add: Let_def)
qed

section \<open>Listing\<close>

lemma page_is_slice:
  assumes "all_entries now uid db = Inr out" "0 < uid" "0 < limit \<or> 0 < offset" "0 \<le> offset"
  shows "ListMarketDataRequests now uid limit offset db =
    Inr (take (nat (page_limit limit)) (drop (nat offset) out), offset + page_limit limit < int (length out), int (length out))"
proof -
  have pl: "0 < page_limit limit" by (simp add: page_limit_def Let_def)
  have "take (nat (int (length out) - offset)) (drop (nat offset) out) = take (nat (page_limit limit)) (drop (nat offset) out)"
    if "int (length out) < offset + page_limit limit" "offset < int (length out)"
  proof -
    have "length (drop (nat offset) out) \<le> nat (int (length out) - offset)" "length (drop (nat offset) out) \<le> nat (page_limit limit)"
      using that assms(4) by auto
    then show ?thesis by simp
  qed
  then show ?thesis using assms pl by (auto simp: ListMarketDataRequests_def requireUserID_def Let_def)
qed

lemma pages_concat: "0 < n \<Longrightarrow> concat (map (\<lambda>k. take n (drop (k * n) xs)) [0..<m]) = take (m * n) xs"
proof (induction m)
  case (Suc m)
  then show ?case using take_add [of "m * n" n xs] by (simp add: add.commute)
qed simp

text \<open>Paging neither loses nor repeats an entry: the pages of size \<open>n\<close> (at most 200) at the offsets
  0, n, 2n, ... laid end to end are the whole listing, \<open>has_more\<close> is off exactly on the pages that reach
  its end, and every page reports the full length; the listing itself is in descending order of id.\<close>
theorem request_pages_partition:
  assumes "all_entries now uid db = Inr out" "0 < uid" "0 < n" "n \<le> 200" "length out \<le> m * nat n"
  shows "(\<forall>k. ListMarketDataRequests now uid n (int k * n) db =
       Inr (take (nat n) (drop (k * nat n) out), (int k + 1) * n < int (length out), int (length out))) \<and>
    concat (map (\<lambda>k. take (nat n) (drop (k * nat n) out)) [0..<m]) = out \<and>
    sorted_wrt (\<lambda>x y. pr_id (fst y) \<le> pr_id (fst x)) out"
proof (intro conjI allI)
  have pl: "page_limit n = n" using assms(3,4) by (simp add: page_limit_def)
  show "ListMarketDataRequests now uid n (int k * n) db =
      Inr (take (nat n) (drop (k * nat n) out), (int k + 1) * n < int (length out), int (length out))" for k
    using page_is_slice [OF assms(1,2), of n "int k * n"] assms(3) pl
    by (simp add: nat_mult_distrib distrib_right)
  show "concat (map (\<lambda>k. take (nat n) (drop (k * nat n) out)) [0..<m]) = out"
    using pages_concat [of "nat n" out m] assms(3,5) by simp
  have "sorted (map (\<lambda>x. - pr_id (fst x)) out)"
    using assms(1) by (auto simp: all_entries_def bind_res_Inr)
  then show "sorted_wrt (\<lambda>x y. pr_id (fst y) \<le> pr_id (fst x)) out"
    by (simp add: sorted_map)
qed

theorem request_pages_partition_witness:
  "snd (snd (projr (ListMarketDataRequests 10 7 1 0 asked_db))) = 1"
proof -
  have "all_entries 10 7 asked_db = Inr [(toProtoRequest (hd (md_requests asked_db)),
      Some (proto_stream 10 asked_db (hd (md_streams asked_db))))]"
    by (simp add: all_entries_def ListMarketDataRequestsByUser_def ListMarketDataHistoryRequestsByUser_def asked_db_value empty_db_def
        GetMarketDataStream_def select_one_def)
  from request_pages_partition [OF this, of 1 1] show ?thesis by (auto dest: spec [of _ 0])
qed


section \<open>Ownership\<close>

lemma update_where_mem: "x \<in> set t \<Longrightarrow> \<not> P x \<Longrightarrow> x \<in> set (update_where P f t)"
  by (simp add: set_update_where)

lemma cancel_row_others:
  assumes "CancelMarketDataRequest_row now rid uid db = (db', res)" "keys_ok mr_id (md_requests db)"
    and "r \<in> set (md_requests db)" "mr_user_id r \<noteq> uid"
  shows "r \<in> set (md_requests db')"
proof (cases "db' = db")
  case False
  then obtain x where x: "select_one (\<lambda>r. mr_id r = rid) (md_requests db) = Inr x" "mr_user_id x = uid"
    "md_requests db' = cancel_request_row now rid (md_requests db)"
    using assms(1) by (auto simp: CancelMarketDataRequest_row_def recompute_Inr recompute_streams split: sum.splits if_splits)
  then have m: "x \<in> set (md_requests db)" "mr_id x = rid" by (auto simp: select_one_def filter_eq_Cons_iff split: list.splits)
  have "mr_id r \<noteq> rid" using keys_ok_same [OF assms(2) assms(3) m(1)] m(2) x(2) assms(4) by auto
  then show ?thesis using assms(3) by (simp add: x(3) cancel_request_row_def update_where_mem)
qed (use assms in simp)

lemma cancel_history_others:
  assumes "CancelMarketDataHistoryRequest now rid uid db = (db', res)" "keys_ok hr_id (md_histories db)"
    and "r \<in> set (md_histories db)" "hr_user_id r \<noteq> uid"
  shows "r \<in> set (md_histories db')"
proof (cases "db' = db")
  case False
  let ?f = "\<lambda>r. r\<lparr>hr_status := HistoryCancelled, hr_cancelled_at := Some now, hr_updated_at := now\<rparr>"
  from False obtain x where x: "select_one (\<lambda>r. hr_id r = rid) (md_histories db) = Inr x" "hr_user_id x = uid" and
    db': "md_histories db' = update_where (\<lambda>r. hr_id r = rid \<and> hr_status r \<noteq> HistoryCancelled) ?f (md_histories db)"
    using assms(1) by (auto simp: CancelMarketDataHistoryRequest_def split: sum.splits if_splits)
  then have m: "x \<in> set (md_histories db)" "hr_id x = rid" by (auto simp: select_one_def filter_eq_Cons_iff split: list.splits)
  have "hr_id r \<noteq> rid" using keys_ok_same [OF assms(2) assms(3) m(1)] m(2) x(2) assms(4) by auto
  then show ?thesis using assms(3) db' by (auto intro: update_where_mem)
qed (use assms in simp)

lemma cancel_frames:
  "md_requests (fst (CancelMarketDataHistoryRequest now rid uid db)) = md_requests db"
  "md_histories (fst (CancelMarketDataRequest_row now rid uid db)) = md_histories db"
  by (auto simp: CancelMarketDataHistoryRequest_def other_ops_histories split: sum.split)

text \<open>Nobody cancels the request of somebody else: in a consistent store \<open>CancelMarketDataRequest\<close>
  leaves every live and historical request of the other users as it was, and a call that answers without an
  error has found a request of the caller with that id and left it cancelled.\<close>
theorem cancel_only_own_requests:
  assumes "service_inv now S db" "CancelMarketDataRequest now uid rid db = (db', res)"
  shows "(\<forall>r\<in>set (md_requests db). mr_user_id r \<noteq> uid \<longrightarrow> r \<in> set (md_requests db')) \<and>
    (\<forall>r\<in>set (md_histories db). hr_user_id r \<noteq> uid \<longrightarrow> r \<in> set (md_histories db')) \<and>
    (res = Inr () \<longrightarrow> (\<exists>r\<in>set (md_requests db'). mr_id r = rid \<and> mr_user_id r = uid \<and> mr_status r = RequestCancelled) \<or>
       (\<exists>r\<in>set (md_histories db'). hr_id r = rid \<and> hr_user_id r = uid \<and> hr_status r = HistoryCancelled))"
proof -
  obtain d1 r1 where 1: "CancelMarketDataRequest_row now rid uid db = (d1, r1)" by fastforce
  obtain d2 r2 where 2: "CancelMarketDataHistoryRequest now rid uid d1 = (d2, r2)" by fastforce
  have "ids_ok db" using assms(1) by (simp add: service_inv_def inv_but_def)
  note k = ids_ok_requests [OF this]
  have h: "md_histories d1 = md_histories db" "md_requests d2 = md_requests d1"
    using cancel_frames(2) [of now rid uid db] cancel_frames(1) [of now rid uid d1] 1 2 by simp_all
  have others: "r \<in> set (md_requests d1)" if "r \<in> set (md_requests db)" "mr_user_id r \<noteq> uid" for r
    using cancel_row_others [OF 1 k(1)] that by blast
  have others2: "r \<in> set (md_histories d2)" if "r \<in> set (md_histories db)" "hr_user_id r \<noteq> uid" for r
    using cancel_history_others [OF 2] k(2) that h(1) by simp
  have done1: "\<exists>r\<in>set (md_requests d1). mr_id r = rid \<and> mr_user_id r = uid \<and> mr_status r = RequestCancelled" if r1: "r1 = Inr u" for u
  proof -
    obtain x where x: "select_one (\<lambda>r. mr_id r = rid) (md_requests db) = Inr x" "mr_user_id x = uid"
      "md_requests d1 = cancel_request_row now rid (md_requests db)"
      using 1 r1 by (auto simp: CancelMarketDataRequest_row_def recompute_Inr recompute_streams denied_def split: sum.splits if_splits)
    then have "x \<in> set (md_requests db)" "mr_id x = rid" by (auto simp: select_one_def filter_eq_Cons_iff split: list.splits)
    then show ?thesis using x(2) unfolding x(3) cancel_request_row_def update_where_def
      by (intro bexI [of _ "if mr_id x = rid \<and> mr_status x \<noteq> RequestCancelled then x\<lparr>mr_status := RequestCancelled,
        mr_cancelled_at := Some now, mr_updated_at := now\<rparr> else x"]) auto
  qed
  have done2: "\<exists>r\<in>set (md_histories d2). hr_id r = rid \<and> hr_user_id r = uid \<and> hr_status r = HistoryCancelled" if r2: "r2 = Inr u" for u
  proof -
    let ?f = "\<lambda>r. r\<lparr>hr_status := HistoryCancelled, hr_cancelled_at := Some now, hr_updated_at := now\<rparr>"
    obtain x where x: "select_one (\<lambda>r. hr_id r = rid) (md_histories d1) = Inr x" "hr_user_id x = uid"
      "md_histories d2 = update_where (\<lambda>r. hr_id r = rid \<and> hr_status r \<noteq> HistoryCancelled) ?f (md_histories d1)"
      using 2 r2 by (auto simp: CancelMarketDataHistoryRequest_def denied_def split: sum.splits if_splits)
    then have "x \<in> set (md_histories d1)" "hr_id x = rid" by (auto simp: select_one_def filter_eq_Cons_iff split: list.splits)
    then show ?thesis using x(2) unfolding x(3) update_where_def
      by (intro bexI [of _ "if hr_id x = rid \<and> hr_status x \<noteq> HistoryCancelled then ?f x else x"]) auto
  qed
  have key: "db' \<in> {db, d1, d2} \<and> (res = Inr () \<longrightarrow> (\<exists>u. r1 = Inr u) \<and> db' = d1 \<or> (\<exists>u. r2 = Inr u) \<and> db' = d2)"
    using assms(2) 1 2
    by (cases r1; cases r2) (auto simp: CancelMarketDataRequest_def Let_def internal_def invalid_def split: option.splits if_splits)
  then consider "db' = db" "res \<noteq> Inr () \<or> db = d1 \<or> db = d2" | "db' = d1" | "db' = d2" by blast
  then show ?thesis
    using key others others2 done1 done2 h by cases auto
qed


theorem cancel_only_own_requests_witness:
  "hd (md_requests asked_db) \<in> set (md_requests (fst (CancelMarketDataRequest 20 8 1 asked_db)))"
proof -
  have "service_inv 20 {} asked_db"
    using op_service(1) [OF empty_service, of 10 7 None btc_1m True] service_later [of 10 20] by (simp add: asked_db_def)
  then show ?thesis using cancel_only_own_requests [of 20 "{}" asked_db 8 1, OF _ surjective_pairing] by (simp add: asked_db_value)
qed

text \<open>The acquiring RPCs trim the owner, the releasing ones do not: what was acquired with a padded name
  cannot be released with the same name.\<close>
lemma padded_owner_cannot_release:
  assumes "CreateOrRenewStreamDeliveryLease now wall lid sub owner ttl db = (db', Inr l)" "trim_space owner \<noteq> owner"
    "keys_ok dl_id (md_dleases db')" "trim_space (dl_id l) \<noteq> ''''"
    "filter (\<lambda>l. dl_active l \<and> dl_subscription_id l = sub) (md_dleases db) = []"
  shows "ReleaseStreamDeliveryLease now' (dl_id l) owner db' = (db', Inl (Status NotFound ''stream delivery lease not found''))"
proof -
  have o: "trim_space owner \<noteq> ''''" "CreateOrRenewStreamDeliveryLease_row now wall lid sub (trim_space owner) (lease_ttl ttl) db = (db', Inr l)"
    using assms(1) unfolding CreateOrRenewStreamDeliveryLease_def Let_def internal_def invalid_def
    by (simp_all split: if_splits prod.splits sum.splits)
  have l: "l \<in> set (md_dleases db') \<and> dl_owner l = trim_space owner"
    using o(2) assms(5) by (auto simp: CreateOrRenewStreamDeliveryLease_row_def Let_def split: if_splits)
  then have "\<not> (dl_id x = dl_id l \<and> dl_owner x = owner \<and> dl_active x)" if "x \<in> set (md_dleases db')" for x
    using keys_ok_same [OF assms(3) that conjunct1 [OF l]] assms(2) conjunct2 [OF l] by metis
  then have "\<not> list_ex (\<lambda>x. dl_id x = dl_id l \<and> dl_owner x = owner \<and> dl_active x) (md_dleases db')" by (auto simp: list_ex_iff)
  moreover have "trim_space owner \<noteq> ''''" by (rule o(1))
  ultimately show ?thesis using assms(4) by (simp add: ReleaseStreamDeliveryLease_def ReleaseStreamDeliveryLease_row_def not_found_def)
qed

end
