(* ===== verification/RuntimeStore.thy ===== *)
theory RuntimeStore
  imports Tables TimeModel
begin

text \<open>
  \<open>internal/repository/timescale.go\<close> and \<open>runtime_channel_admission.go\<close>: the runtime registry, debug
  datasets, runtime credentials, channel leases and admission failures. A statement computes the rows
  it would leave; \<open>write_rows\<close> and its siblings are the \<open>CHECK\<close> constraints and unique indices of the
  migrations 0013 to 0030, which refuse the statement. \<open>NULL\<close> user ids and credential keys are 0 and
  \<open>''''\<close>, as the selects read them. A transaction that returns an error leaves everything as it was.
\<close>

section \<open>Tables and constraints\<close>

record runtime_db =
  rt_rows :: "runtime list"
  rt_creds :: "credential list"
  rt_datasets :: "debug_dataset list"
  rt_leases :: "channel_lease list"
  rt_failures :: "admission_failure list"
  rt_failure_seq :: int

abbreviation live :: "runtime \<Rightarrow> bool" where "live r \<equiv> \<not> IsRuntimeTerminalStatus (RtStatus r)"

definition name_char :: "char \<Rightarrow> bool" where
  "name_char c \<longleftrightarrow> is_upper c \<or> is_lower c \<or> is_digit c \<or> c \<in> {CHR ''.'', CHR ''_'', CHR ''-''}"

definition runtime_name_ok :: "string \<Rightarrow> bool" where
  "runtime_name_ok s = (case s of [] \<Rightarrow> False
     | c # cs \<Rightarrow> (is_upper c \<or> is_lower c \<or> is_digit c) \<and> length cs \<le> 63 \<and> list_all name_char cs)"

definition ended_reasons :: "string list" where
  "ended_reasons = [ReasonUserCancelled, ReasonRuntimeExited, ReasonHeartbeatStale, ReasonProvisionFailed, ReasonAuthFailed, ReasonControlPanelShutdown]"

definition lifecycle_ok :: "runtime \<Rightarrow> bool" where
  "lifecycle_ok r \<longleftrightarrow>
     (if RtStatus r \<in> {RuntimeStatusStarting, RuntimeStatusPaired, RuntimeStatusActive, RuntimeStatusUnhealthy}
      then EndedAt r = None \<and> EndedReason r = '''' \<and> (RtStatus r = RuntimeStatusActive \<longrightarrow> StartedAt r \<noteq> None)
      else IsRuntimeTerminalStatus (RtStatus r) \<and> EndedAt r \<noteq> None \<and> EndedReason r \<noteq> '''')"

definition owner_ok :: "runtime \<Rightarrow> bool" where
  "owner_ok r \<longleftrightarrow> (if OwnerInstanceID r = '''' then OwnerAcquiredAt r = None \<and> OwnerHeartbeatAt r = None
     else OwnerAcquiredAt r \<noteq> None \<and> OwnerHeartbeatAt r \<noteq> None)"

definition runtime_row_ok :: "runtime \<Rightarrow> bool" where
  "runtime_row_ok r \<longleftrightarrow> runtime_name_ok (Name r) \<and> lifecycle_ok r \<and> owner_ok r \<and>
     Role r \<in> {RoleExecutor, RoleDebugger} \<and> Source r \<in> {SourceHosted, SourceSelfHosted, SourceBare} \<and>
     (EndedReason r = '''' \<or> EndedReason r \<in> set ended_reasons) \<and>
     CleanupStatus r \<in> {'''', CleanupSucceeded, CleanupFailed, CleanupUserOwned}"

definition named :: "runtime \<Rightarrow> bool" where "named r \<longleftrightarrow> UserID r \<noteq> 0"
definition bound :: "runtime \<Rightarrow> bool" where "bound r \<longleftrightarrow> CredentialKeyID r \<noteq> '''' \<and> live r"
definition debugging :: "runtime \<Rightarrow> bool" where "debugging r \<longleftrightarrow> UserID r \<noteq> 0 \<and> Role r = RoleDebugger \<and> live r"

definition runtimes_unique :: "runtime list \<Rightarrow> bool" where
  "runtimes_unique t \<longleftrightarrow> keys_ok RuntimeID t \<and> keys_ok (\<lambda>r. (UserID r, Name r)) (filter named t) \<and>
     keys_ok CredentialKeyID (filter bound t) \<and> keys_ok UserID (filter debugging t)"

definition credential_row_ok :: "credential \<Rightarrow> bool" where
  "credential_row_ok c \<longleftrightarrow> CredRole c \<in> {RoleExecutor, RoleDebugger} \<and> Issuer c \<in> {IssuerUser, IssuerHostedInternal, IssuerBareDebug} \<and>
     (let fresh = ConsumedAt c = None \<and> ConsumedRuntimeID c = ''''; used = ConsumedAt c \<noteq> None \<and> ConsumedRuntimeID c \<noteq> '''' in
      CredStatus c = CredActive \<and> DownloadedAt c = None \<and> fresh \<or> CredStatus c = CredDownloaded \<and> DownloadedAt c \<noteq> None \<and> fresh \<or>
      CredStatus c = CredConsumed \<and> used \<or> CredStatus c = CredRevoked \<and> RevokedAt c \<noteq> None \<and> (fresh \<or> used) \<or>
      CredStatus c = CredExpired \<and> ExpiresAt c \<noteq> None \<and> fresh)"

definition spent :: "credential \<Rightarrow> bool" where "spent c \<longleftrightarrow> ConsumedRuntimeID c \<noteq> ''''"

definition credentials_unique :: "credential list \<Rightarrow> bool" where
  "credentials_unique t \<longleftrightarrow> keys_ok KeyID t \<and> keys_ok ConsumedRuntimeID (filter spent t)"

definition check_violation :: go_error where "check_violation = Plain ''new row violates check constraint''"
definition unique_violation :: go_error where "unique_violation = Plain ''duplicate key value violates unique constraint''"

definition write_rows :: "runtime list \<Rightarrow> runtime list result" where
  "write_rows t = (if \<not> list_all runtime_row_ok t then Inl check_violation
     else if \<not> runtimes_unique t then Inl unique_violation else Inr t)"

definition write_creds :: "credential list \<Rightarrow> credential list result" where
  "write_creds t = (if \<not> list_all credential_row_ok t then Inl check_violation
     else if \<not> credentials_unique t then Inl unique_violation else Inr t)"

definition isUniqueViolation :: "go_error \<Rightarrow> bool" where
  "isUniqueViolation e \<longleftrightarrow> contains (err_text e) ''duplicate key value'' \<or> contains (err_text e) ''unique constraint''"

definition conflict :: "string \<Rightarrow> 'a result" where "conflict m = Inl (Sentinel ErrConflict m)"
definition missing :: "'a result" where "missing = Inl (Sentinel ErrNotFound ''not found'')"

text \<open>How the methods report a refused statement.\<close>
definition report_write :: "'a result \<Rightarrow> 'a result" where
  "report_write r = (case r of Inl e \<Rightarrow> if isUniqueViolation e then conflict ''conflict'' else Inl e | Inr x \<Rightarrow> Inr x)"

section \<open>Runtimes\<close>

definition firstRuntimeTime :: "go_time option list \<Rightarrow> go_time option" where
  "firstRuntimeTime cs = (case filter (\<lambda>c. case c of None \<Rightarrow> False | Some t \<Rightarrow> \<not> is_zero t) cs of [] \<Rightarrow> None | c # _ \<Rightarrow> c)"

definition normalizeRuntimeForWrite :: "go_time \<Rightarrow> runtime \<Rightarrow> runtime" where
  "normalizeRuntimeForWrite wall rt0 =
     (let rt = (if Role rt0 = '''' then rt0\<lparr>Role := RoleExecutor\<rparr> else rt0) in
      if RtStatus rt \<noteq> RuntimeStatusActive \<or> StartedAt rt \<noteq> None then rt
      else rt\<lparr>StartedAt := Some (case firstRuntimeTime [HeartbeatAt rt, PairedAt rt] of Some t \<Rightarrow> t
         | None \<Rightarrow> if \<not> is_zero (UpdatedAt rt) then UpdatedAt rt
                  else if \<not> is_zero (CreatedAt rt) then CreatedAt rt else wall)\<rparr>)"

definition empty_workspace :: debug_workspace where
  "empty_workspace = \<lparr>dw_host_path = '''', dw_container_path = ''/workspace'', dw_template_path = '''',
     dw_archived_template_path = '''', dw_vscode_launch_created = False, dw_vscode_launch_preserved = False,
     dw_pycharm_doc_created = False, dw_pycharm_doc_preserved = False, dw_prepared_at = None, dw_last_error = ''''\<rparr>"

text \<open>The columns the \<open>INSERT\<close>s do not name take their defaults.\<close>
definition insert_row :: "runtime \<Rightarrow> runtime" where
  "insert_row rt = rt\<lparr>CleanupStatus := '''', CleanupReason := '''', CleanupAt := None, OwnerInstanceID := '''',
     OwnerAcquiredAt := None, OwnerHeartbeatAt := None, DebugWorkspace := empty_workspace, DebugDataset := None\<rparr>"

definition CreateRuntime :: "go_time \<Rightarrow> runtime \<Rightarrow> runtime_db \<Rightarrow> runtime_db \<times> unit result" where
  "CreateRuntime wall rt0 db =
     (let rt = normalizeRuntimeForWrite wall rt0 in
      case report_write (write_rows (rt_rows db @ [insert_row rt])) of
        Inl e \<Rightarrow> (db, Inl e)
      | Inr t \<Rightarrow> (db\<lparr>rt_rows := t\<rparr>, Inr ()))"

text \<open>\<open>ON CONFLICT (runtime_id) DO UPDATE\<close> keeps what is not listed.\<close>
definition replace_row :: "runtime \<Rightarrow> runtime \<Rightarrow> runtime" where
  "replace_row rt old = old\<lparr>UserID := UserID rt, Name := Name rt, Source := Source rt, Role := Role rt,
     EndpointHost := EndpointHost rt, GRPCPort := GRPCPort rt, DebugPort := DebugPort rt, Capabilities := Capabilities rt,
     ResourceProfile := ResourceProfile rt, Version := Version rt, RtStatus := RtStatus rt, TokenHash := TokenHash rt,
     PairedAt := PairedAt rt, StartedAt := StartedAt rt, EndedAt := EndedAt rt, EndedReason := EndedReason rt,
     HeartbeatAt := HeartbeatAt rt, CredentialKeyID := CredentialKeyID rt, UpdatedAt := UpdatedAt rt\<rparr>"

text \<open>The constraints are checked on the row proposed for insertion before the conflict is looked for.
  The answer: the rows and whether one was written.\<close>
definition upsert_runtime :: "(runtime \<Rightarrow> bool) \<Rightarrow> runtime \<Rightarrow> runtime list \<Rightarrow> (runtime list \<times> bool) result" where
  "upsert_runtime guard rt t =
     (if \<not> runtime_row_ok (insert_row rt) then Inl check_violation
      else case row RuntimeID t (RuntimeID rt) of
        None \<Rightarrow> bind_res (write_rows (t @ [insert_row rt])) (\<lambda>t'. Inr (t', True))
      | Some old \<Rightarrow>
          if guard old
          then bind_res (write_rows (update_where (\<lambda>r. RuntimeID r = RuntimeID rt) (replace_row rt) t)) (\<lambda>t'. Inr (t', True))
          else Inr (t, False))"

definition same_identity :: "runtime \<Rightarrow> runtime \<Rightarrow> bool" where
  "same_identity rt old \<longleftrightarrow> UserID old = UserID rt \<and> UserID old \<noteq> 0 \<and> Source old = Source rt \<and>
     CredentialKeyID old = CredentialKeyID rt \<and> live old"

definition same_bare :: "runtime \<Rightarrow> runtime \<Rightarrow> bool" where
  "same_bare rt old \<longleftrightarrow> UserID old = UserID rt \<and> UserID old \<noteq> 0 \<and> Source old = Source rt"

definition name_taken :: "runtime \<Rightarrow> runtime list \<Rightarrow> bool" where
  "name_taken rt t \<longleftrightarrow> list_ex (\<lambda>r. UserID r = UserID rt \<and> Name r = Name rt \<and> RuntimeID r \<noteq> RuntimeID rt) t"

definition usable :: "credential \<Rightarrow> bool" where
  "usable c \<longleftrightarrow> CredStatus c = CredActive \<or> CredStatus c = CredDownloaded"

text \<open>The credential rows after consumption; an error rolls the transaction back, so the rows in which
  an outdated credential became \<open>expired\<close> are lost with it.\<close>
definition consumeRuntimeCredentialForRuntimeTx :: "go_time \<Rightarrow> runtime \<Rightarrow> go_time \<Rightarrow> credential list \<Rightarrow> credential list result" where
  "consumeRuntimeCredentialForRuntimeTx wall rt at0 creds =
     (let keyID = trim_space (CredentialKeyID rt); at = (if is_zero at0 then wall else at0) in
      if keyID = '''' then Inr creds
      else case row KeyID creds keyID of
        None \<Rightarrow> conflict ''runtime credential not found''
      | Some c \<Rightarrow>
          if CredUserID c \<noteq> UserID rt then conflict ''runtime credential belongs to another user''
          else if CredRole c \<noteq> Role rt then conflict ''runtime credential role does not match runtime role''
          else if Source rt \<noteq> (if HostedInternal c then SourceHosted else SourceSelfHosted) then conflict ''runtime credential source mismatch''
          else if (case ExpiresAt c of None \<Rightarrow> False | Some t \<Rightarrow> \<not> at < t) \<and> usable c
          then (case write_creds (update_where (\<lambda>c. KeyID c = keyID) (\<lambda>c. c\<lparr>CredStatus := CredExpired\<rparr>) creds) of
                  Inl e \<Rightarrow> Inl (Plain (''expire runtime credential: '' @ err_text e))
                | Inr _ \<Rightarrow> conflict ''runtime credential expired; stop retrying with this credential'')
          else if usable c
          then (case write_creds (update_where (\<lambda>c. KeyID c = keyID) (\<lambda>c. c\<lparr>CredStatus := CredConsumed, ConsumedAt := Some at,
                    ConsumedRuntimeID := RuntimeID rt, LastUsedAt := Some at\<rparr>) creds) of
                  Inl e \<Rightarrow> Inl (Plain (''consume runtime credential: '' @ err_text e))
                | Inr creds' \<Rightarrow> Inr creds')
          else if CredStatus c = CredConsumed then conflict ''runtime credential consumed; stop retrying with this credential''
          else if CredStatus c = CredRevoked then conflict ''runtime credential revoked; stop retrying with this credential''
          else if CredStatus c = CredExpired then conflict ''runtime credential expired; stop retrying with this credential''
          else conflict ''runtime credential status is not usable'')"

text \<open>The upsert of an admission and its outcome.\<close>
definition admit :: "(runtime \<Rightarrow> bool) \<Rightarrow> runtime \<Rightarrow> string \<Rightarrow> credential list \<Rightarrow> runtime_db \<Rightarrow> runtime_db \<times> unit result" where
  "admit guard rt none_written creds db =
     (case report_write (upsert_runtime guard rt (rt_rows db)) of
        Inl e \<Rightarrow> (db, Inl e)
      | Inr (t, written) \<Rightarrow> if written then (db\<lparr>rt_rows := t, rt_creds := creds\<rparr>, Inr ()) else (db, conflict none_written))"

definition CreateOrReplaceHostedRuntime :: "go_time \<Rightarrow> runtime \<Rightarrow> runtime_db \<Rightarrow> runtime_db \<times> unit result" where
  "CreateOrReplaceHostedRuntime wall rt0 db =
     (if Source rt0 \<noteq> SourceHosted then (db, Inl (Plain ''source must be hosted''))
      else if UserID rt0 \<le> 0 then (db, Inl (Plain ''user_id must be > 0''))
      else let rt = normalizeRuntimeForWrite wall rt0 in
        if name_taken rt (rt_rows db) then (db, conflict ''hosted runtime slot already occupied'')
        else case consumeRuntimeCredentialForRuntimeTx wall rt (UpdatedAt rt) (rt_creds db) of
          Inl e \<Rightarrow> (db, Inl e)
        | Inr creds \<Rightarrow> admit (same_identity rt) rt ''conflict'' creds db)"

definition CreateOrReplaceSelfHostedRuntime :: "go_time \<Rightarrow> runtime \<Rightarrow> runtime_db \<Rightarrow> runtime_db \<times> unit result" where
  "CreateOrReplaceSelfHostedRuntime wall rt0 db =
     (if Source rt0 \<noteq> SourceSelfHosted then (db, Inl (Plain ''source must be self_hosted''))
      else if UserID rt0 \<le> 0 then (db, Inl (Plain ''user_id must be > 0''))
      else if trim_space (CredentialKeyID rt0) = '''' then (db, Inl (Plain ''credential_key_id is required''))
      else let rt = normalizeRuntimeForWrite wall rt0 in
        if list_ex (\<lambda>r. CredentialKeyID r = CredentialKeyID rt \<and> live r \<and> RuntimeID r \<noteq> RuntimeID rt) (rt_rows db)
        then (db, conflict ''credential already bound to runtime'')
        else if Role rt = RoleDebugger \<and>
             list_ex (\<lambda>r. UserID r = UserID rt \<and> Role r = RoleDebugger \<and> RuntimeID r \<noteq> RuntimeID rt \<and> live r) (rt_rows db)
        then (db, conflict ''debugger runtime already active'')
        else if name_taken rt (rt_rows db) then (db, conflict ''runtime name already occupied'')
        else case consumeRuntimeCredentialForRuntimeTx wall rt (UpdatedAt rt) (rt_creds db) of
          Inl e \<Rightarrow> (db, Inl e)
        | Inr creds \<Rightarrow> admit (same_identity rt) rt ''runtime_id already belongs to another runtime credential'' creds db)"

definition CreateOrReplaceBareRuntime :: "go_time \<Rightarrow> runtime \<Rightarrow> runtime_db \<Rightarrow> runtime_db \<times> unit result" where
  "CreateOrReplaceBareRuntime wall rt0 db =
     (if Source rt0 \<noteq> SourceBare then (db, Inl (Plain ''source must be bare''))
      else if UserID rt0 \<le> 0 then (db, Inl (Plain ''user_id must be > 0''))
      else if trim_space (CredentialKeyID rt0) \<noteq> '''' then (db, Inl (Plain ''credential_key_id must be empty''))
      else let rt = normalizeRuntimeForWrite wall (rt0\<lparr>CredentialKeyID := ''''\<rparr>) in
        if name_taken rt (rt_rows db) then (db, conflict ''runtime name already occupied'')
        else admit (same_bare rt) rt ''runtime_id already belongs to another bare runtime'' (rt_creds db) db)"


text \<open>One \<open>UPDATE\<close> of the registry: the store and the rows it hit, as they were before.\<close>
definition update_runtimes :: "(runtime \<Rightarrow> bool) \<Rightarrow> (runtime \<Rightarrow> runtime) \<Rightarrow> runtime_db \<Rightarrow> (runtime_db \<times> runtime list) result" where
  "update_runtimes hit f db =
     bind_res (write_rows (update_where hit f (rt_rows db))) (\<lambda>t. Inr (db\<lparr>rt_rows := t\<rparr>, filter hit (rt_rows db)))"

text \<open>An update that must hit a row.\<close>
definition update_existing :: "(runtime \<Rightarrow> bool) \<Rightarrow> (runtime \<Rightarrow> runtime) \<Rightarrow> runtime_db \<Rightarrow> runtime_db \<times> unit result" where
  "update_existing hit f db =
     (case update_runtimes hit f db of
        Inl e \<Rightarrow> (db, Inl e)
      | Inr (db', hits) \<Rightarrow> if hits = [] then (db', missing) else (db', Inr ()))"

definition GetRuntime :: "runtime_db \<Rightarrow> string \<Rightarrow> runtime result" where
  "GetRuntime db rid = select_one (\<lambda>r. RuntimeID r = rid) (rt_rows db)"

text \<open>\<open>collate\<close> is the order of text in the database, which breaks ties.\<close>
definition ListRuntimes ::
  "(string \<Rightarrow> int) \<Rightarrow> runtime_db \<Rightarrow> int \<Rightarrow> string \<Rightarrow> string \<Rightarrow> int \<Rightarrow> int \<Rightarrow> runtime list \<times> int \<times> bool" where
  "ListRuntimes collate db uid status source limit0 offset0 =
     (let limit1 = (if limit0 \<le> 0 then 20 else limit0); limit = (if 200 < limit1 then 200 else limit1);
          offset = (if offset0 < 0 then 0 else offset0);
          rows = filter (\<lambda>r. UserID r = uid \<and> UserID r \<noteq> 0 \<and> (status = '''' \<or> RtStatus r = status) \<and> (source = '''' \<or> Source r = source)) (rt_rows db);
          ordered = sort_key (\<lambda>r. - (case StartedAt r of None \<Rightarrow> CreatedAt r | Some t \<Rightarrow> t)) (sort_key (\<lambda>r. - collate (RuntimeID r)) rows);
          items = take (nat (limit + 1)) (drop (nat offset) ordered);
          hasMore = limit < int (length items)
      in (if hasMore then take (nat limit) items else items, int (length rows), hasMore))"

definition UpdateRuntimeStatus :: "go_time \<Rightarrow> string \<Rightarrow> string \<Rightarrow> runtime_db \<Rightarrow> runtime_db \<times> unit result" where
  "UpdateRuntimeStatus now rid status =
     update_existing (\<lambda>r. RuntimeID r = rid) (\<lambda>r. r\<lparr>RtStatus := status, UpdatedAt := now\<rparr>)"

definition last_seen :: "runtime \<Rightarrow> go_time" where
  "last_seen r = (case HeartbeatAt r of Some t \<Rightarrow> t | None \<Rightarrow> UpdatedAt r)"

text \<open>The outer \<open>SELECT\<close> of a statement whose \<open>WITH\<close> part updates reads the snapshot of the statement:
  the rows come back as they were.\<close>
definition MarkStaleRuntimesUnhealthy :: "go_time \<Rightarrow> go_time \<Rightarrow> runtime_db \<Rightarrow> runtime_db \<times> runtime list result" where
  "MarkStaleRuntimesUnhealthy now cutoff db =
     (case update_runtimes
         (\<lambda>r. RtStatus r \<in> {RuntimeStatusActive, RuntimeStatusStarting, RuntimeStatusPaired} \<and> last_seen r < cutoff)
         (\<lambda>r. r\<lparr>RtStatus := RuntimeStatusUnhealthy, UpdatedAt := now\<rparr>) db of
        Inl e \<Rightarrow> (db, Inl e)
      | Inr (db', hits) \<Rightarrow> (db', Inr (sort_key (\<lambda>r. - UpdatedAt r) hits)))"

definition heartbeat_row :: "go_time \<Rightarrow> go_time \<Rightarrow> runtime \<Rightarrow> runtime" where
  "heartbeat_row now at r = r\<lparr>HeartbeatAt := Some at,
     RtStatus := (if RtStatus r \<in> {RuntimeStatusStarting, RuntimeStatusPaired, RuntimeStatusUnhealthy} then RuntimeStatusActive else RtStatus r),
     StartedAt := (if RtStatus r \<in> {RuntimeStatusActive, RuntimeStatusStarting, RuntimeStatusPaired, RuntimeStatusUnhealthy}
        then coalesce (StartedAt r) at else StartedAt r),
     UpdatedAt := now\<rparr>"

definition UpdateRuntimeHeartbeat :: "go_time \<Rightarrow> string \<Rightarrow> go_time \<Rightarrow> runtime_db \<Rightarrow> runtime_db \<times> unit result" where
  "UpdateRuntimeHeartbeat now rid at = update_existing (\<lambda>r. RuntimeID r = rid \<and> live r) (heartbeat_row now at)"

definition RecordRuntimeConnectionOwner :: "go_time \<Rightarrow> string \<Rightarrow> string \<Rightarrow> go_time \<Rightarrow> runtime_db \<Rightarrow> runtime_db \<times> unit result" where
  "RecordRuntimeConnectionOwner now rid inst at db =
     (if trim_space rid = '''' \<or> trim_space inst = '''' then (db, conflict ''conflict'')
      else update_existing (\<lambda>r. RuntimeID r = rid \<and> live r)
        (\<lambda>r. r\<lparr>OwnerAcquiredAt := (if OwnerInstanceID r = inst then coalesce (OwnerAcquiredAt r) at else Some at),
             OwnerInstanceID := inst, OwnerHeartbeatAt := Some at, UpdatedAt := now\<rparr>) db)"

definition ClearRuntimeConnectionOwner :: "go_time \<Rightarrow> string \<Rightarrow> string \<Rightarrow> runtime_db \<Rightarrow> runtime_db \<times> unit result" where
  "ClearRuntimeConnectionOwner now rid inst db =
     (if trim_space rid = '''' \<or> trim_space inst = '''' then (db, conflict ''conflict'')
      else case update_runtimes (\<lambda>r. RuntimeID r = rid \<and> OwnerInstanceID r = inst)
          (\<lambda>r. r\<lparr>OwnerInstanceID := '''', OwnerAcquiredAt := None, OwnerHeartbeatAt := None, UpdatedAt := now\<rparr>) db of
        Inl e \<Rightarrow> (db, Inl e)
      | Inr (db', _) \<Rightarrow> (db', Inr ()))"

definition CountRuntimesByUser :: "runtime_db \<Rightarrow> int \<Rightarrow> runtime_usage" where
  "CountRuntimesByUser db uid =
     (let mine = filter (\<lambda>r. UserID r = uid \<and> UserID r \<noteq> 0 \<and> live r) (rt_rows db);
          n = (\<lambda>src. int (length (filter (\<lambda>r. Source r = src) mine)))
      in \<lparr>UsageHosted = n SourceHosted, UsageSelfHosted = n SourceSelfHosted, UsageBare = n SourceBare\<rparr>)"

definition end_row :: "go_time \<Rightarrow> string \<Rightarrow> go_time \<Rightarrow> runtime \<Rightarrow> runtime" where
  "end_row now reason endedAt r = r\<lparr>RtStatus := RuntimeTerminalStatusForReason reason, EndedAt := Some endedAt,
     EndedReason := reason, UpdatedAt := now\<rparr>"

definition EndRuntime :: "go_time \<Rightarrow> string \<Rightarrow> string \<Rightarrow> go_time \<Rightarrow> runtime_db \<Rightarrow> runtime_db \<times> runtime result" where
  "EndRuntime now rid reason endedAt db =
     (case update_runtimes (\<lambda>r. RuntimeID r = rid \<and> live r) (end_row now reason endedAt) db of
        Inl e \<Rightarrow> (db, Inl e)
      | Inr (db', old # _) \<Rightarrow> (db', Inr old)
      | Inr (db', []) \<Rightarrow> (db', bind_res (GetRuntime db' rid) (\<lambda>r.
            if IsRuntimeTerminalStatus (RtStatus r) then Inr r else conflict ''conflict'')))"

definition EndRuntimesByCredentialKey :: "go_time \<Rightarrow> string \<Rightarrow> string \<Rightarrow> go_time \<Rightarrow> runtime_db \<Rightarrow> runtime_db \<times> int result" where
  "EndRuntimesByCredentialKey now keyID reason endedAt db =
     (case update_runtimes (\<lambda>r. CredentialKeyID r = keyID \<and> CredentialKeyID r \<noteq> '''' \<and> live r) (end_row now reason endedAt) db of
        Inl e \<Rightarrow> (db, Inl e)
      | Inr (db', hits) \<Rightarrow> (db', Inr (int (length hits))))"

definition EndDeadRuntimesBySourceCutoffs ::
  "go_time \<Rightarrow> go_time \<Rightarrow> go_time \<Rightarrow> string \<Rightarrow> go_time \<Rightarrow> runtime_db \<Rightarrow> runtime_db \<times> runtime list result" where
  "EndDeadRuntimesBySourceCutoffs now defaultCutoff bareCutoff reason endedAt db =
     (case update_runtimes (\<lambda>r. RtStatus r = RuntimeStatusUnhealthy \<and>
           (if Source r = SourceBare then last_seen r < bareCutoff else last_seen r < defaultCutoff))
         (end_row now reason endedAt) db of
        Inl e \<Rightarrow> (db, Inl e)
      | Inr (db', hits) \<Rightarrow> (db', Inr (sort_key (\<lambda>r. - UpdatedAt r) hits)))"

definition EndDeadRuntimes :: "go_time \<Rightarrow> go_time \<Rightarrow> string \<Rightarrow> go_time \<Rightarrow> runtime_db \<Rightarrow> runtime_db \<times> runtime list result" where
  "EndDeadRuntimes now cutoff reason endedAt = EndDeadRuntimesBySourceCutoffs now cutoff cutoff reason endedAt"

definition UpdateRuntimeCleanupState :: "go_time \<Rightarrow> string \<Rightarrow> string \<Rightarrow> string \<Rightarrow> go_time \<Rightarrow> runtime_db \<Rightarrow> runtime_db \<times> unit result" where
  "UpdateRuntimeCleanupState now rid status reason at =
     update_existing (\<lambda>r. RuntimeID r = rid)
       (\<lambda>r. r\<lparr>CleanupStatus := status, CleanupReason := reason, CleanupAt := Some at, UpdatedAt := now\<rparr>)"

definition nonEmpty :: "string \<Rightarrow> string \<Rightarrow> string" where
  "nonEmpty value fallback = (if trim_space value = '''' then fallback else value)"

definition SaveDebugWorkspaceState :: "go_time \<Rightarrow> string \<Rightarrow> debug_workspace \<Rightarrow> runtime_db \<Rightarrow> runtime_db \<times> unit result" where
  "SaveDebugWorkspaceState now rid state =
     update_existing (\<lambda>r. RuntimeID r = rid)
       (\<lambda>r. r\<lparr>DebugWorkspace := state\<lparr>dw_container_path := nonEmpty (dw_container_path state) ''/workspace''\<rparr>, UpdatedAt := now\<rparr>)"

definition MarkDebugWorkspaceError :: "go_time \<Rightarrow> string \<Rightarrow> string \<Rightarrow> runtime_db \<Rightarrow> runtime_db \<times> unit result" where
  "MarkDebugWorkspaceError now rid errText =
     update_existing (\<lambda>r. RuntimeID r = rid)
       (\<lambda>r. r\<lparr>DebugWorkspace := (DebugWorkspace r)\<lparr>dw_last_error := errText\<rparr>, UpdatedAt := now\<rparr>)"

section \<open>Debug datasets\<close>

definition dataset_row_ok :: "debug_dataset \<Rightarrow> bool" where
  "dataset_row_ok d \<longleftrightarrow> dd_market d \<in> {''spot'', ''futures''} \<and> dd_symbol d \<noteq> '''' \<and> dd_interval d \<noteq> '''' \<and> 0 \<le> dd_bar_count d \<and>
     dd_coverage_status d \<noteq> '''' \<and> dd_state d \<in> {''active'', ''lost'', ''failed''}"

definition active_dataset :: "debug_dataset \<Rightarrow> bool" where "active_dataset d \<longleftrightarrow> dd_state d = ''active''"

definition retire_datasets :: "string \<Rightarrow> debug_dataset list \<Rightarrow> debug_dataset list" where
  "retire_datasets rid = update_where (\<lambda>d. dd_runtime_id d = rid \<and> active_dataset d)
     (\<lambda>d. d\<lparr>dd_state := ''lost'',
          dd_last_error := (if dd_last_error d = '''' then ''replaced by newer debug dataset'' else dd_last_error d)\<rparr>)"

definition ReplaceActiveDebugDataset :: "debug_dataset \<Rightarrow> runtime_db \<Rightarrow> runtime_db \<times> unit result" where
  "ReplaceActiveDebugDataset state db =
     (let t = retire_datasets (dd_runtime_id state) (rt_datasets db) @ [state] in
      if \<not> dataset_row_ok state then (db, Inl check_violation)
      else if \<not> (keys_ok dd_dataset_id t \<and> keys_ok dd_runtime_id (filter active_dataset t)) then (db, report_write (Inl unique_violation))
      else if \<not> list_ex (\<lambda>r. RuntimeID r = dd_runtime_id state) (rt_rows db) then (db, Inl (Plain ''foreign key violation''))
      else (db\<lparr>rt_datasets := t\<rparr>, Inr ()))"

definition GetLatestDebugDataset :: "runtime_db \<Rightarrow> int \<Rightarrow> string \<Rightarrow> debug_dataset result" where
  "GetLatestDebugDataset db uid rid =
     (case first_by (\<lambda>d. - dd_loaded_at d) (filter (\<lambda>d. dd_user_id d = uid \<and> dd_runtime_id d = rid) (rt_datasets db)) of
        None \<Rightarrow> missing | Some d \<Rightarrow> Inr d)"

section \<open>Credentials\<close>

text \<open>\<open>expires_at\<close> is not among the inserted columns.\<close>
definition CreateRuntimeCredential :: "credential \<Rightarrow> runtime_db \<Rightarrow> runtime_db \<times> unit result" where
  "CreateRuntimeCredential c0 db =
     (let c = (if Issuer c0 = '''' then c0\<lparr>Issuer := (if HostedInternal c0 then IssuerHostedInternal else IssuerUser)\<rparr> else c0);
          new = c\<lparr>ConsumedAt := None, ConsumedRuntimeID := '''', ExpiresAt := None, LastUsedAt := None, RevokedAt := None\<rparr>
      in case report_write (write_creds (rt_creds db @ [new])) of
           Inl e \<Rightarrow> (db, Inl e)
         | Inr t \<Rightarrow> (db\<lparr>rt_creds := t\<rparr>, Inr ()))"

definition GetRuntimeCredential :: "runtime_db \<Rightarrow> string \<Rightarrow> credential result" where
  "GetRuntimeCredential db keyID = select_one (\<lambda>c. KeyID c = keyID) (rt_creds db)"

definition ListRuntimeCredentialsByUser :: "runtime_db \<Rightarrow> int \<Rightarrow> bool \<Rightarrow> credential list" where
  "ListRuntimeCredentialsByUser db uid includeInactive = sort_key (\<lambda>c. - CredCreatedAt c)
     (filter (\<lambda>c. CredUserID c = uid \<and> \<not> HostedInternal c \<and>
        (includeInactive \<or> CredStatus c \<in> {CredActive, CredDownloaded, CredConsumed})) (rt_creds db))"

definition ListRuntimeCredentialsByUserPage :: "runtime_db \<Rightarrow> int \<Rightarrow> bool \<Rightarrow> int \<Rightarrow> int \<Rightarrow> credential list \<times> int \<times> bool" where
  "ListRuntimeCredentialsByUserPage db uid includeInactive limit0 offset0 =
     (let limit1 = (if limit0 \<le> 0 then 50 else limit0); limit = (if 200 < limit1 then 200 else limit1);
          offset = (if offset0 < 0 then 0 else offset0);
          rows = ListRuntimeCredentialsByUser db uid includeInactive;
          out = take (nat (limit + 1)) (drop (nat offset) rows);
          hasMore = limit < int (length out)
      in (if hasMore then take (nat limit) out else out, int (length rows), hasMore))"

definition RevokeRuntimeCredential :: "go_time \<Rightarrow> string \<Rightarrow> int \<Rightarrow> runtime_db \<Rightarrow> runtime_db \<times> credential result" where
  "RevokeRuntimeCredential now keyID uid db =
     (case row KeyID (rt_creds db) keyID of
        None \<Rightarrow> (db, missing)
      | Some c \<Rightarrow>
          if CredUserID c \<noteq> uid then (db, conflict ''conflict'')
          else if CredStatus c = CredRevoked then (db, Inr c)
          else (let f = (\<lambda>c. c\<lparr>CredStatus := CredRevoked, RevokedAt := Some now\<rparr>) in
                case write_creds (update_where (\<lambda>c. KeyID c = keyID) f (rt_creds db)) of
                  Inl e \<Rightarrow> (db, Inl e)
                | Inr t \<Rightarrow> (db\<lparr>rt_creds := t\<rparr>, Inr (f c))))"

definition TouchRuntimeCredentialUsed :: "string \<Rightarrow> go_time \<Rightarrow> runtime_db \<Rightarrow> runtime_db" where
  "TouchRuntimeCredentialUsed keyID at db =
     db\<lparr>rt_creds := update_where (\<lambda>c. KeyID c = keyID) (\<lambda>c. c\<lparr>LastUsedAt := Some at\<rparr>) (rt_creds db)\<rparr>"

section \<open>Channel leases and admission failures\<close>

definition active_lease :: "channel_lease \<Rightarrow> bool" where "active_lease l \<longleftrightarrow> cl_revoked_at l = None"

definition write_leases :: "channel_lease list \<Rightarrow> channel_lease list result" where
  "write_leases t = (if \<not> list_all (\<lambda>l. cl_runtime_id l \<noteq> '''' \<and> cl_hash l \<noteq> '''' \<and> cl_issued_at l < cl_expires_at l) t then Inl check_violation
     else if \<not> (keys_ok cl_runtime_id t \<and> keys_ok cl_hash (filter active_lease t)) then Inl unique_violation else Inr t)"

definition fill_lease :: "go_time \<Rightarrow> channel_lease \<Rightarrow> channel_lease" where
  "fill_lease wall l0 =
     (let l1 = (if is_zero (cl_issued_at l0) then l0\<lparr>cl_issued_at := wall\<rparr> else l0);
          l2 = (if is_zero (cl_expires_at l1) then l1\<lparr>cl_expires_at := cl_issued_at l1 + 24 * hour\<rparr> else l1);
          l3 = (if is_zero (cl_created_at l2) then l2\<lparr>cl_created_at := cl_issued_at l2\<rparr> else l2)
      in l3\<lparr>cl_updated_at := cl_issued_at l3\<rparr>)"

definition CreateRuntimeChannelLease :: "go_time \<Rightarrow> channel_lease \<Rightarrow> runtime_db \<Rightarrow> runtime_db \<times> unit result" where
  "CreateRuntimeChannelLease wall l0 db =
     (if cl_runtime_id l0 = '''' \<or> cl_user_id l0 \<le> 0 \<or> cl_hash l0 = '''' then (db, conflict ''conflict'')
      else let l = fill_lease wall l0;
          t = (case row cl_runtime_id (rt_leases db) (cl_runtime_id l) of
             None \<Rightarrow> rt_leases db @ [l]
           | Some _ \<Rightarrow> update_where (\<lambda>x. cl_runtime_id x = cl_runtime_id l) (\<lambda>x. l\<lparr>cl_created_at := cl_created_at x\<rparr>) (rt_leases db))
        in case report_write (write_leases t) of
             Inl e \<Rightarrow> (db, Inl e)
           | Inr t' \<Rightarrow> (db\<lparr>rt_leases := t'\<rparr>, Inr ()))"

definition GetRuntimeChannelLeaseByHash :: "runtime_db \<Rightarrow> string \<Rightarrow> channel_lease result" where
  "GetRuntimeChannelLeaseByHash db hash = select_one (\<lambda>l. cl_hash l = hash \<and> active_lease l) (rt_leases db)"

definition current_lease :: "string \<Rightarrow> string \<Rightarrow> go_time \<Rightarrow> channel_lease \<Rightarrow> bool" where
  "current_lease rid hash at l \<longleftrightarrow> cl_runtime_id l = rid \<and> cl_hash l = hash \<and> active_lease l \<and> at < cl_expires_at l"

definition TouchRuntimeChannelLease :: "string \<Rightarrow> string \<Rightarrow> go_time \<Rightarrow> runtime_db \<Rightarrow> runtime_db \<times> unit result" where
  "TouchRuntimeChannelLease rid hash at db =
     (if list_ex (current_lease rid hash at) (rt_leases db)
      then (db\<lparr>rt_leases := update_where (current_lease rid hash at)
              (\<lambda>l. l\<lparr>cl_last_used_at := Some at, cl_updated_at := at\<rparr>) (rt_leases db)\<rparr>, Inr ())
      else (db, missing))"

definition RotateRuntimeChannelLease :: "string \<Rightarrow> string \<Rightarrow> string \<Rightarrow> go_time \<Rightarrow> go_time \<Rightarrow> runtime_db \<Rightarrow> runtime_db \<times> unit result" where
  "RotateRuntimeChannelLease rid oldHash newHash expiresAt at db =
     (if rid = '''' \<or> oldHash = '''' \<or> newHash = '''' \<or> is_zero expiresAt then (db, conflict ''conflict'')
      else case report_write (write_leases (update_where (current_lease rid oldHash at)
             (\<lambda>l. l\<lparr>cl_hash := newHash, cl_expires_at := expiresAt, cl_last_used_at := Some at, cl_updated_at := at\<rparr>) (rt_leases db))) of
        Inl e \<Rightarrow> (db, Inl e)
      | Inr t \<Rightarrow> if list_ex (current_lease rid oldHash at) (rt_leases db) then (db\<lparr>rt_leases := t\<rparr>, Inr ()) else (db, missing))"

definition fill_admission_failure :: "go_time \<Rightarrow> admission_failure \<Rightarrow> admission_failure" where
  "fill_admission_failure wall f0 =
     (let f1 = (if af_reason f0 = '''' then f0\<lparr>af_reason := ''runtime admission failed''\<rparr> else f0);
          f2 = (if is_zero (af_last_seen_at f1) then f1\<lparr>af_last_seen_at := wall\<rparr> else f1);
          f3 = (if is_zero (af_first_seen_at f2) then f2\<lparr>af_first_seen_at := af_last_seen_at f2\<rparr> else f2)
      in if af_attempt_count f3 \<le> 0 then f3\<lparr>af_attempt_count := 1\<rparr> else f3)"

definition same_admission :: "admission_failure \<Rightarrow> admission_failure \<Rightarrow> bool" where
  "same_admission f g \<longleftrightarrow> af_user_id g = af_user_id f \<and> af_key_id g = af_key_id f \<and> af_requested_runtime_id g = af_requested_runtime_id f \<and>
     af_requested_name g = af_requested_name f \<and> af_code g = af_code f \<and> af_consumed_runtime_id g = af_consumed_runtime_id f"

definition RecordRuntimeAdmissionFailure :: "go_time \<Rightarrow> admission_failure \<Rightarrow> runtime_db \<Rightarrow> runtime_db" where
  "RecordRuntimeAdmissionFailure wall f0 db =
     (let f = fill_admission_failure wall f0 in
      if list_ex (same_admission f) (rt_failures db)
      then db\<lparr>rt_failures := update_where (same_admission f)
             (\<lambda>g. g\<lparr>af_source := af_source f, af_role := af_role f, af_reason := af_reason f, af_last_seen_at := af_last_seen_at f,
                  af_attempt_count := af_attempt_count g + 1\<rparr>) (rt_failures db)\<rparr>
      else db\<lparr>rt_failures := rt_failures db @ [f\<lparr>af_id := rt_failure_seq db\<rparr>], rt_failure_seq := rt_failure_seq db + 1\<rparr>)"

definition ListRuntimeAdmissionFailuresByUser :: "runtime_db \<Rightarrow> int \<Rightarrow> int \<Rightarrow> admission_failure list" where
  "ListRuntimeAdmissionFailuresByUser db uid limit0 =
     (let limit1 = (if limit0 \<le> 0 then 20 else limit0); limit = (if 100 < limit1 then 100 else limit1)
      in take (nat limit) (sort_key (\<lambda>f. - af_last_seen_at f) (sort_key (\<lambda>f. - af_id f)
           (filter (\<lambda>f. af_user_id f = uid) (rt_failures db)))))"

end
