(* ===== verification/RuntimeLifecycle.thy ===== *)
theory RuntimeLifecycle
  imports RuntimeStore
begin

text \<open>
  What the operations of the runtime registry keep: constraints, terminal runtimes, one-time credentials.
  A step is one call; \<open>UpdateRuntimeStatus\<close> is left out, nothing in the service calls it.
\<close>

inductive runtime_step :: "runtime_db \<Rightarrow> runtime_db \<Rightarrow> bool" where
  create: "runtime_step db (fst (CreateRuntime wall rt db))"
| hosted: "runtime_step db (fst (CreateOrReplaceHostedRuntime wall rt db))"
| self_hosted: "runtime_step db (fst (CreateOrReplaceSelfHostedRuntime wall rt db))"
| bare: "runtime_step db (fst (CreateOrReplaceBareRuntime wall rt db))"
| stale: "runtime_step db (fst (MarkStaleRuntimesUnhealthy now cutoff db))"
| heartbeat: "runtime_step db (fst (UpdateRuntimeHeartbeat now rid at db))"
| own: "runtime_step db (fst (RecordRuntimeConnectionOwner now rid inst at db))"
| disown: "runtime_step db (fst (ClearRuntimeConnectionOwner now rid inst db))"
| stop: "runtime_step db (fst (EndRuntime now rid reason at db))"
| stop_key: "runtime_step db (fst (EndRuntimesByCredentialKey now keyID reason at db))"
| stop_dead: "runtime_step db (fst (EndDeadRuntimesBySourceCutoffs now cutoff bareCutoff reason at db))"
| cleanup: "runtime_step db (fst (UpdateRuntimeCleanupState now rid status reason at db))"
| workspace: "runtime_step db (fst (SaveDebugWorkspaceState now rid state db))"
| workspace_error: "runtime_step db (fst (MarkDebugWorkspaceError now rid err db))"
| dataset: "runtime_step db (fst (ReplaceActiveDebugDataset ds db))"
| issue: "runtime_step db (fst (CreateRuntimeCredential c db))"
| revoke: "runtime_step db (fst (RevokeRuntimeCredential now keyID uid db))"
| touch_credential: "runtime_step db (TouchRuntimeCredentialUsed keyID at db)"
| lease: "runtime_step db (fst (CreateRuntimeChannelLease wall l db))"
| touch_lease: "runtime_step db (fst (TouchRuntimeChannelLease rid hash at db))"
| rotate: "runtime_step db (fst (RotateRuntimeChannelLease rid oldHash newHash expiresAt at db))"
| refused: "runtime_step db (RecordRuntimeAdmissionFailure wall failure db)"

section \<open>What a call can change\<close>

lemma write_rows_Inr: "write_rows t = Inr t' \<longleftrightarrow> t' = t \<and> list_all runtime_row_ok t \<and> runtimes_unique t"
  by (auto simp: write_rows_def)

lemma write_creds_Inr: "write_creds t = Inr t' \<longleftrightarrow> t' = t \<and> list_all credential_row_ok t \<and> credentials_unique t"
  by (auto simp: write_creds_def)

lemma report_write_Inr: "report_write r = Inr x \<longleftrightarrow> r = Inr x"
  by (auto simp: report_write_def conflict_def split: sum.splits)

lemma update_runtimes_Inr: "update_runtimes hit f db = Inr (db', hits) \<longleftrightarrow>
    list_all runtime_row_ok (update_where hit f (rt_rows db)) \<and> runtimes_unique (update_where hit f (rt_rows db)) \<and>
    db' = db\<lparr>rt_rows := update_where hit f (rt_rows db)\<rparr> \<and> hits = filter hit (rt_rows db)"
  by (auto simp: update_runtimes_def bind_res_Inr write_rows_Inr)

definition rows_written :: "runtime_db \<Rightarrow> runtime_db \<Rightarrow> bool" where
  "rows_written db db' \<longleftrightarrow> rt_rows db' = rt_rows db \<or> list_all runtime_row_ok (rt_rows db') \<and> runtimes_unique (rt_rows db')"

definition creds_written :: "runtime_db \<Rightarrow> runtime_db \<Rightarrow> bool" where
  "creds_written db db' \<longleftrightarrow> rt_creds db' = rt_creds db \<or> list_all credential_row_ok (rt_creds db') \<and> credentials_unique (rt_creds db')"

text \<open>An operation on the rows is an update with a guard, or an admission.\<close>

inductive rows_op :: "runtime_db \<Rightarrow> runtime_db \<Rightarrow> bool" where
  same: "rt_rows db' = rt_rows db \<Longrightarrow> rows_op db db'"
| upd: "rt_rows db' = update_where hit f (rt_rows db) \<Longrightarrow> list_all runtime_row_ok (rt_rows db') \<Longrightarrow> runtimes_unique (rt_rows db') \<Longrightarrow>
    (\<And>r. RuntimeID (f r) = RuntimeID r \<and> UserID (f r) = UserID r \<and> Source (f r) = Source r) \<Longrightarrow>
    (\<And>r. hit r \<Longrightarrow> live r \<or> UserID (f r) = UserID r \<and> Name (f r) = Name r \<and> Source (f r) = Source r \<and> RtStatus (f r) = RtStatus r \<and>
        EndedAt (f r) = EndedAt r \<and> EndedReason (f r) = EndedReason r) \<Longrightarrow> rows_op db db'"
| ins: "rt_rows db' = rt_rows db @ [r] \<Longrightarrow> list_all runtime_row_ok (rt_rows db') \<Longrightarrow> runtimes_unique (rt_rows db') \<Longrightarrow> rows_op db db'"
| rep: "rt_rows db' = update_where (\<lambda>r. RuntimeID r = rid) f (rt_rows db) \<Longrightarrow> list_all runtime_row_ok (rt_rows db') \<Longrightarrow>
    runtimes_unique (rt_rows db') \<Longrightarrow> (\<And>r. RuntimeID (f r) = RuntimeID r) \<Longrightarrow> row RuntimeID (rt_rows db) rid = Some old \<Longrightarrow>
    live old \<or> Source old = SourceBare \<Longrightarrow> UserID (f old) = UserID old \<Longrightarrow> Source (f old) = Source old \<Longrightarrow> rows_op db db'"

lemma update_existing_op:
  assumes "\<And>r. RuntimeID (f r) = RuntimeID r \<and> UserID (f r) = UserID r \<and> Source (f r) = Source r"
    "\<And>r. hit r \<Longrightarrow> live r \<or> UserID (f r) = UserID r \<and> Name (f r) = Name r \<and> Source (f r) = Source r \<and> RtStatus (f r) = RtStatus r \<and>
        EndedAt (f r) = EndedAt r \<and> EndedReason (f r) = EndedReason r"
  shows "rows_op db (fst (update_existing hit f db))"
proof (cases "update_runtimes hit f db")
  case (Inl e)
  then show ?thesis by (simp add: update_existing_def rows_op.same)
next
  case (Inr p)
  then obtain db' hits where p: "update_runtimes hit f db = Inr (db', hits)" by (cases p) auto
  then have "rows_op db db'"
    using assms by (intro rows_op.upd [of db' hit f db]) (auto simp: update_runtimes_Inr)
  then show ?thesis using p by (simp add: update_existing_def)
qed

lemma update_runtimes_op:
  assumes "update_runtimes hit f db = Inr (db', hits)" "\<And>r. RuntimeID (f r) = RuntimeID r \<and> UserID (f r) = UserID r \<and> Source (f r) = Source r"
    "\<And>r. hit r \<Longrightarrow> live r \<or> UserID (f r) = UserID r \<and> Name (f r) = Name r \<and> Source (f r) = Source r \<and> RtStatus (f r) = RtStatus r \<and>
        EndedAt (f r) = EndedAt r \<and> EndedReason (f r) = EndedReason r"
  shows "rows_op db db'"
  using assms by (intro rows_op.upd [of db' hit f db]) (auto simp: update_runtimes_Inr)

lemma replace_row_id: "RuntimeID (replace_row rt old) = RuntimeID old"
  by (simp add: replace_row_def)

lemma admit_op:
  assumes "\<And>old. guard old \<Longrightarrow> (live old \<or> Source old = SourceBare) \<and> UserID old = UserID rt \<and> Source old = Source rt"
  shows "rows_op db (fst (admit guard rt m creds db))"
proof (cases "upsert_runtime guard rt (rt_rows db)")
  case (Inl e)
  then show ?thesis by (auto simp: admit_def report_write_def conflict_def rows_op.same)
next
  case (Inr p)
  then obtain t w where p: "upsert_runtime guard rt (rt_rows db) = Inr (t, w)" by (cases p) auto
  show ?thesis
  proof (cases w)
    case False
    then show ?thesis using p by (auto simp: admit_def report_write_def rows_op.same)
  next
    case True
    have db': "fst (admit guard rt m creds db) = db\<lparr>rt_rows := t, rt_creds := creds\<rparr>"
      using p True by (simp add: admit_def report_write_def)
    show ?thesis
    proof (cases "row RuntimeID (rt_rows db) (RuntimeID rt)")
      case None
      then have "t = rt_rows db @ [insert_row rt]" "list_all runtime_row_ok t" "runtimes_unique t"
        using p True by (auto simp: upsert_runtime_def bind_res_Inr write_rows_Inr split: if_splits)
      then show ?thesis unfolding db' by (intro rows_op.ins [of _ _ "insert_row rt"]) simp_all
    next
      case (Some old)
      then have "t = update_where (\<lambda>r. RuntimeID r = RuntimeID rt) (replace_row rt) (rt_rows db)" "list_all runtime_row_ok t"
          "runtimes_unique t" "guard old"
        using p True by (auto simp: upsert_runtime_def bind_res_Inr write_rows_Inr split: if_splits)
      then show ?thesis unfolding db' using Some assms [of old]
        by (intro rows_op.rep [of _ "RuntimeID rt" "replace_row rt" _ old]) (auto simp: replace_row_def)
    qed
  qed
qed

lemma fst_admission: "fst (if p then (db, x) else if q then (db, y) else z) = (if p \<or> q then db else fst z)"
  by simp

lemma admission_ops:
  "rows_op db (fst (CreateOrReplaceHostedRuntime wall rt db))"
  "rows_op db (fst (CreateOrReplaceSelfHostedRuntime wall rt db))"
  "rows_op db (fst (CreateOrReplaceBareRuntime wall rt db))"
proof -
  have s: "rows_op db (fst (admit (same_identity r) r m creds db))" for r m creds
    by (rule admit_op) (simp add: same_identity_def)
  show "rows_op db (fst (CreateOrReplaceHostedRuntime wall rt db))"
    using s rows_op.same [of db db] by (simp add: CreateOrReplaceHostedRuntime_def Let_def split: sum.split)
  show "rows_op db (fst (CreateOrReplaceSelfHostedRuntime wall rt db))"
    using s rows_op.same [of db db] by (simp add: CreateOrReplaceSelfHostedRuntime_def Let_def split: sum.split)
  have b: "Source rt = SourceBare \<Longrightarrow> rows_op db (fst (admit (same_bare (normalizeRuntimeForWrite wall (rt\<lparr>CredentialKeyID := ''''\<rparr>)))
      (normalizeRuntimeForWrite wall (rt\<lparr>CredentialKeyID := ''''\<rparr>)) m creds db))" for m creds
    by (rule admit_op) (simp add: same_bare_def normalizeRuntimeForWrite_def Let_def split: if_splits option.splits)
  then show "rows_op db (fst (CreateOrReplaceBareRuntime wall rt db))"
    using rows_op.same [of db db] by (simp add: CreateOrReplaceBareRuntime_def Let_def)
qed


lemma CreateRuntime_op: "rows_op db (fst (CreateRuntime wall rt db))"
proof (cases "write_rows (rt_rows db @ [insert_row (normalizeRuntimeForWrite wall rt)])")
  case (Inl e)
  then show ?thesis by (auto simp: CreateRuntime_def Let_def report_write_def conflict_def rows_op.same)
next
  case (Inr t)
  then have "fst (CreateRuntime wall rt db) = db\<lparr>rt_rows := t\<rparr>"
    by (simp add: CreateRuntime_def Let_def report_write_def)
  then show ?thesis using Inr
    by (auto simp: write_rows_Inr intro!: rows_op.ins [of _ _ "insert_row (normalizeRuntimeForWrite wall rt)"])
qed

lemma live_status: "RtStatus r \<in> {RuntimeStatusActive, RuntimeStatusStarting, RuntimeStatusPaired, RuntimeStatusUnhealthy} \<Longrightarrow> live r"
  by (auto simp: IsRuntimeTerminalStatus_def)

lemma end_row_id: "RuntimeID (end_row now reason at r) = RuntimeID r" "UserID (end_row now reason at r) = UserID r"
    "Source (end_row now reason at r) = Source r"
  by (simp_all add: end_row_def)

text \<open>A list of answers after an update.\<close>
lemma after_update:
  "(\<And>db' hits. update_runtimes hit f db = Inr (db', hits) \<Longrightarrow> rows_op db db') \<Longrightarrow>
   rows_op db (fst (case update_runtimes hit f db of Inl e \<Rightarrow> (db, Inl e) | Inr (db', hits) \<Rightarrow> (db', g hits)))"
  by (cases "update_runtimes hit f db") (auto simp: rows_op.same)

lemma bulk_ops:
  "rows_op db (fst (MarkStaleRuntimesUnhealthy now cutoff db))"
  "rows_op db (fst (EndRuntimesByCredentialKey now keyID reason at db))"
  "rows_op db (fst (EndDeadRuntimesBySourceCutoffs now cutoff bareCutoff reason at db))"
  "rows_op db (fst (ClearRuntimeConnectionOwner now rid inst db))"
proof -
  show "rows_op db (fst (MarkStaleRuntimesUnhealthy now cutoff db))"
    unfolding MarkStaleRuntimesUnhealthy_def by (rule after_update, erule update_runtimes_op) (use live_status in auto)
  show "rows_op db (fst (EndRuntimesByCredentialKey now keyID reason at db))"
    unfolding EndRuntimesByCredentialKey_def by (rule after_update, erule update_runtimes_op) (auto simp: end_row_id)
  show "rows_op db (fst (EndDeadRuntimesBySourceCutoffs now cutoff bareCutoff reason at db))"
    unfolding EndDeadRuntimesBySourceCutoffs_def by (rule after_update, erule update_runtimes_op) (use live_status in \<open>auto simp: end_row_id\<close>)
  have "rows_op db (fst (case update_runtimes (\<lambda>r. RuntimeID r = rid \<and> OwnerInstanceID r = inst)
          (\<lambda>r. r\<lparr>OwnerInstanceID := '''', OwnerAcquiredAt := None, OwnerHeartbeatAt := None, UpdatedAt := now\<rparr>) db of
        Inl e \<Rightarrow> (db, Inl e) | Inr (db', hits) \<Rightarrow> (db', (\<lambda>_. Inr ()) hits)))"
    by (rule after_update, erule update_runtimes_op) auto
  then show "rows_op db (fst (ClearRuntimeConnectionOwner now rid inst db))"
    using rows_op.same [of db db] by (simp add: ClearRuntimeConnectionOwner_def)
qed

lemma EndRuntime_op: "rows_op db (fst (EndRuntime now rid reason at db))"
proof (cases "update_runtimes (\<lambda>r. RuntimeID r = rid \<and> live r) (end_row now reason at) db")
  case (Inl e)
  then show ?thesis by (simp add: EndRuntime_def rows_op.same)
next
  case (Inr p)
  then obtain db' hits where p: "update_runtimes (\<lambda>r. RuntimeID r = rid \<and> live r) (end_row now reason at) db = Inr (db', hits)"
    by (cases p) auto
  have "rows_op db db'" by (rule update_runtimes_op [OF p]) (auto simp: end_row_id)
  then show ?thesis using p by (cases hits) (simp_all add: EndRuntime_def)
qed

lemma existing_ops:
  "rows_op db (fst (UpdateRuntimeHeartbeat now rid at db))" "rows_op db (fst (RecordRuntimeConnectionOwner now rid inst at db))"
  "rows_op db (fst (UpdateRuntimeCleanupState now rid status reason at db))"
  "rows_op db (fst (SaveDebugWorkspaceState now rid state db))" "rows_op db (fst (MarkDebugWorkspaceError now rid err db))"
  using update_existing_op rows_op.same [of db db]
  by (simp_all add: UpdateRuntimeHeartbeat_def RecordRuntimeConnectionOwner_def UpdateRuntimeCleanupState_def
      SaveDebugWorkspaceState_def MarkDebugWorkspaceError_def heartbeat_row_def)

lemma other_rows:
  "rt_rows (fst (ReplaceActiveDebugDataset ds db)) = rt_rows db" "rt_rows (fst (CreateRuntimeCredential c db)) = rt_rows db"
  "rt_rows (fst (RevokeRuntimeCredential now keyID uid db)) = rt_rows db" "rt_rows (TouchRuntimeCredentialUsed keyID at db) = rt_rows db"
  "rt_rows (fst (CreateRuntimeChannelLease wall l db)) = rt_rows db" "rt_rows (fst (TouchRuntimeChannelLease rid hash at db)) = rt_rows db"
  "rt_rows (fst (RotateRuntimeChannelLease rid oldHash newHash expiresAt at db)) = rt_rows db"
  "rt_rows (RecordRuntimeAdmissionFailure wall failure db) = rt_rows db"
  by (simp_all add: ReplaceActiveDebugDataset_def CreateRuntimeCredential_def RevokeRuntimeCredential_def TouchRuntimeCredentialUsed_def
      CreateRuntimeChannelLease_def TouchRuntimeChannelLease_def RotateRuntimeChannelLease_def RecordRuntimeAdmissionFailure_def Let_def
      split: sum.split option.split)

lemma step_rows: "runtime_step db db' \<Longrightarrow> rows_op db db'"
  by (induction rule: runtime_step.induct)
    (rule CreateRuntime_op admission_ops bulk_ops EndRuntime_op existing_ops other_rows [THEN rows_op.same])+

section \<open>Terminal runtimes\<close>

definition runtimes_ok :: "runtime_db \<Rightarrow> bool" where
  "runtimes_ok db \<longleftrightarrow> list_all runtime_row_ok (rt_rows db) \<and> runtimes_unique (rt_rows db)"

type_synonym runtime_face = "(int \<times> string \<times> string) \<times> string \<times> go_time option \<times> string"

definition face :: "runtime \<Rightarrow> runtime_face" where
  "face r = ((UserID r, Name r, Source r), RtStatus r, EndedAt r, EndedReason r)"

definition runtime_view :: "runtime_db \<Rightarrow> string \<Rightarrow> runtime_face option" where
  "runtime_view db rid = map_option face (row RuntimeID (rt_rows db) rid)"

definition face_final :: "runtime_face \<Rightarrow> bool" where
  "face_final v \<longleftrightarrow> (case v of ((u, n, src), st, e, why) \<Rightarrow> src \<noteq> SourceBare \<and> IsRuntimeTerminalStatus st)"

lemma rows_op_frozen:
  assumes "rows_op db db'" "runtime_view db rid = Some v" "face_final v"
  shows "runtime_view db' rid = Some v"
proof -
  obtain r where r: "row RuntimeID (rt_rows db) rid = Some r" "face r = v" using assms(2) by (auto simp: runtime_view_def)
  have dead: "\<not> live r" "Source r \<noteq> SourceBare" using assms(3) r(2) by (auto simp: face_final_def face_def)
  from assms(1) show ?thesis
  proof cases
    case same
    then show ?thesis using assms(2) by (simp add: runtime_view_def)
  next
    case (upd hit f)
    have "face (if hit r then f r else r) = face r" using upd(5) [of r] dead(1) by (auto simp: face_def)
    then show ?thesis using r upd(4) by (simp add: runtime_view_def upd(1) row_update)
  next
    case (ins x)
    then show ?thesis using r by (simp add: runtime_view_def row_append)
  next
    case (rep k f old)
    have "k \<noteq> rid" using rep(5,6) r(1) dead by auto
    moreover have "RuntimeID r = rid" using row_SomeD [OF r(1)] by simp
    ultimately show ?thesis using r rep(4) by (simp add: runtime_view_def rep(1) row_update)
  qed
qed

lemma rows_op_ok: "rows_op db db' \<Longrightarrow> runtimes_ok db \<Longrightarrow> runtimes_ok db'"
  by (cases rule: rows_op.cases, assumption) (simp_all add: runtimes_ok_def)

interpretation runtimes: lifecycle runtime_step runtimes_ok runtime_view face_final
proof
  show "runtimes_ok s'" if "runtime_step s s'" "runtimes_ok s" for s s' using rows_op_ok [OF step_rows [OF that(1)] that(2)] .
  show "runtime_view s' k = Some v" if "runtime_step s s'" "runtimes_ok s" "runtime_view s k = Some v" "face_final v" for s s' k v
    using rows_op_frozen [OF step_rows [OF that(1)] that(3,4)] .
qed

text \<open>The user and the source of a registered runtime never change.\<close>

definition owner_view :: "runtime_db \<Rightarrow> string \<Rightarrow> (int \<times> string) option" where
  "owner_view db rid = map_option (\<lambda>r. (UserID r, Source r)) (row RuntimeID (rt_rows db) rid)"

lemma rows_op_owner:
  assumes "rows_op db db'" "owner_view db rid = Some v"
  shows "owner_view db' rid = Some v"
proof -
  obtain r where r: "row RuntimeID (rt_rows db) rid = Some r" "v = (UserID r, Source r)" using assms(2) by (auto simp: owner_view_def)
  from assms(1) show ?thesis
  proof cases
    case (rep k f old)
    have "k = rid \<Longrightarrow> old = r" using rep(5) r(1) by simp
    moreover have "RuntimeID r = rid" using row_SomeD [OF r(1)] by simp
    ultimately show ?thesis using r rep(4,7,8) by (auto simp: owner_view_def rep(1) row_update)
  qed (use r in \<open>auto simp: owner_view_def row_update row_append\<close>)
qed

interpretation owners: lifecycle runtime_step runtimes_ok owner_view "\<lambda>_. True"
proof
  show "runtimes_ok s'" if "runtime_step s s'" "runtimes_ok s" for s s' using rows_op_ok [OF step_rows [OF that(1)] that(2)] .
  show "owner_view s' k = Some v" if "runtime_step s s'" "runtimes_ok s" "owner_view s k = Some v" "True" for s s' k v
    using rows_op_owner [OF step_rows [OF that(1)] that(3)] .
qed


section \<open>One-time credentials\<close>

definition creds_ok :: "runtime_db \<Rightarrow> bool" where
  "creds_ok db \<longleftrightarrow> list_all credential_row_ok (rt_creds db) \<and> credentials_unique (rt_creds db) \<and>
     (\<forall>c\<in>set (rt_creds db). ExpiresAt c = None)"

text \<open>What is fixed when a credential is issued.\<close>
definition issued_face :: "credential \<Rightarrow> int \<times> string \<times> string \<times> bool" where
  "issued_face c = (CredUserID c, CredRole c, PublicKeyPEM c, HostedInternal c)"

inductive creds_op :: "runtime_db \<Rightarrow> runtime_db \<Rightarrow> bool" where
  same: "rt_creds db' = rt_creds db \<Longrightarrow> creds_op db db'"
| upd: "rt_creds db' = update_where (\<lambda>c. KeyID c = k) f (rt_creds db) \<Longrightarrow>
    (\<And>c. KeyID (f c) = KeyID c \<and> ExpiresAt (f c) = ExpiresAt c \<and> issued_face (f c) = issued_face c) \<Longrightarrow> row KeyID (rt_creds db) k = Some old \<Longrightarrow>
    usable old \<or> \<not> usable (f old) \<and> ConsumedRuntimeID (f old) = ConsumedRuntimeID old \<Longrightarrow>
    list_all credential_row_ok (rt_creds db') \<Longrightarrow> credentials_unique (rt_creds db') \<Longrightarrow> creds_op db db'"
| touch: "rt_creds db' = update_where (\<lambda>c. KeyID c = k) (\<lambda>c. c\<lparr>LastUsedAt := t\<rparr>) (rt_creds db) \<Longrightarrow> creds_op db db'"
| ins: "rt_creds db' = rt_creds db @ [c] \<Longrightarrow> ExpiresAt c = None \<Longrightarrow> list_all credential_row_ok (rt_creds db') \<Longrightarrow>
    credentials_unique (rt_creds db') \<Longrightarrow> creds_op db db'"

lemma consume_op:
  assumes "consumeRuntimeCredentialForRuntimeTx wall rt at (rt_creds db) = Inr creds" "rt_creds db' = creds"
  shows "creds_op db db'"
proof (cases "trim_space (CredentialKeyID rt) = ''''")
  case True
  then show ?thesis using assms by (simp add: consumeRuntimeCredentialForRuntimeTx_def creds_op.same)
next
  case False
  let ?k = "trim_space (CredentialKeyID rt)" and ?at = "if is_zero at then wall else at"
  let ?f = "\<lambda>c. c\<lparr>CredStatus := CredConsumed, ConsumedAt := Some ?at, ConsumedRuntimeID := RuntimeID rt, LastUsedAt := Some ?at\<rparr>"
  obtain c where c: "row KeyID (rt_creds db) ?k = Some c" "usable c"
    "write_creds (update_where (\<lambda>c. KeyID c = ?k) ?f (rt_creds db)) = Inr creds"
    using assms(1) False
    by (simp add: consumeRuntimeCredentialForRuntimeTx_def Let_def conflict_def split: option.splits if_splits sum.splits)
  then show ?thesis using assms(2) by (intro creds_op.upd [of db' ?k ?f db c]) (auto simp: write_creds_Inr issued_face_def)
qed

lemma admit_creds: "rt_creds (fst (admit guard rt m creds db)) \<in> {rt_creds db, creds}"
  by (auto simp: admit_def split: sum.split prod.split)

lemma consume_admit_op:
  assumes "consumeRuntimeCredentialForRuntimeTx wall rt at (rt_creds db) = Inr creds"
  shows "creds_op db (fst (admit guard rt m creds db))"
  using admit_creds [of guard rt m creds db] consume_op [OF assms] creds_op.same by auto

lemma admission_creds:
  "creds_op db (fst (CreateOrReplaceHostedRuntime wall rt db))"
  "creds_op db (fst (CreateOrReplaceSelfHostedRuntime wall rt db))"
  "creds_op db (fst (CreateOrReplaceBareRuntime wall rt db))"
  using consume_admit_op creds_op.same [of db db] admit_creds [of _ _ _ "rt_creds db" db]
  by (simp_all add: CreateOrReplaceHostedRuntime_def CreateOrReplaceSelfHostedRuntime_def CreateOrReplaceBareRuntime_def Let_def creds_op.same
      split: sum.split)

lemma revoke_creds: "creds_op db (fst (RevokeRuntimeCredential now keyID uid db))"
proof (cases "row KeyID (rt_creds db) keyID")
  case None
  then show ?thesis by (simp add: RevokeRuntimeCredential_def creds_op.same)
next
  case (Some c)
  let ?f = "\<lambda>c. c\<lparr>CredStatus := CredRevoked, RevokedAt := Some now\<rparr>"
  show ?thesis
  proof (cases "write_creds (update_where (\<lambda>c. KeyID c = keyID) ?f (rt_creds db))")
    case (Inl e)
    then show ?thesis using Some by (simp add: RevokeRuntimeCredential_def creds_op.same)
  next
    case (Inr t)
    then have "creds_op db (db\<lparr>rt_creds := t\<rparr>)"
      using Some by (intro creds_op.upd [of _ keyID ?f db c]) (auto simp: write_creds_Inr usable_def issued_face_def)
    then show ?thesis using Some Inr by (simp add: RevokeRuntimeCredential_def creds_op.same)
  qed
qed

lemma issue_creds: "creds_op db (fst (CreateRuntimeCredential c db))"
proof -
  let ?c = "if Issuer c = '''' then c\<lparr>Issuer := (if HostedInternal c then IssuerHostedInternal else IssuerUser)\<rparr> else c"
  let ?new = "?c\<lparr>ConsumedAt := None, ConsumedRuntimeID := '''', ExpiresAt := None, LastUsedAt := None, RevokedAt := None\<rparr>"
  show ?thesis
  proof (cases "report_write (write_creds (rt_creds db @ [?new]))")
    case (Inl e)
    then show ?thesis by (simp add: CreateRuntimeCredential_def Let_def creds_op.same)
  next
    case (Inr t)
    then have "creds_op db (db\<lparr>rt_creds := t\<rparr>)"
      unfolding report_write_Inr write_creds_Inr by (intro creds_op.ins [of _ _ ?new]) simp_all
    moreover have "fst (CreateRuntimeCredential c db) = db\<lparr>rt_creds := t\<rparr>"
      unfolding CreateRuntimeCredential_def Let_def Inr by simp
    ultimately show ?thesis by simp
  qed
qed

lemma update_existing_creds: "rt_creds (fst (update_existing hit f db)) = rt_creds db"
  by (auto simp: update_existing_def update_runtimes_Inr split: sum.split prod.split)

lemma update_runtimes_creds: "update_runtimes hit f db = Inr (db', hits) \<Longrightarrow> rt_creds db' = rt_creds db"
  by (simp add: update_runtimes_Inr)

lemma other_creds:
  "rt_creds (fst (CreateRuntime wall rt db)) = rt_creds db"
  "rt_creds (fst (MarkStaleRuntimesUnhealthy now cutoff db)) = rt_creds db"
  "rt_creds (fst (UpdateRuntimeHeartbeat now rid at db)) = rt_creds db"
  "rt_creds (fst (RecordRuntimeConnectionOwner now rid inst at db)) = rt_creds db"
  "rt_creds (fst (ClearRuntimeConnectionOwner now rid inst db)) = rt_creds db"
  "rt_creds (fst (EndRuntime now rid reason at db)) = rt_creds db"
  "rt_creds (fst (EndRuntimesByCredentialKey now keyID reason at db)) = rt_creds db"
  "rt_creds (fst (EndDeadRuntimesBySourceCutoffs now cutoff bareCutoff reason at db)) = rt_creds db"
  "rt_creds (fst (UpdateRuntimeCleanupState now rid status reason at db)) = rt_creds db"
  "rt_creds (fst (SaveDebugWorkspaceState now rid state db)) = rt_creds db"
  "rt_creds (fst (MarkDebugWorkspaceError now rid err db)) = rt_creds db"
  "rt_creds (fst (ReplaceActiveDebugDataset ds db)) = rt_creds db"
  "rt_creds (fst (CreateRuntimeChannelLease wall l db)) = rt_creds db"
  "rt_creds (fst (TouchRuntimeChannelLease rid hash at db)) = rt_creds db"
  "rt_creds (fst (RotateRuntimeChannelLease rid oldHash newHash expiresAt at db)) = rt_creds db"
  "rt_creds (RecordRuntimeAdmissionFailure wall failure db) = rt_creds db"
  by (auto simp: CreateRuntime_def MarkStaleRuntimesUnhealthy_def UpdateRuntimeHeartbeat_def RecordRuntimeConnectionOwner_def
      ClearRuntimeConnectionOwner_def EndRuntime_def EndRuntimesByCredentialKey_def EndDeadRuntimesBySourceCutoffs_def
      UpdateRuntimeCleanupState_def SaveDebugWorkspaceState_def MarkDebugWorkspaceError_def ReplaceActiveDebugDataset_def
      CreateRuntimeChannelLease_def TouchRuntimeChannelLease_def RotateRuntimeChannelLease_def RecordRuntimeAdmissionFailure_def
      update_existing_creds Let_def dest!: update_runtimes_creds split: sum.split prod.split list.split)

lemma touch_creds: "creds_op db (TouchRuntimeCredentialUsed keyID at db)"
  by (rule creds_op.touch) (simp add: TouchRuntimeCredentialUsed_def)

lemma step_creds: "runtime_step db db' \<Longrightarrow> creds_op db db'"
  by (induction rule: runtime_step.induct)
    (rule admission_creds revoke_creds issue_creds touch_creds other_creds [THEN creds_op.same])+

definition credential_view :: "runtime_db \<Rightarrow> string \<Rightarrow> (bool \<times> string) option" where
  "credential_view db k = map_option (\<lambda>c. (usable c, ConsumedRuntimeID c)) (row KeyID (rt_creds db) k)"

lemma creds_op_ok:
  assumes "creds_op db db'" "creds_ok db"
  shows "creds_ok db'"
  using assms(1)
proof cases
  case same
  then show ?thesis using assms(2) by (simp add: creds_ok_def)
next
  case (upd k f old)
  then show ?thesis using assms(2) by (simp add: creds_ok_def ball_update_where)
next
  case (touch k t)
  let ?g = "\<lambda>c. c\<lparr>LastUsedAt := t\<rparr>"
  have "credential_row_ok (?g c) = credential_row_ok c" for c by (simp add: credential_row_ok_def)
  then have "list_all credential_row_ok (rt_creds db')"
    using assms(2) by (auto simp: creds_ok_def touch list_all_iff set_update_where)
  moreover have "filter spent (update_where (\<lambda>c. KeyID c = k) ?g xs) = update_where (\<lambda>c. KeyID c = k) ?g (filter spent xs)" for xs
    by (induction xs) (auto simp: update_where_def spent_def)
  then have "credentials_unique (rt_creds db')"
    using assms(2) by (simp add: creds_ok_def credentials_unique_def touch keys_ok_update)
  ultimately show ?thesis using assms(2) by (simp add: creds_ok_def touch ball_update_where)
next
  case (ins c)
  then show ?thesis using assms(2) by (simp add: creds_ok_def)
qed

lemma creds_op_frozen:
  assumes "creds_op db db'" "credential_view db k = Some (False, rid)"
  shows "credential_view db' k = Some (False, rid)"
proof -
  obtain c where c: "row KeyID (rt_creds db) k = Some c" "\<not> usable c" "ConsumedRuntimeID c = rid"
    using assms(2) by (auto simp: credential_view_def)
  from assms(1) show ?thesis
  proof cases
    case same
    then show ?thesis using assms(2) by (simp add: credential_view_def)
  next
    case (upd j f old)
    have "KeyID c = k" using row_SomeD [OF c(1)] by simp
    then show ?thesis using c upd(2-4) by (cases "j = k") (auto simp: credential_view_def upd(1) row_update)
  next
    case (touch j t)
    then show ?thesis using c by (simp add: credential_view_def row_update usable_def)
  next
    case (ins x)
    then show ?thesis using c by (simp add: credential_view_def row_append)
  qed
qed

interpretation credentials: lifecycle runtime_step creds_ok credential_view "\<lambda>v. \<not> fst v"
proof
  show "creds_ok s'" if "runtime_step s s'" "creds_ok s" for s s' using creds_op_ok [OF step_creds [OF that(1)] that(2)] .
  show "credential_view s' k = Some v" if "runtime_step s s'" "creds_ok s" "credential_view s k = Some v" "\<not> fst v" for s s' k v
    using creds_op_frozen [OF step_creds [OF that(1)], of k "snd v"] that(3,4) by (cases v) simp
qed

text \<open>What a credential was issued for never changes.\<close>
definition issued_view :: "runtime_db \<Rightarrow> string \<Rightarrow> (int \<times> string \<times> string \<times> bool) option" where
  "issued_view db k = map_option issued_face (row KeyID (rt_creds db) k)"

lemma creds_op_issued:
  assumes "creds_op db db'" "issued_view db k = Some v"
  shows "issued_view db' k = Some v"
proof -
  obtain c where c: "row KeyID (rt_creds db) k = Some c" "issued_face c = v" using assms(2) by (auto simp: issued_view_def)
  from assms(1) show ?thesis
  proof cases
    case same
    then show ?thesis using assms(2) by (simp add: issued_view_def)
  next
    case (upd j f old)
    then show ?thesis using c by (simp add: issued_view_def upd(1) row_update)
  next
    case (touch j t)
    then show ?thesis using c by (simp add: issued_view_def row_update issued_face_def)
  next
    case (ins x)
    then show ?thesis using c by (simp add: issued_view_def row_append)
  qed
qed

interpretation issued: lifecycle runtime_step creds_ok issued_view "\<lambda>_. True"
proof
  show "creds_ok s'" if "runtime_step s s'" "creds_ok s" for s s' using creds_op_ok [OF step_creds [OF that(1)] that(2)] .
  show "issued_view s' k = Some v" if "runtime_step s s'" "creds_ok s" "issued_view s k = Some v" "True" for s s' k v
    using creds_op_issued [OF step_creds [OF that(1)] that(3)] .
qed


section \<open>Properties\<close>

definition empty_runtime_db :: runtime_db where
  "empty_runtime_db = \<lparr>rt_rows = [], rt_creds = [], rt_datasets = [], rt_leases = [], rt_failures = [], rt_failure_seq = 1\<rparr>"

lemma empty_runtime_ok: "runtimes_ok empty_runtime_db" "creds_ok empty_runtime_db"
  by (simp_all add: empty_runtime_db_def runtimes_ok_def creds_ok_def runtimes_unique_def credentials_unique_def keys_ok_def)


definition sample_runtime :: runtime where
  "sample_runtime = \<lparr>RuntimeID = ''rt1'', CredentialKeyID = ''k1'', UserID = 7, Name = ''alpha'', Source = SourceSelfHosted,
     Role = RoleExecutor, EndpointHost = '''', GRPCPort = 0, DebugPort = 0, Capabilities = [], ResourceProfile = ''small'',
     Version = '''', RtStatus = RuntimeStatusActive, TokenHash = '''', PairedAt = None, StartedAt = Some 10, EndedAt = None,
     EndedReason = '''', CleanupStatus = '''', CleanupReason = '''', CleanupAt = None, HeartbeatAt = Some 10, OwnerInstanceID = '''',
     OwnerAcquiredAt = None, OwnerHeartbeatAt = None, DebugWorkspace = empty_workspace, DebugDataset = None, CreatedAt = 10, UpdatedAt = 10\<rparr>"

definition sample_credential :: credential where
  "sample_credential = \<lparr>KeyID = ''k1'', CredUserID = 7, Label = '''', CredRole = RoleExecutor, PublicKeyPEM = ''pk'', CredStatus = CredDownloaded,
     CredCreatedAt = 5, DownloadedAt = Some 5, ConsumedAt = None, ConsumedRuntimeID = '''', ExpiresAt = None, LastUsedAt = None,
     RevokedAt = None, HostedInternal = False, ClientCertPEM = '''', ClientCertFingerprint = '''', ClientCertExpiresAt = None, Issuer = IssuerUser\<rparr>"

definition issued_db :: runtime_db where "issued_db = fst (CreateRuntimeCredential sample_credential empty_runtime_db)"
definition joined_db :: runtime_db where "joined_db = fst (CreateOrReplaceSelfHostedRuntime 10 sample_runtime issued_db)"
definition ended_db :: runtime_db where "ended_db = fst (EndRuntime 20 ''rt1'' ReasonUserCancelled 20 joined_db)"

lemmas runtime_eval = write_rows_def write_creds_def runtime_row_ok_def lifecycle_ok_def owner_ok_def runtime_name_ok_def name_char_def
  is_upper_def is_lower_def is_digit_def IsRuntimeTerminalStatus_def ended_reasons_def runtimes_unique_def credentials_unique_def keys_ok_def
  credential_row_ok_def usable_def spent_def named_def bound_def debugging_def report_write_def

lemma issued_db_value: "issued_db = empty_runtime_db\<lparr>rt_creds := [sample_credential]\<rparr>"
  by (simp add: issued_db_def CreateRuntimeCredential_def sample_credential_def empty_runtime_db_def Let_def runtime_eval)

lemma trim_k1: "trim_space ''k1'' = ''k1''"
  by (simp add: trim_eval)

lemma joined_db_value: "joined_db = issued_db\<lparr>rt_rows := [sample_runtime],
    rt_creds := [sample_credential\<lparr>CredStatus := CredConsumed, ConsumedAt := Some 10, ConsumedRuntimeID := ''rt1'', LastUsedAt := Some 10\<rparr>]\<rparr>"
  unfolding joined_db_def issued_db_value
  by (simp add: CreateOrReplaceSelfHostedRuntime_def sample_runtime_def sample_credential_def empty_runtime_db_def Let_def
      normalizeRuntimeForWrite_def name_taken_def consumeRuntimeCredentialForRuntimeTx_def row_Cons admit_def upsert_runtime_def
      insert_row_def is_zero_def zero_time_def second_def update_where_def trim_k1 runtime_eval)

lemma ended_db_value: "ended_db = joined_db\<lparr>rt_rows := [end_row 20 ReasonUserCancelled 20 sample_runtime]\<rparr>"
  unfolding ended_db_def joined_db_value issued_db_value
  by (simp add: EndRuntime_def update_runtimes_def sample_runtime_def end_row_def update_where_def empty_runtime_db_def
      RuntimeTerminalStatusForReason_def runtime_eval)

lemma joined_reachable: "runtime_step\<^sup>*\<^sup>* empty_runtime_db joined_db"
  unfolding joined_db_def issued_db_def by (meson runtime_step.issue runtime_step.self_hosted rtranclp.rtrancl_into_rtrancl rtranclp.rtrancl_refl)

lemma ended_reachable: "runtime_step\<^sup>*\<^sup>* empty_runtime_db ended_db"
  using joined_reachable unfolding ended_db_def by (rule rtranclp.rtrancl_into_rtrancl) (rule runtime_step.stop)


text \<open>C32. A hosted or self-hosted runtime that has ended stays ended: whatever operations follow, its row
  keeps its owner, name, source, status, end time and reason.\<close>
theorem terminal_runtime_final:
  assumes "runtime_step\<^sup>*\<^sup>* db db'" "runtimes_ok db"
    and "row RuntimeID (rt_rows db) rid = Some r" "IsRuntimeTerminalStatus (RtStatus r)" "Source r \<noteq> SourceBare"
  shows "\<exists>r'. row RuntimeID (rt_rows db') rid = Some r' \<and> UserID r' = UserID r \<and> Name r' = Name r \<and> Source r' = Source r \<and>
    RtStatus r' = RtStatus r \<and> EndedAt r' = EndedAt r \<and> EndedReason r' = EndedReason r"
proof -
  have "runtime_view db rid = Some (face r)" "face_final (face r)"
    using assms(3-5) by (simp_all add: runtime_view_def face_final_def face_def)
  from runtimes.frozen_star [OF assms(1,2) this] show ?thesis by (auto simp: runtime_view_def face_def)
qed

theorem terminal_runtime_final_witness:
  "\<exists>r'. row RuntimeID (rt_rows (fst (UpdateRuntimeHeartbeat 30 ''rt1'' 30 ended_db))) ''rt1'' = Some r' \<and> RtStatus r' = RuntimeStatusCancelled"
proof -
  let ?e = "end_row 20 ReasonUserCancelled 20 sample_runtime"
  have ok: "runtimes_ok ended_db" using runtimes.inv_star [OF ended_reachable empty_runtime_ok(1)] .
  have st: "runtime_step\<^sup>*\<^sup>* ended_db (fst (UpdateRuntimeHeartbeat 30 ''rt1'' 30 ended_db))"
    by (rule r_into_rtranclp) (rule runtime_step.heartbeat)
  have r: "row RuntimeID (rt_rows ended_db) ''rt1'' = Some ?e"
    by (simp add: ended_db_value row_Cons end_row_def sample_runtime_def)
  have e: "IsRuntimeTerminalStatus (RtStatus ?e)" "Source ?e \<noteq> SourceBare" "RtStatus ?e = RuntimeStatusCancelled"
    by (simp_all add: end_row_def sample_runtime_def RuntimeTerminalStatusForReason_def IsRuntimeTerminalStatus_def)
  show ?thesis using terminal_runtime_final [OF st ok r e(1,2)] e(3) by auto
qed

text \<open>A successful admission with a credential leaves it consumed.\<close>

lemma consume_marks:
  assumes "consumeRuntimeCredentialForRuntimeTx wall rt at creds = Inr creds'" "trim_space (CredentialKeyID rt) = k" "k \<noteq> ''''"
  shows "\<exists>c. row KeyID creds k = Some c \<and> usable c \<and> CredUserID c = UserID rt \<and> CredRole c = Role rt" 
    "map_option (\<lambda>c. (usable c, ConsumedRuntimeID c)) (row KeyID creds' k) = Some (False, RuntimeID rt)"
proof -
  let ?at = "if is_zero at then wall else at"
  let ?f = "\<lambda>c. c\<lparr>CredStatus := CredConsumed, ConsumedAt := Some ?at, ConsumedRuntimeID := RuntimeID rt, LastUsedAt := Some ?at\<rparr>"
  obtain c where c: "row KeyID creds k = Some c" "usable c" "CredUserID c = UserID rt" "CredRole c = Role rt"
    "write_creds (update_where (\<lambda>c. KeyID c = k) ?f creds) = Inr creds'"
    using assms by (simp add: consumeRuntimeCredentialForRuntimeTx_def Let_def conflict_def split: option.splits if_splits sum.splits)
  then show "\<exists>c. row KeyID creds k = Some c \<and> usable c \<and> CredUserID c = UserID rt \<and> CredRole c = Role rt" by auto
  have "KeyID c = k" using row_SomeD [OF c(1)] by simp
  moreover have "creds' = update_where (\<lambda>c. KeyID c = k) ?f creds" using c(5) by (simp add: write_creds_Inr)
  ultimately show "map_option (\<lambda>c. (usable c, ConsumedRuntimeID c)) (row KeyID creds' k) = Some (False, RuntimeID rt)"
    using c(1) by (simp add: row_update usable_def)
qed

lemma normalize_keeps: "CredentialKeyID (normalizeRuntimeForWrite wall rt) = CredentialKeyID rt"
  "RuntimeID (normalizeRuntimeForWrite wall rt) = RuntimeID rt" "UserID (normalizeRuntimeForWrite wall rt) = UserID rt"
  "Source (normalizeRuntimeForWrite wall rt) = Source rt" "Name (normalizeRuntimeForWrite wall rt) = Name rt"
  by (simp_all add: normalizeRuntimeForWrite_def Let_def split: option.split)

lemma self_hosted_ok:
  assumes "CreateOrReplaceSelfHostedRuntime wall rt db = (db', Inr ())"
  obtains creds where "consumeRuntimeCredentialForRuntimeTx wall (normalizeRuntimeForWrite wall rt)
      (UpdatedAt (normalizeRuntimeForWrite wall rt)) (rt_creds db) = Inr creds"
    "rt_creds db' = creds" "trim_space (CredentialKeyID rt) \<noteq> ''''"
  using assms
  by (auto simp: CreateOrReplaceSelfHostedRuntime_def Let_def admit_def conflict_def split: if_splits sum.splits prod.splits)

text \<open>C31. A credential admits one runtime, once: after a self-hosted admission with it, no later admission with
  the same credential succeeds, not even of the same runtime, whatever happens in between; and the
  admission itself needed a credential of that user and role that was neither used nor revoked.\<close>
theorem credential_admits_once:
  assumes "runtime_step\<^sup>*\<^sup>* empty_runtime_db db"
    and "CreateOrReplaceSelfHostedRuntime wall rt db = (db1, Inr ())"
    and "runtime_step\<^sup>*\<^sup>* db1 db2"
    and "trim_space (CredentialKeyID rt') = trim_space (CredentialKeyID rt)"
  shows "snd (CreateOrReplaceSelfHostedRuntime wall' rt' db2) \<noteq> Inr () \<and>
    (\<exists>c. row KeyID (rt_creds db) (trim_space (CredentialKeyID rt)) = Some c \<and> usable c \<and> CredUserID c = UserID rt)"
proof -
  let ?k = "trim_space (CredentialKeyID rt)" and ?n = "normalizeRuntimeForWrite wall rt"
  obtain creds where c: "consumeRuntimeCredentialForRuntimeTx wall ?n (UpdatedAt ?n) (rt_creds db) = Inr creds"
    "rt_creds db1 = creds" "?k \<noteq> ''''" using self_hosted_ok [OF assms(2)] .
  have key: "trim_space (CredentialKeyID ?n) = ?k" by (simp add: normalize_keeps)
  note m = consume_marks [OF c(1) key c(3)]
  have v1: "credential_view db1 ?k = Some (False, RuntimeID rt)" using m(2) c(2) by (simp add: credential_view_def normalize_keeps)
  have "runtime_step db db1" using runtime_step.self_hosted [of db wall rt] assms(2) by simp
  then have "creds_ok db1"
    using credentials.inv_star [OF rtranclp.rtrancl_into_rtrancl [OF assms(1)] empty_runtime_ok(2)] by blast
  then have v2: "credential_view db2 ?k = Some (False, RuntimeID rt)" using credentials.frozen_star [OF assms(3) _ v1] by simp
  have "snd (CreateOrReplaceSelfHostedRuntime wall' rt' db2) \<noteq> Inr ()"
  proof
    assume "snd (CreateOrReplaceSelfHostedRuntime wall' rt' db2) = Inr ()"
    then obtain db3 where 3: "CreateOrReplaceSelfHostedRuntime wall' rt' db2 = (db3, Inr ())" by (metis surjective_pairing)
    obtain creds' where c': "consumeRuntimeCredentialForRuntimeTx wall' (normalizeRuntimeForWrite wall' rt')
        (UpdatedAt (normalizeRuntimeForWrite wall' rt')) (rt_creds db2) = Inr creds'"
      using self_hosted_ok [OF 3] .
    have "trim_space (CredentialKeyID (normalizeRuntimeForWrite wall' rt')) = ?k" by (simp add: normalize_keeps assms(4))
    from consume_marks(1) [OF c' this c(3)] v2 show False by (auto simp: credential_view_def)
  qed
  then show ?thesis using m(1) by (auto simp: normalize_keeps)
qed

theorem credential_admits_once_witness:
  "snd (CreateOrReplaceSelfHostedRuntime 30 sample_runtime (fst (EndRuntime 20 ''rt1'' ReasonUserCancelled 20 joined_db))) \<noteq> Inr ()"
proof -
  have 1: "runtime_step\<^sup>*\<^sup>* empty_runtime_db issued_db" unfolding issued_db_def by (rule r_into_rtranclp) (rule runtime_step.issue)
  have "snd (CreateOrReplaceSelfHostedRuntime 10 sample_runtime issued_db) = Inr ()"
    unfolding issued_db_value
    by (simp add: CreateOrReplaceSelfHostedRuntime_def sample_runtime_def sample_credential_def empty_runtime_db_def Let_def
        normalizeRuntimeForWrite_def name_taken_def consumeRuntimeCredentialForRuntimeTx_def row_Cons admit_def upsert_runtime_def
        insert_row_def is_zero_def zero_time_def second_def update_where_def trim_k1 runtime_eval)
  then have 2: "CreateOrReplaceSelfHostedRuntime 10 sample_runtime issued_db = (joined_db, Inr ())"
    unfolding joined_db_def by (metis surjective_pairing)
  have 3: "runtime_step\<^sup>*\<^sup>* joined_db (fst (EndRuntime 20 ''rt1'' ReasonUserCancelled 20 joined_db))"
    by (rule r_into_rtranclp) (rule runtime_step.stop)
  show ?thesis using credential_admits_once [OF 1 2 3 refl] by simp
qed


text \<open>Updates that change no key and wake no runtime keep the unique indices.\<close>

lemma keys_ok_filter_update:
  assumes "\<And>r. key (f r) = key r" "\<And>r. Q r \<Longrightarrow> P (f r) \<Longrightarrow> P r" "keys_ok key (filter P t)"
  shows "keys_ok key (filter P (update_where Q f t))"
proof -
  have sub: "key ` set (filter P (update_where Q f t)) \<subseteq> key ` set (filter P t)" for t
    using assms(1,2) by (auto simp: set_update_where image_iff)
  show ?thesis using assms(3)
  proof (induction t)
    case (Cons x t)
    have IH: "keys_ok key (filter P (update_where Q f t))" using Cons by (auto simp: keys_ok_def split: if_splits)
    have h: "update_where Q f (x # t) = (if Q x then f x else x) # update_where Q f t" by (simp add: update_where_def)
    show ?case
    proof (cases "P (if Q x then f x else x)")
      case True
      then have px: "P x" using assms(2) by (auto split: if_splits)
      then have "key x \<notin> key ` set (filter P t)" using Cons.prems by (auto simp: keys_ok_def)
      then have "key (if Q x then f x else x) \<notin> key ` set (filter P (update_where Q f t))"
        using sub [of t] assms(1) by auto
      then show ?thesis using True IH by (simp add: h keys_ok_def)
    next
      case False
      then show ?thesis using IH by (simp add: h)
    qed
  qed (simp add: update_where_def keys_ok_def)
qed

lemma unique_update:
  assumes "runtimes_unique t" "\<And>r. RuntimeID (f r) = RuntimeID r" "\<And>r. UserID (f r) = UserID r" "\<And>r. Name (f r) = Name r"
    "\<And>r. CredentialKeyID (f r) = CredentialKeyID r" "\<And>r. Role (f r) = Role r" "\<And>r. Q r \<Longrightarrow> live r"
  shows "runtimes_unique (update_where Q f t)"
  using assms unfolding runtimes_unique_def
  by (intro conjI keys_ok_update keys_ok_filter_update) (auto simp: named_def bound_def debugging_def)

lemma write_update:
  assumes "runtimes_ok db" "\<And>r. RuntimeID (f r) = RuntimeID r" "\<And>r. UserID (f r) = UserID r" "\<And>r. Name (f r) = Name r"
    "\<And>r. CredentialKeyID (f r) = CredentialKeyID r" "\<And>r. Role (f r) = Role r" "\<And>r. Q r \<Longrightarrow> live r"
    "\<And>r. Q r \<Longrightarrow> runtime_row_ok r \<Longrightarrow> runtime_row_ok (f r)"
  shows "update_runtimes Q f db = Inr (db\<lparr>rt_rows := update_where Q f (rt_rows db)\<rparr>, filter Q (rt_rows db))"
proof -
  have "list_all runtime_row_ok (update_where Q f (rt_rows db))"
    using assms(1,8) by (auto simp: runtimes_ok_def list_all_iff set_update_where)
  moreover have "runtimes_unique (update_where Q f (rt_rows db))"
    by (rule unique_update) (use assms in \<open>auto simp: runtimes_ok_def\<close>)
  ultimately show ?thesis by (simp add: update_runtimes_Inr)
qed

lemma end_row_ok: "runtime_row_ok r \<Longrightarrow> reason \<in> set ended_reasons \<Longrightarrow> runtime_row_ok (end_row now reason at r)"
  by (auto simp: runtime_row_ok_def end_row_def lifecycle_ok_def owner_ok_def ended_reasons_def RuntimeTerminalStatusForReason_def IsRuntimeTerminalStatus_def)

lemma filter_one_row:
  "keys_ok RuntimeID t \<Longrightarrow> row RuntimeID t rid = Some r \<Longrightarrow> P r \<Longrightarrow> filter (\<lambda>x. RuntimeID x = rid \<and> P x) t = [r]"
proof (induction t)
  case (Cons x t)
  show ?case
  proof (cases "RuntimeID x = rid")
    case True
    then have "\<And>y. y \<in> set t \<Longrightarrow> RuntimeID y \<noteq> rid" using Cons.prems(1) by (auto simp: keys_ok_def) (metis imageI)
    then have "filter (\<lambda>x. RuntimeID x = rid \<and> P x) t = []" by (auto simp: filter_empty_conv)
    then show ?thesis using True Cons.prems by (simp add: row_Cons)
  next
    case False
    then show ?thesis using Cons by (simp add: row_Cons keys_ok_def)
  qed
qed simp

lemma EndRuntime_effect:
  assumes "runtimes_ok db" "row RuntimeID (rt_rows db) rid = Some r" "live r" "reason \<in> set ended_reasons"
  shows "EndRuntime now rid reason at db =
    (db\<lparr>rt_rows := update_where (\<lambda>r. RuntimeID r = rid \<and> live r) (end_row now reason at) (rt_rows db)\<rparr>, Inr r)"
proof -
  let ?Q = "\<lambda>r. RuntimeID r = rid \<and> live r" and ?f = "end_row now reason at"
  have u: "update_runtimes ?Q ?f db = Inr (db\<lparr>rt_rows := update_where ?Q ?f (rt_rows db)\<rparr>, filter ?Q (rt_rows db))"
    by (rule write_update [OF assms(1)]) (erule end_row_ok [OF _ assms(4)] | simp add: end_row_def)+
  have k: "keys_ok RuntimeID (rt_rows db)" using assms(1) by (simp add: runtimes_ok_def runtimes_unique_def)
  have "filter ?Q (rt_rows db) = [r]" by (rule filter_one_row) (use k assms in auto)
  then show ?thesis using u by (simp add: EndRuntime_def)
qed

text \<open>Ending a live runtime with a known reason never fails and stores the terminal status of the reason,
  the end time and the reason. But what it answers is the row from before the update: the status is still the
  live one, with no end time and no reason.\<close>
theorem end_runtime_answers_row_before:
  assumes "runtimes_ok db" "row RuntimeID (rt_rows db) rid = Some r" "live r" "reason \<in> set ended_reasons"
  shows "\<exists>db' r'. EndRuntime now rid reason at db = (db', Inr r) \<and> row RuntimeID (rt_rows db') rid = Some r' \<and>
    RtStatus r' = RuntimeTerminalStatusForReason reason \<and> EndedAt r' = Some at \<and> EndedReason r' = reason \<and>
    EndedAt r = None \<and> EndedReason r = '''' \<and> RtStatus r \<noteq> RtStatus r'"
proof -
  let ?Q = "\<lambda>r. RuntimeID r = rid \<and> live r" and ?f = "end_row now reason at"
  note e = EndRuntime_effect [OF assms, of now at]
  have id: "RuntimeID r = rid" "r \<in> set (rt_rows db)" using row_SomeD [OF assms(2)] by auto
  then have "runtime_row_ok r" using assms(1) by (auto simp: runtimes_ok_def list_all_iff)
  then have old: "EndedAt r = None" "EndedReason r = ''''" using assms(3)
    by (auto simp: runtime_row_ok_def lifecycle_ok_def split: if_splits)
  have "row RuntimeID (update_where ?Q ?f (rt_rows db)) rid = Some (?f r)"
    using assms(2,3) id by (simp add: row_update end_row_def)
  then show ?thesis using e old assms(3) terminal_for_reason [of reason]
    by (auto simp: end_row_def)
qed

theorem end_runtime_answers_row_before_witness:
  "\<exists>db'. EndRuntime 20 ''rt1'' ReasonUserCancelled 20 joined_db = (db', Inr sample_runtime)"
proof -
  have "runtimes_ok joined_db" using runtimes.inv_star [OF joined_reachable empty_runtime_ok(1)] .
  moreover have "row RuntimeID (rt_rows joined_db) ''rt1'' = Some sample_runtime" by (simp add: joined_db_value row_Cons sample_runtime_def)
  moreover have "live sample_runtime" by (simp add: sample_runtime_def)
  moreover have "ReasonUserCancelled \<in> set ended_reasons" by (simp add: ended_reasons_def)
  ultimately show ?thesis using end_runtime_answers_row_before by blast
qed

lemma live_open: "lifecycle_ok r \<Longrightarrow> live r \<Longrightarrow> EndedAt r = None \<and> EndedReason r = '''' \<and>
    RtStatus r \<in> {RuntimeStatusStarting, RuntimeStatusPaired, RuntimeStatusActive, RuntimeStatusUnhealthy}"
  by (simp add: lifecycle_ok_def split: if_splits)

lemma heartbeat_row_facts:
  assumes "lifecycle_ok r" "live r"
  shows "RtStatus (heartbeat_row now at r) = RuntimeStatusActive" "HeartbeatAt (heartbeat_row now at r) = Some at"
    "StartedAt (heartbeat_row now at r) = coalesce (StartedAt r) at" "EndedAt (heartbeat_row now at r) = None"
    "EndedReason (heartbeat_row now at r) = ''''"
  using live_open [OF assms] by (auto simp: heartbeat_row_def)

lemma heartbeat_row_ok: "runtime_row_ok r \<Longrightarrow> live r \<Longrightarrow> runtime_row_ok (heartbeat_row now at r)"
proof -
  assume r: "runtime_row_ok r" "live r"
  then have "lifecycle_ok r" by (simp add: runtime_row_ok_def)
  note f = heartbeat_row_facts [OF this r(2), of now at]
  have "lifecycle_ok (heartbeat_row now at r)" by (simp add: lifecycle_ok_def f)
  moreover have "owner_ok (heartbeat_row now at r) = owner_ok r" by (simp add: owner_ok_def heartbeat_row_def)
  moreover have "Name (heartbeat_row now at r) = Name r" "Role (heartbeat_row now at r) = Role r" "Source (heartbeat_row now at r) = Source r"
    "CleanupStatus (heartbeat_row now at r) = CleanupStatus r" by (simp_all add: heartbeat_row_def)
  ultimately show ?thesis using r(1) f(5) by (simp add: runtime_row_ok_def)
qed

text \<open>A heartbeat of a live runtime is always accepted: it becomes active unless it already was, has a
  start time from then on that later heartbeats keep, and its heartbeat time moves. A heartbeat of a terminal
  or unknown runtime changes nothing and is answered with \<open>ErrNotFound\<close>.\<close>
theorem heartbeat_keeps_alive:
  assumes "runtimes_ok db"
  shows "(\<forall>r. row RuntimeID (rt_rows db) rid = Some r \<and> live r \<longrightarrow>
      (\<exists>db' r'. UpdateRuntimeHeartbeat now rid at db = (db', Inr ()) \<and> row RuntimeID (rt_rows db') rid = Some r' \<and>
        RtStatus r' = RuntimeStatusActive \<and> HeartbeatAt r' = Some at \<and> StartedAt r' = coalesce (StartedAt r) at)) \<and>
    ((\<forall>r. row RuntimeID (rt_rows db) rid = Some r \<longrightarrow> \<not> live r) \<longrightarrow> UpdateRuntimeHeartbeat now rid at db = (db, missing))"
proof -
  let ?Q = "\<lambda>r. RuntimeID r = rid \<and> live r" and ?f = "heartbeat_row now at"
  have u: "update_runtimes ?Q ?f db = Inr (db\<lparr>rt_rows := update_where ?Q ?f (rt_rows db)\<rparr>, filter ?Q (rt_rows db))"
    by (rule write_update [OF assms]) (blast intro: heartbeat_row_ok | simp add: heartbeat_row_def)+
  have k: "keys_ok RuntimeID (rt_rows db)" using assms by (simp add: runtimes_ok_def runtimes_unique_def)
  show ?thesis
  proof (intro conjI allI impI; (elim conjE)?)
    fix r assume r: "row RuntimeID (rt_rows db) rid = Some r" "live r"
    have one: "filter ?Q (rt_rows db) = [r]" by (rule filter_one_row) (use k r in auto)
    have id: "RuntimeID r = rid" "r \<in> set (rt_rows db)" using row_SomeD [OF r(1)] by auto
    then have "lifecycle_ok r" using assms by (auto simp: runtimes_ok_def list_all_iff runtime_row_ok_def)
    note f = heartbeat_row_facts [OF this r(2), of now at]
    have "row RuntimeID (update_where ?Q ?f (rt_rows db)) rid = Some (?f r)"
      using r id by (simp add: row_update heartbeat_row_def)
    moreover have "UpdateRuntimeHeartbeat now rid at db = (db\<lparr>rt_rows := update_where ?Q ?f (rt_rows db)\<rparr>, Inr ())"
      unfolding UpdateRuntimeHeartbeat_def update_existing_def u one by simp
    ultimately show "\<exists>db' r'. UpdateRuntimeHeartbeat now rid at db = (db', Inr ()) \<and> row RuntimeID (rt_rows db') rid = Some r' \<and>
        RtStatus r' = RuntimeStatusActive \<and> HeartbeatAt r' = Some at \<and> StartedAt r' = coalesce (StartedAt r) at"
      by (intro exI [of _ "db\<lparr>rt_rows := update_where ?Q ?f (rt_rows db)\<rparr>"] exI [of _ "?f r"] conjI) (simp_all add: f)
  next
    assume "\<forall>r. row RuntimeID (rt_rows db) rid = Some r \<longrightarrow> \<not> live r"
    then have none: "\<not> ?Q x" if "x \<in> set (rt_rows db)" for x using row_mem [OF k that] by auto
    then have "filter ?Q (rt_rows db) = []" "update_where ?Q ?f (rt_rows db) = rt_rows db"
      by (auto simp: filter_empty_conv intro!: update_where_skip)
    then show "UpdateRuntimeHeartbeat now rid at db = (db, missing)"
      using u by (simp add: UpdateRuntimeHeartbeat_def update_existing_def)
  qed
qed

theorem heartbeat_keeps_alive_witness: "UpdateRuntimeHeartbeat 30 ''rt1'' 30 ended_db = (ended_db, missing)"
proof -
  have "runtimes_ok ended_db" using runtimes.inv_star [OF ended_reachable empty_runtime_ok(1)] .
  moreover have "\<forall>r. row RuntimeID (rt_rows ended_db) ''rt1'' = Some r \<longrightarrow> \<not> live r"
    by (simp add: ended_db_value row_Cons end_row_def sample_runtime_def)
  ultimately show ?thesis using heartbeat_keeps_alive by blast
qed


section \<open>Channel leases\<close>

definition leases_ok :: "runtime_db \<Rightarrow> bool" where
  "leases_ok db \<longleftrightarrow> keys_ok cl_runtime_id (rt_leases db) \<and> keys_ok cl_hash (filter active_lease (rt_leases db))"

lemma select_one_mem: "select_one P t = Inr r \<Longrightarrow> r \<in> set t \<and> P r"
  by (auto simp: select_one_def filter_eq_Cons_iff split: list.splits)

lemma select_one_ex: "x \<in> set t \<Longrightarrow> P x \<Longrightarrow> \<exists>r. select_one P t = Inr r"
  by (auto simp: select_one_def filter_empty_conv split: list.split)

lemma select_one_none: "(\<And>x. x \<in> set t \<Longrightarrow> \<not> P x) \<Longrightarrow> select_one P t = Inl (Sentinel ErrNotFound ''not found'')"
proof -
  assume "\<And>x. x \<in> set t \<Longrightarrow> \<not> P x"
  then have "filter P t = []" by (simp add: filter_empty_conv)
  then show ?thesis by (simp add: select_one_def)
qed

text \<open>Rotating a resume token retires the old one: afterwards the old hash finds no lease, the new hash finds
  exactly the lease of that runtime with the new expiry, the leases of all other runtimes are as before, and
  the table is consistent; a token that is unknown, revoked or expired rotates nothing.\<close>
theorem lease_rotation:
  assumes "leases_ok db" "oldHash \<noteq> newHash" "RotateRuntimeChannelLease rid oldHash newHash expiresAt at db = (db', res)"
  shows "(res = Inr () \<longrightarrow> leases_ok db' \<and> GetRuntimeChannelLeaseByHash db' oldHash = missing \<and>
      (\<exists>l. GetRuntimeChannelLeaseByHash db' newHash = Inr l \<and> cl_runtime_id l = rid \<and> cl_expires_at l = expiresAt) \<and>
      (\<forall>l. cl_runtime_id l \<noteq> rid \<longrightarrow> l \<in> set (rt_leases db') \<longleftrightarrow> l \<in> set (rt_leases db))) \<and>
    (res \<noteq> Inr () \<longrightarrow> db' = db) \<and>
    ((\<forall>l\<in>set (rt_leases db). \<not> current_lease rid oldHash at l) \<longrightarrow> res \<noteq> Inr ())"
proof -
  let ?f = "\<lambda>l. l\<lparr>cl_hash := newHash, cl_expires_at := expiresAt, cl_last_used_at := Some at, cl_updated_at := at\<rparr>"
  let ?t = "update_where (current_lease rid oldHash at) ?f (rt_leases db)"
  show ?thesis
  proof (cases "res = Inr ()")
    case False
    then have "db' = db" using assms(3) by (auto simp: RotateRuntimeChannelLease_def split: if_splits sum.splits)
    then show ?thesis using False by simp
  next
    case True
    then have w: "write_leases ?t = Inr (rt_leases db')" "list_ex (current_lease rid oldHash at) (rt_leases db)"
      using assms(3) by (auto simp: RotateRuntimeChannelLease_def conflict_def missing_def report_write_Inr split: if_splits sum.splits)
    then have t: "rt_leases db' = ?t" "leases_ok db'" by (auto simp: write_leases_def leases_ok_def split: if_splits)
    obtain x where x: "x \<in> set (rt_leases db)" "current_lease rid oldHash at x" using w(2) by (auto simp: list_ex_iff)
    have fx: "?f x \<in> set (rt_leases db')" "active_lease (?f x)" using x by (auto simp: t(1) set_update_where current_lease_def active_lease_def)
    have only: "y = x" if "y \<in> set (rt_leases db)" "active_lease y" "cl_hash y = oldHash" for y
      using keys_ok_same [of cl_hash "filter active_lease (rt_leases db)" y x] assms(1) that x by (simp add: leases_ok_def current_lease_def)
    have "\<not> (cl_hash y = oldHash \<and> active_lease y)" if y: "y \<in> set (rt_leases db')" for y
    proof
      assume h: "cl_hash y = oldHash \<and> active_lease y"
      from y obtain y0 where y0: "y0 \<in> set (rt_leases db)" "y = (if current_lease rid oldHash at y0 then ?f y0 else y0)"
        by (auto simp: t(1) update_where_def)
      then show False using h assms(2) only [OF y0(1)] x(2) by (auto split: if_splits)
    qed
    then have old: "GetRuntimeChannelLeaseByHash db' oldHash = missing"
      unfolding GetRuntimeChannelLeaseByHash_def missing_def by (intro select_one_none)
    obtain l where l: "GetRuntimeChannelLeaseByHash db' newHash = Inr l"
      using select_one_ex [OF fx(1), of "\<lambda>l. cl_hash l = newHash \<and> active_lease l"] fx(2) by (auto simp: GetRuntimeChannelLeaseByHash_def)
    then have lm: "l \<in> set (rt_leases db')" "cl_hash l = newHash" "active_lease l"
      by (auto simp: GetRuntimeChannelLeaseByHash_def dest: select_one_mem)
    have "l = ?f x"
      using keys_ok_same [of cl_hash "filter active_lease (rt_leases db')" l "?f x"] t(2) lm fx by (simp add: leases_ok_def)
    then have new: "cl_runtime_id l = rid" "cl_expires_at l = expiresAt" using x(2) by (simp_all add: current_lease_def)
    have others: "l \<in> set (rt_leases db') \<longleftrightarrow> l \<in> set (rt_leases db)" if "cl_runtime_id l \<noteq> rid" for l
      using that by (auto simp: t(1) set_update_where current_lease_def)
    have "\<not> (\<forall>l\<in>set (rt_leases db). \<not> current_lease rid oldHash at l)" using x by blast
    then show ?thesis using True old l new others t(2) by simp
  qed
qed

text \<open>
  The writes to the tables over time, by the hashes they store: a lease is created with a hash of \<open>H\<close>, rotated to one of \<open>H\<close>
  or to the hash it has (the refresh of a heartbeat), touched, or left alone by a write to the other tables.
\<close>

inductive token_step :: "string set \<Rightarrow> runtime_db \<Rightarrow> runtime_db \<Rightarrow> bool" for H where
  created: "cl_hash l \<in> H \<Longrightarrow> token_step H db (fst (CreateRuntimeChannelLease wall l db))"
| rotated: "newHash \<in> insert oldHash H \<Longrightarrow> token_step H db (fst (RotateRuntimeChannelLease rid oldHash newHash expiresAt at db))"
| touched: "token_step H db (fst (TouchRuntimeChannelLease rid hash at db))"
| other: "rt_leases db' = rt_leases db \<Longrightarrow> token_step H db db'"

lemma token_step_mono: "token_step H db db' \<Longrightarrow> H \<subseteq> K \<Longrightarrow> token_step K db db'"
  by (induction rule: token_step.induct) (auto intro: token_step.intros)

lemma update_runtimes_leases: "update_runtimes hit f db = Inr (db', hits) \<Longrightarrow> rt_leases db' = rt_leases db"
  by (auto simp: update_runtimes_Inr)

lemma update_existing_leases [simp]: "rt_leases (fst (update_existing hit f db)) = rt_leases db"
  by (auto simp: update_existing_def dest: update_runtimes_leases split: sum.split)

text \<open>Every operation of the registry is such a write.\<close>
lemma step_tokens: "runtime_step db db' \<Longrightarrow> \<exists>h. token_step {h} db db'"
proof (induction rule: runtime_step.induct)
  case (lease db wall l)
  then show ?case using token_step.created by blast
next
  case (rotate db rid oldHash newHash expiresAt at)
  then show ?case using token_step.rotated by blast
next
  case (touch_lease db rid hash at)
  then show ?case using token_step.touched by blast
qed (auto intro!: token_step.other dest: update_runtimes_leases
    simp: CreateRuntime_def CreateOrReplaceHostedRuntime_def CreateOrReplaceSelfHostedRuntime_def CreateOrReplaceBareRuntime_def admit_def
      MarkStaleRuntimesUnhealthy_def UpdateRuntimeHeartbeat_def RecordRuntimeConnectionOwner_def ClearRuntimeConnectionOwner_def EndRuntime_def
      EndRuntimesByCredentialKey_def EndDeadRuntimesBySourceCutoffs_def UpdateRuntimeCleanupState_def SaveDebugWorkspaceState_def
      MarkDebugWorkspaceError_def ReplaceActiveDebugDataset_def CreateRuntimeCredential_def RevokeRuntimeCredential_def
      TouchRuntimeCredentialUsed_def RecordRuntimeAdmissionFailure_def Let_def split: sum.split option.split list.split)

lemma tokens_mono: "(token_step H)\<^sup>*\<^sup>* db db' \<Longrightarrow> H \<subseteq> K \<Longrightarrow> (token_step K)\<^sup>*\<^sup>* db db'"
  by (erule rtranclp_mono [THEN predicate2D, OF predicate2I, rotated]) (rule token_step_mono)

lemma steps_tokens: "runtime_step\<^sup>*\<^sup>* db db' \<Longrightarrow> \<exists>H. finite H \<and> (token_step H)\<^sup>*\<^sup>* db db'"
proof (induction rule: rtranclp_induct)
  case (step b c)
  then obtain H h where h: "finite H" "(token_step H)\<^sup>*\<^sup>* db b" "token_step {h} b c" using step_tokens by blast
  have "(token_step (insert h H))\<^sup>*\<^sup>* db b" using h(2) by (rule tokens_mono) blast
  moreover have "token_step (insert h H) b c" using h(3) by (rule token_step_mono) simp
  ultimately show ?case using h(1) by (intro exI [of _ "insert h H"]) auto
qed auto

text \<open>A hash that no active lease has, and that no later token has, never opens a lease again.\<close>

definition retired :: "string \<Rightarrow> runtime_db \<Rightarrow> bool" where
  "retired h db \<longleftrightarrow> (\<forall>l\<in>set (rt_leases db). cl_hash l = h \<longrightarrow> \<not> active_lease l)"

lemma retired_missing: "retired h db \<longleftrightarrow> GetRuntimeChannelLeaseByHash db h = missing"
proof
  show "retired h db \<Longrightarrow> GetRuntimeChannelLeaseByHash db h = missing"
    unfolding GetRuntimeChannelLeaseByHash_def missing_def retired_def by (intro select_one_none) blast
  show "GetRuntimeChannelLeaseByHash db h = missing \<Longrightarrow> retired h db"
    using select_one_ex [of _ "rt_leases db" "\<lambda>l. cl_hash l = h \<and> active_lease l"]
    by (fastforce simp: GetRuntimeChannelLeaseByHash_def missing_def retired_def)
qed

lemma fill_lease_hash: "cl_hash (fill_lease w l) = cl_hash l"
  by (simp add: fill_lease_def Let_def)

lemma token_step_retired: "token_step H db db' \<Longrightarrow> h \<notin> H \<Longrightarrow> retired h db \<Longrightarrow> retired h db'"
proof (induction rule: token_step.induct)
  case (created l db wall)
  then show ?case
    by (auto simp: CreateRuntimeChannelLease_def Let_def retired_def set_update_where report_write_Inr write_leases_def fill_lease_hash
        split: sum.split option.split if_splits)
next
  case (rotated newHash oldHash db rid expiresAt at)
  then show ?case
    by (auto simp: RotateRuntimeChannelLease_def retired_def set_update_where report_write_Inr write_leases_def current_lease_def
        split: sum.split if_splits)
next
  case (touched db rid hash at)
  then show ?case by (auto simp: TouchRuntimeChannelLease_def retired_def set_update_where active_lease_def)
next
  case (other db' db)
  then show ?case by (simp add: retired_def)
qed

lemma tokens_retired: "(token_step H)\<^sup>*\<^sup>* db db' \<Longrightarrow> h \<notin> H \<Longrightarrow> retired h db \<Longrightarrow> retired h db'"
  by (induction rule: rtranclp_induct) (auto intro: token_step_retired)

definition leased_db :: runtime_db where
  "leased_db = empty_runtime_db\<lparr>rt_leases := [\<lparr>cl_runtime_id = ''rt1'', cl_user_id = 7, cl_key_id = ''k1'', cl_hash = ''h1'', cl_issued_at = 1,
     cl_expires_at = 100, cl_last_used_at = None, cl_revoked_at = None, cl_created_at = 1, cl_updated_at = 1\<rparr>]\<rparr>"

theorem lease_rotation_witness:
  "GetRuntimeChannelLeaseByHash (fst (RotateRuntimeChannelLease ''rt1'' ''h1'' ''h2'' 200 50 leased_db)) ''h1'' = missing"
proof -
  have "leases_ok leased_db" by (simp add: leases_ok_def leased_db_def keys_ok_def)
  moreover have "snd (RotateRuntimeChannelLease ''rt1'' ''h1'' ''h2'' 200 50 leased_db) = Inr ()"
    by (simp add: leased_db_def RotateRuntimeChannelLease_def is_zero_def zero_time_def second_def write_leases_def update_where_def
        current_lease_def active_lease_def keys_ok_def report_write_def)
  ultimately show ?thesis
    using lease_rotation [of leased_db "''h1''" "''h2''" "''rt1''" 200 50, OF _ _ surjective_pairing] by simp
qed

end
