(* ===== verification/Encodings.thy ===== *)
theory Encodings
  imports Prelude
begin

text \<open>
  What the service uses of Go's \<open>encoding/base64\<close> (the raw URL alphabet), \<open>encoding/json\<close> (strings,
  arrays of strings, objects) and \<open>encoding/hex\<close>. Strings are byte strings; those that become JSON are
  proto3 strings, hence valid UTF-8, so no byte is replaced. Base64 decodes what it encoded, and the end
  of a JSON string, number or array can be told, so an object determines its fields.
\<close>

section \<open>Base64, raw URL alphabet\<close>

definition b64_val :: "char \<Rightarrow> nat option" where
  "b64_val c = (let n = of_char c in
     if is_upper c then Some (n - 65) else if is_lower c then Some (n - 71) else if is_digit c then Some (n + 4)
     else if c = CHR ''-'' then Some 62 else if c = CHR ''_'' then Some 63 else None)"

text \<open>Four characters make three bytes; the unused bits of an incomplete last group are ignored.\<close>
fun b64_groups :: "nat list \<Rightarrow> string option" where
  "b64_groups [] = Some []"
| "b64_groups [_] = None"
| "b64_groups [a, b] = Some [char_of (4 * a + b div 16)]"
| "b64_groups [a, b, c] = Some [char_of (4 * a + b div 16), char_of (16 * (b mod 16) + c div 4)]"
| "b64_groups (a # b # c # d # xs) = map_option
     (\<lambda>ys. [char_of (4 * a + b div 16), char_of (16 * (b mod 16) + c div 4), char_of (64 * (c mod 4) + d)] @ ys) (b64_groups xs)"

definition newline_char :: "char \<Rightarrow> bool" where
  "newline_char c \<longleftrightarrow> c = CHR 0x0A \<or> c = CHR 0x0D"

text \<open>\<open>base64.RawURLEncoding.DecodeString\<close>.\<close>
definition b64_decode :: "string \<Rightarrow> string option" where
  "b64_decode s = (let vs = map b64_val (filter (\<lambda>c. \<not> newline_char c) s) in
     if None \<in> set vs then None else b64_groups (map the vs))"

definition b64_char :: "nat \<Rightarrow> char" where
  "b64_char n = (if n < 26 then char_of (n + 65) else if n < 52 then char_of (n + 71) else if n < 62 then char_of (n - 4)
     else if n = 62 then CHR ''-'' else CHR ''_'')"

fun b64_bytes :: "nat list \<Rightarrow> string" where
  "b64_bytes [] = []"
| "b64_bytes [a] = [b64_char (a div 4), b64_char (16 * (a mod 4))]"
| "b64_bytes [a, b] = [b64_char (a div 4), b64_char (16 * (a mod 4) + b div 16), b64_char (4 * (b mod 16))]"
| "b64_bytes (a # b # c # xs) = [b64_char (a div 4), b64_char (16 * (a mod 4) + b div 16),
     b64_char (4 * (b mod 16) + c div 64), b64_char (c mod 64)] @ b64_bytes xs"

text \<open>\<open>base64.RawURLEncoding.EncodeToString\<close>.\<close>
definition b64_encode :: "string \<Rightarrow> string" where
  "b64_encode s = b64_bytes (map of_char s)"

lemma b64_val_char: "n < 64 \<Longrightarrow> b64_val (b64_char n) = Some n"
proof -
  assume "n < 64"
  then consider "n < 26" | "26 \<le> n" "n < 52" | "52 \<le> n" "n < 62" | "n = 62" | "n = 63" by linarith
  then show ?thesis
    by cases (auto simp: b64_val_def b64_char_def is_upper_def is_lower_def is_digit_def Let_def of_char_of)
qed

lemma b64_char_plain: "n < 64 \<Longrightarrow> \<not> newline_char (b64_char n)"
proof -
  assume n: "n < 64"
  have "b64_val CHR 0x0A = None" "b64_val CHR 0x0D = None"
    by (simp_all add: b64_val_def is_upper_def is_lower_def is_digit_def Let_def)
  then show ?thesis using b64_val_char [OF n] by (auto simp: newline_char_def)
qed

lemma sextet_bounds:
  fixes a b c :: nat
  assumes "a < 256" "b < 256"
  shows "a div 4 < 64" "16 * (a mod 4) + b div 16 < 64" "16 * (a mod 4) < 64" "4 * (b mod 16) < 64" "c mod 64 < 64"
proof -
  have "a mod 4 < 4" "b div 16 < 16" "b mod 16 < 16" using assms by simp_all
  then show "16 * (a mod 4) + b div 16 < 64" "16 * (a mod 4) < 64" "4 * (b mod 16) < 64" by linarith+
  show "a div 4 < 64" "c mod 64 < 64" using assms by simp_all
qed

lemma sextet_bound3: "(c::nat) < 256 \<Longrightarrow> 4 * (b mod 16) + c div 64 < 64"
proof -
  assume "c < 256"
  then have "c div 64 < 4" "b mod 16 < 16" by simp_all
  then show ?thesis by linarith
qed

lemma sextet_join:
  fixes a b c :: nat
  shows "b < 256 \<Longrightarrow> 4 * (a div 4) + (16 * (a mod 4) + b div 16) div 16 = a"
    "4 * (a div 4) + 16 * (a mod 4) div 16 = a"
    "b < 256 \<Longrightarrow> c < 256 \<Longrightarrow> 16 * ((16 * (a mod 4) + b div 16) mod 16) + (4 * (b mod 16) + c div 64) div 4 = b"
    "b < 256 \<Longrightarrow> 16 * ((16 * (a mod 4) + b div 16) mod 16) + 4 * (b mod 16) div 4 = b"
    "c < 256 \<Longrightarrow> 64 * ((4 * (b mod 16) + c div 64) mod 4) + c mod 64 = c"
proof -
  have high: "(16 * x + y) div 16 = x" "(16 * x + y) mod 16 = y" if "y < 16" for x y :: nat using that by simp_all
  have low: "(4 * x + y) div 4 = x" "(4 * x + y) mod 4 = y" if "y < 4" for x y :: nat using that by simp_all
  show "4 * (a div 4) + 16 * (a mod 4) div 16 = a" by simp
  show "4 * (a div 4) + (16 * (a mod 4) + b div 16) div 16 = a" if "b < 256"
    using high(1) [of "b div 16" "a mod 4"] that by simp
  show "16 * ((16 * (a mod 4) + b div 16) mod 16) + (4 * (b mod 16) + c div 64) div 4 = b" if "b < 256" "c < 256"
    using high(2) [of "b div 16" "a mod 4"] low(1) [of "c div 64" "b mod 16"] that by simp
  show "16 * ((16 * (a mod 4) + b div 16) mod 16) + 4 * (b mod 16) div 4 = b" if "b < 256"
    using high(2) [of "b div 16" "a mod 4"] that by simp
  show "64 * ((4 * (b mod 16) + c div 64) mod 4) + c mod 64 = c" if "c < 256"
    using low(2) [of "c div 64" "b mod 16"] that by simp
qed

definition b64_sextets :: "nat list \<Rightarrow> nat list" where
  "b64_sextets xs = map (\<lambda>c. the (b64_val c)) (b64_bytes xs)"

lemma b64_sextets_simps:
  "b64_sextets [] = []"
  "a < 256 \<Longrightarrow> b64_sextets [a] = [a div 4, 16 * (a mod 4)]"
  "a < 256 \<Longrightarrow> b < 256 \<Longrightarrow> b64_sextets [a, b] = [a div 4, 16 * (a mod 4) + b div 16, 4 * (b mod 16)]"
  "a < 256 \<Longrightarrow> b < 256 \<Longrightarrow> c < 256 \<Longrightarrow> b64_sextets (a # b # c # xs) =
     [a div 4, 16 * (a mod 4) + b div 16, 4 * (b mod 16) + c div 64, c mod 64] @ b64_sextets xs"
  using sextet_bounds sextet_bound3 by (simp_all add: b64_sextets_def b64_val_char)

lemma b64_groups_sextets: "\<forall>b\<in>set bs. b < 256 \<Longrightarrow> b64_groups (b64_sextets bs) = Some (map char_of bs)"
proof (induction bs rule: b64_bytes.induct)
  case (2 a)
  then have a: "a < 256" by simp
  show ?case by (simp only: b64_sextets_simps(2) [OF a] b64_groups.simps sextet_join list.map)
next
  case (3 a b)
  then have ab: "a < 256" "b < 256" by simp_all
  show ?case by (simp only: b64_sextets_simps(3) [OF ab] b64_groups.simps sextet_join ab list.map)
next
  case (4 a b c xs)
  then have abc: "a < 256" "b < 256" "c < 256" and IH: "b64_groups (b64_sextets xs) = Some (map char_of xs)" by simp_all
  show ?case
    by (simp only: b64_sextets_simps(4) [OF abc] b64_groups.simps sextet_join abc IH list.map append_Cons append_Nil option.map)
qed (simp add: b64_sextets_simps)

lemma b64_bytes_ok: "\<forall>b\<in>set bs. b < 256 \<Longrightarrow> \<forall>c\<in>set (b64_bytes bs). b64_val c \<noteq> None \<and> \<not> newline_char c"
proof (induction bs rule: b64_bytes.induct)
  case (4 a b c xs)
  have "n < 64 \<Longrightarrow> b64_val (b64_char n) \<noteq> None \<and> \<not> newline_char (b64_char n)" for n by (simp add: b64_val_char b64_char_plain)
  then show ?case using 4 sextet_bounds sextet_bound3 by auto
qed (use sextet_bounds in \<open>auto simp: b64_val_char b64_char_plain\<close>)

text \<open>Whatever bytes are encoded, decoding yields them again.\<close>
lemma b64_roundtrip: "b64_decode (b64_encode s) = Some s"
proof -
  have bytes: "\<forall>b\<in>set (map of_char s). (b::nat) < 256" by auto
  note ok = b64_bytes_ok [OF bytes]
  have "filter (\<lambda>c. \<not> newline_char c) (b64_encode s) = b64_encode s"
    using ok unfolding b64_encode_def by (intro filter_True) blast
  moreover have "None \<notin> set (map b64_val (b64_encode s))" using ok by (fastforce simp: b64_encode_def)
  moreover have "b64_groups (map the (map b64_val (b64_encode s))) = Some s"
    using b64_groups_sextets [OF bytes] by (simp add: b64_encode_def b64_sextets_def comp_def)
  ultimately show ?thesis by (simp add: b64_decode_def)
qed

lemma b64_encode_inject: "b64_encode s = b64_encode t \<longleftrightarrow> s = t"
  by (metis b64_roundtrip option.inject)

section \<open>JSON text\<close>

definition hex_char :: "nat \<Rightarrow> char" where
  "hex_char n = (if n < 10 then char_of (48 + n) else char_of (87 + n))"

abbreviation dquote :: char where "dquote \<equiv> CHR 0x22"
abbreviation backslash :: char where "backslash \<equiv> CHR 0x5C"

text \<open>\<open>encoding/json\<close> with its default HTML escaping.\<close>
definition json_char :: "char \<Rightarrow> string" where
  "json_char c = (let n = of_char c :: nat in
     if c = dquote \<or> c = backslash then [backslash, c]
     else if n = 8 then [backslash, CHR ''b''] else if n = 12 then [backslash, CHR ''f'']
     else if n = 10 then [backslash, CHR ''n''] else if n = 13 then [backslash, CHR ''r''] else if n = 9 then [backslash, CHR ''t'']
     else if n < 32 \<or> c = CHR ''<'' \<or> c = CHR ''>'' \<or> c = CHR ''&''
     then [backslash, CHR ''u'', CHR ''0'', CHR ''0'', hex_char (n div 16), hex_char (n mod 16)]
     else [c])"

text \<open>The line separators U+2028 and U+2029 are escaped as well.\<close>
definition line_separator :: "string \<Rightarrow> bool" where
  "line_separator s \<longleftrightarrow> (case s of a # b # c # _ \<Rightarrow> a = CHR 0xE2 \<and> b = CHR 0x80 \<and> (c = CHR 0xA8 \<or> c = CHR 0xA9) | _ \<Rightarrow> False)"

fun json_chars :: "string \<Rightarrow> string" where
  "json_chars [] = []"
| "json_chars (c # cs) =
     (if line_separator (c # cs)
      then [backslash, CHR ''u'', CHR ''2'', CHR ''0'', CHR ''2'', if cs ! 1 = CHR 0xA8 then CHR ''8'' else CHR ''9''] @ json_chars (drop 2 cs)
      else json_char c @ json_chars cs)"

definition json_string :: "string \<Rightarrow> string" where
  "json_string s = dquote # json_chars s @ [dquote]"

fun json_commas :: "string list \<Rightarrow> string" where
  "json_commas [] = []"
| "json_commas [x] = x"
| "json_commas (x # y # xs) = x @ CHR '','' # json_commas (y # xs)"

text \<open>A nil slice is \<open>null\<close>, and the copy of an empty one is nil.\<close>
definition json_string_array :: "string list \<Rightarrow> string" where
  "json_string_array xs = (if xs = [] then ''null'' else CHR ''['' # json_commas (map json_string xs) @ '']'')"

definition json_object :: "(string \<times> string) list \<Rightarrow> string" where
  "json_object fs = CHR ''{'' # json_commas (map (\<lambda>(k, v). json_string k @ CHR '':'' # v) fs) @ ''}''"

text \<open>Reading the text of a string back, up to its closing quote.\<close>

definition hex_val :: "char \<Rightarrow> nat" where
  "hex_val c = (let n = of_char c in if n < 58 then n - 48 else n - 87)"

definition push :: "string \<Rightarrow> (string \<times> string) option \<Rightarrow> (string \<times> string) option" where
  "push p r = map_option (\<lambda>(s, rest). (p @ s, rest)) r"

definition unescaped :: "char \<Rightarrow> char" where
  "unescaped e = (if e = CHR ''b'' then CHR 0x08 else if e = CHR ''f'' then CHR 0x0C else if e = CHR ''n'' then CHR 0x0A
     else if e = CHR ''r'' then CHR 0x0D else if e = CHR ''t'' then CHR 0x09 else e)"

fun read_string :: "string \<Rightarrow> (string \<times> string) option" where
  "read_string [] = None"
| "read_string (c # s) =
     (if c = dquote then Some ([], s)
      else if c \<noteq> backslash then push [c] (read_string s)
      else if s = [] then None
      else if hd s \<noteq> CHR ''u'' then push [unescaped (hd s)] (read_string (tl s))
      else if s ! 1 = CHR ''2'' then push [CHR 0xE2, CHR 0x80, if s ! 4 = CHR ''8'' then CHR 0xA8 else CHR 0xA9] (read_string (drop 5 s))
      else push [char_of (16 * hex_val (s ! 3) + hex_val (s ! 4))] (read_string (drop 5 s)))"

lemma hex_val_char: "n < 16 \<Longrightarrow> hex_val (hex_char n) = n"
  by (simp add: hex_val_def hex_char_def Let_def of_char_of)

lemma json_escapes:
  "json_char dquote = [backslash, dquote]" "json_char backslash = [backslash, backslash]"
  "json_char CHR 0x08 = [backslash, CHR ''b'']" "json_char CHR 0x09 = [backslash, CHR ''t'']" "json_char CHR 0x0A = [backslash, CHR ''n'']"
  "json_char CHR 0x0C = [backslash, CHR ''f'']" "json_char CHR 0x0D = [backslash, CHR ''r'']"
  by code_simp+

lemma unescaped_escapes:
  "unescaped dquote = dquote" "unescaped backslash = backslash" "unescaped CHR ''b'' = CHR 0x08" "unescaped CHR ''t'' = CHR 0x09"
  "unescaped CHR ''n'' = CHR 0x0A" "unescaped CHR ''f'' = CHR 0x0C" "unescaped CHR ''r'' = CHR 0x0D"
  by code_simp+

lemma control_chars:
  "of_char c = (8::nat) \<Longrightarrow> c = CHR 0x08" "of_char c = (9::nat) \<Longrightarrow> c = CHR 0x09" "of_char c = (10::nat) \<Longrightarrow> c = CHR 0x0A"
  "of_char c = (12::nat) \<Longrightarrow> c = CHR 0x0C" "of_char c = (13::nat) \<Longrightarrow> c = CHR 0x0D"
proof -
  have n: "of_char c = (n::nat) \<Longrightarrow> c = char_of n" for n by (metis char_of_char)
  have "char_of (8::nat) = CHR 0x08" "char_of (9::nat) = CHR 0x09" "char_of (10::nat) = CHR 0x0A"
    "char_of (12::nat) = CHR 0x0C" "char_of (13::nat) = CHR 0x0D" by code_simp+
  then show "of_char c = (8::nat) \<Longrightarrow> c = CHR 0x08" "of_char c = (9::nat) \<Longrightarrow> c = CHR 0x09" "of_char c = (10::nat) \<Longrightarrow> c = CHR 0x0A"
    "of_char c = (12::nat) \<Longrightarrow> c = CHR 0x0C" "of_char c = (13::nat) \<Longrightarrow> c = CHR 0x0D" using n by metis+
qed

lemma json_char_cases:
  obtains (plain) "json_char c = [c]" "c \<noteq> dquote" "c \<noteq> backslash"
  | (short) e where "json_char c = [backslash, e]" "e \<noteq> CHR ''u''" "unescaped e = c"
  | (hex) "json_char c = [backslash, CHR ''u'', CHR ''0'', CHR ''0'', hex_char (of_char c div 16), hex_char (of_char c mod 16)]"
proof -
  consider "c = dquote" | "c = backslash" | "of_char c = (8::nat)" | "of_char c = (9::nat)" | "of_char c = (10::nat)"
    | "of_char c = (12::nat)" | "of_char c = (13::nat)"
    | "c \<noteq> dquote" "c \<noteq> backslash" "of_char c \<noteq> (8::nat)" "of_char c \<noteq> (9::nat)" "of_char c \<noteq> (10::nat)" "of_char c \<noteq> (12::nat)" "of_char c \<noteq> (13::nat)"
    by blast
  then show ?thesis
  proof cases
    case 1
    show ?thesis using json_escapes(1) unescaped_escapes(1) by (intro short [of dquote]) (simp_all only: 1, simp)
  next
    case 2
    show ?thesis using json_escapes(2) unescaped_escapes(2) by (intro short [of backslash]) (simp_all only: 2, simp)
  next
    case 3
    note c = control_chars(1) [OF 3, symmetric]
    show ?thesis by (rule short [OF json_escapes(3) [unfolded c] _ unescaped_escapes(3) [unfolded c]]) simp
  next
    case 4
    note c = control_chars(2) [OF 4, symmetric]
    show ?thesis by (rule short [OF json_escapes(4) [unfolded c] _ unescaped_escapes(4) [unfolded c]]) simp
  next
    case 5
    note c = control_chars(3) [OF 5, symmetric]
    show ?thesis by (rule short [OF json_escapes(5) [unfolded c] _ unescaped_escapes(5) [unfolded c]]) simp
  next
    case 6
    note c = control_chars(4) [OF 6, symmetric]
    show ?thesis by (rule short [OF json_escapes(6) [unfolded c] _ unescaped_escapes(6) [unfolded c]]) simp
  next
    case 7
    note c = control_chars(5) [OF 7, symmetric]
    show ?thesis by (rule short [OF json_escapes(7) [unfolded c] _ unescaped_escapes(7) [unfolded c]]) simp
  next
    case 8
    show ?thesis
    proof (cases "of_char c < (32::nat) \<or> c = CHR ''<'' \<or> c = CHR ''>'' \<or> c = CHR ''&''")
      case True
      then show ?thesis by (intro hex) (simp only: json_char_def Let_def 8 if_False if_True simp_thms)
    next
      case False
      then show ?thesis by (intro plain 8) (simp only: json_char_def Let_def 8 if_False simp_thms)
    qed
  qed
qed

lemma read_json_char: "read_string (json_char c @ s) = push [c] (read_string s)"
proof (cases rule: json_char_cases [of c])
  case hex
  have "(16 * (of_char c div 16) + of_char c mod 16 :: nat) = of_char c" by simp
  moreover have "of_char c div 16 < (16::nat)" "of_char c mod 16 < (16::nat)"
    by (simp_all add: less_mult_imp_div_less)
  ultimately show ?thesis using hex by (simp add: hex_val_char)
qed (simp_all)

lemma read_json_chars: "read_string (json_chars s @ dquote # rest) = Some (s, rest)"
proof (induction s rule: json_chars.induct)
  case (2 c cs)
  show ?case
  proof (cases "line_separator (c # cs)")
    case True
    then obtain e rs where s: "c # cs = CHR 0xE2 # CHR 0x80 # e # rs" "e = CHR 0xA8 \<or> e = CHR 0xA9"
      by (auto simp: line_separator_def split: list.splits)
    then have cs: "cs = CHR 0x80 # e # rs" "c = CHR 0xE2" by simp_all
    have "read_string (json_chars rs @ dquote # rest) = Some (rs, rest)" using 2(1) [OF True] cs(1) by simp
    then show ?thesis using True s(2) unfolding cs by (auto simp: push_def)
  next
    case False
    then show ?thesis using 2(2) [OF False] by (simp add: read_json_char push_def)
  qed
qed (simp)

text \<open>Texts of which one can tell where they end, when a comma or the end of the object follows.\<close>

definition ends :: "string \<Rightarrow> bool" where
  "ends r \<longleftrightarrow> r = [] \<or> hd r = CHR '','' \<or> hd r = CHR ''}'' \<or> hd r = CHR '']''"

definition delimited :: "('a \<Rightarrow> string) \<Rightarrow> bool" where
  "delimited f \<longleftrightarrow> (\<forall>x y r r'. ends r \<longrightarrow> ends r' \<longrightarrow> f x @ r = f y @ r' \<longrightarrow> x = y \<and> r = r')"

lemma json_string_delimited: "json_string s @ r = json_string t @ r' \<Longrightarrow> s = t \<and> r = r'"
proof -
  assume "json_string s @ r = json_string t @ r'"
  then have "json_chars s @ dquote # r = json_chars t @ dquote # r'" by (simp only: json_string_def append_Cons append_assoc append_Nil list.inject)
  then have "Some (s, r) = Some (t, r')" using read_json_chars by metis
  then show "s = t \<and> r = r'" by simp
qed

lemma format_int_chars: "c \<in> set (format_int i) \<Longrightarrow> is_digit c \<or> c = CHR ''-''"
  using format_nat_digits by (auto simp: format_int_def split: if_splits)

lemma delimited_int: "delimited format_int"
  unfolding delimited_def
proof (intro allI impI)
  fix x y r r' assume e: "ends r" "ends r'" "format_int x @ r = format_int y @ r'"
  let ?p = "\<lambda>c. is_digit c \<or> c = CHR ''-''"
  have "takeWhile ?p (format_int i @ s) = format_int i" if "ends s" for i s
  proof -
    have "takeWhile ?p s = []" using that by (cases s) (auto simp: ends_def is_digit_def)
    moreover have "\<And>c. c \<in> set (format_int i) \<Longrightarrow> ?p c" using format_int_chars by blast
    ultimately show ?thesis by (simp add: takeWhile_append2)
  qed
  then have "format_int x = format_int y" using e by metis
  then show "x = y \<and> r = r'" using e(3) by simp
qed

lemma delimited_string: "delimited json_string"
  unfolding delimited_def using json_string_delimited by blast

lemma json_strings_inject:
  "json_commas (map json_string xs) @ CHR '']'' # r = json_commas (map json_string ys) @ CHR '']'' # r' \<Longrightarrow> xs \<noteq> [] \<Longrightarrow> ys \<noteq> [] \<Longrightarrow>
     xs = ys \<and> r = r'"
proof (induction xs arbitrary: ys)
  case (Cons x xs)
  obtain y ys' where ys: "ys = y # ys'" using Cons.prems(3) by (cases ys) auto
  have split: "json_commas (map json_string (z # zs)) @ CHR '']'' # s =
      json_string z @ (if zs = [] then CHR '']'' # s else CHR '','' # json_commas (map json_string zs) @ CHR '']'' # s)" for z zs s
    by (cases zs) simp_all
  have "x = y \<and> (if xs = [] then CHR '']'' # r else CHR '','' # json_commas (map json_string xs) @ CHR '']'' # r) =
      (if ys' = [] then CHR '']'' # r' else CHR '','' # json_commas (map json_string ys') @ CHR '']'' # r')"
    using Cons.prems(1) unfolding ys split by (rule json_string_delimited)
  then show ?case using Cons.IH [of ys'] ys by (auto split: if_splits)
qed simp

lemma delimited_array: "delimited json_string_array"
  unfolding delimited_def
proof (intro allI impI)
  fix x y r r' assume "json_string_array x @ r = json_string_array y @ r'"
  then show "x = y \<and> r = r'"
    using json_strings_inject [of x r y r'] by (auto simp: json_string_array_def split: if_splits)
qed

lemma delimitedD: "f x @ r = f y @ r' \<Longrightarrow> delimited f \<Longrightarrow> ends r \<Longrightarrow> ends r' \<Longrightarrow> x = y \<and> r = r'"
  by (auto simp: delimited_def)

lemma ends_simps [simp]: "ends (CHR '','' # r)" "ends (CHR ''}'' # r)"
  by (simp_all add: ends_def)

lemma field_next:
  assumes "json_string k @ CHR '':'' # f x @ CHR '','' # r = json_string k @ CHR '':'' # f y @ CHR '','' # r'" "delimited f"
  shows "x = y" "r = r'"
proof -
  have "f x @ CHR '','' # r = f y @ CHR '','' # r'" using assms(1) by simp
  then have "x = y \<and> CHR '','' # r = CHR '','' # r'" by (rule delimitedD [OF _ assms(2)]) simp_all
  then show "x = y" "r = r'" by simp_all
qed

section \<open>Hexadecimal\<close>

definition hex_string :: "string \<Rightarrow> string" where
  "hex_string s = concat (map (\<lambda>c. [hex_char (of_char c div 16), hex_char (of_char c mod 16)]) s)"

end
