(* ===== verification/ChannelAuth.thy ===== *)
theory ChannelAuth
  imports Encodings ReplayCache RuntimeStore Frames
begin

text \<open>
  \<open>internal/runtimechannel/auth.go\<close>: the signed HELLO. The signature covers the JSON text of the
  HELLO byte for byte, so that text is modelled; reading a PEM public key and checking an Ed25519
  signature are the parameters \<open>he_parse\<close> and \<open>he_verify\<close>. Formatted errors are kept without their
  arguments; the repository and the clock of the service are never nil.
\<close>

section \<open>What is signed\<close>

definition CanonicalHelloPayload :: "runtime_hello \<Rightarrow> string" where
  "CanonicalHelloPayload h = json_object
     [(''capabilities'', json_string_array (h_capabilities h)), (''debug_port'', format_int (h_debug_port h)),
      (''endpoint_host'', json_string (h_endpoint_host h)), (''grpc_port'', format_int (h_grpc_port h)),
      (''issued_at_unix_ms'', format_int (h_issued_at_unix_ms h)), (''key_id'', json_string (h_key_id h)),
      (''nonce'', json_string (h_nonce h)), (''resource_profile'', json_string (h_resource_profile h)),
      (''runtime_id'', json_string (h_runtime_id h)), (''name'', json_string (h_name h)),
      (''source'', json_string (h_source h)), (''user_id'', format_int (h_user_id h)), (''version'', json_string (h_version h))]"

text \<open>The payload that is signed determines every field of the HELLO but the signature.\<close>
lemma canonical_payload_inject:
  assumes "CanonicalHelloPayload h = CanonicalHelloPayload h'"
  shows "h\<lparr>h_signature := s\<rparr> = h'\<lparr>h_signature := s\<rparr>"
proof -
  note e0 = assms [unfolded CanonicalHelloPayload_def json_object_def list.map prod.case json_commas.simps append_Cons append_assoc append_Nil list.inject,
      THEN conjunct2]
  note f1 = field_next(1) [OF e0 delimited_array] and e1 = field_next(2) [OF e0 delimited_array]
  note f2 = field_next(1) [OF e1 delimited_int] and e2 = field_next(2) [OF e1 delimited_int]
  note f3 = field_next(1) [OF e2 delimited_string] and e3 = field_next(2) [OF e2 delimited_string]
  note f4 = field_next(1) [OF e3 delimited_int] and e4 = field_next(2) [OF e3 delimited_int]
  note f5 = field_next(1) [OF e4 delimited_int] and e5 = field_next(2) [OF e4 delimited_int]
  note f6 = field_next(1) [OF e5 delimited_string] and e6 = field_next(2) [OF e5 delimited_string]
  note f7 = field_next(1) [OF e6 delimited_string] and e7 = field_next(2) [OF e6 delimited_string]
  note f8 = field_next(1) [OF e7 delimited_string] and e8 = field_next(2) [OF e7 delimited_string]
  note f9 = field_next(1) [OF e8 delimited_string] and e9 = field_next(2) [OF e8 delimited_string]
  note f10 = field_next(1) [OF e9 delimited_string] and e10 = field_next(2) [OF e9 delimited_string]
  note f11 = field_next(1) [OF e10 delimited_string] and e11 = field_next(2) [OF e10 delimited_string]
  note f12 = field_next(1) [OF e11 delimited_int] and e12 = field_next(2) [OF e11 delimited_int]
  have "json_string (h_version h) @ ''}'' = json_string (h_version h') @ ''}''" using e12 by simp
  then have "h_version h = h_version h'" by (rule json_string_delimited [THEN conjunct1])
  with f1 f2 f3 f4 f5 f6 f7 f8 f9 f10 f11 f12 show ?thesis by (intro runtime_hello.equality) simp_all
qed

section \<open>Checking a HELLO\<close>

text \<open>The configuration, the cryptographic library, and what \<open>crypto/rand\<close> and the formatted clock
  yield when a name has to be made up.\<close>

record hello_env =
  he_allow_bare :: bool
  he_parse :: "string \<Rightarrow> string option"
  he_verify :: "string \<Rightarrow> string \<Rightarrow> string \<Rightarrow> bool"
  he_random :: "string option"
  he_stamp :: string

definition maxHelloClockSkew :: duration where "maxHelloClockSkew = 5 * minute"

definition invalid_hello :: "string \<Rightarrow> 'a result" where
  "invalid_hello m = Inl (Sentinel ErrInvalidHello (''invalid runtime hello: '' @ m))"

definition denied_hello :: "string \<Rightarrow> 'a result" where
  "denied_hello m = Inl (Sentinel ErrPermissionDenied (''runtime hello permission denied: '' @ m))"

definition validRuntimeChannelName :: "string \<Rightarrow> bool" where
  "validRuntimeChannelName s \<longleftrightarrow> (let plain = (\<lambda>c. is_lower c \<or> is_digit c) in
     3 \<le> length s \<and> length s \<le> 48 \<and> plain (hd s) \<and> plain (last s) \<and>
     list_all (\<lambda>c. plain c \<or> c = CHR ''-'') s)"

definition generateCustomRuntimeName :: "hello_env \<Rightarrow> string" where
  "generateCustomRuntimeName env = ''custom-'' @ (case he_random env of None \<Rightarrow> he_stamp env | Some b \<Rightarrow> hex_string b)"

definition unix_milli :: "int \<Rightarrow> go_time" where "unix_milli ms = ms * millisecond"

definition skewed :: "go_time \<Rightarrow> go_time \<Rightarrow> bool" where
  "skewed at issued \<longleftrightarrow> maxHelloClockSkew < time_sub at issued \<or> maxHelloClockSkew < time_sub issued at"

definition validateCredentialUsableForHello :: "credential \<Rightarrow> go_time \<Rightarrow> unit result" where
  "validateCredentialUsableForHello cred at =
     (if (case ExpiresAt cred of None \<Rightarrow> False | Some t \<Rightarrow> \<not> at < t) \<and> (CredStatus cred = CredActive \<or> CredStatus cred = CredDownloaded)
      then denied_hello ''credential expired; stop retrying with this credential''
      else if CredStatus cred = CredActive \<or> CredStatus cred = CredDownloaded then Inr ()
      else if CredStatus cred = CredConsumed
      then (if ConsumedRuntimeID cred \<noteq> ''''
            then denied_hello (''credential consumed by runtime '' @ ConsumedRuntimeID cred @ ''; stop retrying with this credential'')
            else denied_hello ''credential consumed; stop retrying with this credential'')
      else if CredStatus cred = CredRevoked then denied_hello ''credential revoked; stop retrying with this credential''
      else if CredStatus cred = CredExpired then denied_hello ''credential expired; stop retrying with this credential''
      else denied_hello ''credential status is not usable'')"

text \<open>The fields a HELLO contributes as they are.\<close>
definition auth_of :: "runtime_hello \<Rightarrow> string \<Rightarrow> int \<Rightarrow> string \<Rightarrow> string \<Rightarrow> string \<Rightarrow> string \<Rightarrow> go_time \<Rightarrow> auth_runtime" where
  "auth_of h key uid rid name src role at =
     \<lparr>ar_KeyID = key, ar_UserID = uid, ar_RuntimeID = rid, ar_Name = name, ar_Source = src, ar_Role = role,
      ar_EndpointHost = h_endpoint_host h, ar_GRPCPort = h_grpc_port h, ar_DebugPort = h_debug_port h,
      ar_Capabilities = h_capabilities h, ar_ResourceProfile = h_resource_profile h, ar_Version = h_version h,
      ar_AuthenticatedAt = at\<rparr>"

definition verifyBareHello :: "hello_env \<Rightarrow> go_time \<Rightarrow> runtime_hello \<Rightarrow> auth_runtime result" where
  "verifyBareHello env at h =
     (let rid = trim_space (h_runtime_id h); name0 = trim_space (h_name h); name = (if name0 = '''' then ''bare-'' @ rid else name0) in
      if \<not> he_allow_bare env then denied_hello ''bare runtime requires debug gate''
      else if h_user_id h \<le> 0 then invalid_hello ''user_id is required for bare runtime''
      else if rid = '''' then invalid_hello ''runtime_id is required for bare runtime''
      else if \<not> validRuntimeChannelName name then invalid_hello ''name must match''
      else if 0 < h_issued_at_unix_ms h \<and> skewed at (unix_milli (h_issued_at_unix_ms h))
      then denied_hello ''issued_at outside allowed clock skew''
      else Inr (auth_of h '''' (h_user_id h) rid name SourceBare RoleExecutor at))"

text \<open>\<open>verifyHello\<close> up to the signature: the credential that signed.\<close>
definition check_hello :: "hello_env \<Rightarrow> go_time \<Rightarrow> runtime_hello \<Rightarrow> runtime_db \<Rightarrow> credential result" where
  "check_hello env at h db =
     (if h_source h \<notin> {'''', SourceHosted, SourceSelfHosted} then invalid_hello ''unsupported runtime source''
      else if h_key_id h = '''' then invalid_hello ''key_id is required''
      else if h_nonce h = '''' then invalid_hello ''nonce is required''
      else if h_signature h = '''' then invalid_hello ''signature is required''
      else if (case b64_decode (h_nonce h) of None \<Rightarrow> True | Some n \<Rightarrow> length n \<noteq> 16)
      then invalid_hello ''nonce must be base64url 16 bytes''
      else if is_zero (unix_milli (h_issued_at_unix_ms h)) \<or> skewed at (unix_milli (h_issued_at_unix_ms h))
      then denied_hello ''issued_at outside allowed clock skew''
      else case GetRuntimeCredential db (h_key_id h) of
        Inl e \<Rightarrow> if errors_Is e ErrNotFound then denied_hello ''credential not found'' else Inl (error_prefix ''lookup credential: '' e)
      | Inr cred \<Rightarrow> bind_res (validateCredentialUsableForHello cred at) (\<lambda>_.
          case he_parse env (PublicKeyPEM cred) of
            None \<Rightarrow> denied_hello ''malformed credential public key''
          | Some pub \<Rightarrow>
              (case b64_decode (h_signature h) of
                 None \<Rightarrow> invalid_hello ''signature must be base64url''
               | Some sig \<Rightarrow> if he_verify env pub (CanonicalHelloPayload h) sig then Inr cred else denied_hello ''signature mismatch'')))"

text \<open>\<open>verifyHello\<close> from the replay check on: the identity the HELLO gets.\<close>
definition hello_identity :: "hello_env \<Rightarrow> go_time \<Rightarrow> runtime_hello \<Rightarrow> credential \<Rightarrow> auth_runtime result" where
  "hello_identity env at h cred =
     (let rid = (if h_runtime_id h = '''' then ''selfhosted-'' @ h_key_id h else h_runtime_id h);
          name0 = trim_space (h_name h); name = (if name0 = '''' then generateCustomRuntimeName env else name0);
          role = (if CredRole cred = '''' then RoleExecutor else CredRole cred);
          src = (if HostedInternal cred then SourceHosted else SourceSelfHosted) in
      if \<not> validRuntimeChannelName name then invalid_hello ''name must match''
      else if role \<noteq> RoleExecutor \<and> role \<noteq> RoleDebugger then denied_hello ''credential role is not usable''
      else if h_source h \<noteq> '''' \<and> h_source h \<noteq> src then denied_hello ''source does not match credential source''
      else Inr (auth_of h (h_key_id h) (CredUserID cred) rid name src role at))"

text \<open>The nonce is stored and the credential touched before the identity is checked.\<close>
definition verifyHello :: "hello_env \<Rightarrow> go_time \<Rightarrow> runtime_hello \<Rightarrow> replay_cache \<Rightarrow> runtime_db
    \<Rightarrow> (replay_cache \<times> runtime_db) \<times> auth_runtime result" where
  "verifyHello env at h cache db =
     (if h_source h = SourceBare then ((cache, db), verifyBareHello env at h)
      else case check_hello env at h db of
        Inl e \<Rightarrow> ((cache, db), Inl e)
      | Inr cred \<Rightarrow>
          (let (fresh, cache') = CheckAndStore cache (h_key_id h) (h_nonce h) at in
           if \<not> fresh then ((cache', db), Inl (Sentinel ErrReplay ''runtime hello replay: nonce already seen''))
           else ((cache', TouchRuntimeCredentialUsed (h_key_id h) at db), hello_identity env at h cred)))"

section \<open>Properties\<close>

lemmas hello_refusals = invalid_hello_def denied_hello_def

lemma check_hello_ok:
  assumes "check_hello env at h db = Inr cred"
  shows "GetRuntimeCredential db (h_key_id h) = Inr cred" "validateCredentialUsableForHello cred at = Inr ()"
    "\<not> skewed at (unix_milli (h_issued_at_unix_ms h))"
    "\<exists>pub sig. he_parse env (PublicKeyPEM cred) = Some pub \<and> b64_decode (h_signature h) = Some sig \<and>
       he_verify env pub (CanonicalHelloPayload h) sig"
    "\<exists>n. b64_decode (h_nonce h) = Some n \<and> length n = 16"
  using assms by (auto simp: check_hello_def hello_refusals bind_res_def split: if_splits sum.splits option.splits)

lemma usable_for_hello:
  "validateCredentialUsableForHello cred at = Inr () \<longleftrightarrow> usable cred \<and> (\<forall>t. ExpiresAt cred = Some t \<longrightarrow> at < t)"
  by (auto simp: validateCredentialUsableForHello_def usable_def hello_refusals split: option.split)

lemma verifyHello_cache:
  assumes "verifyHello env at h cache db = ((cache', db'), r)"
  shows "cache' = cache \<or> cache' = snd (CheckAndStore cache (h_key_id h) (h_nonce h) at)"
  using assms by (auto simp: verifyHello_def Let_def split: if_splits sum.splits prod.splits)

lemma verifyHello_ok:
  assumes "verifyHello env at h cache db = ((cache', db'), Inr rt)" "h_source h \<noteq> SourceBare"
  obtains cred where "check_hello env at h db = Inr cred" "CheckAndStore cache (h_key_id h) (h_nonce h) at = (True, cache')"
    "db' = TouchRuntimeCredentialUsed (h_key_id h) at db" "hello_identity env at h cred = Inr rt"
  using assms by (auto simp: verifyHello_def Let_def split: sum.splits prod.splits if_splits)

lemma skewed_iff: "skewed at issued \<longleftrightarrow> maxHelloClockSkew < \<bar>at - issued\<bar>"
  by (auto simp: skewed_def time_sub_def sat64_def maxHelloClockSkew_def duration_defs)


definition sample_hello :: runtime_hello where
  "sample_hello = \<lparr>h_key_id = ''k1'', h_runtime_id = ''rt-1'', h_name = ''runner-1'', h_endpoint_host = ''h'', h_grpc_port = 1, h_debug_port = 0,
     h_capabilities = [''kline''], h_resource_profile = ''s'', h_version = ''1'', h_issued_at_unix_ms = 1000,
     h_nonce = ''AAAAAAAAAAAAAAAAAAAAAA'', h_signature = ''c2ln'', h_source = ''self_hosted'', h_user_id = 7\<rparr>"

text \<open>A library that accepts exactly one signature of the key.\<close>
definition sample_env :: hello_env where
  "sample_env = \<lparr>he_allow_bare = False, he_parse = (\<lambda>pem. if pem = ''pem'' then Some ''pub'' else None),
     he_verify = (\<lambda>pub text sig. pub = ''pub'' \<and> text = CanonicalHelloPayload sample_hello \<and> sig = ''sig''), he_random = None, he_stamp = ''0''\<rparr>"

definition sample_cred :: credential where
  "sample_cred = \<lparr>KeyID = ''k1'', CredUserID = 7, Label = '''', CredRole = RoleExecutor, PublicKeyPEM = ''pem'', CredStatus = CredActive,
     CredCreatedAt = 0, DownloadedAt = None, ConsumedAt = None, ConsumedRuntimeID = '''', ExpiresAt = None, LastUsedAt = None,
     RevokedAt = None, HostedInternal = False, ClientCertPEM = '''', ClientCertFingerprint = '''', ClientCertExpiresAt = None, Issuer = IssuerUser\<rparr>"

definition hello_db :: runtime_db where
  "hello_db = \<lparr>rt_rows = [], rt_creds = [sample_cred], rt_datasets = [], rt_leases = [], rt_failures = [], rt_failure_seq = 1\<rparr>"

lemma sample_accepted: "snd (verifyHello sample_env 2000000000 sample_hello (NewReplayCache replay_ttl 8192) hello_db) =
    Inr (auth_of sample_hello ''k1'' 7 ''rt-1'' ''runner-1'' SourceSelfHosted RoleExecutor 2000000000)"
proof -
  have nonce: "b64_decode ''AAAAAAAAAAAAAAAAAAAAAA'' = Some (replicate 16 CHR 0x00)" by code_simp
  have sig: "b64_decode ''c2ln'' = Some ''sig''" by code_simp
  have name: "trim_space ''runner-1'' = ''runner-1''" "validRuntimeChannelName ''runner-1''" by code_simp+
  have skew: "\<not> skewed 2000000000 (unix_milli 1000)" by (simp add: skewed_iff unix_milli_def maxHelloClockSkew_def duration_defs)
  have fresh: "fst (CheckAndStore (NewReplayCache replay_ttl 8192) ''k1'' ''AAAAAAAAAAAAAAAAAAAAAA'' 2000000000)"
    by (simp add: CheckAndStore_def NewReplayCache_def pruneLocked_def Let_def split_beta)
  have "check_hello sample_env 2000000000 sample_hello hello_db = Inr sample_cred"
    using nonce sig skew by (simp add: check_hello_def sample_hello_def hello_db_def GetRuntimeCredential_def select_one_def sample_cred_def
        validateCredentialUsableForHello_def sample_env_def is_zero_def zero_time_def unix_milli_def duration_defs)
  then show ?thesis using fresh name
    by (simp add: verifyHello_def split_beta hello_identity_def sample_hello_def sample_cred_def Let_def)
qed

abbreviation sample_cache :: replay_cache where "sample_cache \<equiv> NewReplayCache replay_ttl 8192"

lemma sample_accepted_eq: "\<exists>cache' db' rt. verifyHello sample_env 2000000000 sample_hello sample_cache hello_db = ((cache', db'), Inr rt)"
  using sample_accepted by (metis prod.collapse)


text \<open>HELLOs over time: each comes with its configuration, its time and the database as it is then.\<close>
fun hellos :: "replay_cache \<Rightarrow> (hello_env \<times> go_time \<times> runtime_hello \<times> runtime_db) list \<Rightarrow> replay_cache" where
  "hellos cache [] = cache"
| "hellos cache ((env, at, h, db) # calls) = hellos (fst (fst (verifyHello env at h cache db))) calls"

lemma hellos_checks: "\<exists>checks. hellos cache calls = snd (check_all cache checks) \<and> length checks \<le> length calls \<and>
    (\<lambda>c. snd (snd c)) ` set checks \<subseteq> (\<lambda>c. fst (snd c)) ` set calls"
proof (induction cache calls rule: hellos.induct)
  case (2 cache env at h db calls)
  obtain cache' db' r where v: "verifyHello env at h cache db = ((cache', db'), r)" by (metis prod.collapse)
  have "fst (fst (verifyHello env at h cache db)) = cache'" using v by simp
  then obtain checks where c: "hellos cache' calls = snd (check_all cache' checks)" "length checks \<le> length calls"
    "(\<lambda>c. snd (snd c)) ` set checks \<subseteq> (\<lambda>c. fst (snd c)) ` set calls" using 2 by blast
  consider "cache' = cache" | "cache' = snd (CheckAndStore cache (h_key_id h) (h_nonce h) at)" using verifyHello_cache [OF v] by blast
  then show ?case
  proof cases
    case 1
    then show ?thesis using c v by (intro exI [of _ checks]) auto
  next
    case 2
    then show ?thesis using c v by (intro exI [of _ "(h_key_id h, h_nonce h, at) # checks"]) (auto simp: split_beta)
  qed
qed (auto intro: exI [of _ "[]"])

text \<open>C4. A signed HELLO is accepted at most once by a running server process, whose replay cache lives as long as it does and whose
  clock does not go back: once the HELLO was accepted, one with the same signed text is refused at every later time, whatever HELLOs
  come in between, as long as fewer of them than the cache has places arrive in the ten minutes after the acceptance. Later than that
  the allowed clock skew refuses it; until then its nonce is remembered.\<close>
theorem hello_accepted_once:
  assumes "replay_inv cache" "rc_ttl cache = replay_ttl"
    and "verifyHello env at h cache db = ((cache1, db1), Inr rt)" "h_source h \<noteq> SourceBare"
    and "CanonicalHelloPayload h' = CanonicalHelloPayload h" "at \<le> at'"
    and "\<forall>(e, u, g, d)\<in>set calls. u \<le> at'"
    and "length (filter (\<lambda>(e, u, g, d). u \<le> at + 10 * minute) calls) < nat (rc_max cache)"
  shows "\<not> is_ok (snd (verifyHello env' at' h' (hellos cache1 calls) db'))"
proof
  assume "is_ok (snd (verifyHello env' at' h' (hellos cache1 calls) db'))"
  then obtain cache3 db3 rt2 where v2: "verifyHello env' at' h' (hellos cache1 calls) db' = ((cache3, db3), Inr rt2)"
    by (metis is_ok_iff prod.collapse)
  have same: "h'\<lparr>h_signature := x\<rparr> = h\<lparr>h_signature := x\<rparr>" for x using canonical_payload_inject [OF assms(5)] .
  have f: "h_source h' = h_source h" "h_key_id h' = h_key_id h" "h_nonce h' = h_nonce h" "h_issued_at_unix_ms h' = h_issued_at_unix_ms h"
    using same [of "''''"] by (metis runtime_hello.select_convs runtime_hello.surjective runtime_hello.update_convs)+
  obtain cred where a: "check_hello env at h db = Inr cred" "CheckAndStore cache (h_key_id h) (h_nonce h) at = (True, cache1)"
    using verifyHello_ok [OF assms(3,4)] .
  obtain cred' where b: "check_hello env' at' h' db' = Inr cred'"
      "CheckAndStore (hellos cache1 calls) (h_key_id h') (h_nonce h') at' = (True, cache3)"
    using verifyHello_ok [OF v2] assms(4) f(1) by metis
  have "\<bar>at - unix_milli (h_issued_at_unix_ms h)\<bar> \<le> 5 * minute" "\<bar>at' - unix_milli (h_issued_at_unix_ms h)\<bar> \<le> 5 * minute"
    using check_hello_ok(3) [OF a(1)] check_hello_ok(3) [OF b(1)] f(4) by (simp_all add: skewed_iff maxHelloClockSkew_def)
  then have window: "at' \<le> at + 10 * minute" by linarith
  then have soon: "at' < at + rc_ttl cache" using assms(2) by (auto simp: replay_ttl_def duration_defs)
  have "filter (\<lambda>(e, u, g, d). u \<le> at + 10 * minute) calls = calls"
    using assms(7) window by (intro filter_True) fastforce
  then have few: "length calls < nat (rc_max cache)" using assms(8) by simp
  obtain checks where c: "hellos cache1 calls = snd (check_all cache1 checks)" "length checks \<le> length calls"
    "(\<lambda>c. snd (snd c)) ` set checks \<subseteq> (\<lambda>c. fst (snd c)) ` set calls" using hellos_checks by metis
  have "\<not> fst (CheckAndStore (snd (check_all cache1 checks)) (h_key_id h) (h_nonce h) at')"
  proof (rule rc_no_replay [OF assms(1) a(2)])
    show "\<forall>(k, n, u)\<in>set checks. u < at + rc_ttl cache" using c(3) assms(7) soon
      by (fastforce simp: subset_iff image_iff)
  qed (use c(2) few soon in auto)
  then show False using b(2) c(1) f by simp
qed

theorem hello_accepted_once_witness:
  "\<not> is_ok (snd (verifyHello sample_env 2500000000 sample_hello
      (fst (fst (verifyHello sample_env 2000000000 sample_hello sample_cache hello_db))) hello_db))"
proof -
  obtain cache' db' rt where v: "verifyHello sample_env 2000000000 sample_hello sample_cache hello_db = ((cache', db'), Inr rt)"
    using sample_accepted_eq by blast
  have "\<not> is_ok (snd (verifyHello sample_env 2500000000 sample_hello (hellos cache' []) hello_db))"
    by (rule hello_accepted_once [OF NewReplayCache_inv _ v])
      (simp_all add: NewReplayCache_def replay_ttl_def duration_defs sample_hello_def)
  then show ?thesis using v by simp
qed

end
