(* ===== verification/RuntimeCert.thy ===== *)
theory RuntimeCert
  imports TimeModel
begin

text \<open>
  \<open>internal/runtimecert/cert.go\<close>: the client certificate of a runtime. What the certificate says of its
  owner is in five extensions, DER-encoded strings, which are modelled; reading PEM and X.509, the
  signature of the request and the serial number are the library's, and the signer and the request
  come as what it made of them.
\<close>

section \<open>Strings in DER (\<open>encoding/asn1\<close>)\<close>

definition in_range :: "nat \<Rightarrow> nat \<Rightarrow> nat \<Rightarrow> bool" where
  "in_range lo hi b \<longleftrightarrow> lo \<le> b \<and> b \<le> hi"

abbreviation tail_byte :: "nat \<Rightarrow> bool" where "tail_byte \<equiv> in_range 128 191"

text \<open>The second byte depends on the first, so that no overlong form and no surrogate is valid.\<close>
fun utf8_valid :: "nat list \<Rightarrow> bool" where
  "utf8_valid [] = True"
| "utf8_valid (a # bs) =
     (if a < 128 then utf8_valid bs
      else if in_range 194 223 a then bs \<noteq> [] \<and> tail_byte (hd bs) \<and> utf8_valid (tl bs)
      else if in_range 224 239 a
      then 2 \<le> length bs \<and> in_range (if a = 224 then 160 else 128) (if a = 237 then 159 else 191) (bs ! 0) \<and> tail_byte (bs ! 1) \<and>
           utf8_valid (drop 2 bs)
      else if in_range 240 244 a
      then 3 \<le> length bs \<and> in_range (if a = 240 then 144 else 128) (if a = 244 then 143 else 191) (bs ! 0) \<and> tail_byte (bs ! 1) \<and>
           tail_byte (bs ! 2) \<and> utf8_valid (drop 3 bs)
      else False)"

definition valid_string :: "string \<Rightarrow> bool" where
  "valid_string s \<longleftrightarrow> utf8_valid (map of_char s)"

definition printable :: "bool \<Rightarrow> char \<Rightarrow> bool" where
  "printable lax c \<longleftrightarrow> is_lower c \<or> is_upper c \<or> is_digit c \<or>
     c \<in> set '' ():=?'' \<or> in_range 39 41 (of_char c) \<or> in_range 43 47 (of_char c) \<or> (lax \<and> (c = CHR ''*'' \<or> c = CHR ''&''))"

text \<open>The bytes of a length, most significant first.\<close>
fun base256 :: "nat \<Rightarrow> nat list" where
  "base256 n = (if n < 256 then [n] else base256 (n div 256) @ [n mod 256])"

declare base256.simps [simp del]

definition der_length :: "nat \<Rightarrow> nat list" where
  "der_length n = (if n < 128 then [n] else (128 + length (base256 n)) # base256 n)"

definition tag_printable :: nat where "tag_printable = 19"
definition tag_utf8 :: nat where "tag_utf8 = 12"

text \<open>\<open>asn1.Marshal\<close> of a string; no bytes when it fails.\<close>
definition asn1_marshal :: "string \<Rightarrow> string" where
  "asn1_marshal s =
     (if list_all (printable False) s then map char_of (tag_printable # der_length (length s)) @ s
      else if \<not> valid_string s then ''''
      else map char_of (tag_utf8 # der_length (length s)) @ s)"

text \<open>The length at the head of the bytes and what follows it.\<close>
definition read_length :: "nat list \<Rightarrow> (nat \<times> nat list) option" where
  "read_length bs = (case bs of [] \<Rightarrow> None
     | b # rest \<Rightarrow>
         if b < 128 then Some (b, rest)
         else (let k = b - 128; ds = take k rest; n = foldl (\<lambda>acc d. 256 * acc + d) 0 ds in
               if k = 0 \<or> length rest < k \<or> hd ds = 0 \<or> 4 < k \<or> 2 ^ 31 \<le> n \<or> n < 128 then None else Some (n, drop k rest)))"

text \<open>\<open>asn1.Unmarshal\<close> into a string; \<open>other\<close> reads the string types that \<open>Marshal\<close> never writes.\<close>
definition asn1_unmarshal :: "(string \<Rightarrow> string option) \<Rightarrow> string \<Rightarrow> string option" where
  "asn1_unmarshal other v = (case map of_char v of [] \<Rightarrow> None
     | t # bs \<Rightarrow>
         if t \<noteq> tag_printable \<and> t \<noteq> tag_utf8 then other v
         else (case read_length bs of None \<Rightarrow> None
           | Some (n, body) \<Rightarrow>
               (let s = map char_of (take n body) in
                if length body < n then None
                else if t = tag_printable then (if list_all (printable True) s then Some s else None)
                else if valid_string s then Some s else None)))"

section \<open>The certificate\<close>

record runtime_identity =
  ri_runtime_id :: string
  ri_user_id :: int
  ri_source :: string
  ri_role :: string
  ri_name :: string

record sign_request =
  sr_csr :: string
  sr_runtime_id :: string
  sr_user_id :: int
  sr_source :: string
  sr_role :: string
  sr_name :: string
  sr_ttl :: duration
  sr_now :: go_time

type_synonym oid = "nat list"
type_synonym extension = "oid \<times> string"

record certificate =
  ct_common_name :: string
  ct_not_before :: go_time
  ct_not_after :: go_time
  ct_extensions :: "extension list"

definition oidRuntimeID :: oid where "oidRuntimeID = [1, 3, 6, 1, 4, 1, 55555, 1, 1]"
definition oidUserID :: oid where "oidUserID = [1, 3, 6, 1, 4, 1, 55555, 1, 2]"
definition oidSource :: oid where "oidSource = [1, 3, 6, 1, 4, 1, 55555, 1, 3]"
definition oidRole :: oid where "oidRole = [1, 3, 6, 1, 4, 1, 55555, 1, 4]"
definition oidName :: oid where "oidName = [1, 3, 6, 1, 4, 1, 55555, 1, 5]"

lemmas oid_defs = oidRuntimeID_def oidUserID_def oidSource_def oidRole_def oidName_def

definition identityExtensions :: "sign_request \<Rightarrow> extension list" where
  "identityExtensions req =
     [(oidRuntimeID, asn1_marshal (sr_runtime_id req)), (oidUserID, asn1_marshal (format_int (sr_user_id req))),
      (oidSource, asn1_marshal (sr_source req)), (oidRole, asn1_marshal (sr_role req)), (oidName, asn1_marshal (sr_name req))]"

text \<open>
  What the \<open>x509\<close> and \<open>rand\<close> libraries answer: a signing request, once read, has a common name and a signature of its own that
  checks or not; a serial number may not be drawn; the certificate of a template may not be made, or not be read back. Times
  are written into a certificate in whole seconds.
\<close>
record x509_lib =
  xl_parse_csr :: "string \<Rightarrow> (string \<times> bool) result"
  xl_serial :: "go_error option"
  xl_create :: "certificate \<Rightarrow> go_error option"
  xl_parse :: "certificate \<Rightarrow> go_error option"

definition whole_seconds :: "go_time \<Rightarrow> go_time" where "whole_seconds t = t - t mod second"

definition SignRuntimeClientCertificate :: "x509_lib \<Rightarrow> go_time \<Rightarrow> sign_request \<Rightarrow> certificate result" where
  "SignRuntimeClientCertificate lib wall req =
     (if trim_space (sr_runtime_id req) = '''' then Inl (Plain ''runtime_id is required'')
      else if sr_user_id req \<le> 0 then Inl (Plain ''user_id must be positive'')
      else if trim_space (sr_source req) = '''' then Inl (Plain ''runtime source is required'')
      else if trim_space (sr_role req) = '''' then Inl (Plain ''runtime role is required'')
      else if sr_ttl req \<le> 0 then Inl (Plain ''runtime client certificate ttl must be positive'')
      else let now = (if is_zero (sr_now req) then wall else sr_now req) in
      bind_res (xl_parse_csr lib (sr_csr req)) (\<lambda>(name, signed).
        if \<not> signed then Inl (Plain ''runtime CSR signature invalid'')
        else if name \<noteq> sr_runtime_id req then Inl (Plain ''runtime CSR common name does not match runtime_id'')
        else case xl_serial lib of
          Some e \<Rightarrow> Inl (error_prefix ''generate runtime client certificate serial: '' e)
        | None \<Rightarrow>
            (let template = \<lparr>ct_common_name = sr_runtime_id req, ct_not_before = now - minute, ct_not_after = now + sr_ttl req,
                   ct_extensions = identityExtensions req\<rparr>;
                 cert = template\<lparr>ct_not_before := whole_seconds (ct_not_before template), ct_not_after := whole_seconds (ct_not_after template)\<rparr> in
             case xl_create lib template of
               Some e \<Rightarrow> Inl (error_prefix ''sign runtime client certificate: '' e)
             | None \<Rightarrow> (case xl_parse lib cert of
                 Some e \<Rightarrow> Inl (error_prefix ''parse signed runtime client certificate: '' e)
               | None \<Rightarrow> Inr cert))))"

text \<open>What does not read as a string is taken as it is.\<close>
definition extensionString :: "(string \<Rightarrow> string option) \<Rightarrow> string \<Rightarrow> string" where
  "extensionString other v = (case asn1_unmarshal other v of Some s \<Rightarrow> s | None \<Rightarrow> v)"

text \<open>The value of the last extension of an identifier; \<open>''''\<close> if there is none.\<close>
definition extension_value :: "(string \<Rightarrow> string option) \<Rightarrow> extension list \<Rightarrow> oid \<Rightarrow> string" where
  "extension_value other exts i = (case filter (\<lambda>e. fst e = i) exts of [] \<Rightarrow> '''' | es \<Rightarrow> extensionString other (snd (last es)))"

definition IdentityFromCertificate :: "(string \<Rightarrow> string option) \<Rightarrow> certificate \<Rightarrow> runtime_identity result" where
  "IdentityFromCertificate other cert =
     (let val = extension_value other (ct_extensions cert) in
      case atoi (val oidUserID) of
        None \<Rightarrow> Inl (Plain ''runtime client certificate user_id invalid'')
      | Some uid \<Rightarrow>
          (let i = \<lparr>ri_runtime_id = val oidRuntimeID, ri_user_id = uid, ri_source = val oidSource, ri_role = val oidRole, ri_name = val oidName\<rparr> in
           if ri_runtime_id i = '''' \<or> ri_user_id i \<le> 0 \<or> ri_source i = '''' \<or> ri_role i = ''''
           then Inl (Plain ''runtime client certificate identity is incomplete'') else Inr i))"

text \<open>The peer's certificate, if the transport is TLS and the peer showed one.\<close>
definition IdentityFromGRPCContext :: "(string \<Rightarrow> string option) \<Rightarrow> certificate option \<Rightarrow> runtime_identity option result" where
  "IdentityFromGRPCContext other peer = (case peer of None \<Rightarrow> Inr None
     | Some cert \<Rightarrow> bind_res (IdentityFromCertificate other cert) (\<lambda>i. Inr (Some i)))"

section \<open>Properties\<close>

lemma base256_value: "foldl (\<lambda>acc d. 256 * acc + d) 0 (base256 n) = n"
proof (induction n rule: base256.induct)
  case (1 n)
  then show ?case by (subst base256.simps) auto
qed

lemma base256_bytes: "\<forall>d\<in>set (base256 n). d < 256"
proof (induction n rule: base256.induct)
  case (1 n)
  then show ?case by (subst base256.simps) auto
qed

lemma base256_head: "0 < n \<Longrightarrow> base256 n \<noteq> [] \<and> hd (base256 n) \<noteq> 0"
proof (induction n rule: base256.induct)
  case (1 n)
  then show ?case by (subst (1 2) base256.simps) (auto simp: hd_append)
qed

lemma base256_length: "n < 256 ^ k \<Longrightarrow> 0 < k \<Longrightarrow> length (base256 n) \<le> k"
proof (induction n arbitrary: k rule: base256.induct)
  case (1 n)
  show ?case
  proof (cases "n < 256")
    case True
    then show ?thesis using 1(3) by (subst base256.simps) simp
  next
    case False
    then have k: "1 < k" using 1(2,3) by (cases "k = 1") auto
    have "n div 256 < 256 ^ (k - 1)" using 1(2) k by (auto simp: less_mult_imp_div_less power_eq_if)
    then have "length (base256 (n div 256)) \<le> k - 1" using 1(1) [OF False] k by simp
    then show ?thesis using False k by (subst base256.simps) simp
  qed
qed

lemma read_der_length: "n < 2 ^ 31 \<Longrightarrow> read_length (der_length n @ rest) = Some (n, rest)"
proof (cases "n < 128")
  case False
  assume n: "n < 2 ^ 31"
  then have "length (base256 n) \<le> 4" using base256_length [of n 4] by simp
  moreover have "base256 n \<noteq> []" "hd (base256 n) \<noteq> 0" using base256_head [of n] False by auto
  ultimately show ?thesis using n False base256_value [of n]
    by (simp add: read_length_def der_length_def Let_def)
qed (simp add: read_length_def der_length_def)

lemma der_length_bytes: "n < 2 ^ 31 \<Longrightarrow> \<forall>d\<in>set (der_length n). d < 256"
  using base256_bytes [of n] base256_length [of n 4] by (auto simp: der_length_def)

lemma map_of_char_of: "\<forall>d\<in>set ds. d < 256 \<Longrightarrow> map of_char (map char_of ds :: string) = (ds :: nat list)"
  by (induction ds) (simp_all add: of_char_of)

lemma printable_lax: "printable False c \<Longrightarrow> printable True c"
  by (auto simp: printable_def)

lemma asn1_roundtrip:
  assumes "valid_string s" "length s < 2 ^ 31"
  shows "asn1_unmarshal other (asn1_marshal s) = Some s"
proof -
  have r: "map of_char (map char_of (t # der_length (length s)) @ s) = t # der_length (length s) @ map of_char s" if "t < 256" for t :: nat
    using map_of_char_of [of "t # der_length (length s)"] der_length_bytes [OF assms(2)] that by simp
  have l: "read_length (der_length (length s) @ map of_char s) = Some (length s, map of_char s)" by (rule read_der_length [OF assms(2)])
  have c: "map char_of (map of_char s :: nat list) = s" by (simp add: map_idI)
  have p: "list_all (printable False) s \<Longrightarrow> list_all (printable True) s" using printable_lax by (auto simp: list_all_iff)
  show ?thesis
  proof (cases "list_all (printable False) s")
    case True
    then show ?thesis using p r [of tag_printable] l c by (simp add: asn1_marshal_def asn1_unmarshal_def tag_printable_def)
  next
    case False
    then show ?thesis using assms(1) r [of tag_utf8] l c by (simp add: asn1_marshal_def asn1_unmarshal_def tag_utf8_def tag_printable_def)
  qed
qed

lemma ascii_valid: "\<forall>c\<in>set s. of_char c < (128::nat) \<Longrightarrow> valid_string s"
  unfolding valid_string_def by (induction s) simp_all

lemma format_nat_valid: "valid_string (format_nat n)"
  by (rule ascii_valid) (use format_nat_digits [of n] in \<open>fastforce simp: is_digit_def Let_def\<close>)

lemma format_nat_length: "int n < 2 ^ 63 \<Longrightarrow> length (format_nat n) < 2 ^ 31"
proof -
  have b: "n < 10 ^ Suc k \<Longrightarrow> length (format_nat n) \<le> Suc k" for n k
  proof (induction k arbitrary: n)
    case 0
    then show ?case by (subst format_nat.simps) simp
  next
    case (Suc k)
    then have "n div 10 < 10 ^ Suc k" by (simp add: less_mult_imp_div_less)
    then have "length (format_nat (n div 10)) \<le> Suc k" by (rule Suc.IH)
    then show ?case by (subst format_nat.simps) simp
  qed
  assume "int n < 2 ^ 63"
  then have "n < 2 ^ 63" by simp
  then have "n < 10 ^ Suc 18" by simp
  from b [OF this] show ?thesis by simp
qed

definition marshalable :: "string \<Rightarrow> bool" where
  "marshalable s \<longleftrightarrow> valid_string s \<and> length s < 2 ^ 31"

lemma extension_string_marshal: "marshalable s \<Longrightarrow> extensionString other (asn1_marshal s) = s"
  by (simp add: extensionString_def asn1_roundtrip marshalable_def)

lemma certificate_reads_back:
  assumes "SignRuntimeClientCertificate lib wall req = Inr cert"
    and "\<forall>s\<in>{sr_runtime_id req, sr_source req, sr_role req, sr_name req}. marshalable s" "in64 (sr_user_id req)"
  shows "IdentityFromGRPCContext other (Some cert) = Inr (Some \<lparr>ri_runtime_id = sr_runtime_id req, ri_user_id = sr_user_id req,
      ri_source = sr_source req, ri_role = sr_role req, ri_name = sr_name req\<rparr>) \<and>
    ct_common_name cert = sr_runtime_id req \<and> ct_not_before cert < ct_not_after cert"
proof -
  have lifetime: "whole_seconds (t - minute) < whole_seconds (t + ttl)" if "0 < ttl" for t ttl :: int
  proof -
    have "0 \<le> (t - minute) mod second" "(t + ttl) mod second < second" by (simp_all add: duration_defs)
    moreover have "second < minute" by (simp add: duration_defs)
    ultimately show ?thesis using that by (simp add: whole_seconds_def)
  qed
  have c: "ct_extensions cert = identityExtensions req" "ct_common_name cert = sr_runtime_id req" "ct_not_before cert < ct_not_after cert"
    and g: "trim_space (sr_runtime_id req) \<noteq> ''''" "0 < sr_user_id req" "trim_space (sr_source req) \<noteq> ''''" "trim_space (sr_role req) \<noteq> ''''"
    using assms(1) lifetime by (auto simp: SignRuntimeClientCertificate_def bind_res_Inr Let_def split: if_splits prod.splits option.splits)
  have ne: "sr_runtime_id req \<noteq> ''''" "sr_source req \<noteq> ''''" "sr_role req \<noteq> ''''" using g by auto
  have uid: "format_int (sr_user_id req) = format_nat (nat (sr_user_id req))" using g(2) by (simp add: format_int_def)
  have small: "int (nat (sr_user_id req)) < 2 ^ 63" using assms(3) g(2) by (simp add: in64_def)
  have "marshalable (format_nat (nat (sr_user_id req)))"
    using format_nat_valid format_nat_length [OF small] by (simp add: marshalable_def)
  moreover have "atoi (format_nat (nat (sr_user_id req))) = Some (sr_user_id req)" using atoi_format_nat [OF small] g(2) by simp
  ultimately show ?thesis using assms(2) ne g(2) c
    by (simp add: IdentityFromGRPCContext_def IdentityFromCertificate_def extension_value_def identityExtensions_def oid_defs
        extension_string_marshal uid Let_def)
qed

text \<open>C39. What the signer puts into a certificate is what the channel reads out of it: the runtime, the user, the
  source, the role and the name of the request, whatever UTF-8 text they are.\<close>
theorem certificate_identity_roundtrip:
  assumes "SignRuntimeClientCertificate lib wall req = Inr cert"
    and "\<forall>s\<in>{sr_runtime_id req, sr_source req, sr_role req, sr_name req}. marshalable s" "in64 (sr_user_id req)"
  shows "IdentityFromGRPCContext other (Some cert) = Inr (Some \<lparr>ri_runtime_id = sr_runtime_id req, ri_user_id = sr_user_id req,
      ri_source = sr_source req, ri_role = sr_role req, ri_name = sr_name req\<rparr>) \<and>
    ct_common_name cert = sr_runtime_id req \<and> ct_not_before cert < ct_not_after cert"
  by (rule certificate_reads_back [OF assms])

text \<open>A library whose requests are the names they are for, and that fails nowhere.\<close>
definition sure_lib :: x509_lib where
  "sure_lib = \<lparr>xl_parse_csr = (\<lambda>csr. Inr (csr, True)), xl_serial = None, xl_create = (\<lambda>_. None), xl_parse = (\<lambda>_. None)\<rparr>"

definition sample_request :: sign_request where
  "sample_request = \<lparr>sr_csr = ''rt-1'', sr_runtime_id = ''rt-1'', sr_user_id = 7, sr_source = SourceHosted, sr_role = RoleExecutor,
     sr_name = [CHR 0xC3, CHR 0xBC], sr_ttl = hour, sr_now = 0\<rparr>"

theorem certificate_identity_roundtrip_witness:
  "\<exists>cert i. SignRuntimeClientCertificate sure_lib 5 sample_request = Inr cert \<and>
     IdentityFromGRPCContext (\<lambda>_. None) (Some cert) = Inr (Some i) \<and> ri_name i = [CHR 0xC3, CHR 0xBC]"
proof -
  have t: "trim_space ''rt-1'' = ''rt-1''" "trim_space SourceHosted = SourceHosted" "trim_space RoleExecutor = RoleExecutor" by code_simp+
  then obtain cert where c: "SignRuntimeClientCertificate sure_lib 5 sample_request = Inr cert"
    by (simp add: SignRuntimeClientCertificate_def sure_lib_def sample_request_def duration_defs Let_def)
  have "valid_string ''rt-1''" "valid_string SourceHosted" "valid_string RoleExecutor" "valid_string [CHR 0xC3, CHR 0xBC]" by code_simp+
  then have "\<forall>s\<in>{sr_runtime_id sample_request, sr_source sample_request, sr_role sample_request, sr_name sample_request}. marshalable s"
    by (simp add: sample_request_def marshalable_def)
  from certificate_identity_roundtrip [OF c this] show ?thesis using c by (simp add: sample_request_def in64_def)
qed

end
