(* ===== verification/Notification.thy ===== *)
theory Notification
  imports Domain
begin

text \<open>
  \<open>internal/notification\<close>: the events the service announces, and what the Kafka publisher fills in
  before it hands an event to the broker. The id, the clock and the broker are parameters; the event
  stands for its JSON text.
\<close>

record notification =
  nt_schema_version :: int
  nt_event_id :: string
  nt_created_at :: go_time
  nt_user_id :: int
  nt_category :: string
  nt_event_type :: string
  nt_severity :: string
  nt_source_service :: string
  nt_runtime_id :: string
  nt_runtime_name :: string
  nt_portfolio_id :: int
  nt_strategy_id :: int
  nt_session_id :: string
  nt_title :: string
  nt_message :: string
  nt_dedupe_key :: string
  nt_metadata :: "(string \<times> string) list"

abbreviation SchemaVersion :: int where "SchemaVersion \<equiv> 1"
abbreviation CategorySystem :: string where "CategorySystem \<equiv> ''system''"
abbreviation SeverityInfo :: string where "SeverityInfo \<equiv> ''info''"
abbreviation SeverityWarn :: string where "SeverityWarn \<equiv> ''warn''"
abbreviation SeverityError :: string where "SeverityError \<equiv> ''error''"
abbreviation EventRuntimeStarted :: string where "EventRuntimeStarted \<equiv> ''runtime.started''"
abbreviation EventRuntimeEnded :: string where "EventRuntimeEnded \<equiv> ''runtime.ended''"
abbreviation EventRuntimeUnhealthy :: string where "EventRuntimeUnhealthy \<equiv> ''runtime.unhealthy''"
abbreviation EventRuntimeRecovered :: string where "EventRuntimeRecovered \<equiv> ''runtime.recovered''"
abbreviation EventRuntimeHeartbeatLost :: string where "EventRuntimeHeartbeatLost \<equiv> ''runtime.heartbeat_lost''"
abbreviation EventRuntimeHeartbeatRecovered :: string where "EventRuntimeHeartbeatRecovered \<equiv> ''runtime.heartbeat_recovered''"
abbreviation EventRuntimeDataDelayed :: string where "EventRuntimeDataDelayed \<equiv> ''runtime.data_delayed''"
abbreviation EventRuntimeDataDropped :: string where "EventRuntimeDataDropped \<equiv> ''runtime.data_dropped''"
abbreviation EventRuntimeLiveDataDropped :: string where "EventRuntimeLiveDataDropped \<equiv> ''runtime.live_data_dropped''"

text \<open>What a \<open>Publish\<close> sends: topic, partition key and event.\<close>
definition publish_defaults :: "string \<Rightarrow> string \<Rightarrow> go_time \<Rightarrow> notification \<Rightarrow> notification" where
  "publish_defaults source uuid now e0 =
     (let e1 = (if nt_schema_version e0 = 0 then e0\<lparr>nt_schema_version := SchemaVersion\<rparr> else e0);
          e2 = (if nt_event_id e1 = '''' then e1\<lparr>nt_event_id := uuid\<rparr> else e1);
          e3 = (if is_zero (nt_created_at e2) then e2\<lparr>nt_created_at := now\<rparr> else e2)
      in if nt_source_service e3 = '''' then e3\<lparr>nt_source_service := source\<rparr> else e3)"

record kafka_message =
  km_topic :: string
  km_key :: string
  km_event :: notification

text \<open>The context's error wins over the broker's. \<open>None\<close> is a publisher without a producer.\<close>
definition Publish :: "(kafka_message \<Rightarrow> go_error option) option \<Rightarrow> string \<Rightarrow> string \<Rightarrow> string \<Rightarrow> go_time \<Rightarrow> go_error option \<Rightarrow> notification
    \<Rightarrow> kafka_message list \<times> go_error option" where
  "Publish broker topic source uuid now ctx e =
     (case broker of None \<Rightarrow> ([], None)
      | Some send \<Rightarrow>
          (let msg = \<lparr>km_topic = topic, km_key = format_int (nt_user_id e), km_event = publish_defaults source uuid now e\<rparr>
           in ([msg], case ctx of Some err \<Rightarrow> Some err | None \<Rightarrow> send msg)))"

end
