(* ===== verification/ChannelService.thy ===== *)
theory ChannelService
  imports ChannelAuth RuntimeCert RuntimeCommands LiveDelivery Notification
begin

text \<open>
  \<open>internal/runtimechannel/service.go\<close> with the frame handlers of \<open>command_dispatch.go\<close>,
  \<open>data_backpressure.go\<close>, \<open>status_patch.go\<close> and \<open>runtime_request.go\<close>: a RuntimeChannel connection from its
  first frame to its end. The state is what the connections of an instance share; a connection is a
  position in the registry's store and an identity. \<open>Handle\<close> is cut into the step that opens a
  connection, one step per frame, the tick of its idle timer and the deferred cleanup; the goroutines it
  starts are recorded as tasks and run as steps of their own. A step reads the clock once.
\<close>

section \<open>The service\<close>

datatype task = Task_Request stream_id runtime_frame | Task_Patch auth_runtime runtime_frame

record channel_service =
  sv_chan :: channel_state
  sv_replay :: replay_cache
  sv_db :: runtime_db
  sv_cmds :: command_table
  sv_events :: "notification list"
  sv_tasks :: "task list"

text \<open>What a step reads from outside: the instance, the cryptographic library, the clocks of the process
  and of the database, random bytes, the transport of the connection and the JSON library.\<close>
record chan_env =
  ce_instance :: string
  ce_hello :: hello_env
  ce_sha256 :: "string \<Rightarrow> string"
  ce_now :: go_time
  ce_db_now :: go_time
  ce_random :: "string option"
  ce_send :: "runtime_frame \<Rightarrow> go_error option"
  ce_compact :: "string \<Rightarrow> string option"
  ce_protojson :: "any_msg \<Rightarrow> string option"

record conn =
  cn_stream :: stream_id
  cn_runtime :: auth_runtime

definition streamDeadAfter :: duration where "streamDeadAfter = 90 * second"
definition runtimeChannelLeaseTTL :: duration where "runtimeChannelLeaseTTL = 24 * hour"

text \<open>\<open>newWithConfigAndInstanceID\<close>.\<close>
definition new_service :: "runtime_db \<Rightarrow> command_table \<Rightarrow> channel_service" where
  "new_service db cmds = \<lparr>sv_chan = \<lparr>cs_registry = NewRegistry, cs_window = NewRuntimeDataWindow 1024\<rparr>,
     sv_replay = NewReplayCache replay_ttl 8192, sv_db = db, sv_cmds = cmds, sv_events = [], sv_tasks = []\<rparr>"

definition with_db :: "(runtime_db \<Rightarrow> runtime_db \<times> 'a result) \<Rightarrow> channel_service \<Rightarrow> channel_service \<times> 'a result" where
  "with_db f sv = (let (db, r) = f (sv_db sv) in (sv\<lparr>sv_db := db\<rparr>, r))"

definition with_registry :: "(registry \<Rightarrow> registry) \<Rightarrow> channel_service \<Rightarrow> channel_service" where
  "with_registry f sv = sv\<lparr>sv_chan := (sv_chan sv)\<lparr>cs_registry := f (cs_registry (sv_chan sv))\<rparr>\<rparr>"

abbreviation sv_registry :: "channel_service \<Rightarrow> registry" where
  "sv_registry sv \<equiv> cs_registry (sv_chan sv)"

definition send_on :: "stream_id \<Rightarrow> runtime_frame \<Rightarrow> channel_service \<Rightarrow> channel_service \<times> go_error option" where
  "send_on i frame sv = (let (c, e) = send_at i frame (sv_chan sv) in (sv\<lparr>sv_chan := c\<rparr>, e))"

definition unavailable :: "string \<Rightarrow> go_error \<Rightarrow> go_error" where
  "unavailable m e = Status Unavailable (m @ '': '' @ err_text e)"

section \<open>Errors\<close>

definition runtime_already_ended :: go_error where
  "runtime_already_ended = Sentinel ErrRuntimeAlreadyEnded ''runtime already ended''"

definition admissionFailureCode :: "go_error \<Rightarrow> string" where
  "admissionFailureCode e =
     (if errors_Is e ErrInvalidHello then ''invalid_hello''
      else if errors_Is e ErrPermissionDenied then ''permission_denied''
      else if errors_Is e ErrReplay then ''replay''
      else if errors_Is e ErrConflict then ''failed_precondition''
      else if status_Code e = PermissionDenied then ''permission_denied''
      else if status_Code e = FailedPrecondition then ''failed_precondition''
      else if status_Code e = InvalidArgument then ''invalid_hello''
      else if status_Code e = NotFound then ''not_found''
      else ''unavailable'')"

definition helloErrorToStatus :: "go_error \<Rightarrow> go_error" where
  "helloErrorToStatus e =
     (if errors_Is e ErrInvalidHello then Status InvalidArgument (err_text e)
      else if errors_Is e ErrPermissionDenied \<or> errors_Is e ErrReplay then Status PermissionDenied (err_text e)
      else Status Unavailable (err_text e))"

definition runtimeRegistrationConflictToStatus :: "go_error \<Rightarrow> go_error" where
  "runtimeRegistrationConflictToStatus e =
     (if contains (err_text e) ''credential already bound''
      then Status PermissionDenied ''runtime credential is already bound to another runtime; cancel the existing runtime or generate a new credential''
      else Status FailedPrecondition (''runtime registration conflict: '' @ err_text e))"

section \<open>Admission\<close>

definition validatePeerIdentity :: "auth_runtime \<Rightarrow> runtime_identity \<Rightarrow> go_error option" where
  "validatePeerIdentity rt peer =
     (if ri_runtime_id peer \<noteq> ar_RuntimeID rt then Some (Plain ''runtime client certificate runtime_id mismatch'')
      else if ri_user_id peer \<noteq> ar_UserID rt then Some (Plain ''runtime client certificate user_id mismatch'')
      else if ri_source peer \<noteq> '''' \<and> ri_source peer \<noteq> ar_Source rt then Some (Plain ''runtime client certificate source mismatch'')
      else if ri_role peer \<noteq> '''' \<and> ar_Role rt \<noteq> '''' \<and> ri_role peer \<noteq> ar_Role rt then Some (Plain ''runtime client certificate role mismatch'')
      else None)"

definition recordConnectionOwner :: "chan_env \<Rightarrow> string \<Rightarrow> go_time \<Rightarrow> channel_service \<Rightarrow> channel_service \<times> unit result" where
  "recordConnectionOwner env rid at sv =
     (if ce_instance env = '''' then (sv, Inr ())
      else with_db (RecordRuntimeConnectionOwner (ce_db_now env) rid (ce_instance env) at) sv)"

definition newRuntimeChannelResumeToken :: "chan_env \<Rightarrow> string result" where
  "newRuntimeChannelResumeToken env = (case ce_random env of None \<Rightarrow> Inl (Plain ''rand'') | Some b \<Rightarrow> Inr (b64_encode b))"

definition hashRuntimeChannelToken :: "chan_env \<Rightarrow> string \<Rightarrow> string" where
  "hashRuntimeChannelToken env token = b64_encode (ce_sha256 env token)"

definition issueRuntimeChannelLease :: "chan_env \<Rightarrow> auth_runtime \<Rightarrow> channel_service \<Rightarrow> channel_service \<times> (string \<times> go_time) result" where
  "issueRuntimeChannelLease env rt sv =
     (case newRuntimeChannelResumeToken env of
        Inl e \<Rightarrow> (sv, Inl e)
      | Inr token \<Rightarrow>
          (let now = ce_now env; expiresAt = now + runtimeChannelLeaseTTL;
               lease = \<lparr>cl_runtime_id = ar_RuntimeID rt, cl_user_id = ar_UserID rt, cl_key_id = ar_KeyID rt,
                 cl_hash = hashRuntimeChannelToken env token, cl_issued_at = now, cl_expires_at = expiresAt, cl_last_used_at = None,
                 cl_revoked_at = None, cl_created_at = now, cl_updated_at = now\<rparr>
           in case with_db (CreateRuntimeChannelLease now lease) sv of
                (sv', Inl e) \<Rightarrow> (sv', Inl e)
              | (sv', Inr ()) \<Rightarrow> (sv', Inr (token, expiresAt))))"

definition runtime_of_auth :: "auth_runtime \<Rightarrow> runtime" where
  "runtime_of_auth rt = (let now = ar_AuthenticatedAt rt in
     \<lparr>RuntimeID = ar_RuntimeID rt, CredentialKeyID = ar_KeyID rt, UserID = ar_UserID rt, Name = ar_Name rt, Source = ar_Source rt,
      Role = ar_Role rt, EndpointHost = ar_EndpointHost rt, GRPCPort = ar_GRPCPort rt, DebugPort = ar_DebugPort rt,
      Capabilities = ar_Capabilities rt, ResourceProfile = ar_ResourceProfile rt, Version = ar_Version rt,
      RtStatus = RuntimeStatusActive, TokenHash = '''', PairedAt = Some now, StartedAt = Some now, EndedAt = None, EndedReason = '''',
      CleanupStatus = '''', CleanupReason = '''', CleanupAt = None, HeartbeatAt = Some now, OwnerInstanceID = '''',
      OwnerAcquiredAt = None, OwnerHeartbeatAt = None, DebugWorkspace = empty_workspace\<lparr>dw_container_path := ''''\<rparr>, DebugDataset = None,
      CreatedAt = now, UpdatedAt = now\<rparr>)"

definition upsertRuntime :: "chan_env \<Rightarrow> auth_runtime \<Rightarrow> channel_service \<Rightarrow> channel_service \<times> unit result" where
  "upsertRuntime env rt sv =
     (let rcd = runtime_of_auth rt; src = ar_Source rt;
          (sv', r) = with_db (\<lambda>db.
            if src = SourceHosted then CreateOrReplaceHostedRuntime (ce_now env) rcd db
            else if src = SourceSelfHosted then CreateOrReplaceSelfHostedRuntime (ce_now env) rcd db
            else if src = SourceBare then CreateOrReplaceBareRuntime (ce_now env) rcd db
            else (db, Inl (Plain ''unsupported runtime source''))) sv
      in case r of
           Inr () \<Rightarrow> (sv', Inr ())
         | Inl e \<Rightarrow>
             (sv', Inl (if errors_Is e ErrConflict \<and>
                  (case GetRuntime (sv_db sv') (ar_RuntimeID rt) of Inl _ \<Rightarrow> False | Inr old \<Rightarrow> IsRuntimeTerminalStatus (RtStatus old))
                then runtime_already_ended else e)))"

definition new_failure :: "chan_env \<Rightarrow> string \<Rightarrow> go_error \<Rightarrow> admission_failure" where
  "new_failure env rid cause = \<lparr>af_id = 0, af_user_id = 0, af_key_id = '''', af_requested_runtime_id = rid, af_requested_name = '''',
     af_source = '''', af_role = '''', af_code = admissionFailureCode cause, af_reason = err_text cause, af_consumed_runtime_id = '''',
     af_first_seen_at = ce_now env, af_last_seen_at = ce_now env, af_attempt_count = 1\<rparr>"

text \<open>The identity is \<open>None\<close> when the HELLO itself failed.\<close>
definition recordAdmissionFailure :: "chan_env \<Rightarrow> runtime_hello \<Rightarrow> auth_runtime option \<Rightarrow> go_error \<Rightarrow> channel_service \<Rightarrow> channel_service" where
  "recordAdmissionFailure env h rt cause sv =
     (let (uid, src, role) = (case rt of None \<Rightarrow> (0, '''', '''') | Some a \<Rightarrow> (ar_UserID a, ar_Source a, ar_Role a));
          f0 = (new_failure env (h_runtime_id h) cause)\<lparr>af_user_id := uid, af_key_id := h_key_id h,
            af_requested_name := trim_space (h_name h), af_source := src, af_role := role\<rparr>;
          f = (case (if h_key_id h = '''' then Inl (Plain '''') else GetRuntimeCredential (sv_db sv) (h_key_id h)) of
             Inl _ \<Rightarrow> f0
           | Inr c \<Rightarrow> f0\<lparr>af_user_id := (if uid = 0 then CredUserID c else uid), af_role := (if role = '''' then CredRole c else role),
                af_source := (if src = '''' then (if HostedInternal c then SourceHosted else SourceSelfHosted) else src),
                af_consumed_runtime_id := ConsumedRuntimeID c\<rparr>)
      in sv\<lparr>sv_db := RecordRuntimeAdmissionFailure (ce_now env) f (sv_db sv)\<rparr>)"

definition recordResumeFailure :: "chan_env \<Rightarrow> runtime_resume \<Rightarrow> go_error \<Rightarrow> channel_service \<Rightarrow> channel_service" where
  "recordResumeFailure env res cause sv =
     (let rid = trim_space (rs_runtime_id res); f0 = new_failure env rid cause;
          f = (case (if rid = '''' then Inl (Plain '''') else GetRuntime (sv_db sv) rid) of
             Inl _ \<Rightarrow> f0
           | Inr rt \<Rightarrow> f0\<lparr>af_user_id := UserID rt, af_key_id := CredentialKeyID rt, af_requested_name := Name rt, af_source := Source rt,
                af_role := Role rt, af_consumed_runtime_id := (if IsRuntimeTerminalStatus (RtStatus rt) then RuntimeID rt else '''')\<rparr>)
      in sv\<lparr>sv_db := RecordRuntimeAdmissionFailure (ce_now env) f (sv_db sv)\<rparr>)"

section \<open>Fingerprints\<close>

text \<open>\<open>ExpiresAt.After(now)\<close> and no revocation.\<close>
definition lease_valid :: "go_time \<Rightarrow> channel_lease \<Rightarrow> bool" where
  "lease_valid now l \<longleftrightarrow> now < cl_expires_at l \<and> cl_revoked_at l = None"

text \<open>What \<open>verifyResume\<close> and the two fingerprint methods check of a token, with the texts in which they
  differ: the runtime the token stands for.\<close>
definition fingerprint_runtime :: "string \<Rightarrow> string \<Rightarrow> string \<Rightarrow> go_time \<Rightarrow> string \<Rightarrow> string \<Rightarrow> runtime_db \<Rightarrow> runtime result" where
  "fingerprint_runtime unknown lookup mismatch now rid hash db =
     (case GetRuntimeChannelLeaseByHash db hash of
        Inl e \<Rightarrow> Inl (if errors_Is e ErrNotFound then Status PermissionDenied unknown else unavailable lookup e)
      | Inr l \<Rightarrow>
          if cl_runtime_id l \<noteq> rid then Inl (Status PermissionDenied mismatch)
          else if \<not> lease_valid now l then Inl (Status PermissionDenied ''runtime fingerprint expired'')
          else case GetRuntime db rid of
            Inl e \<Rightarrow> Inl (if errors_Is e ErrNotFound then Status NotFound ''runtime not found'' else unavailable ''lookup runtime'' e)
          | Inr rt \<Rightarrow>
              if UserID rt \<noteq> cl_user_id l \<or> CredentialKeyID rt \<noteq> cl_key_id l
              then Inl (Status PermissionDenied ''runtime fingerprint binding mismatch'')
              else if IsRuntimeTerminalStatus (RtStatus rt) then Inl (Status FailedPrecondition ''runtime already ended'')
              else Inr rt)"

definition rotateRuntimeFingerprintWithHash :: "chan_env \<Rightarrow> string \<Rightarrow> string \<Rightarrow> channel_service \<Rightarrow> channel_service \<times> (string \<times> go_time) result" where
  "rotateRuntimeFingerprintWithHash env rid oldHash sv =
     (case newRuntimeChannelResumeToken env of
        Inl e \<Rightarrow> (sv, Inl (unavailable ''generate runtime fingerprint'' e))
      | Inr nxt \<Rightarrow>
          (let now = ce_now env; expiresAt = now + runtimeChannelLeaseTTL in
           case with_db (RotateRuntimeChannelLease rid oldHash (hashRuntimeChannelToken env nxt) expiresAt now) sv of
             (sv', Inl e) \<Rightarrow> (sv', Inl (if errors_Is e ErrNotFound then Status PermissionDenied ''runtime fingerprint is invalid''
                 else unavailable ''rotate runtime fingerprint'' e))
           | (sv', Inr ()) \<Rightarrow> (sv', Inr (nxt, expiresAt))))"

definition rotateRuntimeFingerprint :: "chan_env \<Rightarrow> string \<Rightarrow> string \<Rightarrow> channel_service \<Rightarrow> channel_service \<times> (string \<times> go_time) result" where
  "rotateRuntimeFingerprint env rid fp0 sv =
     (let fp = trim_space fp0; hash = hashRuntimeChannelToken env fp in
      if rid = '''' \<or> fp = '''' then (sv, Inl (Status PermissionDenied ''runtime heartbeat fingerprint is required''))
      else case fingerprint_runtime ''runtime fingerprint is invalid'' ''lookup runtime fingerprint'' ''runtime fingerprint does not match runtime_id''
          (ce_now env) rid hash (sv_db sv) of
        Inl e \<Rightarrow> (sv, Inl e)
      | Inr _ \<Rightarrow> rotateRuntimeFingerprintWithHash env rid hash sv)"

text \<open>A heartbeat keeps its fingerprint and extends the lease.\<close>
definition refreshRuntimeFingerprint :: "chan_env \<Rightarrow> string \<Rightarrow> string \<Rightarrow> channel_service \<Rightarrow> channel_service \<times> (string \<times> go_time) result" where
  "refreshRuntimeFingerprint env rid fp0 sv =
     (let fp = trim_space fp0; hash = hashRuntimeChannelToken env fp; now = ce_now env; expiresAt = now + runtimeChannelLeaseTTL in
      if rid = '''' \<or> fp = '''' then (sv, Inl (Status PermissionDenied ''runtime heartbeat fingerprint is required''))
      else case fingerprint_runtime ''runtime fingerprint is invalid'' ''lookup runtime fingerprint'' ''runtime fingerprint does not match runtime_id''
          now rid hash (sv_db sv) of
        Inl e \<Rightarrow> (sv, Inl e)
      | Inr _ \<Rightarrow>
          (case with_db (RotateRuntimeChannelLease rid hash hash expiresAt now) sv of
             (sv', Inl e) \<Rightarrow> (sv', Inl (if errors_Is e ErrNotFound then Status PermissionDenied ''runtime fingerprint is invalid''
                 else unavailable ''refresh runtime fingerprint'' e))
           | (sv', Inr ()) \<Rightarrow> (sv', Inr (fp, expiresAt))))"

definition auth_of_runtime :: "runtime \<Rightarrow> go_time \<Rightarrow> auth_runtime" where
  "auth_of_runtime rt now = \<lparr>ar_KeyID = CredentialKeyID rt, ar_UserID = UserID rt, ar_RuntimeID = RuntimeID rt, ar_Name = Name rt,
     ar_Source = Source rt, ar_Role = Role rt, ar_EndpointHost = EndpointHost rt, ar_GRPCPort = GRPCPort rt, ar_DebugPort = DebugPort rt,
     ar_Capabilities = Capabilities rt, ar_ResourceProfile = ResourceProfile rt, ar_Version = Version rt, ar_AuthenticatedAt = now\<rparr>"

definition resume_token :: "runtime_resume \<Rightarrow> string" where
  "resume_token res = (let t = trim_space (rs_fingerprint res) in if t = '''' then trim_space (rs_resume_token res) else t)"

definition verifyResume :: "chan_env \<Rightarrow> runtime_resume \<Rightarrow> channel_service \<Rightarrow> channel_service \<times> (auth_runtime \<times> string \<times> go_time) result" where
  "verifyResume env res sv =
     (let rid = trim_space (rs_runtime_id res); token = resume_token res; hash = hashRuntimeChannelToken env token; now = ce_now env in
      if rid = '''' \<or> token = '''' then (sv, Inl (Status InvalidArgument ''RESUME requires runtime_id and fingerprint''))
      else case fingerprint_runtime ''runtime resume token is invalid'' ''lookup runtime resume token'' ''runtime resume token does not match runtime_id''
          now rid hash (sv_db sv) of
        Inl e \<Rightarrow> (sv, Inl e)
      | Inr rt \<Rightarrow>
          (case rotateRuntimeFingerprintWithHash env rid hash sv of
             (sv', Inl e) \<Rightarrow> (sv', Inl e)
           | (sv', Inr (nxt, expiresAt)) \<Rightarrow> (sv', Inr (auth_of_runtime rt now, nxt, expiresAt))))"

section \<open>The first frame\<close>

definition register_failure :: "go_error \<Rightarrow> go_error" where
  "register_failure e =
     (if errors_Is e ErrRuntimeAlreadyEnded then Status FailedPrecondition ''runtime already ended''
      else if errors_Is e ErrConflict then runtimeRegistrationConflictToStatus e
      else unavailable ''register runtime'' e)"

definition authenticateHello :: "chan_env \<Rightarrow> runtime_hello \<Rightarrow> runtime_identity option \<Rightarrow> channel_service
    \<Rightarrow> channel_service \<times> (auth_runtime \<times> string \<times> go_time) result" where
  "authenticateHello env h peer sv =
     (case verifyHello (ce_hello env) (ce_now env) h (sv_replay sv) (sv_db sv) of
        ((cache, db), r) \<Rightarrow>
          (let sv1 = sv\<lparr>sv_replay := cache, sv_db := db\<rparr> in
           case r of
             Inl e \<Rightarrow> (recordAdmissionFailure env h None e sv1, Inl (helloErrorToStatus e))
           | Inr rt \<Rightarrow>
               (case (case peer of None \<Rightarrow> None | Some p \<Rightarrow> validatePeerIdentity rt p) of
                  Some e \<Rightarrow> (recordAdmissionFailure env h (Some rt) e sv1, Inl (Status PermissionDenied (err_text e)))
                | None \<Rightarrow>
                    (case upsertRuntime env rt sv1 of
                       (sv2, Inl e) \<Rightarrow> (recordAdmissionFailure env h (Some rt) e sv2, Inl (register_failure e))
                     | (sv2, Inr ()) \<Rightarrow>
                         (case issueRuntimeChannelLease env rt sv2 of
                            (sv3, Inl e) \<Rightarrow> (sv3, Inl (unavailable ''issue runtime channel lease'' e))
                          | (sv3, Inr (token, expiresAt)) \<Rightarrow> (sv3, Inr (rt, token, expiresAt)))))))"

definition authenticateResume :: "chan_env \<Rightarrow> runtime_resume \<Rightarrow> runtime_identity option \<Rightarrow> channel_service
    \<Rightarrow> channel_service \<times> (auth_runtime \<times> string \<times> go_time) result" where
  "authenticateResume env res peer sv =
     (case verifyResume env res sv of
        (sv1, Inl e) \<Rightarrow> (recordResumeFailure env res e sv1, Inl e)
      | (sv1, Inr (rt, token, expiresAt)) \<Rightarrow>
          (case (case peer of None \<Rightarrow> None | Some p \<Rightarrow> validatePeerIdentity rt p) of
             Some e \<Rightarrow> (recordResumeFailure env res e sv1, Inl (Status PermissionDenied (err_text e)))
           | None \<Rightarrow> (sv1, Inr (rt, token, expiresAt))))"

definition authenticateFirstFrame :: "chan_env \<Rightarrow> runtime_frame \<Rightarrow> runtime_identity option \<Rightarrow> channel_service
    \<Rightarrow> channel_service \<times> (auth_runtime \<times> string \<times> go_time) result" where
  "authenticateFirstFrame env first peer sv =
     (if frame_type first = FT_HELLO
      then (case payload first of P_Hello h \<Rightarrow> authenticateHello env h peer sv
            | _ \<Rightarrow> (sv, Inl (Status InvalidArgument ''HELLO frame missing payload'')))
      else if frame_type first = FT_RESUME
      then (case payload first of P_Resume res \<Rightarrow> authenticateResume env res peer sv
            | _ \<Rightarrow> (sv, Inl (Status InvalidArgument ''RESUME frame missing payload'')))
      else (sv, Inl (Status InvalidArgument ''first RuntimeChannel frame must be HELLO or RESUME'')))"

definition hello_ack_frame :: "string \<Rightarrow> string \<Rightarrow> go_time \<Rightarrow> runtime_frame" where
  "hello_ack_frame rid token expiresAt = \<lparr>correlation_id = '''', frame_type = FT_HELLO_ACK, deadline_unix_ms = 0,
     payload = P_HelloAck \<lparr>ha_runtime_id = rid, ha_resume_token = token, ha_resume_expires_at = expiresAt,
       ha_fingerprint = token, ha_fingerprint_expires_at = expiresAt\<rparr>\<rparr>"

text \<open>\<open>Handle\<close> up to its loop. An error after \<open>Register\<close> comes before the deferred cleanup is armed.\<close>
definition open_channel :: "chan_env \<Rightarrow> (runtime_identity option) result \<Rightarrow> runtime_frame \<Rightarrow> channel_service
    \<Rightarrow> channel_service \<times> conn result" where
  "open_channel env peer first sv =
     (case peer of
        Inl e \<Rightarrow> (sv, Inl (Status PermissionDenied (''runtime client certificate identity invalid: '' @ err_text e)))
      | Inr p \<Rightarrow>
          (case authenticateFirstFrame env first p sv of
             (sv1, Inl e) \<Rightarrow> (sv1, Inl e)
           | (sv1, Inr (rt, token, expiresAt)) \<Rightarrow>
               (case recordConnectionOwner env (ar_RuntimeID rt) (ar_AuthenticatedAt rt) sv1 of
                  (sv2, Inl e) \<Rightarrow> (sv2, Inl (unavailable ''record runtime connection owner'' e))
                | (sv2, Inr ()) \<Rightarrow>
                    (case Register (sv_registry sv2) rt (ce_now env) of
                       (reg, Inl e) \<Rightarrow> (with_registry (\<lambda>_. reg) sv2,
                          Inl (if errors_Is e ErrRuntimeCredentialConnected
                               then Status PermissionDenied ''runtime credential is already connected by another runtime''
                               else unavailable ''register runtime channel'' e))
                     | (reg, Inr i) \<Rightarrow>
                         (case send_on i (hello_ack_frame (ar_RuntimeID rt) token expiresAt)
                              (with_registry (\<lambda>_. update_stream i (setSender (ce_send env)) reg) sv2) of
                            (sv3, Some e) \<Rightarrow> (sv3, Inl (unavailable ''send runtime hello ack'' e))
                          | (sv3, None) \<Rightarrow> (sv3, Inr \<lparr>cn_stream = i, cn_runtime = rt\<rparr>))))))"

section \<open>Later frames\<close>

definition invalid_frame :: "string \<Rightarrow> go_error option" where "invalid_frame m = Some (Status InvalidArgument m)"

definition validatePostHelloFrame :: "runtime_frame option \<Rightarrow> go_error option" where
  "validatePostHelloFrame f = (case f of None \<Rightarrow> invalid_frame ''runtime frame is required'' | Some fr \<Rightarrow>
     (let cid = correlation_id fr; p = payload fr in case frame_type fr of
        FT_HEARTBEAT \<Rightarrow> (case p of P_Heartbeat _ \<Rightarrow> None | _ \<Rightarrow> invalid_frame ''HEARTBEAT frame missing payload'')
      | FT_RESPONSE \<Rightarrow> (case p of P_Response _ \<Rightarrow> if cid \<noteq> '''' then None else invalid_frame ''RESPONSE frame requires correlation_id and payload''
          | _ \<Rightarrow> invalid_frame ''RESPONSE frame requires correlation_id and payload'')
      | FT_PROGRESS \<Rightarrow> if cid \<noteq> '''' \<and> p = P_Progress then None else invalid_frame ''PROGRESS frame requires correlation_id and payload''
      | FT_ERROR \<Rightarrow> (case p of P_Error _ _ \<Rightarrow> if cid \<noteq> '''' then None else invalid_frame ''ERROR frame requires correlation_id and payload''
          | _ \<Rightarrow> invalid_frame ''ERROR frame requires correlation_id and payload'')
      | FT_REQUEST \<Rightarrow> (case p of P_Request _ (Some _) \<Rightarrow> if cid \<noteq> '''' then None else invalid_frame ''REQUEST frame requires correlation_id and payload''
          | _ \<Rightarrow> invalid_frame ''REQUEST frame requires correlation_id and payload'')
      | FT_COMMAND_ACK \<Rightarrow> (case p of P_CommandAck c _ \<Rightarrow> if c \<noteq> '''' then None else invalid_frame ''COMMAND_ACK frame requires command_id''
          | _ \<Rightarrow> invalid_frame ''COMMAND_ACK frame requires command_id'')
      | FT_COMMAND_RESULT \<Rightarrow> (case p of P_CommandResult c _ _ _ \<Rightarrow> if c \<noteq> '''' then None else invalid_frame ''COMMAND_RESULT frame requires command_id''
          | _ \<Rightarrow> invalid_frame ''COMMAND_RESULT frame requires command_id'')
      | FT_STATUS_PATCH \<Rightarrow> (case p of P_StatusPatch sp \<Rightarrow> if sp_status sp \<noteq> '''' then None else invalid_frame ''STATUS_PATCH frame requires status''
          | _ \<Rightarrow> invalid_frame ''STATUS_PATCH frame requires status'')
      | FT_DATA_ACK \<Rightarrow> (case p of P_DataAck s _ _ \<Rightarrow> if s \<noteq> '''' then None else invalid_frame ''DATA_ACK frame requires session_id''
          | _ \<Rightarrow> invalid_frame ''DATA_ACK frame requires session_id'')
      | FT_DATA_BACKPRESSURE \<Rightarrow> (case p of P_DataBackpressure s _ _ _ \<Rightarrow> if s \<noteq> '''' then None else invalid_frame ''DATA_BACKPRESSURE frame requires session_id''
          | _ \<Rightarrow> invalid_frame ''DATA_BACKPRESSURE frame requires session_id'')
      | FT_DATA_END \<Rightarrow> (case p of P_DataEnd s _ _ \<Rightarrow> if s \<noteq> '''' then None else invalid_frame ''DATA_END frame requires session_id''
          | _ \<Rightarrow> invalid_frame ''DATA_END frame requires session_id'')
      | FT_HELLO \<Rightarrow> invalid_frame ''HELLO is only valid as the first frame''
      | FT_RESUME \<Rightarrow> invalid_frame ''RESUME is only valid as the first frame''
      | _ \<Rightarrow> invalid_frame ''unsupported runtime frame_type''))"

definition recordHeartbeat :: "chan_env \<Rightarrow> string \<Rightarrow> channel_service \<Rightarrow> channel_service \<times> unit result" where
  "recordHeartbeat env rid sv =
     (case with_db (UpdateRuntimeHeartbeat (ce_db_now env) rid (ce_now env)) sv of
        (sv', Inr ()) \<Rightarrow> (sv', Inr ())
      | (sv', Inl e) \<Rightarrow>
          (sv', Inl (if errors_Is e ErrNotFound \<and>
               (case GetRuntime (sv_db sv') rid of Inl _ \<Rightarrow> False | Inr rt \<Rightarrow> IsRuntimeTerminalStatus (RtStatus rt))
             then runtime_already_ended else e)))"

definition commandPayloadJSONTypeURL :: string where
  "commandPayloadJSONTypeURL = ''type.googleapis.com/controlpanel.v1.RuntimeCommandPayloadJSON''"

definition marshalAnyJSON :: "(any_msg \<Rightarrow> string option) \<Rightarrow> any_msg option \<Rightarrow> string result" where
  "marshalAnyJSON protojson v = (case v of None \<Rightarrow> Inr ''{}''
     | Some a \<Rightarrow>
         if type_url a = commandPayloadJSONTypeURL then Inr (if any_value a = '''' then ''{}'' else any_value a)
         else (case protojson a of None \<Rightarrow> Inl (Plain ''any payload'') | Some raw \<Rightarrow> Inr raw))"

definition with_cmds :: "(command_table \<Rightarrow> command_table \<times> 'a result) \<Rightarrow> channel_service \<Rightarrow> channel_service \<times> 'a result" where
  "with_cmds f sv = (let (t, r) = f (sv_cmds sv) in (sv\<lparr>sv_cmds := t\<rparr>, r))"

definition only_error :: "'s \<times> 'a result \<Rightarrow> 's \<times> go_error option" where
  "only_error x = (case x of (s, Inl e) \<Rightarrow> (s, Some e) | (s, Inr _) \<Rightarrow> (s, None))"

definition handleRuntimeCommandFrame :: "chan_env \<Rightarrow> runtime_frame \<Rightarrow> channel_service \<Rightarrow> channel_service \<times> go_error option" where
  "handleRuntimeCommandFrame env fr sv =
     (let now = ce_now env in
      if frame_type fr = FT_COMMAND_ACK
      then (case payload fr of
          P_CommandAck cid st \<Rightarrow>
            if cid = '''' then (sv, Some (Status InvalidArgument ''COMMAND_ACK requires command_id''))
            else if st = CmdRunning then only_error (with_cmds (MarkRuntimeCommandRunning cid now) sv)
            else only_error (with_cmds (AcknowledgeRuntimeCommand cid now) sv)
        | _ \<Rightarrow> (sv, Some (Status InvalidArgument ''COMMAND_ACK requires command_id'')))
      else if frame_type fr = FT_COMMAND_RESULT
      then (case payload fr of
          P_CommandResult cid st0 res reason \<Rightarrow>
            (let st = (if st0 = '''' then CmdSucceeded else st0) in
             if cid = '''' then (sv, Some (Status InvalidArgument ''COMMAND_RESULT requires command_id''))
             else if \<not> IsRuntimeCommandTerminalStatus st then (sv, Some (Status InvalidArgument ''invalid command result status''))
             else case marshalAnyJSON (ce_protojson env) res of
               Inl e \<Rightarrow> (sv, Some (Status InvalidArgument (''marshal command result: '' @ err_text e)))
             | Inr raw \<Rightarrow> only_error (with_cmds (CompleteRuntimeCommand (ce_compact env) cid st raw reason now) sv))
        | _ \<Rightarrow> (sv, Some (Status InvalidArgument ''COMMAND_RESULT requires command_id'')))
      else (sv, None))"

definition fallbackString :: "string \<Rightarrow> string \<Rightarrow> string" where
  "fallbackString v fallback = (if trim_space v = '''' then fallback else v)"

definition handleRuntimeDataBackpressure :: "auth_runtime \<Rightarrow> runtime_frame \<Rightarrow> channel_service \<Rightarrow> channel_service" where
  "handleRuntimeDataBackpressure rt fr sv = (case payload fr of
     P_DataBackpressure sid0 key0 _ reason0 \<Rightarrow>
       (let sid = trim_space sid0; key = trim_space key0; reason = trim_space reason0;
            dropped = has_prefix reason ''data_dropped:'' in
        if sid = '''' \<or> ar_UserID rt \<le> 0 then sv
        else sv\<lparr>sv_events := sv_events sv @ [\<lparr>nt_schema_version = SchemaVersion, nt_event_id = '''', nt_created_at = zero_time,
          nt_user_id = ar_UserID rt, nt_category = CategorySystem,
          nt_event_type = (if dropped then EventRuntimeDataDropped else EventRuntimeDataDelayed), nt_severity = SeverityWarn,
          nt_source_service = ''control-panel-service'', nt_runtime_id = ar_RuntimeID rt, nt_runtime_name = ar_Name rt,
          nt_portfolio_id = 0, nt_strategy_id = 0, nt_session_id = sid,
          nt_title = (if dropped then ''Runtime data dropped'' else ''Runtime data delayed''),
          nt_message = (if dropped then ''Runtime data was dropped because the strategy consumer is lagging: ''
             else ''Runtime data is delayed because the strategy consumer is lagging: '') @ fallbackString key ''unknown stream'',
          nt_dedupe_key = (if dropped then ''runtime-data-dropped'' else ''runtime-data-delayed'') @ '':'' @ sid @ '':'' @ key,
          nt_metadata = [(''stream_key'', key), (''reason'', reason)] @
             (if ar_Source rt = '''' then [] else [(''runtime_source'', ar_Source rt)])\<rparr>]\<rparr>)
   | _ \<Rightarrow> sv)"

datatype outcome = Serving | Returned "go_error option"

definition touch_conn :: "chan_env \<Rightarrow> conn \<Rightarrow> channel_service \<Rightarrow> channel_service" where
  "touch_conn env c = with_registry (update_stream (cn_stream c) (touch (ce_now env)))"

definition heartbeat_failure :: "go_error \<Rightarrow> go_error" where
  "heartbeat_failure e = (if errors_Is e ErrRuntimeAlreadyEnded then Status FailedPrecondition ''runtime already ended''
     else unavailable ''record runtime heartbeat'' e)"

text \<open>\<open>rs.touch\<close>, \<open>recordHeartbeat\<close> and \<open>recordConnectionOwner\<close>, whose error is ignored.\<close>
definition keep_alive :: "chan_env \<Rightarrow> conn \<Rightarrow> channel_service \<Rightarrow> channel_service \<times> go_error option" where
  "keep_alive env c sv =
     (let rid = ar_RuntimeID (cn_runtime c) in
      case recordHeartbeat env rid (touch_conn env c sv) of
        (sv1, Inl e) \<Rightarrow> (sv1, Some (heartbeat_failure e))
      | (sv1, Inr ()) \<Rightarrow> (fst (recordConnectionOwner env rid (ce_now env) sv1), None))"

definition handle_heartbeat :: "chan_env \<Rightarrow> conn \<Rightarrow> string \<Rightarrow> channel_service \<Rightarrow> channel_service \<times> outcome" where
  "handle_heartbeat env c fp sv =
     (let rid = ar_RuntimeID (cn_runtime c) in
      case refreshRuntimeFingerprint env rid fp sv of
        (sv1, Inl e) \<Rightarrow> (sv1, Returned (Some e))
      | (sv1, Inr (nxt, expiresAt)) \<Rightarrow>
          (case keep_alive env c sv1 of
             (sv2, Some e) \<Rightarrow> (sv2, Returned (Some e))
           | (sv2, None) \<Rightarrow>
               (case send_on (cn_stream c) \<lparr>correlation_id = '''', frame_type = FT_HEARTBEAT_ACK, deadline_unix_ms = 0,
                    payload = P_HeartbeatAck rid nxt expiresAt\<rparr> sv2 of
                  (sv3, Some e) \<Rightarrow> (sv3, Returned (Some (unavailable ''send runtime heartbeat ack'' e)))
                | (sv3, None) \<Rightarrow> (sv3, Serving))))"

definition deliver_on :: "stream_id \<Rightarrow> runtime_frame \<Rightarrow> channel_service \<Rightarrow> channel_service \<times> bool" where
  "deliver_on i fr sv = (with_registry (update_stream i (\<lambda>s. snd (deliver fr s))) sv, fst (deliver fr (stream_at (sv_registry sv) i)))"

definition dispatch_frame :: "chan_env \<Rightarrow> conn \<Rightarrow> runtime_frame \<Rightarrow> channel_service \<Rightarrow> channel_service \<times> outcome" where
  "dispatch_frame env c fr sv =
     (let i = cn_stream c in case frame_type fr of
        FT_RESPONSE \<Rightarrow> (fst (deliver_on i fr sv), Serving)
      | FT_PROGRESS \<Rightarrow> (fst (deliver_on i fr sv), Serving)
      | FT_ERROR \<Rightarrow> (fst (deliver_on i fr sv), Serving)
      | FT_REQUEST \<Rightarrow> (sv\<lparr>sv_tasks := sv_tasks sv @ [Task_Request i fr]\<rparr>, Serving)
      | FT_STATUS_PATCH \<Rightarrow> (sv\<lparr>sv_tasks := sv_tasks sv @ [Task_Patch (cn_runtime c) fr]\<rparr>, Serving)
      | FT_DATA_BACKPRESSURE \<Rightarrow> (handleRuntimeDataBackpressure (cn_runtime c) fr sv, Serving)
      | FT_DATA_ACK \<Rightarrow> (sv\<lparr>sv_chan := handleRuntimeDataAck fr (sv_chan sv)\<rparr>, Serving)
      | ty \<Rightarrow>
          if ty = FT_COMMAND_ACK \<or> ty = FT_COMMAND_RESULT
          then (case deliver_on i fr sv of
              (sv1, True) \<Rightarrow> (sv1, Serving)
            | (sv1, False) \<Rightarrow>
                (case handleRuntimeCommandFrame env fr sv1 of
                   (sv2, Some e) \<Rightarrow> (sv2, Returned (Some e))
                 | (sv2, None) \<Rightarrow> (sv2, Serving)))
          else (sv, Serving))"

text \<open>One turn of the loop of \<open>Handle\<close>, for a frame.\<close>
definition handle_frame :: "chan_env \<Rightarrow> conn \<Rightarrow> runtime_frame option \<Rightarrow> channel_service \<Rightarrow> channel_service \<times> outcome" where
  "handle_frame env c f sv =
     (case validatePostHelloFrame f of
        Some e \<Rightarrow> (sv, Returned (Some e))
      | None \<Rightarrow>
          (let fr = the f in
           if frame_type fr = FT_HEARTBEAT then handle_heartbeat env c (hb_fingerprint (payload fr)) sv
           else case keep_alive env c sv of
             (sv1, Some e) \<Rightarrow> (sv1, Returned (Some e))
           | (sv1, None) \<Rightarrow> dispatch_frame env c fr sv1))"

text \<open>The other turns: the transport failed or ended, the stream was closed, the timer ticked.\<close>
datatype event = Ev_Frame "runtime_frame option" | Ev_RecvError go_error | Ev_ContextDone | Ev_Closed | Ev_Tick

definition handle_event :: "chan_env \<Rightarrow> conn \<Rightarrow> event \<Rightarrow> channel_service \<Rightarrow> channel_service \<times> outcome" where
  "handle_event env c ev sv = (case ev of
       Ev_Frame f \<Rightarrow> handle_frame env c f sv
     | Ev_RecvError e \<Rightarrow> (sv, Returned (if errors_Is e ErrEOF then None else Some (unavailable ''runtime channel receive failed'' e)))
     | Ev_ContextDone \<Rightarrow> (sv, Returned (Some (Status Unavailable ''runtime channel disconnected'')))
     | Ev_Closed \<Rightarrow> (sv, Returned (Some (Status PermissionDenied ''runtime channel closed'')))
     | Ev_Tick \<Rightarrow> (sv, if streamDeadAfter < time_sub (ce_now env) (st_last_frame_at (stream_at (sv_registry sv) (cn_stream c)))
         then Returned (Some (Status Unavailable ''runtime channel heartbeat timeout'')) else Serving))"

definition stream_closed :: "conn \<Rightarrow> channel_service \<Rightarrow> bool" where
  "stream_closed c sv \<longleftrightarrow> st_closed (stream_at (sv_registry sv) (cn_stream c))"

text \<open>The deferred function: it names the runtime, not the connection.\<close>
definition close_channel :: "chan_env \<Rightarrow> conn \<Rightarrow> channel_service \<Rightarrow> channel_service" where
  "close_channel env c sv =
     (let rid = ar_RuntimeID (cn_runtime c) in
      fst (with_db (ClearRuntimeConnectionOwner (ce_db_now env) rid (ce_instance env)) (with_registry (Unregister rid) sv)))"

section \<open>Revocation\<close>

text \<open>\<open>CloseStreamsForKey\<close> and \<open>CloseStreamForRuntime\<close> of \<open>registry.go\<close>.\<close>
definition CloseStreamsForKey :: "chan_env \<Rightarrow> string \<Rightarrow> channel_service \<Rightarrow> channel_service \<times> int \<times> int result" where
  "CloseStreamsForKey env keyID sv =
     (let (reg, ids) = CloseByKeyID keyID (sv_registry sv); n = int (length ids) in
      case with_db (EndRuntimesByCredentialKey (ce_db_now env) keyID ReasonAuthFailed (ce_now env)) (with_registry (\<lambda>_. reg) sv) of
        (sv', r) \<Rightarrow> (sv', n, r))"

definition CloseStreamForRuntime :: "string \<Rightarrow> channel_service \<Rightarrow> channel_service \<times> bool" where
  "CloseStreamForRuntime rid sv =
     (let (reg, r) = CloseByRuntimeID rid (sv_registry sv) in (with_registry (\<lambda>_. reg) sv, r \<noteq> None))"

section \<open>The goroutines\<close>

record update_session =
  us_session_id :: string
  us_status :: string
  us_error :: string
  us_runtime_id :: string
  us_bars_processed :: int

definition statusPatchSessionStatus :: "string \<Rightarrow> bool" where
  "statusPatchSessionStatus raw \<longleftrightarrow> to_lower (trim_space raw) \<in> {''running'', ''stopping'', ''recoverable'', ''finished'', ''completed'',
     ''stopped'', ''failed'', ''stop_failed'', ''preflight_failed''}"

text \<open>The request \<open>handleRuntimeStatusPatch\<close> makes of a patch; \<open>read\<close> unpacks the embedded message.\<close>
definition status_patch_request :: "(any_msg \<Rightarrow> update_session option) \<Rightarrow> auth_runtime \<Rightarrow> runtime_frame \<Rightarrow> update_session option" where
  "status_patch_request read rt fr = (case payload fr of
     P_StatusPatch sp \<Rightarrow>
       (let st = trim_space (sp_status sp) in
        if trim_space (sp_session_id sp) = '''' \<or> \<not> statusPatchSessionStatus st then None
        else (let req = \<lparr>us_session_id = sp_session_id sp, us_status = st, us_error = sp_reason sp, us_runtime_id = ar_RuntimeID rt, us_bars_processed = 0\<rparr>
              in Some (case (case sp_payload sp of None \<Rightarrow> None | Some a \<Rightarrow> read a) of
                   None \<Rightarrow> req
                 | Some emb \<Rightarrow> req\<lparr>us_session_id := (if us_session_id emb \<noteq> '''' then us_session_id emb else us_session_id req),
                      us_status := (if us_status emb \<noteq> '''' then us_status emb else us_status req),
                      us_bars_processed := us_bars_processed emb,
                      us_error := (if us_error emb \<noteq> '''' then us_error emb else us_error req)\<rparr>)))
   | _ \<Rightarrow> None)"

definition empty_message :: any_msg where "empty_message = \<lparr>type_url = ''type.googleapis.com/google.protobuf.Empty'', any_value = ''''\<rparr>"

text \<open>\<open>handleRuntimeRequest\<close>: the answer of the dispatcher, or its error, goes back on the stream.\<close>
definition handleRuntimeRequest :: "(auth_runtime \<Rightarrow> string \<Rightarrow> any_msg option \<Rightarrow> (any_msg option) result) option \<Rightarrow> stream_id \<Rightarrow> runtime_frame
    \<Rightarrow> channel_service \<Rightarrow> channel_service" where
  "handleRuntimeRequest platform i fr sv =
     (let cid = correlation_id fr;
          reply = (case platform of
             None \<Rightarrow> runtimeRequestErrorFrame cid (Some (Status Unimplemented ''runtime platform proxy is not configured''))
           | Some dispatch \<Rightarrow>
               (let (method, req) = (case payload fr of P_Request m q \<Rightarrow> (m, q) | _ \<Rightarrow> ('''', None)) in
                case dispatch (st_runtime (stream_at (sv_registry sv) i)) method req of
                  Inl e \<Rightarrow> runtimeRequestErrorFrame cid (Some e)
                | Inr resp \<Rightarrow> \<lparr>correlation_id = cid, frame_type = FT_RESPONSE, deadline_unix_ms = 0,
                    payload = P_Response (Some (case resp of None \<Rightarrow> empty_message | Some m \<Rightarrow> m))\<rparr>))
      in fst (send_on i reply sv))"

end
