(* ===== verification/ChannelCalls.thy ===== *)
theory ChannelCalls
  imports ChannelService
begin

text \<open>
  Calls into a runtime: \<open>proxy.go\<close> (a strategy method by request and response) and the sending half of
  \<open>command_dispatch.go\<close> (a queued command, or one invoked at once). A call registers a reply channel,
  sends its frame and waits; what it waits for is the list of what its \<open>select\<close> saw, and \<open>None\<close> means
  that it still waits. A message is packed and unpacked by parameters.
\<close>

section \<open>Queued commands\<close>

definition command_frame :: "string \<Rightarrow> string \<Rightarrow> string \<Rightarrow> string \<Rightarrow> string \<Rightarrow> int \<Rightarrow> runtime_frame" where
  "command_frame cid ctype rid session pl deadline = \<lparr>correlation_id = cid, frame_type = FT_COMMAND, deadline_unix_ms = deadline,
     payload = P_Command cid ctype rid session \<lparr>type_url = commandPayloadJSONTypeURL, any_value = pl\<rparr>\<rparr>"

definition to_unix_milli :: "go_time \<Rightarrow> int" where "to_unix_milli t = t div millisecond"

definition runtimeCommandToFrame :: "runtime_command \<Rightarrow> runtime_frame" where
  "runtimeCommandToFrame cmd =
     command_frame (CommandID cmd) (CommandType cmd) (CmdRuntimeID cmd) (SessionID cmd) (Payload cmd) (to_unix_milli (DeadlineAt cmd))"

definition connection_owner :: "runtime_db \<Rightarrow> string \<Rightarrow> string option" where
  "connection_owner db rid = map_option OwnerInstanceID (row RuntimeID (rt_rows db) rid)"

text \<open>A command that could not be handed to the runtime fails for good.\<close>
definition fail_command :: "chan_env \<Rightarrow> runtime_command \<Rightarrow> string \<Rightarrow> channel_service \<Rightarrow> channel_service" where
  "fail_command env cmd reason sv =
     fst (with_cmds (CompleteRuntimeCommand (ce_compact env) (CommandID cmd) CmdFailed '''' reason (ce_now env)) sv)"

definition DispatchNextRuntimeCommand :: "chan_env \<Rightarrow> string \<Rightarrow> int \<Rightarrow> channel_service \<Rightarrow> channel_service \<times> (runtime_command option) result" where
  "DispatchNextRuntimeCommand env rid inFlightLimit sv =
     (case with_cmds (ClaimNextRuntimeCommand (connection_owner (sv_db sv)) rid (ce_instance env) (ce_now env) inFlightLimit) sv of
        (sv1, Inl e) \<Rightarrow> (sv1, Inl e)
      | (sv1, Inr None) \<Rightarrow> (sv1, Inr None)
      | (sv1, Inr (Some cmd)) \<Rightarrow>
          (case FindByRuntimeID (sv_registry sv1) (CmdUserID cmd) (CmdRuntimeID cmd) of
             None \<Rightarrow> (fail_command env cmd ''runtime stream is not connected'' sv1, Inl (Status Unavailable ''runtime stream is not connected''))
           | Some i \<Rightarrow>
               (case send_on i (runtimeCommandToFrame cmd) sv1 of
                  (sv2, Some e) \<Rightarrow> (fail_command env cmd (err_text e) sv2, Inl e)
                | (sv2, None) \<Rightarrow> (sv2, Inr (Some cmd)))))"

section \<open>Calls\<close>

text \<open>One look of \<open>waitForRuntimeStream\<close>: the registry, whether two seconds are over, whether the context ended.\<close>
record poll =
  pl_registry :: registry
  pl_expired :: bool
  pl_done :: bool

fun waitForRuntimeStream :: "int \<Rightarrow> string \<Rightarrow> poll list \<Rightarrow> stream_id option option" where
  "waitForRuntimeStream uid rid [] = None"
| "waitForRuntimeStream uid rid (p # ps) =
     (case FindByRuntimeID (pl_registry p) uid rid of
        Some i \<Rightarrow> Some (Some i)
      | None \<Rightarrow> if pl_expired p \<or> pl_done p then Some None else waitForRuntimeStream uid rid ps)"

text \<open>Register the call, then send; a call whose frame could not be sent is unregistered.\<close>
definition start_call :: "stream_id \<Rightarrow> string \<Rightarrow> runtime_frame \<Rightarrow> channel_service \<Rightarrow> channel_service \<times> go_error option" where
  "start_call i cid fr sv =
     (case send_on i fr (with_registry (update_stream i (\<lambda>s. snd (registerCall cid s))) sv) of
        (sv1, Some e) \<Rightarrow> (with_registry (update_stream i (unregisterCall cid)) sv1, Some e)
      | (sv1, None) \<Rightarrow> (sv1, None))"

definition end_call :: "stream_id \<Rightarrow> string \<Rightarrow> channel_service \<Rightarrow> channel_service" where
  "end_call i cid = with_registry (update_stream i (unregisterCall cid))"

definition InvokeRuntimeCommand :: "int \<Rightarrow> string \<Rightarrow> string \<Rightarrow> string \<Rightarrow> string \<Rightarrow> int \<Rightarrow> stream_id option \<Rightarrow> channel_service
    \<Rightarrow> channel_service \<times> stream_id result" where
  "InvokeRuntimeCommand uid rid ctype pl cid deadline found sv =
     (if uid \<le> 0 then (sv, Inl (Status InvalidArgument ''user_id is required''))
      else if rid = '''' then (sv, Inl (Status InvalidArgument ''runtime_id is required''))
      else if ctype = '''' then (sv, Inl (Status InvalidArgument ''runtime command_type is required''))
      else case found of
        None \<Rightarrow> (sv, Inl (Status Unavailable ''runtime is not connected''))
      | Some i \<Rightarrow>
          (case start_call i cid (command_frame cid ctype rid '''' pl deadline) sv of
             (sv1, Some e) \<Rightarrow> (sv1, Inl e)
           | (sv1, None) \<Rightarrow> (sv1, Inr i)))"

datatype call_event = Call_Done go_error | Call_Closed | Call_Reply "runtime_frame option"

definition disconnected :: go_error where "disconnected = Status Unavailable ''runtime stream disconnected''"

definition command_result :: "(any_msg \<Rightarrow> string option) \<Rightarrow> payload \<Rightarrow> string result" where
  "command_result protojson p = (case p of
     P_CommandResult _ st0 res reason \<Rightarrow>
       (let st = (if st0 = '''' then CmdSucceeded else st0) in
        if st \<noteq> CmdSucceeded then Inl (Status FailedPrecondition (if reason = '''' then ''runtime command failed'' else reason))
        else case marshalAnyJSON protojson res of
          Inl e \<Rightarrow> Inl (Status InvalidArgument (''marshal command result: '' @ err_text e))
        | Inr raw \<Rightarrow> Inr raw)
   | _ \<Rightarrow> Inl (Status Internal ''runtime returned empty command result''))"

fun await_command :: "(any_msg \<Rightarrow> string option) \<Rightarrow> call_event list \<Rightarrow> string result option" where
  "await_command protojson [] = None"
| "await_command protojson (Call_Done e # es) = Some (Inl e)"
| "await_command protojson (Call_Closed # es) = Some (Inl disconnected)"
| "await_command protojson (Call_Reply None # es) = Some (Inl disconnected)"
| "await_command protojson (Call_Reply (Some fr) # es) =
     (if frame_type fr = FT_COMMAND_ACK then await_command protojson es
      else if frame_type fr = FT_COMMAND_RESULT then Some (command_result protojson (payload fr))
      else Some (Inl (Status Internal ''unexpected runtime command frame_type'')))"

definition shouldAbortTimedOutStrategyRequest :: "string \<Rightarrow> bool" where
  "shouldAbortTimedOutStrategyRequest method \<longleftrightarrow> method \<noteq> ''GetStrategyStatus''"

definition InvokeStrategyUnaryByRuntimeID :: "int \<Rightarrow> string \<Rightarrow> string \<Rightarrow> any_msg result \<Rightarrow> string \<Rightarrow> int \<Rightarrow> stream_id option \<Rightarrow> channel_service
    \<Rightarrow> channel_service \<times> stream_id result" where
  "InvokeStrategyUnaryByRuntimeID uid rid method packed cid deadline found sv =
     (if uid \<le> 0 then (sv, Inl (Status InvalidArgument ''user_id is required''))
      else if rid = '''' then (sv, Inl (Status InvalidArgument ''runtime_id is required''))
      else if method = '''' then (sv, Inl (Status InvalidArgument ''strategy method is required''))
      else case found of
        None \<Rightarrow> (sv, Inl (Status Unavailable ''runtime is not connected''))
      | Some i \<Rightarrow>
          (case packed of
             Inl e \<Rightarrow> (sv, Inl (Status InvalidArgument (''pack strategy request: '' @ err_text e)))
           | Inr req \<Rightarrow>
               (case start_call i cid \<lparr>correlation_id = cid, frame_type = FT_REQUEST, deadline_unix_ms = deadline,
                    payload = P_Request method (Some req)\<rparr> sv of
                  (sv1, Some e) \<Rightarrow> (sv1, Inl e)
                | (sv1, None) \<Rightarrow> (sv1, Inr i))))"

definition error_payload :: "payload \<Rightarrow> (string \<times> string) option" where
  "error_payload p = (case p of P_Error c m \<Rightarrow> Some (c, m) | _ \<Rightarrow> None)"

fun await_unary :: "(any_msg \<Rightarrow> 'm result) \<Rightarrow> call_event list \<Rightarrow> 'm result option" where
  "await_unary decode [] = None"
| "await_unary decode (Call_Done e # es) = Some (Inl e)"
| "await_unary decode (Call_Closed # es) = Some (Inl disconnected)"
| "await_unary decode (Call_Reply None # es) = Some (Inl disconnected)"
| "await_unary decode (Call_Reply (Some fr) # es) =
     (if frame_type fr = FT_PROGRESS then await_unary decode es
      else if frame_type fr = FT_ERROR then Some (Inl (streamErrorToStatus (error_payload (payload fr))))
      else if frame_type fr = FT_RESPONSE
      then (case payload fr of
          P_Response (Some a) \<Rightarrow>
            (case decode a of Inl e \<Rightarrow> Some (Inl (Status Internal (''unpack runtime response: '' @ err_text e))) | Inr m \<Rightarrow> Some (Inr m))
        | _ \<Rightarrow> Some (Inl (Status Internal ''runtime response payload is empty'')))
      else Some (Inl (Status Internal ''unexpected runtime frame_type'')))"

text \<open>A call whose context ended first tells the runtime to abort, unless it only asked for the status.\<close>
definition abort_call :: "stream_id \<Rightarrow> string \<Rightarrow> string \<Rightarrow> string \<Rightarrow> channel_service \<Rightarrow> channel_service" where
  "abort_call i cid method reason sv =
     (if shouldAbortTimedOutStrategyRequest method
      then fst (send_on i \<lparr>correlation_id = cid, frame_type = FT_ABORT, deadline_unix_ms = 0, payload = P_Abort reason\<rparr> sv)
      else sv)"

definition newCorrelationID :: "string option \<Rightarrow> string \<Rightarrow> string" where
  "newCorrelationID random stamp = (case random of None \<Rightarrow> stamp | Some b \<Rightarrow> hex_string b)"

section \<open>An answer comes back to its call\<close>

text \<open>The errors of the platform survive the way through the runtime, and back, in their portable codes.\<close>
lemma await_error_frame:
  "await_unary decode [Call_Reply (Some (runtimeRequestErrorFrame cid (Some (Status c m))))] = Some (Inl (Status (if portable_code c then c else Internal) m))"
  using error_code_roundtrip [of c m] by (simp add: runtimeRequestErrorFrame_def error_payload_def)

lemma await_progress:
  "\<forall>ev\<in>set evs. \<exists>fr. ev = Call_Reply (Some fr) \<and> frame_type fr = FT_PROGRESS \<Longrightarrow> await_unary decode (evs @ rest) = await_unary decode rest"
  by (induction evs) auto

end
