(* ===== verification/ChannelSafety.thy ===== *)
theory ChannelSafety
  imports ChannelCalls RuntimeLifecycle
begin

text \<open>
  What the connections of an instance do to its shared state, in any interleaving: \<open>chan_step\<close> opens and
  refuses connections, serves their events, ends them, runs their tasks and lets the other services
  work on the same database. Every handler only combines operations of the registry, the replay cache,
  the window, the command table and the runtime tables, so it keeps what they keep (\<open>evolves\<close>).
\<close>

section \<open>What a handler can change\<close>

definition command_evolves :: "command_table \<Rightarrow> command_table \<Rightarrow> bool" where
  "command_evolves = (\<lambda>t t'. \<exists>compact. command_step compact t t')\<^sup>*\<^sup>*"

definition registry_evolves :: "registry \<Rightarrow> registry \<Rightarrow> bool" where
  "registry_evolves r r' \<longleftrightarrow> (\<exists>ops. r' = fold apply_op ops r) \<and> map st_runtime (rg_store r') = map st_runtime (rg_store r)"

definition cache_evolves :: "replay_cache \<Rightarrow> replay_cache \<Rightarrow> bool" where
  "cache_evolves c c' \<longleftrightarrow> (\<exists>calls. c' = snd (check_all c calls))"

definition window_evolves :: "data_window \<Rightarrow> data_window \<Rightarrow> bool" where
  "window_evolves w w' \<longleftrightarrow> (\<exists>ops. w' = fold apply_window ops w)"

definition evolves :: "channel_service \<Rightarrow> channel_service \<Rightarrow> bool" where
  "evolves sv sv' \<longleftrightarrow> runtime_step\<^sup>*\<^sup>* (sv_db sv) (sv_db sv') \<and> registry_evolves (sv_registry sv) (sv_registry sv') \<and>
     cache_evolves (sv_replay sv) (sv_replay sv') \<and> window_evolves (cs_window (sv_chan sv)) (cs_window (sv_chan sv')) \<and>
     command_evolves (sv_cmds sv) (sv_cmds sv')"

lemma snd_check_all_append: "snd (check_all c (xs @ ys)) = snd (check_all (snd (check_all c xs)) ys)"
proof (induction xs arbitrary: c)
  case (Cons x xs)
  obtain k n t where "x = (k, n, t)" using prod_cases3 by blast
  then show ?case using Cons by (simp add: split_beta)
qed simp

lemma part_refl [simp]: "registry_evolves r r" "cache_evolves c c" "window_evolves w w" "command_evolves t t"
proof -
  show "registry_evolves r r" unfolding registry_evolves_def by (intro conjI exI [of _ "[]"]) simp_all
  show "cache_evolves c c" unfolding cache_evolves_def by (rule exI [of _ "[]"]) simp
  show "window_evolves w w" unfolding window_evolves_def by (rule exI [of _ "[]"]) simp
  show "command_evolves t t" by (simp add: command_evolves_def)
qed

lemma part_trans:
  "registry_evolves r1 r2 \<Longrightarrow> registry_evolves r2 r3 \<Longrightarrow> registry_evolves r1 r3"
  "cache_evolves c1 c2 \<Longrightarrow> cache_evolves c2 c3 \<Longrightarrow> cache_evolves c1 c3"
  "window_evolves w1 w2 \<Longrightarrow> window_evolves w2 w3 \<Longrightarrow> window_evolves w1 w3"
  "command_evolves t1 t2 \<Longrightarrow> command_evolves t2 t3 \<Longrightarrow> command_evolves t1 t3"
proof -
  show "registry_evolves r1 r2 \<Longrightarrow> registry_evolves r2 r3 \<Longrightarrow> registry_evolves r1 r3"
    unfolding registry_evolves_def by (metis fold_append comp_apply)
  show "cache_evolves c1 c2 \<Longrightarrow> cache_evolves c2 c3 \<Longrightarrow> cache_evolves c1 c3"
    unfolding cache_evolves_def by (metis snd_check_all_append)
  show "window_evolves w1 w2 \<Longrightarrow> window_evolves w2 w3 \<Longrightarrow> window_evolves w1 w3"
    unfolding window_evolves_def by (metis fold_append comp_apply)
  show "command_evolves t1 t2 \<Longrightarrow> command_evolves t2 t3 \<Longrightarrow> command_evolves t1 t3"
    unfolding command_evolves_def by (rule rtranclp_trans)
qed

lemma evolves_refl [simp]: "evolves sv sv"
  by (simp add: evolves_def)

lemma evolves_trans: "evolves a b \<Longrightarrow> evolves b c \<Longrightarrow> evolves a c"
  unfolding evolves_def by (elim conjE) (intro conjI; (erule (1) rtranclp_trans | erule (1) part_trans))

text \<open>The operations continue what went before; the simplifier composes them along a handler.\<close>
named_theorems evolve \<open>every operation evolves\<close>

lemma evolves_update [evolve]:
  "evolves a sv \<Longrightarrow> evolves a (sv\<lparr>sv_events := es\<rparr>)" "evolves a sv \<Longrightarrow> evolves a (sv\<lparr>sv_tasks := ts\<rparr>)"
  by (simp_all add: evolves_def)

lemma evolves_with_db [evolve]:
  assumes "evolves a sv" "\<And>db. runtime_step\<^sup>*\<^sup>* db (fst (f db))"
  shows "evolves a (fst (with_db f sv))"
proof -
  have "evolves sv (fst (with_db f sv))" using assms(2) by (simp add: evolves_def with_db_def split_beta)
  then show ?thesis using assms(1) evolves_trans by blast
qed

lemma evolves_with_cmds [evolve]:
  assumes "evolves a sv" "\<And>t. command_evolves t (fst (f t))"
  shows "evolves a (fst (with_cmds f sv))"
proof -
  have "evolves sv (fst (with_cmds f sv))" using assms(2) by (simp add: evolves_def with_cmds_def split_beta)
  then show ?thesis using assms(1) evolves_trans by blast
qed

lemma evolves_set_db: "evolves a sv \<Longrightarrow> runtime_step\<^sup>*\<^sup>* (sv_db sv) db \<Longrightarrow> evolves a (sv\<lparr>sv_db := db\<rparr>)"
  by (erule evolves_trans) (simp add: evolves_def)

lemma db_ops [evolve]:
  "runtime_step\<^sup>*\<^sup>* db (fst (RecordRuntimeConnectionOwner now rid inst at db))" "runtime_step\<^sup>*\<^sup>* db (fst (ClearRuntimeConnectionOwner now rid inst db))"
  "runtime_step\<^sup>*\<^sup>* db (fst (CreateRuntimeChannelLease now l db))" "runtime_step\<^sup>*\<^sup>* db (fst (RotateRuntimeChannelLease rid h h' expiresAt at db))"
  "runtime_step\<^sup>*\<^sup>* db (fst (CreateOrReplaceHostedRuntime now rt db))" "runtime_step\<^sup>*\<^sup>* db (fst (CreateOrReplaceSelfHostedRuntime now rt db))"
  "runtime_step\<^sup>*\<^sup>* db (fst (CreateOrReplaceBareRuntime now rt db))" "runtime_step\<^sup>*\<^sup>* db (fst (UpdateRuntimeHeartbeat now rid at db))"
  "runtime_step\<^sup>*\<^sup>* db (RecordRuntimeAdmissionFailure now f db)" "runtime_step\<^sup>*\<^sup>* db (TouchRuntimeCredentialUsed k at db)"
  "runtime_step\<^sup>*\<^sup>* db (fst (EndRuntimesByCredentialKey now k reason at db))"
  by (rule r_into_rtranclp; rule runtime_step.intros)+

lemma command_ops [evolve]:
  "command_evolves t (fst (MarkRuntimeCommandRunning cid at t))" "command_evolves t (fst (AcknowledgeRuntimeCommand cid at t))"
  "command_evolves t (fst (CompleteRuntimeCommand compact cid st res reason at t))" "command_evolves t (fst (ClaimNextRuntimeCommand owner rid inst at limit t))"
  unfolding command_evolves_def by (rule r_into_rtranclp, intro exI, rule command_step.intros)+

section \<open>The registry\<close>

lemma map_runtimes_same:
  assumes "\<And>s. st_runtime (f s) = st_runtime s"
  shows "map st_runtime (t[i := f (t ! i)]) = map st_runtime t"
  using assms by (cases "i < length t") (simp_all add: map_update list_update_same_conv list_update_beyond)

lemma update_stream_runtimes: "(\<And>s. st_runtime (f s) = st_runtime s) \<Longrightarrow> map st_runtime (rg_store (update_stream i f r)) = map st_runtime (rg_store r)"
  unfolding update_stream_def by (simp add: map_runtimes_same)

lemma close_and_remove_runtimes: "map st_runtime (rg_store (close_and_remove i r)) = map st_runtime (rg_store r)"
  by (simp add: map_runtimes_same)

lemma Unregister_runtimes: "map st_runtime (rg_store (Unregister rid r)) = map st_runtime (rg_store r)"
  by (simp add: Unregister_def map_runtimes_same split: option.split)

lemma close_ids_runtimes: "map st_runtime (rg_store (fst (close_ids ids r))) = map st_runtime (rg_store r)"
proof (induction ids r rule: close_ids.induct)
  case (2 rid rids r)
  then show ?case by (cases "gm_get (rg_streams r) rid") (simp_all add: split_beta map_runtimes_same)
qed simp

lemma registry_op_evolves:
  "f r = apply_op op r \<Longrightarrow> map st_runtime (rg_store (f r)) = map st_runtime (rg_store r) \<Longrightarrow> registry_evolves r (f r)"
  unfolding registry_evolves_def by (intro conjI exI [of _ "[op]"]) simp_all

lemma evolves_with_registry:
  assumes "evolves a sv" "\<And>r. registry_evolves r (f r)"
  shows "evolves a (with_registry f sv)"
proof -
  have "evolves sv (with_registry f sv)" using assms(2) by (simp add: evolves_def with_registry_def)
  then show ?thesis using assms(1) evolves_trans by blast
qed

lemma evolves_touch [evolve]: "evolves a sv \<Longrightarrow> evolves a (touch_conn env c sv)"
  unfolding touch_conn_def
  by (erule evolves_with_registry) (rule registry_op_evolves [of _ _ "Op_Touch (cn_stream c) (ce_now env)"]; simp add: update_stream_runtimes)

lemma evolves_unregister [evolve]: "evolves a sv \<Longrightarrow> evolves a (with_registry (Unregister rid) sv)"
  by (erule evolves_with_registry) (rule registry_op_evolves [of _ _ "Op_Unregister rid"]; simp add: Unregister_runtimes)

lemma evolves_deliver [evolve]: "evolves a sv \<Longrightarrow> evolves a (fst (deliver_on i fr sv))"
  unfolding deliver_on_def fst_conv
  by (erule evolves_with_registry) (rule registry_op_evolves [of _ _ "Op_Deliver i fr"]; simp add: update_stream_runtimes)

lemma send_on_registry: "fst (send_on i fr sv) = with_registry (update_stream i (\<lambda>st. fst (sendFrame st fr))) sv"
  by (simp add: send_on_def send_at_def with_registry_def)

lemma evolves_send [evolve]: "evolves a sv \<Longrightarrow> evolves a (fst (send_on i fr sv))"
  unfolding send_on_registry
  by (erule evolves_with_registry) (rule registry_op_evolves [of _ _ "Op_Send i fr"]; simp add: update_stream_runtimes)

section \<open>The handlers\<close>

lemma evolves_owner [evolve]: "evolves a sv \<Longrightarrow> evolves a (fst (recordConnectionOwner env rid at sv))"
  by (simp add: recordConnectionOwner_def evolve)

lemma evolves_issue [evolve]: "evolves a sv \<Longrightarrow> evolves a (fst (issueRuntimeChannelLease env rt sv))"
  by (simp add: issueRuntimeChannelLease_def Let_def split_beta evolve split: sum.split unit.split)

lemma evolves_upsert [evolve]: "evolves a sv \<Longrightarrow> evolves a (fst (upsertRuntime env rt sv))"
  by (simp add: upsertRuntime_def Let_def split_beta evolve split: sum.split unit.split)

lemma evolves_failures [evolve]:
  "evolves a sv \<Longrightarrow> evolves a (recordAdmissionFailure env h rt cause sv)" "evolves a sv \<Longrightarrow> evolves a (recordResumeFailure env res cause sv)"
  unfolding recordAdmissionFailure_def recordResumeFailure_def Let_def split_beta by (erule evolves_set_db; rule db_ops)+

lemma evolves_rotate [evolve]: "evolves a sv \<Longrightarrow> evolves a (fst (rotateRuntimeFingerprintWithHash env rid h sv))"
  by (simp add: rotateRuntimeFingerprintWithHash_def Let_def split_beta evolve split: sum.split unit.split)

lemma evolves_refresh [evolve]: "evolves a sv \<Longrightarrow> evolves a (fst (refreshRuntimeFingerprint env rid fp sv))"
  by (simp add: refreshRuntimeFingerprint_def Let_def split_beta evolve split: sum.split unit.split)

lemma evolves_resume [evolve]: "evolves a sv \<Longrightarrow> evolves a (fst (verifyResume env res sv))"
  by (simp add: verifyResume_def Let_def split_beta evolve split: sum.split unit.split)

lemma evolves_hello:
  assumes "verifyHello henv at h (sv_replay sv) (sv_db sv) = ((cache, db), r)"
  shows "evolves sv (sv\<lparr>sv_replay := cache, sv_db := db\<rparr>)"
proof -
  have "db = sv_db sv \<or> db = TouchRuntimeCredentialUsed (h_key_id h) at (sv_db sv)"
    using assms by (auto simp: verifyHello_def Let_def split: if_splits sum.splits prod.splits)
  then have d: "runtime_step\<^sup>*\<^sup>* (sv_db sv) db" using runtime_step.touch_credential by auto
  have "cache = snd (check_all (sv_replay sv) []) \<or> cache = snd (check_all (sv_replay sv) [(h_key_id h, h_nonce h, at)])"
    using verifyHello_cache [OF assms] by (auto simp: split_beta)
  then have "cache_evolves (sv_replay sv) cache" unfolding cache_evolves_def by blast
  then show ?thesis using d by (simp add: evolves_def)
qed

lemma evolves_authenticate_hello: "evolves sv (fst (authenticateHello env h peer sv))"
proof -
  obtain cache db r where v: "verifyHello (ce_hello env) (ce_now env) h (sv_replay sv) (sv_db sv) = ((cache, db), r)" by (metis prod.collapse)
  note e = evolves_hello [OF v]
  show ?thesis using e by (simp add: authenticateHello_def v Let_def split_beta evolve split: sum.split option.split unit.split)
qed

lemma evolves_authenticate_resume: "evolves sv (fst (authenticateResume env res peer sv))"
  by (simp add: authenticateResume_def split_beta evolve split: sum.split option.split unit.split)

lemma evolves_authenticate: "evolves sv (fst (authenticateFirstFrame env first peer sv))"
  by (simp add: authenticateFirstFrame_def evolves_authenticate_hello evolves_authenticate_resume split: payload.split)

lemma evolves_heartbeat [evolve]: "evolves a sv \<Longrightarrow> evolves a (fst (recordHeartbeat env rid sv))"
  by (simp add: recordHeartbeat_def split_beta evolve split: sum.split unit.split)

lemma evolves_keep_alive [evolve]: "evolves a sv \<Longrightarrow> evolves a (fst (keep_alive env c sv))"
  by (simp add: keep_alive_def Let_def split_beta evolve split: sum.split unit.split)

lemma evolves_handle_heartbeat [evolve]: "evolves a sv \<Longrightarrow> evolves a (fst (handle_heartbeat env c fp sv))"
  by (simp add: handle_heartbeat_def Let_def split_beta evolve split: sum.split option.split unit.split)

lemma fst_only_error [simp]: "fst (only_error x) = fst x"
  by (simp add: only_error_def split: prod.split sum.split)

lemma evolves_command_frame [evolve]: "evolves a sv \<Longrightarrow> evolves a (fst (handleRuntimeCommandFrame env fr sv))"
  by (simp add: handleRuntimeCommandFrame_def Let_def evolve split: payload.split sum.split)

lemma evolves_backpressure [evolve]: "evolves a sv \<Longrightarrow> evolves a (handleRuntimeDataBackpressure rt fr sv)"
  by (simp add: handleRuntimeDataBackpressure_def Let_def evolve split: payload.split)

lemma evolves_data_ack [evolve]:
  assumes "evolves a sv"
  shows "evolves a (sv\<lparr>sv_chan := handleRuntimeDataAck fr (sv_chan sv)\<rparr>)"
proof -
  have "\<exists>ops. cs_window (handleRuntimeDataAck fr c) = fold apply_window ops (cs_window c)" for c
  proof (cases "payload fr")
    case (P_DataAck s k n)
    then show ?thesis by (intro exI [of _ "[W_Ack s k n]"]) (simp add: handleRuntimeDataAck_def)
  qed (rule exI [of _ "[]"]; simp add: handleRuntimeDataAck_def)+
  then have "window_evolves (cs_window c) (cs_window (handleRuntimeDataAck fr c))" for c unfolding window_evolves_def by blast
  moreover have "cs_registry (handleRuntimeDataAck fr c) = cs_registry c" for c by (simp add: handleRuntimeDataAck_def split: payload.split)
  ultimately have "evolves sv (sv\<lparr>sv_chan := handleRuntimeDataAck fr (sv_chan sv)\<rparr>)" by (simp add: evolves_def)
  then show ?thesis using assms evolves_trans by blast
qed

lemma evolves_dispatch [evolve]: "evolves a sv \<Longrightarrow> evolves a (fst (dispatch_frame env c fr sv))"
  by (simp add: dispatch_frame_def Let_def split_beta evolve split: frame_type.split option.split bool.split)

lemma evolves_event [evolve]: "evolves a sv \<Longrightarrow> evolves a (fst (handle_event env c ev sv))"
  by (cases ev) (simp_all add: handle_event_def handle_frame_def Let_def split_beta evolve split: option.split)

lemma evolves_close [evolve]: "evolves a sv \<Longrightarrow> evolves a (close_channel env c sv)"
  by (simp add: close_channel_def Let_def evolve)

lemma evolves_request [evolve]: "evolves a sv \<Longrightarrow> evolves a (handleRuntimeRequest platform i fr sv)"
  by (simp add: handleRuntimeRequest_def Let_def evolve)

lemma evolves_revoke [evolve]: "evolves a sv \<Longrightarrow> evolves a (fst (CloseStreamsForKey env k sv))"
proof -
  assume "evolves a sv"
  then have "evolves a (with_registry (\<lambda>r. fst (CloseByKeyID k r)) sv)"
    by (rule evolves_with_registry) (rule registry_op_evolves [of _ _ "Op_CloseByKeyID k"]; simp add: CloseByKeyID_def close_ids_runtimes)
  then have "evolves a (with_registry (\<lambda>_. fst (CloseByKeyID k (sv_registry sv))) sv)" by (simp add: with_registry_def)
  then show ?thesis by (simp add: CloseStreamsForKey_def Let_def split_beta evolve)
qed

lemma evolves_close_runtime [evolve]: "evolves a sv \<Longrightarrow> evolves a (fst (CloseStreamForRuntime rid sv))"
proof -
  assume "evolves a sv"
  then have "evolves a (with_registry (\<lambda>r. fst (CloseByRuntimeID rid r)) sv)"
    by (rule evolves_with_registry) (rule registry_op_evolves [of _ _ "Op_CloseByRuntimeID rid"];
      simp add: CloseByRuntimeID_def map_runtimes_same split: option.split)
  then show ?thesis by (simp add: CloseStreamForRuntime_def Let_def split_beta with_registry_def)
qed

section \<open>Admission leaves a row\<close>

definition admitted_row :: "runtime_db \<Rightarrow> auth_runtime \<Rightarrow> bool" where
  "admitted_row db rt \<longleftrightarrow> (\<exists>r. row RuntimeID (rt_rows db) (ar_RuntimeID rt) = Some r \<and> UserID r = ar_UserID rt \<and> Source r = ar_Source rt \<and> live r)"

lemma admit_row:
  assumes "admit guard rt m creds db = (db', Inr ())"
  shows "\<exists>r. row RuntimeID (rt_rows db') (RuntimeID rt) = Some r \<and> UserID r = UserID rt \<and> Source r = Source rt \<and> RtStatus r = RtStatus rt"
proof -
  obtain t where t: "upsert_runtime guard rt (rt_rows db) = Inr (t, True)" "rt_rows db' = t"
    using assms by (auto simp: admit_def report_write_def conflict_def split: sum.splits prod.splits if_splits)
  show ?thesis
  proof (cases "row RuntimeID (rt_rows db) (RuntimeID rt)")
    case None
    then have "t = rt_rows db @ [insert_row rt]"
      using t by (auto simp: upsert_runtime_def bind_res_Inr write_rows_Inr split: if_splits)
    then show ?thesis using None t(2) by (simp add: row_append insert_row_def)
  next
    case (Some old)
    then have "t = update_where (\<lambda>r. RuntimeID r = RuntimeID rt) (replace_row rt) (rt_rows db)"
      using t by (auto simp: upsert_runtime_def bind_res_Inr write_rows_Inr split: if_splits)
    then have "row RuntimeID t (RuntimeID rt) = Some (replace_row rt old)"
      using Some by (simp add: row_update_key replace_row_id)
    then show ?thesis using t(2) by (simp add: replace_row_def)
  qed
qed

lemma upsert_row:
  assumes "upsertRuntime env rt sv = (sv', Inr ())"
  shows "admitted_row (sv_db sv') rt"
proof -
  let ?r = "runtime_of_auth rt"
  have f: "RuntimeID ?r = ar_RuntimeID rt" "UserID ?r = ar_UserID rt" "Source ?r = ar_Source rt" "RtStatus ?r = RuntimeStatusActive"
    by (simp_all add: runtime_of_auth_def Let_def)
  have n: "RuntimeID (normalizeRuntimeForWrite w x) = RuntimeID x" "UserID (normalizeRuntimeForWrite w x) = UserID x"
    "Source (normalizeRuntimeForWrite w x) = Source x" "RtStatus (normalizeRuntimeForWrite w x) = RtStatus x" for w x
    by (simp_all add: normalizeRuntimeForWrite_def Let_def split: option.split)
  have key: "\<exists>guard rt' m creds. admit guard rt' m creds (sv_db sv) = (sv_db sv', Inr ()) \<and> RuntimeID rt' = ar_RuntimeID rt \<and>
      UserID rt' = ar_UserID rt \<and> Source rt' = ar_Source rt \<and> RtStatus rt' = RuntimeStatusActive"
  proof -
    let ?g = "\<lambda>db. if ar_Source rt = SourceHosted then CreateOrReplaceHostedRuntime (ce_now env) ?r db
        else if ar_Source rt = SourceSelfHosted then CreateOrReplaceSelfHostedRuntime (ce_now env) ?r db
        else if ar_Source rt = SourceBare then CreateOrReplaceBareRuntime (ce_now env) ?r db
        else (db, Inl (Plain ''unsupported runtime source''))"
    obtain db' res where g: "?g (sv_db sv) = (db', res)" by (cases "?g (sv_db sv)")
    then have w: "with_db ?g sv = (sv\<lparr>sv_db := db'\<rparr>, res)" by (simp only: with_db_def Let_def split_beta fst_conv snd_conv)
    have "res = Inr () \<and> sv' = sv\<lparr>sv_db := db'\<rparr>"
      using assms unfolding upsertRuntime_def Let_def w by (cases res) (simp_all split: unit.splits)
    then have d: "sv_db sv' = db'" and res: "?g (sv_db sv) = (db', Inr ())" using g by auto
    from res consider "CreateOrReplaceHostedRuntime (ce_now env) ?r (sv_db sv) = (db', Inr ())"
      | "CreateOrReplaceSelfHostedRuntime (ce_now env) ?r (sv_db sv) = (db', Inr ())"
      | "CreateOrReplaceBareRuntime (ce_now env) ?r (sv_db sv) = (db', Inr ())" by (auto split: if_splits)
    then show ?thesis
    proof cases
      case 1
      then obtain g m c where "admit g (normalizeRuntimeForWrite (ce_now env) ?r) m c (sv_db sv) = (db', Inr ())"
        by (auto simp: CreateOrReplaceHostedRuntime_def Let_def conflict_def split: if_splits sum.splits)
      then show ?thesis unfolding d using f n by (intro exI [of _ g] exI [of _ "normalizeRuntimeForWrite (ce_now env) ?r"] exI [of _ m] exI [of _ c]) simp
    next
      case 2
      then obtain g m c where "admit g (normalizeRuntimeForWrite (ce_now env) ?r) m c (sv_db sv) = (db', Inr ())"
        by (auto simp: CreateOrReplaceSelfHostedRuntime_def Let_def conflict_def split: if_splits sum.splits)
      then show ?thesis unfolding d using f n by (intro exI [of _ g] exI [of _ "normalizeRuntimeForWrite (ce_now env) ?r"] exI [of _ m] exI [of _ c]) simp
    next
      case 3
      then obtain g m c where "admit g (normalizeRuntimeForWrite (ce_now env) (?r\<lparr>CredentialKeyID := ''''\<rparr>)) m c (sv_db sv) = (db', Inr ())"
        by (auto simp: CreateOrReplaceBareRuntime_def Let_def conflict_def split: if_splits sum.splits)
      then show ?thesis unfolding d using f n by (intro exI [of _ g] exI [of _ "normalizeRuntimeForWrite (ce_now env) (?r\<lparr>CredentialKeyID := ''''\<rparr>)"] exI [of _ m] exI [of _ c]) simp
    qed
  qed
  then show ?thesis using admit_row by (fastforce simp: admitted_row_def)
qed

lemma with_db_eq: "with_db f sv = (sv', r) \<longleftrightarrow> sv' = sv\<lparr>sv_db := fst (f (sv_db sv))\<rparr> \<and> r = snd (f (sv_db sv))"
  by (auto simp: with_db_def split_beta)

lemma issue_rows: "issueRuntimeChannelLease env rt sv = (sv', r) \<Longrightarrow> rt_rows (sv_db sv') = rt_rows (sv_db sv)"
  by (auto simp: issueRuntimeChannelLease_def Let_def with_db_def split_beta other_rows split: sum.splits unit.splits)

lemma rotate_rows: "rotateRuntimeFingerprintWithHash env rid h sv = (sv', r) \<Longrightarrow> rt_rows (sv_db sv') = rt_rows (sv_db sv)"
  by (auto simp: rotateRuntimeFingerprintWithHash_def Let_def with_db_def split_beta other_rows split: sum.splits unit.splits)

lemma admitted_rows: "rt_rows db' = rt_rows db \<Longrightarrow> admitted_row db rt \<Longrightarrow> admitted_row db' rt"
  by (simp add: admitted_row_def)

lemma GetRuntime_Inr: "GetRuntime db rid = Inr r \<Longrightarrow> row RuntimeID (rt_rows db) rid = Some r"
  by (simp add: GetRuntime_def select_one_row split: option.splits)

lemma fingerprint_row:
  assumes "fingerprint_runtime a b c now rid hash db = Inr rt"
  shows "row RuntimeID (rt_rows db) rid = Some rt" "live rt"
    "\<exists>l\<in>set (rt_leases db). cl_runtime_id l = rid \<and> cl_hash l = hash \<and> lease_valid now l \<and> UserID rt = cl_user_id l \<and> CredentialKeyID rt = cl_key_id l"
proof -
  obtain l where l: "GetRuntimeChannelLeaseByHash db hash = Inr l" "cl_runtime_id l = rid" "lease_valid now l" "GetRuntime db rid = Inr rt"
    "UserID rt = cl_user_id l" "CredentialKeyID rt = cl_key_id l" "live rt"
    using assms by (auto simp: fingerprint_runtime_def split: sum.splits if_splits)
  show "row RuntimeID (rt_rows db) rid = Some rt" "live rt" using GetRuntime_Inr l by auto
  show "\<exists>l\<in>set (rt_leases db). cl_runtime_id l = rid \<and> cl_hash l = hash \<and> lease_valid now l \<and> UserID rt = cl_user_id l \<and> CredentialKeyID rt = cl_key_id l"
    using l select_one_mem [of "\<lambda>l. cl_hash l = hash \<and> active_lease l" "rt_leases db" l] by (auto simp: GetRuntimeChannelLeaseByHash_def)
qed

lemma resume_row:
  assumes "verifyResume env res sv = (sv', Inr (rt, token, expiresAt))"
  shows "admitted_row (sv_db sv') rt"
proof -
  let ?rid = "trim_space (rs_runtime_id res)"
  obtain r where r: "fingerprint_runtime ''runtime resume token is invalid'' ''lookup runtime resume token'' ''runtime resume token does not match runtime_id''
      (ce_now env) ?rid (hashRuntimeChannelToken env (resume_token res)) (sv_db sv) = Inr r"
    "rotateRuntimeFingerprintWithHash env ?rid (hashRuntimeChannelToken env (resume_token res)) sv = (sv', Inr (token, expiresAt))"
    "rt = auth_of_runtime r (ce_now env)"
    using assms by (auto simp: verifyResume_def Let_def split: if_splits sum.splits prod.splits)
  note f = fingerprint_row [OF r(1)]
  have "RuntimeID r = ?rid" using row_SomeD [OF f(1)] by simp
  then show ?thesis using f rotate_rows [OF r(2)] by (simp add: admitted_row_def r(3) auth_of_runtime_def)
qed

lemma authenticate_row:
  assumes "authenticateFirstFrame env first peer sv = (sv', Inr (rt, token, expiresAt))"
  shows "admitted_row (sv_db sv') rt"
proof -
  consider h where "authenticateHello env h peer sv = (sv', Inr (rt, token, expiresAt))"
    | res where "authenticateResume env res peer sv = (sv', Inr (rt, token, expiresAt))"
    using assms by (auto simp: authenticateFirstFrame_def split: if_splits payload.splits)
  then show ?thesis
  proof cases
    case 1
    obtain s1 s2 where "upsertRuntime env rt s1 = (s2, Inr ())" "issueRuntimeChannelLease env rt s2 = (sv', Inr (token, expiresAt))"
      using 1 by (auto simp: authenticateHello_def Let_def split: sum.splits prod.splits option.splits unit.splits)
    then show ?thesis using upsert_row issue_rows admitted_rows by metis
  next
    case 2
    then show ?thesis using resume_row by (auto simp: authenticateResume_def split: sum.splits prod.splits option.splits)
  qed
qed

section \<open>The invariant of an instance\<close>

text \<open>Every stream ever opened belongs to a registered runtime of the same user and source.\<close>
definition streams_owned :: "channel_service \<Rightarrow> bool" where
  "streams_owned sv \<longleftrightarrow> (\<forall>rt\<in>set (map st_runtime (rg_store (sv_registry sv))).
     owner_view (sv_db sv) (ar_RuntimeID rt) = Some (ar_UserID rt, ar_Source rt))"

definition service_inv :: "channel_service \<Rightarrow> bool" where
  "service_inv sv \<longleftrightarrow> registry_inv (sv_registry sv) \<and> replay_inv (sv_replay sv) \<and> runtimes_ok (sv_db sv) \<and> command_inv (sv_cmds sv) \<and>
     streams_owned sv"

lemma command_evolves_inv: "command_evolves t t' \<Longrightarrow> command_inv t \<Longrightarrow> command_inv t'"
  unfolding command_evolves_def by (induction rule: rtranclp_induct) (auto intro: command_step_inv)

lemma check_all_inv: "replay_inv c \<Longrightarrow> replay_inv (snd (check_all c calls))"
  using rc.run_inv [of c "map (\<lambda>(k, n, t). ((k, n), t)) calls"] by (simp add: rc_run_check_all)

lemma evolves_inv:
  assumes "evolves sv sv'" "service_inv sv"
  shows "service_inv sv'"
proof -
  have ok: "runtimes_ok (sv_db sv)" and st: "runtime_step\<^sup>*\<^sup>* (sv_db sv) (sv_db sv')" using assms by (simp_all add: service_inv_def evolves_def)
  have "registry_inv (sv_registry sv')"
    using assms fold_apply_op_inv by (auto simp: evolves_def service_inv_def registry_evolves_def)
  moreover have "replay_inv (sv_replay sv')" using assms check_all_inv by (auto simp: evolves_def service_inv_def cache_evolves_def)
  moreover have "runtimes_ok (sv_db sv')" by (rule owners.inv_star [OF st ok])
  moreover have "command_inv (sv_cmds sv')" using assms command_evolves_inv by (auto simp: evolves_def service_inv_def)
  moreover have "streams_owned sv'"
  proof -
    have "map st_runtime (rg_store (sv_registry sv')) = map st_runtime (rg_store (sv_registry sv))"
      using assms(1) by (simp add: evolves_def registry_evolves_def)
    moreover have "streams_owned sv" using assms(2) by (simp add: service_inv_def)
    ultimately show ?thesis using owners.frozen_star [OF st ok] unfolding streams_owned_def by simp
  qed
  ultimately show ?thesis by (simp add: service_inv_def)
qed

lemma Register_cases:
  assumes "registry_inv r" "Register r rt now = (r', Inr i)"
  shows "registry_inv r'" "i = length (rg_store r)" "gm_get (rg_streams r') (ar_RuntimeID rt) = Some i" "length (rg_store r') = Suc i"
    "st_runtime (stream_at r' i) = rt" "map st_runtime (rg_store r') = map st_runtime (rg_store r) @ [rt]"
proof -
  show "registry_inv r'" using Register_inv [OF assms(1), of rt now] assms(2) by simp
  have r': "r' = add_stream (drop_old r (ar_RuntimeID rt)) rt now" "i = length (rg_store r)"
    using assms(2) by (auto simp: Register_unfold split: if_splits)
  have m: "map st_runtime (rg_store (drop_old r rid)) = map st_runtime (rg_store r)" for rid
    by (simp add: drop_old_def map_runtimes_same split: option.split)
  then have len: "length (rg_store (drop_old r rid)) = length (rg_store r)" for rid by (metis length_map)
  show "i = length (rg_store r)" "gm_get (rg_streams r') (ar_RuntimeID rt) = Some i" "length (rg_store r') = Suc i"
    "st_runtime (stream_at r' i) = rt" "map st_runtime (rg_store r') = map st_runtime (rg_store r) @ [rt]"
    using r' m len by (simp_all add: newRuntimeStream_def nth_append)
qed

end
