(* ===== verification/ChannelWorld.thy ===== *)
theory ChannelWorld
  imports ChannelSafety
begin

text \<open>
  All connections of an instance at once. A state is the shared service and the connections whose handler
  runs; \<open>chan_step\<close> interleaves their events with the revocation hooks, the deliveries, the calls, the
  tasks and whatever other services write to the same tables.
\<close>

section \<open>Steps\<close>

type_synonym chan_world = "channel_service \<times> conn list"

inductive chan_step :: "chan_world \<Rightarrow> chan_world \<Rightarrow> bool" where
  opened: "open_channel env peer first sv = (sv', Inr c) \<Longrightarrow> chan_step (sv, cs) (sv', c # cs)"
| refused: "open_channel env peer first sv = (sv', Inl e) \<Longrightarrow> chan_step (sv, cs) (sv', cs)"
| served: "c \<in> set cs \<Longrightarrow> ev \<noteq> Ev_Closed \<Longrightarrow> handle_event env c ev sv = (sv', Serving) \<Longrightarrow> chan_step (sv, cs) (sv', cs)"
| returned: "c \<in> set cs \<Longrightarrow> ev = Ev_Closed \<longrightarrow> stream_closed c sv \<Longrightarrow> handle_event env c ev sv = (sv', Returned r) \<Longrightarrow>
    chan_step (sv, cs) (close_channel env c sv', remove1 c cs)"
| request: "chan_step (sv, cs) (handleRuntimeRequest platform i fr sv, cs)"
| revoked: "chan_step (sv, cs) (fst (CloseStreamsForKey env k sv), cs)"
| stopped: "chan_step (sv, cs) (fst (CloseStreamForRuntime rid sv), cs)"
| live: "chan_step (sv, cs) (sv\<lparr>sv_chan := fst (DeliverLiveKlineBatch transfer at lb (sv_chan sv))\<rparr>, cs)"
| orders: "chan_step (sv, cs) (sv\<lparr>sv_chan := fst (DeliverOrderLifecycleBatch ob (sv_chan sv))\<rparr>, cs)"
| dataset: "chan_step (sv, cs) (sv\<lparr>sv_chan := fst (DeliverDatasetChunk at dc (sv_chan sv))\<rparr>, cs)"
| dispatched: "chan_step (sv, cs) (fst (DispatchNextRuntimeCommand env rid n sv), cs)"
| call: "chan_step (sv, cs) (fst (start_call i cid fr sv), cs)"
| call_end: "chan_step (sv, cs) (end_call i cid sv, cs)"
| tables: "runtime_step (sv_db sv) db \<Longrightarrow> chan_step (sv, cs) (sv\<lparr>sv_db := db\<rparr>, cs)"
| commands: "command_step compact (sv_cmds sv) t \<Longrightarrow> chan_step (sv, cs) (sv\<lparr>sv_cmds := t\<rparr>, cs)"

section \<open>Opening a connection\<close>

definition conn_ok :: "channel_service \<Rightarrow> conn \<Rightarrow> bool" where
  "conn_ok sv c \<longleftrightarrow> cn_stream c < length (rg_store (sv_registry sv)) \<and> st_runtime (stream_at (sv_registry sv) (cn_stream c)) = cn_runtime c"

text \<open>The streams ever opened: a history that only grows.\<close>
definition opened_runtimes :: "channel_service \<Rightarrow> auth_runtime list" where
  "opened_runtimes sv = map st_runtime (rg_store (sv_registry sv))"

lemma conn_ok_iff: "conn_ok sv c \<longleftrightarrow> cn_stream c < length (opened_runtimes sv) \<and> opened_runtimes sv ! cn_stream c = cn_runtime c"
  by (auto simp: conn_ok_def opened_runtimes_def)

lemma evolves_opened: "evolves sv sv' \<Longrightarrow> opened_runtimes sv' = opened_runtimes sv"
  by (simp add: evolves_def registry_evolves_def opened_runtimes_def)

lemma admitted_owner: "admitted_row db rt \<Longrightarrow> owner_view db (ar_RuntimeID rt) = Some (ar_UserID rt, ar_Source rt)"
  by (auto simp: admitted_row_def owner_view_def)

lemma Register_refused: "Register r rt now = (r', Inl e) \<Longrightarrow> r' = r"
  by (auto simp: Register_unfold split: if_splits)

lemma with_registry_same [simp]: "with_registry (\<lambda>_. sv_registry sv) sv = sv"
  by (simp add: with_registry_def)

lemma sv_registry_with [simp]: "sv_registry (with_registry f sv) = f (sv_registry sv)" "sv_db (with_registry f sv) = sv_db sv"
  "sv_cmds (with_registry f sv) = sv_cmds sv" "sv_replay (with_registry f sv) = sv_replay sv" "cs_window (sv_chan (with_registry f sv)) = cs_window (sv_chan sv)"
  by (simp_all add: with_registry_def)

text \<open>A connection either leaves before it is registered, or it is registered on top of what went before.\<close>
lemma open_channel_cases:
  assumes "open_channel env peer first sv = (sv', r)"
  obtains (refused) e where "evolves sv sv'" "r = Inl e"
  | (registered) sv1 sv2 rt token expiresAt reg i where "authenticateFirstFrame env first (case peer of Inr p \<Rightarrow> p | Inl _ \<Rightarrow> None) sv = (sv1, Inr (rt, token, expiresAt))"
      "recordConnectionOwner env (ar_RuntimeID rt) (ar_AuthenticatedAt rt) sv1 = (sv2, Inr ())" "evolves sv sv1" "evolves sv1 sv2"
      "Register (sv_registry sv2) rt (ce_now env) = (reg, Inr i)"
      "sv' = fst (send_on i (hello_ack_frame (ar_RuntimeID rt) token expiresAt) (with_registry (\<lambda>_. update_stream i (setSender (ce_send env)) reg) sv2))"
      "r = (case snd (send_on i (hello_ack_frame (ar_RuntimeID rt) token expiresAt) (with_registry (\<lambda>_. update_stream i (setSender (ce_send env)) reg) sv2)) of
          Some e \<Rightarrow> Inl (unavailable ''send runtime hello ack'' e) | None \<Rightarrow> Inr \<lparr>cn_stream = i, cn_runtime = rt\<rparr>)"
proof (cases peer)
  case (Inl e)
  then show ?thesis using assms by (intro refused) (auto simp: open_channel_def)
next
  case (Inr p)
  obtain sv1 a where a: "authenticateFirstFrame env first p sv = (sv1, a)" by force
  have e1: "evolves sv sv1" using evolves_authenticate [of sv env first p] a by simp
  show ?thesis
  proof (cases a)
    case (Inl e)
    then show ?thesis using assms \<open>peer = Inr p\<close> a e1 by (intro refused) (auto simp: open_channel_def)
  next
    case a': (Inr x)
    obtain rt token expiresAt where x: "x = (rt, token, expiresAt)" by (cases x)
    obtain sv2 o2 where o: "recordConnectionOwner env (ar_RuntimeID rt) (ar_AuthenticatedAt rt) sv1 = (sv2, o2)" by force
    have e12: "evolves sv1 sv2" using evolves_owner [OF evolves_refl [of sv1], of env "ar_RuntimeID rt" "ar_AuthenticatedAt rt"] o by simp
    have e2: "evolves sv sv2" using evolves_owner [OF e1, of env "ar_RuntimeID rt" "ar_AuthenticatedAt rt"] o by simp
    show ?thesis
    proof (cases o2)
      case (Inl e)
      then show ?thesis using assms \<open>peer = Inr p\<close> a a' x o e2 by (intro refused) (auto simp: open_channel_def)
    next
      case (Inr u)
      obtain reg g where g: "Register (sv_registry sv2) rt (ce_now env) = (reg, g)" by force
      show ?thesis
      proof (cases g)
        case gl: (Inl e)
        have reg: "reg = sv_registry sv2" using Register_refused g gl by blast
        have same: "with_registry (\<lambda>_. reg) sv2 = sv2" unfolding reg by simp
        have "\<exists>e'. open_channel env peer first sv = (sv2, Inl e')"
          unfolding open_channel_def \<open>peer = Inr p\<close> sum.case a a' x o Inr g gl prod.case old.unit.case same by (simp split: unit.split)
        then show ?thesis using assms e2 refused by auto
      next
        case gi: (Inr i)
        let ?S = "send_on i (hello_ack_frame (ar_RuntimeID rt) token expiresAt) (with_registry (\<lambda>_. update_stream i (setSender (ce_send env)) reg) sv2)"
        obtain s e where S: "?S = (s, e)" by force
        have "open_channel env peer first sv =
            (fst ?S, case snd ?S of Some e \<Rightarrow> Inl (unavailable ''send runtime hello ack'' e) | None \<Rightarrow> Inr \<lparr>cn_stream = i, cn_runtime = rt\<rparr>)"
          unfolding open_channel_def \<open>peer = Inr p\<close> sum.case a a' x o Inr g gi prod.case old.unit.case S fst_conv snd_conv
          by (cases e) (simp_all split: unit.split)
        then have r: "sv' = fst ?S" "r = (case snd ?S of Some e \<Rightarrow> Inl (unavailable ''send runtime hello ack'' e) | None \<Rightarrow> Inr \<lparr>cn_stream = i, cn_runtime = rt\<rparr>)"
          using assms by (simp_all only: prod.inject)
        have au: "authenticateFirstFrame env first (case peer of Inr p \<Rightarrow> p | Inl _ \<Rightarrow> None) sv = (sv1, Inr (rt, token, expiresAt))"
          using a a' x \<open>peer = Inr p\<close> by (simp only: sum.case)
        have ow: "recordConnectionOwner env (ar_RuntimeID rt) (ar_AuthenticatedAt rt) sv1 = (sv2, Inr ())" using o Inr by simp
        show ?thesis by (rule registered [OF au ow e1 e12 g [unfolded gi] r])
      qed
    qed
  qed
qed

lemma service_inv_register:
  assumes "service_inv sv" "owner_view (sv_db sv) (ar_RuntimeID rt) = Some (ar_UserID rt, ar_Source rt)" "Register (sv_registry sv) rt now = (reg, Inr i)"
  shows "service_inv (with_registry (\<lambda>_. reg) sv)" "opened_runtimes (with_registry (\<lambda>_. reg) sv) = opened_runtimes sv @ [rt]"
    "i = length (opened_runtimes sv)"
proof -
  have r: "registry_inv (sv_registry sv)" using assms(1) by (simp add: service_inv_def)
  note f = Register_cases [OF r assms(3)]
  show "service_inv (with_registry (\<lambda>_. reg) sv)"
    using assms(1,2) f(1,6) by (auto simp: service_inv_def streams_owned_def)
  show "opened_runtimes (with_registry (\<lambda>_. reg) sv) = opened_runtimes sv @ [rt]" "i = length (opened_runtimes sv)"
    using f by (simp_all add: opened_runtimes_def)
qed

lemma evolves_set_sender: "evolves sv (with_registry (update_stream i (setSender f)) sv)"
  by (rule evolves_with_registry [OF evolves_refl]) (rule registry_op_evolves [of _ _ "Op_SetSender i f"]; simp add: update_stream_runtimes)

lemma open_channel_inv:
  assumes "service_inv sv" "open_channel env peer first sv = (sv', r)"
  shows "service_inv sv'" "\<exists>rts. opened_runtimes sv' = opened_runtimes sv @ rts" "r = Inr c \<Longrightarrow> conn_ok sv' c"
proof -
  have all: "service_inv sv' \<and> (\<exists>rts. opened_runtimes sv' = opened_runtimes sv @ rts) \<and> (\<forall>c. r = Inr c \<longrightarrow> conn_ok sv' c)"
    using assms(2)
  proof (cases rule: open_channel_cases)
    case (refused e)
    then show ?thesis using evolves_inv [OF refused(1) assms(1)] evolves_opened [OF refused(1)] by auto
  next
    case (registered sv1 sv2 rt token expiresAt reg i)
    let ?s2 = "with_registry (\<lambda>_. reg) sv2" and ?s3 = "with_registry (\<lambda>_. update_stream i (setSender (ce_send env)) reg) sv2"
    have inv1: "service_inv sv1" by (rule evolves_inv [OF registered(3) assms(1)])
    then have inv2: "service_inv sv2" by (rule evolves_inv [OF registered(4)])
    have "owner_view (sv_db sv1) (ar_RuntimeID rt) = Some (ar_UserID rt, ar_Source rt)"
      by (rule admitted_owner [OF authenticate_row [OF registered(1)]])
    then have o: "owner_view (sv_db sv2) (ar_RuntimeID rt) = Some (ar_UserID rt, ar_Source rt)"
      using owners.frozen_star registered(4) inv1 by (auto simp: evolves_def service_inv_def)
    note reg = service_inv_register [OF inv2 o registered(5)]
    have "evolves ?s2 ?s3" using evolves_set_sender [of ?s2 i "ce_send env"] by (simp add: with_registry_def)
    then have e: "evolves ?s2 sv'" unfolding registered(6) by (rule evolves_send)
    have op: "opened_runtimes sv' = opened_runtimes sv @ [rt]"
      using evolves_opened [OF e] reg(2) evolves_opened [OF evolves_trans [OF registered(3,4)]] by simp
    have "i = length (opened_runtimes sv)" using reg(3) evolves_opened [OF evolves_trans [OF registered(3,4)]] by simp
    then have "\<forall>c. r = Inr c \<longrightarrow> conn_ok sv' c" using op registered(7) by (auto simp: conn_ok_iff nth_append split: option.splits)
    then show ?thesis using evolves_inv [OF e reg(1)] op by blast
  qed
  then show "service_inv sv'" "\<exists>rts. opened_runtimes sv' = opened_runtimes sv @ rts" "r = Inr c \<Longrightarrow> conn_ok sv' c" by blast+
qed

section \<open>The deliveries and calls\<close>

lemma evolves_chan:
  assumes "registry_evolves (cs_registry (sv_chan sv)) (cs_registry ch)" "window_evolves (cs_window (sv_chan sv)) (cs_window ch)"
  shows "evolves sv (sv\<lparr>sv_chan := ch\<rparr>)"
  using assms by (simp add: evolves_def)

lemma send_at_evolves: "registry_evolves (cs_registry c) (cs_registry (fst (send_at i fr c)))" "cs_window (fst (send_at i fr c)) = cs_window c"
proof -
  show "registry_evolves (cs_registry c) (cs_registry (fst (send_at i fr c)))"
    unfolding send_at_def by (simp, rule registry_op_evolves [of _ _ "Op_Send i fr"]) (simp_all add: update_stream_runtimes)
qed (simp add: send_at_def)

lemma enqueue_evolves: "dw_enqueue s k p at w = (w', r) \<Longrightarrow> window_evolves w w'"
  unfolding window_evolves_def by (rule exI [of _ "[W_Enqueue s k p at]"]) simp

lemma deliveries_evolve:
  "evolves sv (sv\<lparr>sv_chan := fst (DeliverLiveKlineBatch transfer at lb (sv_chan sv))\<rparr>)"
  "evolves sv (sv\<lparr>sv_chan := fst (DeliverOrderLifecycleBatch ob (sv_chan sv))\<rparr>)"
  "evolves sv (sv\<lparr>sv_chan := fst (DeliverDatasetChunk at dc (sv_chan sv))\<rparr>)"
proof -
  have s: "registry_evolves (cs_registry c) (cs_registry (fst (send_at i fr (c\<lparr>cs_window := w\<rparr>))))" for c i fr w
    using send_at_evolves(1) [of "c\<lparr>cs_window := w\<rparr>" i fr] by simp
  show "evolves sv (sv\<lparr>sv_chan := fst (DeliverLiveKlineBatch transfer at lb (sv_chan sv))\<rparr>)"
    by (rule evolves_chan) (auto simp: DeliverLiveKlineBatch_def Let_def s send_at_evolves dest: enqueue_evolves
        split: prod.split sum.split option.split)
  show "evolves sv (sv\<lparr>sv_chan := fst (DeliverOrderLifecycleBatch ob (sv_chan sv))\<rparr>)"
    by (rule evolves_chan) (auto simp: DeliverOrderLifecycleBatch_def Let_def send_at_evolves split: option.split)
  show "evolves sv (sv\<lparr>sv_chan := fst (DeliverDatasetChunk at dc (sv_chan sv))\<rparr>)"
    by (rule evolves_chan) (auto simp: DeliverDatasetChunk_def Let_def s send_at_evolves dest: enqueue_evolves
        split: prod.split sum.split option.split)
qed

lemma evolves_register_call [evolve]: "evolves a sv \<Longrightarrow> evolves a (with_registry (update_stream i (\<lambda>s. snd (registerCall cid s))) sv)"
  by (erule evolves_with_registry) (rule registry_op_evolves [of _ _ "Op_RegisterCall i cid"]; simp add: update_stream_runtimes)

lemma evolves_unregister_call [evolve]: "evolves a sv \<Longrightarrow> evolves a (with_registry (update_stream i (unregisterCall cid)) sv)"
  by (erule evolves_with_registry) (rule registry_op_evolves [of _ _ "Op_UnregisterCall i cid"]; simp add: update_stream_runtimes)

lemma calls_evolve: "evolves sv (fst (start_call i cid fr sv))" "evolves sv (end_call i cid sv)"
  by (simp_all add: start_call_def end_call_def split_beta evolve split: option.split)

lemma dispatch_evolves: "evolves sv (fst (DispatchNextRuntimeCommand env rid n sv))"
  by (simp add: DispatchNextRuntimeCommand_def fail_command_def split_beta evolve split: sum.split option.split)

section \<open>The invariant of all connections\<close>

definition world_inv :: "chan_world \<Rightarrow> bool" where
  "world_inv w \<longleftrightarrow> service_inv (fst w) \<and> (\<forall>c\<in>set (snd w). conn_ok (fst w) c)"

lemma conn_ok_grows: "opened_runtimes sv' = opened_runtimes sv @ rts \<Longrightarrow> conn_ok sv c \<Longrightarrow> conn_ok sv' c"
  by (auto simp: conn_ok_iff nth_append)

lemma world_evolves: "evolves sv sv' \<Longrightarrow> set cs' \<subseteq> set cs \<Longrightarrow> world_inv (sv, cs) \<Longrightarrow> world_inv (sv', cs')"
  using evolves_inv evolves_opened conn_ok_grows [of sv' sv "[]"] unfolding world_inv_def by fastforce

lemma world_step: "chan_step w w' \<Longrightarrow> world_inv w \<Longrightarrow> world_inv w'"
proof (induction rule: chan_step.induct)
  case (opened env peer first sv sv' c cs)
  then have i: "service_inv sv" by (simp add: world_inv_def)
  show ?case using open_channel_inv [OF i opened(1)] opened(2) conn_ok_grows by (fastforce simp: world_inv_def)
next
  case (refused env peer first sv sv' e cs)
  then have i: "service_inv sv" by (simp add: world_inv_def)
  show ?case using open_channel_inv(1,2) [OF i refused(1)] refused(2) conn_ok_grows by (fastforce simp: world_inv_def)
next
  case (served c cs ev env sv sv')
  have "evolves sv sv'" using evolves_event [OF evolves_refl [of sv], of env c ev] served(3) by simp
  then show ?case by (rule world_evolves [OF _ _ served(4)]) simp
next
  case (returned c cs ev sv env sv' r)
  have "evolves sv sv'" using evolves_event [OF evolves_refl [of sv], of env c ev] returned(3) by simp
  then have "evolves sv (close_channel env c sv')" by (rule evolves_close)
  then show ?case by (rule world_evolves [OF _ _ returned(4)]) (simp add: set_remove1_subset)
next
  case (tables sv db cs)
  have "evolves sv (sv\<lparr>sv_db := db\<rparr>)" by (rule evolves_set_db [OF evolves_refl r_into_rtranclp [of runtime_step, OF tables(1)]])
  then show ?case by (rule world_evolves [OF _ _ tables(2)]) simp
next
  case (commands compact sv t cs)
  have "command_evolves (sv_cmds sv) t" unfolding command_evolves_def using commands(1) by blast
  then have "evolves sv (sv\<lparr>sv_cmds := t\<rparr>)" by (simp add: evolves_def)
  then show ?case by (rule world_evolves [OF _ _ commands(2)]) simp
qed (erule world_evolves [rotated 2], (rule evolve deliveries_evolve calls_evolve dispatch_evolves evolves_refl | simp)+)+

lemma world_steps: "chan_step\<^sup>*\<^sup>* w w' \<Longrightarrow> world_inv w \<Longrightarrow> world_inv w'"
  by (induction rule: rtranclp_induct) (auto intro: world_step)

end
