(* ===== verification/ChannelClaims.thy ===== *)
theory ChannelClaims
  imports ChannelWorld
begin

text \<open>
  What the connections of an instance promise: an established connection has a live row, a lease for the token
  it was told and an open registered stream; no frame of an ended runtime has an effect. And what goes
  wrong: the handler that a reconnect supersedes closes its successor, and a late reply to a command
  whose caller has gone ends the connection.
\<close>

section \<open>The lease of an admission\<close>

definition told_lease :: "chan_env \<Rightarrow> auth_runtime \<Rightarrow> string \<Rightarrow> runtime_db \<Rightarrow> bool" where
  "told_lease env rt token db \<longleftrightarrow> (\<exists>l\<in>set (rt_leases db). cl_runtime_id l = ar_RuntimeID rt \<and> cl_user_id l = ar_UserID rt \<and>
     cl_hash l = hashRuntimeChannelToken env token \<and> active_lease l \<and> cl_expires_at l = ce_now env + runtimeChannelLeaseTTL)"

lemma told_lease_leases: "rt_leases db' = rt_leases db \<Longrightarrow> told_lease env rt token db' = told_lease env rt token db"
  by (simp add: told_lease_def)

lemma fill_lease_facts:
  "cl_runtime_id (fill_lease w l) = cl_runtime_id l" "cl_user_id (fill_lease w l) = cl_user_id l" "cl_hash (fill_lease w l) = cl_hash l"
  "cl_revoked_at (fill_lease w l) = cl_revoked_at l"
  "cl_issued_at l = w \<Longrightarrow> cl_expires_at l = w + 24 * hour \<Longrightarrow> cl_expires_at (fill_lease w l) = w + 24 * hour"
  by (simp_all add: fill_lease_def Let_def)

lemma stored_lease:
  assumes "CreateRuntimeChannelLease w l0 db = (db', Inr ())"
  shows "\<exists>l\<in>set (rt_leases db'). \<exists>c. l = (fill_lease w l0)\<lparr>cl_created_at := c\<rparr>"
proof -
  let ?l = "fill_lease w l0"
  show ?thesis
  proof (cases "row cl_runtime_id (rt_leases db) (cl_runtime_id ?l)")
    case None
    then have "rt_leases db' = rt_leases db @ [?l]"
      using assms by (auto simp: CreateRuntimeChannelLease_def Let_def conflict_def report_write_Inr write_leases_def split: if_splits sum.splits)
    then show ?thesis by (intro bexI [of _ ?l] exI [of _ "cl_created_at ?l"]) simp_all
  next
    case (Some x)
    then have "rt_leases db' = update_where (\<lambda>x. cl_runtime_id x = cl_runtime_id ?l) (\<lambda>x. ?l\<lparr>cl_created_at := cl_created_at x\<rparr>) (rt_leases db)"
      using assms by (auto simp: CreateRuntimeChannelLease_def Let_def conflict_def report_write_Inr write_leases_def split: if_splits sum.splits)
    moreover have "x \<in> set (rt_leases db)" "cl_runtime_id x = cl_runtime_id ?l" using row_SomeD [OF Some] by simp_all
    ultimately show ?thesis by (auto simp: set_update_where intro: rev_bexI)
  qed
qed

lemma issue_lease:
  assumes "issueRuntimeChannelLease env rt sv = (sv', Inr (token, expiresAt))"
  shows "told_lease env rt token (sv_db sv')" "expiresAt = ce_now env + runtimeChannelLeaseTTL"
proof -
  let ?l = "\<lparr>cl_runtime_id = ar_RuntimeID rt, cl_user_id = ar_UserID rt, cl_key_id = ar_KeyID rt,
     cl_hash = hashRuntimeChannelToken env token, cl_issued_at = ce_now env, cl_expires_at = ce_now env + runtimeChannelLeaseTTL, cl_last_used_at = None,
     cl_revoked_at = None, cl_created_at = ce_now env, cl_updated_at = ce_now env\<rparr>"
  have c: "CreateRuntimeChannelLease (ce_now env) ?l (sv_db sv) = (sv_db sv', Inr ())" and e: "expiresAt = ce_now env + runtimeChannelLeaseTTL"
    using assms by (auto simp: issueRuntimeChannelLease_def Let_def with_db_def split: sum.splits prod.splits unit.splits)
  show "expiresAt = ce_now env + runtimeChannelLeaseTTL" by (rule e)
  obtain x k where x: "x \<in> set (rt_leases (sv_db sv'))" "x = (fill_lease (ce_now env) ?l)\<lparr>cl_created_at := k\<rparr>" using stored_lease [OF c] by blast
  then show "told_lease env rt token (sv_db sv')"
    unfolding told_lease_def by (intro bexI [OF _ x(1)]) (simp add: fill_lease_facts active_lease_def runtimeChannelLeaseTTL_def)
qed

lemma rotated_leases:
  assumes "RotateRuntimeChannelLease rid h h' expiresAt at db = (db', Inr ())"
  shows "rt_leases db' = update_where (current_lease rid h at)
    (\<lambda>l. l\<lparr>cl_hash := h', cl_expires_at := expiresAt, cl_last_used_at := Some at, cl_updated_at := at\<rparr>) (rt_leases db)"
  using assms by (auto simp: RotateRuntimeChannelLease_def conflict_def missing_def report_write_Inr write_leases_def split: if_splits sum.splits)

lemma resume_lease:
  assumes "verifyResume env res sv = (sv', Inr (rt, token, expiresAt))"
  shows "told_lease env rt token (sv_db sv')" "expiresAt = ce_now env + runtimeChannelLeaseTTL"
proof -
  let ?rid = "trim_space (rs_runtime_id res)" and ?h = "hashRuntimeChannelToken env (resume_token res)"
  obtain r where r: "fingerprint_runtime ''runtime resume token is invalid'' ''lookup runtime resume token'' ''runtime resume token does not match runtime_id''
      (ce_now env) ?rid ?h (sv_db sv) = Inr r"
    "rotateRuntimeFingerprintWithHash env ?rid ?h sv = (sv', Inr (token, expiresAt))" "rt = auth_of_runtime r (ce_now env)"
    using assms by (auto simp: verifyResume_def Let_def split: if_splits sum.splits prod.splits)
  have c: "RotateRuntimeChannelLease ?rid ?h (hashRuntimeChannelToken env token) (ce_now env + runtimeChannelLeaseTTL) (ce_now env) (sv_db sv)
      = (sv_db sv', Inr ())" and e: "expiresAt = ce_now env + runtimeChannelLeaseTTL"
    using r(2) by (auto simp: rotateRuntimeFingerprintWithHash_def Let_def with_db_def split: sum.splits prod.splits unit.splits)
  show "expiresAt = ce_now env + runtimeChannelLeaseTTL" by (rule e)
  note f = fingerprint_row [OF r(1)]
  obtain l where l: "l \<in> set (rt_leases (sv_db sv))" "cl_runtime_id l = ?rid" "cl_hash l = ?h" "lease_valid (ce_now env) l" "UserID r = cl_user_id l"
    using f(3) by blast
  then have cur: "current_lease ?rid ?h (ce_now env) l" by (simp add: current_lease_def lease_valid_def active_lease_def)
  let ?f = "\<lambda>l. l\<lparr>cl_hash := hashRuntimeChannelToken env token, cl_expires_at := ce_now env + runtimeChannelLeaseTTL,
      cl_last_used_at := Some (ce_now env), cl_updated_at := ce_now env\<rparr>"
  have "rt_leases (sv_db sv') = update_where (current_lease ?rid ?h (ce_now env)) ?f (rt_leases (sv_db sv))"
    by (rule rotated_leases [OF c])
  then have m: "?f l \<in> set (rt_leases (sv_db sv'))" using l(1) cur by (auto simp: set_update_where)
  have "RuntimeID r = ?rid" using row_SomeD [OF f(1)] by simp
  then show "told_lease env rt token (sv_db sv')"
    unfolding told_lease_def using l by (intro bexI [OF _ m]) (simp add: r(3) auth_of_runtime_def active_lease_def lease_valid_def)
qed

lemma authenticate_lease:
  assumes "authenticateFirstFrame env first peer sv = (sv', Inr (rt, token, expiresAt))"
  shows "told_lease env rt token (sv_db sv') \<and> expiresAt = ce_now env + runtimeChannelLeaseTTL"
proof -
  consider h where "authenticateHello env h peer sv = (sv', Inr (rt, token, expiresAt))"
    | res where "authenticateResume env res peer sv = (sv', Inr (rt, token, expiresAt))"
    using assms by (auto simp: authenticateFirstFrame_def split: if_splits payload.splits)
  then show ?thesis
  proof cases
    case 1
    then obtain s2 where "issueRuntimeChannelLease env rt s2 = (sv', Inr (token, expiresAt))"
      by (auto simp: authenticateHello_def Let_def split: sum.splits prod.splits option.splits unit.splits)
    then show ?thesis using issue_lease by blast
  next
    case 2
    then show ?thesis using resume_lease by (auto simp: authenticateResume_def split: sum.splits prod.splits option.splits)
  qed
qed

section \<open>An established connection\<close>

lemma send_runtimes: "rg_streams (sv_registry (fst (send_on i fr sv))) = rg_streams (sv_registry sv)" "sv_db (fst (send_on i fr sv)) = sv_db sv"
  by (simp_all add: send_on_registry update_stream_def)

lemma send_sent: "snd (send_on i fr sv) = None \<Longrightarrow> i < length (rg_store (sv_registry sv)) \<Longrightarrow>
    st_sent (stream_at (sv_registry (fst (send_on i fr sv))) i) = st_sent (stream_at (sv_registry sv) i) @ [fr]"
  by (auto simp: send_on_def send_at_def split_beta update_stream_def sendFrame_def split: option.splits if_splits)

lemma drop_old_length [simp]: "length (rg_store (drop_old r rid)) = length (rg_store r)"
  by (simp add: drop_old_def split: option.split)

lemma Register_store: "Register r rt now = (r', Inr i) \<Longrightarrow> stream_at r' i = newRuntimeStream rt now"
  by (auto simp: Register_unfold add_stream_def Let_def nth_append split: if_splits)

lemma owner_write:
  assumes "RecordRuntimeConnectionOwner now rid inst at db = (db', Inr ())"
  shows "rt_rows db' = update_where (\<lambda>r. RuntimeID r = rid \<and> live r)
      (\<lambda>r. r\<lparr>OwnerAcquiredAt := (if OwnerInstanceID r = inst then coalesce (OwnerAcquiredAt r) at else Some at),
             OwnerInstanceID := inst, OwnerHeartbeatAt := Some at, UpdatedAt := now\<rparr>) (rt_rows db)" "rt_leases db' = rt_leases db"
  using assms
  by (auto simp: RecordRuntimeConnectionOwner_def update_existing_def update_runtimes_Inr conflict_def missing_def split: if_splits sum.splits)

lemma owner_recorded:
  assumes "recordConnectionOwner env rid at sv = (sv', Inr ())" "row RuntimeID (rt_rows (sv_db sv)) rid = Some r" "live r"
  shows "\<exists>r'. row RuntimeID (rt_rows (sv_db sv')) rid = Some r' \<and> live r' \<and> (ce_instance env \<noteq> '''' \<longrightarrow> OwnerInstanceID r' = ce_instance env)"
    "rt_leases (sv_db sv') = rt_leases (sv_db sv)"
proof -
  let ?f = "\<lambda>r. r\<lparr>OwnerAcquiredAt := (if OwnerInstanceID r = ce_instance env then coalesce (OwnerAcquiredAt r) at else Some at),
             OwnerInstanceID := ce_instance env, OwnerHeartbeatAt := Some at, UpdatedAt := ce_db_now env\<rparr>"
  have id: "RuntimeID r = rid" using row_SomeD [OF assms(2)] by simp
  show "\<exists>r'. row RuntimeID (rt_rows (sv_db sv')) rid = Some r' \<and> live r' \<and> (ce_instance env \<noteq> '''' \<longrightarrow> OwnerInstanceID r' = ce_instance env)"
  proof (cases "ce_instance env = ''''")
    case True
    then show ?thesis using assms by (simp add: recordConnectionOwner_def)
  next
    case False
    then have w: "RecordRuntimeConnectionOwner (ce_db_now env) rid (ce_instance env) at (sv_db sv) = (sv_db sv', Inr ())"
      using assms(1) by (auto simp: recordConnectionOwner_def with_db_def split: prod.splits)
    then have "rt_rows (sv_db sv') = update_where (\<lambda>r. RuntimeID r = rid \<and> live r) ?f (rt_rows (sv_db sv))"
      by (rule owner_write)
    then show ?thesis using assms(2,3) id by (simp add: row_update)
  qed
  show "rt_leases (sv_db sv') = rt_leases (sv_db sv)"
  proof (cases "ce_instance env = ''''")
    case False
    then have "RecordRuntimeConnectionOwner (ce_db_now env) rid (ce_instance env) at (sv_db sv) = (sv_db sv', Inr ())"
      using assms(1) by (auto simp: recordConnectionOwner_def with_db_def split: prod.splits)
    then show ?thesis by (rule owner_write)
  qed (use assms(1) in \<open>simp add: recordConnectionOwner_def\<close>)
qed

lemma open_channel_facts:
  assumes "service_inv sv" "open_channel env peer first sv = (sv', Inr c)"
  shows "gm_get (rg_streams (sv_registry sv')) (ar_RuntimeID (cn_runtime c)) = Some (cn_stream c)" "cn_stream c = length (rg_store (sv_registry sv))"
    "\<exists>r. row RuntimeID (rt_rows (sv_db sv')) (ar_RuntimeID (cn_runtime c)) = Some r \<and> live r \<and> (ce_instance env \<noteq> '''' \<longrightarrow> OwnerInstanceID r = ce_instance env)"
    "\<exists>token. st_sent (stream_at (sv_registry sv') (cn_stream c)) =
        [hello_ack_frame (ar_RuntimeID (cn_runtime c)) token (ce_now env + runtimeChannelLeaseTTL)] \<and> told_lease env (cn_runtime c) token (sv_db sv')"
proof -
  have all: "gm_get (rg_streams (sv_registry sv')) (ar_RuntimeID (cn_runtime c)) = Some (cn_stream c) \<and> cn_stream c = length (rg_store (sv_registry sv)) \<and>
    (\<exists>r. row RuntimeID (rt_rows (sv_db sv')) (ar_RuntimeID (cn_runtime c)) = Some r \<and> live r \<and> (ce_instance env \<noteq> '''' \<longrightarrow> OwnerInstanceID r = ce_instance env)) \<and>
    (\<exists>token. st_sent (stream_at (sv_registry sv') (cn_stream c)) =
        [hello_ack_frame (ar_RuntimeID (cn_runtime c)) token (ce_now env + runtimeChannelLeaseTTL)] \<and> told_lease env (cn_runtime c) token (sv_db sv'))"
    using assms(2)
  proof (cases rule: open_channel_cases)
    case (registered sv1 sv2 rt token expiresAt reg i)
    let ?s3 = "with_registry (\<lambda>_. update_stream i (setSender (ce_send env)) reg) sv2" and ?fr = "hello_ack_frame (ar_RuntimeID rt) token expiresAt"
    have ok: "snd (send_on i ?fr ?s3) = None" and c: "c = \<lparr>cn_stream = i, cn_runtime = rt\<rparr>" using registered(7) by (auto split: option.splits)
    have inv2: "service_inv sv2" using evolves_inv [OF evolves_trans [OF registered(3,4)] assms(1)] .
    then have ri: "registry_inv (sv_registry sv2)" by (simp add: service_inv_def)
    note rc = Register_cases [OF ri registered(5)]
    have "length (rg_store (sv_registry sv2)) = length (rg_store (sv_registry sv))"
      using evolves_opened [OF evolves_trans [OF registered(3,4)]] by (metis length_map opened_runtimes_def)
    then have i: "i = length (rg_store (sv_registry sv))" using rc(2) by simp
    have st: "gm_get (rg_streams (sv_registry sv')) (ar_RuntimeID rt) = Some i"
      unfolding registered(6) send_runtimes using rc(3) by (simp add: update_stream_def)
    obtain r where r: "row RuntimeID (rt_rows (sv_db sv1)) (ar_RuntimeID rt) = Some r" "live r"
      using authenticate_row [OF registered(1)] by (auto simp: admitted_row_def)
    have db: "sv_db sv' = sv_db sv2" unfolding registered(6) send_runtimes by simp
    note o = owner_recorded [OF registered(2) r]
    have l: "told_lease env rt token (sv_db sv')" "expiresAt = ce_now env + runtimeChannelLeaseTTL"
      using authenticate_lease [OF registered(1)] told_lease_leases [OF o(2)] db by auto
    have "stream_at reg i = newRuntimeStream rt (ce_now env)" by (rule Register_store [OF registered(5)])
    then have "st_sent (stream_at (sv_registry sv') i) = [?fr]"
      unfolding registered(6) using send_sent [OF ok] rc(4) by (simp add: update_stream_def setSender_def newRuntimeStream_def)
    then show ?thesis using st i o(1) db l c by auto
  qed simp
  then show "gm_get (rg_streams (sv_registry sv')) (ar_RuntimeID (cn_runtime c)) = Some (cn_stream c)" "cn_stream c = length (rg_store (sv_registry sv))"
    "\<exists>r. row RuntimeID (rt_rows (sv_db sv')) (ar_RuntimeID (cn_runtime c)) = Some r \<and> live r \<and> (ce_instance env \<noteq> '''' \<longrightarrow> OwnerInstanceID r = ce_instance env)"
    "\<exists>token. st_sent (stream_at (sv_registry sv') (cn_stream c)) =
        [hello_ack_frame (ar_RuntimeID (cn_runtime c)) token (ce_now env + runtimeChannelLeaseTTL)] \<and> told_lease env (cn_runtime c) token (sv_db sv')"
    by blast+
qed

section \<open>A connection to look at\<close>

definition channel_db :: runtime_db where
  "channel_db = joined_db\<lparr>rt_leases := [\<lparr>cl_runtime_id = ''rt1'', cl_user_id = 7, cl_key_id = ''k1'', cl_hash = b64_encode ''t1'',
     cl_issued_at = 10, cl_expires_at = 1000, cl_last_used_at = None, cl_revoked_at = None, cl_created_at = 10, cl_updated_at = 10\<rparr>]\<rparr>"

definition channel_env :: "go_time \<Rightarrow> string \<Rightarrow> chan_env" where
  "channel_env now random = \<lparr>ce_instance = ''cp1'', ce_hello = sample_env, ce_sha256 = (\<lambda>t. t), ce_now = now, ce_db_now = now,
     ce_random = Some random, ce_send = (\<lambda>_. None), ce_compact = Some, ce_protojson = (\<lambda>_. None)\<rparr>"

definition resume_frame :: "string \<Rightarrow> runtime_frame" where
  "resume_frame fp = \<lparr>correlation_id = '''', frame_type = FT_RESUME, deadline_unix_ms = 0,
     payload = P_Resume \<lparr>rs_runtime_id = ''rt1'', rs_resume_token = '''', rs_fingerprint = fp\<rparr>\<rparr>"

definition channel_start :: channel_service where "channel_start = new_service channel_db []"
definition channel_first :: channel_service where
  "channel_first = fst (open_channel (channel_env 100 ''t2'') (Inr None) (resume_frame ''t1'') channel_start)"
definition channel_second :: channel_service where
  "channel_second = fst (open_channel (channel_env 200 ''t3'') (Inr None) (resume_frame (b64_encode ''t2'')) channel_first)"

lemma channel_opens:
  "\<exists>c. open_channel (channel_env 100 ''t2'') (Inr None) (resume_frame ''t1'') channel_start = (channel_first, Inr c) \<and> cn_stream c = 0 \<and>
     ar_RuntimeID (cn_runtime c) = ''rt1''"
  "\<exists>c. open_channel (channel_env 200 ''t3'') (Inr None) (resume_frame (b64_encode ''t2'')) channel_first = (channel_second, Inr c) \<and> cn_stream c = 1 \<and>
     ar_RuntimeID (cn_runtime c) = ''rt1''"
proof -
  have "case snd (open_channel (channel_env 100 ''t2'') (Inr None) (resume_frame ''t1'') channel_start) of Inl _ \<Rightarrow> False
     | Inr c \<Rightarrow> cn_stream c = 0 \<and> ar_RuntimeID (cn_runtime c) = ''rt1''" by code_simp
  then show "\<exists>c. open_channel (channel_env 100 ''t2'') (Inr None) (resume_frame ''t1'') channel_start = (channel_first, Inr c) \<and> cn_stream c = 0 \<and>
     ar_RuntimeID (cn_runtime c) = ''rt1''" by (auto simp: channel_first_def prod_eq_iff split: sum.splits)
  have "case snd (open_channel (channel_env 200 ''t3'') (Inr None) (resume_frame (b64_encode ''t2'')) channel_first) of Inl _ \<Rightarrow> False
     | Inr c \<Rightarrow> cn_stream c = 1 \<and> ar_RuntimeID (cn_runtime c) = ''rt1''" by code_simp
  then show "\<exists>c. open_channel (channel_env 200 ''t3'') (Inr None) (resume_frame (b64_encode ''t2'')) channel_first = (channel_second, Inr c) \<and> cn_stream c = 1 \<and>
     ar_RuntimeID (cn_runtime c) = ''rt1''" by (auto simp: channel_second_def prod_eq_iff split: sum.splits)
qed

lemma new_service_inv: "runtimes_ok db \<Longrightarrow> command_inv cmds \<Longrightarrow> service_inv (new_service db cmds)"
  by (simp add: service_inv_def new_service_def streams_owned_def NewReplayCache_inv NewRegistry_def [THEN arg_cong, of rg_store])

lemma channel_db_ok: "runtimes_ok channel_db"
  using runtimes.inv_star [OF joined_reachable empty_runtime_ok(1)] by (simp add: runtimes_ok_def channel_db_def)

lemma channel_start_inv: "service_inv channel_start"
  unfolding channel_start_def by (rule new_service_inv [OF channel_db_ok command_inv_Nil])

section \<open>The claims\<close>

text \<open>C3. Whatever connections are opened, served, closed and revoked on an instance, in any interleaving with
  deliveries, calls, dispatched commands and other writers of the same tables: the double index of the streams, the
  replay cache, the runtime registry and the command table keep their invariants, every running handler has the stream of
  its own runtime, and a stream found for a user is open and belongs to a registered runtime of that user.\<close>
theorem channel_world_invariant:
  assumes "chan_step\<^sup>*\<^sup>* (new_service db cmds, []) (sv, cs)" "runtimes_ok db" "command_inv cmds"
  shows "registry_inv (sv_registry sv) \<and> replay_inv (sv_replay sv) \<and> runtimes_ok (sv_db sv) \<and> command_inv (sv_cmds sv) \<and>
    (\<forall>c\<in>set cs. conn_ok sv c) \<and>
    (\<forall>uid rid i. FindByRuntimeID (sv_registry sv) uid rid = Some i \<longrightarrow> \<not> st_closed (stream_at (sv_registry sv) i) \<and>
       (\<exists>r. row RuntimeID (rt_rows (sv_db sv)) rid = Some r \<and> UserID r = uid))"
proof -
  have w: "world_inv (sv, cs)"
    by (rule world_steps [OF assms(1)]) (simp add: world_inv_def new_service_inv [OF assms(2,3)])
  then have r: "registry_inv (sv_registry sv)" and so: "streams_owned sv" by (simp_all add: world_inv_def service_inv_def)
  have "\<not> st_closed (stream_at (sv_registry sv) i) \<and> (\<exists>r. row RuntimeID (rt_rows (sv_db sv)) rid = Some r \<and> UserID r = uid)"
    if f: "FindByRuntimeID (sv_registry sv) uid rid = Some i" for uid rid i
  proof -
    have g: "gm_get (rg_streams (sv_registry sv)) rid = Some i" "ar_UserID (st_runtime (stream_at (sv_registry sv) i)) = uid"
      using f by (auto simp: FindByRuntimeID_def split: if_splits option.splits)
    then have i: "i < length (rg_store (sv_registry sv))" "ar_RuntimeID (st_runtime (stream_at (sv_registry sv) i)) = rid"
      using registry_invD(3,4) [OF r] by blast+
    then have "st_runtime (stream_at (sv_registry sv) i) \<in> set (map st_runtime (rg_store (sv_registry sv)))" by simp
    then have "owner_view (sv_db sv) rid = Some (uid, ar_Source (st_runtime (stream_at (sv_registry sv) i)))"
      using so i(2) g(2) unfolding streams_owned_def by metis
    then show ?thesis using registry_inv_open [OF r g(1)] by (auto simp: owner_view_def split: option.splits)
  qed
  then show ?thesis using w by (simp add: world_inv_def service_inv_def)
qed

theorem channel_world_invariant_witness:
  "runtimes_ok (sv_db channel_second) \<and> registry_inv (sv_registry channel_second)"
proof -
  obtain c1 where c1: "open_channel (channel_env 100 ''t2'') (Inr None) (resume_frame ''t1'') channel_start = (channel_first, Inr c1)"
    using channel_opens(1) by blast
  obtain c2 where c2: "open_channel (channel_env 200 ''t3'') (Inr None) (resume_frame (b64_encode ''t2'')) channel_first = (channel_second, Inr c2)"
    using channel_opens(2) by blast
  have "chan_step\<^sup>*\<^sup>* (new_service channel_db [], []) (channel_second, [c2, c1])"
    using chan_step.opened [OF c1, of "[]"] chan_step.opened [OF c2, of "[c1]"] unfolding channel_start_def
    by (meson rtranclp.rtrancl_into_rtrancl rtranclp.rtrancl_refl)
  from channel_world_invariant [OF this channel_db_ok command_inv_Nil] show ?thesis by blast
qed

text \<open>C2. A connection that is established (the handler entered its loop) is authentic in the registry: the
  runtime has a live row owned by this instance, its open stream is found for its user, the first
  frame sent on it is the HELLO_ACK, and the token told there is the one whose hash the stored lease of that runtime
  and user carries, for twenty-four hours.\<close>
theorem connection_established:
  assumes "service_inv sv" "open_channel env peer first sv = (sv', Inr c)" "ar_RuntimeID (cn_runtime c) \<noteq> ''''"
  shows "FindByRuntimeID (sv_registry sv') (ar_UserID (cn_runtime c)) (ar_RuntimeID (cn_runtime c)) = Some (cn_stream c) \<and>
    \<not> stream_closed c sv' \<and>
    (\<exists>r. row RuntimeID (rt_rows (sv_db sv')) (ar_RuntimeID (cn_runtime c)) = Some r \<and> UserID r = ar_UserID (cn_runtime c) \<and> live r \<and>
       (ce_instance env \<noteq> '''' \<longrightarrow> OwnerInstanceID r = ce_instance env)) \<and>
    (\<exists>token. st_sent (stream_at (sv_registry sv') (cn_stream c)) =
         [hello_ack_frame (ar_RuntimeID (cn_runtime c)) token (ce_now env + runtimeChannelLeaseTTL)] \<and>
       (\<exists>l\<in>set (rt_leases (sv_db sv')). cl_runtime_id l = ar_RuntimeID (cn_runtime c) \<and> cl_user_id l = ar_UserID (cn_runtime c) \<and>
          cl_hash l = hashRuntimeChannelToken env token \<and> active_lease l \<and> cl_expires_at l = ce_now env + runtimeChannelLeaseTTL))"
proof -
  note o = open_channel_inv [OF assms(1,2)] and f = open_channel_facts [OF assms(1,2)]
  have r: "registry_inv (sv_registry sv')" and so: "streams_owned sv'" using o(1) by (simp_all add: service_inv_def)
  have k: "conn_ok sv' c" using o(3) by simp
  then have rt: "st_runtime (stream_at (sv_registry sv') (cn_stream c)) = cn_runtime c"
    and len: "cn_stream c < length (rg_store (sv_registry sv'))" by (simp_all add: conn_ok_def)
  have mem: "cn_runtime c \<in> set (map st_runtime (rg_store (sv_registry sv')))" using nth_mem [OF len] rt by (metis image_eqI list.set_map)
  have "FindByRuntimeID (sv_registry sv') (ar_UserID (cn_runtime c)) (ar_RuntimeID (cn_runtime c)) = Some (cn_stream c)"
    using f(1) rt assms(3) by (simp add: FindByRuntimeID_def)
  moreover have "\<not> stream_closed c sv'" using registry_inv_open [OF r f(1)] by (simp add: stream_closed_def)
  moreover have "owner_view (sv_db sv') (ar_RuntimeID (cn_runtime c)) = Some (ar_UserID (cn_runtime c), ar_Source (cn_runtime c))"
    using so mem unfolding streams_owned_def by blast
  ultimately show ?thesis using f(3,4) by (auto simp: owner_view_def told_lease_def)
qed

theorem connection_established_witness:
  "FindByRuntimeID (sv_registry channel_first) 7 ''rt1'' = Some 0"
proof -
  have "case snd (open_channel (channel_env 100 ''t2'') (Inr None) (resume_frame ''t1'') channel_start) of Inl _ \<Rightarrow> False
     | Inr c \<Rightarrow> cn_stream c = 0 \<and> ar_RuntimeID (cn_runtime c) = ''rt1'' \<and> ar_UserID (cn_runtime c) = 7" by code_simp
  then obtain c where c: "open_channel (channel_env 100 ''t2'') (Inr None) (resume_frame ''t1'') channel_start = (channel_first, Inr c)"
    "cn_stream c = 0" "ar_RuntimeID (cn_runtime c) = ''rt1''" "ar_UserID (cn_runtime c) = 7"
    by (auto simp: channel_first_def prod_eq_iff split: sum.splits)
  show ?thesis using connection_established [OF channel_start_inv c(1)] c(2-4) by simp
qed

section \<open>Frames of an ended runtime\<close>

lemma heartbeat_ended:
  assumes "row RuntimeID (rt_rows (sv_db sv)) rid = Some r" "IsRuntimeTerminalStatus (RtStatus r)"
    "runtimes_ok (sv_db sv)"
  shows "recordHeartbeat env rid sv = (sv, Inl runtime_already_ended)"
proof -
  have "\<forall>r. row RuntimeID (rt_rows (sv_db sv)) rid = Some r \<longrightarrow> \<not> live r" using assms(1,2) by simp
  then have u: "UpdateRuntimeHeartbeat (ce_db_now env) rid (ce_now env) (sv_db sv) = (sv_db sv, missing)"
    using heartbeat_keeps_alive [OF assms(3)] by blast
  show ?thesis using assms by (simp add: recordHeartbeat_def with_db_def u missing_def GetRuntime_def select_one_row errors_Is_def)
qed

lemma fingerprint_ended:
  assumes "row RuntimeID (rt_rows db) rid = Some r" "IsRuntimeTerminalStatus (RtStatus r)"
  shows "\<exists>e. fingerprint_runtime a b c now rid hash db = Inl e"
  using assms by (auto simp: fingerprint_runtime_def GetRuntime_def select_one_row split: sum.split)

lemma refresh_ended:
  assumes "row RuntimeID (rt_rows (sv_db sv)) rid = Some r" "IsRuntimeTerminalStatus (RtStatus r)"
  shows "\<exists>e. refreshRuntimeFingerprint env rid fp sv = (sv, Inl e)"
proof -
  obtain e where "fingerprint_runtime ''runtime fingerprint is invalid'' ''lookup runtime fingerprint'' ''runtime fingerprint does not match runtime_id''
      (ce_now env) rid (hashRuntimeChannelToken env (trim_space fp)) (sv_db sv) = Inl e"
    using fingerprint_ended [OF assms] by blast
  then show ?thesis by (simp add: refreshRuntimeFingerprint_def Let_def)
qed

text \<open>C8. A runtime that has ended has no effect any more: whatever frame its connection receives, the handler
  returns with an error (\<open>FailedPrecondition\<close> for a valid frame other than a heartbeat), the tables, the
  window, the events and the tasks stay as they were, and of the stream only the time of the last frame can change.\<close>
theorem ended_runtime_frames_refused:
  assumes "service_inv sv" "row RuntimeID (rt_rows (sv_db sv)) (ar_RuntimeID (cn_runtime c)) = Some r" "IsRuntimeTerminalStatus (RtStatus r)"
  shows "(\<exists>e. snd (handle_frame env c f sv) = Returned (Some e) \<and>
      (validatePostHelloFrame f = None \<and> frame_type (the f) \<noteq> FT_HEARTBEAT \<longrightarrow> e = Status FailedPrecondition ''runtime already ended'')) \<and>
    (fst (handle_frame env c f sv) = sv \<or> fst (handle_frame env c f sv) = touch_conn env c sv)"
proof -
  have db: "sv_db (touch_conn env c sv) = sv_db sv" by (simp add: touch_conn_def)
  have ok: "runtimes_ok (sv_db (touch_conn env c sv))" using assms(1) db by (simp add: service_inv_def)
  have k: "keep_alive env c sv = (touch_conn env c sv, Some (Status FailedPrecondition ''runtime already ended''))"
    using heartbeat_ended [of "touch_conn env c sv", unfolded db, OF assms(2,3) ok [unfolded db], of env]
    by (simp add: keep_alive_def Let_def heartbeat_failure_def runtime_already_ended_def)
  obtain e where "refreshRuntimeFingerprint env (ar_RuntimeID (cn_runtime c)) (hb_fingerprint (payload (the f))) sv = (sv, Inl e)"
    using refresh_ended [OF assms(2,3)] by blast
  then have h: "handle_heartbeat env c (hb_fingerprint (payload (the f))) sv = (sv, Returned (Some e))" by (simp add: handle_heartbeat_def Let_def)
  show "(\<exists>e. snd (handle_frame env c f sv) = Returned (Some e) \<and>
      (validatePostHelloFrame f = None \<and> frame_type (the f) \<noteq> FT_HEARTBEAT \<longrightarrow> e = Status FailedPrecondition ''runtime already ended'')) \<and>
    (fst (handle_frame env c f sv) = sv \<or> fst (handle_frame env c f sv) = touch_conn env c sv)"
    using h by (cases f) (simp_all add: handle_frame_def Let_def k split: option.split)
qed

theorem ended_runtime_frames_refused_witness:
  "\<exists>e. snd (handle_frame (channel_env 300 ''t4'') \<lparr>cn_stream = 0, cn_runtime = auth_of_runtime sample_runtime 10\<rparr> None (new_service ended_db [])) = Returned (Some e)"
proof -
  have i: "service_inv (new_service ended_db [])"
    by (rule new_service_inv [OF runtimes.inv_star [OF ended_reachable empty_runtime_ok(1)] command_inv_Nil])
  let ?e = "end_row 20 ReasonUserCancelled 20 sample_runtime"
  have r: "row RuntimeID (rt_rows (sv_db (new_service ended_db []))) (ar_RuntimeID (cn_runtime \<lparr>cn_stream = 0, cn_runtime = auth_of_runtime sample_runtime 10\<rparr>)) = Some ?e"
    by (simp add: ended_db_value row_Cons end_row_def sample_runtime_def new_service_def auth_of_runtime_def)
  have "IsRuntimeTerminalStatus (RtStatus ?e)"
    by (simp add: end_row_def RuntimeTerminalStatusForReason_def IsRuntimeTerminalStatus_def)
  from ended_runtime_frames_refused [OF i r this] show ?thesis by blast
qed

section \<open>The handler a reconnect supersedes\<close>

lemma unique_same:
  assumes "runtimes_unique t" "\<And>r. RuntimeID (f r) = RuntimeID r" "\<And>r. UserID (f r) = UserID r" "\<And>r. Name (f r) = Name r"
    "\<And>r. CredentialKeyID (f r) = CredentialKeyID r" "\<And>r. Role (f r) = Role r" "\<And>r. RtStatus (f r) = RtStatus r"
  shows "runtimes_unique (update_where Q f t)"
  using assms unfolding runtimes_unique_def
  by (intro conjI keys_ok_update keys_ok_filter_update) (auto simp: named_def bound_def debugging_def)

lemma clear_owner:
  assumes "runtimes_ok db" "trim_space rid \<noteq> ''''" "trim_space inst \<noteq> ''''" "row RuntimeID (rt_rows db) rid = Some r"
  shows "\<exists>r'. row RuntimeID (rt_rows (fst (ClearRuntimeConnectionOwner now rid inst db))) rid = Some r' \<and>
    OwnerInstanceID r' = (if OwnerInstanceID r = inst then '''' else OwnerInstanceID r) \<and> RtStatus r' = RtStatus r"
proof -
  let ?Q = "\<lambda>r. RuntimeID r = rid \<and> OwnerInstanceID r = inst"
  let ?f = "\<lambda>r. r\<lparr>OwnerInstanceID := '''', OwnerAcquiredAt := None, OwnerHeartbeatAt := None, UpdatedAt := now\<rparr>"
  have "lifecycle_ok (?f r) = lifecycle_ok r" "owner_ok (?f r)" for r by (simp_all add: lifecycle_ok_def owner_ok_def)
  then have keep: "runtime_row_ok r \<Longrightarrow> runtime_row_ok (?f r)" for r by (simp add: runtime_row_ok_def)
  have "list_all runtime_row_ok (update_where ?Q ?f (rt_rows db))"
    using assms(1) keep by (fastforce simp: runtimes_ok_def list_all_iff set_update_where)
  moreover have "runtimes_unique (update_where ?Q ?f (rt_rows db))"
    by (rule unique_same) (use assms(1) in \<open>simp_all add: runtimes_ok_def\<close>)
  ultimately have "update_runtimes ?Q ?f db = Inr (db\<lparr>rt_rows := update_where ?Q ?f (rt_rows db)\<rparr>, filter ?Q (rt_rows db))"
    by (simp add: update_runtimes_Inr)
  moreover have "RuntimeID r = rid" using row_SomeD [OF assms(4)] by simp
  ultimately show ?thesis using assms by (simp add: ClearRuntimeConnectionOwner_def row_update)
qed

lemma Unregister_registered:
  assumes "registry_inv r" "gm_get (rg_streams r) rid = Some i"
  shows "gm_get (rg_streams (Unregister rid r)) rid = None" "st_closed (stream_at (Unregister rid r) i)"
proof -
  note i = registry_invD(3,4) [OF assms(1) assms(2)]
  show "gm_get (rg_streams (Unregister rid r)) rid = None"
    using assms(2) close_and_remove_streams [OF i(1)] i(2) by (simp add: Unregister_def)
  show "st_closed (stream_at (Unregister rid r) i)" using assms(2) i(1) by (simp add: Unregister_def)
qed

text \<open>C9. A runtime that reconnects to the same instance is cut off again: opening the new connection closes the
  stream of the old one, so the old handler returns, and its deferred clean-up, which names the runtime and not the
  connection, closes the new stream, unregisters it and clears the connection owner of a runtime that is still live.\<close>
theorem superseded_handler_closes_successor:
  assumes "service_inv sv" "conn_ok sv c1" "open_channel env peer first sv = (sv1, Inr c2)"
    and "ar_RuntimeID (cn_runtime c2) = ar_RuntimeID (cn_runtime c1)" "ce_instance env1 = ce_instance env"
    and "trim_space (ar_RuntimeID (cn_runtime c1)) \<noteq> ''''" "trim_space (ce_instance env) \<noteq> ''''"
  shows "stream_closed c1 sv1 \<and> \<not> stream_closed c2 sv1 \<and> stream_closed c2 (close_channel env1 c1 sv1) \<and>
    FindByRuntimeID (sv_registry (close_channel env1 c1 sv1)) uid (ar_RuntimeID (cn_runtime c1)) = None \<and>
    (\<exists>r. row RuntimeID (rt_rows (sv_db (close_channel env1 c1 sv1))) (ar_RuntimeID (cn_runtime c1)) = Some r \<and> live r \<and> OwnerInstanceID r = '''')"
proof -
  let ?rid = "ar_RuntimeID (cn_runtime c1)"
  note o = open_channel_inv [OF assms(1,3)] and f = open_channel_facts [OF assms(1,3), unfolded assms(4)]
  have r: "registry_inv (sv_registry sv1)" and db: "runtimes_ok (sv_db sv1)" using o(1) by (simp_all add: service_inv_def)
  obtain rts where "opened_runtimes sv1 = opened_runtimes sv @ rts" using o(2) by blast
  from conn_ok_grows [OF this assms(2)] have k: "cn_stream c1 < length (rg_store (sv_registry sv1))"
    "st_runtime (stream_at (sv_registry sv1) (cn_stream c1)) = cn_runtime c1" by (simp_all add: conn_ok_def)
  have "cn_stream c1 \<noteq> cn_stream c2" using assms(2) f(2) by (simp add: conn_ok_def)
  then have "stream_closed c1 sv1" using registry_invD(5) [OF r k(1)] k(2) f(1) by (simp add: stream_closed_def)
  moreover have "\<not> stream_closed c2 sv1" using registry_inv_open [OF r f(1)] by (simp add: stream_closed_def)
  moreover have reg: "sv_registry (close_channel env1 c1 sv1) = Unregister ?rid (sv_registry sv1)"
    by (simp add: close_channel_def Let_def with_db_def split_beta)
  moreover have "stream_closed c2 (close_channel env1 c1 sv1)" unfolding stream_closed_def reg by (rule Unregister_registered(2) [OF r f(1)])
  moreover have "FindByRuntimeID (sv_registry (close_channel env1 c1 sv1)) uid ?rid = None"
    unfolding reg FindByRuntimeID_def using Unregister_registered(1) [OF r f(1)] by simp
  moreover have "sv_db (close_channel env1 c1 sv1) = fst (ClearRuntimeConnectionOwner (ce_db_now env1) ?rid (ce_instance env) (sv_db sv1))"
    by (simp add: close_channel_def Let_def with_db_def split_beta assms(5))
  moreover obtain x where x: "row RuntimeID (rt_rows (sv_db sv1)) ?rid = Some x" "live x" "OwnerInstanceID x = ce_instance env"
    using f(3) assms(7) by auto
  moreover have "\<exists>r'. row RuntimeID (rt_rows (fst (ClearRuntimeConnectionOwner (ce_db_now env1) ?rid (ce_instance env) (sv_db sv1)))) ?rid = Some r' \<and>
      OwnerInstanceID r' = '''' \<and> RtStatus r' = RtStatus x"
    using clear_owner [OF db assms(6,7) x(1)] x(3) by simp
  ultimately show ?thesis by auto
qed

theorem superseded_handler_closes_successor_witness:
  "\<exists>c1 c2. stream_closed c1 channel_second \<and> \<not> stream_closed c2 channel_second \<and> stream_closed c2 (close_channel (channel_env 300 '''') c1 channel_second)"
proof -
  obtain c1 where c1: "open_channel (channel_env 100 ''t2'') (Inr None) (resume_frame ''t1'') channel_start = (channel_first, Inr c1)"
    "ar_RuntimeID (cn_runtime c1) = ''rt1''" using channel_opens(1) by blast
  obtain c2 where c2: "open_channel (channel_env 200 ''t3'') (Inr None) (resume_frame (b64_encode ''t2'')) channel_first = (channel_second, Inr c2)"
    "ar_RuntimeID (cn_runtime c2) = ''rt1''" using channel_opens(2) by blast
  note o = open_channel_inv [OF channel_start_inv c1(1)]
  have t: "trim_space ''rt1'' \<noteq> ''''" "trim_space ''cp1'' \<noteq> ''''" by (simp_all add: trim_eval)
  have "ce_instance (channel_env 300 '''') = ce_instance (channel_env 200 ''t3'')" "ce_instance (channel_env 200 ''t3'') = ''cp1''"
    by (simp_all add: channel_env_def)
  then show ?thesis
    using superseded_handler_closes_successor [OF o(1) o(3) c2(1), of c1 "channel_env 300 ''''" 7] c1(2) c2(2) t by auto
qed

section \<open>Late replies\<close>

lemma keep_alive_keeps:
  "keep_alive env c sv = (sv', None) \<Longrightarrow> sv_cmds sv' = sv_cmds sv \<and> sv_registry sv' = sv_registry (touch_conn env c sv)"
  by (auto simp: keep_alive_def Let_def recordHeartbeat_def recordConnectionOwner_def with_db_def touch_conn_def split_beta
      split: sum.splits prod.splits unit.splits if_splits)

lemma unknown_update:
  assumes "row CommandID t cid = None" "\<And>c. P c \<Longrightarrow> CommandID c = cid"
  shows "update_returning P f t = (t, Inl (Sentinel ErrNotFound ''not found''))"
proof -
  have "\<forall>c\<in>set t. \<not> P c" using assms by (auto simp: row_None)
  then have "filter P t = []" "update_where P f t = t" by (auto simp: filter_empty_conv intro!: update_where_skip)
  then show ?thesis by (simp add: update_returning_def)
qed

lemma unknown_command:
  assumes "row CommandID t cid = None"
  shows "AcknowledgeRuntimeCommand cid at t = (t, Inl (Sentinel ErrNotFound ''not found''))"
    "MarkRuntimeCommandRunning cid at t = (t, Inl (Sentinel ErrNotFound ''not found''))"
    "\<exists>e. CompleteRuntimeCommand compact cid st res reason at t = (t, Inl e)"
  unfolding AcknowledgeRuntimeCommand_def MarkRuntimeCommandRunning_def CompleteRuntimeCommand_def
  by (subst unknown_update [OF assms]; simp)+

text \<open>A command whose caller has given up is not forgotten safely: the ACK or the RESULT that the runtime sends for it
  afterwards finds no call and no stored command (a direct invocation stores none), and the handler returns with the error of the lookup, so the
  connection of a healthy runtime ends.\<close>
theorem late_command_reply_disconnects:
  assumes "cn_stream c < length (rg_store (sv_registry sv))" "row CommandID (sv_cmds sv) cid = None" "cid \<noteq> ''''"
    and "correlation_id fr = '''' \<or> correlation_id fr = cid"
    and "frame_type fr = FT_COMMAND_ACK \<and> payload fr = P_CommandAck cid st \<or>
      frame_type fr = FT_COMMAND_RESULT \<and> payload fr = P_CommandResult cid st res reason"
    and "keep_alive env c (end_call (cn_stream c) cid sv) = (sv1, None)"
  shows "\<exists>e. snd (handle_frame env c (Some fr) (end_call (cn_stream c) cid sv)) = Returned (Some e)"
proof -
  let ?i = "cn_stream c"
  note k = keep_alive_keeps [OF assms(6)]
  have v: "validatePostHelloFrame (Some fr) = None" using assms(3,5) by (auto simp: validatePostHelloFrame_def Let_def)
  have fc: "frameCorrelationID (Some fr) = cid" using assms(4,5) by (auto simp: frameCorrelationID_def)
  have "gm_get (st_in_flight (stream_at (sv_registry sv1) ?i)) cid = None"
    using k assms(1) by (simp add: touch_conn_def end_call_def update_stream_def touch_def unregisterCall_def)
  then have d: "snd (deliver_on ?i fr sv1) = False" using fc assms(3) by (simp add: deliver_on_def deliver_def)
  have cmds: "sv_cmds (fst (deliver_on ?i fr sv1)) = sv_cmds sv" using k by (simp add: deliver_on_def end_call_def)
  have "\<exists>e. snd (handleRuntimeCommandFrame env fr (fst (deliver_on ?i fr sv1))) = Some e"
    using assms(5)
  proof (elim disjE conjE)
    assume "frame_type fr = FT_COMMAND_ACK" "payload fr = P_CommandAck cid st"
    then show ?thesis using assms(3) by (simp add: handleRuntimeCommandFrame_def Let_def with_cmds_def cmds unknown_command [OF assms(2)] only_error_def)
  next
    assume f: "frame_type fr = FT_COMMAND_RESULT" "payload fr = P_CommandResult cid st res reason"
    have "\<exists>e. snd (only_error (with_cmds (CompleteRuntimeCommand compact cid st' raw reason at) (fst (deliver_on ?i fr sv1)))) = Some e" for compact st' raw at
      using unknown_command(3) [OF assms(2), of compact st' raw reason at] by (auto simp: with_cmds_def cmds only_error_def)
    then show ?thesis using f assms(3) by (auto simp: handleRuntimeCommandFrame_def Let_def split: sum.split)
  qed
  then obtain e where e: "snd (handleRuntimeCommandFrame env fr (fst (deliver_on ?i fr sv1))) = Some e" ..
  have "snd (dispatch_frame env c fr sv1) = Returned (Some e)"
    using assms(5) d e by (cases "deliver_on ?i fr sv1") (auto simp: dispatch_frame_def Let_def split: prod.split option.split)
  then show ?thesis using v assms(5,6) by (auto simp: handle_frame_def Let_def)
qed

theorem late_command_reply_disconnects_witness:
  "\<exists>c e. snd (handle_frame (channel_env 150 '''') c (Some \<lparr>correlation_id = '''', frame_type = FT_COMMAND_ACK, deadline_unix_ms = 0,
     payload = P_CommandAck ''c9'' CmdRunning\<rparr>) (end_call (cn_stream c) ''c9'' channel_first)) = Returned (Some e)"
proof -
  let ?fr = "\<lparr>correlation_id = '''', frame_type = FT_COMMAND_ACK, deadline_unix_ms = 0, payload = P_CommandAck ''c9'' CmdRunning\<rparr>"
  obtain c where c: "open_channel (channel_env 100 ''t2'') (Inr None) (resume_frame ''t1'') channel_start = (channel_first, Inr c)" "cn_stream c = 0"
    "ar_RuntimeID (cn_runtime c) = ''rt1''" using channel_opens(1) by blast
  have k: "conn_ok channel_first c" using open_channel_inv(3) [OF channel_start_inv c(1)] by simp
  have "snd (keep_alive (channel_env 150 '''') \<lparr>cn_stream = 0, cn_runtime = auth_of_runtime sample_runtime 10\<rparr> (end_call 0 ''c9'' channel_first)) = None"
    by code_simp
  then have "snd (keep_alive (channel_env 150 '''') c (end_call (cn_stream c) ''c9'' channel_first)) = None"
    by (simp add: keep_alive_def touch_conn_def c(2,3) auth_of_runtime_def sample_runtime_def)
  then obtain sv1 where sv1: "keep_alive (channel_env 150 '''') c (end_call (cn_stream c) ''c9'' channel_first) = (sv1, None)" by (metis prod.collapse)
  have "sv_cmds channel_first = []" by code_simp
  then have "row CommandID (sv_cmds channel_first) ''c9'' = None" by simp
  from late_command_reply_disconnects [OF _ this _ _ _ sv1, of ?fr] k show ?thesis by (auto simp: conn_ok_def)
qed

section \<open>Resume tokens\<close>

lemma resumed_runtime:
  assumes "verifyResume env res sv = (sv', Inr (rt, token, expiresAt))"
  shows "ar_RuntimeID rt = trim_space (rs_runtime_id res)" "\<exists>r. row RuntimeID (rt_rows (sv_db sv)) (ar_RuntimeID rt) = Some r \<and> live r"
    "RotateRuntimeChannelLease (ar_RuntimeID rt) (hashRuntimeChannelToken env (resume_token res)) (hashRuntimeChannelToken env token) expiresAt
      (ce_now env) (sv_db sv) = (sv_db sv', Inr ())"
proof -
  let ?rid = "trim_space (rs_runtime_id res)" and ?h = "hashRuntimeChannelToken env (resume_token res)"
  obtain r where r: "fingerprint_runtime ''runtime resume token is invalid'' ''lookup runtime resume token'' ''runtime resume token does not match runtime_id''
      (ce_now env) ?rid ?h (sv_db sv) = Inr r"
    "rotateRuntimeFingerprintWithHash env ?rid ?h sv = (sv', Inr (token, expiresAt))" "rt = auth_of_runtime r (ce_now env)"
    using assms by (auto simp: verifyResume_def Let_def split: if_splits sum.splits prod.splits)
  note f = fingerprint_row [OF r(1)]
  show id: "ar_RuntimeID rt = ?rid" using row_SomeD [OF f(1)] by (simp add: r(3) auth_of_runtime_def)
  show "\<exists>r. row RuntimeID (rt_rows (sv_db sv)) (ar_RuntimeID rt) = Some r \<and> live r" using f id by auto
  show "RotateRuntimeChannelLease (ar_RuntimeID rt) ?h (hashRuntimeChannelToken env token) expiresAt (ce_now env) (sv_db sv) = (sv_db sv', Inr ())"
    using r(2) unfolding id by (auto simp: rotateRuntimeFingerprintWithHash_def Let_def with_db_def split: sum.splits prod.splits unit.splits)
qed

lemma retired_token_refused:
  assumes "retired (hashRuntimeChannelToken env (trim_space fp)) (sv_db sv)"
  shows "resume_token res = trim_space fp \<Longrightarrow> \<not> is_ok (snd (verifyResume env res sv))" "\<not> is_ok (snd (refreshRuntimeFingerprint env rid fp sv))"
    "\<not> is_ok (snd (rotateRuntimeFingerprint env rid fp sv))"
  using assms by (simp_all add: retired_missing verifyResume_def refreshRuntimeFingerprint_def rotateRuntimeFingerprint_def
      fingerprint_runtime_def missing_def Let_def)

text \<open>Whatever the connections of the instance do is such a history of tokens.\<close>
lemma service_tokens: "evolves sv sv' \<Longrightarrow> \<exists>H. finite H \<and> (token_step H)\<^sup>*\<^sup>* (sv_db sv) (sv_db sv')"
  by (auto simp: evolves_def intro: steps_tokens)

text \<open>C5. A resume token is good for one reconnect. What it stands for when it is accepted is a live runtime, and the token that
  replaces it is stored for that same runtime. From then on, whatever is written to the tables, the accepted token opens nothing: a
  RESUME with it is refused under every runtime id and at every time, and so is a heartbeat with it. The tokens issued since are
  random; the condition is that neither the one that replaced it nor any of those issued later (their hashes are in \<open>H\<close>) has the
  same hash.\<close>
theorem resume_token_used_once:
  assumes "leases_ok (sv_db sv)" "verifyResume env res sv = (sv', Inr (rt, token, expiresAt))"
    and "hashRuntimeChannelToken env (resume_token res) \<notin> insert (hashRuntimeChannelToken env token) H"
    and "(token_step H)\<^sup>*\<^sup>* (sv_db sv') (sv_db later)"
    and "resume_token res' = resume_token res" "trim_space fp = resume_token res" "ce_sha256 env' = ce_sha256 env"
  shows "\<not> is_ok (snd (verifyResume env' res' later)) \<and> \<not> is_ok (snd (refreshRuntimeFingerprint env' rid fp later)) \<and>
    ar_RuntimeID rt = trim_space (rs_runtime_id res) \<and>
    (\<exists>l. GetRuntimeChannelLeaseByHash (sv_db sv') (hashRuntimeChannelToken env token) = Inr l \<and> cl_runtime_id l = ar_RuntimeID rt) \<and>
    (\<exists>r. row RuntimeID (rt_rows (sv_db sv)) (ar_RuntimeID rt) = Some r \<and> live r)"
proof -
  let ?h = "hashRuntimeChannelToken env (resume_token res)"
  note r = resumed_runtime [OF assms(2)]
  have n: "?h \<noteq> hashRuntimeChannelToken env token" "?h \<notin> H" using assms(3) by auto
  note l = lease_rotation [OF assms(1) n(1) r(3)]
  have "retired ?h (sv_db sv')" using l by (simp add: retired_missing)
  then have "retired ?h (sv_db later)" by (rule tokens_retired [OF assms(4) n(2)])
  then have "retired (hashRuntimeChannelToken env' (trim_space fp)) (sv_db later)" using assms(6,7) by (simp add: hashRuntimeChannelToken_def)
  then show ?thesis using retired_token_refused [of env' fp later] assms(5,6) l r(1,2) by auto
qed

theorem resume_token_used_once_witness:
  "\<not> is_ok (snd (verifyResume (channel_env 200 ''t3'') \<lparr>rs_runtime_id = ''rt1'', rs_resume_token = '''', rs_fingerprint = ''t1''\<rparr>
      (fst (verifyResume (channel_env 100 ''t2'') \<lparr>rs_runtime_id = ''rt1'', rs_resume_token = '''', rs_fingerprint = ''t1''\<rparr> channel_start))))"
proof -
  let ?res = "\<lparr>rs_runtime_id = ''rt1'', rs_resume_token = '''', rs_fingerprint = ''t1''\<rparr>"
  have "case snd (verifyResume (channel_env 100 ''t2'') ?res channel_start) of Inl _ \<Rightarrow> False
     | Inr (rt, token, _) \<Rightarrow> hashRuntimeChannelToken (channel_env 100 ''t2'') (resume_token ?res) \<noteq> hashRuntimeChannelToken (channel_env 100 ''t2'') token"
    by code_simp
  then obtain sv' rt token expiresAt where v: "verifyResume (channel_env 100 ''t2'') ?res channel_start = (sv', Inr (rt, token, expiresAt))"
    "hashRuntimeChannelToken (channel_env 100 ''t2'') (resume_token ?res) \<noteq> hashRuntimeChannelToken (channel_env 100 ''t2'') token"
    by (cases "verifyResume (channel_env 100 ''t2'') ?res channel_start") (auto split: sum.splits prod.splits)
  have "leases_ok (sv_db channel_start)"
    by (simp add: leases_ok_def channel_start_def new_service_def channel_db_def keys_ok_def)
  moreover have "trim_space ''t1'' = resume_token ?res" by code_simp
  ultimately show ?thesis
    using resume_token_used_once [of channel_start "channel_env 100 ''t2''" ?res sv' rt token expiresAt "{}" sv' ?res "''t1''" "channel_env 200 ''t3''"] v
    by (simp add: channel_env_def)
qed

end
