(* ===== verification/PlanLimits.thy ===== *)
theory PlanLimits
  imports Domain "HOL-Library.Extended_Nat"
begin

text \<open>
  \<open>internal/plan/resolver.go\<close>: the limits of a user, the smaller of what the plan and what the platform
  allow. The lookup of the plan code in the core service is a parameter.
\<close>

text \<open>\<open>config.RuntimePlan\<close> and the fields of \<open>config.RuntimePlatformConfig\<close> the resolver reads.\<close>
record runtime_plan =
  rp_hosted :: int
  rp_self_hosted :: int
  rp_routing_enabled :: int
  rp_sessions_total :: int
  rp_sessions_per_runtime :: int
  rp_profiles :: "string list"
  rp_allow_self_hosted :: bool
  rp_allow_ide_debug :: bool

record platform_caps =
  pc_hosted :: int
  pc_self_hosted :: int
  pc_default_plan :: string

record effective_limits =
  el_plan_code :: string
  el_hosted :: int
  el_self_hosted :: int
  el_routing_enabled :: int
  el_sessions_total :: int
  el_sessions_per_runtime :: int
  el_profiles :: "string list"
  el_allow_self_hosted :: bool
  el_allow_ide_debug :: bool

datatype plan_error = Plan_UserNotFound string | Plan_LookupUnavailable string | Plan_NoDefault string

text \<open>The text of an error starts with that of its sentinel; \<open>%q\<close> quotes (\<open>strconv.Quote\<close>, a parameter: its table
  of printable characters is that of Unicode).\<close>
definition plan_not_found :: "string \<Rightarrow> plan_error" where
  "plan_not_found m = Plan_UserNotFound (''plan: user not found in core-service: '' @ m)"
definition plan_unavailable :: "string \<Rightarrow> plan_error" where
  "plan_unavailable m = Plan_LookupUnavailable (''plan: core-service lookup unavailable: '' @ m)"

primrec plan_text :: "(string \<Rightarrow> string) \<Rightarrow> plan_error \<Rightarrow> string" where
  "plan_text quote (Plan_UserNotFound m) = m"
| "plan_text quote (Plan_LookupUnavailable m) = m"
| "plan_text quote (Plan_NoDefault code) = ''default plan '' @ quote code @ '' not found in runtime_plans config''"

definition applyPlatformCap :: "int \<Rightarrow> int \<Rightarrow> int" where
  "applyPlatformCap planLimit platformLimit =
     (if planLimit = 0 \<or> platformLimit = 0 then 0
      else if planLimit = -1 then platformLimit
      else if platformLimit = -1 then planLimit
      else if planLimit < platformLimit then planLimit
      else platformLimit)"

definition effective :: "platform_caps \<Rightarrow> string \<Rightarrow> runtime_plan \<Rightarrow> effective_limits" where
  "effective caps code p = \<lparr>el_plan_code = code, el_hosted = applyPlatformCap (rp_hosted p) (pc_hosted caps),
     el_self_hosted = applyPlatformCap (rp_self_hosted p) (pc_self_hosted caps), el_routing_enabled = rp_routing_enabled p,
     el_sessions_total = rp_sessions_total p, el_sessions_per_runtime = rp_sessions_per_runtime p, el_profiles = rp_profiles p,
     el_allow_self_hosted = rp_allow_self_hosted p, el_allow_ide_debug = rp_allow_ide_debug p\<rparr>"

text \<open>The lookup is \<open>None\<close> when the resolver has no client.\<close>
definition Resolve :: "(int \<Rightarrow> string result) option \<Rightarrow> (string \<rightharpoonup> runtime_plan) \<Rightarrow> platform_caps \<Rightarrow> int \<Rightarrow> plan_error + effective_limits" where
  "Resolve lookup plans caps uid =
     (if uid \<le> 0 then Inl (plan_not_found (''user_id must be > 0 (got '' @ format_int uid @ '')''))
      else case lookup of
        None \<Rightarrow> Inl (plan_unavailable ''PlanLookup is nil'')
      | Some get \<Rightarrow>
          (case get uid of
             Inl e \<Rightarrow> Inl (if status_Code e = NotFound then plan_not_found (''user_id='' @ format_int uid) else plan_unavailable (err_text e))
           | Inr code \<Rightarrow>
               (let planCode = (if code = '''' then pc_default_plan caps else code) in
                case plans planCode of
                  Some p \<Rightarrow> Inr (effective caps planCode p)
                | None \<Rightarrow>
                    (case plans (pc_default_plan caps) of
                       None \<Rightarrow> Inl (Plan_NoDefault (pc_default_plan caps))
                     | Some p \<Rightarrow> Inr (effective caps (pc_default_plan caps) p)))))"

section \<open>The caps are minima\<close>

text \<open>A limit as a number of runtimes: -1 stands for no limit.\<close>
definition limit_of :: "int \<Rightarrow> enat" where
  "limit_of n = (if n = -1 then \<infinity> else enat (nat n))"

lemma limit_of_le: "-1 \<le> n \<Longrightarrow> enat k \<le> limit_of n \<longleftrightarrow> n = -1 \<or> int k \<le> n"
  by (auto simp: limit_of_def)

lemma cap_is_min:
  assumes "-1 \<le> a" "-1 \<le> b"
  shows "limit_of (applyPlatformCap a b) = min (limit_of a) (limit_of b)" "-1 \<le> applyPlatformCap a b"
  using assms by (auto simp: applyPlatformCap_def limit_of_def min_def zero_enat_def)

text \<open>The effective limits of a user are the smaller of the plan's and the platform's, read with -1 as no limit
  and 0 as forbidden; only a user the core service knows gets limits, under the plan of the answered code
  or, where the configuration has no such plan, the default one.\<close>
theorem resolved_limits_are_minima:
  assumes "Resolve (Some get) plans caps uid = Inr l" "-1 \<le> pc_hosted caps" "-1 \<le> pc_self_hosted caps"
    and "\<forall>p\<in>ran plans. -1 \<le> rp_hosted p \<and> -1 \<le> rp_self_hosted p"
  shows "\<exists>code p. get uid = Inr code \<and> plans (el_plan_code l) = Some p \<and>
    (el_plan_code l = code \<or> el_plan_code l = pc_default_plan caps \<and> (code = '''' \<or> plans code = None)) \<and>
    limit_of (el_hosted l) = min (limit_of (rp_hosted p)) (limit_of (pc_hosted caps)) \<and>
    limit_of (el_self_hosted l) = min (limit_of (rp_self_hosted p)) (limit_of (pc_self_hosted caps)) \<and>
    el_profiles l = rp_profiles p"
proof -
  obtain code where code: "get uid = Inr code"
    using assms(1) by (auto simp: Resolve_def split: if_splits sum.splits)
  let ?c = "if code = '''' then pc_default_plan caps else code"
  obtain c p where c: "plans c = Some p" "l = effective caps c p" "c = ?c \<or> c = pc_default_plan caps \<and> plans ?c = None"
    using assms(1) code by (auto simp: Resolve_def Let_def split: if_splits option.splits)
  have "p \<in> ran plans" using c(1) by (rule ranI)
  then have "-1 \<le> rp_hosted p" "-1 \<le> rp_self_hosted p" using assms(4) by auto
  note m = cap_is_min(1) [OF this(1) assms(2)] cap_is_min(1) [OF this(2) assms(3)]
  show ?thesis
    by (intro exI [of _ code] exI [of _ p]) (use code c m in \<open>auto simp: effective_def split: if_splits\<close>)
qed

definition sample_plans :: "string \<rightharpoonup> runtime_plan" where
  "sample_plans = [''free'' \<mapsto> \<lparr>rp_hosted = 1, rp_self_hosted = -1, rp_routing_enabled = 1, rp_sessions_total = 2, rp_sessions_per_runtime = 1,
     rp_profiles = [''small''], rp_allow_self_hosted = False, rp_allow_ide_debug = False\<rparr>]"

theorem resolved_limits_are_minima_witness:
  "\<exists>l. Resolve (Some (\<lambda>_. Inr ''pro'')) sample_plans \<lparr>pc_hosted = -1, pc_self_hosted = 3, pc_default_plan = ''free''\<rparr> 7 = Inr l \<and>
     limit_of (el_hosted l) = 1 \<and> limit_of (el_self_hosted l) = 3"
proof -
  obtain l where l: "Resolve (Some (\<lambda>_. Inr ''pro'')) sample_plans \<lparr>pc_hosted = -1, pc_self_hosted = 3, pc_default_plan = ''free''\<rparr> 7 = Inr l"
    by (simp add: Resolve_def sample_plans_def)
  have "\<forall>p\<in>ran sample_plans. -1 \<le> rp_hosted p \<and> -1 \<le> rp_self_hosted p" by (auto simp: sample_plans_def ran_def split: if_splits)
  from resolved_limits_are_minima [OF l _ _ this] show ?thesis using l
    by (auto simp: sample_plans_def limit_of_def one_enat_def numeral_eq_enat min_def split: if_splits)
qed

end
