(* ===== verification/Credentials.thy ===== *)
theory Credentials
  imports ChannelClaims
begin

text \<open>
  \<open>internal/credential/service.go\<close>: issuing a runtime credential with its client certificate, listing, and
  revocation, which closes the streams of the key on the instance and ends the runtimes bound to it. The
  database and the streams are those of \<open>ChannelService\<close>. Key generation, the signing request of
  the certificate and PEM are parameters.
\<close>

section \<open>The service\<close>

datatype cred_error =
    Cred_InvalidArgument string | Cred_NotFound | Cred_PermissionDenied | Cred_SignerUnavailable string | Cred_Other go_error

text \<open>The key pair of the credential (public and private PEM), random bytes, the client key and signing request for a
  runtime id, the reader of signing requests of the configured signer, and the server CA.\<close>
record issue_env =
  ie_keypair :: "(string \<times> string) result"
  ie_random :: "string option"
  ie_client_key :: "string \<Rightarrow> (string \<times> string) result"
  ie_signer :: "x509_lib option"
  ie_server_ca :: string
  ie_cert_pem :: "certificate \<Rightarrow> string"
  ie_fingerprint :: "certificate \<Rightarrow> string"
  ie_now :: go_time

record issued_credential =
  ic_credential :: credential
  ic_private_key :: string
  ic_client_cert :: string
  ic_client_key :: string
  ic_server_ca :: string
  ic_certificate :: certificate

definition generateKeyID :: "issue_env \<Rightarrow> string result" where
  "generateKeyID env = (case ie_random env of None \<Rightarrow> Inl (Plain ''rand'') | Some b \<Rightarrow> Inr (b64_encode b))"

definition issued_row :: "issue_env \<Rightarrow> int \<Rightarrow> string \<Rightarrow> string \<Rightarrow> bool \<Rightarrow> string \<Rightarrow> string \<Rightarrow> certificate \<Rightarrow> credential" where
  "issued_row env uid label role hosted keyID pub cert = \<lparr>KeyID = keyID, CredUserID = uid, Label = label, CredRole = role, PublicKeyPEM = pub,
     CredStatus = CredDownloaded, CredCreatedAt = ie_now env, DownloadedAt = Some (ie_now env), ConsumedAt = None, ConsumedRuntimeID = '''',
     ExpiresAt = None, LastUsedAt = None, RevokedAt = None, HostedInternal = hosted, ClientCertPEM = ie_cert_pem env cert,
     ClientCertFingerprint = ie_fingerprint env cert, ClientCertExpiresAt = Some (ct_not_after cert),
     Issuer = (if hosted then IssuerHostedInternal else IssuerUser)\<rparr>"

definition issue :: "issue_env \<Rightarrow> int \<Rightarrow> string \<Rightarrow> string \<Rightarrow> bool \<Rightarrow> string \<Rightarrow> runtime_db \<Rightarrow> runtime_db \<times> (cred_error + issued_credential)" where
  "issue env uid label0 role hosted certificateRuntimeID db =
     (if uid \<le> 0 then (db, Inl (Cred_InvalidArgument ''user_id is required''))
      else if role \<noteq> RoleExecutor \<and> role \<noteq> RoleDebugger then (db, Inl (Cred_InvalidArgument ''role must be executor or debugger''))
      else let label = trim_space label0 in
      case ie_keypair env of
        Inl e \<Rightarrow> (db, Inl (Cred_Other e))
      | Inr (pub, priv) \<Rightarrow>
          (case generateKeyID env of
             Inl e \<Rightarrow> (db, Inl (Cred_Other e))
           | Inr keyID \<Rightarrow>
               (case ie_signer env of
                  None \<Rightarrow> (db, Inl (Cred_SignerUnavailable ''runtime certificate signer is not configured''))
                | Some lib \<Rightarrow>
                    if ie_server_ca env = '''' then (db, Inl (Cred_SignerUnavailable ''runtime server ca is not configured''))
                    else (let rid = (if hosted then trim_space certificateRuntimeID else ''selfhosted-'' @ keyID);
                              src = (if hosted then SourceHosted else SourceSelfHosted) in
                      if hosted \<and> rid = '''' then (db, Inl (Cred_InvalidArgument ''runtime_id is required''))
                      else case ie_client_key env rid of
                        Inl e \<Rightarrow> (db, Inl (Cred_Other e))
                      | Inr (keyPEM, csrPEM) \<Rightarrow>
                          (case SignRuntimeClientCertificate lib (ie_now env) \<lparr>sr_csr = csrPEM, sr_runtime_id = rid, sr_user_id = uid,
                               sr_source = src, sr_role = role, sr_name = label, sr_ttl = 24 * hour, sr_now = ie_now env\<rparr> of
                             Inl e \<Rightarrow> (db, Inl (Cred_Other e))
                           | Inr cert \<Rightarrow>
                               (let cred = issued_row env uid label role hosted keyID pub cert in
                                case CreateRuntimeCredential cred db of
                                  (db', Inl e) \<Rightarrow> (db', Inl (Cred_Other e))
                                | (db', Inr ()) \<Rightarrow> (db', Inr \<lparr>ic_credential = cred, ic_private_key = priv, ic_client_cert = ie_cert_pem env cert,
                                    ic_client_key = keyPEM, ic_server_ca = ie_server_ca env, ic_certificate = cert\<rparr>)))))))"

definition Issue :: "issue_env \<Rightarrow> int \<Rightarrow> string \<Rightarrow> string \<Rightarrow> runtime_db \<Rightarrow> runtime_db \<times> (cred_error + issued_credential)" where
  "Issue env uid label role = issue env uid label role False ''''"

definition IssueHostedInternalRuntimeCredential ::
  "issue_env \<Rightarrow> int \<Rightarrow> string \<Rightarrow> string \<Rightarrow> runtime_db \<Rightarrow> runtime_db \<times> (cred_error + issued_credential)" where
  "IssueHostedInternalRuntimeCredential env uid runtimeID0 name db =
     (let runtimeID = trim_space runtimeID0; label0 = trim_space name; label = (if label0 = '''' then runtimeID else label0) in
      if runtimeID = '''' then (db, Inl (Cred_InvalidArgument ''runtime_id is required''))
      else issue env uid (''hosted:'' @ label) RoleExecutor True runtimeID db)"

definition List_credentials :: "int \<Rightarrow> bool \<Rightarrow> runtime_db \<Rightarrow> cred_error + credential list" where
  "List_credentials uid includeInactive db =
     (if uid \<le> 0 then Inl (Cred_InvalidArgument ''user_id is required'') else Inr (ListRuntimeCredentialsByUser db uid includeInactive))"

definition ListPage :: "int \<Rightarrow> bool \<Rightarrow> int \<Rightarrow> int \<Rightarrow> runtime_db \<Rightarrow> cred_error + (credential list \<times> int \<times> bool)" where
  "ListPage uid includeInactive limit offset db =
     (if uid \<le> 0 then Inl (Cred_InvalidArgument ''user_id is required'')
      else Inr (ListRuntimeCredentialsByUserPage db uid includeInactive limit offset))"

record revoke_result =
  rr_credential :: credential
  rr_streams_closed :: int
  rr_runtimes_ended :: int

text \<open>Without a stream closer (\<open>NoopStreamCloser\<close>) only the row changes.\<close>
definition Revoke :: "chan_env option \<Rightarrow> go_time \<Rightarrow> int \<Rightarrow> string \<Rightarrow> channel_service \<Rightarrow> channel_service \<times> (cred_error + revoke_result)" where
  "Revoke closer db_now uid keyID sv =
     (if uid \<le> 0 then (sv, Inl (Cred_InvalidArgument ''user_id is required''))
      else if trim_space keyID = '''' then (sv, Inl (Cred_InvalidArgument ''key_id is required''))
      else case with_db (RevokeRuntimeCredential db_now keyID uid) sv of
        (sv1, Inl e) \<Rightarrow> (sv1, Inl (if errors_Is e ErrNotFound then Cred_NotFound
            else if errors_Is e ErrConflict then Cred_PermissionDenied else Cred_Other e))
      | (sv1, Inr cred) \<Rightarrow>
          (case closer of
             None \<Rightarrow> (sv1, Inr \<lparr>rr_credential = cred, rr_streams_closed = 0, rr_runtimes_ended = 0\<rparr>)
           | Some env \<Rightarrow>
               (case CloseStreamsForKey env keyID sv1 of
                  (sv2, n, Inl _) \<Rightarrow> (sv2, Inr \<lparr>rr_credential = cred, rr_streams_closed = 0, rr_runtimes_ended = 0\<rparr>)
                | (sv2, n, Inr m) \<Rightarrow> (sv2, Inr \<lparr>rr_credential = cred, rr_streams_closed = n, rr_runtimes_ended = m\<rparr>))))"

definition Get_credential :: "string \<Rightarrow> runtime_db \<Rightarrow> cred_error + credential" where
  "Get_credential keyID db =
     (if trim_space keyID = '''' then Inl (Cred_InvalidArgument ''key_id is required'')
      else case GetRuntimeCredential db keyID of
        Inl e \<Rightarrow> Inl (if errors_Is e ErrNotFound then Cred_NotFound else Cred_Other e)
      | Inr c \<Rightarrow> Inr c)"

text \<open>\<open>mapCredentialError\<close> of \<open>internal/runtime/grpc.go\<close>.\<close>
definition mapCredentialError :: "cred_error \<Rightarrow> go_error" where
  "mapCredentialError e = (case e of
       Cred_InvalidArgument m \<Rightarrow> Status InvalidArgument (''invalid argument: '' @ m)
     | Cred_NotFound \<Rightarrow> Status NotFound ''credential not found''
     | Cred_PermissionDenied \<Rightarrow> Status PermissionDenied ''permission denied''
     | Cred_SignerUnavailable m \<Rightarrow> Status FailedPrecondition (''runtime certificate signer unavailable: '' @ m)
     | Cred_Other e \<Rightarrow> Status Internal (err_text e))"

section \<open>An issued credential fits its certificate\<close>

lemma issue_ok:
  assumes "issue env uid label role hosted crid db = (db', Inr ic)"
  obtains keyID pub lib csr where "0 < uid" "role \<in> {RoleExecutor, RoleDebugger}" "generateKeyID env = Inr keyID"
    "SignRuntimeClientCertificate lib (ie_now env) \<lparr>sr_csr = csr, sr_runtime_id = (if hosted then trim_space crid else ''selfhosted-'' @ keyID),
       sr_user_id = uid, sr_source = (if hosted then SourceHosted else SourceSelfHosted), sr_role = role, sr_name = trim_space label,
       sr_ttl = 24 * hour, sr_now = ie_now env\<rparr> = Inr (ic_certificate ic)"
    "ic_credential ic = issued_row env uid (trim_space label) role hosted keyID pub (ic_certificate ic)"
    "CreateRuntimeCredential (ic_credential ic) db = (db', Inr ())"
  using assms by (auto simp: issue_def Let_def split: if_splits sum.splits prod.splits option.splits unit.splits)
lemma created_credential:
  assumes "CreateRuntimeCredential c db = (db', Inr ())"
  shows "issued_view db' (KeyID c) = Some (issued_face c)" "\<exists>c'. row KeyID (rt_creds db') (KeyID c) = Some c' \<and> usable c' = usable c"
    "row KeyID (rt_creds db) (KeyID c) = None"
proof -
  let ?c = "if Issuer c = '''' then c\<lparr>Issuer := (if HostedInternal c then IssuerHostedInternal else IssuerUser)\<rparr> else c"
  let ?new = "?c\<lparr>ConsumedAt := None, ConsumedRuntimeID := '''', ExpiresAt := None, LastUsedAt := None, RevokedAt := None\<rparr>"
  obtain t where t: "report_write (write_creds (rt_creds db @ [?new])) = Inr t" "db' = db\<lparr>rt_creds := t\<rparr>"
    using assms unfolding CreateRuntimeCredential_def Let_def by (auto split: sum.splits)
  then have w: "t = rt_creds db @ [?new]" "credentials_unique (rt_creds db @ [?new])" unfolding report_write_Inr write_creds_Inr by auto
  have k: "KeyID ?new = KeyID c" by simp
  have "keys_ok KeyID (rt_creds db @ [?new])" using w(2) by (simp add: credentials_unique_def)
  then have "KeyID c \<notin> KeyID ` set (rt_creds db)" unfolding keys_ok_def using k by (simp del: k) 
  then show none: "row KeyID (rt_creds db) (KeyID c) = None" by (simp add: row_None)
  have "row KeyID (rt_creds db') (KeyID c) = Some ?new" using none k t(2) w(1) by (simp add: row_append)
  moreover have "issued_face ?new = issued_face c" "usable ?new = usable c" by (simp_all add: issued_face_def usable_def)
  ultimately show "issued_view db' (KeyID c) = Some (issued_face c)" "\<exists>c'. row KeyID (rt_creds db') (KeyID c) = Some c' \<and> usable c' = usable c"
    by (simp_all add: issued_view_def)
qed


definition sample_issue_env :: issue_env where
  "sample_issue_env = \<lparr>ie_keypair = Inr (''pem'', ''priv''), ie_random = Some ''r'', ie_client_key = (\<lambda>rid. Inr (''ck'', rid)),
     ie_signer = Some sure_lib, ie_server_ca = ''ca'', ie_cert_pem = (\<lambda>_. ''cert''), ie_fingerprint = (\<lambda>_. ''fp''), ie_now = 5\<rparr>"

definition sample_issue :: "runtime_db \<times> (cred_error + issued_credential)" where
  "sample_issue = Issue sample_issue_env 7 ''laptop'' RoleExecutor empty_runtime_db"

definition issued_hello :: runtime_hello where
  "issued_hello = sample_hello\<lparr>h_key_id := b64_encode ''r'', h_runtime_id := ''''\<rparr>"

definition sample_sign :: sign_request where
  "sample_sign = \<lparr>sr_csr = ''selfhosted-'' @ b64_encode ''r'', sr_runtime_id = ''selfhosted-'' @ b64_encode ''r'', sr_user_id = 7,
     sr_source = SourceSelfHosted, sr_role = RoleExecutor, sr_name = ''laptop'', sr_ttl = 24 * hour, sr_now = 5\<rparr>"

definition sample_signed :: certificate where
  "sample_signed = \<lparr>ct_common_name = ''selfhosted-'' @ b64_encode ''r'', ct_not_before = whole_seconds (5 - minute), ct_not_after = whole_seconds (5 + 24 * hour),
     ct_extensions = identityExtensions sample_sign\<rparr>"

definition sample_issued :: credential where
  "sample_issued = issued_row sample_issue_env 7 ''laptop'' RoleExecutor False (b64_encode ''r'') ''pem'' sample_signed"

lemma sample_issue_value:
  "fst sample_issue = empty_runtime_db\<lparr>rt_creds := [sample_issued]\<rparr>" "\<exists>ic. snd sample_issue = Inr ic \<and> ic_credential ic = sample_issued"
proof -
  have t: "trim_space ''laptop'' = ''laptop''" "trim_space SourceSelfHosted \<noteq> ''''" "trim_space RoleExecutor \<noteq> ''''"
    "trim_space (''selfhosted-'' @ b64_encode ''r'') \<noteq> ''''" by code_simp+
  have k: "credentials_unique [sample_issued]" "credential_row_ok sample_issued" "Issuer sample_issued = IssuerUser" "IssuerUser \<noteq> ''''"
    by (simp_all add: sample_issued_def issued_row_def credentials_unique_def keys_ok_def credential_row_ok_def)
  have u: "sample_issued\<lparr>ConsumedAt := None, ConsumedRuntimeID := '''', ExpiresAt := None, LastUsedAt := None, RevokedAt := None\<rparr> = sample_issued"
    by (simp add: sample_issued_def issued_row_def)
  have c: "CreateRuntimeCredential sample_issued empty_runtime_db = (empty_runtime_db\<lparr>rt_creds := [sample_issued]\<rparr>, Inr ())"
    unfolding CreateRuntimeCredential_def Let_def u if_not_P [OF k(4) [folded k(3)]]
    using k(1,2) by (simp add: u write_creds_def report_write_def empty_runtime_db_def del: credential.update_convs)
  have d: "(0::int) < 24 * hour" "\<not> is_zero 5" by (simp_all add: duration_defs is_zero_def zero_time_def)
  have s: "SignRuntimeClientCertificate sure_lib (ie_now sample_issue_env) sample_sign = Inr sample_signed"
    unfolding SignRuntimeClientCertificate_def using d t by (simp add: sample_sign_def sample_signed_def sure_lib_def Let_def)
  have e: "ie_keypair sample_issue_env = Inr (''pem'', ''priv'')" "generateKeyID sample_issue_env = Inr (b64_encode ''r'')"
    "ie_signer sample_issue_env = Some sure_lib" "ie_server_ca sample_issue_env = ''ca''" "ie_now sample_issue_env = 5"
    "\<And>rid. ie_client_key sample_issue_env rid = Inr (''ck'', rid)"
    by (simp_all add: sample_issue_env_def generateKeyID_def)
  have "\<exists>ic. issue sample_issue_env 7 ''laptop'' RoleExecutor False '''' empty_runtime_db = (empty_runtime_db\<lparr>rt_creds := [sample_issued]\<rparr>, Inr ic)
      \<and> ic_credential ic = sample_issued"
    unfolding issue_def Let_def using c s [unfolded sample_sign_def e(5)] t(1)
    by (simp add: e sample_issued_def del: append.simps split: unit.split)
  then show "fst sample_issue = empty_runtime_db\<lparr>rt_creds := [sample_issued]\<rparr>" "\<exists>ic. snd sample_issue = Inr ic \<and> ic_credential ic = sample_issued"
    by (auto simp: sample_issue_def Issue_def)
qed

lemma issued_hello_accepted:
  "is_ok (snd (verifyHello (sample_env\<lparr>he_verify := \<lambda>_ _ _. True\<rparr>) 2000000000 issued_hello (NewReplayCache replay_ttl 8192) (fst sample_issue)))"
proof -
  have "case GetRuntimeCredential (fst sample_issue) (b64_encode ''r'') of Inl _ \<Rightarrow> False
     | Inr c \<Rightarrow> CredStatus c = CredDownloaded \<and> ExpiresAt c = None \<and> PublicKeyPEM c = ''pem'' \<and> CredRole c = RoleExecutor \<and> \<not> HostedInternal c"
    by (simp add: sample_issue_value GetRuntimeCredential_def select_one_def sample_issued_def issued_row_def empty_runtime_db_def)
  then obtain c where c: "GetRuntimeCredential (fst sample_issue) (b64_encode ''r'') = Inr c" "CredStatus c = CredDownloaded" "ExpiresAt c = None"
    "PublicKeyPEM c = ''pem''" "CredRole c = RoleExecutor" "\<not> HostedInternal c" by (auto split: sum.splits)
  have key: "b64_encode ''r'' \<noteq> ''''" by code_simp
  have nonce: "b64_decode ''AAAAAAAAAAAAAAAAAAAAAA'' = Some (replicate 16 CHR 0x00)" by code_simp
  have sig: "b64_decode ''c2ln'' = Some ''sig''" by code_simp
  have name: "trim_space ''runner-1'' = ''runner-1''" "validRuntimeChannelName ''runner-1''" by code_simp+
  have skew: "\<not> skewed 2000000000 (unix_milli 1000)" by (simp add: skewed_iff unix_milli_def maxHelloClockSkew_def duration_defs)
  have fresh: "fst (CheckAndStore (NewReplayCache replay_ttl 8192) (b64_encode ''r'') ''AAAAAAAAAAAAAAAAAAAAAA'' 2000000000)"
    by (simp add: CheckAndStore_def NewReplayCache_def pruneLocked_def Let_def split_beta)
  have "check_hello (sample_env\<lparr>he_verify := \<lambda>_ _ _. True\<rparr>) 2000000000 issued_hello (fst sample_issue) = Inr c"
    using nonce sig skew c key by (simp add: check_hello_def issued_hello_def sample_hello_def sample_env_def validateCredentialUsableForHello_def
        is_zero_def zero_time_def unix_milli_def duration_defs)
  then show ?thesis using fresh name c
    by (simp add: verifyHello_def issued_hello_def sample_hello_def split_beta Let_def hello_identity_def)
qed


section \<open>Revocation\<close>

lemma key_end_rows:
  assumes "runtimes_ok db"
  shows "\<exists>n. EndRuntimesByCredentialKey now k ReasonAuthFailed at db = (db\<lparr>rt_rows := update_where
      (\<lambda>r. CredentialKeyID r = k \<and> CredentialKeyID r \<noteq> '''' \<and> live r) (end_row now ReasonAuthFailed at) (rt_rows db)\<rparr>, Inr n)"
proof -
  have e: "RuntimeID (end_row now x at r) = RuntimeID r" "UserID (end_row now x at r) = UserID r" "Name (end_row now x at r) = Name r"
    "CredentialKeyID (end_row now x at r) = CredentialKeyID r" "Role (end_row now x at r) = Role r" for r x by (simp_all add: end_row_def)
  have "ReasonAuthFailed \<in> set ended_reasons" by (simp add: ended_reasons_def)
  then show ?thesis unfolding EndRuntimesByCredentialKey_def
    by (subst write_update [OF assms e]) (simp_all add: end_row_ok)
qed

lemma end_row_dead: "\<not> live (end_row now x at r)"
  by (simp add: end_row_def)

lemma revoke_row:
  assumes "RevokeRuntimeCredential now k uid db = (db', Inr c)"
  shows "\<exists>c'. row KeyID (rt_creds db') k = Some c' \<and> CredStatus c' = CredRevoked \<and> CredUserID c' = uid" "rt_rows db' = rt_rows db"
  using assms by (auto simp: RevokeRuntimeCredential_def conflict_def missing_def Let_def write_creds_Inr row_update
      dest: row_SomeD split: option.splits if_splits sum.splits)

text \<open>C6. A revoked credential is cut off for good. When the revocation answers, the credential is revoked and the caller's own, every
  stream of the key on this instance is closed, and every runtime bound to the key has ended; whatever happens to the tables
  afterwards, a HELLO under the key is refused, and so is a RESUME of a (hosted or self-hosted) runtime that was bound to it.\<close>
theorem revoked_credential_cut_off:
  assumes "service_inv sv" "creds_ok (sv_db sv)" "Revoke (Some env) now uid k sv = (sv', Inr res)"
    and "runtime_step\<^sup>*\<^sup>* (sv_db sv') (sv_db later)"
  shows "(\<exists>c. row KeyID (rt_creds (sv_db sv')) k = Some c \<and> CredStatus c = CredRevoked \<and> CredUserID c = uid) \<and>
    (\<forall>i < length (rg_store (sv_registry sv')). ar_KeyID (st_runtime (stream_at (sv_registry sv') i)) = k \<longrightarrow> st_closed (stream_at (sv_registry sv') i)) \<and>
    (\<forall>r\<in>set (rt_rows (sv_db sv')). CredentialKeyID r = k \<longrightarrow> \<not> live r) \<and>
    (h_key_id h = k \<and> h_source h \<noteq> SourceBare \<longrightarrow> \<not> is_ok (snd (verifyHello henv at h cache (sv_db later)))) \<and>
    (\<forall>r\<in>set (rt_rows (sv_db sv')). CredentialKeyID r = k \<and> Source r \<noteq> SourceBare \<and> RuntimeID r = trim_space (rs_runtime_id rs) \<longrightarrow>
       \<not> is_ok (snd (verifyResume renv rs later)))"
proof -
  have kne: "k \<noteq> ''''" and ok: "runtimes_ok (sv_db sv)" and reg: "registry_inv (sv_registry sv)"
    using assms(1,3) by (auto simp: Revoke_def service_inv_def split: if_splits)
  obtain sv1 cred where 1: "with_db (RevokeRuntimeCredential now k uid) sv = (sv1, Inr cred)" and
    2: "sv' = fst (CloseStreamsForKey env k sv1)"
    using assms(3) by (auto simp: Revoke_def split: if_splits sum.splits prod.splits)
  then obtain db1 where db1: "RevokeRuntimeCredential now k uid (sv_db sv) = (db1, Inr cred)" "sv1 = sv\<lparr>sv_db := db1\<rparr>"
    by (auto simp: with_db_def split: prod.splits)
  note rv = revoke_row [OF db1(1)]
  have st1: "runtime_step (sv_db sv) db1" using runtime_step.revoke [of "sv_db sv" now k uid] db1(1) by simp
  have ok1: "runtimes_ok db1" using ok rv(2) by (simp add: runtimes_ok_def)
  obtain n where n: "EndRuntimesByCredentialKey (ce_db_now env) k ReasonAuthFailed (ce_now env) db1 = (db1\<lparr>rt_rows := update_where
      (\<lambda>r. CredentialKeyID r = k \<and> CredentialKeyID r \<noteq> '''' \<and> live r) (end_row (ce_db_now env) ReasonAuthFailed (ce_now env)) (rt_rows db1)\<rparr>, Inr n)"
    using key_end_rows [OF ok1] by blast
  have db': "sv_db sv' = fst (EndRuntimesByCredentialKey (ce_db_now env) k ReasonAuthFailed (ce_now env) db1)"
    and reg': "sv_registry sv' = fst (CloseByKeyID k (sv_registry sv))"
    unfolding 2 db1(2) by (simp_all add: CloseStreamsForKey_def Let_def split_beta with_db_def with_registry_def)
  have cr: "rt_creds (sv_db sv') = rt_creds db1" and rows: "rt_rows (sv_db sv') = update_where
      (\<lambda>r. CredentialKeyID r = k \<and> CredentialKeyID r \<noteq> '''' \<and> live r) (end_row (ce_db_now env) ReasonAuthFailed (ce_now env)) (rt_rows db1)"
    unfolding db' n by simp_all
  have st2: "runtime_step db1 (sv_db sv')" unfolding db' by (rule runtime_step.stop_key)
  have ok2: "runtimes_ok (sv_db sv')" "creds_ok (sv_db sv')"
    using runtimes.inv_step [OF st2 ok1] credentials.inv_step [OF st2 credentials.inv_step [OF st1 assms(2)]] by auto
  obtain c where c: "row KeyID (rt_creds (sv_db sv')) k = Some c" "CredStatus c = CredRevoked" "CredUserID c = uid" using rv(1) cr by auto
  have dead: "\<not> live r" if "r \<in> set (rt_rows (sv_db sv'))" "CredentialKeyID r = k" for r
    using that kne end_row_dead unfolding rows set_update_where by blast
  have "credential_view (sv_db sv') k = Some (False, ConsumedRuntimeID c)" using c by (simp add: credential_view_def usable_def)
  then have view: "credential_view (sv_db later) k = Some (False, ConsumedRuntimeID c)" using credentials.frozen_star [OF assms(4) ok2(2)] by simp
  have hello: "\<not> is_ok (snd (verifyHello henv at h cache (sv_db later)))" if hk: "h_key_id h = k" "h_source h \<noteq> SourceBare"
  proof
    assume "is_ok (snd (verifyHello henv at h cache (sv_db later)))"
    then obtain cache' db3 rt where "verifyHello henv at h cache (sv_db later) = ((cache', db3), Inr rt)" by (metis is_ok_iff prod.collapse)
    then obtain cred' where a: "check_hello henv at h (sv_db later) = Inr cred'" using verifyHello_ok [OF _ hk(2)] by blast
    have "row KeyID (rt_creds (sv_db later)) k = Some cred'"
      using check_hello_ok(1) [OF a] hk(1) by (auto simp: GetRuntimeCredential_def select_one_row split: option.splits)
    then have "\<not> usable cred'" using view by (simp add: credential_view_def)
    then show False using check_hello_ok(2) [OF a] by (auto simp: validateCredentialUsableForHello_def usable_def hello_refusals split: if_splits)
  qed
  have resume: "\<not> is_ok (snd (verifyResume renv rs later))"
    if r: "r \<in> set (rt_rows (sv_db sv'))" "CredentialKeyID r = k" "Source r \<noteq> SourceBare" "RuntimeID r = trim_space (rs_runtime_id rs)" for r
  proof -
    have "row RuntimeID (rt_rows (sv_db sv')) (RuntimeID r) = Some r"
      using ok2(1) r(1) by (intro row_mem) (simp_all add: runtimes_ok_def runtimes_unique_def)
    then have "runtime_view (sv_db sv') (RuntimeID r) = Some (face r)" "face_final (face r)"
      using dead [OF r(1,2)] r(3) by (simp_all add: runtime_view_def face_final_def face_def)
    from runtimes.frozen_star [OF assms(4) ok2(1) this] obtain r' where
      "row RuntimeID (rt_rows (sv_db later)) (trim_space (rs_runtime_id rs)) = Some r'" "IsRuntimeTerminalStatus (RtStatus r')"
      using dead [OF r(1,2)] r(4) by (auto simp: runtime_view_def face_def)
    note e = fingerprint_ended [OF this]
    obtain x where "fingerprint_runtime ''runtime resume token is invalid'' ''lookup runtime resume token'' ''runtime resume token does not match runtime_id''
        (ce_now renv) (trim_space (rs_runtime_id rs)) (hashRuntimeChannelToken renv (resume_token rs)) (sv_db later) = Inl x" using e by blast
    then show ?thesis by (simp add: verifyResume_def Let_def)
  qed
  have "\<forall>i < length (rg_store (sv_registry sv')). ar_KeyID (st_runtime (stream_at (sv_registry sv') i)) = k \<longrightarrow> st_closed (stream_at (sv_registry sv') i)"
  proof -
    have rts: "map st_runtime (rg_store (sv_registry sv')) = map st_runtime (rg_store (sv_registry sv))"
      unfolding reg' CloseByKeyID_def by (rule close_ids_runtimes)
    then have len: "length (rg_store (sv_registry sv')) = length (rg_store (sv_registry sv))" by (metis length_map)
    have same: "st_runtime (stream_at (sv_registry sv') i) = st_runtime (stream_at (sv_registry sv) i)" if "i < length (rg_store (sv_registry sv))" for i
      using arg_cong [OF rts, of "\<lambda>l. l ! i"] that len by simp
    show ?thesis using CloseByKeyID_effect [OF reg surjective_pairing kne] same len unfolding reg' by auto
  qed
  then show ?thesis using c dead hello resume by blast
qed


definition after_revocation :: channel_service where
  "after_revocation = fst (Revoke (Some (channel_env 150 '''')) 150 7 ''k1'' channel_first)"

lemma revocation_value: "\<exists>res. Revoke (Some (channel_env 150 '''')) 150 7 ''k1'' channel_first = (after_revocation, Inr res) \<and>
    rr_streams_closed res = 1 \<and> rr_runtimes_ended res = 1"
proof -
  have "case snd (Revoke (Some (channel_env 150 '''')) 150 7 ''k1'' channel_first) of Inl _ \<Rightarrow> False
     | Inr res \<Rightarrow> rr_streams_closed res = 1 \<and> rr_runtimes_ended res = 1" by code_simp
  then show ?thesis by (auto simp: after_revocation_def prod_eq_iff split: sum.splits)
qed

lemma channel_first_ok: "service_inv channel_first" "creds_ok (sv_db channel_first)"
proof -
  obtain c where c: "open_channel (channel_env 100 ''t2'') (Inr None) (resume_frame ''t1'') channel_start = (channel_first, Inr c)"
    using channel_opens(1) by blast
  show "service_inv channel_first" by (rule open_channel_inv(1) [OF channel_start_inv c])
  have "rt_creds (sv_db channel_first) = rt_creds joined_db" by code_simp
  then show "creds_ok (sv_db channel_first)" using credentials.inv_star [OF joined_reachable empty_runtime_ok(2)] by (simp add: creds_ok_def)
qed

theorem revoked_credential_cut_off_witness:
  "st_closed (stream_at (sv_registry after_revocation) 0) \<and> (\<exists>r. row RuntimeID (rt_rows (sv_db after_revocation)) ''rt1'' = Some r \<and> \<not> live r) \<and>
   \<not> is_ok (snd (verifyHello sample_env 2000000000 sample_hello sample_cache (sv_db after_revocation)))"
proof -
  obtain res where r: "Revoke (Some (channel_env 150 '''')) 150 7 ''k1'' channel_first = (after_revocation, Inr res)" using revocation_value by blast
  have c: "h_key_id sample_hello = ''k1'' \<and> h_source sample_hello \<noteq> SourceBare" by code_simp
  have s: "0 < length (rg_store (sv_registry after_revocation)) \<and> ar_KeyID (st_runtime (stream_at (sv_registry after_revocation) 0)) = ''k1''" by code_simp
  have "\<exists>r. row RuntimeID (rt_rows (sv_db after_revocation)) ''rt1'' = Some r \<and> CredentialKeyID r = ''k1''"
  proof -
    have "case row RuntimeID (rt_rows (sv_db after_revocation)) ''rt1'' of None \<Rightarrow> False | Some r \<Rightarrow> CredentialKeyID r = ''k1''" by code_simp
    then show ?thesis by (auto split: option.splits)
  qed
  then obtain r where b: "row RuntimeID (rt_rows (sv_db after_revocation)) ''rt1'' = Some r" "CredentialKeyID r = ''k1''" by blast
  note cut = revoked_credential_cut_off [OF channel_first_ok r rtranclp.rtrancl_refl, of sample_hello sample_env 2000000000 sample_cache]
  have "\<not> live r" using cut b row_SomeD [OF b(1)] by blast
  then show ?thesis using cut c s b(1) by simp
qed

end
