(* ===== verification/RuntimeService.thy ===== *)
theory RuntimeService
  imports PlanLimits Credentials
begin

text \<open>
  \<open>internal/runtime/service.go\<close>: the business logic of the runtime control plane over the registry of
  \<open>RuntimeStore\<close>, the streams of \<open>ChannelService\<close>, the credentials of \<open>Credentials\<close> and the limits of
  \<open>PlanLimits\<close>. The core service, the provisioner, the network library and the clocks are
  parameters; what a call asks of them is logged in the state. This theory holds the definitions, the claims are in
  \<open>RuntimeClaims\<close>.
\<close>

section \<open>Errors\<close>

datatype service_sentinel = SvcInvalidArgument | SvcPermissionDenied | SvcNotFound | SvcUnpaired | SvcUnhealthy | SvcEnded | SvcTokenMismatch
  | SvcQuotaExceeded | SvcConflict | SvcPlanLookupUnavailable | SvcSessionLookupUnavailable | SvcProvisionerUnavailable | SvcRegistrationTimeout

fun svc_text :: "service_sentinel \<Rightarrow> string" where
  "svc_text SvcInvalidArgument = ''invalid argument''"
| "svc_text SvcPermissionDenied = ''permission denied''"
| "svc_text SvcNotFound = ''not found''"
| "svc_text SvcUnpaired = ''runtime unpaired''"
| "svc_text SvcUnhealthy = ''runtime unhealthy''"
| "svc_text SvcEnded = ''runtime ended''"
| "svc_text SvcTokenMismatch = ''token mismatch''"
| "svc_text SvcQuotaExceeded = ''quota exceeded''"
| "svc_text SvcConflict = ''conflict''"
| "svc_text SvcPlanLookupUnavailable = ''plan lookup unavailable''"
| "svc_text SvcSessionLookupUnavailable = ''session lookup unavailable''"
| "svc_text SvcProvisionerUnavailable = ''provisioner unavailable''"
| "svc_text SvcRegistrationTimeout = ''runtime did not open RuntimeChannel in time''"

text \<open>An error that wraps a sentinel of the service, with its text, or one that does not.\<close>
datatype service_error = Svc service_sentinel string | Other go_error

definition bare :: "service_sentinel \<Rightarrow> service_error" where "bare s = Svc s (svc_text s)"
definition wrap :: "service_sentinel \<Rightarrow> string \<Rightarrow> service_error" where "wrap s m = Svc s (svc_text s @ '': '' @ m)"

primrec service_text :: "service_error \<Rightarrow> string" where
  "service_text (Svc s m) = m"
| "service_text (Other e) = err_text e"

section \<open>State and environment\<close>

record resource_profile =
  rp_nano_cpus :: string
  rp_memory_mb :: int
  rp_pids_limit :: int

record provisioning_config =
  pv_image :: string
  pv_advertise_host :: string
  pv_port_base :: int
  pv_port_size :: int
  pv_registration_timeout :: int
  pv_profiles :: "string \<rightharpoonup> resource_profile"

text \<open>\<open>provision.Plan\<close>\<close>
record provision_plan =
  pp_runtime_id :: string
  pp_user_id :: int
  pp_name :: string
  pp_endpoint_host :: string
  pp_grpc_port :: int
  pp_image :: string
  pp_limits :: resource_profile
  pp_profile_name :: string
  pp_capabilities :: "string list"
  pp_control_panel_grpc :: string
  pp_credential_key_id :: string
  pp_credential_private_key :: string
  pp_client_cert :: string
  pp_client_key :: string
  pp_server_ca :: string
  pp_tls_server_name :: string

text \<open>What the service asks of the core service and of the provisioner.\<close>
datatype outside_call = MarkRuntimeSessionsRecoverable string string | Provision provision_plan | Deprovision string

record runtime_service =
  rv_chan :: channel_service
  rv_calls :: "outside_call list"

abbreviation rv_db :: "runtime_service \<Rightarrow> runtime_db" where "rv_db rs \<equiv> sv_db (rv_chan rs)"

record session_entry =
  se_session_id :: string
  se_status :: string

text \<open>IP addresses are the bytes of their 16-byte form.\<close>
record net_lib =
  nl_parse_ip :: "string \<Rightarrow> string option"
  nl_split_host_port :: "string \<Rightarrow> string option"
  nl_parse_cidr :: "string \<Rightarrow> (string \<Rightarrow> bool) option"

text \<open>The bare-runtime gate of \<open>config.RuntimePlatformConfig\<close>.\<close>
record bare_config =
  bc_enabled :: bool
  bc_allowlist :: "string list"
  bc_ttl :: duration

record runtime_env =
  re_chan :: chan_env
  re_stream_closer :: bool
  re_sessions :: "(string \<Rightarrow> session_entry option list option result) option"
  re_lookup :: "(int \<Rightarrow> string result) option"
  re_plans :: "string \<rightharpoonup> runtime_plan"
  re_caps :: platform_caps
  re_quote :: "string \<Rightarrow> string"
  re_collate :: "string \<Rightarrow> int"
  re_heartbeat_grace :: duration
  re_death_grace :: duration
  re_bare_death_grace :: duration
  re_provisioning :: provisioning_config
  re_issuer :: "issue_env option"
  re_provision :: "provision_plan \<Rightarrow> string result"
  re_deprovision :: "string \<Rightarrow> go_error option"
  re_diagnostics :: "(string \<Rightarrow> string result) option"
  re_tls_server_name :: string
  re_nano :: int
  re_random_id :: string
  re_net :: net_lib
  re_bare :: bare_config
  re_signer :: "x509_lib option"
  re_server_ca :: string
  re_cert_pem :: "certificate \<Rightarrow> string"
  re_fingerprint :: "certificate \<Rightarrow> string"

abbreviation re_now :: "runtime_env \<Rightarrow> go_time" where "re_now env \<equiv> ce_now (re_chan env)"
abbreviation re_db_now :: "runtime_env \<Rightarrow> go_time" where "re_db_now env \<equiv> ce_db_now (re_chan env)"

definition on_db :: "(runtime_db \<Rightarrow> runtime_db \<times> 'a result) \<Rightarrow> runtime_service \<Rightarrow> runtime_service \<times> 'a result" where
  "on_db f rs = (let (sv, r) = with_db f (rv_chan rs) in (rs\<lparr>rv_chan := sv\<rparr>, r))"

definition ask :: "outside_call \<Rightarrow> runtime_service \<Rightarrow> runtime_service" where
  "ask c rs = rs\<lparr>rv_calls := rv_calls rs @ [c]\<rparr>"

definition runtimeEventTitle :: "string \<Rightarrow> string" where
  "runtimeEventTitle t = (if t = EventRuntimeStarted then ''Runtime started'' else if t = EventRuntimeRecovered then ''Runtime recovered''
     else if t = EventRuntimeUnhealthy then ''Runtime unhealthy'' else if t = EventRuntimeEnded then ''Runtime ended'' else ''Runtime event'')"

definition publishRuntimeEvent :: "runtime \<Rightarrow> string \<Rightarrow> string \<Rightarrow> string \<Rightarrow> runtime_service \<Rightarrow> runtime_service" where
  "publishRuntimeEvent rt eventType severity message rs =
     (if UserID rt \<le> 0 then rs
      else rs\<lparr>rv_chan := (rv_chan rs)\<lparr>sv_events := sv_events (rv_chan rs) @ [\<lparr>nt_schema_version = 0, nt_event_id = '''', nt_created_at = zero_time,
        nt_user_id = UserID rt, nt_category = CategorySystem, nt_event_type = eventType, nt_severity = severity, nt_source_service = '''',
        nt_runtime_id = RuntimeID rt, nt_runtime_name = Name rt, nt_portfolio_id = 0, nt_strategy_id = 0, nt_session_id = '''',
        nt_title = runtimeEventTitle eventType, nt_message = message, nt_dedupe_key = eventType @ '':'' @ RuntimeID rt, nt_metadata = []\<rparr>]\<rparr>\<rparr>)"

definition resourceProfileAllowed :: "string \<Rightarrow> string list \<Rightarrow> bool" where
  "resourceProfileAllowed profile allowed \<longleftrightarrow> profile \<noteq> '''' \<and> profile \<in> set allowed"

definition resolvePlan :: "runtime_env \<Rightarrow> int \<Rightarrow> service_error + effective_limits" where
  "resolvePlan env uid = (case Resolve (re_lookup env) (re_plans env) (re_caps env) uid of
       Inr limits \<Rightarrow> Inr limits
     | Inl (Plan_UserNotFound m) \<Rightarrow> Inl (wrap SvcNotFound m)
     | Inl e \<Rightarrow> Inl (wrap SvcPlanLookupUnavailable (plan_text (re_quote env) e)))"


section \<open>Reading\<close>

definition validRuntimeName :: "string \<Rightarrow> bool" where
  "validRuntimeName s \<longleftrightarrow> (let plain = (\<lambda>c. is_lower c \<or> is_digit c) in
     3 \<le> length s \<and> length s \<le> 48 \<and> plain (hd s) \<and> plain (last s) \<and>
     list_all (\<lambda>c. plain c \<or> c = CHR ''-'') s)"

definition ListRuntimes_service :: "runtime_env \<Rightarrow> int \<Rightarrow> string \<Rightarrow> string \<Rightarrow> int \<Rightarrow> int \<Rightarrow> runtime_db \<Rightarrow> service_error + (runtime list \<times> int \<times> bool)" where
  "ListRuntimes_service env uid status source limit offset db =
     (if uid \<le> 0 then Inl (wrap SvcInvalidArgument ''user_id is required'')
      else Inr (ListRuntimes (re_collate env) db uid status source limit offset))"

definition ListRuntimeAdmissionFailures :: "int \<Rightarrow> int \<Rightarrow> runtime_db \<Rightarrow> service_error + admission_failure list" where
  "ListRuntimeAdmissionFailures uid limit db =
     (if uid \<le> 0 then Inl (wrap SvcInvalidArgument ''user_id is required'') else Inr (ListRuntimeAdmissionFailuresByUser db uid limit))"

definition GetRuntime_service :: "int \<Rightarrow> string \<Rightarrow> runtime_db \<Rightarrow> service_error + runtime" where
  "GetRuntime_service uid rid db =
     (if uid \<le> 0 then Inl (wrap SvcInvalidArgument ''user_id is required'')
      else if rid = '''' then Inl (wrap SvcInvalidArgument ''runtime_id is required'')
      else case GetRuntime db rid of
        Inl e \<Rightarrow> Inl (if errors_Is e ErrNotFound then bare SvcNotFound else Other e)
      | Inr rt \<Rightarrow> if UserID rt \<noteq> uid then Inl (bare SvcNotFound) else Inr rt)"

section \<open>Ending a runtime\<close>

record force_end =
  fe_actor :: int
  fe_authority :: string
  fe_reason :: string

record force_audit =
  fa_runtime_id :: string
  fa_actor :: int
  fa_authority :: string
  fa_reason :: string
  fa_sessions :: "string list"

definition Audit :: "force_end \<Rightarrow> string \<Rightarrow> session_entry option list \<Rightarrow> force_audit" where
  "Audit f rid sessions = \<lparr>fa_runtime_id = rid, fa_actor = fe_actor f, fa_authority = fe_authority f, fa_reason = fe_reason f,
     fa_sessions = concat (map (\<lambda>s. case s of None \<Rightarrow> [] | Some e \<Rightarrow> if se_session_id e = '''' then [] else [se_session_id e]) sessions)\<rparr>"

definition listRuntimeEndBlockers :: "runtime_env \<Rightarrow> string \<Rightarrow> service_error + session_entry option list" where
  "listRuntimeEndBlockers env rid =
     (if rid = '''' then Inr []
      else case re_sessions env of
        None \<Rightarrow> Inl (wrap SvcSessionLookupUnavailable ''core-service session client is not configured'')
      | Some query \<Rightarrow>
          (case query rid of
             Inl e \<Rightarrow> Inl (wrap SvcSessionLookupUnavailable (''list runtime sessions for '' @ rid @ '': '' @ err_text e))
           | Inr None \<Rightarrow> Inr []
           | Inr (Some l) \<Rightarrow> Inr l))"

definition describeSessionBlocker :: "session_entry option \<Rightarrow> string" where
  "describeSessionBlocker s = (case s of None \<Rightarrow> ''<unknown>''
     | Some e \<Rightarrow> if se_status e = '''' then se_session_id e else se_session_id e @ ''(status='' @ se_status e @ '')'')"

definition hostedRuntimeHandle :: "string \<Rightarrow> string" where "hostedRuntimeHandle rid = ''hushine-runtime-'' @ rid"

record cleanup =
  cu_status :: string
  cu_reason :: string
  cu_at :: go_time

text \<open>Whatever the update answers is ignored.\<close>
definition recordRuntimeCleanupState :: "runtime_env \<Rightarrow> string \<Rightarrow> string \<Rightarrow> string \<Rightarrow> go_time \<Rightarrow> runtime_service \<Rightarrow> runtime_service" where
  "recordRuntimeCleanupState env rid status reason0 tm rs =
     (if rid = '''' \<or> status = '''' then rs
      else fst (on_db (UpdateRuntimeCleanupState (re_db_now env) rid status (take 1000 (trim_space reason0)) tm) rs))"

definition deprovisionHostedRuntimeHandle :: "runtime_env \<Rightarrow> string \<Rightarrow> string \<Rightarrow> runtime_service \<Rightarrow> runtime_service \<times> cleanup" where
  "deprovisionHostedRuntimeHandle env rid handle rs =
     (let (status, reason) = (case re_deprovision env handle of None \<Rightarrow> (CleanupSucceeded, '''') | Some e \<Rightarrow> (CleanupFailed, err_text e));
          rs1 = recordRuntimeCleanupState env rid status reason (re_now env) (ask (Deprovision handle) rs)
      in (rs1, \<lparr>cu_status = status, cu_reason = reason, cu_at = re_now env\<rparr>))"

definition deprovisionHostedRuntime :: "runtime_env \<Rightarrow> string \<Rightarrow> runtime_service \<Rightarrow> runtime_service \<times> cleanup" where
  "deprovisionHostedRuntime env rid = deprovisionHostedRuntimeHandle env rid (hostedRuntimeHandle rid)"

definition recordSelfHostedCleanupGuidance :: "runtime_env \<Rightarrow> string \<Rightarrow> runtime_service \<Rightarrow> runtime_service \<times> cleanup" where
  "recordSelfHostedCleanupGuidance env rid rs =
     (let reason = ''self-hosted container is user-owned; stop/remove it on the Docker host if it did not exit'' in
      (recordRuntimeCleanupState env rid CleanupUserOwned reason (re_now env) rs, \<lparr>cu_status = CleanupUserOwned, cu_reason = reason, cu_at = re_now env\<rparr>))"

definition markRuntimeSessionsRecoverable :: "runtime_env \<Rightarrow> string \<Rightarrow> string \<Rightarrow> runtime_service \<Rightarrow> runtime_service" where
  "markRuntimeSessionsRecoverable env rid msg rs =
     (if re_sessions env = None \<or> rid = '''' then rs else ask (MarkRuntimeSessionsRecoverable rid msg) rs)"

text \<open>The clean-up of \<open>EndRuntime\<close>: \<open>None\<close> for a bare runtime.\<close>
definition end_cleanup :: "runtime_env \<Rightarrow> runtime \<Rightarrow> runtime_service \<Rightarrow> runtime_service \<times> cleanup option" where
  "end_cleanup env rt rs =
     (if Source rt = SourceHosted then (let (rs', c) = deprovisionHostedRuntime env (RuntimeID rt) rs in (rs', Some c))
      else if Source rt = SourceSelfHosted then
        (let rs1 = (if re_stream_closer env then rs\<lparr>rv_chan := fst (CloseStreamForRuntime (RuntimeID rt) (rv_chan rs))\<rparr> else rs);
             (rs', c) = recordSelfHostedCleanupGuidance env (RuntimeID rt) rs1 in (rs', Some c))
      else (rs, None))"

definition EndRuntime_service :: "runtime_env \<Rightarrow> int \<Rightarrow> string \<Rightarrow> force_end option \<Rightarrow> runtime_service \<Rightarrow> runtime_service \<times> (service_error + runtime)" where
  "EndRuntime_service env uid rid force rs =
     (case GetRuntime_service uid rid (rv_db rs) of
        Inl e \<Rightarrow> (rs, Inl e)
      | Inr rt0 \<Rightarrow>
          if IsRuntimeTerminalStatus (RtStatus rt0) then (rs, Inr rt0)
          else (case listRuntimeEndBlockers env (RuntimeID rt0) of
             Inl e \<Rightarrow> (rs, Inl e)
           | Inr blockers \<Rightarrow>
               if force \<noteq> None then (rs, Inl (wrap SvcPermissionDenied ''force runtime end is reserved for future admin authority''))
               else if blockers \<noteq> [] then
                 (rs, Inl (wrap SvcConflict (''runtime '' @ RuntimeID rt0 @ '' has active session blocker '' @ describeSessionBlocker (hd blockers))))
               else (case on_db (EndRuntime (re_db_now env) (RuntimeID rt0) ReasonUserCancelled (re_now env)) rs of
                  (rs1, Inl e) \<Rightarrow> (rs1, Inl (if errors_Is e ErrNotFound then bare SvcNotFound else Other e))
                | (rs1, Inr rt) \<Rightarrow>
                    (let (rs2, c) = end_cleanup env rt rs1;
                         rt' = (case c of None \<Rightarrow> rt | Some c \<Rightarrow> rt\<lparr>CleanupStatus := cu_status c, CleanupReason := cu_reason c, CleanupAt := Some (cu_at c)\<rparr>);
                         rs3 = markRuntimeSessionsRecoverable env (RuntimeID rt') (''runtime '' @ RuntimeID rt' @ '' was ended by control-panel'') rs2
                     in (publishRuntimeEvent rt' EventRuntimeEnded SeverityInfo (''Runtime '' @ Name rt' @ '' ended: '' @ EndedReason rt' @ ''.'') rs3, Inr rt')))))"


text \<open>The watchdog: one pass over the runtimes that ended.\<close>
definition reap_ended :: "runtime_env \<Rightarrow> runtime \<Rightarrow> runtime_service \<Rightarrow> runtime_service" where
  "reap_ended env rt rs =
     (let rs1 = (if Source rt = SourceHosted then fst (deprovisionHostedRuntime env (RuntimeID rt) rs)
                 else if Source rt = SourceSelfHosted then fst (recordSelfHostedCleanupGuidance env (RuntimeID rt) rs) else rs);
          rs2 = markRuntimeSessionsRecoverable env (RuntimeID rt)
            (''runtime '' @ RuntimeID rt @ '' heartbeat stale; session marked recoverable by control-panel watchdog'') rs1
      in publishRuntimeEvent rt EventRuntimeEnded SeverityError (''Runtime '' @ Name rt @ '' ended: '' @ EndedReason rt @ ''.'') rs2)"

definition ReapStaleRuntimes :: "runtime_env \<Rightarrow> runtime_service \<Rightarrow> runtime_service \<times> (service_error + runtime list)" where
  "ReapStaleRuntimes env rs =
     (let now = re_now env in
      case on_db (MarkStaleRuntimesUnhealthy (re_db_now env) (now - re_heartbeat_grace env)) rs of
        (rs1, Inl e) \<Rightarrow> (rs1, Inl (Other e))
      | (rs1, Inr stale) \<Rightarrow>
          (let rs2 = fold (\<lambda>rt. publishRuntimeEvent rt EventRuntimeUnhealthy SeverityWarn (''Runtime '' @ Name rt @ '' missed heartbeat.'')) stale rs1 in
           case on_db (EndDeadRuntimesBySourceCutoffs (re_db_now env) (now - re_death_grace env) (now - re_bare_death_grace env) ReasonHeartbeatStale now) rs2 of
             (rs3, Inl e) \<Rightarrow> (rs3, Inl (Other e))
           | (rs3, Inr ended) \<Rightarrow> (fold (reap_ended env) ended rs3, Inr (stale @ ended))))"

section \<open>Routes\<close>

text \<open>\<open>now.Sub(t) > grace\<close>, for the last heartbeat and the last sign of the connection owner.\<close>
definition owner_fresh :: "runtime_env \<Rightarrow> runtime \<Rightarrow> bool" where
  "owner_fresh env rt \<longleftrightarrow> OwnerInstanceID rt \<noteq> '''' \<and>
     (case OwnerHeartbeatAt rt of None \<Rightarrow> False | Some t \<Rightarrow> re_now env - t \<le> re_heartbeat_grace env)"

definition route_role_check :: "runtime_env \<Rightarrow> runtime \<Rightarrow> string \<Rightarrow> int \<Rightarrow> service_error option" where
  "route_role_check env rt role environment =
     (if role = RoleExecutor then
        (if Role rt \<noteq> '''' \<and> Role rt \<noteq> RoleExecutor
         then Some (wrap SvcPermissionDenied (''runtime role '' @ re_quote env (Role rt) @ '' is not eligible for executor sessions''))
         else if environment \<noteq> 0 \<and> environment \<noteq> 1
         then Some (wrap SvcPermissionDenied (''executor runtime environment '' @ format_int environment @ '' is not supported''))
         else None)
      else if role = RoleDebugger then
        (if Role rt \<noteq> RoleDebugger
         then Some (wrap SvcPermissionDenied (''runtime role '' @ re_quote env (Role rt) @ '' is not eligible for debugger sessions''))
         else if environment \<noteq> 0 then Some (wrap SvcPermissionDenied ''debugger runtime only supports backtest environment'')
         else case listRuntimeEndBlockers env (RuntimeID rt) of
           Inl e \<Rightarrow> Some e
         | Inr blockers \<Rightarrow> if blockers \<noteq> []
             then Some (wrap SvcConflict (''debugger runtime already has active session '' @ describeSessionBlocker (hd blockers))) else None)
      else Some (wrap SvcInvalidArgument (''unsupported runtime route role '' @ re_quote env role)))"

text \<open>The guard on the number of runtimes: 0 forbids, -1 is no limit.\<close>
definition quota_check :: "runtime_env \<Rightarrow> effective_limits \<Rightarrow> runtime_usage \<Rightarrow> service_error option" where
  "quota_check env l counts =
     (let plan = ''plan '' @ re_quote env (el_plan_code l) in
      if el_hosted l = 0 \<and> 0 < UsageHosted counts
      then Some (wrap SvcQuotaExceeded (plan @ '' forbids hosted runtimes (user has '' @ format_int (UsageHosted counts) @ '')''))
      else if 0 < el_hosted l \<and> el_hosted l < UsageHosted counts
      then Some (wrap SvcQuotaExceeded (plan @ '' caps hosted runtimes at '' @ format_int (el_hosted l) @ '', user has '' @ format_int (UsageHosted counts)))
      else if el_self_hosted l = 0 \<and> 0 < UsageSelfHosted counts
      then Some (wrap SvcQuotaExceeded (plan @ '' forbids self_hosted runtimes (user has '' @ format_int (UsageSelfHosted counts) @ '')''))
      else if 0 < el_self_hosted l \<and> el_self_hosted l < UsageSelfHosted counts
      then Some (wrap SvcQuotaExceeded (plan @ '' caps self_hosted runtimes at '' @ format_int (el_self_hosted l) @ '', user has '' @ format_int (UsageSelfHosted counts)))
      else None)"

definition resolveRuntimeRouteForRuntimeWithPolicy ::
  "runtime_env \<Rightarrow> int \<Rightarrow> runtime \<Rightarrow> string \<Rightarrow> int \<Rightarrow> runtime_service \<Rightarrow> runtime_service \<times> (service_error + runtime)" where
  "resolveRuntimeRouteForRuntimeWithPolicy env uid rt role0 environment rs =
     (if RtStatus rt \<in> {RuntimeStatusHeartbeatStale, RuntimeStatusEnded, RuntimeStatusCancelled, RuntimeStatusFailed} then
        (markRuntimeSessionsRecoverable env (RuntimeID rt)
           (''runtime '' @ RuntimeID rt @ '' is terminal ('' @ RtStatus rt @ ''); session marked recoverable during route resolution'') rs, Inl (bare SvcEnded))
      else if RtStatus rt = ''unpaired'' then (rs, Inl (bare SvcUnpaired))
      else let role1 = to_lower (trim_space role0); role = (if role1 = '''' then RoleExecutor else role1) in
      case route_role_check env rt role environment of
        Some e \<Rightarrow> (rs, Inl e)
      | None \<Rightarrow>
          if RtStatus rt = RuntimeStatusUnhealthy then (rs, Inl (bare SvcUnhealthy))
          else (case HeartbeatAt rt of
             None \<Rightarrow> (rs, Inl (bare SvcUnhealthy))
           | Some hb \<Rightarrow>
               if re_heartbeat_grace env < re_now env - hb \<or> \<not> owner_fresh env rt then (rs, Inl (bare SvcUnhealthy))
               else (case resolvePlan env uid of
                  Inl e \<Rightarrow> (rs, Inl e)
                | Inr limits \<Rightarrow>
                    (case quota_check env limits (CountRuntimesByUser (rv_db rs) uid) of Some e \<Rightarrow> (rs, Inl e) | None \<Rightarrow> (rs, Inr rt)))))"

definition ResolveRuntimeRouteByID ::
  "runtime_env \<Rightarrow> int \<Rightarrow> string \<Rightarrow> string \<Rightarrow> int \<Rightarrow> runtime_service \<Rightarrow> runtime_service \<times> (service_error + runtime)" where
  "ResolveRuntimeRouteByID env uid rid role environment rs =
     (case GetRuntime_service uid rid (rv_db rs) of
        Inl e \<Rightarrow> (rs, Inl e)
      | Inr rt \<Rightarrow> resolveRuntimeRouteForRuntimeWithPolicy env uid rt role environment rs)"

definition resolveRuntimeRouteForRuntime :: "runtime_env \<Rightarrow> int \<Rightarrow> runtime \<Rightarrow> runtime_service \<Rightarrow> runtime_service \<times> (service_error + runtime)" where
  "resolveRuntimeRouteForRuntime env uid rt = resolveRuntimeRouteForRuntimeWithPolicy env uid rt RoleExecutor 0"


section \<open>Hosted runtimes\<close>

text \<open>A search through the pages of a listing.\<close>
lemma ListRuntimes_more: "ListRuntimes collate db uid status src 200 off = (items, cnt, True) \<Longrightarrow> 0 \<le> off \<Longrightarrow> off + 200 < int (length (rt_rows db))"
proof -
  assume l: "ListRuntimes collate db uid status src 200 off = (items, cnt, True)" and o: "0 \<le> off"
  let ?rows = "filter (\<lambda>r. UserID r = uid \<and> UserID r \<noteq> 0 \<and> (status = '''' \<or> RtStatus r = status) \<and> (src = '''' \<or> Source r = src)) (rt_rows db)"
  have "200 < length ?rows - nat off" using l o by (auto simp: ListRuntimes_def Let_def)
  moreover have "length ?rows \<le> length (rt_rows db)" by simp
  ultimately show ?thesis using o by linarith
qed

function find_page :: "(string \<Rightarrow> int) \<Rightarrow> runtime_db \<Rightarrow> int \<Rightarrow> string \<Rightarrow> (runtime \<Rightarrow> bool) \<Rightarrow> nat \<Rightarrow> runtime option" where
  "find_page collate db uid source hit offset =
     (case ListRuntimes collate db uid '''' source 200 (int offset) of (items, _, hasMore) \<Rightarrow>
        (case find hit items of
           Some rt \<Rightarrow> Some rt
         | None \<Rightarrow> if \<not> hasMore then None else find_page collate db uid source hit (offset + 200)))"
  by pat_completeness auto
termination
proof (relation "measure (\<lambda>(_, db, _, _, _, offset). length (rt_rows db) - offset)", goal_cases)
  case 1
  show ?case by simp
next
  case (2 collate db uid source hit offset items rest cnt hasMore)
  then have "ListRuntimes collate db uid '''' source 200 (int offset) = (items, cnt, True)" by simp
  then show ?case using ListRuntimes_more by fastforce
qed

declare find_page.simps [simp del]

definition findRuntimeByUserNameSource :: "runtime_env \<Rightarrow> runtime_db \<Rightarrow> int \<Rightarrow> string \<Rightarrow> string \<Rightarrow> bool \<Rightarrow> runtime option" where
  "findRuntimeByUserNameSource env db uid name source includeEnded =
     find_page (re_collate env) db uid source (\<lambda>rt. Name rt = name \<and> (includeEnded \<or> live rt)) 0"

definition findHostedRuntimeSlot :: "runtime_env \<Rightarrow> runtime_db \<Rightarrow> int \<Rightarrow> runtime option" where
  "findHostedRuntimeSlot env db uid = find_page (re_collate env) db uid SourceHosted live 0"

definition hostedNameAdjectives :: "string list" where
  "hostedNameAdjectives = [''amber'', ''brisk'', ''calm'', ''clear'', ''fresh'', ''glad'', ''keen'', ''lucky'', ''nimble'', ''quiet'', ''rapid'', ''steady'']"
definition hostedNameNouns :: "string list" where
  "hostedNameNouns = [''atlas'', ''beacon'', ''canvas'', ''delta'', ''ember'', ''forge'', ''harbor'', ''ion'', ''juno'', ''kepler'', ''ledger'', ''matrix'']"

definition hosted_names :: nat where "hosted_names = length hostedNameAdjectives * length hostedNameNouns"

definition hostedRuntimeNameForAttempt :: "int \<Rightarrow> string" where
  "hostedRuntimeNameForAttempt attempt0 =
     (let attempt = (if attempt0 < 0 then 0 else nat attempt0); n = attempt mod hosted_names in
      ''hosted-'' @ hostedNameAdjectives ! (n mod length hostedNameAdjectives) @ ''-'' @
      hostedNameNouns ! (n div length hostedNameAdjectives mod length hostedNameNouns))"

text \<open>\<open>time.Now().UnixNano() % max\<close>; Go's remainder has the sign of the dividend.\<close>
definition sRandInt :: "runtime_env \<Rightarrow> int \<Rightarrow> int" where
  "sRandInt env n = (if n \<le> 0 then 0 else if re_nano env < 0 then - ((- re_nano env) mod n) else re_nano env mod n)"

definition generateHostedRuntimeName :: "runtime_env \<Rightarrow> string" where
  "generateHostedRuntimeName env = hostedRuntimeNameForAttempt (sRandInt env (int hosted_names))"

definition generateAvailableHostedRuntimeName :: "runtime_env \<Rightarrow> runtime_db \<Rightarrow> int \<Rightarrow> service_error + string" where
  "generateAvailableHostedRuntimeName env db uid =
     (let offset = sRandInt env (int hosted_names) in
      case find (\<lambda>name. findRuntimeByUserNameSource env db uid name '''' True = None)
             (map (\<lambda>attempt. hostedRuntimeNameForAttempt (offset + int attempt)) [0..<hosted_names]) of
        Some name \<Rightarrow> Inr name
      | None \<Rightarrow> Inl (wrap SvcConflict ''unable to allocate hosted runtime name''))"

text \<open>Last seen is the heartbeat or, before the first, the last update.\<close>
definition tryReuseExisting :: "runtime_env \<Rightarrow> runtime \<Rightarrow> bool" where
  "tryReuseExisting env rt \<longleftrightarrow>
     RtStatus rt \<notin> {RuntimeStatusHeartbeatStale, RuntimeStatusEnded, RuntimeStatusCancelled, RuntimeStatusFailed, ''unpaired'', RuntimeStatusUnhealthy} \<and>
     re_now env - (case HeartbeatAt rt of None \<Rightarrow> UpdatedAt rt | Some t \<Rightarrow> t) \<le> re_heartbeat_grace env \<and> owner_fresh env rt"

definition allocatePort :: "provisioning_config \<Rightarrow> int \<Rightarrow> int" where
  "allocatePort pv uid =
     (let base = (if pv_port_base pv \<le> 0 then 50100 else pv_port_base pv); size = (if pv_port_size pv \<le> 0 then 200 else pv_port_size pv) in
      base + (if uid < 0 then - ((- uid) mod size) else uid mod size))"

text \<open>The checks of \<open>EnsureHostedRuntime\<close>, which only read: a runtime to reuse, or the name and the profile to provision.\<close>
datatype ensure_verdict = Reuse runtime | Start string string resource_profile

definition slot_conflict :: "runtime \<Rightarrow> service_error" where
  "slot_conflict rt = wrap SvcConflict (''hosted runtime slot occupied by '' @ RuntimeID rt @ ''; end it before starting a replacement'')"

definition ensure_quota :: "runtime_env \<Rightarrow> int \<Rightarrow> string \<Rightarrow> runtime_db \<Rightarrow> service_error + resource_profile" where
  "ensure_quota env uid profile db =
     (case resolvePlan env uid of
        Inl e \<Rightarrow> Inl e
      | Inr l \<Rightarrow>
          (let plan = ''plan '' @ re_quote env (el_plan_code l) in
           if el_hosted l = 0 then Inl (wrap SvcQuotaExceeded (plan @ '' forbids hosted runtimes''))
           else if 0 < el_hosted l \<and> el_hosted l \<le> UsageHosted (CountRuntimesByUser db uid)
           then Inl (wrap SvcQuotaExceeded (plan @ '' caps hosted runtimes at '' @ format_int (el_hosted l)))
           else if \<not> resourceProfileAllowed profile (el_profiles l)
           then Inl (wrap SvcQuotaExceeded (plan @ '' does not allow resource_profile '' @ re_quote env profile))
           else case pv_profiles (re_provisioning env) profile of
             None \<Rightarrow> Inl (wrap SvcInvalidArgument (''resource_profile '' @ re_quote env profile @ '' not defined in provisioning.profiles''))
           | Some limits \<Rightarrow> Inr limits))"

definition ensure_named :: "runtime_env \<Rightarrow> int \<Rightarrow> string \<Rightarrow> string \<Rightarrow> runtime_db \<Rightarrow> service_error + ensure_verdict" where
  "ensure_named env uid name profile db =
     (case findRuntimeByUserNameSource env db uid name '''' True of
        Some rt \<Rightarrow>
          (if Source rt = SourceHosted then
             (if tryReuseExisting env rt then Inr (Reuse rt)
              else Inl (wrap SvcConflict (''hosted runtime name occupied by '' @ RuntimeID rt @ ''; end it before starting a replacement'')))
           else Inl (wrap SvcConflict (''runtime name occupied by '' @ RuntimeID rt)))
      | None \<Rightarrow>
          (case ensure_quota env uid profile db of
             Inl e \<Rightarrow> Inl e
           | Inr limits \<Rightarrow>
               (case findHostedRuntimeSlot env db uid of Some rt \<Rightarrow> Inl (slot_conflict rt) | None \<Rightarrow> Inr (Start name profile limits))))"

definition ensure_auto :: "runtime_env \<Rightarrow> int \<Rightarrow> string \<Rightarrow> runtime_db \<Rightarrow> service_error + ensure_verdict" where
  "ensure_auto env uid profile db =
     (let slot = findHostedRuntimeSlot env db uid in
      case slot of
        Some rt \<Rightarrow>
          (if tryReuseExisting env rt then Inr (Reuse rt)
           else case ensure_quota env uid profile db of Inl e \<Rightarrow> Inl e | Inr _ \<Rightarrow> Inl (slot_conflict rt))
      | None \<Rightarrow>
          (case ensure_quota env uid profile db of
             Inl e \<Rightarrow> Inl e
           | Inr limits \<Rightarrow>
               (case generateAvailableHostedRuntimeName env db uid of Inl e \<Rightarrow> Inl e | Inr name \<Rightarrow> Inr (Start name profile limits))))"

definition ensure_checks :: "runtime_env \<Rightarrow> int \<Rightarrow> string \<Rightarrow> string \<Rightarrow> runtime_db \<Rightarrow> service_error + ensure_verdict" where
  "ensure_checks env uid name profile0 db =
     (let profile = (if profile0 = '''' then ''small'' else profile0) in
      if uid \<le> 0 then Inl (wrap SvcInvalidArgument ''user_id is required'')
      else if name \<noteq> '''' \<and> \<not> validRuntimeName name then Inl (wrap SvcInvalidArgument ''name must match ^[a-z0-9][a-z0-9-]{1,46}[a-z0-9]$'')
      else if name \<noteq> '''' then ensure_named env uid name profile db else ensure_auto env uid profile db)"


text \<open>\<open>internal/auth/tokens.go\<close>, over the random bytes; \<open>None\<close> is the panic.\<close>
definition randomHex :: "string option \<Rightarrow> string option" where "randomHex b = map_option hex_string b"
definition GenerateRuntimeID :: "string \<Rightarrow> string" where "GenerateRuntimeID b = ''rt-'' @ hex_string b"
definition HashToken :: "(string \<Rightarrow> string) \<Rightarrow> string \<Rightarrow> string" where "HashToken sha256 t = hex_string (sha256 t)"

primrec cred_text :: "cred_error \<Rightarrow> string" where
  "cred_text (Cred_InvalidArgument m) = ''invalid argument: '' @ m"
| "cred_text Cred_NotFound = ''credential not found''"
| "cred_text Cred_PermissionDenied = ''permission denied''"
| "cred_text (Cred_SignerUnavailable m) = ''runtime certificate signer unavailable: '' @ m"
| "cred_text (Cred_Other e) = err_text e"

definition hosted_plan :: "runtime_env \<Rightarrow> int \<Rightarrow> string \<Rightarrow> string \<Rightarrow> resource_profile \<Rightarrow> string \<Rightarrow> issued_credential option \<Rightarrow> provision_plan" where
  "hosted_plan env uid name profile limits rid cred =
     (let pv = re_provisioning env;
          plain = \<lparr>pp_runtime_id = rid, pp_user_id = uid, pp_name = name, pp_endpoint_host = pv_advertise_host pv, pp_grpc_port = allocatePort pv uid,
            pp_image = pv_image pv, pp_limits = limits, pp_profile_name = profile, pp_capabilities = [''strategy'', ''spot'', ''futures''],
            pp_control_panel_grpc = '''', pp_credential_key_id = '''', pp_credential_private_key = '''', pp_client_cert = '''', pp_client_key = '''',
            pp_server_ca = '''', pp_tls_server_name = ''''\<rparr>
      in case cred of
           None \<Rightarrow> plain
         | Some ic \<Rightarrow>
             if KeyID (ic_credential ic) = '''' then plain
             else plain\<lparr>pp_credential_key_id := KeyID (ic_credential ic), pp_credential_private_key := ic_private_key ic, pp_client_cert := ic_client_cert ic,
                    pp_client_key := ic_client_key ic, pp_server_ca := ic_server_ca ic, pp_tls_server_name := re_tls_server_name env\<rparr>)"

definition provision :: "runtime_env \<Rightarrow> provision_plan \<Rightarrow> runtime_service \<Rightarrow> runtime_service \<times> (service_error + string)" where
  "provision env p rs = (ask (Provision p) rs,
     case re_provision env p of Inl e \<Rightarrow> Inl (wrap SvcProvisionerUnavailable (err_text e)) | Inr handle \<Rightarrow> Inr handle)"

text \<open>From the verdict to the container: the runtime id and the handle.\<close>
definition ensure_start :: "runtime_env \<Rightarrow> int \<Rightarrow> string \<Rightarrow> string \<Rightarrow> resource_profile \<Rightarrow> runtime_service \<Rightarrow> runtime_service \<times> (service_error + string \<times> string)" where
  "ensure_start env uid name profile limits rs =
     (let rid = GenerateRuntimeID (re_random_id env);
          finish = (\<lambda>cred rs. case provision env (hosted_plan env uid name profile limits rid cred) rs of
             (rs', Inl e) \<Rightarrow> (rs', Inl e) | (rs', Inr handle) \<Rightarrow> (rs', Inr (rid, handle)))
      in case re_issuer env of
           None \<Rightarrow> finish None rs
         | Some ie \<Rightarrow>
             (case IssueHostedInternalRuntimeCredential ie uid rid name (rv_db rs) of
                (db, Inl e) \<Rightarrow> (rs\<lparr>rv_chan := (rv_chan rs)\<lparr>sv_db := db\<rparr>\<rparr>, Inl (wrap SvcProvisionerUnavailable (''issue hosted runtime credential: '' @ cred_text e)))
              | (db, Inr ic) \<Rightarrow> finish (Some ic) (rs\<lparr>rv_chan := (rv_chan rs)\<lparr>sv_db := db\<rparr>\<rparr>)))"

text \<open>A call that returned, or one that waits for the registration of a runtime under a handle.\<close>
datatype ensure_state = Ensured "service_error + runtime \<times> bool" | Waiting string string

definition ensure_begin :: "runtime_env \<Rightarrow> int \<Rightarrow> string \<Rightarrow> string \<Rightarrow> runtime_service \<Rightarrow> runtime_service \<times> ensure_state" where
  "ensure_begin env uid name profile rs =
     (case ensure_checks env uid name profile (rv_db rs) of
        Inl e \<Rightarrow> (rs, Ensured (Inl e))
      | Inr (Reuse rt) \<Rightarrow> (rs, Ensured (Inr (rt, False)))
      | Inr (Start name' profile' limits) \<Rightarrow>
          (case ensure_start env uid name' profile' limits rs of
             (rs', Inl e) \<Rightarrow> (rs', Ensured (Inl e)) | (rs', Inr (rid, handle)) \<Rightarrow> (rs', Waiting rid handle)))"

text \<open>\<open>time.Duration.String\<close> of whole seconds.\<close>
definition seconds_text :: "int \<Rightarrow> string" where
  "seconds_text n = (if n < 60 then format_int n @ ''s''
     else if n < 3600 then format_int (n div 60) @ ''m'' @ format_int (n mod 60) @ ''s''
     else format_int (n div 3600) @ ''h'' @ format_int (n mod 3600 div 60) @ ''m'' @ format_int (n mod 60) @ ''s'')"

definition registration_seconds :: "provisioning_config \<Rightarrow> int" where
  "registration_seconds pv = (if pv_registration_timeout pv \<le> 0 then 30 else pv_registration_timeout pv)"

text \<open>What one poll sees: the registry, whether the deadline has passed, and the context's error. \<open>None\<close>: still polling.\<close>
record poll =
  po_db :: runtime_db
  po_expired :: bool
  po_ctx :: "go_error option"

fun waitForRegistration :: "runtime_env \<Rightarrow> string \<Rightarrow> poll list \<Rightarrow> (service_error + runtime) option" where
  "waitForRegistration env rid [] = None"
| "waitForRegistration env rid (p # ps) =
     (let next = (if po_expired p then Some (Inl (wrap SvcRegistrationTimeout (''runtime_id='' @ rid @ '' waited '' @
                      seconds_text (registration_seconds (re_provisioning env)))))
                  else case po_ctx p of Some e \<Rightarrow> Some (Inl (Other e)) | None \<Rightarrow> waitForRegistration env rid ps)
      in case GetRuntime (po_db p) rid of
           Inr rt \<Rightarrow> if RtStatus rt = RuntimeStatusActive \<and> OwnerInstanceID rt \<noteq> '''' then Some (Inr rt) else next
         | Inl e \<Rightarrow> if errors_Is e ErrNotFound then next else Some (Inl (Other e)))"

primrec service_suffix :: "string \<Rightarrow> service_error \<Rightarrow> service_error" where
  "service_suffix t (Svc s m) = Svc s (m @ t)"
| "service_suffix t (Other e) = Other (error_suffix t e)"

definition withRuntimeStartupDiagnostics :: "runtime_env \<Rightarrow> service_error \<Rightarrow> string \<Rightarrow> service_error" where
  "withRuntimeStartupDiagnostics env e handle =
     (if handle = '''' then e
      else case re_diagnostics env of
        None \<Rightarrow> e
      | Some diagnostics \<Rightarrow>
          (case diagnostics handle of
             Inl d \<Rightarrow> (let t = trim_space (err_text d) in if t = '''' then e else service_suffix (''; runtime diagnostics failed: '' @ t) e)
           | Inr d0 \<Rightarrow> (let d = trim_space d0 in if d = '''' then e else service_suffix (''; runtime diagnostics: '' @ d) e)))"

definition ensure_end :: "runtime_env \<Rightarrow> string \<Rightarrow> string \<Rightarrow> service_error + runtime \<Rightarrow> runtime_service \<Rightarrow> runtime_service \<times> (service_error + runtime \<times> bool)" where
  "ensure_end env rid handle outcome rs =
     (case outcome of
        Inr rt \<Rightarrow> (rs, Inr (rt, True))
      | Inl e \<Rightarrow> (fst (deprovisionHostedRuntimeHandle env rid handle rs), Inl (withRuntimeStartupDiagnostics env e handle)))"

section \<open>Bare runtimes\<close>

definition ipAllowed :: "net_lib \<Rightarrow> string \<Rightarrow> string list \<Rightarrow> bool" where
  "ipAllowed net ipText0 cidrs =
     (let ipText = trim_space ipText0;
          ip = (case nl_parse_ip net ipText of
             Some ip \<Rightarrow> Some ip
           | None \<Rightarrow> (case nl_split_host_port net ipText of None \<Rightarrow> None | Some host \<Rightarrow> nl_parse_ip net host))
      in case ip of
           None \<Rightarrow> False
         | Some ip \<Rightarrow> list_ex (\<lambda>c0. let c = trim_space c0 in c \<noteq> '''' \<and>
             (case nl_parse_cidr net c of Some inside \<Rightarrow> inside ip | None \<Rightarrow> nl_parse_ip net c = Some ip)) cidrs)"

record bare_certificate =
  bt_runtime_id :: string
  bt_name :: string
  bt_client_cert :: string
  bt_server_ca :: string
  bt_expires_at :: go_time

definition bare_credential :: "runtime_env \<Rightarrow> int \<Rightarrow> string \<Rightarrow> string \<Rightarrow> certificate \<Rightarrow> credential" where
  "bare_credential env uid rid name cert = \<lparr>KeyID = ''bare-'' @ rid, CredUserID = uid, Label = ''bare:'' @ name, CredRole = RoleExecutor,
     PublicKeyPEM = '''', CredStatus = CredDownloaded, CredCreatedAt = re_now env, DownloadedAt = Some (re_now env), ConsumedAt = None,
     ConsumedRuntimeID = '''', ExpiresAt = Some (ct_not_after cert), LastUsedAt = None, RevokedAt = None, HostedInternal = False,
     ClientCertPEM = re_cert_pem env cert, ClientCertFingerprint = re_fingerprint env cert, ClientCertExpiresAt = Some (ct_not_after cert),
     Issuer = IssuerBareDebug\<rparr>"

definition BootstrapBareRuntimeCertificate ::
  "runtime_env \<Rightarrow> int \<Rightarrow> string \<Rightarrow> string \<Rightarrow> string \<Rightarrow> string \<Rightarrow> runtime_service \<Rightarrow> runtime_service \<times> (service_error + bare_certificate)" where
  "BootstrapBareRuntimeCertificate env uid rid0 name0 csr remote rs =
     (if \<not> bc_enabled (re_bare env) then (rs, Inl (wrap SvcPermissionDenied ''bare runtime debug gate disabled''))
      else if \<not> ipAllowed (re_net env) remote (bc_allowlist (re_bare env))
      then (rs, Inl (wrap SvcPermissionDenied ''remote IP is not allowlisted for bare runtime bootstrap''))
      else let rid = trim_space rid0; name1 = trim_space name0; name = (if name1 = '''' then ''bare-'' @ rid else name1) in
      if uid \<le> 0 \<or> rid = '''' then (rs, Inl (wrap SvcInvalidArgument ''user_id and runtime_id are required''))
      else if \<not> validRuntimeName name then (rs, Inl (wrap SvcInvalidArgument ''name must match ^[a-z0-9][a-z0-9-]{1,46}[a-z0-9]$''))
      else case re_signer env of
        None \<Rightarrow> (rs, Inl (wrap SvcProvisionerUnavailable ''runtime certificate signer is not configured''))
      | Some lib \<Rightarrow>
          if re_server_ca env = '''' then (rs, Inl (wrap SvcProvisionerUnavailable ''runtime server ca is not configured''))
          else (case SignRuntimeClientCertificate lib (re_now env) \<lparr>sr_csr = csr, sr_runtime_id = rid, sr_user_id = uid, sr_source = SourceBare,
                  sr_role = RoleExecutor, sr_name = name, sr_ttl = bc_ttl (re_bare env), sr_now = re_now env\<rparr> of
             Inl e \<Rightarrow> (rs, Inl (wrap SvcInvalidArgument (''sign bare runtime certificate: '' @ err_text e)))
           | Inr cert \<Rightarrow>
               (case on_db (CreateRuntimeCredential (bare_credential env uid rid name cert)) rs of
                  (rs', Inl e) \<Rightarrow> (rs', Inl (if errors_Is e ErrConflict then wrap SvcConflict ''bare runtime credential already exists for runtime_id''
                      else Other (error_prefix ''persist bare runtime credential: '' e)))
                | (rs', Inr _) \<Rightarrow> (rs', Inr \<lparr>bt_runtime_id = rid, bt_name = name, bt_client_cert = re_cert_pem env cert, bt_server_ca = re_server_ca env,
                    bt_expires_at = ct_not_after cert\<rparr>))))"

end
