(* ===== verification/RuntimeClaims.thy ===== *)
theory RuntimeClaims
  imports RuntimeService
begin

text \<open>
  What \<open>internal/runtime/service.go\<close> guarantees: the paged searches find what is there, generated names, the guards of
  \<open>EnsureHostedRuntime\<close> and what two overlapping calls do to them, routes, the end of a runtime, bare certificates.
\<close>

section \<open>The paged searches\<close>

text \<open>The whole listing that the pages cut.\<close>
definition listing :: "(string \<Rightarrow> int) \<Rightarrow> runtime_db \<Rightarrow> int \<Rightarrow> string \<Rightarrow> runtime list" where
  "listing collate db uid source = sort_key (\<lambda>r. - (case StartedAt r of None \<Rightarrow> CreatedAt r | Some t \<Rightarrow> t)) (sort_key (\<lambda>r. - collate (RuntimeID r))
     (filter (\<lambda>r. UserID r = uid \<and> UserID r \<noteq> 0 \<and> (source = '''' \<or> Source r = source)) (rt_rows db)))"

lemma set_listing: "set (listing collate db uid source) = {r \<in> set (rt_rows db). UserID r = uid \<and> uid \<noteq> 0 \<and> (source = '''' \<or> Source r = source)}"
  by (auto simp: listing_def)

lemma ListRuntimes_page: "ListRuntimes collate db uid '''' source 200 (int k) =
    (take 200 (drop k (listing collate db uid source)), int (length (listing collate db uid source)), 200 < length (listing collate db uid source) - k)"
proof -
  have "take 200 (take 201 (drop k xs)) = take 200 (drop k xs)" for xs :: "runtime list" by simp
  moreover have "\<not> 200 < length xs - k \<Longrightarrow> take 201 (drop k xs) = take 200 (drop k xs)" for xs :: "runtime list" by simp
  ultimately show ?thesis unfolding ListRuntimes_def listing_def Let_def by (simp add: Let_def)
qed

lemma find_append: "find P (xs @ ys) = (case find P xs of Some x \<Rightarrow> Some x | None \<Rightarrow> find P ys)"
  by (induction xs) auto

lemma find_hit: "find P xs = Some x \<Longrightarrow> x \<in> set xs \<and> P x"
  by (induction xs) (auto split: if_splits)

text \<open>Page by page is the search of the whole listing.\<close>
lemma find_page_whole: "find_page collate db uid source hit k = find hit (drop k (listing collate db uid source))"
proof (induction collate db uid source hit k rule: find_page.induct)
  case (1 collate db uid source hit k)
  let ?l = "listing collate db uid source"
  have split: "drop k ?l = take 200 (drop k ?l) @ drop (k + 200) ?l" by (metis append_take_drop_id drop_drop add.commute)
  show ?case
  proof (cases "find hit (take 200 (drop k ?l))")
    case (Some r)
    then show ?thesis by (subst find_page.simps, subst split) (simp add: ListRuntimes_page find_append)
  next
    case None
    show ?thesis
    proof (cases "200 < length ?l - k")
      case True
      have "find_page collate db uid source hit (k + 200) = find hit (drop (k + 200) ?l)"
        by (rule 1) (use None True in \<open>simp_all add: ListRuntimes_page\<close>)
      then show ?thesis using None True by (subst find_page.simps, subst split) (simp add: ListRuntimes_page find_append)
    next
      case False
      then show ?thesis using None by (subst find_page.simps, subst split) (simp add: ListRuntimes_page find_append)
    qed
  qed
qed

lemma find_page_Some: "find_page collate db uid source hit 0 = Some r \<Longrightarrow>
    r \<in> set (rt_rows db) \<and> UserID r = uid \<and> uid \<noteq> 0 \<and> (source = '''' \<or> Source r = source) \<and> hit r"
  using set_listing [of collate db uid source] by (auto simp: find_page_whole find_Some_iff dest!: nth_mem)

lemma find_page_None: "find_page collate db uid source hit 0 = None \<longleftrightarrow>
    (\<forall>r\<in>set (rt_rows db). UserID r = uid \<and> uid \<noteq> 0 \<and> (source = '''' \<or> Source r = source) \<longrightarrow> \<not> hit r)"
  using set_listing [of collate db uid source] by (auto simp: find_page_whole find_None_iff)

text \<open>A name is free for a user who never had a runtime of that name; the slot is the live hosted runtime.\<close>
definition name_free :: "runtime_db \<Rightarrow> int \<Rightarrow> string \<Rightarrow> bool" where
  "name_free db uid name \<longleftrightarrow> (\<forall>r\<in>set (rt_rows db). UserID r = uid \<longrightarrow> Name r \<noteq> name)"

lemma name_search: "uid \<noteq> 0 \<Longrightarrow> findRuntimeByUserNameSource env db uid name '''' True = None \<longleftrightarrow> name_free db uid name"
  by (auto simp: findRuntimeByUserNameSource_def find_page_None name_free_def)

lemma slot_search: "uid \<noteq> 0 \<Longrightarrow> findHostedRuntimeSlot env db uid = None \<longleftrightarrow>
    (\<forall>r\<in>set (rt_rows db). UserID r = uid \<and> Source r = SourceHosted \<longrightarrow> \<not> live r)"
  by (auto simp: findHostedRuntimeSlot_def find_page_None)

section \<open>Generated names\<close>

definition generated_names :: "string list" where
  "generated_names = map (\<lambda>i. hostedRuntimeNameForAttempt (int i)) [0..<hosted_names]"

lemma hosted_names_value: "hosted_names = 144"
  by (simp add: hosted_names_def hostedNameAdjectives_def hostedNameNouns_def)

lemma map_grid: "map f [0..<m * n] = concat (map (\<lambda>j. map (\<lambda>i. f (j * n + i)) [0..<n]) [0..<m])"
proof (induction m)
  case (Suc m)
  have "[0..<Suc m * n] = [0..<m * n] @ map (\<lambda>i. m * n + i) [0..<n]"
    using upt_add_eq_append [of 0 "m * n" n] map_add_upt [of "m * n" n] by (simp add: add.commute)
  then show ?case using Suc.IH by simp
qed simp

lemma attempt_grid: "i < length hostedNameAdjectives \<Longrightarrow> j < length hostedNameNouns \<Longrightarrow>
    hostedRuntimeNameForAttempt (int (j * length hostedNameAdjectives + i)) = ''hosted-'' @ hostedNameAdjectives ! i @ ''-'' @ hostedNameNouns ! j"
proof -
  assume i: "i < length hostedNameAdjectives" and j: "j < length hostedNameNouns"
  let ?n = "length hostedNameAdjectives"
  have "j * ?n + i < (j + 1) * ?n" using i by simp
  also have "\<dots> \<le> length hostedNameNouns * ?n" using j by (intro mult_le_mono1) simp
  finally have "(j * ?n + i) mod hosted_names = j * ?n + i" by (simp add: hosted_names_def mult.commute)
  moreover have "\<not> int (j * ?n + i) < 0" "nat (int (j * ?n + i)) = j * ?n + i" using of_nat_0_le_iff [of "j * ?n + i"] nat_int [of "j * ?n + i"] by linarith+
  moreover have "?n \<noteq> 0" using i by linarith
  then have "(j * ?n + i) div ?n = j" using i by simp
  ultimately show ?thesis using i j unfolding hostedRuntimeNameForAttempt_def Let_def by (simp del: of_nat_add of_nat_mult)
qed

lemma generated_names_value: "generated_names = concat (map (\<lambda>n. map (\<lambda>a. ''hosted-'' @ a @ ''-'' @ n) hostedNameAdjectives) hostedNameNouns)"
proof -
  have m: "map g xs = map (\<lambda>i. g (xs ! i)) [0..<length xs]" for g :: "string \<Rightarrow> 'a" and xs
    by (metis (no_types) length_map map_nth nth_map nth_equalityI map_map comp_apply map_cong)
  have h: "hosted_names = length hostedNameNouns * length hostedNameAdjectives" by (simp add: hosted_names_def)
  show ?thesis unfolding generated_names_def h map_grid
    unfolding m [of _ hostedNameNouns] m [of _ hostedNameAdjectives]
    by (intro arg_cong [of _ _ concat] map_cong refl) (simp del: of_nat_add add: attempt_grid)
qed

lemma generated_names_valid: "list_all validRuntimeName generated_names" "length generated_names = 144"
  unfolding generated_names_value by (simp_all add: hostedNameAdjectives_def hostedNameNouns_def validRuntimeName_def is_lower_def is_digit_def Let_def)

lemma generated_names_distinct: "distinct generated_names"
  unfolding generated_names_value by (simp add: hostedNameAdjectives_def hostedNameNouns_def)


lemma attempt_mod: "0 \<le> a \<Longrightarrow> hostedRuntimeNameForAttempt (a + int i) = hostedRuntimeNameForAttempt (int ((nat a + i) mod hosted_names))"
proof -
  assume a: "0 \<le> a"
  then have "a + int i = int (nat a + i)" by simp
  then show ?thesis by (simp add: hostedRuntimeNameForAttempt_def Let_def del: of_nat_add)
qed

text \<open>From any start the attempts run through all names.\<close>
lemma attempts_set: "0 \<le> a \<Longrightarrow> set (map (\<lambda>i. hostedRuntimeNameForAttempt (a + int i)) [0..<hosted_names]) = set generated_names"
proof -
  assume a: "0 \<le> a"
  let ?m = "hosted_names"
  have m: "0 < ?m" by (simp add: hosted_names_value)
  have "(\<lambda>i. (nat a + i) mod ?m) ` {0..<?m} = {0..<?m}"
  proof (rule antisym)
    show "(\<lambda>i. (nat a + i) mod ?m) ` {0..<?m} \<subseteq> {0..<?m}" using m by auto
    show "{0..<?m} \<subseteq> (\<lambda>i. (nat a + i) mod ?m) ` {0..<?m}"
    proof
      fix j assume j: "j \<in> {0..<?m}"
      let ?i = "(j + (?m - nat a mod ?m)) mod ?m"
      have "(nat a + ?i) mod ?m = (nat a mod ?m + (j + (?m - nat a mod ?m))) mod ?m" by (metis mod_add_eq mod_add_right_eq)
      also have "\<dots> = (j + ?m) mod ?m" using mod_less_divisor [OF m, of "nat a"] by (simp add: add.commute add.left_commute)
      also have "\<dots> = j" using j by simp
      finally show "j \<in> (\<lambda>i. (nat a + i) mod ?m) ` {0..<?m}" using m by (intro image_eqI [of _ _ ?i]) auto
    qed
  qed
  then have "(\<lambda>i. hostedRuntimeNameForAttempt (int i)) ` (\<lambda>i. (nat a + i) mod ?m) ` {0..<?m} = set generated_names"
    by (simp add: generated_names_def)
  then show ?thesis by (simp add: attempt_mod [OF a] image_image)
qed

lemma allocation:
  assumes "0 \<le> re_nano env" "uid \<noteq> 0"
  shows "case generateAvailableHostedRuntimeName env db uid of
      Inr name \<Rightarrow> name \<in> set generated_names \<and> validRuntimeName name \<and> name_free db uid name
    | Inl e \<Rightarrow> e = wrap SvcConflict ''unable to allocate hosted runtime name'' \<and> (\<forall>name\<in>set generated_names. \<not> name_free db uid name)"
proof -
  let ?a = "sRandInt env (int hosted_names)"
  have a: "0 \<le> ?a" using assms(1) by (simp add: sRandInt_def hosted_names_value)
  note s = attempts_set [OF a]
  show ?thesis
  proof (cases "generateAvailableHostedRuntimeName env db uid")
    case (Inl e)
    then have e: "e = wrap SvcConflict ''unable to allocate hosted runtime name''"
      and n: "\<forall>name\<in>set (map (\<lambda>i. hostedRuntimeNameForAttempt (?a + int i)) [0..<hosted_names]). findRuntimeByUserNameSource env db uid name '''' True \<noteq> None"
      by (auto simp: generateAvailableHostedRuntimeName_def Let_def find_None_iff split: option.splits simp del: set_map)
    then show ?thesis using Inl assms(2) unfolding s by (simp add: name_search)
  next
    case (Inr name)
    then have "find (\<lambda>name. findRuntimeByUserNameSource env db uid name '''' True = None)
        (map (\<lambda>i. hostedRuntimeNameForAttempt (?a + int i)) [0..<hosted_names]) = Some name"
      by (auto simp: generateAvailableHostedRuntimeName_def Let_def split: option.splits)
    from find_hit [OF this] have "name \<in> set generated_names" "name_free db uid name"
      unfolding s using assms(2) by (simp_all add: name_search)
    then show ?thesis using Inr generated_names_valid(1) by (simp add: list_all_iff)
  qed
qed

text \<open>C15. The name of an unnamed hosted runtime is one of 144 distinct valid names and was never used by the user before, and the
  search gives up only when the user has a runtime, live or ended, under every one of them.\<close>
theorem hosted_name_allocation:
  assumes "0 \<le> re_nano env" "uid \<noteq> 0"
  shows "distinct generated_names \<and> length generated_names = 144 \<and>
    (case generateAvailableHostedRuntimeName env db uid of
      Inr name \<Rightarrow> name \<in> set generated_names \<and> validRuntimeName name \<and> (\<forall>r\<in>set (rt_rows db). UserID r = uid \<longrightarrow> Name r \<noteq> name)
    | Inl e \<Rightarrow> \<forall>name\<in>set generated_names. \<exists>r\<in>set (rt_rows db). UserID r = uid \<and> Name r = name)"
  using allocation [OF assms, of db] generated_names_distinct generated_names_valid(2) by (simp add: name_free_def split: sum.splits)

section \<open>The checks before a container is started\<close>

lemma ensure_quota_Inr:
  assumes "ensure_quota env uid profile db = Inr limits"
  obtains l where "resolvePlan env uid = Inr l" "el_hosted l \<noteq> 0" "0 < el_hosted l \<Longrightarrow> UsageHosted (CountRuntimesByUser db uid) < el_hosted l"
    "resourceProfileAllowed profile (el_profiles l)" "pv_profiles (re_provisioning env) profile = Some limits"
  using assms by (auto simp: ensure_quota_def Let_def split: sum.splits if_splits option.splits)

lemma ensure_checks_Start:
  assumes "ensure_checks env uid name0 profile0 db = Inr (Start name profile limits)" "0 \<le> re_nano env"
  shows "0 < uid" "profile = (if profile0 = '''' then ''small'' else profile0)" "validRuntimeName name" "name_free db uid name"
    "findHostedRuntimeSlot env db uid = None" "ensure_quota env uid profile db = Inr limits" "name0 \<noteq> '''' \<Longrightarrow> name = name0"
    "name0 = '''' \<Longrightarrow> name \<in> set generated_names"
proof -
  let ?p = "if profile0 = '''' then ''small'' else profile0"
  have uid: "0 < uid" using assms(1) by (auto simp: ensure_checks_def Let_def split: if_splits)
  have "0 < uid \<and> profile = ?p \<and> validRuntimeName name \<and> name_free db uid name \<and> findHostedRuntimeSlot env db uid = None \<and>
    ensure_quota env uid profile db = Inr limits \<and> (name0 \<noteq> '''' \<longrightarrow> name = name0) \<and> (name0 = '''' \<longrightarrow> name \<in> set generated_names)"
  proof (cases "name0 = ''''")
    case False
    then have n: "ensure_named env uid name0 ?p db = Inr (Start name profile limits)" "validRuntimeName name0"
      using assms(1) by (auto simp: ensure_checks_def Let_def split: if_splits)
    then show ?thesis using uid False name_search [of uid env db name0]
      by (auto simp: ensure_named_def Let_def split: option.splits if_splits sum.splits)
  next
    case True
    then have n: "ensure_auto env uid ?p db = Inr (Start name profile limits)" using assms(1) by (auto simp: ensure_checks_def Let_def split: if_splits)
    then have a: "findHostedRuntimeSlot env db uid = None" "ensure_quota env uid ?p db = Inr limits" "profile = ?p"
      "generateAvailableHostedRuntimeName env db uid = Inr name"
      by (auto simp: ensure_auto_def Let_def split: option.splits if_splits sum.splits)
    then show ?thesis using uid True allocation [OF assms(2), of uid db] by simp
  qed
  then show "0 < uid" "profile = ?p" "validRuntimeName name" "name_free db uid name" "findHostedRuntimeSlot env db uid = None"
    "ensure_quota env uid profile db = Inr limits" "name0 \<noteq> '''' \<Longrightarrow> name = name0" "name0 = '''' \<Longrightarrow> name \<in> set generated_names" by blast+
qed


lemma ensure_start_Inr:
  assumes "ensure_start env uid name profile limits rs = (rs', Inr (rid, handle))"
  shows "\<exists>p. rv_calls rs' = rv_calls rs @ [Provision p] \<and> re_provision env p = Inr handle \<and> pp_runtime_id p = rid \<and> pp_user_id p = uid \<and>
      pp_name p = name \<and> pp_limits p = limits \<and> pp_profile_name p = profile \<and>
      (re_issuer env \<noteq> None \<longrightarrow> (\<exists>c. row KeyID (rt_creds (rv_db rs')) (pp_credential_key_id p) = Some c \<and> HostedInternal c \<and> CredUserID c = uid \<and> usable c))"
    "rt_rows (rv_db rs') = rt_rows (rv_db rs)" "rid = GenerateRuntimeID (re_random_id env)"
proof -
  let ?rid = "GenerateRuntimeID (re_random_id env)"
  have all: "(\<exists>p. rv_calls rs' = rv_calls rs @ [Provision p] \<and> re_provision env p = Inr handle \<and> pp_runtime_id p = rid \<and> pp_user_id p = uid \<and>
      pp_name p = name \<and> pp_limits p = limits \<and> pp_profile_name p = profile \<and>
      (re_issuer env \<noteq> None \<longrightarrow> (\<exists>c. row KeyID (rt_creds (rv_db rs')) (pp_credential_key_id p) = Some c \<and> HostedInternal c \<and> CredUserID c = uid \<and> usable c)))
    \<and> rt_rows (rv_db rs') = rt_rows (rv_db rs) \<and> rid = ?rid"
  proof (cases "re_issuer env")
    case None
    then have "provision env (hosted_plan env uid name profile limits ?rid None) rs = (rs', Inr handle)" "rid = ?rid"
      using assms by (auto simp: ensure_start_def Let_def split: sum.splits prod.splits)
    then show ?thesis using None by (auto simp: provision_def ask_def hosted_plan_def Let_def split: sum.splits)
  next
    case (Some ie)
    obtain db ic where ic: "IssueHostedInternalRuntimeCredential ie uid ?rid name (rv_db rs) = (db, Inr ic)"
      and p: "provision env (hosted_plan env uid name profile limits ?rid (Some ic)) (rs\<lparr>rv_chan := (rv_chan rs)\<lparr>sv_db := db\<rparr>\<rparr>) = (rs', Inr handle)" "rid = ?rid"
      using assms Some by (auto simp: ensure_start_def Let_def split: sum.splits prod.splits)
    from ic obtain label crid where "issue ie uid label RoleExecutor True crid (rv_db rs) = (db, Inr ic)"
      by (auto simp: IssueHostedInternalRuntimeCredential_def Let_def split: if_splits)
    then obtain keyID pub where c: "ic_credential ic = issued_row ie uid (trim_space label) RoleExecutor True keyID pub (ic_certificate ic)"
      "CreateRuntimeCredential (ic_credential ic) (rv_db rs) = (db, Inr ())" by (rule issue_ok) blast
    have face: "issued_face (ic_credential ic) = (uid, RoleExecutor, pub, True)" "usable (ic_credential ic)"
      by (simp_all add: c(1) issued_row_def issued_face_def usable_def)
    obtain c' where c': "row KeyID (rt_creds db) (KeyID (ic_credential ic)) = Some c'" "usable c'"
      using created_credential(2) [OF c(2)] face(2) by auto
    then have "issued_face c' = (uid, RoleExecutor, pub, True)" using created_credential(1) [OF c(2)] face(1) by (simp add: issued_view_def)
    then have c'': "HostedInternal c'" "CredUserID c' = uid" by (simp_all add: issued_face_def)
    have rows: "rt_rows db = rt_rows (rv_db rs)" using other_rows(2) [of "ic_credential ic" "rv_db rs"] c(2) by simp
    show ?thesis using p c' c'' rows by (auto simp: provision_def ask_def hosted_plan_def Let_def split: sum.splits)
  qed
  then show "\<exists>p. rv_calls rs' = rv_calls rs @ [Provision p] \<and> re_provision env p = Inr handle \<and> pp_runtime_id p = rid \<and> pp_user_id p = uid \<and>
      pp_name p = name \<and> pp_limits p = limits \<and> pp_profile_name p = profile \<and>
      (re_issuer env \<noteq> None \<longrightarrow> (\<exists>c. row KeyID (rt_creds (rv_db rs')) (pp_credential_key_id p) = Some c \<and> HostedInternal c \<and> CredUserID c = uid \<and> usable c))"
    "rt_rows (rv_db rs') = rt_rows (rv_db rs)" "rid = ?rid" by blast+
qed

lemma ensure_begin_Waiting:
  assumes "ensure_begin env uid name0 profile0 rs = (rs', Waiting rid handle)"
  obtains name profile limits where "ensure_checks env uid name0 profile0 (rv_db rs) = Inr (Start name profile limits)"
    "ensure_start env uid name profile limits rs = (rs', Inr (rid, handle))"
  using assms by (auto simp: ensure_begin_def split: sum.splits ensure_verdict.splits prod.splits)

text \<open>C11. A container is started only for a user whose plan allows hosted runtimes and the resource profile, who has no live
  hosted runtime (whatever number the plan allows), under a valid name that no runtime of the user, live or ended, ever had; with the
  container goes a stored, usable, platform-internal credential of that user, where an issuer is configured.\<close>
theorem hosted_start_guarded:
  assumes "ensure_begin env uid name0 profile0 rs = (rs', Waiting rid handle)" "0 \<le> re_nano env"
  shows "\<exists>p l. rv_calls rs' = rv_calls rs @ [Provision p] \<and> pp_runtime_id p = rid \<and> pp_user_id p = uid \<and> re_provision env p = Inr handle \<and>
    resolvePlan env uid = Inr l \<and> el_hosted l \<noteq> 0 \<and> pp_profile_name p \<in> set (el_profiles l) \<and>
    pv_profiles (re_provisioning env) (pp_profile_name p) = Some (pp_limits p) \<and> validRuntimeName (pp_name p) \<and> (name0 \<noteq> '''' \<longrightarrow> pp_name p = name0) \<and>
    (\<forall>r\<in>set (rt_rows (rv_db rs)). UserID r = uid \<longrightarrow> Name r \<noteq> pp_name p \<and> (Source r = SourceHosted \<longrightarrow> \<not> live r)) \<and>
    (re_issuer env \<noteq> None \<longrightarrow> (\<exists>c. row KeyID (rt_creds (rv_db rs')) (pp_credential_key_id p) = Some c \<and> HostedInternal c \<and> CredUserID c = uid \<and> usable c))"
proof -
  obtain name profile limits where c: "ensure_checks env uid name0 profile0 (rv_db rs) = Inr (Start name profile limits)"
    and s: "ensure_start env uid name profile limits rs = (rs', Inr (rid, handle))" using ensure_begin_Waiting [OF assms(1)] .
  note k = ensure_checks_Start [OF c assms(2)]
  obtain l where l: "resolvePlan env uid = Inr l" "el_hosted l \<noteq> 0" "resourceProfileAllowed profile (el_profiles l)"
    "pv_profiles (re_provisioning env) profile = Some limits" using ensure_quota_Inr [OF k(6)] by metis
  have free: "\<forall>r\<in>set (rt_rows (rv_db rs)). UserID r = uid \<longrightarrow> Name r \<noteq> name \<and> (Source r = SourceHosted \<longrightarrow> \<not> live r)"
    using k(1,4) k(5) [unfolded slot_search [OF less_imp_neq [OF k(1), symmetric]]] by (auto simp: name_free_def)
  from ensure_start_Inr(1) [OF s] obtain p where p: "rv_calls rs' = rv_calls rs @ [Provision p]" "re_provision env p = Inr handle" "pp_runtime_id p = rid"
    "pp_user_id p = uid" "pp_name p = name" "pp_limits p = limits" "pp_profile_name p = profile"
    "re_issuer env \<noteq> None \<longrightarrow> (\<exists>c. row KeyID (rt_creds (rv_db rs')) (pp_credential_key_id p) = Some c \<and> HostedInternal c \<and> CredUserID c = uid \<and> usable c)"
    by blast
  show ?thesis
    by (intro exI [of _ p] exI [of _ l] conjI) (use p l free k(3,7) in \<open>simp_all add: resourceProfileAllowed_def\<close>)
qed

text \<open>The names run out: once a user has ended a runtime under each of the 144 names, no call without a name ever starts a
  container for that user again, whatever happens to the registry, although no runtime of the user may be live.\<close>
theorem hosted_names_run_out:
  assumes "runtimes_ok db" "\<forall>name\<in>set generated_names. \<exists>r\<in>set (rt_rows db). UserID r = uid \<and> Name r = name \<and> Source r \<noteq> SourceBare \<and> \<not> live r"
    and "runtime_step\<^sup>*\<^sup>* db (rv_db rs)" "0 \<le> re_nano env"
  shows "snd (ensure_begin env uid '''' profile rs) \<noteq> Waiting rid handle \<and> rv_calls (fst (ensure_begin env uid '''' profile rs)) = rv_calls rs"
proof -
  have taken: "\<not> name_free (rv_db rs) uid name" if gen: "name \<in> set generated_names" for name
  proof -
    obtain r where r: "r \<in> set (rt_rows db)" "UserID r = uid" "Name r = name" "Source r \<noteq> SourceBare" "\<not> live r"
      using bspec [OF assms(2) gen] by (elim bexE conjE)
    have "keys_ok RuntimeID (rt_rows db)" using assms(1) by (simp add: runtimes_ok_def runtimes_unique_def)
    from row_mem [OF this r(1)] have "row RuntimeID (rt_rows db) (RuntimeID r) = Some r" .
    then have "runtime_view db (RuntimeID r) = Some (face r)" "face_final (face r)" using r by (simp_all add: runtime_view_def face_final_def face_def)
    from runtimes.frozen_star [OF assms(3,1) this] obtain r' where "row RuntimeID (rt_rows (rv_db rs)) (RuntimeID r) = Some r'" "face r' = face r"
      by (auto simp: runtime_view_def)
    then have "r' \<in> set (rt_rows (rv_db rs))" "UserID r' = uid" "Name r' = name" using row_SomeD r by (fastforce simp: face_def)+
    then show ?thesis by (auto simp: name_free_def)
  qed
  have "ensure_checks env uid '''' profile (rv_db rs) \<noteq> Inr (Start name profile' limits)" for name profile' limits
    using ensure_checks_Start(4,8) [OF _ assms(4)] taken by blast
  then show ?thesis by (auto simp: ensure_begin_def split: sum.split ensure_verdict.split)
qed


section \<open>Routes\<close>

lemma route_exact:
  "snd (ResolveRuntimeRouteByID env uid rid role environment rs) = Inr rt \<longleftrightarrow>
     0 < uid \<and> rid \<noteq> '''' \<and> row RuntimeID (rt_rows (rv_db rs)) rid = Some rt \<and> UserID rt = uid \<and>
     live rt \<and> RtStatus rt \<notin> {''unpaired'', RuntimeStatusUnhealthy} \<and>
     (case HeartbeatAt rt of None \<Rightarrow> False | Some t \<Rightarrow> re_now env - t \<le> re_heartbeat_grace env) \<and>
     OwnerInstanceID rt \<noteq> '''' \<and> (case OwnerHeartbeatAt rt of None \<Rightarrow> False | Some t \<Rightarrow> re_now env - t \<le> re_heartbeat_grace env) \<and>
     (to_lower (trim_space role) \<in> {'''', RoleExecutor} \<and> Role rt \<in> {'''', RoleExecutor} \<and> environment \<in> {0, 1} \<or>
      to_lower (trim_space role) = RoleDebugger \<and> Role rt = RoleDebugger \<and> environment = 0 \<and> listRuntimeEndBlockers env rid = Inr []) \<and>
     (\<exists>l. resolvePlan env uid = Inr l \<and>
       (0 \<le> el_hosted l \<longrightarrow> UsageHosted (CountRuntimesByUser (rv_db rs) uid) \<le> el_hosted l) \<and>
       (0 \<le> el_self_hosted l \<longrightarrow> UsageSelfHosted (CountRuntimesByUser (rv_db rs) uid) \<le> el_self_hosted l))"
  (is "?L \<longleftrightarrow> ?R")
proof -
  let ?role = "let r = to_lower (trim_space role) in if r = '''' then RoleExecutor else r"
  have terminal: "RtStatus x \<in> {RuntimeStatusHeartbeatStale, RuntimeStatusEnded, RuntimeStatusCancelled, RuntimeStatusFailed} \<longleftrightarrow> \<not> live x" for x
    by (auto simp: IsRuntimeTerminalStatus_def)
  have get: "GetRuntime_service uid rid (rv_db rs) = Inr x \<longleftrightarrow> 0 < uid \<and> rid \<noteq> '''' \<and> row RuntimeID (rt_rows (rv_db rs)) rid = Some x \<and> UserID x = uid" for x
    by (auto simp: GetRuntime_service_def GetRuntime_def select_one_row split: option.splits)
  have role: "route_role_check env x ?role environment = None \<longleftrightarrow>
      to_lower (trim_space role) \<in> {'''', RoleExecutor} \<and> Role x \<in> {'''', RoleExecutor} \<and> environment \<in> {0, 1} \<or>
      to_lower (trim_space role) = RoleDebugger \<and> Role x = RoleDebugger \<and> environment = 0 \<and> listRuntimeEndBlockers env (RuntimeID x) = Inr []" for x
    by (auto simp: route_role_check_def Let_def split: sum.splits)
  have quota: "quota_check env l c = None \<longleftrightarrow> (0 \<le> el_hosted l \<longrightarrow> UsageHosted c \<le> el_hosted l) \<and> (0 \<le> el_self_hosted l \<longrightarrow> UsageSelfHosted c \<le> el_self_hosted l)"
    for l c by (auto simp: quota_check_def Let_def)
  have policy: "snd (resolveRuntimeRouteForRuntimeWithPolicy env uid x role environment rs) = Inr rt \<longleftrightarrow> x = rt \<and>
      live x \<and> RtStatus x \<notin> {''unpaired'', RuntimeStatusUnhealthy} \<and> route_role_check env x ?role environment = None \<and>
      (case HeartbeatAt x of None \<Rightarrow> False | Some t \<Rightarrow> re_now env - t \<le> re_heartbeat_grace env) \<and> owner_fresh env x \<and>
      (\<exists>l. resolvePlan env uid = Inr l \<and> quota_check env l (CountRuntimesByUser (rv_db rs) uid) = None)" for x
    unfolding resolveRuntimeRouteForRuntimeWithPolicy_def terminal Let_def
    by (auto split: option.splits sum.splits)
  have id: "row RuntimeID (rt_rows (rv_db rs)) rid = Some x \<Longrightarrow> RuntimeID x = rid" for x using row_SomeD by metis
  have "?L \<longleftrightarrow> (\<exists>x. GetRuntime_service uid rid (rv_db rs) = Inr x \<and> snd (resolveRuntimeRouteForRuntimeWithPolicy env uid x role environment rs) = Inr rt)"
    by (auto simp: ResolveRuntimeRouteByID_def split: sum.splits)
  also have "\<dots> \<longleftrightarrow> ?R" unfolding get policy role quota owner_fresh_def using id by blast
  finally show ?thesis .
qed

text \<open>C10. A route is given exactly to a live runtime of the caller that is not unhealthy, whose heartbeat and whose connection owner were seen
  within the grace period, for a role and an environment it may serve (a debugger only while it has no session), while the user's
  live runtimes are within the plan; resolving changes nothing.\<close>
theorem route_resolution_exact:
  "snd (ResolveRuntimeRouteByID env uid rid role environment rs) = Inr rt \<longleftrightarrow>
     0 < uid \<and> rid \<noteq> '''' \<and> row RuntimeID (rt_rows (rv_db rs)) rid = Some rt \<and> UserID rt = uid \<and>
     live rt \<and> RtStatus rt \<notin> {''unpaired'', RuntimeStatusUnhealthy} \<and>
     (case HeartbeatAt rt of None \<Rightarrow> False | Some t \<Rightarrow> re_now env - t \<le> re_heartbeat_grace env) \<and>
     OwnerInstanceID rt \<noteq> '''' \<and> (case OwnerHeartbeatAt rt of None \<Rightarrow> False | Some t \<Rightarrow> re_now env - t \<le> re_heartbeat_grace env) \<and>
     (to_lower (trim_space role) \<in> {'''', RoleExecutor} \<and> Role rt \<in> {'''', RoleExecutor} \<and> environment \<in> {0, 1} \<or>
      to_lower (trim_space role) = RoleDebugger \<and> Role rt = RoleDebugger \<and> environment = 0 \<and> listRuntimeEndBlockers env rid = Inr []) \<and>
     (\<exists>l. resolvePlan env uid = Inr l \<and>
       (0 \<le> el_hosted l \<longrightarrow> UsageHosted (CountRuntimesByUser (rv_db rs) uid) \<le> el_hosted l) \<and>
       (0 \<le> el_self_hosted l \<longrightarrow> UsageSelfHosted (CountRuntimesByUser (rv_db rs) uid) \<le> el_self_hosted l))"
  by (rule route_exact)


section \<open>Overlapping calls\<close>

lemma usage_two:
  assumes "r1 \<in> set (rt_rows db)" "r2 \<in> set (rt_rows db)" "r1 \<noteq> r2" "0 < uid"
    and "UserID r1 = uid" "Source r1 = SourceHosted" "live r1" "UserID r2 = uid" "Source r2 = SourceHosted" "live r2"
  shows "2 \<le> UsageHosted (CountRuntimesByUser db uid)"
proof -
  let ?l = "filter (\<lambda>r. Source r = SourceHosted) (filter (\<lambda>r. UserID r = uid \<and> UserID r \<noteq> 0 \<and> live r) (rt_rows db))"
  have "{r1, r2} \<subseteq> set ?l" using assms by auto
  then have "card {r1, r2} \<le> card (set ?l)" by (intro card_mono) auto
  also have "\<dots> \<le> length ?l" by (rule card_length)
  finally show ?thesis using assms(3) by (simp add: CountRuntimesByUser_def Let_def)
qed

text \<open>The service of another call: the same plans and the same provisioning; clock, random bytes, stores and hooks may differ.\<close>
definition same_platform :: "runtime_env \<Rightarrow> runtime_env \<Rightarrow> bool" where
  "same_platform env env' \<longleftrightarrow> re_lookup env' = re_lookup env \<and> re_plans env' = re_plans env \<and> re_caps env' = re_caps env \<and>
     re_provisioning env' = re_provisioning env"

lemma same_plan: "same_platform env env' \<Longrightarrow> resolvePlan env uid = Inr l \<Longrightarrow> resolvePlan env' uid = Inr l"
  by (auto simp: same_platform_def resolvePlan_def split: sum.splits plan_error.splits)

text \<open>A name a call may ask for: a valid one the user never had, or none while one of the 144 is left.\<close>
definition name_left :: "runtime_env \<Rightarrow> runtime_db \<Rightarrow> int \<Rightarrow> string \<Rightarrow> bool" where
  "name_left env db uid name \<longleftrightarrow> (if name = '''' then 0 \<le> re_nano env \<and> (\<exists>n\<in>set generated_names. name_free db uid n)
     else validRuntimeName name \<and> name_free db uid name)"

lemma checks_again:
  assumes "ensure_checks env1 uid name1 profile0 db1 = Inr (Start n1 profile limits)" "0 \<le> re_nano env1"
    and "same_platform env1 env2" "rt_rows db2 = rt_rows db1" "name_left env2 db2 uid name2"
  shows "\<exists>n2. ensure_checks env2 uid name2 profile0 db2 = Inr (Start n2 profile limits) \<and> validRuntimeName n2"
proof -
  note k = ensure_checks_Start [OF assms(1,2)]
  have uid: "uid \<noteq> 0" using k(1) by simp
  have slot: "findHostedRuntimeSlot env2 db2 uid = None" using k(5) uid assms(4) by (simp add: slot_search)
  obtain l where l: "resolvePlan env1 uid = Inr l" "el_hosted l \<noteq> 0" "0 < el_hosted l \<Longrightarrow> UsageHosted (CountRuntimesByUser db1 uid) < el_hosted l"
    "resourceProfileAllowed profile (el_profiles l)" "pv_profiles (re_provisioning env1) profile = Some limits" using ensure_quota_Inr [OF k(6)] by metis
  have "CountRuntimesByUser db2 uid = CountRuntimesByUser db1 uid" using assms(4) by (simp add: CountRuntimesByUser_def)
  then have quota: "ensure_quota env2 uid profile db2 = Inr limits"
    using l same_plan [OF assms(3) l(1)] assms(3) by (auto simp: ensure_quota_def Let_def same_platform_def)
  show ?thesis
  proof (cases "name2 = ''''")
    case True
    then obtain n where n: "generateAvailableHostedRuntimeName env2 db2 uid = Inr n" "validRuntimeName n"
      using assms(5) allocation [of env2 uid db2] uid by (auto simp: name_left_def split: sum.splits)
    then show ?thesis using True k(1,2) slot quota by (auto simp: ensure_checks_def ensure_auto_def Let_def)
  next
    case False
    then have "validRuntimeName name2" "findRuntimeByUserNameSource env2 db2 uid name2 '''' True = None"
      using assms(5) uid by (simp_all add: name_left_def name_search)
    then show ?thesis using False k(1,2) slot quota by (auto simp: ensure_checks_def ensure_named_def Let_def)
  qed
qed

text \<open>A credential for every name and a container for every plan.\<close>
definition can_start :: "runtime_env \<Rightarrow> int \<Rightarrow> runtime_db \<Rightarrow> bool" where
  "can_start env uid db \<longleftrightarrow> (\<exists>ie. re_issuer env = Some ie \<and>
     (\<forall>name. validRuntimeName name \<longrightarrow> is_ok (snd (IssueHostedInternalRuntimeCredential ie uid (GenerateRuntimeID (re_random_id env)) name db)))) \<and>
     (\<forall>p. is_ok (re_provision env p))"

lemma start_again:
  assumes "can_start env uid (rv_db rs)" "validRuntimeName name"
  shows "\<exists>rs' handle. ensure_start env uid name profile limits rs = (rs', Inr (GenerateRuntimeID (re_random_id env), handle))"
proof -
  obtain ie where ie: "re_issuer env = Some ie" "is_ok (snd (IssueHostedInternalRuntimeCredential ie uid (GenerateRuntimeID (re_random_id env)) name (rv_db rs)))"
    using assms by (auto simp: can_start_def)
  then obtain db ic where ic: "IssueHostedInternalRuntimeCredential ie uid (GenerateRuntimeID (re_random_id env)) name (rv_db rs) = (db, Inr ic)"
    by (metis is_ok_iff prod.collapse)
  obtain handle where "re_provision env (hosted_plan env uid name profile limits (GenerateRuntimeID (re_random_id env)) (Some ic)) = Inr handle"
    using assms(1) by (auto simp: can_start_def is_ok_iff)
  then show ?thesis by (simp add: ensure_start_def Let_def ie(1) ic provision_def)
qed

text \<open>The credential a container is started with, and the runtime of the container joining: its HELLO, signed under that credential, is
  admitted somewhere between two states of the tables.\<close>

definition holds_credential :: "provision_plan \<Rightarrow> int \<Rightarrow> runtime_db \<Rightarrow> bool" where
  "holds_credential p uid db \<longleftrightarrow> (\<exists>c. row KeyID (rt_creds db) (pp_credential_key_id p) = Some c \<and> HostedInternal c \<and> CredUserID c = uid)"

definition joined :: "provision_plan \<Rightarrow> runtime_db \<Rightarrow> runtime_db \<Rightarrow> bool" where
  "joined p db later \<longleftrightarrow> (\<exists>env h peer sv sv' rt token expiresAt first. runtime_step\<^sup>*\<^sup>* db (sv_db sv) \<and>
     frame_type first = FT_HELLO \<and> payload first = P_Hello h \<and> authenticateFirstFrame env first peer sv = (sv', Inr (rt, token, expiresAt)) \<and>
     h_source h \<noteq> SourceBare \<and> h_key_id h = pp_credential_key_id p \<and> h_runtime_id h = pp_runtime_id p \<and> runtime_step\<^sup>*\<^sup>* (sv_db sv') later)"

lemma holds_frozen: "holds_credential p uid db \<Longrightarrow> runtime_step\<^sup>*\<^sup>* db db' \<Longrightarrow> creds_ok db \<Longrightarrow> holds_credential p uid db'"
proof -
  assume h: "holds_credential p uid db" and s: "runtime_step\<^sup>*\<^sup>* db db'" "creds_ok db"
  obtain c where c: "row KeyID (rt_creds db) (pp_credential_key_id p) = Some c" "HostedInternal c" "CredUserID c = uid"
    using h by (auto simp: holds_credential_def)
  then have "issued_view db (pp_credential_key_id p) = Some (issued_face c)" by (simp add: issued_view_def)
  from issued.frozen_star [OF s this] show ?thesis using c by (auto simp: holds_credential_def issued_view_def issued_face_def)
qed

lemma hosted_identity:
  assumes "authenticateFirstFrame env first peer sv = (sv', Inr (rt, token, expiresAt))" "frame_type first = FT_HELLO" "payload first = P_Hello h"
    and "h_source h \<noteq> SourceBare" "row KeyID (rt_creds (sv_db sv)) (h_key_id h) = Some c" "HostedInternal c" "h_runtime_id h \<noteq> ''''"
  shows "ar_RuntimeID rt = h_runtime_id h" "ar_UserID rt = CredUserID c" "ar_Source rt = SourceHosted"
proof -
  have "authenticateHello env h peer sv = (sv', Inr (rt, token, expiresAt))" using assms(1-3) by (simp add: authenticateFirstFrame_def)
  then obtain st where v: "verifyHello (ce_hello env) (ce_now env) h (sv_replay sv) (sv_db sv) = (st, Inr rt)"
    by (auto simp: authenticateHello_def Let_def split: sum.splits prod.splits option.splits unit.splits)
  obtain cache' db' where st: "st = (cache', db')" by (cases st)
  obtain cred where a: "check_hello (ce_hello env) (ce_now env) h (sv_db sv) = Inr cred" "hello_identity (ce_hello env) (ce_now env) h cred = Inr rt"
    using verifyHello_ok [OF v [unfolded st] assms(4)] .
  have "cred = c" using check_hello_ok(1) [OF a(1)] assms(5) by (simp add: GetRuntimeCredential_def select_one_row)
  then show "ar_RuntimeID rt = h_runtime_id h" "ar_UserID rt = CredUserID c" "ar_Source rt = SourceHosted"
    using a(2) assms(6,7) by (auto simp: hello_identity_def Let_def hello_refusals auth_of_def split: if_splits)
qed

lemma joined_row:
  assumes "joined p db later" "holds_credential p uid db" "pp_runtime_id p \<noteq> ''''" "runtimes_ok db" "creds_ok db"
  shows "\<exists>r. row RuntimeID (rt_rows later) (pp_runtime_id p) = Some r \<and> UserID r = uid \<and> Source r = SourceHosted"
proof -
  obtain env h peer sv sv' rt token expiresAt first where j: "runtime_step\<^sup>*\<^sup>* db (sv_db sv)" "frame_type first = FT_HELLO" "payload first = P_Hello h"
    "authenticateFirstFrame env first peer sv = (sv', Inr (rt, token, expiresAt))" "h_source h \<noteq> SourceBare" "h_key_id h = pp_credential_key_id p"
    "h_runtime_id h = pp_runtime_id p" "runtime_step\<^sup>*\<^sup>* (sv_db sv') later" using assms(1) unfolding joined_def by blast
  obtain c0 where c0: "row KeyID (rt_creds db) (h_key_id h) = Some c0" "HostedInternal c0" "CredUserID c0 = uid"
    using assms(2) j(6) by (auto simp: holds_credential_def)
  then have "issued_view db (h_key_id h) = Some (issued_face c0)" by (simp add: issued_view_def)
  from issued.frozen_star [OF j(1) assms(5) this] obtain c where
    c: "row KeyID (rt_creds (sv_db sv)) (h_key_id h) = Some c" "issued_face c = issued_face c0" by (auto simp: issued_view_def)
  then have face: "HostedInternal c" "CredUserID c = uid" using c0 by (simp_all add: issued_face_def)
  note id = hosted_identity [OF j(4,2,3,5) c(1) face(1)]
  have rid: "ar_RuntimeID rt = pp_runtime_id p" "ar_UserID rt = uid" "ar_Source rt = SourceHosted" using id face(2) assms(3) j(7) by simp_all
  have "runtime_step\<^sup>*\<^sup>* (sv_db sv) (sv_db sv')" using evolves_authenticate [of sv env first peer] j(4) by (simp add: evolves_def)
  then have ok: "runtimes_ok (sv_db sv')" using owners.inv_star [OF rtranclp_trans [OF j(1)] assms(4)] by simp
  have "owner_view (sv_db sv') (pp_runtime_id p) = Some (uid, SourceHosted)" using admitted_owner [OF authenticate_row [OF j(4)]] rid by simp
  from owners.frozen_star [OF j(8) ok this] show ?thesis by (auto simp: owner_view_def)
qed

lemma start_step:
  assumes "ensure_start env uid name profile limits rs = (rs', Inr (rid, handle))"
  shows "runtime_step\<^sup>*\<^sup>* (rv_db rs) (rv_db rs')"
proof (cases "re_issuer env")
  case None
  then show ?thesis using assms by (auto simp: ensure_start_def provision_def ask_def Let_def split: sum.splits)
next
  case (Some ie)
  obtain db ic where ic: "IssueHostedInternalRuntimeCredential ie uid (GenerateRuntimeID (re_random_id env)) name (rv_db rs) = (db, Inr ic)"
    and p: "rv_db rs' = db"
    using assms Some by (auto simp: ensure_start_def provision_def ask_def Let_def split: sum.splits prod.splits)
  then obtain label crid where "issue ie uid label RoleExecutor True crid (rv_db rs) = (db, Inr ic)"
    by (auto simp: IssueHostedInternalRuntimeCredential_def Let_def split: if_splits)
  then have "CreateRuntimeCredential (ic_credential ic) (rv_db rs) = (db, Inr ())" by (rule issue_ok) blast
  then show ?thesis using runtime_step.issue [of "rv_db rs" "ic_credential ic"] p by auto
qed


section \<open>Ending a runtime\<close>

lemma CloseByRuntimeID_gone: "registry_inv g \<Longrightarrow> FindByRuntimeID (fst (CloseByRuntimeID rid g)) uid rid = None"
  using registry_invD(3,4) [of g rid] close_and_remove_streams [of _ g]
  by (auto simp: CloseByRuntimeID_def FindByRuntimeID_def split: option.split)

lemma recorded_frame:
  "rv_calls (recordRuntimeCleanupState env rid status reason tm rs) = rv_calls rs"
  "sv_registry (rv_chan (recordRuntimeCleanupState env rid status reason tm rs)) = sv_registry (rv_chan rs)"
  "sv_events (rv_chan (recordRuntimeCleanupState env rid status reason tm rs)) = sv_events (rv_chan rs)"
  by (simp_all add: recordRuntimeCleanupState_def on_db_def with_db_def split_beta)

lemma recorded_rows:
  "\<exists>f. (\<forall>r. RuntimeID (f r) = RuntimeID r \<and> face (f r) = face r) \<and> rt_rows (rv_db (recordRuntimeCleanupState env rid status reason tm rs)) =
     update_where (\<lambda>r. RuntimeID r = rid) f (rt_rows (rv_db rs))"
proof -
  let ?f = "\<lambda>r. r\<lparr>CleanupStatus := status, CleanupReason := take 1000 (trim_space reason), CleanupAt := Some tm, UpdatedAt := re_db_now env\<rparr>"
  have same: "rt_rows (rv_db rs) = update_where (\<lambda>r. RuntimeID r = rid) (\<lambda>r. r) (rt_rows (rv_db rs))" by (simp add: update_where_def)
  have "rt_rows (rv_db (recordRuntimeCleanupState env rid status reason tm rs)) \<in>
      {rt_rows (rv_db rs), update_where (\<lambda>r. RuntimeID r = rid) ?f (rt_rows (rv_db rs))}"
    by (auto simp: recordRuntimeCleanupState_def on_db_def with_db_def split_beta UpdateRuntimeCleanupState_def update_existing_def
        update_runtimes_Inr split: sum.split)
  then show ?thesis
  proof (elim insertE emptyE)
    assume "rt_rows (rv_db (recordRuntimeCleanupState env rid status reason tm rs)) = rt_rows (rv_db rs)"
    then show ?thesis using same by (intro exI [of _ "\<lambda>r. r"]) simp
  next
    assume "rt_rows (rv_db (recordRuntimeCleanupState env rid status reason tm rs)) = update_where (\<lambda>r. RuntimeID r = rid) ?f (rt_rows (rv_db rs))"
    then show ?thesis by (intro exI [of _ ?f]) (simp add: face_def)
  qed
qed


lemma end_cleanup_effect:
  assumes "end_cleanup env rt rs = (rs', c)"
  shows "rv_calls rs' = rv_calls rs @ (if Source rt = SourceHosted then [Deprovision (hostedRuntimeHandle (RuntimeID rt))] else [])"
    "sv_events (rv_chan rs') = sv_events (rv_chan rs)"
    "\<exists>f. (\<forall>r. RuntimeID (f r) = RuntimeID r \<and> face (f r) = face r) \<and>
       rt_rows (rv_db rs') = update_where (\<lambda>r. RuntimeID r = RuntimeID rt) f (rt_rows (rv_db rs))"
    "Source rt = SourceSelfHosted \<Longrightarrow> re_stream_closer env \<Longrightarrow> registry_inv (sv_registry (rv_chan rs)) \<Longrightarrow>
       FindByRuntimeID (sv_registry (rv_chan rs')) uid (RuntimeID rt) = None"
proof -
  define closed where "closed = (if re_stream_closer env then rs\<lparr>rv_chan := fst (CloseStreamForRuntime (RuntimeID rt) (rv_chan rs))\<rparr> else rs)"
  have closed: "rv_calls closed = rv_calls rs" "sv_events (rv_chan closed) = sv_events (rv_chan rs)" "rv_db closed = rv_db rs"
    "re_stream_closer env \<Longrightarrow> sv_registry (rv_chan closed) = fst (CloseByRuntimeID (RuntimeID rt) (sv_registry (rv_chan rs)))"
    by (simp_all add: closed_def CloseStreamForRuntime_def split_beta with_registry_def)
  have same: "rt_rows (rv_db rs) = update_where (\<lambda>r. RuntimeID r = RuntimeID rt) (\<lambda>r. r) (rt_rows (rv_db rs))" by (simp add: update_where_def)
  consider (hosted) status reason where "Source rt = SourceHosted" "rs' = recordRuntimeCleanupState env (RuntimeID rt) status reason (re_now env)
        (ask (Deprovision (hostedRuntimeHandle (RuntimeID rt))) rs)"
    | (self_hosted) status reason where "Source rt = SourceSelfHosted" "rs' = recordRuntimeCleanupState env (RuntimeID rt) status reason (re_now env) closed"
    | (other) "Source rt \<noteq> SourceHosted" "Source rt \<noteq> SourceSelfHosted" "rs' = rs"
    using assms by (auto simp: end_cleanup_def deprovisionHostedRuntime_def deprovisionHostedRuntimeHandle_def recordSelfHostedCleanupGuidance_def
        Let_def split_beta closed_def [symmetric] split: if_splits)
  then have all: "rv_calls rs' = rv_calls rs @ (if Source rt = SourceHosted then [Deprovision (hostedRuntimeHandle (RuntimeID rt))] else []) \<and>
    sv_events (rv_chan rs') = sv_events (rv_chan rs) \<and>
    (\<exists>f. (\<forall>r. RuntimeID (f r) = RuntimeID r \<and> face (f r) = face r) \<and>
       rt_rows (rv_db rs') = update_where (\<lambda>r. RuntimeID r = RuntimeID rt) f (rt_rows (rv_db rs))) \<and>
    (Source rt = SourceSelfHosted \<longrightarrow> re_stream_closer env \<longrightarrow> sv_registry (rv_chan rs') = fst (CloseByRuntimeID (RuntimeID rt) (sv_registry (rv_chan rs))))"
  proof cases
    case (hosted status reason)
    show ?thesis
      using recorded_frame [of env "RuntimeID rt" status reason "re_now env" "ask (Deprovision (hostedRuntimeHandle (RuntimeID rt))) rs"]
        recorded_rows [of env "RuntimeID rt" status reason "re_now env" "ask (Deprovision (hostedRuntimeHandle (RuntimeID rt))) rs"] hosted
      by (simp add: ask_def)
  next
    case (self_hosted status reason)
    show ?thesis
      using recorded_frame [of env "RuntimeID rt" status reason "re_now env" closed] recorded_rows [of env "RuntimeID rt" status reason "re_now env" closed]
        self_hosted closed by simp
  next
    case other
    then show ?thesis using same by (auto intro!: exI [of _ "\<lambda>r. r"])
  qed
  then show "rv_calls rs' = rv_calls rs @ (if Source rt = SourceHosted then [Deprovision (hostedRuntimeHandle (RuntimeID rt))] else [])"
    "sv_events (rv_chan rs') = sv_events (rv_chan rs)"
    "\<exists>f. (\<forall>r. RuntimeID (f r) = RuntimeID r \<and> face (f r) = face r) \<and>
       rt_rows (rv_db rs') = update_where (\<lambda>r. RuntimeID r = RuntimeID rt) f (rt_rows (rv_db rs))"
    by blast+
  show "FindByRuntimeID (sv_registry (rv_chan rs')) uid (RuntimeID rt) = None"
    if "Source rt = SourceSelfHosted" "re_stream_closer env" "registry_inv (sv_registry (rv_chan rs))"
    using all that CloseByRuntimeID_gone [OF that(3)] by simp
qed


lemma marked: "re_sessions env \<noteq> None \<Longrightarrow> rid \<noteq> '''' \<Longrightarrow> markRuntimeSessionsRecoverable env rid msg rs = ask (MarkRuntimeSessionsRecoverable rid msg) rs"
  by (auto simp: markRuntimeSessionsRecoverable_def)

lemma published:
  "rv_calls (publishRuntimeEvent rt t sev msg rs) = rv_calls rs" "rv_db (publishRuntimeEvent rt t sev msg rs) = rv_db rs"
  "sv_registry (rv_chan (publishRuntimeEvent rt t sev msg rs)) = sv_registry (rv_chan rs)"
  "0 < UserID rt \<Longrightarrow> \<exists>e. sv_events (rv_chan (publishRuntimeEvent rt t sev msg rs)) = sv_events (rv_chan rs) @ [e] \<and>
     nt_event_type e = t \<and> nt_user_id e = UserID rt \<and> nt_runtime_id e = RuntimeID rt \<and> nt_message e = msg"
  by (simp_all add: publishRuntimeEvent_def)

lemma end_runtime_cases:
  assumes "runtimes_ok (rv_db rs)" "EndRuntime_service env uid rid force rs = (rs', r)"
  obtains (refused) e where "r = Inl e" "rs' = rs"
  | (ended_before) rt where "r = Inr rt" "rs' = rs" "row RuntimeID (rt_rows (rv_db rs)) rid = Some rt" "UserID rt = uid" "\<not> live rt"
  | (ended) rt rt' rs1 rs2 c where "r = Inr rt'" "0 < uid" "rid \<noteq> ''''" "row RuntimeID (rt_rows (rv_db rs)) rid = Some rt" "UserID rt = uid" "live rt"
      "force = None" "listRuntimeEndBlockers env rid = Inr []" "end_cleanup env rt rs1 = (rs2, c)"
      "rs1 = rs\<lparr>rv_chan := (rv_chan rs)\<lparr>sv_db := (rv_db rs)\<lparr>rt_rows := update_where (\<lambda>r. RuntimeID r = rid \<and> live r)
         (end_row (re_db_now env) ReasonUserCancelled (re_now env)) (rt_rows (rv_db rs))\<rparr>\<rparr>\<rparr>"
      "rt' = (case c of None \<Rightarrow> rt | Some c \<Rightarrow> rt\<lparr>CleanupStatus := cu_status c, CleanupReason := cu_reason c, CleanupAt := Some (cu_at c)\<rparr>)"
      "rs' = publishRuntimeEvent rt' EventRuntimeEnded SeverityInfo (''Runtime '' @ Name rt' @ '' ended: '' @ EndedReason rt' @ ''.'')
         (markRuntimeSessionsRecoverable env (RuntimeID rt') (''runtime '' @ RuntimeID rt' @ '' was ended by control-panel'') rs2)"
proof -
  consider (no) e where "GetRuntime_service uid rid (rv_db rs) = Inl e" | (got) rt where "GetRuntime_service uid rid (rv_db rs) = Inr rt"
    by (cases "GetRuntime_service uid rid (rv_db rs)") auto
  then show thesis
  proof cases
    case no
    then have "r = Inl e \<and> rs' = rs" using assms(2) by (auto simp: EndRuntime_service_def)
    then show ?thesis using refused by blast
  next
    case got
    then have rt: "0 < uid" "rid \<noteq> ''''" "row RuntimeID (rt_rows (rv_db rs)) rid = Some rt" "UserID rt = uid"
      by (auto simp: GetRuntime_service_def GetRuntime_def select_one_row split: if_splits option.splits)
    then have id: "RuntimeID rt = rid" using row_SomeD by metis
    show ?thesis
    proof (cases "live rt")
      case False
      then show ?thesis using assms(2) got rt by (intro ended_before [of rt]) (auto simp: EndRuntime_service_def)
    next
      case True
      have "ReasonUserCancelled \<in> set ended_reasons" by (simp add: ended_reasons_def)
      note eff = EndRuntime_effect [OF assms(1) rt(3) True this, of "re_db_now env" "re_now env"]
      show ?thesis
      proof (cases "force = None \<and> listRuntimeEndBlockers env rid = Inr []")
        case False
        then show ?thesis using assms(2) got True id
          by (intro refused [of "case r of Inl e \<Rightarrow> e"]) (auto simp: EndRuntime_service_def split: sum.splits if_splits)
      next
        case free: True
        define rs1 where "rs1 = rs\<lparr>rv_chan := (rv_chan rs)\<lparr>sv_db := (rv_db rs)\<lparr>rt_rows := update_where (\<lambda>r. RuntimeID r = rid \<and> live r)
         (end_row (re_db_now env) ReasonUserCancelled (re_now env)) (rt_rows (rv_db rs))\<rparr>\<rparr>\<rparr>"
        obtain rs2 c where c: "end_cleanup env rt rs1 = (rs2, c)" by (cases "end_cleanup env rt rs1")
        define rt' where "rt' = (case c of None \<Rightarrow> rt | Some c \<Rightarrow> rt\<lparr>CleanupStatus := cu_status c, CleanupReason := cu_reason c, CleanupAt := Some (cu_at c)\<rparr>)"
        have db: "on_db (EndRuntime (re_db_now env) rid ReasonUserCancelled (re_now env)) rs = (rs1, Inr rt)"
          using eff by (simp add: on_db_def with_db_def rs1_def)
        have "rs' = publishRuntimeEvent rt' EventRuntimeEnded SeverityInfo (''Runtime '' @ Name rt' @ '' ended: '' @ EndedReason rt' @ ''.'')
           (markRuntimeSessionsRecoverable env (RuntimeID rt') (''runtime '' @ RuntimeID rt' @ '' was ended by control-panel'') rs2) \<and> r = Inr rt'"
          using assms(2) got True id free db c unfolding EndRuntime_service_def Let_def by (simp add: rt'_def [symmetric])
        then show ?thesis using ended [OF _ rt True _ _ c rs1_def rt'_def] free by blast
      qed
    qed
  qed
qed

text \<open>C12. A runtime is ended only by its owner, never by force, and only when the core service answered that no session runs on it; every refusal
  leaves everything as it was. Then the row is cancelled, the container of a hosted runtime is removed, the channel of a self-hosted one
  closed, its sessions are marked recoverable and the end is announced (without the reason, which is read from the row before the update).\<close>
theorem end_runtime_guarded:
  assumes "runtimes_ok (rv_db rs)" "registry_inv (sv_registry (rv_chan rs))" "EndRuntime_service env uid rid force rs = (rs', r)"
  shows "case r of Inl e \<Rightarrow> rs' = rs
    | Inr rt \<Rightarrow> UserID rt = uid \<and> (rs' = rs \<and> row RuntimeID (rt_rows (rv_db rs)) rid = Some rt \<and> \<not> live rt \<or>
        force = None \<and> listRuntimeEndBlockers env rid = Inr [] \<and>
        (\<exists>r'. row RuntimeID (rt_rows (rv_db rs')) rid = Some r' \<and> RtStatus r' = RuntimeStatusCancelled \<and> EndedAt r' = Some (re_now env) \<and>
           EndedReason r' = ReasonUserCancelled \<and> UserID r' = uid) \<and>
        rv_calls rs' = rv_calls rs @ (if Source rt = SourceHosted then [Deprovision (hostedRuntimeHandle rid)] else []) @
          [MarkRuntimeSessionsRecoverable rid (''runtime '' @ rid @ '' was ended by control-panel'')] \<and>
        (Source rt = SourceSelfHosted \<and> re_stream_closer env \<longrightarrow> FindByRuntimeID (sv_registry (rv_chan rs')) uid rid = None) \<and>
        (\<exists>e. sv_events (rv_chan rs') = sv_events (rv_chan rs) @ [e] \<and> nt_event_type e = EventRuntimeEnded \<and> nt_user_id e = uid \<and>
           nt_runtime_id e = rid \<and> nt_message e = ''Runtime '' @ Name rt @ '' ended: .''))"
  using assms(1,3)
proof (cases rule: end_runtime_cases)
  case (refused e)
  then show ?thesis by simp
next
  case (ended_before rt)
  then show ?thesis by simp
next
  case (ended rt rt' rs1 rs2 c)
  have id: "RuntimeID rt = rid" and mem: "rt \<in> set (rt_rows (rv_db rs))" using row_SomeD [OF ended(4)] by auto
  have same: "RuntimeID rt' = rid" "UserID rt' = uid" "Name rt' = Name rt" "Source rt' = Source rt" "EndedReason rt' = EndedReason rt"
    using ended(5,11) id by (simp_all split: option.split)
  have "runtime_row_ok rt" using assms(1) mem by (auto simp: runtimes_ok_def list_all_iff)
  then have reason: "EndedReason rt = ''''" using live_open ended(6) by (auto simp: runtime_row_ok_def)
  note eff = end_cleanup_effect [OF ended(9), unfolded id]
  have sessions: "re_sessions env \<noteq> None" using ended(3,8) by (auto simp: listRuntimeEndBlockers_def split: option.splits)
  obtain f where f: "\<And>r. RuntimeID (f r) = RuntimeID r \<and> face (f r) = face r"
    "rt_rows (rv_db rs2) = update_where (\<lambda>r. RuntimeID r = rid) f (rt_rows (rv_db rs1))" using eff(3) by blast
  let ?g = "end_row (re_db_now env) ReasonUserCancelled (re_now env)"
  have rows1: "rt_rows (rv_db rs1) = update_where (\<lambda>r. RuntimeID r = rid \<and> live r) ?g (rt_rows (rv_db rs))" by (simp add: ended(10))
  have "row RuntimeID (rt_rows (rv_db rs1)) rid = Some (?g rt)"
    unfolding rows1 using ended(4,6) id by (subst row_update) (simp_all add: end_row_def)
  then have "row RuntimeID (rt_rows (rv_db rs2)) rid = Some (f (?g rt))" unfolding f(2) using f(1) id by (subst row_update) (simp_all add: end_row_def)
  moreover have "face (f (?g rt)) = ((uid, Name rt, Source rt), RuntimeStatusCancelled, Some (re_now env), ReasonUserCancelled)"
    using f(1) ended(5) by (simp add: face_def end_row_def RuntimeTerminalStatusForReason_def)
  ultimately have row: "\<exists>r'. row RuntimeID (rt_rows (rv_db rs')) rid = Some r' \<and> RtStatus r' = RuntimeStatusCancelled \<and> EndedAt r' = Some (re_now env) \<and>
     EndedReason r' = ReasonUserCancelled \<and> UserID r' = uid"
    unfolding ended(12) published(2) same(1) marked [OF sessions ended(3)] by (simp add: ask_def face_def)
  have calls: "rv_calls rs' = rv_calls rs @ (if Source rt = SourceHosted then [Deprovision (hostedRuntimeHandle rid)] else []) @
          [MarkRuntimeSessionsRecoverable rid (''runtime '' @ rid @ '' was ended by control-panel'')]"
    unfolding ended(12) published(1) same(1) marked [OF sessions ended(3)] using eff(1) by (simp add: ask_def ended(10))
  have "registry_inv (sv_registry (rv_chan rs1))" using assms(2) by (simp add: ended(10))
  then have gone: "Source rt = SourceSelfHosted \<and> re_stream_closer env \<longrightarrow> FindByRuntimeID (sv_registry (rv_chan rs')) uid rid = None"
    unfolding ended(12) published(3) same(1) marked [OF sessions ended(3)] using eff(4) by (simp add: ask_def)
  have "\<exists>e. sv_events (rv_chan rs') = sv_events (rv_chan rs) @ [e] \<and> nt_event_type e = EventRuntimeEnded \<and> nt_user_id e = uid \<and>
           nt_runtime_id e = rid \<and> nt_message e = ''Runtime '' @ Name rt @ '' ended: .''"
  proof -
    let ?rs3 = "ask (MarkRuntimeSessionsRecoverable rid (''runtime '' @ rid @ '' was ended by control-panel'')) rs2"
    let ?msg = "''Runtime '' @ Name rt' @ '' ended: '' @ EndedReason rt' @ ''.''"
    have "0 < UserID rt'" using ended(2) same(2) by simp
    from published(4) [OF this, of EventRuntimeEnded SeverityInfo ?msg ?rs3] obtain e where
      e: "sv_events (rv_chan (publishRuntimeEvent rt' EventRuntimeEnded SeverityInfo ?msg ?rs3)) = sv_events (rv_chan ?rs3) @ [e]"
      "nt_event_type e = EventRuntimeEnded" "nt_user_id e = UserID rt'" "nt_runtime_id e = RuntimeID rt'" "nt_message e = ?msg" by blast
    have "rs' = publishRuntimeEvent rt' EventRuntimeEnded SeverityInfo ?msg ?rs3"
      unfolding ended(12) same(1) marked [OF sessions ended(3)] ..
    moreover have "sv_events (rv_chan ?rs3) = sv_events (rv_chan rs)" using eff(2) by (simp add: ask_def ended(10))
    ultimately show ?thesis using e same reason by (intro exI [of _ e]) simp
  qed
  then show ?thesis using ended(1,7,8) row calls gone same by simp
qed


section \<open>Bare runtimes\<close>

lemma bare_issued:
  assumes "BootstrapBareRuntimeCertificate env uid rid0 name0 csr remote rs = (rs', Inr t)"
  obtains lib cert where "bc_enabled (re_bare env)" "ipAllowed (re_net env) remote (bc_allowlist (re_bare env))" "0 < uid" "trim_space rid0 \<noteq> ''''"
    "SignRuntimeClientCertificate lib (re_now env) \<lparr>sr_csr = csr, sr_runtime_id = trim_space rid0, sr_user_id = uid, sr_source = SourceBare,
       sr_role = RoleExecutor, sr_name = bt_name t, sr_ttl = bc_ttl (re_bare env), sr_now = re_now env\<rparr> = Inr cert"
    "CreateRuntimeCredential (bare_credential env uid (trim_space rid0) (bt_name t) cert) (rv_db rs) = (rv_db rs', Inr ())"
    "validRuntimeName (bt_name t)" "bt_runtime_id t = trim_space rid0" "bt_expires_at t = ct_not_after cert" "bt_client_cert t = re_cert_pem env cert"
  using assms by (auto simp: BootstrapBareRuntimeCertificate_def Let_def on_db_def with_db_def split: if_splits option.splits sum.splits prod.splits unit.splits)

text \<open>C14. A bare runtime gets one certificate in its life. It is issued only behind the debug gate and to an allowed address, for the
  requested runtime; whatever follows, no second certificate is ever issued for that runtime id, to any user, also not when the first has expired.\<close>
theorem bare_certificate_once:
  assumes "BootstrapBareRuntimeCertificate env uid rid name csr remote rs = (rs1, Inr t)" "creds_ok (rv_db rs)"
    and "runtime_step\<^sup>*\<^sup>* (rv_db rs1) (rv_db rs2)" "trim_space rid' = trim_space rid"
  shows "bc_enabled (re_bare env) \<and> ipAllowed (re_net env) remote (bc_allowlist (re_bare env)) \<and> 0 < uid \<and> bt_runtime_id t = trim_space rid \<and>
    snd (BootstrapBareRuntimeCertificate env' uid' rid' name' csr' remote' rs2) \<noteq> Inr t'"
proof -
  obtain lib cert where b: "bc_enabled (re_bare env)" "ipAllowed (re_net env) remote (bc_allowlist (re_bare env))" "0 < uid"
    "CreateRuntimeCredential (bare_credential env uid (trim_space rid) (bt_name t) cert) (rv_db rs) = (rv_db rs1, Inr ())" "bt_runtime_id t = trim_space rid"
    by (rule bare_issued [OF assms(1)]) blast
  let ?k = "''bare-'' @ trim_space rid"
  have "issued_view (rv_db rs1) ?k \<noteq> None" using created_credential(1) [OF b(4)] by (simp add: bare_credential_def)
  then obtain v where v: "issued_view (rv_db rs1) ?k = Some v" by blast
  have "runtime_step (rv_db rs) (rv_db rs1)"
    using runtime_step.issue [of "rv_db rs" "bare_credential env uid (trim_space rid) (bt_name t) cert"] b(4) by simp
  from credentials.inv_step [OF this assms(2)] have "creds_ok (rv_db rs1)" .
  from issued.frozen_star [OF assms(3) this v] have taken: "row KeyID (rt_creds (rv_db rs2)) ?k \<noteq> None" by (auto simp: issued_view_def)
  have "snd (BootstrapBareRuntimeCertificate env' uid' rid' name' csr' remote' rs2) \<noteq> Inr t'"
  proof
    assume "snd (BootstrapBareRuntimeCertificate env' uid' rid' name' csr' remote' rs2) = Inr t'"
    then obtain rs3 where "BootstrapBareRuntimeCertificate env' uid' rid' name' csr' remote' rs2 = (rs3, Inr t')" by (metis prod.collapse)
    then obtain cert' where c: "CreateRuntimeCredential (bare_credential env' uid' (trim_space rid') (bt_name t') cert') (rv_db rs2) = (rv_db rs3, Inr ())"
      by (rule bare_issued) blast
    show False using created_credential(3) [OF c] taken assms(4) by (simp add: bare_credential_def)
  qed
  then show ?thesis using b by blast
qed

section \<open>A registration that times out\<close>

text \<open>The clean-up after a registration timeout removes the container and nothing else: the credential of the runtime stays usable.\<close>
lemma timeout_keeps_credential: "rt_creds (rv_db (fst (ensure_end env rid handle (Inl e) rs))) = rt_creds (rv_db rs)"
  by (simp add: ensure_end_def deprovisionHostedRuntimeHandle_def recordRuntimeCleanupState_def on_db_def with_db_def ask_def split_beta Let_def
      UpdateRuntimeCleanupState_def update_existing_creds)

text \<open>The wait ends with the first poll that sees the runtime active and owned, and with the deadline at the latest.\<close>
lemma wait_ends: "p \<in> set polls \<Longrightarrow> po_expired p \<Longrightarrow> waitForRegistration env rid polls \<noteq> None"
  by (induction env rid polls rule: waitForRegistration.induct) (auto simp: Let_def split: sum.split option.split)

lemma wait_registered: "waitForRegistration env rid polls = Some (Inr rt) \<Longrightarrow>
    \<exists>p\<in>set polls. row RuntimeID (rt_rows (po_db p)) rid = Some rt \<and> RtStatus rt = RuntimeStatusActive \<and> OwnerInstanceID rt \<noteq> ''''"
  by (induction env rid polls rule: waitForRegistration.induct)
    (auto simp: Let_def GetRuntime_def select_one_row split: sum.splits option.splits if_splits)


section \<open>Concrete instances\<close>

definition sample_renv :: "string \<Rightarrow> runtime_env" where
  "sample_renv bytes = \<lparr>re_chan = channel_env 150 '''', re_stream_closer = True, re_sessions = Some (\<lambda>_. Inr (Some [])), re_lookup = Some (\<lambda>_. Inr ''free''),
     re_plans = sample_plans, re_caps = \<lparr>pc_hosted = -1, pc_self_hosted = -1, pc_default_plan = ''free''\<rparr>, re_quote = (\<lambda>s. s), re_collate = (\<lambda>_. 0),
     re_heartbeat_grace = 1000, re_death_grace = 5000, re_bare_death_grace = 5000,
     re_provisioning = \<lparr>pv_image = ''img'', pv_advertise_host = ''h'', pv_port_base = 0, pv_port_size = 0, pv_registration_timeout = 0,
       pv_profiles = [''small'' \<mapsto> \<lparr>rp_nano_cpus = ''0.5'', rp_memory_mb = 512, rp_pids_limit = 0\<rparr>]\<rparr>,
     re_issuer = None, re_provision = (\<lambda>p. Inr (''c-'' @ pp_runtime_id p)), re_deprovision = (\<lambda>_. None), re_diagnostics = None,
     re_tls_server_name = '''', re_nano = 5, re_random_id = bytes,
     re_net = \<lparr>nl_parse_ip = (\<lambda>s. if s = ''127.0.0.1'' then Some s else None), nl_split_host_port = (\<lambda>_. None), nl_parse_cidr = (\<lambda>_. None)\<rparr>,
     re_bare = \<lparr>bc_enabled = True, bc_allowlist = [''127.0.0.1''], bc_ttl = 8 * hour\<rparr>, re_signer = Some sure_lib, re_server_ca = ''ca'',
     re_cert_pem = (\<lambda>_. ''cert''), re_fingerprint = (\<lambda>_. ''fp'')\<rparr>"

definition idle_service :: runtime_service where "idle_service = \<lparr>rv_chan = new_service empty_runtime_db [], rv_calls = []\<rparr>"
definition busy_service :: runtime_service where "busy_service = \<lparr>rv_chan = channel_first, rv_calls = []\<rparr>"

lemma sample_nano: "0 \<le> re_nano (sample_renv b)"
  by (simp add: sample_renv_def)

theorem hosted_name_allocation_witness:
  "\<exists>name. generateAvailableHostedRuntimeName (sample_renv ''a'') empty_runtime_db 7 = Inr name \<and> validRuntimeName name"
proof -
  have "generated_names \<noteq> []" using generated_names_valid(2) by auto
  then have "\<exists>n. n \<in> set generated_names" by (metis list.set_sel(1))
  with hosted_name_allocation [OF sample_nano [of "''a''"], of 7 empty_runtime_db] show ?thesis
    by (auto simp: empty_runtime_db_def split: sum.splits)
qed

definition start_result :: "string \<Rightarrow> string \<Rightarrow> runtime_service \<Rightarrow> runtime_service \<times> ensure_state" where
  "start_result bytes name rs = ensure_begin (sample_renv bytes) 7 name '''' rs"

lemma start_waits: "start_result ''a'' ''bot-a'' idle_service = (fst (start_result ''a'' ''bot-a'' idle_service), Waiting ''rt-61'' ''c-rt-61'')"
proof -
  have "snd (start_result ''a'' ''bot-a'' idle_service) = Waiting ''rt-61'' ''c-rt-61''" by code_simp
  then show ?thesis by (simp add: prod_eq_iff)
qed

theorem hosted_start_guarded_witness:
  "\<exists>p. rv_calls (fst (start_result ''a'' ''bot-a'' idle_service)) = [Provision p] \<and> pp_name p = ''bot-a'' \<and> pp_runtime_id p = ''rt-61''"
  using hosted_start_guarded [OF start_waits [unfolded start_result_def] sample_nano] by (auto simp: idle_service_def start_result_def)

definition used_row :: "string \<Rightarrow> runtime" where
  "used_row name = (end_row 20 ReasonUserCancelled 20 sample_runtime)\<lparr>RuntimeID := name, Name := name, Source := SourceHosted\<rparr>"

definition used_db :: runtime_db where "used_db = empty_runtime_db\<lparr>rt_rows := map used_row generated_names\<rparr>"

lemma used_row_dead: "IsRuntimeTerminalStatus (RtStatus (used_row n))" "UserID (used_row n) = 7" "RuntimeID (used_row n) = n" "Name (used_row n) = n" "Source (used_row n) = SourceHosted"
  using end_row_dead [of 20 ReasonUserCancelled 20 sample_runtime] by (simp_all add: used_row_def) (simp add: end_row_def sample_runtime_def)

lemma valid_name_ok: "validRuntimeName n \<Longrightarrow> runtime_name_ok n"
  by (cases n) (auto simp: validRuntimeName_def runtime_name_ok_def Let_def list_all_iff name_char_def)

lemma used_row_ok: "n \<in> set generated_names \<Longrightarrow> runtime_row_ok (used_row n)"
proof -
  assume "n \<in> set generated_names"
  then have "runtime_name_ok n" using generated_names_valid(1) valid_name_ok by (simp add: list_all_iff)
  then show ?thesis
    by (simp add: runtime_row_ok_def used_row_def end_row_def RuntimeTerminalStatusForReason_def sample_runtime_def lifecycle_ok_def owner_ok_def
        IsRuntimeTerminalStatus_def ended_reasons_def)
qed

lemma used_db_ok: "runtimes_ok used_db"
proof -
  have "filter bound (map used_row xs) = []" "filter debugging (map used_row xs) = []" for xs
    by (simp_all add: filter_empty_conv bound_def debugging_def used_row_dead)
  moreover have "filter named (map used_row xs) = map used_row xs" for xs by (simp add: filter_id_conv named_def used_row_dead)
  moreover have "distinct (map RuntimeID (map used_row generated_names))" "distinct (map (\<lambda>r. (UserID r, Name r)) (map used_row generated_names))"
    using generated_names_distinct by (simp_all add: used_row_dead comp_def distinct_map inj_on_def)
  ultimately show ?thesis using used_row_ok by (simp add: runtimes_ok_def used_db_def runtimes_unique_def keys_ok_def list_all_iff)
qed

theorem hosted_names_run_out_witness:
  "rv_calls (fst (ensure_begin (sample_renv ''a'') 7 '''' '''' \<lparr>rv_chan = new_service used_db [], rv_calls = []\<rparr>)) = []"
proof -
  have "\<forall>name\<in>set generated_names. \<exists>r\<in>set (rt_rows used_db). UserID r = 7 \<and> Name r = name \<and> Source r \<noteq> SourceBare \<and> \<not> live r"
    by (auto simp: used_db_def used_row_dead)
  from hosted_names_run_out [OF used_db_ok this, of "\<lparr>rv_chan = new_service used_db [], rv_calls = []\<rparr>" "sample_renv ''a''" "''''" "''''" "''''", OF _ sample_nano]
  show ?thesis by (simp add: new_service_def)
qed

theorem route_resolution_exact_witness:
  "\<exists>rt. snd (ResolveRuntimeRouteByID (sample_renv ''a'') 7 ''rt1'' '''' 0 busy_service) = Inr rt \<and> live rt \<and> OwnerInstanceID rt \<noteq> ''''"
proof -
  have "is_ok (snd (ResolveRuntimeRouteByID (sample_renv ''a'') 7 ''rt1'' '''' 0 busy_service))" by code_simp
  then obtain rt where rt: "snd (ResolveRuntimeRouteByID (sample_renv ''a'') 7 ''rt1'' '''' 0 busy_service) = Inr rt" by (auto simp: is_ok_iff)
  from route_resolution_exact [THEN iffD1, OF rt] rt show ?thesis by blast
qed

definition hosted_issuer :: "string \<Rightarrow> issue_env" where "hosted_issuer key = sample_issue_env\<lparr>ie_random := Some key\<rparr>"

definition hosted_credential :: "string \<Rightarrow> string \<Rightarrow> credential" where
  "hosted_credential key name = \<lparr>KeyID = b64_encode key, CredUserID = 7, Label = ''hosted:'' @ name, CredRole = RoleExecutor, PublicKeyPEM = ''pem'',
     CredStatus = CredDownloaded, CredCreatedAt = 5, DownloadedAt = Some 5, ConsumedAt = None, ConsumedRuntimeID = '''', ExpiresAt = None,
     LastUsedAt = None, RevokedAt = None, HostedInternal = True, ClientCertPEM = ''cert'', ClientCertFingerprint = ''fp'',
     ClientCertExpiresAt = Some (whole_seconds (5 + 24 * hour)), Issuer = IssuerHostedInternal\<rparr>"

lemma name_plain:
  assumes "validRuntimeName name"
  shows "trim_space name = name" "trim_space (''hosted:'' @ name) = ''hosted:'' @ name" "name \<noteq> ''''"
proof -
  have c: "plain c" if "(is_lower c \<or> is_digit c) \<or> c = CHR ''-''" for c
    using that by (auto simp: is_lower_def is_digit_def plain_def is_space_def Let_def)
  have "list_all (\<lambda>c. (is_lower c \<or> is_digit c) \<or> c = CHR ''-'') name" "3 \<le> length name"
    using assms unfolding validRuntimeName_def Let_def by blast+
  then have p: "list_all plain name" and n: "name \<noteq> ''''" using c by (fastforce simp: list_all_iff, force)
  moreover have "list_all plain ''hosted:''" by (simp add: plain_def is_space_def)
  ultimately have "list_all plain (''hosted:'' @ name)" by (simp only: list_all_append)
  then show "trim_space name = name" "trim_space (''hosted:'' @ name) = ''hosted:'' @ name" "name \<noteq> ''''"
    using p n trim_no_space by blast+
qed

lemma hosted_issue:
  assumes "validRuntimeName name" "trim_space rid = rid" "rid \<noteq> ''''"
    and "row KeyID (rt_creds db) (b64_encode key) = None" "credentials_unique (rt_creds db)" "list_all credential_row_ok (rt_creds db)"
  shows "\<exists>ic. IssueHostedInternalRuntimeCredential (hosted_issuer key) 7 rid name db =
      (db\<lparr>rt_creds := rt_creds db @ [hosted_credential key name]\<rparr>, Inr ic) \<and> ic_credential ic = hosted_credential key name"
proof -
  let ?c = "hosted_credential key name"
  let ?req = "\<lparr>sr_csr = rid, sr_runtime_id = rid, sr_user_id = 7, sr_source = SourceHosted, sr_role = RoleExecutor, sr_name = ''hosted:'' @ name,
     sr_ttl = 24 * hour, sr_now = 5\<rparr>"
  have t: "trim_space SourceHosted \<noteq> ''''" "trim_space RoleExecutor \<noteq> ''''" by code_simp+
  have d: "(0::int) < 24 * hour" "\<not> is_zero 5" by (simp_all add: duration_defs is_zero_def zero_time_def)
  obtain cert where s: "SignRuntimeClientCertificate sure_lib 5 ?req = Inr cert" "ct_not_after cert = whole_seconds (5 + 24 * hour)"
    using d t assms(2,3) by (simp add: SignRuntimeClientCertificate_def sure_lib_def Let_def)
  have row: "issued_row (hosted_issuer key) 7 (''hosted:'' @ name) RoleExecutor True (b64_encode key) ''pem'' cert = ?c"
    using s(2) by (simp add: issued_row_def hosted_issuer_def sample_issue_env_def hosted_credential_def)
  have ok: "credential_row_ok ?c" "\<not> spent ?c" "Issuer ?c \<noteq> ''''"
    by (simp_all add: hosted_credential_def credential_row_ok_def spent_def) 
  have u: "?c\<lparr>ConsumedAt := None, ConsumedRuntimeID := '''', ExpiresAt := None, LastUsedAt := None, RevokedAt := None\<rparr> = ?c"
    by (simp add: hosted_credential_def)
  have "b64_encode key \<notin> KeyID ` set (rt_creds db)" using assms(4) by (simp add: row_None)
  then have "credentials_unique (rt_creds db @ [?c])"
    using assms(5) ok(2) by (auto simp: credentials_unique_def keys_ok_def hosted_credential_def)
  then have c: "CreateRuntimeCredential ?c db = (db\<lparr>rt_creds := rt_creds db @ [?c]\<rparr>, Inr ())"
    unfolding CreateRuntimeCredential_def Let_def if_not_P [OF ok(3)] u using ok(1) assms(6) by (simp add: write_creds_def report_write_def)
  have e: "ie_keypair (hosted_issuer key) = Inr (''pem'', ''priv'')" "generateKeyID (hosted_issuer key) = Inr (b64_encode key)"
    "ie_signer (hosted_issuer key) = Some sure_lib" "ie_server_ca (hosted_issuer key) = ''ca''" "ie_now (hosted_issuer key) = 5"
    "ie_client_key (hosted_issuer key) rid = Inr (''ck'', rid)"
    by (simp_all add: hosted_issuer_def sample_issue_env_def generateKeyID_def)
  show ?thesis
    unfolding IssueHostedInternalRuntimeCredential_def issue_def Let_def
    using name_plain [OF assms(1)] assms(2,3) s(1) row c
    by (simp add: e del: append.simps split: unit.split)
qed

definition start_env :: "string \<Rightarrow> string \<Rightarrow> runtime_env" where
  "start_env bytes key = (sample_renv bytes)\<lparr>re_issuer := Some (hosted_issuer key)\<rparr>"

definition first_start :: runtime_service where "first_start = fst (ensure_begin (start_env ''a'' ''r'') 7 ''bot-a'' '''' idle_service)"

text \<open>Starting under a free valid name: the credential is stored, the container asked for.\<close>
lemma starts:
  assumes "ensure_checks (start_env bytes key) 7 name '''' (rv_db rs) = Inr (Start name ''small'' limits)" "validRuntimeName name"
    and "row KeyID (rt_creds (rv_db rs)) (b64_encode key) = None" "credentials_unique (rt_creds (rv_db rs))" "list_all credential_row_ok (rt_creds (rv_db rs))"
    and "trim_space (GenerateRuntimeID bytes) = GenerateRuntimeID bytes" and k: "b64_encode key \<noteq> ''''"
  shows "\<exists>rs' p. ensure_begin (start_env bytes key) 7 name '''' rs = (rs', Waiting (GenerateRuntimeID bytes) (''c-'' @ GenerateRuntimeID bytes)) \<and>
    rv_db rs' = (rv_db rs)\<lparr>rt_creds := rt_creds (rv_db rs) @ [hosted_credential key name]\<rparr> \<and> rv_calls rs' = rv_calls rs @ [Provision p] \<and>
    pp_credential_key_id p = b64_encode key \<and> pp_runtime_id p = GenerateRuntimeID bytes"
proof -
  have n: "GenerateRuntimeID bytes \<noteq> ''''" by (simp add: GenerateRuntimeID_def)
  obtain ic where ic: "IssueHostedInternalRuntimeCredential (hosted_issuer key) 7 (GenerateRuntimeID bytes) name (rv_db rs) =
      ((rv_db rs)\<lparr>rt_creds := rt_creds (rv_db rs) @ [hosted_credential key name]\<rparr>, Inr ic)" "ic_credential ic = hosted_credential key name"
    using hosted_issue [OF assms(2,6) n assms(3-5)] by blast
  show ?thesis unfolding ensure_begin_def assms(1)
    using ic k by (simp add: ensure_start_def start_env_def sample_renv_def Let_def provision_def ask_def hosted_plan_def hosted_credential_def)
qed


definition hosted_db :: runtime_db where
  "hosted_db = empty_runtime_db\<lparr>rt_creds := [hosted_credential ''r'' ''bot-a'', hosted_credential ''s'' ''bot-b'']\<rparr>"

definition join_env :: "string \<Rightarrow> chan_env" where
  "join_env token = (channel_env 2000000000 token)\<lparr>ce_hello := sample_env\<lparr>he_verify := \<lambda>_ _ _. True\<rparr>\<rparr>"

definition join_frame :: "string \<Rightarrow> string \<Rightarrow> string \<Rightarrow> runtime_frame" where
  "join_frame key rid name = \<lparr>correlation_id = '''', frame_type = FT_HELLO, deadline_unix_ms = 0,
     payload = P_Hello (sample_hello\<lparr>h_key_id := b64_encode key, h_runtime_id := rid, h_name := name, h_source := ''hosted''\<rparr>)\<rparr>"

definition first_join :: "channel_service \<times> (auth_runtime \<times> string \<times> go_time) result" where
  "first_join = authenticateFirstFrame (join_env ''t1'') (join_frame ''r'' ''rt-61'' ''bot-a'') None (new_service hosted_db [])"

definition second_join :: "channel_service \<times> (auth_runtime \<times> string \<times> go_time) result" where
  "second_join = authenticateFirstFrame (join_env ''t2'') (join_frame ''s'' ''rt-62'' ''bot-b'') None (fst first_join)"

lemma first_joins: "is_ok (snd first_join)"
  by code_simp

lemma second_joins: "case second_join of (sv, r) \<Rightarrow> is_ok r \<and> list_all (\<lambda>r. RtStatus r = RuntimeStatusActive) (rt_rows (sv_db sv))"
  by code_simp

lemma joins: "is_ok (snd first_join)" "is_ok (snd second_join)" "list_all (\<lambda>r. RtStatus r = RuntimeStatusActive) (rt_rows (sv_db (fst second_join)))"
  using first_joins second_joins by (simp_all add: split_beta)

lemma hosted_joined:
  "pp_credential_key_id p = b64_encode ''r'' \<Longrightarrow> pp_runtime_id p = ''rt-61'' \<Longrightarrow> joined p hosted_db (sv_db (fst second_join))"
  "pp_credential_key_id p = b64_encode ''s'' \<Longrightarrow> pp_runtime_id p = ''rt-62'' \<Longrightarrow> joined p hosted_db (sv_db (fst second_join))"
proof -
  obtain rt1 t1 e1 where j1: "first_join = (fst first_join, Inr (rt1, t1, e1))" using joins(1) by (metis is_ok_iff prod.collapse)
  obtain rt2 t2 e2 where j2: "second_join = (fst second_join, Inr (rt2, t2, e2))" using joins(2) by (metis is_ok_iff prod.collapse)
  have j1': "authenticateFirstFrame (join_env ''t1'') (join_frame ''r'' ''rt-61'' ''bot-a'') None (new_service hosted_db []) = (fst first_join, Inr (rt1, t1, e1))"
    using j1 by (simp only: first_join_def [symmetric])
  have j2': "authenticateFirstFrame (join_env ''t2'') (join_frame ''s'' ''rt-62'' ''bot-b'') None (fst first_join) = (fst second_join, Inr (rt2, t2, e2))"
    using j2 by (simp only: second_join_def [symmetric])
  have steps: "runtime_step\<^sup>*\<^sup>* (sv_db (fst first_join)) (sv_db (fst second_join))" "runtime_step\<^sup>*\<^sup>* hosted_db (sv_db (fst first_join))"
    using evolves_authenticate [of "fst first_join" "join_env ''t2''" "join_frame ''s'' ''rt-62'' ''bot-b''" None]
      evolves_authenticate [of "new_service hosted_db []" "join_env ''t1''" "join_frame ''r'' ''rt-61'' ''bot-a''" None]
    by (simp_all add: second_join_def first_join_def evolves_def new_service_def)
  let ?h = "\<lambda>key rid name. sample_hello\<lparr>h_key_id := b64_encode key, h_runtime_id := rid, h_name := name, h_source := ''hosted''\<rparr>"
  have j: "joined p hosted_db (sv_db (fst second_join))"
    if "runtime_step\<^sup>*\<^sup>* hosted_db (sv_db sv)" "authenticateFirstFrame env (join_frame key rid name) None sv = (sv', Inr (rt, t, e))"
      "runtime_step\<^sup>*\<^sup>* (sv_db sv') (sv_db (fst second_join))" "pp_credential_key_id p = b64_encode key" "pp_runtime_id p = rid" for sv env key rid name sv' rt t e
    unfolding joined_def
    by (rule exI [of _ env], rule exI [of _ "?h key rid name"], rule exI [of _ None], rule exI [of _ sv], rule exI [of _ sv'], rule exI [of _ rt],
      rule exI [of _ t], rule exI [of _ e], rule exI [of _ "join_frame key rid name"]) (use that in \<open>simp add: join_frame_def\<close>)
  show "pp_credential_key_id p = b64_encode ''r'' \<Longrightarrow> pp_runtime_id p = ''rt-61'' \<Longrightarrow> joined p hosted_db (sv_db (fst second_join))"
    by (rule j [OF _ j1' steps(1)]) (simp_all add: new_service_def)
  show "pp_credential_key_id p = b64_encode ''s'' \<Longrightarrow> pp_runtime_id p = ''rt-62'' \<Longrightarrow> joined p hosted_db (sv_db (fst second_join))"
    by (rule j [OF steps(2) j2']) simp_all
qed

lemma first_start_value: "\<exists>p. ensure_begin (start_env ''a'' ''r'') 7 ''bot-a'' '''' idle_service = (first_start, Waiting ''rt-61'' ''c-rt-61'') \<and>
    rv_db first_start = empty_runtime_db\<lparr>rt_creds := [hosted_credential ''r'' ''bot-a'']\<rparr> \<and> rv_calls first_start = [Provision p] \<and>
    pp_credential_key_id p = b64_encode ''r'' \<and> pp_runtime_id p = ''rt-61''"
proof -
  have g: "GenerateRuntimeID ''a'' = ''rt-61''" "trim_space ''rt-61'' = ''rt-61''" "b64_encode ''r'' \<noteq> ''''" "validRuntimeName ''bot-a''" by code_simp+
  have "ensure_checks (start_env ''a'' ''r'') 7 ''bot-a'' '''' (rv_db idle_service) = Inr (Start ''bot-a'' ''small'' \<lparr>rp_nano_cpus = ''0.5'', rp_memory_mb = 512, rp_pids_limit = 0\<rparr>)"
    by code_simp
  from starts [OF this g(4) _ _ _ _ g(3)] g(1,2) show ?thesis
    by (auto simp: first_start_def idle_service_def new_service_def empty_runtime_db_def credentials_unique_def keys_ok_def)
qed


definition after_end :: runtime_service where "after_end = fst (EndRuntime_service (sample_renv ''a'') 7 ''rt1'' None busy_service)"

theorem end_runtime_guarded_witness:
  "FindByRuntimeID (sv_registry (rv_chan after_end)) 7 ''rt1'' = None \<and>
   (\<exists>r'. row RuntimeID (rt_rows (rv_db after_end)) ''rt1'' = Some r' \<and> RtStatus r' = RuntimeStatusCancelled \<and> EndedReason r' = ReasonUserCancelled)"
proof -
  have "case snd (EndRuntime_service (sample_renv ''a'') 7 ''rt1'' None busy_service) of Inl _ \<Rightarrow> False | Inr rt \<Rightarrow> Source rt = SourceSelfHosted \<and> live rt"
    by code_simp
  then obtain rt where rt: "EndRuntime_service (sample_renv ''a'') 7 ''rt1'' None busy_service = (after_end, Inr rt)" "Source rt = SourceSelfHosted" "live rt"
    by (auto simp: after_end_def prod_eq_iff split: sum.splits)
  have ok: "runtimes_ok (rv_db busy_service)" "registry_inv (sv_registry (rv_chan busy_service))"
    using channel_first_ok(1) by (simp_all add: busy_service_def service_inv_def)
  have "re_stream_closer (sample_renv ''a'')" by (simp add: sample_renv_def)
  then show ?thesis using end_runtime_guarded [OF ok rt(1)] rt(2,3) by auto
qed

definition bare_result :: "runtime_service \<times> (service_error + bare_certificate)" where
  "bare_result = BootstrapBareRuntimeCertificate (sample_renv ''a'') 7 ''dev'' '''' ''dev'' ''127.0.0.1'' idle_service"

theorem bare_certificate_once_witness:
  "\<exists>t. snd bare_result = Inr t \<and> bt_runtime_id t = ''dev'' \<and>
     (\<forall>t'. snd (BootstrapBareRuntimeCertificate (sample_renv ''b'') 8 '' dev '' '''' ''dev'' ''127.0.0.1'' (fst bare_result)) \<noteq> Inr t')"
proof -
  have t: "trim_space ''dev'' = ''dev''" "trim_space '' dev '' = ''dev''" "trim_space SourceBare \<noteq> ''''" "trim_space RoleExecutor \<noteq> ''''"
    "trim_space '''' = ''''" "trim_space ''127.0.0.1'' = ''127.0.0.1''" "validRuntimeName ''bare-dev''" by code_simp+
  have d: "(0::int) < 8 * hour" by (simp add: duration_defs)
  have "is_ok (snd bare_result)"
    using d t by (simp add: bare_result_def BootstrapBareRuntimeCertificate_def sample_renv_def idle_service_def Let_def ipAllowed_def SignRuntimeClientCertificate_def sure_lib_def
        on_db_def with_db_def new_service_def empty_runtime_db_def CreateRuntimeCredential_def bare_credential_def write_creds_def report_write_def
        credentials_unique_def keys_ok_def credential_row_ok_def)
  then obtain t where b: "BootstrapBareRuntimeCertificate (sample_renv ''a'') 7 ''dev'' '''' ''dev'' ''127.0.0.1'' idle_service = (fst bare_result, Inr t)"
    by (auto simp: is_ok_iff bare_result_def prod_eq_iff)
  have ok: "creds_ok (rv_db idle_service)" using empty_runtime_ok(2) by (simp add: idle_service_def new_service_def)
  have same: "trim_space '' dev '' = trim_space ''dev''" using t(1,2) by simp
  have "snd (BootstrapBareRuntimeCertificate (sample_renv ''b'') 8 '' dev '' '''' ''dev'' ''127.0.0.1'' (fst bare_result)) \<noteq> Inr t'" for t'
    using bare_certificate_once [OF b ok rtranclp.rtrancl_refl same, of "sample_renv ''b''" 8 "''''" "''dev''" "''127.0.0.1''" t'] by blast
  moreover have "bt_runtime_id t = ''dev''"
    using bare_certificate_once [OF b ok rtranclp.rtrancl_refl same, of "sample_renv ''b''" 8 "''''" "''dev''" "''127.0.0.1''"] t(1) by simp
  moreover have "snd bare_result = Inr t" using b unfolding bare_result_def by (metis snd_conv)
  ultimately show ?thesis by blast
qed

end
