(* ===== verification/PlatformPayload.thy ===== *)
theory PlatformPayload
  imports KlineValidation LiveDelivery
begin

text \<open>
  The payloads of the platform requests of \<open>internal/runtimechannel/platform_proxy.go\<close>: the values a
  \<open>structpb.Struct\<close> or \<open>json.Marshal\<close> carries, the passage of integers through
  \<open>float64\<close>, and the routines that read requests out of such values and write rows into them.
  The two libraries are a parameter (\<open>codec\<close>): what unmarshalling an \<open>Any\<close> answers, the text
  \<open>encoding/json\<close> makes of a value, and whether \<open>structpb\<close> takes a string.
\<close>

section \<open>Numbers as float64\<close>

text \<open>\<open>int64(x)\<close> of a \<open>float64\<close> given by its bits: the fraction is cut off; a value that is out of
  range or no number is the least integer, as on amd64.\<close>

definition int64_of_float :: "64 word \<Rightarrow> int" where
  "int64_of_float w =
     (let n = unat w; ex = n div 2 ^ 52 mod 2048; frac = n mod 2 ^ 52;
          m = (if ex = 0 then frac else 2 ^ 52 + frac);
          mag = (if ex \<le> 1075 then m div 2 ^ (1075 - max ex 1) else m * 2 ^ (ex - 1075));
          v = (if 2 ^ 63 \<le> n then - int mag else int mag)
      in if ex = 2047 \<or> \<not> in64 v then - (2 ^ 63) else v)"

fun bit_len :: "nat \<Rightarrow> nat" where
  "bit_len n = (if n = 0 then 0 else Suc (bit_len (n div 2)))"

declare bit_len.simps [simp del]

text \<open>\<open>float64(i)\<close>: rounded to the nearest, ties to even.\<close>

definition round_even :: "nat \<Rightarrow> nat \<Rightarrow> nat" where
  "round_even a s = (let q = a div 2 ^ s; r = 2 * (a mod 2 ^ s) in if 2 ^ s < r \<or> (r = 2 ^ s \<and> odd q) then q + 1 else q)"

definition float_of_int :: "int \<Rightarrow> 64 word" where
  "float_of_int i =
     (if i = 0 then 0
      else let a = nat \<bar>i\<bar>; k = bit_len a;
               m = (if k \<le> 53 then a * 2 ^ (53 - k) else round_even a (k - 53))
           in of_nat ((if i < 0 then 2 ^ 63 else 0) + (k + 1022) * 2 ^ 52 + (m - 2 ^ 52)))"

lemma bit_len_bounds: "0 < n \<Longrightarrow> 2 ^ (bit_len n - 1) \<le> n \<and> n < 2 ^ bit_len n"
proof (induction n rule: bit_len.induct)
  case (1 n)
  show ?case
  proof (cases "n div 2 = 0")
    case True
    then have "n = 1" using 1(2) by auto
    then show ?thesis by (simp add: bit_len.simps)
  next
    case False
    then have IH: "2 ^ (bit_len (n div 2) - 1) \<le> n div 2" "n div 2 < 2 ^ bit_len (n div 2)" using 1 by auto
    have k: "0 < bit_len (n div 2)" using False by (subst bit_len.simps) simp
    then obtain j where j: "bit_len (n div 2) = Suc j" by (cases "bit_len (n div 2)") auto
    have e: "bit_len n = Suc (Suc j)" using 1(2) j by (subst bit_len.simps) simp
    have "2 ^ j \<le> n div 2" "n div 2 < 2 * 2 ^ j" using IH j by simp_all
    then show ?thesis unfolding e by simp linarith
  qed
qed

text \<open>Integers below \<open>2 ^ 53\<close> in size (so every millisecond timestamp in use) survive the passage.\<close>

lemma int_float_roundtrip:
  assumes "\<bar>i\<bar> < 2 ^ 53"
  shows "int64_of_float (float_of_int i) = i"
proof (cases "i = 0")
  case True
  then show ?thesis by (simp add: float_of_int_def int64_of_float_def in64_def)
next
  case False
  define a where "a = nat \<bar>i\<bar>"
  define k where "k = bit_len a"
  define s :: nat where "s = (if i < 0 then 2 ^ 63 else 0)"
  have a: "0 < a" "a < 2 ^ 53" using False assms by (simp_all add: a_def nat_less_iff)
  have kb: "2 ^ (k - 1) \<le> a" "a < 2 ^ k" using bit_len_bounds a(1) by (simp_all add: k_def)
  have k0: "0 < k" using kb a by (cases k) auto
  have "(2::nat) ^ (k - 1) < 2 ^ 53" using kb(1) a(2) by (rule le_less_trans)
  then have k53: "k \<le> 53" by (simp only: power_strict_increasing_iff)
  define m where "m = a * 2 ^ (53 - k)"
  have "2 ^ (k - 1) * 2 ^ (53 - k) \<le> m" "m < 2 ^ k * 2 ^ (53 - k)"
    using kb by (simp_all add: m_def)
  moreover have "(2::nat) ^ (k - 1) * 2 ^ (53 - k) = 2 ^ 52" "(2::nat) ^ k * 2 ^ (53 - k) = 2 ^ 53"
    unfolding power_add [symmetric] using k0 k53 by simp_all
  ultimately have m: "2 ^ 52 \<le> m" "m < 2 ^ 53" by simp_all
  define N where "N = s + (k + 1022) * 2 ^ 52 + (m - 2 ^ 52)"
  have w: "float_of_int i = of_nat N"
    using False k53 by (simp add: float_of_int_def Let_def N_def s_def m_def k_def a_def)
  have N: "N < 2 ^ 64" using m k53 by (simp add: N_def s_def)
  have u: "unat (of_nat N :: 64 word) = N" using N by (simp add: unat_of_nat take_bit_nat_eq_self_iff)
  have "s div 2 ^ 52 = (if i < 0 then 2048 else 0)" "s mod 2 ^ 52 = 0" by (simp_all add: s_def)
  then have sd: "s = (if i < 0 then 2048 else 0) * 2 ^ 52" by (simp add: s_def)
  have Ne: "N = ((if i < 0 then 2048 else 0) + k + 1022) * 2 ^ 52 + (m - 2 ^ 52)"
    unfolding N_def sd by (simp add: algebra_simps)
  have r: "m - 2 ^ 52 < 2 ^ 52" using m by simp
  have d: "N div 2 ^ 52 = (if i < 0 then 2048 else 0) + k + 1022" unfolding Ne using r by (subst div_mult_self3) simp_all
  have f: "N mod 2 ^ 52 = m - 2 ^ 52" unfolding Ne using r by (subst mod_mult_self3) simp
  have "(2048 + (k + 1022)) mod 2048 = (k + 1022) mod 2048" by (rule mod_add_self1)
  moreover have "(k + 1022) mod 2048 = k + 1022" using k53 by simp
  ultimately have ex: "N div 2 ^ 52 mod 2048 = k + 1022" unfolding d by (simp only: add.assoc add_0 simp_thms split: if_split)
  have neg: "2 ^ 63 \<le> N \<longleftrightarrow> i < 0" using m k53 by (auto simp: N_def s_def)
  have mag: "m div 2 ^ (1075 - (k + 1022)) = a" by (simp add: m_def)
  have "(if i < 0 then - int a else int a) = i" by (simp add: a_def)
  moreover have "in64 i" using assms unfolding in64_def by (simp add: abs_less_iff)
  ultimately show ?thesis
    unfolding w int64_of_float_def u Let_def ex f neg using m k53 mag by (cases "i < 0") (simp_all add: max_def)
qed

section \<open>Values\<close>

text \<open>What \<open>structpb\<close> and \<open>map[string]any\<close> hold; \<open>AInt\<close> is a Go \<open>int64\<close>, which only
  \<open>encoding/json\<close> sees.\<close>

datatype any_value =
    ANull
  | ABool bool
  | ANum "64 word"
  | AInt int
  | AStr string
  | AList "any_value list"
  | AObj "(string \<times> any_value) list"

type_synonym fields = "(string, any_value) gomap"

fun strings_of :: "any_value \<Rightarrow> string list" where
  "strings_of (AStr s) = [s]"
| "strings_of (AList vs) = concat (map strings_of vs)"
| "strings_of (AObj kvs) = concat (map (\<lambda>(k, v). k # strings_of v) kvs)"
| "strings_of _ = []"

record codec =
  co_struct :: "any_msg \<Rightarrow> string + fields"
  co_json :: "any_value \<Rightarrow> string option"
  co_utf8 :: "string \<Rightarrow> bool"
  co_interface :: "any_value \<Rightarrow> any_value"

definition stringField :: "fields \<Rightarrow> string \<Rightarrow> string" where
  "stringField fs name = (case gm_get fs name of Some (AStr s) \<Rightarrow> s | _ \<Rightarrow> '''')"

definition numberField :: "fields \<Rightarrow> string \<Rightarrow> 64 word" where
  "numberField fs name = (case gm_get fs name of Some (ANum w) \<Rightarrow> w | _ \<Rightarrow> 0)"

definition int_field :: "fields \<Rightarrow> string \<Rightarrow> int" where
  "int_field fs name = int64_of_float (numberField fs name)"

text \<open>\<open>structpb.NewStruct\<close> refuses strings that are not UTF-8.\<close>
definition new_struct :: "codec \<Rightarrow> fields \<Rightarrow> fields result" where
  "new_struct co fs = (if list_all (co_utf8 co) (strings_of (AObj fs)) then Inr fs else Inl (Plain ''invalid UTF-8 in string''))"

section \<open>Method names\<close>

definition trim_prefix :: "string \<Rightarrow> string \<Rightarrow> string" where
  "trim_prefix s p = (if has_prefix s p then drop (length p) s else s)"

text \<open>The cases of the switch, in its order: the spellings and the name they stand for.\<close>
definition method_aliases :: "(string list \<times> string) list" where
  "method_aliases =
    [([''GetPortfolioSnapshot'', ''portfolio.v1.PortfolioService/GetPortfolioSnapshot''], ''portfolio.GetPortfolioSnapshot''),
     ([''UpdatePortfolioSnapshot'', ''portfolio.v1.PortfolioService/UpdatePortfolioSnapshot''], ''portfolio.UpdatePortfolioSnapshot''),
     ([''UpdatePortfolioWalletState'', ''portfolio.v1.PortfolioService/UpdatePortfolioWalletState''], ''portfolio.UpdatePortfolioWalletState''),
     ([''GetSession'', ''portfolio.v1.PortfolioService/GetSession''], ''portfolio.GetSession''),
     ([''ListSessions'', ''portfolio.v1.PortfolioService/ListSessions''], ''portfolio.ListSessions''),
     ([''PreflightStrategySession'', ''portfolio.v1.PortfolioService/PreflightStrategySession''], ''portfolio.PreflightStrategySession''),
     ([''GetActiveStrategy'', ''portfolio.v1.PortfolioService/GetActiveStrategy''], ''portfolio.GetActiveStrategy''),
     ([''SaveSession'', ''portfolio.v1.PortfolioService/SaveSession''], ''portfolio.SaveSession''),
     ([''UpdateSession'', ''portfolio.v1.PortfolioService/UpdateSession''], ''portfolio.UpdateSession''),
     ([''SaveStrategyIndicators'', ''portfolio.v1.PortfolioService/SaveStrategyIndicators''], ''portfolio.SaveStrategyIndicators''),
     ([''PlaceOrder'', ''order.v1.OrderService/PlaceOrder''], ''order.PlaceOrder''),
     ([''ResolveOrderAttempt'', ''order.v1.OrderService/ResolveOrderAttempt''], ''order.ResolveOrderAttempt''),
     ([''GetMarketDataStreamStatus'', ''marketdata.v1.MarketDataControlPlaneService/GetMarketDataStreamStatus'',
       ''controlpanel.marketdata.v1.MarketDataControlPlaneService/GetMarketDataStreamStatus''], ''marketdata.GetMarketDataStreamStatus''),
     ([''FetchKlines''], ''marketdata.FetchKlines''),
     ([''FetchBacktestPage'', ''marketdata.FetchBacktestPage''], ''marketdata.FetchBacktestPage''),
     ([''DeliverDataset'', ''marketdata.DeliverDataset''], ''marketdata.DeliverDataset''),
     ([''CreateOrRenewMarketDataLease'', ''marketdata.v1.MarketDataControlPlaneService/CreateOrRenewMarketDataLease'',
       ''controlpanel.marketdata.v1.MarketDataControlPlaneService/CreateOrRenewMarketDataLease''], ''marketdata.CreateOrRenewMarketDataLease''),
     ([''ReleaseMarketDataLease'', ''marketdata.v1.MarketDataControlPlaneService/ReleaseMarketDataLease'',
       ''controlpanel.marketdata.v1.MarketDataControlPlaneService/ReleaseMarketDataLease''], ''marketdata.ReleaseMarketDataLease''),
     ([''CreateSessionMarketDataSubscriptions'', ''marketdata.v1.MarketDataControlPlaneService/CreateSessionMarketDataSubscriptions'',
       ''controlpanel.marketdata.v1.MarketDataControlPlaneService/CreateSessionMarketDataSubscriptions''], ''marketdata.CreateSessionMarketDataSubscriptions''),
     ([''ReleaseSessionMarketDataSubscriptions'', ''marketdata.v1.MarketDataControlPlaneService/ReleaseSessionMarketDataSubscriptions'',
       ''controlpanel.marketdata.v1.MarketDataControlPlaneService/ReleaseSessionMarketDataSubscriptions''], ''marketdata.ReleaseSessionMarketDataSubscriptions''),
     ([''EmitLog'', ''logs.Emit''], ''logs.Emit''),
     ([''PublishNotification'', ''notification.Publish''], ''notification.Publish''),
     ([''StartDebugReplay'', ''debug.StartDebugReplay''], ''debug.StartDebugReplay'')]"

definition canonicalPlatformMethod :: "string \<Rightarrow> string" where
  "canonicalPlatformMethod method0 =
     (let method = trim_prefix (trim_space method0) ''/'' in
      case find (\<lambda>(names, _). method \<in> set names) method_aliases of Some (_, name) \<Rightarrow> name | None \<Rightarrow> method)"

section \<open>Reading requests\<close>

definition unpack_struct :: "codec \<Rightarrow> any_msg option \<Rightarrow> fields result" where
  "unpack_struct co msg = (case msg of
     None \<Rightarrow> Inl (Status InvalidArgument ''runtime platform request payload is required'')
   | Some m \<Rightarrow> (case co_struct co m of
         Inl e \<Rightarrow> Inl (Status InvalidArgument (''unpack runtime platform request: '' @ e))
       | Inr fs \<Rightarrow> Inr fs))"

definition unpackKlineQueryPayload :: "codec \<Rightarrow> any_msg option \<Rightarrow> kline_query result" where
  "unpackKlineQueryPayload co msg = bind_res (unpack_struct co msg) (\<lambda>fs. Inr
     \<lparr>kq_exchange = stringField fs ''exchange'', kq_market = stringField fs ''market'', kq_symbol = stringField fs ''symbol'',
      kq_interval = stringField fs ''interval'', kq_start = int_field fs ''start_time_ms'', kq_end = int_field fs ''end_time_ms'',
      kq_limit = int_field fs ''limit''\<rparr>)"

definition backtestPageSize :: int where "backtestPageSize = 8192"

definition lowered :: "fields \<Rightarrow> string \<Rightarrow> string" where
  "lowered fs name = to_lower (trim_space (stringField fs name))"

definition binance_if_empty :: "string \<Rightarrow> string" where
  "binance_if_empty x = (if x = '''' then ''binance'' else x)"

definition unpackBacktestPagePayload :: "codec \<Rightarrow> any_msg option \<Rightarrow> kline_query result" where
  "unpackBacktestPagePayload co msg = bind_res (unpack_struct co msg) (\<lambda>fs.
     (let interval = lowered fs ''interval'' in
      case intervalStepMS interval of
        Inl e \<Rightarrow> Inl (Status InvalidArgument (''backtest page interval: '' @ err_text e))
      | Inr step \<Rightarrow>
          (let startMS = int_field fs ''start_after_time_ms'' in
           Inr \<lparr>kq_exchange = binance_if_empty (lowered fs ''exchange''), kq_market = lowered fs ''market'',
                kq_symbol = to_upper (trim_space (stringField fs ''symbol'')), kq_interval = interval,
                kq_start = (if 0 < startMS then wrap64 (startMS + step) else startMS),
                kq_end = int_field fs ''end_time_ms'', kq_limit = backtestPageSize\<rparr>)))"

record dataset_request =
  dr_session :: string
  dr_runtime :: string
  dr_start :: int
  dr_end :: int
  dr_chunk :: int
  dr_streams :: "kline_query list"

definition dataset_stream :: "any_value \<Rightarrow> kline_query result" where
  "dataset_stream v = (case v of
     AObj fs \<Rightarrow>
       (let k0 = lowered fs ''kind''; kind = (if k0 = '''' then ''kline'' else k0) in
        if kind \<noteq> ''kline'' then Inl (Status InvalidArgument (''unsupported dataset stream kind '' @ dquote @ kind @ dquote))
        else Inr \<lparr>kq_exchange = binance_if_empty (lowered fs ''exchange''), kq_market = lowered fs ''market'',
               kq_symbol = to_upper (trim_space (stringField fs ''symbol'')), kq_interval = lowered fs ''interval'',
               kq_start = 0, kq_end = 0, kq_limit = 0\<rparr>)
   | _ \<Rightarrow> Inl (Status InvalidArgument ''stream entry must be an object''))"

fun dataset_streams :: "any_value list \<Rightarrow> kline_query list result" where
  "dataset_streams [] = Inr []"
| "dataset_streams (v # vs) = bind_res (dataset_stream v) (\<lambda>q. bind_res (dataset_streams vs) (\<lambda>qs. Inr (q # qs)))"

definition clamp_chunk :: "int \<Rightarrow> int" where
  "clamp_chunk n0 = (let n = (if n0 \<le> 0 then defaultKlineFetchLimit else n0) in if maxKlineFetchLimit < n then maxKlineFetchLimit else n)"

definition unpackDatasetDeliveryPayload :: "codec \<Rightarrow> any_msg option \<Rightarrow> dataset_request result" where
  "unpackDatasetDeliveryPayload co msg = bind_res (unpack_struct co msg) (\<lambda>fs.
     (let session = trim_space (stringField fs ''session_id''); s = int_field fs ''start_time_ms''; e = int_field fs ''end_time_ms'' in
      if session = '''' then Inl (Status InvalidArgument ''session_id is required'')
      else if s \<le> 0 \<or> e \<le> 0 \<or> e \<le> s then Inl (Status InvalidArgument ''invalid dataset time range'')
      else case gm_get fs ''streams'' of
          Some (AList (v # vs)) \<Rightarrow> bind_res (dataset_streams (v # vs)) (\<lambda>qs. Inr
            \<lparr>dr_session = session, dr_runtime = trim_space (stringField fs ''runtime_id''), dr_start = s, dr_end = e,
             dr_chunk = clamp_chunk (int_field fs ''chunk_size''), dr_streams = qs\<rparr>)
        | _ \<Rightarrow> Inl (Status InvalidArgument ''streams are required'')))"

section \<open>Writing rows\<close>

text \<open>A row with its times either as integers (JSON) or as \<open>float64\<close> (\<open>structpb\<close>).\<close>
definition row_fields :: "(int \<Rightarrow> any_value) \<Rightarrow> kline_row \<Rightarrow> fields" where
  "row_fields time row =
     [(''exchange'', AStr (kr_exchange row)), (''market'', AStr (kr_market row)), (''symbol'', AStr (kr_symbol row)),
      (''interval'', AStr (kr_interval row)), (''open_time'', time (kr_open_time row)), (''close_time'', time (kr_close_time row)),
      (''timestamp'', time (kr_timestamp row)), (''open'', ANum (kr_open row)), (''high'', ANum (kr_high row)),
      (''low'', ANum (kr_low row)), (''close'', ANum (kr_close row)), (''volume'', ANum (kr_volume row))]"

definition klineRowsToDatasetPayload :: "codec \<Rightarrow> kline_row list \<Rightarrow> string result" where
  "klineRowsToDatasetPayload co rows =
     (case co_json co (AObj [(''klines'', AList (map (\<lambda>r. AObj (row_fields AInt r)) rows))]) of
        None \<Rightarrow> Inl (Plain ''json: unsupported value'')
      | Some text \<Rightarrow> Inr text)"

definition datasetIDForKlineStream :: "kline_query \<Rightarrow> string" where
  "datasetIDForKlineStream q = join ''/''
     [to_lower (binance_if_empty (kq_exchange q)), to_lower (kq_market q), ''kline'', to_upper (kq_symbol q), to_lower (kq_interval q)]"

definition float_time :: "int \<Rightarrow> any_value" where "float_time t = ANum (float_of_int t)"

fun struct_rows :: "codec \<Rightarrow> kline_row list \<Rightarrow> any_value list result" where
  "struct_rows co [] = Inr []"
| "struct_rows co (r # rs) = (case new_struct co (row_fields float_time r) of
     Inl e \<Rightarrow> Inl (Status Internal (''encode kline row: '' @ err_text e))
   | Inr st \<Rightarrow> bind_res (struct_rows co rs) (\<lambda>vs. Inr (AObj st # vs)))"

definition klineRowsToStruct :: "codec \<Rightarrow> kline_row list \<Rightarrow> fields result" where
  "klineRowsToStruct co rows = bind_res (struct_rows co rows) (\<lambda>values.
     new_struct co [(''klines'', co_interface co (AList values)), (''count'', ANum (float_of_int (int (length rows))))])"

definition klineRowsToBacktestPageStruct :: "codec \<Rightarrow> kline_query \<Rightarrow> kline_row list \<Rightarrow> fields result" where
  "klineRowsToBacktestPageStruct co req rows = bind_res (klineRowsToStruct co rows) (\<lambda>page.
     Inr (gm_set ''limit'' (ANum (float_of_int backtestPageSize))
         (gm_set ''has_more'' (ABool (int (length rows) = backtestPageSize))
         (gm_set ''next_cursor_time_ms'' (ANum (float_of_int (if rows = [] then 0 else kr_open_time (last rows))))
         (gm_set ''stream_key'' (AStr (datasetIDForKlineStream req)) page)))))"

end
