(* ===== verification/PlatformProxy.thy ===== *)
theory PlatformProxy
  imports PlatformPayload Notification
begin

text \<open>
  \<open>internal/runtimechannel/platform_proxy.go\<close>: what the control panel does for a runtime that asks, over its
  stream, for a service of the platform. The services behind the interfaces (core, order and market-data services,
  bar query, dataset deliverer, replay starter, publisher) are a parameter (\<open>platform_env\<close>): each answers as a
  function of everything done before. A dispatch extends the sequence of effects (calls and their answers, chunks, log
  lines, events); \<open>None\<close> is a dispatch that does not return.
\<close>

section \<open>Calls and effects\<close>

datatype rpc =
    Rpc_GetSession | Rpc_ListSessions | Rpc_GetPortfolioSnapshot | Rpc_UpdatePortfolioWalletState | Rpc_PreflightStrategySession
  | Rpc_GetActiveStrategy | Rpc_SaveSession | Rpc_UpdateSession | Rpc_SaveStrategyIndicators | Rpc_PlaceOrder | Rpc_ResolveOrderAttempt
  | Rpc_GetMarketDataStreamStatus | Rpc_CreateOrRenewMarketDataLease | Rpc_ReleaseMarketDataLease
  | Rpc_CreateSessionMarketDataSubscriptions | Rpc_ReleaseSessionMarketDataSubscriptions | Rpc_StartDebugReplay

text \<open>The fields of the request messages that the proxy reads or writes; a message that lacks one has it empty.\<close>

record rpc_request =
  rr_user :: int
  rr_runtime :: string
  rr_portfolio :: int
  rr_session :: string
  rr_snapshot_reason :: int
  rr_runtime_source :: string
  rr_runtime_name :: string
  rr_requested_name :: string
  rr_rest :: string

record core_session =
  ps_user :: int
  ps_runtime :: string
  ps_status :: string
  ps_rest :: string

record dataset_proto =
  dp_dataset_id :: string
  dp_user_id :: int
  dp_portfolio_id :: int
  dp_runtime_id :: string
  dp_market :: string
  dp_symbol :: string
  dp_interval :: string
  dp_start_ms :: int
  dp_end_ms :: int
  dp_bar_count :: int
  dp_coverage_status :: string
  dp_loaded_ms :: int
  dp_state :: string
  dp_last_error :: string

datatype log_level = LogDebug | LogInfo | LogWarn | LogError

text \<open>\<open>E_Portfolio\<close> and \<open>E_Session\<close> carry the answer: the owner of the portfolio, the session.\<close>

datatype effect =
    E_Portfolio int int "(int option) result"
  | E_Session rpc_request "(core_session option) result"
  | E_Call rpc rpc_request
  | E_Fetch kline_query
  | E_Chunk dataset_delivery
  | E_Log log_level string string
  | E_Notify notification
  | E_Replay int string string

datatype message =
    M_Message any_msg
  | M_Session "core_session option"
  | M_Struct fields
  | M_Replay string string dataset_proto

type_synonym trace = "effect list"
type_synonym rpc_client = "trace \<Rightarrow> rpc \<Rightarrow> rpc_request \<Rightarrow> any_msg result"

record portfolio_client =
  pc_portfolio :: "trace \<Rightarrow> int \<Rightarrow> int \<Rightarrow> (int option) result"
  pc_session :: "trace \<Rightarrow> rpc_request \<Rightarrow> (core_session option) result"
  pc_call :: rpc_client

record platform_env =
  pe_codec :: codec
  pe_unmarshal :: "rpc \<Rightarrow> any_msg \<Rightarrow> string + rpc_request"
  pe_portfolio :: "portfolio_client option"
  pe_order :: "rpc_client option"
  pe_market :: "rpc_client option"
  pe_klines :: "(trace \<Rightarrow> kline_query \<Rightarrow> kline_row list result) option"
  pe_deliver :: "(trace \<Rightarrow> dataset_delivery \<Rightarrow> go_error option) option"
  pe_replay :: "(trace \<Rightarrow> int \<Rightarrow> string \<Rightarrow> string \<Rightarrow> (string \<times> string \<times> debug_dataset) result) option"
  pe_publish :: "(trace \<Rightarrow> notification \<Rightarrow> go_error option) option"

section \<open>Clients that are not configured\<close>

definition unavailablePortfolioClient :: portfolio_client where
  "unavailablePortfolioClient = (let e = Status Unavailable ''core-service platform client is not configured'' in
     \<lparr>pc_portfolio = (\<lambda>_ _ _. Inl e), pc_session = (\<lambda>_ _. Inl e), pc_call = (\<lambda>_ _ _. Inl e)\<rparr>)"

definition unavailableOrderClient :: rpc_client where
  "unavailableOrderClient = (\<lambda>_ _ _. Inl (Status Unavailable ''order-service platform client is not configured''))"

definition unavailableMarketDataClient :: rpc_client where
  "unavailableMarketDataClient = (\<lambda>_ _ _. Inl (Status Unavailable ''market-data platform client is not configured''))"

definition unavailableDebugReplayStarter :: "trace \<Rightarrow> int \<Rightarrow> string \<Rightarrow> string \<Rightarrow> (string \<times> string \<times> debug_dataset) result" where
  "unavailableDebugReplayStarter = (\<lambda>_ _ _ _. Inl (Status Unavailable ''debug replay starter is not configured''))"

definition requirePortfolio :: "platform_env \<Rightarrow> portfolio_client" where
  "requirePortfolio env = (case pe_portfolio env of None \<Rightarrow> unavailablePortfolioClient | Some c \<Rightarrow> c)"

definition requireOrder :: "platform_env \<Rightarrow> rpc_client" where
  "requireOrder env = (case pe_order env of None \<Rightarrow> unavailableOrderClient | Some c \<Rightarrow> c)"

definition requireMarketData :: "platform_env \<Rightarrow> rpc_client" where
  "requireMarketData env = (case pe_market env of None \<Rightarrow> unavailableMarketDataClient | Some c \<Rightarrow> c)"

definition requireDebugReplayStarter :: "platform_env \<Rightarrow> trace \<Rightarrow> int \<Rightarrow> string \<Rightarrow> string \<Rightarrow> (string \<times> string \<times> debug_dataset) result" where
  "requireDebugReplayStarter env = (case pe_replay env of None \<Rightarrow> unavailableDebugReplayStarter | Some c \<Rightarrow> c)"

text \<open>The no-op publisher takes every event.\<close>
definition requireNotificationPublisher :: "platform_env \<Rightarrow> trace \<Rightarrow> notification \<Rightarrow> go_error option" where
  "requireNotificationPublisher env = (case pe_publish env of None \<Rightarrow> (\<lambda>_ _. None) | Some c \<Rightarrow> c)"

section \<open>Steps\<close>

type_synonym 'a proxied = "trace \<Rightarrow> (trace \<times> 'a result) option"

definition ret :: "'a \<Rightarrow> 'a proxied" where "ret x h = Some (h, Inr x)"
definition fail :: "go_error \<Rightarrow> 'a proxied" where "fail e h = Some (h, Inl e)"
definition of_result :: "'a result \<Rightarrow> 'a proxied" where "of_result r h = Some (h, r)"

definition and_then :: "'a proxied \<Rightarrow> ('a \<Rightarrow> 'b proxied) \<Rightarrow> 'b proxied" where
  "and_then m f h = (case m h of
     None \<Rightarrow> None
   | Some (h', Inl e) \<Rightarrow> Some (h', Inl e)
   | Some (h', Inr x) \<Rightarrow> f x h')"

definition refuse :: "bool \<Rightarrow> code \<Rightarrow> string \<Rightarrow> 'a proxied \<Rightarrow> 'a proxied" where
  "refuse c k m next = (if c then fail (Status k m) else next)"

definition call :: "rpc_client \<Rightarrow> rpc \<Rightarrow> rpc_request \<Rightarrow> message proxied" where
  "call client m rq h = Some (h @ [E_Call m rq], map_sum id M_Message (client h m rq))"

definition get_portfolio :: "platform_env \<Rightarrow> int \<Rightarrow> int \<Rightarrow> (int option) proxied" where
  "get_portfolio env pid user h =
     (let ans = pc_portfolio (requirePortfolio env) h pid user in Some (h @ [E_Portfolio pid user ans], ans))"

definition get_session :: "platform_env \<Rightarrow> rpc_request \<Rightarrow> (core_session option) proxied" where
  "get_session env rq h = (let ans = pc_session (requirePortfolio env) h rq in Some (h @ [E_Session rq ans], ans))"

definition unpackRuntimePayload :: "platform_env \<Rightarrow> rpc \<Rightarrow> any_msg option \<Rightarrow> rpc_request proxied" where
  "unpackRuntimePayload env m msg = (case msg of
     None \<Rightarrow> fail (Status InvalidArgument ''runtime platform request payload is required'')
   | Some a \<Rightarrow> (case pe_unmarshal env m a of
         Inl e \<Rightarrow> fail (Status InvalidArgument (''unpack runtime platform request: '' @ e))
       | Inr rq \<Rightarrow> ret rq))"

section \<open>Ownership\<close>

definition ensurePortfolioOwner :: "platform_env \<Rightarrow> auth_runtime \<Rightarrow> int \<Rightarrow> unit proxied" where
  "ensurePortfolioOwner env rt pid =
     refuse (pid \<le> 0) InvalidArgument ''portfolio_id is required''
      (and_then (get_portfolio env pid (ar_UserID rt)) (\<lambda>resp. case resp of
         None \<Rightarrow> fail (Status NotFound ''portfolio not found'')
       | Some owner \<Rightarrow> refuse (owner \<noteq> 0 \<and> owner \<noteq> ar_UserID rt) PermissionDenied
           ''portfolio does not belong to authenticated runtime user'' (ret ())))"

text \<open>The checks of \<open>portfolio.GetSession\<close> and \<open>ensureSessionOwner\<close> on the session the core service answers.\<close>
definition session_bound :: "auth_runtime \<Rightarrow> core_session option \<Rightarrow> go_error option" where
  "session_bound rt resp = (case resp of
     None \<Rightarrow> Some (Status NotFound ''session not found'')
   | Some s \<Rightarrow>
       if ps_user s \<noteq> 0 \<and> ps_user s \<noteq> ar_UserID rt then Some (Status PermissionDenied ''session does not belong to authenticated runtime user'')
       else if ps_runtime s = '''' then Some (Status FailedPrecondition ''session is not bound to a runtime'')
       else if ps_runtime s \<noteq> ar_RuntimeID rt then Some (Status PermissionDenied ''session does not belong to authenticated runtime'')
       else None)"

definition session_live :: "core_session \<Rightarrow> bool" where
  "session_live s \<longleftrightarrow> to_lower (trim_space (ps_status s)) \<in> {''running'', ''stopping''}"

definition session_query :: "string \<Rightarrow> int \<Rightarrow> rpc_request" where
  "session_query sid user = \<lparr>rr_user = user, rr_runtime = '''', rr_portfolio = 0, rr_session = sid, rr_snapshot_reason = 0,
     rr_runtime_source = '''', rr_runtime_name = '''', rr_requested_name = '''', rr_rest = ''''\<rparr>"

definition ensureSessionOwner :: "platform_env \<Rightarrow> auth_runtime \<Rightarrow> string \<Rightarrow> bool \<Rightarrow> unit proxied" where
  "ensureSessionOwner env rt sid0 allowTerminal =
     (let sid = trim_space sid0 in
      refuse (sid = '''') InvalidArgument ''session_id is required''
       (and_then (get_session env (session_query sid (ar_UserID rt))) (\<lambda>resp. case session_bound rt resp of
          Some e \<Rightarrow> fail e
        | None \<Rightarrow> (case resp of None \<Rightarrow> ret () | Some s \<Rightarrow>
            if session_live s \<or> allowTerminal then ret ()
            else fail (Status FailedPrecondition (''session '' @ sid @ '' is not active: '' @ ps_status s))))))"

definition runtimeSourceFromAuthenticated :: "auth_runtime \<Rightarrow> string" where
  "runtimeSourceFromAuthenticated rt = (if trim_space (ar_Source rt) \<noteq> '''' then ar_Source rt else SourceSelfHosted)"

section \<open>Portfolio and order methods\<close>

definition own_user :: "auth_runtime \<Rightarrow> int \<Rightarrow> 'a proxied \<Rightarrow> 'a proxied" where
  "own_user rt u = refuse (u \<noteq> 0 \<and> u \<noteq> ar_UserID rt) PermissionDenied ''user_id does not match authenticated runtime''"

definition own_runtime :: "auth_runtime \<Rightarrow> string \<Rightarrow> string \<Rightarrow> 'a proxied \<Rightarrow> 'a proxied" where
  "own_runtime rt what r =
     refuse (r \<noteq> '''' \<and> r \<noteq> ar_RuntimeID rt) PermissionDenied (what @ '' runtime_id does not match authenticated runtime'')"

definition dispatch_GetSession :: "platform_env \<Rightarrow> auth_runtime \<Rightarrow> any_msg option \<Rightarrow> message proxied" where
  "dispatch_GetSession env rt msg = and_then (unpackRuntimePayload env Rpc_GetSession msg) (\<lambda>rq.
     own_user rt (rr_user rq)
      (and_then (get_session env (rq\<lparr>rr_user := ar_UserID rt\<rparr>)) (\<lambda>resp. case session_bound rt resp of
         Some e \<Rightarrow> fail e
       | None \<Rightarrow> ret (M_Session resp))))"

definition dispatch_ListSessions :: "platform_env \<Rightarrow> auth_runtime \<Rightarrow> any_msg option \<Rightarrow> message proxied" where
  "dispatch_ListSessions env rt msg = and_then (unpackRuntimePayload env Rpc_ListSessions msg) (\<lambda>rq.
     own_user rt (rr_user rq)
      (and_then (if 0 < rr_portfolio rq then ensurePortfolioOwner env rt (rr_portfolio rq) else ret ()) (\<lambda>_.
         call (pc_call (requirePortfolio env)) Rpc_ListSessions (rq\<lparr>rr_user := ar_UserID rt, rr_runtime := ar_RuntimeID rt\<rparr>))))"

text \<open>\<open>portfolio.GetPortfolioSnapshot\<close> and \<open>portfolio.PreflightStrategySession\<close> differ in the message and the call only.\<close>
definition dispatch_portfolio_read :: "rpc \<Rightarrow> platform_env \<Rightarrow> auth_runtime \<Rightarrow> any_msg option \<Rightarrow> message proxied" where
  "dispatch_portfolio_read m env rt msg = and_then (unpackRuntimePayload env m msg) (\<lambda>rq.
     own_user rt (rr_user rq)
      (and_then (ensurePortfolioOwner env rt (rr_portfolio rq)) (\<lambda>_.
         call (pc_call (requirePortfolio env)) m (rq\<lparr>rr_user := ar_UserID rt\<rparr>))))"

definition portfolioSnapshotReasonStrategyEnd :: int where "portfolioSnapshotReasonStrategyEnd = 3"

definition dispatch_UpdatePortfolioWalletState :: "platform_env \<Rightarrow> auth_runtime \<Rightarrow> any_msg option \<Rightarrow> message proxied" where
  "dispatch_UpdatePortfolioWalletState env rt msg = and_then (unpackRuntimePayload env Rpc_UpdatePortfolioWalletState msg) (\<lambda>rq.
     own_user rt (rr_user rq)
      (and_then (ensurePortfolioOwner env rt (rr_portfolio rq)) (\<lambda>_.
        refuse (trim_space (rr_session rq) = '''') InvalidArgument ''session_id is required''
         (and_then (ensureSessionOwner env rt (rr_session rq) (rr_snapshot_reason rq = portfolioSnapshotReasonStrategyEnd)) (\<lambda>_.
            call (pc_call (requirePortfolio env)) Rpc_UpdatePortfolioWalletState (rq\<lparr>rr_user := ar_UserID rt\<rparr>))))))"

definition dispatch_GetActiveStrategy :: "platform_env \<Rightarrow> auth_runtime \<Rightarrow> any_msg option \<Rightarrow> message proxied" where
  "dispatch_GetActiveStrategy env rt msg = and_then (unpackRuntimePayload env Rpc_GetActiveStrategy msg) (\<lambda>rq.
     and_then (ensurePortfolioOwner env rt (rr_portfolio rq)) (\<lambda>_.
       call (pc_call (requirePortfolio env)) Rpc_GetActiveStrategy rq))"

definition dispatch_SaveSession :: "platform_env \<Rightarrow> auth_runtime \<Rightarrow> any_msg option \<Rightarrow> message proxied" where
  "dispatch_SaveSession env rt msg = and_then (unpackRuntimePayload env Rpc_SaveSession msg) (\<lambda>rq.
     and_then (ensurePortfolioOwner env rt (rr_portfolio rq)) (\<lambda>_.
       own_runtime rt ''session'' (rr_runtime rq)
        (call (pc_call (requirePortfolio env)) Rpc_SaveSession
          (rq\<lparr>rr_runtime := ar_RuntimeID rt, rr_runtime_source := runtimeSourceFromAuthenticated rt, rr_runtime_name := ar_Name rt\<rparr>))))"

definition dispatch_UpdateSession :: "platform_env \<Rightarrow> auth_runtime \<Rightarrow> any_msg option \<Rightarrow> message proxied" where
  "dispatch_UpdateSession env rt msg = and_then (unpackRuntimePayload env Rpc_UpdateSession msg) (\<lambda>rq.
     own_runtime rt ''session'' (rr_runtime rq)
      (and_then (ensureSessionOwner env rt (rr_session rq) True) (\<lambda>_.
         call (pc_call (requirePortfolio env)) Rpc_UpdateSession (rq\<lparr>rr_runtime := ar_RuntimeID rt\<rparr>))))"

definition dispatch_SaveStrategyIndicators :: "platform_env \<Rightarrow> auth_runtime \<Rightarrow> any_msg option \<Rightarrow> message proxied" where
  "dispatch_SaveStrategyIndicators env rt msg = and_then (unpackRuntimePayload env Rpc_SaveStrategyIndicators msg) (\<lambda>rq.
     own_user rt (rr_user rq)
      (and_then (ensureSessionOwner env rt (rr_session rq) True) (\<lambda>_.
         call (pc_call (requirePortfolio env)) Rpc_SaveStrategyIndicators (rq\<lparr>rr_user := ar_UserID rt\<rparr>))))"

definition dispatch_PlaceOrder :: "platform_env \<Rightarrow> auth_runtime \<Rightarrow> any_msg option \<Rightarrow> message proxied" where
  "dispatch_PlaceOrder env rt msg = and_then (unpackRuntimePayload env Rpc_PlaceOrder msg) (\<lambda>rq.
     and_then (ensurePortfolioOwner env rt (rr_portfolio rq)) (\<lambda>_.
       and_then (if rr_session rq \<noteq> '''' then ensureSessionOwner env rt (rr_session rq) False else ret ()) (\<lambda>_.
         call (requireOrder env) Rpc_PlaceOrder rq)))"

definition dispatch_ResolveOrderAttempt :: "platform_env \<Rightarrow> auth_runtime \<Rightarrow> any_msg option \<Rightarrow> message proxied" where
  "dispatch_ResolveOrderAttempt env rt msg = and_then (unpackRuntimePayload env Rpc_ResolveOrderAttempt msg) (\<lambda>rq.
     and_then (ensurePortfolioOwner env rt (rr_portfolio rq)) (\<lambda>_. call (requireOrder env) Rpc_ResolveOrderAttempt rq))"

section \<open>Market-data methods\<close>

definition dispatch_GetMarketDataStreamStatus :: "platform_env \<Rightarrow> auth_runtime \<Rightarrow> any_msg option \<Rightarrow> message proxied" where
  "dispatch_GetMarketDataStreamStatus env rt msg = and_then (unpackRuntimePayload env Rpc_GetMarketDataStreamStatus msg) (\<lambda>rq.
     call (requireMarketData env) Rpc_GetMarketDataStreamStatus rq)"

definition dispatch_CreateOrRenewMarketDataLease :: "platform_env \<Rightarrow> auth_runtime \<Rightarrow> any_msg option \<Rightarrow> message proxied" where
  "dispatch_CreateOrRenewMarketDataLease env rt msg = and_then (unpackRuntimePayload env Rpc_CreateOrRenewMarketDataLease msg) (\<lambda>rq.
     and_then (if 0 < rr_portfolio rq then ensurePortfolioOwner env rt (rr_portfolio rq) else ret ()) (\<lambda>_.
       and_then (ensureSessionOwner env rt (rr_session rq) False) (\<lambda>_.
         call (requireMarketData env) Rpc_CreateOrRenewMarketDataLease rq)))"

definition dispatch_ReleaseMarketDataLease :: "platform_env \<Rightarrow> auth_runtime \<Rightarrow> any_msg option \<Rightarrow> message proxied" where
  "dispatch_ReleaseMarketDataLease env rt msg = and_then (unpackRuntimePayload env Rpc_ReleaseMarketDataLease msg) (\<lambda>rq.
     and_then (ensureSessionOwner env rt (rr_session rq) True) (\<lambda>_.
       call (requireMarketData env) Rpc_ReleaseMarketDataLease rq))"

definition dispatch_CreateSessionMarketDataSubscriptions :: "platform_env \<Rightarrow> auth_runtime \<Rightarrow> any_msg option \<Rightarrow> message proxied" where
  "dispatch_CreateSessionMarketDataSubscriptions env rt msg =
     and_then (unpackRuntimePayload env Rpc_CreateSessionMarketDataSubscriptions msg) (\<lambda>rq.
       own_user rt (rr_user rq) (own_runtime rt ''subscription'' (rr_runtime rq)
        (call (requireMarketData env) Rpc_CreateSessionMarketDataSubscriptions
          (rq\<lparr>rr_user := ar_UserID rt, rr_runtime := ar_RuntimeID rt\<rparr>))))"

definition dispatch_ReleaseSessionMarketDataSubscriptions :: "platform_env \<Rightarrow> auth_runtime \<Rightarrow> any_msg option \<Rightarrow> message proxied" where
  "dispatch_ReleaseSessionMarketDataSubscriptions env rt msg =
     and_then (unpackRuntimePayload env Rpc_ReleaseSessionMarketDataSubscriptions msg) (\<lambda>rq.
       own_runtime rt ''subscription'' (rr_runtime rq)
        (and_then (ensureSessionOwner env rt (rr_session rq) True) (\<lambda>_.
           call (requireMarketData env) Rpc_ReleaseSessionMarketDataSubscriptions (rq\<lparr>rr_runtime := ar_RuntimeID rt\<rparr>))))"

section \<open>Bars\<close>

definition not_configured :: "string \<Rightarrow> 'a proxied" where
  "not_configured what = fail (Status FailedPrecondition (what @ '' is not configured''))"

definition fetch :: "(trace \<Rightarrow> kline_query \<Rightarrow> kline_row list result) \<Rightarrow> string \<Rightarrow> kline_query \<Rightarrow> kline_row list proxied" where
  "fetch query what q h = Some (h @ [E_Fetch q], (case query h q of
     Inl e \<Rightarrow> Inl (Status Unavailable (''fetch '' @ what @ '': '' @ err_text e))
   | Inr rows \<Rightarrow> Inr rows))"

definition dispatch_FetchKlines :: "platform_env \<Rightarrow> any_msg option \<Rightarrow> message proxied" where
  "dispatch_FetchKlines env msg = and_then (of_result (unpackKlineQueryPayload (pe_codec env) msg)) (\<lambda>q. case pe_klines env of
       None \<Rightarrow> not_configured ''market-data query''
     | Some query \<Rightarrow> and_then (fetch query ''platform klines'' q) (\<lambda>rows.
         of_result (map_sum id M_Struct (klineRowsToStruct (pe_codec env) rows))))"

definition dispatch_FetchBacktestPage :: "platform_env \<Rightarrow> any_msg option \<Rightarrow> message proxied" where
  "dispatch_FetchBacktestPage env msg = and_then (of_result (unpackBacktestPagePayload (pe_codec env) msg)) (\<lambda>q. case pe_klines env of
       None \<Rightarrow> not_configured ''market-data query''
     | Some query \<Rightarrow> and_then (fetch query ''backtest page'' q) (\<lambda>rows.
         of_result (map_sum id M_Struct (klineRowsToBacktestPageStruct (pe_codec env) q rows))))"

definition deliver_chunk :: "(trace \<Rightarrow> dataset_delivery \<Rightarrow> go_error option) \<Rightarrow> auth_runtime \<Rightarrow> string \<Rightarrow> string \<Rightarrow> string \<Rightarrow> bool \<Rightarrow> unit proxied" where
  "deliver_chunk dlv rt session dataset text fin h =
     (let d = \<lparr>dsd_user = ar_UserID rt, dsd_runtime = ar_RuntimeID rt, dsd_session = session, dsd_dataset = dataset,
               dsd_sequence = 0, dsd_payload = text, dsd_end = fin\<rparr>
      in Some (h @ [E_Chunk d], (case dlv h d of Some e \<Rightarrow> Inl e | None \<Rightarrow> Inr ())))"

record dataset_links =
  dl_query :: "trace \<Rightarrow> kline_query \<Rightarrow> kline_row list result"
  dl_deliver :: "trace \<Rightarrow> dataset_delivery \<Rightarrow> go_error option"

text \<open>One round of the inner loop: the bars fetched and delivered, the number of rows and the next start, or the
  \<open>break\<close> on an empty answer.\<close>
definition deliver_round :: "codec \<Rightarrow> dataset_links \<Rightarrow> auth_runtime \<Rightarrow> dataset_request \<Rightarrow> int \<Rightarrow> kline_query \<Rightarrow> int \<Rightarrow> (int \<times> int) option proxied" where
  "deliver_round co dl rt req step stream start =
     and_then (fetch (dl_query dl) ''dataset klines'' (stream\<lparr>kq_start := start, kq_end := dr_end req, kq_limit := dr_chunk req\<rparr>)) (\<lambda>rows.
       if rows = [] then ret None
       else and_then (of_result (klineRowsToDatasetPayload co rows)) (\<lambda>text.
         and_then (deliver_chunk (dl_deliver dl) rt (dr_session req) (datasetIDForKlineStream stream) text False) (\<lambda>_.
           ret (Some (int (length rows), wrap64 (kr_open_time (last rows) + step))))))"

partial_function (option) deliver_loop ::
  "codec \<Rightarrow> dataset_links \<Rightarrow> auth_runtime \<Rightarrow> dataset_request \<Rightarrow> int \<Rightarrow> kline_query \<Rightarrow> int \<Rightarrow> int \<times> int \<Rightarrow> trace
    \<Rightarrow> (trace \<times> (int \<times> int) result) option" where
  "deliver_loop co dl rt req step stream start acc h =
     (if start < dr_end req
      then (case deliver_round co dl rt req step stream start h of
          None \<Rightarrow> None
        | Some (h', Inl e) \<Rightarrow> Some (h', Inl e)
        | Some (h', Inr None) \<Rightarrow> Some (h', Inr acc)
        | Some (h', Inr (Some (n, start'))) \<Rightarrow>
            if n < dr_chunk req \<or> dr_end req \<le> start' then Some (h', Inr (fst acc + 1, snd acc + n))
            else deliver_loop co dl rt req step stream start' (fst acc + 1, snd acc + n) h')
      else Some (h, Inr acc))"

fun deliver_streams :: "codec \<Rightarrow> dataset_links \<Rightarrow> auth_runtime \<Rightarrow> dataset_request \<Rightarrow> kline_query list \<Rightarrow> int \<times> int \<Rightarrow> (int \<times> int) proxied" where
  "deliver_streams co dl rt req [] acc = ret acc"
| "deliver_streams co dl rt req (q # qs) acc = (case intervalStepMS (kq_interval q) of
     Inl e \<Rightarrow> fail (Status InvalidArgument (''dataset interval: '' @ err_text e))
   | Inr step \<Rightarrow> and_then (deliver_loop co dl rt req step q (dr_start req) acc) (deliver_streams co dl rt req qs))"

definition end_payload :: string where
  "end_payload = ''{'' @ dquote @ ''klines'' @ dquote @ '':[]}''"

definition deliverDataset :: "platform_env \<Rightarrow> auth_runtime \<Rightarrow> dataset_request \<Rightarrow> message proxied" where
  "deliverDataset env rt req = (case pe_klines env of
       None \<Rightarrow> not_configured ''market-data query''
     | Some query \<Rightarrow> (case pe_deliver env of
       None \<Rightarrow> not_configured ''dataset delivery''
     | Some dlv \<Rightarrow>
         and_then (deliver_streams (pe_codec env) \<lparr>dl_query = query, dl_deliver = dlv\<rparr> rt req (dr_streams req) (0, 0)) (\<lambda>(chunks, rows).
           and_then (deliver_chunk dlv rt (dr_session req) (''dataset:'' @ dr_session req) end_payload True) (\<lambda>_.
             of_result (map_sum id M_Struct (new_struct (pe_codec env)
               [(''rows'', ANum (float_of_int rows)), (''chunks'', ANum (float_of_int (chunks + 1)))]))))))"

definition dispatch_DeliverDataset :: "platform_env \<Rightarrow> auth_runtime \<Rightarrow> any_msg option \<Rightarrow> message proxied" where
  "dispatch_DeliverDataset env rt msg = and_then (of_result (unpackDatasetDeliveryPayload (pe_codec env) msg)) (\<lambda>req.
     own_runtime rt ''dataset'' (dr_runtime req)
      (and_then (ensureSessionOwner env rt (dr_session req) False) (\<lambda>_. deliverDataset env rt req)))"

section \<open>Logs, notifications and replays\<close>

definition isRuntimeLogReservedKey :: "string \<Rightarrow> bool" where
  "isRuntimeLogReservedKey k \<longleftrightarrow> k \<in> {''source'', ''runtime_id'', ''user_id'', ''runtime_name'', ''service_name''}"

definition log_data :: "codec \<Rightarrow> auth_runtime \<Rightarrow> fields \<Rightarrow> fields" where
  "log_data co rt fs =
     gm_set ''runtime_name'' (AStr (ar_Name rt))
      (gm_set ''user_id'' (AInt (ar_UserID rt))
        (gm_set ''runtime_id'' (AStr (ar_RuntimeID rt))
          (gm_set ''source'' (AStr ''self_hosted_runtime'')
            (map (\<lambda>(k, v). (k, co_interface co v)) (filter (\<lambda>p. \<not> isRuntimeLogReservedKey (fst p)) fs)))))"

definition runtimeLogMessage :: "codec \<Rightarrow> auth_runtime \<Rightarrow> fields \<Rightarrow> string" where
  "runtimeLogMessage co rt fs = (case co_json co (AObj (log_data co rt fs)) of
     None \<Rightarrow> ''self_hosted_runtime log encode failed''
   | Some text \<Rightarrow> text)"

definition log_level_of :: "string \<Rightarrow> log_level" where
  "log_level_of level =
     (if level = ''debug'' then LogDebug
      else if level = ''warn'' \<or> level = ''warning'' then LogWarn
      else if level = ''error'' \<or> level = ''critical'' \<or> level = ''fatal'' then LogError
      else LogInfo)"

definition emit :: "effect \<Rightarrow> unit proxied" where "emit e h = Some (h @ [e], Inr ())"

definition emitRuntimeLog :: "platform_env \<Rightarrow> auth_runtime \<Rightarrow> any_msg option \<Rightarrow> message proxied" where
  "emitRuntimeLog env rt msg = and_then (of_result (unpack_struct (pe_codec env) msg)) (\<lambda>fs.
     let user = int_field fs ''user_id''; pid = int_field fs ''portfolio_id''; sid = stringField fs ''session_id'';
         t0 = trim_space (stringField fs ''log_type'') in
     refuse (user \<noteq> 0 \<and> user \<noteq> ar_UserID rt) PermissionDenied ''log user_id does not match authenticated runtime''
      (and_then (if 0 < pid then ensurePortfolioOwner env rt pid else ret ()) (\<lambda>_.
        and_then (if trim_space sid \<noteq> '''' then ensureSessionOwner env rt sid False else ret ()) (\<lambda>_.
          and_then (emit (E_Log (log_level_of (lowered fs ''level'')) (if t0 = '''' then ''root'' else t0) (runtimeLogMessage (pe_codec env) rt fs))) (\<lambda>_.
            ret (M_Struct []))))))"

abbreviation CategoryStrategy :: string where "CategoryStrategy \<equiv> ''strategy''"
abbreviation CategoryCustom :: string where "CategoryCustom \<equiv> ''custom''"
abbreviation EventStrategyMessage :: string where "EventStrategyMessage \<equiv> ''strategy.message''"
abbreviation EventSystemMessage :: string where "EventSystemMessage \<equiv> ''system.message''"
abbreviation EventCustomInfo :: string where "EventCustomInfo \<equiv> ''custom.info''"
abbreviation EventCustomWarn :: string where "EventCustomWarn \<equiv> ''custom.warn''"
abbreviation EventCustomError :: string where "EventCustomError \<equiv> ''custom.error''"

definition normalizeNotificationCategory :: "string \<Rightarrow> string" where
  "normalizeNotificationCategory c0 =
     (let c = to_lower (trim_space c0) in
      if c = CategorySystem then CategorySystem else if c = CategoryStrategy then CategoryStrategy else CategoryCustom)"

definition normalizeNotificationSeverity :: "string \<Rightarrow> string" where
  "normalizeNotificationSeverity s0 =
     (let s = to_lower (trim_space s0) in
      if s = SeverityWarn then SeverityWarn else if s = SeverityError then SeverityError else SeverityInfo)"

definition notificationEventType :: "string \<Rightarrow> string \<Rightarrow> string" where
  "notificationEventType category severity =
     (if category = CategoryCustom then
        (if severity = SeverityWarn then EventCustomWarn else if severity = SeverityError then EventCustomError else EventCustomInfo)
      else if category = CategoryStrategy then EventStrategyMessage else EventSystemMessage)"

definition runtime_event :: "auth_runtime \<Rightarrow> fields \<Rightarrow> notification" where
  "runtime_event rt fs =
     (let category = normalizeNotificationCategory (stringField fs ''category'');
          severity = normalizeNotificationSeverity (stringField fs ''severity'') in
      \<lparr>nt_schema_version = SchemaVersion, nt_event_id = '''', nt_created_at = zero_time, nt_user_id = ar_UserID rt, nt_category = category,
       nt_event_type = notificationEventType category severity, nt_severity = severity, nt_source_service = '''',
       nt_runtime_id = ar_RuntimeID rt, nt_runtime_name = ar_Name rt, nt_portfolio_id = int_field fs ''portfolio_id'',
       nt_strategy_id = int_field fs ''strategy_id'', nt_session_id = trim_space (stringField fs ''session_id''),
       nt_title = trim_space (stringField fs ''title''), nt_message = trim_space (stringField fs ''message''),
       nt_dedupe_key = trim_space (stringField fs ''dedupe_key''), nt_metadata = []\<rparr>)"

definition publish_event :: "platform_env \<Rightarrow> notification \<Rightarrow> unit proxied" where
  "publish_event env e h = Some (h @ [E_Notify e], (case requireNotificationPublisher env h e of
     Some err \<Rightarrow> Inl (Status Unavailable (''publish notification: '' @ err_text err))
   | None \<Rightarrow> Inr ()))"

definition publishRuntimeNotification :: "platform_env \<Rightarrow> auth_runtime \<Rightarrow> any_msg option \<Rightarrow> message proxied" where
  "publishRuntimeNotification env rt msg = and_then (of_result (unpack_struct (pe_codec env) msg)) (\<lambda>fs.
     let user = int_field fs ''user_id''; rid = trim_space (stringField fs ''runtime_id'');
         pid = int_field fs ''portfolio_id''; sid = trim_space (stringField fs ''session_id'') in
     refuse (user \<noteq> 0 \<and> user \<noteq> ar_UserID rt) PermissionDenied ''notification user_id does not match authenticated runtime''
      (refuse (rid \<noteq> '''' \<and> rid \<noteq> ar_RuntimeID rt) PermissionDenied ''notification runtime_id does not match authenticated runtime''
        (and_then (if 0 < pid then ensurePortfolioOwner env rt pid else ret ()) (\<lambda>_.
          and_then (if sid \<noteq> '''' then ensureSessionOwner env rt sid False else ret ()) (\<lambda>_.
            refuse (trim_space (stringField fs ''message'') = '''') InvalidArgument ''notification message is required''
             (and_then (publish_event env (runtime_event rt fs)) (\<lambda>_. ret (M_Struct [(''accepted'', ABool True)])))))))) "

definition debugDatasetStateToProto :: "debug_dataset \<Rightarrow> dataset_proto" where
  "debugDatasetStateToProto d = \<lparr>dp_dataset_id = dd_dataset_id d, dp_user_id = dd_user_id d, dp_portfolio_id = dd_portfolio_id d,
     dp_runtime_id = dd_runtime_id d, dp_market = dd_market d, dp_symbol = dd_symbol d, dp_interval = dd_interval d,
     dp_start_ms = time_unix_milli (dd_start_at d), dp_end_ms = time_unix_milli (dd_end_at d), dp_bar_count = dd_bar_count d,
     dp_coverage_status = dd_coverage_status d, dp_loaded_ms = time_unix_milli (dd_loaded_at d), dp_state = dd_state d,
     dp_last_error = dd_last_error d\<rparr>"

definition start_replay :: "platform_env \<Rightarrow> int \<Rightarrow> string \<Rightarrow> string \<Rightarrow> (string \<times> string \<times> debug_dataset) proxied" where
  "start_replay env user rid name h = Some (h @ [E_Replay user rid name], requireDebugReplayStarter env h user rid name)"

definition dispatch_StartDebugReplay :: "platform_env \<Rightarrow> auth_runtime \<Rightarrow> any_msg option \<Rightarrow> message proxied" where
  "dispatch_StartDebugReplay env rt msg = and_then (unpackRuntimePayload env Rpc_StartDebugReplay msg) (\<lambda>rq.
     own_user rt (rr_user rq) (own_runtime rt ''debug'' (rr_runtime rq)
      (and_then (start_replay env (ar_UserID rt) (ar_RuntimeID rt) (rr_requested_name rq)) (\<lambda>(sid, name, dataset).
         ret (M_Replay sid name (debugDatasetStateToProto dataset))))))"

section \<open>The dispatcher\<close>

definition deprecated_snapshot :: go_error where
  "deprecated_snapshot = Status Unimplemented
     ''portfolio.UpdatePortfolioSnapshot is deprecated for runtime sessions; use portfolio.UpdatePortfolioWalletState''"

definition platform_methods :: "(string \<times> (platform_env \<Rightarrow> auth_runtime \<Rightarrow> any_msg option \<Rightarrow> message proxied)) list" where
  "platform_methods =
    [(''portfolio.GetSession'', dispatch_GetSession),
     (''portfolio.ListSessions'', dispatch_ListSessions),
     (''portfolio.GetPortfolioSnapshot'', dispatch_portfolio_read Rpc_GetPortfolioSnapshot),
     (''portfolio.UpdatePortfolioSnapshot'', \<lambda>_ _ _. fail deprecated_snapshot),
     (''portfolio.UpdatePortfolioWalletState'', dispatch_UpdatePortfolioWalletState),
     (''portfolio.PreflightStrategySession'', dispatch_portfolio_read Rpc_PreflightStrategySession),
     (''portfolio.GetActiveStrategy'', dispatch_GetActiveStrategy),
     (''portfolio.SaveSession'', dispatch_SaveSession),
     (''portfolio.UpdateSession'', dispatch_UpdateSession),
     (''portfolio.SaveStrategyIndicators'', dispatch_SaveStrategyIndicators),
     (''order.PlaceOrder'', dispatch_PlaceOrder),
     (''order.ResolveOrderAttempt'', dispatch_ResolveOrderAttempt),
     (''marketdata.GetMarketDataStreamStatus'', dispatch_GetMarketDataStreamStatus),
     (''marketdata.FetchKlines'', \<lambda>env _. dispatch_FetchKlines env),
     (''marketdata.FetchBacktestPage'', \<lambda>env _. dispatch_FetchBacktestPage env),
     (''marketdata.DeliverDataset'', dispatch_DeliverDataset),
     (''marketdata.CreateOrRenewMarketDataLease'', dispatch_CreateOrRenewMarketDataLease),
     (''marketdata.ReleaseMarketDataLease'', dispatch_ReleaseMarketDataLease),
     (''marketdata.CreateSessionMarketDataSubscriptions'', dispatch_CreateSessionMarketDataSubscriptions),
     (''marketdata.ReleaseSessionMarketDataSubscriptions'', dispatch_ReleaseSessionMarketDataSubscriptions),
     (''logs.Emit'', emitRuntimeLog),
     (''notification.Publish'', publishRuntimeNotification),
     (''debug.StartDebugReplay'', dispatch_StartDebugReplay)]"

definition DispatchRuntimeRequest :: "platform_env \<Rightarrow> auth_runtime \<Rightarrow> string \<Rightarrow> any_msg option \<Rightarrow> message proxied" where
  "DispatchRuntimeRequest env rt method msg =
     refuse (ar_UserID rt \<le> 0) PermissionDenied ''authenticated runtime user_id is required''
      (case map_of platform_methods (canonicalPlatformMethod method) of
         Some handler \<Rightarrow> handler env rt msg
       | None \<Rightarrow> fail (Status Unimplemented (''unsupported runtime platform method: '' @ method)))"

end
