(* ===== verification/PlatformClaims.thy ===== *)
theory PlatformClaims
  imports PlatformProxy
begin

text \<open>
  What a dispatch may do in a runtime's name. \<open>permitted\<close> states, for one effect and what the same dispatch did before it,
  whose identifiers the effect must carry and which answers of the core service must precede it; \<open>guarded\<close> is the
  Hoare-style judgement the methods are proved with, one rule per combinator.
\<close>

section \<open>The contract\<close>

definition proven_portfolio :: "auth_runtime \<Rightarrow> trace \<Rightarrow> int \<Rightarrow> bool" where
  "proven_portfolio rt before pid = list_ex (\<lambda>e. case e of
     E_Portfolio p u (Inr (Some owner)) \<Rightarrow> p = pid \<and> u = ar_UserID rt \<and> (owner = 0 \<or> owner = ar_UserID rt)
   | _ \<Rightarrow> False) before"

definition proven_session :: "auth_runtime \<Rightarrow> trace \<Rightarrow> string \<Rightarrow> bool \<Rightarrow> bool" where
  "proven_session rt before sid terminal = list_ex (\<lambda>e. case e of
     E_Session rq (Inr (Some s)) \<Rightarrow> rr_session rq = trim_space sid \<and> rr_user rq = ar_UserID rt \<and>
       (ps_user s = 0 \<or> ps_user s = ar_UserID rt) \<and> ps_runtime s = ar_RuntimeID rt \<and> (terminal \<or> session_live s)
   | _ \<Rightarrow> False) before"

definition permitted_call :: "auth_runtime \<Rightarrow> trace \<Rightarrow> rpc \<Rightarrow> rpc_request \<Rightarrow> bool" where
  "permitted_call rt before m rq =
     (let user = (rr_user rq = ar_UserID rt); runtime = (rr_runtime rq = ar_RuntimeID rt);
          portfolio = proven_portfolio rt before (rr_portfolio rq); session = proven_session rt before (rr_session rq) in
      case m of
        Rpc_GetSession \<Rightarrow> False
      | Rpc_ListSessions \<Rightarrow> user \<and> runtime \<and> (rr_portfolio rq \<le> 0 \<or> portfolio)
      | Rpc_GetPortfolioSnapshot \<Rightarrow> user \<and> portfolio
      | Rpc_UpdatePortfolioWalletState \<Rightarrow> user \<and> portfolio \<and> session (rr_snapshot_reason rq = portfolioSnapshotReasonStrategyEnd)
      | Rpc_PreflightStrategySession \<Rightarrow> user \<and> portfolio
      | Rpc_GetActiveStrategy \<Rightarrow> portfolio
      | Rpc_SaveSession \<Rightarrow> portfolio \<and> runtime \<and> rr_runtime_source rq = runtimeSourceFromAuthenticated rt \<and> rr_runtime_name rq = ar_Name rt
      | Rpc_UpdateSession \<Rightarrow> runtime \<and> session True
      | Rpc_SaveStrategyIndicators \<Rightarrow> user \<and> session True
      | Rpc_PlaceOrder \<Rightarrow> portfolio \<and> (rr_session rq = '''' \<or> session False)
      | Rpc_ResolveOrderAttempt \<Rightarrow> portfolio
      | Rpc_GetMarketDataStreamStatus \<Rightarrow> True
      | Rpc_CreateOrRenewMarketDataLease \<Rightarrow> (rr_portfolio rq \<le> 0 \<or> portfolio) \<and> session False
      | Rpc_ReleaseMarketDataLease \<Rightarrow> session True
      | Rpc_CreateSessionMarketDataSubscriptions \<Rightarrow> user \<and> runtime
      | Rpc_ReleaseSessionMarketDataSubscriptions \<Rightarrow> runtime \<and> session True
      | Rpc_StartDebugReplay \<Rightarrow> False)"

definition permitted :: "auth_runtime \<Rightarrow> trace \<Rightarrow> effect \<Rightarrow> bool" where
  "permitted rt before e = (case e of
     E_Portfolio pid user _ \<Rightarrow> user = ar_UserID rt \<and> 0 < pid
   | E_Session rq _ \<Rightarrow> rr_user rq = ar_UserID rt
   | E_Call m rq \<Rightarrow> permitted_call rt before m rq
   | E_Fetch q \<Rightarrow> True
   | E_Chunk d \<Rightarrow> dsd_user d = ar_UserID rt \<and> dsd_runtime d = ar_RuntimeID rt \<and> proven_session rt before (dsd_session d) False
   | E_Log _ _ _ \<Rightarrow> True
   | E_Notify n \<Rightarrow> nt_user_id n = ar_UserID rt \<and> nt_runtime_id n = ar_RuntimeID rt \<and>
       (nt_portfolio_id n \<le> 0 \<or> proven_portfolio rt before (nt_portfolio_id n)) \<and>
       (nt_session_id n = '''' \<or> proven_session rt before (nt_session_id n) False)
   | E_Replay user rid _ \<Rightarrow> user = ar_UserID rt \<and> rid = ar_RuntimeID rt)"

fun confined :: "auth_runtime \<Rightarrow> trace \<Rightarrow> trace \<Rightarrow> bool" where
  "confined rt before [] = True"
| "confined rt before (e # es) = (permitted rt before e \<and> confined rt (before @ [e]) es)"

lemma confined_append [simp]: "confined rt b (xs @ ys) \<longleftrightarrow> confined rt b xs \<and> confined rt (b @ xs) ys"
  by (induction xs arbitrary: b) auto

lemma proven_portfolio_append [simp]: "proven_portfolio rt (b @ c) p \<longleftrightarrow> proven_portfolio rt b p \<or> proven_portfolio rt c p"
  by (simp add: proven_portfolio_def)

lemma proven_session_append [simp]: "proven_session rt (b @ c) s t \<longleftrightarrow> proven_session rt b s t \<or> proven_session rt c s t"
  by (simp add: proven_session_def)

lemma proven_portfolioI:
  "E_Portfolio pid (ar_UserID rt) (Inr (Some owner)) \<in> set b \<Longrightarrow> owner = 0 \<or> owner = ar_UserID rt \<Longrightarrow> proven_portfolio rt b pid"
  unfolding proven_portfolio_def list_ex_iff by (erule bexI [rotated]) auto

lemma proven_sessionI:
  assumes "E_Session rq (Inr (Some s)) \<in> set b" "rr_session rq = trim_space sid" "rr_user rq = ar_UserID rt"
    "session_bound rt (Some s) = None" "terminal \<or> session_live s"
  shows "proven_session rt b sid terminal"
  unfolding proven_session_def list_ex_iff using assms
  by (intro bexI [OF _ assms(1)]) (auto simp: session_bound_def split: if_splits)

section \<open>The judgement\<close>

definition guarded :: "auth_runtime \<Rightarrow> trace \<Rightarrow> 'a proxied \<Rightarrow> (trace \<Rightarrow> 'a \<Rightarrow> bool) \<Rightarrow> bool" where
  "guarded rt b m Q \<longleftrightarrow> (\<forall>h h' r. m h = Some (h', r) \<longrightarrow>
     (\<exists>es. h' = h @ es \<and> confined rt b es \<and> (\<forall>x. r = Inr x \<longrightarrow> Q (b @ es) x)))"

named_theorems guards \<open>rules of the judgement\<close>

lemma guarded_Inr: "guarded rt b (ret x) (\<lambda>_ y. y = x)"
  by (simp add: guarded_def ret_def)

lemma guarded_ret: "Q b x \<Longrightarrow> guarded rt b (ret x) Q"
  by (simp add: guarded_def ret_def)

lemma guarded_fail [guards]: "guarded rt b (fail e) Q"
  by (simp add: guarded_def fail_def)

lemma guarded_not_configured [guards]: "guarded rt b (not_configured w) Q"
  unfolding not_configured_def by (rule guarded_fail)

lemma guarded_of_result [guards]: "guarded rt b (of_result r) (\<lambda>_ x. r = Inr x)"
  by (simp add: guarded_def of_result_def)

lemma guarded_refuse [guards]: "(\<not> c \<Longrightarrow> guarded rt b m Q) \<Longrightarrow> guarded rt b (refuse c k t m) Q"
  by (simp add: refuse_def guarded_fail)

lemma guarded_step: "(\<And>h. permitted rt b (e h)) \<Longrightarrow> (\<And>h x. r h = Inr x \<Longrightarrow> Q (b @ [e h]) x) \<Longrightarrow> guarded rt b (\<lambda>h. Some (h @ [e h], r h)) Q"
  by (auto simp: guarded_def)

lemma guarded_and_then [guards]:
  assumes "guarded rt b m P" "\<And>es x. P (b @ es) x \<Longrightarrow> guarded rt (b @ es) (f x) Q"
  shows "guarded rt b (and_then m f) Q"
  unfolding guarded_def
proof (intro allI impI)
  fix h h' r assume run: "and_then m f h = Some (h', r)"
  then obtain h1 r1 where m: "m h = Some (h1, r1)" by (auto simp: and_then_def split: option.splits)
  from assms(1) [unfolded guarded_def, rule_format, OF m]
  obtain es where es: "h1 = h @ es" "confined rt b es" and post: "\<forall>x. r1 = Inr x \<longrightarrow> P (b @ es) x" by blast
  show "\<exists>es. h' = h @ es \<and> confined rt b es \<and> (\<forall>x. r = Inr x \<longrightarrow> Q (b @ es) x)"
  proof (cases r1)
    case (Inl e)
    then show ?thesis using run m es by (auto simp: and_then_def)
  next
    case (Inr x)
    then have f: "f x h1 = Some (h', r)" using run m by (simp add: and_then_def)
    have "guarded rt (b @ es) (f x) Q" using assms(2) post Inr by simp
    from this [unfolded guarded_def, rule_format, OF f]
    obtain es' where "h' = h1 @ es'" "confined rt (b @ es) es'" "\<forall>x. r = Inr x \<longrightarrow> Q ((b @ es) @ es') x" by blast
    then show ?thesis using es by (intro exI [of _ "es @ es'"]) auto
  qed
qed

lemma guarded_weaken:
  assumes "guarded rt b m P" "\<And>es x. P (b @ es) x \<Longrightarrow> Q (b @ es) x"
  shows "guarded rt b m Q"
  unfolding guarded_def
proof (intro allI impI)
  fix h h' r assume "m h = Some (h', r)"
  from assms(1) [unfolded guarded_def, rule_format, OF this]
  show "\<exists>es. h' = h @ es \<and> confined rt b es \<and> (\<forall>x. r = Inr x \<longrightarrow> Q (b @ es) x)"
    using assms(2) by (elim exE conjE) auto
qed

lemma guarded_case_option [guards]:
  "(x = None \<Longrightarrow> guarded rt b m Q) \<Longrightarrow> (\<And>y. x = Some y \<Longrightarrow> guarded rt b (f y) Q) \<Longrightarrow>
    guarded rt b (case x of None \<Rightarrow> m | Some y \<Rightarrow> f y) Q"
  by (cases x) auto

lemma guarded_case_sum [guards]:
  "(\<And>y. x = Inl y \<Longrightarrow> guarded rt b (g y) Q) \<Longrightarrow> (\<And>y. x = Inr y \<Longrightarrow> guarded rt b (f y) Q) \<Longrightarrow>
    guarded rt b (case x of Inl y \<Rightarrow> g y | Inr y \<Rightarrow> f y) Q"
  by (cases x) auto

lemma guarded_case_prod [guards]: "(\<And>y z. x = (y, z) \<Longrightarrow> guarded rt b (f y z) Q) \<Longrightarrow> guarded rt b (case x of (y, z) \<Rightarrow> f y z) Q"
  by (cases x) auto

lemma guarded_own_user [guards]: "guarded rt b m Q \<Longrightarrow> guarded rt b (own_user rt u m) Q"
  by (simp add: own_user_def guarded_refuse)

lemma guarded_own_runtime [guards]: "guarded rt b m Q \<Longrightarrow> guarded rt b (own_runtime rt w u m) Q"
  by (simp add: own_runtime_def guarded_refuse)

abbreviation safe :: "auth_runtime \<Rightarrow> trace \<Rightarrow> 'a proxied \<Rightarrow> bool" where
  "safe rt b m \<equiv> guarded rt b m (\<lambda>_ _. True)"

lemma safe_ret [guards]: "safe rt b (ret x)"
  by (simp add: guarded_ret)

lemma safe_of_result [guards]: "safe rt b (of_result r)"
  by (simp add: guarded_def of_result_def)

lemma safe_unpack [guards]: "safe rt b (unpackRuntimePayload env m msg)"
  by (auto simp: unpackRuntimePayload_def intro!: guards split: option.split sum.split)

lemma safe_call [guards]: "permitted_call rt b m rq \<Longrightarrow> safe rt b (call c m rq)"
  unfolding call_def by (rule guarded_step) (auto simp: permitted_def)

lemma safe_fetch [guards]: "safe rt b (fetch c w q)"
  unfolding fetch_def by (rule guarded_step) (auto simp: permitted_def)

lemma guarded_portfolio [guards]: "guarded rt b (ensurePortfolioOwner env rt pid) (\<lambda>b' _. proven_portfolio rt b' pid)"
  unfolding ensurePortfolioOwner_def
proof (rule guarded_refuse, rule guarded_and_then)
  assume "\<not> pid \<le> 0"
  then show "guarded rt b (get_portfolio env pid (ar_UserID rt))
    (\<lambda>b' x. E_Portfolio pid (ar_UserID rt) (Inr x) \<in> set b')"
    unfolding get_portfolio_def Let_def by (intro guarded_step) (auto simp: permitted_def)
next
  fix es and resp :: "int option" assume "E_Portfolio pid (ar_UserID rt) (Inr resp) \<in> set (b @ es)"
  then show "guarded rt (b @ es) (case resp of None \<Rightarrow> fail (Status NotFound ''portfolio not found'')
      | Some owner \<Rightarrow> refuse (owner \<noteq> 0 \<and> owner \<noteq> ar_UserID rt) PermissionDenied
          ''portfolio does not belong to authenticated runtime user'' (ret ())) (\<lambda>b' _. proven_portfolio rt b' pid)"
    by (cases resp) (auto intro!: guarded_fail guarded_refuse guarded_ret intro: proven_portfolioI simp del: proven_portfolio_append)
qed

lemma guarded_session_query:
  assumes "rr_user rq = ar_UserID rt" "\<And>b' x. E_Session rq (Inr x) \<in> set b' \<Longrightarrow> Q b' x"
  shows "guarded rt b (get_session env rq) Q"
  unfolding get_session_def Let_def using assms by (intro guarded_step) (auto simp: permitted_def)

lemma guarded_session [guards]: "guarded rt b (ensureSessionOwner env rt sid t) (\<lambda>b' _. proven_session rt b' sid t)"
  unfolding ensureSessionOwner_def Let_def
proof (rule guarded_refuse, rule guarded_and_then)
  show "guarded rt b (get_session env (session_query (trim_space sid) (ar_UserID rt)))
    (\<lambda>b' x. E_Session (session_query (trim_space sid) (ar_UserID rt)) (Inr x) \<in> set b')"
    by (rule guarded_session_query) (auto simp: session_query_def)
next
  fix es resp assume "E_Session (session_query (trim_space sid) (ar_UserID rt)) (Inr resp) \<in> set (b @ es)"
  then show "guarded rt (b @ es) (case session_bound rt resp of Some e \<Rightarrow> fail e
      | None \<Rightarrow> (case resp of None \<Rightarrow> ret () | Some s \<Rightarrow> if session_live s \<or> t then ret ()
          else fail (Status FailedPrecondition (''session '' @ trim_space sid @ '' is not active: '' @ ps_status s))))
    (\<lambda>b' _. proven_session rt b' sid t)"
    by (cases resp) (auto intro!: guarded_fail guarded_ret intro: proven_sessionI simp: session_query_def
      split: option.split simp del: proven_session_append, simp_all add: session_bound_def)
qed

section \<open>The methods\<close>

lemma guarded_optional_portfolio [guards]:
  "guarded rt b (if 0 < pid then ensurePortfolioOwner env rt pid else ret ()) (\<lambda>b' _. pid \<le> 0 \<or> proven_portfolio rt b' pid)"
  by (auto intro!: guarded_ret guarded_weaken [OF guarded_portfolio])

lemma guarded_optional_session [guards]:
  "guarded rt b (if c then ensureSessionOwner env rt sid t else ret ()) (\<lambda>b' _. \<not> c \<or> proven_session rt b' sid t)"
  by (auto intro!: guarded_ret guarded_weaken [OF guarded_session])

lemma safe_GetSession [guards]: "safe rt b (dispatch_GetSession env rt msg)"
  unfolding dispatch_GetSession_def by (rule guards guarded_session_query | simp)+

lemma safe_ListSessions [guards]: "safe rt b (dispatch_ListSessions env rt msg)"
  unfolding dispatch_ListSessions_def by (rule guards | simp add: permitted_call_def)+

lemma safe_portfolio_read [guards]:
  "m = Rpc_GetPortfolioSnapshot \<or> m = Rpc_PreflightStrategySession \<Longrightarrow> safe rt b (dispatch_portfolio_read m env rt msg)"
  unfolding dispatch_portfolio_read_def by (rule guards | auto simp: permitted_call_def)+

lemma safe_UpdatePortfolioWalletState [guards]: "safe rt b (dispatch_UpdatePortfolioWalletState env rt msg)"
  unfolding dispatch_UpdatePortfolioWalletState_def by (rule guards | auto simp: permitted_call_def)+

lemma safe_GetActiveStrategy [guards]: "safe rt b (dispatch_GetActiveStrategy env rt msg)"
  unfolding dispatch_GetActiveStrategy_def by (rule guards | simp add: permitted_call_def)+

lemma safe_SaveSession [guards]: "safe rt b (dispatch_SaveSession env rt msg)"
  unfolding dispatch_SaveSession_def by (rule guards | simp add: permitted_call_def)+

lemma safe_UpdateSession [guards]: "safe rt b (dispatch_UpdateSession env rt msg)"
  unfolding dispatch_UpdateSession_def by (rule guards | simp add: permitted_call_def)+

lemma safe_SaveStrategyIndicators [guards]: "safe rt b (dispatch_SaveStrategyIndicators env rt msg)"
  unfolding dispatch_SaveStrategyIndicators_def by (rule guards | simp add: permitted_call_def)+

lemma safe_PlaceOrder [guards]: "safe rt b (dispatch_PlaceOrder env rt msg)"
  unfolding dispatch_PlaceOrder_def by (rule guards | auto simp: permitted_call_def)+

lemma safe_ResolveOrderAttempt [guards]: "safe rt b (dispatch_ResolveOrderAttempt env rt msg)"
  unfolding dispatch_ResolveOrderAttempt_def by (rule guards | simp add: permitted_call_def)+

lemma safe_GetMarketDataStreamStatus [guards]: "safe rt b (dispatch_GetMarketDataStreamStatus env rt msg)"
  unfolding dispatch_GetMarketDataStreamStatus_def by (rule guards | simp add: permitted_call_def)+

lemma safe_CreateOrRenewMarketDataLease [guards]: "safe rt b (dispatch_CreateOrRenewMarketDataLease env rt msg)"
  unfolding dispatch_CreateOrRenewMarketDataLease_def by (rule guards | auto simp: permitted_call_def)+

lemma safe_ReleaseMarketDataLease [guards]: "safe rt b (dispatch_ReleaseMarketDataLease env rt msg)"
  unfolding dispatch_ReleaseMarketDataLease_def by (rule guards | simp add: permitted_call_def)+

lemma safe_CreateSessionMarketDataSubscriptions [guards]: "safe rt b (dispatch_CreateSessionMarketDataSubscriptions env rt msg)"
  unfolding dispatch_CreateSessionMarketDataSubscriptions_def by (rule guards | simp add: permitted_call_def)+

lemma safe_ReleaseSessionMarketDataSubscriptions [guards]: "safe rt b (dispatch_ReleaseSessionMarketDataSubscriptions env rt msg)"
  unfolding dispatch_ReleaseSessionMarketDataSubscriptions_def by (rule guards | simp add: permitted_call_def)+

lemma safe_FetchKlines [guards]: "safe rt b (dispatch_FetchKlines env msg)"
  unfolding dispatch_FetchKlines_def by (rule guards)+

lemma safe_FetchBacktestPage [guards]: "safe rt b (dispatch_FetchBacktestPage env msg)"
  unfolding dispatch_FetchBacktestPage_def by (rule guards)+

lemma safe_emit_log [guards]: "safe rt b (emit (E_Log l t m))"
  unfolding emit_def by (rule guarded_step) (auto simp: permitted_def)

lemma safe_emitRuntimeLog [guards]: "safe rt b (emitRuntimeLog env rt msg)"
  unfolding emitRuntimeLog_def Let_def by (rule guards)+

lemma safe_publish_event [guards]: "permitted rt b (E_Notify e) \<Longrightarrow> safe rt b (publish_event env e)"
  unfolding publish_event_def by (rule guarded_step) auto

lemma safe_publishRuntimeNotification [guards]: "safe rt b (publishRuntimeNotification env rt msg)"
  unfolding publishRuntimeNotification_def Let_def
  by (rule guards | fastforce simp: permitted_def runtime_event_def Let_def)+

lemma safe_start_replay [guards]: "safe rt b (start_replay env (ar_UserID rt) (ar_RuntimeID rt) n)"
  unfolding start_replay_def by (rule guarded_step) (auto simp: permitted_def)

lemma safe_StartDebugReplay [guards]: "safe rt b (dispatch_StartDebugReplay env rt msg)"
  unfolding dispatch_StartDebugReplay_def by (rule guards | simp)+

section \<open>Dataset delivery\<close>

lemma safe_chunk [guards]: "proven_session rt b session False \<Longrightarrow> safe rt b (deliver_chunk d rt session ds text fin)"
  unfolding deliver_chunk_def Let_def by (rule guarded_step) (auto simp: permitted_def)

lemma safe_round: "proven_session rt b (dr_session req) False \<Longrightarrow> safe rt b (deliver_round co dl rt req step q start)"
  unfolding deliver_round_def
  by (rule guards | simp only: if_split | rule conjI impI | simp)+

lemma safe_loop:
  assumes "proven_session rt b (dr_session req) False"
  shows "safe rt b (deliver_loop co dl rt req step q start acc)"
proof -
  have "\<forall>b. proven_session rt b (dr_session req) False \<longrightarrow> (\<exists>es. fst y = h @ es \<and> confined rt b es)"
    if "deliver_loop co dl rt req step q start acc h = Some y" for y h
  proof (rule deliver_loop.raw_induct [OF _ that], intro allI impI)
    fix loop co dl rt req step q start acc h y b
    assume IH: "\<And>co dl rt req step q start acc h y. loop co dl rt req step q start acc h = Some y \<Longrightarrow>
        \<forall>b. proven_session rt b (dr_session req) False \<longrightarrow> (\<exists>es. fst y = h @ es \<and> confined rt b es)"
      and body: "(if start < dr_end req
         then (case deliver_round co dl rt req step q start h of
             None \<Rightarrow> None
           | Some (h', Inl e) \<Rightarrow> Some (h', Inl e)
           | Some (h', Inr None) \<Rightarrow> Some (h', Inr acc)
           | Some (h', Inr (Some (n, start'))) \<Rightarrow>
               if n < dr_chunk req \<or> dr_end req \<le> start' then Some (h', Inr (fst acc + 1, snd acc + n))
               else loop co dl rt req step q start' (fst acc + 1, snd acc + n) h')
         else Some (h, Inr acc)) = Some y"
      and proven: "proven_session rt b (dr_session req) False"
    show "\<exists>es. fst y = h @ es \<and> confined rt b es"
    proof (cases "start < dr_end req")
      case True
      then obtain h1 r1 where run: "deliver_round co dl rt req step q start h = Some (h1, r1)"
        using body by (cases "deliver_round co dl rt req step q start h") auto
      from safe_round [OF proven, unfolded guarded_def, rule_format, OF run]
      obtain es where es: "h1 = h @ es" "confined rt b es" by blast
      show ?thesis
      proof (cases "\<exists>n next. r1 = Inr (Some (n, next)) \<and> \<not> (n < dr_chunk req \<or> dr_end req \<le> next)")
        case again: True
        then obtain n "next" where r1: "r1 = Inr (Some (n, next))" "\<not> (n < dr_chunk req \<or> dr_end req \<le> next)" by blast
        have "loop co dl rt req step q next (fst acc + 1, snd acc + n) h1 = Some y" using body True run r1 by simp
        moreover have "proven_session rt (b @ es) (dr_session req) False" using proven by simp
        ultimately obtain es' where "fst y = h1 @ es'" "confined rt (b @ es) es'" using IH by blast
        then show ?thesis using es by (intro exI [of _ "es @ es'"]) simp
      next
        case False
        then have "fst y = h1" using body True run by (auto split: sum.splits option.splits if_splits)
        then show ?thesis using es by blast
      qed
    qed (use body in auto)
  qed
  then show ?thesis using assms by (fastforce simp: guarded_def)
qed

lemma safe_streams: "proven_session rt b (dr_session req) False \<Longrightarrow> safe rt b (deliver_streams co dl rt req qs acc)"
proof (induction qs arbitrary: b acc)
  case (Cons q qs)
  show ?case
    unfolding deliver_streams.simps
    by (rule guards Cons.IH safe_loop [where co = co and dl = dl] | simp add: Cons.prems)+
qed (simp add: guards)

lemma safe_deliverDataset: "proven_session rt b (dr_session req) False \<Longrightarrow> safe rt b (deliverDataset env rt req)"
  unfolding deliverDataset_def by (rule safe_streams guards | simp)+

lemma safe_DeliverDataset [guards]: "safe rt b (dispatch_DeliverDataset env rt msg)"
  unfolding dispatch_DeliverDataset_def by (rule safe_deliverDataset guards | simp)+

section \<open>What reaches the services\<close>

lemma safe_dispatch: "safe rt b (DispatchRuntimeRequest env rt method msg)"
proof -
  have "safe rt b (handler env rt msg)" if "(name, handler) \<in> set platform_methods" for name handler
    using that unfolding platform_methods_def by (auto intro: guards)
  then show ?thesis unfolding DispatchRuntimeRequest_def by (intro guards) (auto dest: map_of_SomeD)
qed


end
