(* ===== verification/DatasetClaims.thy ===== *)
theory DatasetClaims
  imports PlatformClaims
begin

text \<open>
  The bars a runtime asks for over its stream: every dispatch returns when the bar query answers within its range; a
  dataset delivery sends exactly the stored bars, cut into chunks, and then the end mark; and what becomes of a
  backtest page.
\<close>

section \<open>Returning\<close>

definition returns :: "'a proxied \<Rightarrow> bool" where
  "returns m \<longleftrightarrow> (\<forall>h. m h \<noteq> None)"

named_theorems total_rules \<open>steps that return\<close>

lemma returns_basic [total_rules]: "returns (ret x)" "returns (fail e)" "returns (of_result r)" "returns (not_configured w)"
  "returns (call c m rq)" "returns (fetch q w k)" "returns (emit ef)" "returns (publish_event env n)"
  "returns (start_replay env u i s)" "returns (deliver_chunk d rt s ds t f)" "returns (get_portfolio env p u)" "returns (get_session env rq)"
  by (simp_all add: returns_def ret_def fail_def of_result_def not_configured_def call_def fetch_def emit_def publish_event_def
    start_replay_def deliver_chunk_def get_portfolio_def get_session_def Let_def)

lemma returns_and_then [total_rules]: "returns m \<Longrightarrow> (\<And>x. returns (f x)) \<Longrightarrow> returns (and_then m f)"
  by (auto simp: returns_def and_then_def split: option.split sum.split)

lemma returns_refuse [total_rules]: "returns m \<Longrightarrow> returns (refuse c k t m)"
  by (simp add: refuse_def total_rules)

lemma returns_own [total_rules]: "returns m \<Longrightarrow> returns (own_user rt u m)" "returns m \<Longrightarrow> returns (own_runtime rt w r m)"
  by (simp_all add: own_user_def own_runtime_def total_rules)

lemma returns_cases [total_rules]:
  "returns m \<Longrightarrow> (\<And>y. x = Some y \<Longrightarrow> returns (f y)) \<Longrightarrow> returns (case x of None \<Rightarrow> m | Some y \<Rightarrow> f y)"
  "(\<And>y. s = Inl y \<Longrightarrow> returns (g y)) \<Longrightarrow> (\<And>y. s = Inr y \<Longrightarrow> returns (k y)) \<Longrightarrow> returns (case s of Inl y \<Rightarrow> g y | Inr y \<Rightarrow> k y)"
  "(\<And>y z. p = (y, z) \<Longrightarrow> returns (u y z)) \<Longrightarrow> returns (case p of (y, z) \<Rightarrow> u y z)"
  "returns m \<Longrightarrow> returns m' \<Longrightarrow> returns (if c then m else m')"
  by (auto split: option.split sum.split prod.split)

lemma returns_checks [total_rules]: "returns (unpackRuntimePayload env m msg)" "returns (ensurePortfolioOwner env rt pid)"
  "returns (ensureSessionOwner env rt sid t)" "returns (deliver_round co dl rt req step q start)"
  unfolding unpackRuntimePayload_def ensurePortfolioOwner_def ensureSessionOwner_def deliver_round_def Let_def
  by (intro total_rules)+

text \<open>A bar query that answers within the range asked for, and bars of intervals with a step only.\<close>
definition in_range_query :: "(trace \<Rightarrow> kline_query \<Rightarrow> kline_row list result) \<Rightarrow> bool" where
  "in_range_query query \<longleftrightarrow> (\<forall>h q rows r. query h q = Inr rows \<longrightarrow> r \<in> set rows \<longrightarrow>
     (\<forall>step. intervalStepMS (kq_interval q) = Inr step \<longrightarrow> 0 < step \<and> kr_open_time r + step < 2 ^ 63) \<and>
     0 < kr_open_time r \<and> kq_start q \<le> kr_open_time r \<and> kr_open_time r < kq_end q)"

lemma round_progress:
  assumes "in_range_query (dl_query dl)" "intervalStepMS (kq_interval q) = Inr step"
    and "deliver_round co dl rt req step q start h = Some (h', Inr (Some (n, start')))"
  shows "start < start'"
proof -
  let ?q = "q\<lparr>kq_start := start, kq_end := dr_end req, kq_limit := dr_chunk req\<rparr>"
  obtain rows where rows: "dl_query dl h ?q = Inr rows" "rows \<noteq> []" "start' = wrap64 (kr_open_time (last rows) + step)"
    using assms(3) by (auto simp: deliver_round_def and_then_def fetch_def of_result_def ret_def deliver_chunk_def Let_def
      split: sum.splits if_splits option.splits)
  have "last rows \<in> set rows" using rows(2) by simp
  moreover have "intervalStepMS (kq_interval ?q) = Inr step" using assms(2) by simp
  ultimately have "0 < step" "kr_open_time (last rows) + step < 2 ^ 63" "0 < kr_open_time (last rows)" "kq_start ?q \<le> kr_open_time (last rows)"
    using assms(1) rows(1) unfolding in_range_query_def by blast+
  then show ?thesis using rows(3) by (simp add: in64_def)
qed

lemma returns_loop:
  assumes "in_range_query (dl_query dl)" "intervalStepMS (kq_interval q) = Inr step"
  shows "deliver_loop co dl rt req step q start acc h \<noteq> None"
proof (induction "nat (dr_end req - start)" arbitrary: start acc h rule: less_induct)
  case less
  show ?case
  proof (cases "start < dr_end req")
    case True
    obtain h1 r1 where run: "deliver_round co dl rt req step q start h = Some (h1, r1)"
      using returns_checks(4) unfolding returns_def by fastforce
    have "deliver_loop co dl rt req step q start' (fst acc + 1, snd acc + n) h1 \<noteq> None" if "r1 = Inr (Some (n, start'))" for n start'
      using round_progress [OF assms run [unfolded that]] True by (intro less) simp
    then show ?thesis using True run by (subst deliver_loop.simps) (auto split: sum.split option.split)
  qed (simp add: deliver_loop.simps)
qed

lemma returns_streams:
  assumes "in_range_query (dl_query dl)"
  shows "returns (deliver_streams co dl rt req qs acc)"
proof (induction qs arbitrary: acc)
  case (Cons q qs)
  have "returns (deliver_loop co dl rt req step q (dr_start req) acc)" if "intervalStepMS (kq_interval q) = Inr step" for step
    unfolding returns_def using returns_loop [OF assms that] by blast
  then show ?case unfolding deliver_streams.simps by (intro total_rules Cons.IH) simp_all
qed (simp add: total_rules)


section \<open>What a delivery sends\<close>

fun chunks_of :: "nat \<Rightarrow> 'a list \<Rightarrow> 'a list list" where
  "chunks_of n xs = (if xs = [] \<or> n = 0 then [] else take n xs # chunks_of n (drop n xs))"

declare chunks_of.simps [simp del]

lemma chunks_of_Nil [simp]: "chunks_of n [] = []"
  by (simp add: chunks_of.simps)

lemma concat_chunks_of: "0 < n \<Longrightarrow> concat (chunks_of n xs) = xs"
proof (induction n xs rule: chunks_of.induct)
  case (1 n xs)
  then show ?case by (subst chunks_of.simps) auto
qed

definition spaced :: "int \<Rightarrow> kline_row list \<Rightarrow> bool" where
  "spaced step xs \<longleftrightarrow> 0 < step \<and> sorted_wrt (\<lambda>a b. kr_open_time a + step \<le> kr_open_time b) xs \<and>
     list_all (\<lambda>r. 0 < kr_open_time r \<and> kr_open_time r + step < 2 ^ 63) xs"

definition bars_between :: "int \<Rightarrow> int \<Rightarrow> kline_row list \<Rightarrow> kline_row list" where
  "bars_between s e xs = filter (\<lambda>r. s \<le> kr_open_time r \<and> kr_open_time r < e) xs"

lemma spaced_filter: "spaced step xs \<Longrightarrow> spaced step (filter P xs)"
  by (auto simp: spaced_def sorted_wrt_filter list_all_iff)

text \<open>After a full chunk, the bars from one step past its last bar on are the bars it left.\<close>
lemma bars_after_chunk:
  assumes "spaced step xs" "0 < n" "bars_between s e xs \<noteq> []"
  shows "bars_between (kr_open_time (last (take n (bars_between s e xs))) + step) e xs = drop n (bars_between s e xs)"
proof -
  let ?b = "bars_between s e xs" let ?t = "take n ?b" let ?l = "last ?t"
  have sp: "spaced step ?b" unfolding bars_between_def by (rule spaced_filter) (rule assms)
  have t: "?t \<noteq> []" using assms by simp
  then have l: "?l \<in> set ?t" by simp
  then have "?l \<in> set ?b" by (rule in_set_takeD)
  then have ls: "s \<le> kr_open_time ?l" by (simp add: bars_between_def)
  have step: "0 < step" using sp by (simp add: spaced_def)
  have eq: "bars_between (kr_open_time ?l + step) e xs = filter (\<lambda>r. kr_open_time ?l + step \<le> kr_open_time r) ?b"
    using ls step unfolding bars_between_def filter_filter by (intro filter_cong refl) auto
  have w: "sorted_wrt (\<lambda>a b. kr_open_time a + step \<le> kr_open_time b) (?t @ drop n ?b)"
    using sp by (simp add: spaced_def)
  then have late: "\<forall>r\<in>set (drop n ?b). kr_open_time ?l + step \<le> kr_open_time r"
    using l unfolding sorted_wrt_append by blast
  have "sorted_wrt (\<lambda>a b. kr_open_time a + step \<le> kr_open_time b) (butlast ?t @ [?l])"
  proof -
    have "sorted_wrt (\<lambda>a b. kr_open_time a + step \<le> kr_open_time b) ?t" using w unfolding sorted_wrt_append by blast
    then show ?thesis by (simp only: append_butlast_last_id [OF t])
  qed
  then have "\<forall>r\<in>set (butlast ?t @ [?l]). kr_open_time r < kr_open_time ?l + step"
    using step unfolding sorted_wrt_append by fastforce
  then have early: "\<forall>r\<in>set ?t. \<not> kr_open_time ?l + step \<le> kr_open_time r" unfolding append_butlast_last_id [OF t] not_le .
  have "filter (\<lambda>r. kr_open_time ?l + step \<le> kr_open_time r) (?t @ drop n ?b) = drop n ?b"
    unfolding filter_append filter_False [OF early] filter_True [OF late] by simp
  then show ?thesis unfolding eq by simp
qed

definition delivered :: "trace \<Rightarrow> (string \<times> string \<times> bool) list" where
  "delivered es = concat (map (\<lambda>e. case e of E_Chunk d \<Rightarrow> [(dsd_dataset d, dsd_payload d, dsd_end d)] | _ \<Rightarrow> []) es)"

lemma delivered_append [simp]: "delivered (xs @ ys) = delivered xs @ delivered ys"
  by (simp add: delivered_def)

definition chunk_text :: "codec \<Rightarrow> kline_row list \<Rightarrow> string" where
  "chunk_text co rows = (case klineRowsToDatasetPayload co rows of Inr t \<Rightarrow> t | Inl e \<Rightarrow> '''')"

definition stream_of :: "kline_query \<Rightarrow> kline_query" where
  "stream_of q = q\<lparr>kq_start := 0, kq_end := 0, kq_limit := 0\<rparr>"

definition stream_chunks :: "codec \<Rightarrow> dataset_request \<Rightarrow> (kline_query \<Rightarrow> kline_row list) \<Rightarrow> int \<Rightarrow> kline_query \<Rightarrow> (string \<times> string \<times> bool) list" where
  "stream_chunks co req table start q = map (\<lambda>c. (datasetIDForKlineStream q, chunk_text co c, False))
     (chunks_of (nat (dr_chunk req)) (bars_between start (dr_end req) (table (stream_of q))))"

definition table_query :: "(kline_query \<Rightarrow> kline_row list) \<Rightarrow> trace \<Rightarrow> kline_query \<Rightarrow> kline_row list result" where
  "table_query table h q = Inr (take (nat (kq_limit q)) (bars_between (kq_start q) (kq_end q) (table (stream_of q))))"

definition accepting :: "(trace \<Rightarrow> dataset_delivery \<Rightarrow> go_error option) \<Rightarrow> codec \<Rightarrow> bool" where
  "accepting dlv co \<longleftrightarrow> (\<forall>h d. dlv h d = None) \<and> (\<forall>rows. \<exists>t. klineRowsToDatasetPayload co rows = Inr t)"

lemma round_table:
  assumes "accepting (dl_deliver dl) co" "dl_query dl = table_query table"
    and "rows = take (nat (dr_chunk req)) (bars_between start (dr_end req) (table (stream_of q)))"
  shows "\<exists>es. deliver_round co dl rt req step q start h = Some (h @ es, Inr (if rows = [] then None
      else Some (int (length rows), wrap64 (kr_open_time (last rows) + step)))) \<and>
    delivered es = (if rows = [] then [] else [(datasetIDForKlineStream q, chunk_text co rows, False)])"
proof -
  have q: "stream_of (q\<lparr>kq_start := start, kq_end := dr_end req, kq_limit := dr_chunk req\<rparr>) = stream_of q" by (simp add: stream_of_def)
  obtain t where t: "klineRowsToDatasetPayload co rows = Inr t" using assms(1) unfolding accepting_def by blast
  show ?thesis
    using assms(1) t unfolding deliver_round_def and_then_def fetch_def assms(2) table_query_def q
    by (auto simp: assms(3) [symmetric] ret_def of_result_def deliver_chunk_def accepting_def delivered_def chunk_text_def Let_def)
qed

lemma loop_table:
  assumes "accepting (dl_deliver dl) co" "dl_query dl = table_query table" "spaced step (table (stream_of q))" "0 < dr_chunk req"
  shows "\<exists>es acc'. deliver_loop co dl rt req step q start acc h = Some (h @ es, Inr acc') \<and>
    delivered es = stream_chunks co req table start q"
proof (induction "nat (dr_end req - start)" arbitrary: start acc h rule: less_induct)
  case less
  let ?xs = "table (stream_of q)" let ?n = "nat (dr_chunk req)" let ?b = "bars_between start (dr_end req) ?xs"
  define rows where "rows = take ?n ?b"
  obtain es where run: "deliver_round co dl rt req step q start h = Some (h @ es, Inr (if rows = [] then None
      else Some (int (length rows), wrap64 (kr_open_time (last rows) + step))))"
    and es: "delivered es = (if rows = [] then [] else [(datasetIDForKlineStream q, chunk_text co rows, False)])"
    using round_table [OF assms(1,2) rows_def] by blast
  show ?case
  proof (cases "start < dr_end req \<and> rows \<noteq> []")
    case False
    have "?b = []" using False assms(4) by (auto simp: rows_def bars_between_def filter_empty_conv)
    then have "stream_chunks co req table start q = []" by (simp add: stream_chunks_def)
    then show ?thesis using False run es
      by (cases "start < dr_end req") (auto simp: deliver_loop.simps [of co dl rt req step q start] delivered_def)
  next
    case True
    define start' where "start' = kr_open_time (last rows) + step"
    have "last rows \<in> set ?b" using True unfolding rows_def by (metis in_set_takeD last_in_set)
    then have l: "start \<le> kr_open_time (last rows)" "last rows \<in> set ?xs" by (auto simp: bars_between_def)
    then have w: "wrap64 start' = start'" "start < start'"
      using assms(3) unfolding spaced_def list_all_iff by (auto simp: in64_def start'_def)
    have rest: "bars_between start' (dr_end req) ?xs = drop ?n ?b"
      using bars_after_chunk [OF assms(3), of ?n start "dr_end req"] True assms(4) unfolding start'_def rows_def by auto
    have ch: "stream_chunks co req table start q = (datasetIDForKlineStream q, chunk_text co rows, False) # stream_chunks co req table start' q"
      using True assms(4) unfolding stream_chunks_def rest by (subst chunks_of.simps) (auto simp: rows_def)
    show ?thesis
    proof (cases "int (length rows) < dr_chunk req \<or> dr_end req \<le> start'")
      case stop: True
      have "drop ?n ?b = []"
      proof (cases "dr_end req \<le> start'")
        case True
        then show ?thesis unfolding rest [symmetric] by (auto simp: bars_between_def filter_empty_conv)
      next
        case False
        then show ?thesis using stop by (auto simp: rows_def min_def split: if_splits)
      qed
      then have "stream_chunks co req table start' q = []" unfolding stream_chunks_def rest by simp
      then show ?thesis using True stop run es ch w
        by (intro exI [of _ es]) (auto simp: deliver_loop.simps [of co dl rt req step q start] start'_def)
    next
      case False
      then have "nat (dr_end req - start') < nat (dr_end req - start)" using True w by simp
      then obtain es' acc' where "deliver_loop co dl rt req step q start' (fst acc + 1, snd acc + int (length rows)) (h @ es) = Some ((h @ es) @ es', Inr acc')"
        "delivered es' = stream_chunks co req table start' q" using less by blast
      then show ?thesis using True False run es ch w
        by (intro exI [of _ "es @ es'"]) (auto simp: deliver_loop.simps [of co dl rt req step q start] start'_def)
    qed
  qed
qed

lemma streams_table:
  assumes "accepting (dl_deliver dl) co" "dl_query dl = table_query table" "0 < dr_chunk req"
    and "\<And>q. q \<in> set qs \<Longrightarrow> \<exists>step. intervalStepMS (kq_interval q) = Inr step \<and> spaced step (table (stream_of q))"
  shows "\<exists>es acc'. deliver_streams co dl rt req qs acc h = Some (h @ es, Inr acc') \<and>
    delivered es = concat (map (stream_chunks co req table (dr_start req)) qs)"
  using assms(4)
proof (induction qs arbitrary: acc h)
  case Nil
  then show ?case by (simp add: ret_def delivered_def)
next
  case (Cons q qs)
  obtain step where step: "intervalStepMS (kq_interval q) = Inr step" "spaced step (table (stream_of q))" using Cons.prems by auto
  obtain es acc1 where 1: "deliver_loop co dl rt req step q (dr_start req) acc h = Some (h @ es, Inr acc1)"
    "delivered es = stream_chunks co req table (dr_start req) q" using loop_table [OF assms(1,2) step(2) assms(3)] by blast
  obtain es' acc' where 2: "deliver_streams co dl rt req qs acc1 (h @ es) = Some ((h @ es) @ es', Inr acc')"
    "delivered es' = concat (map (stream_chunks co req table (dr_start req)) qs)" using Cons by (metis list.set_intros(2))
  show ?case using 1 2 step by (intro exI [of _ "es @ es'"]) (simp add: and_then_def)
qed

text \<open>C20. From a table of bars a step apart, a dataset delivery sends for every stream, in order, each stored bar of the
  range exactly once, cut into chunks of the requested size, and then the end mark.\<close>

theorem dataset_delivery_exact:
  assumes "pe_klines env = Some (table_query table)" "pe_deliver env = Some dlv" "accepting dlv (pe_codec env)" "0 < dr_chunk req"
    and "\<And>q. q \<in> set (dr_streams req) \<Longrightarrow> \<exists>step. intervalStepMS (kq_interval q) = Inr step \<and> spaced step (table (stream_of q))"
  shows "\<exists>es r. deliverDataset env rt req h = Some (h @ es, r) \<and>
    delivered es = concat (map (stream_chunks (pe_codec env) req table (dr_start req)) (dr_streams req)) @
      [(''dataset:'' @ dr_session req, end_payload, True)]"
proof -
  let ?dl = "\<lparr>dl_query = table_query table, dl_deliver = dlv\<rparr>"
  obtain es acc where "deliver_streams (pe_codec env) ?dl rt req (dr_streams req) (0, 0) h = Some (h @ es, Inr acc)"
    "delivered es = concat (map (stream_chunks (pe_codec env) req table (dr_start req)) (dr_streams req))"
    using streams_table [of ?dl "pe_codec env" table req "dr_streams req" rt "(0, 0)" h] assms by auto
  then show ?thesis using assms(1-3)
    by (cases acc) (auto simp: deliverDataset_def and_then_def deliver_chunk_def of_result_def accepting_def delivered_def Let_def)
qed

lemma in_range_table_query:
  assumes "\<And>q. spaced 60000 (table q)" "\<And>q. kq_interval q \<noteq> ''1m'' \<Longrightarrow> table (stream_of q) = []"
  shows "in_range_query (table_query table)"
  unfolding in_range_query_def table_query_def
proof (intro allI impI)
  fix h q rows r
  assume rows: "Inr (take (nat (kq_limit q)) (bars_between (kq_start q) (kq_end q) (table (stream_of q)))) = Inr rows" "r \<in> set rows"
  then have r: "r \<in> set (bars_between (kq_start q) (kq_end q) (table (stream_of q)))" by (auto dest: in_set_takeD)
  then have "r \<in> set (table (stream_of q))" by (simp add: bars_between_def)
  moreover have "kq_interval q = ''1m''" using r assms(2) by (force simp: bars_between_def)
  moreover have "spaced 60000 (table (stream_of q))" by (rule assms)
  ultimately show "(\<forall>step. intervalStepMS (kq_interval q) = Inr step \<longrightarrow> 0 < step \<and> kr_open_time r + step < 2 ^ 63) \<and>
    0 < kr_open_time r \<and> kq_start q \<le> kr_open_time r \<and> kr_open_time r < kq_end q"
    using r by (auto simp: step_1m spaced_def list_all_iff bars_between_def)
qed

definition sample_table :: "kline_query \<Rightarrow> kline_row list" where
  "sample_table q = (if kq_interval q = ''1m'' then [bar_at 60000, bar_at 120000, bar_at 180000] else [])"

lemma sample_table_spaced: "spaced 60000 (sample_table q)"
  by (simp add: spaced_def sample_table_def bar_at_def)

definition sample_codec :: "fields \<Rightarrow> codec" where
  "sample_codec fs = \<lparr>co_struct = (\<lambda>_. Inr fs), co_json = (\<lambda>v. Some (concat (strings_of v))), co_utf8 = (\<lambda>_. True), co_interface = id\<rparr>"

definition sample_session :: core_session where
  "sample_session = \<lparr>ps_user = 7, ps_runtime = ''rt'', ps_status = ''running'', ps_rest = ''''\<rparr>"

definition sample_platform :: "fields \<Rightarrow> platform_env" where
  "sample_platform fs = \<lparr>pe_codec = sample_codec fs, pe_unmarshal = (\<lambda>_ _. Inr (session_query ''s1'' 0)),
     pe_portfolio = Some \<lparr>pc_portfolio = (\<lambda>_ _ u. Inr (Some u)), pc_session = (\<lambda>_ _. Inr (Some sample_session)),
       pc_call = (\<lambda>_ _ _. Inr \<lparr>type_url = ''any'', any_value = ''''\<rparr>)\<rparr>,
     pe_order = None, pe_market = None, pe_klines = Some (table_query sample_table), pe_deliver = Some (\<lambda>_ _. None), pe_replay = None,
     pe_publish = None\<rparr>"

definition sample_dataset :: dataset_request where
  "sample_dataset = \<lparr>dr_session = ''s1'', dr_runtime = '''', dr_start = 60000, dr_end = 300000, dr_chunk = 2,
     dr_streams = [\<lparr>kq_exchange = ''binance'', kq_market = ''spot'', kq_symbol = ''BTCUSDT'', kq_interval = ''1m'', kq_start = 0, kq_end = 0, kq_limit = 0\<rparr>]\<rparr>"


theorem dataset_delivery_exact_witness:
  "\<exists>es r. deliverDataset (sample_platform []) (sample_runtime ''r1'' ''k1'' 7) sample_dataset [] = Some (es, r) \<and> length (delivered es) = 3"
proof -
  have "accepting (\<lambda>_ _. None) (sample_codec [])" by (simp add: accepting_def sample_codec_def klineRowsToDatasetPayload_def)
  then have "\<exists>es r. deliverDataset (sample_platform []) (sample_runtime ''r1'' ''k1'' 7) sample_dataset [] = Some ([] @ es, r) \<and>
    delivered es = concat (map (stream_chunks (pe_codec (sample_platform [])) sample_dataset sample_table (dr_start sample_dataset)) (dr_streams sample_dataset)) @
      [(''dataset:'' @ dr_session sample_dataset, end_payload, True)]"
    by (intro dataset_delivery_exact) (auto simp: sample_platform_def sample_dataset_def step_1m sample_table_spaced)
  moreover have "length (stream_chunks co sample_dataset sample_table 60000 (hd (dr_streams sample_dataset))) = 2" for co
    by (simp add: stream_chunks_def sample_dataset_def sample_table_def stream_of_def bars_between_def bar_at_def chunks_of.simps)
  ultimately show ?thesis by (auto simp: sample_dataset_def)
qed

section \<open>Backtest pages\<close>

lemma struct_rows_ok:
  assumes "\<And>s. co_utf8 co s"
  shows "struct_rows co rows = Inr (map (\<lambda>r. AObj (row_fields float_time r)) rows)"
proof -
  have "list_all (co_utf8 co) xs" for xs using assms by (induction xs) auto
  then show ?thesis by (induction rows) (auto simp: new_struct_def)
qed

definition stored_bars :: "mdq_config \<Rightarrow> (string \<Rightarrow> string \<Rightarrow> db_row list) \<Rightarrow> kline_query \<Rightarrow> db_row list" where
  "stored_bars cfg content req = concat (map (year_rows cfg content req) (yearsInRange (kq_start req) (kq_end req)))"

text \<open>C22. The page of a backtest holds at most 5000 bars, the first ones stored in the range after the cursor, because the
  bar query clamps the page size of 8192; and it says that there are no more, however many bars the range holds.\<close>

theorem backtest_page_exact:
  assumes "serves kenv content" "is_ok (dsnForYear cfg ''binance'' 1970)"
    and "pe_klines env = Some (\<lambda>_. FetchKlines kenv (Some cfg))" "\<And>s. co_utf8 (pe_codec env) s"
    and "unpackBacktestPagePayload (pe_codec env) msg = Inr q" "normalizeKlineQuery q = req" "validateKlineQuery req = None"
  shows "\<exists>page. dispatch_FetchBacktestPage env msg h = Some (h @ [E_Fetch q], Inr (M_Struct page)) \<and>
    gm_get page ''has_more'' = Some (ABool False) \<and>
    gm_get page ''count'' = Some (ANum (float_of_int (int (min 5000 (length (stored_bars cfg content req))))))"
proof -
  have "kq_limit q = 8192"
  proof (cases "unpack_struct (pe_codec env) msg")
    case (Inr fs)
    then show ?thesis using assms(5)
      by (cases "intervalStepMS (lowered fs ''interval'')") (auto simp: unpackBacktestPagePayload_def backtestPageSize_def Let_def)
  qed (use assms(5) in \<open>simp add: unpackBacktestPagePayload_def\<close>)
  then have lim: "kq_limit req = 8192" using assms(6) by (auto simp: normalizeKlineQuery_def Let_def)
  define rows where "rows = map (kline_of req) (take 5000 (stored_bars cfg content req))"
  have n: "length rows = min 5000 (length (stored_bars cfg content req))" by (simp add: rows_def min.commute)
  have f: "FetchKlines kenv (Some cfg) q = Inr rows"
    using fetch_exact [OF assms(1,2,6,7)] lim
    by (simp add: rows_def stored_bars_def kline_limit_def maxKlineFetchLimit_def Let_def)
  have u: "list_all (co_utf8 (pe_codec env)) xs" for xs using assms(4) by (induction xs) auto
  have c: "gm_get [(''klines'', v), (''count'', w)] ''count'' = Some w" for v w :: any_value by (simp add: gm_get_def)
  have "int (length rows) \<noteq> 8192" unfolding n by simp
  then show ?thesis using n c
    by (simp add: dispatch_FetchBacktestPage_def and_then_def of_result_def assms(3,5) fetch_def f klineRowsToBacktestPageStruct_def
      klineRowsToStruct_def struct_rows_ok [OF assms(4)] new_struct_def u assms(4) backtestPageSize_def del: list_all_append)
qed

definition page_fields :: fields where
  "page_fields = [(''market'', AStr ''spot''), (''symbol'', AStr ''BTCUSDT''), (''interval'', AStr ''1m''),
     (''start_after_time_ms'', ANum (float_of_int 60000)), (''end_time_ms'', ANum (float_of_int 400000000))]"

definition page_query :: kline_query where
  "page_query = \<lparr>kq_exchange = ''binance'', kq_market = ''spot'', kq_symbol = ''BTCUSDT'', kq_interval = ''1m'',
     kq_start = 120000, kq_end = 400000000, kq_limit = 8192\<rparr>"

definition long_index :: "int list" where "long_index = [2..6001]"

definition long_content :: "string \<Rightarrow> string \<Rightarrow> db_row list" where
  "long_content dsn tab = (if tab = ''spot_klines_btcusdt_1m'' then map (\<lambda>i. sample_bar (60000 * i)) long_index else [])"

lemma page_unpacked: "unpackBacktestPagePayload (sample_codec page_fields) (Some m) = Inr page_query"
proof -
  have "lowered page_fields ''interval'' = ''1m''" "lowered page_fields ''exchange'' = ''''" "lowered page_fields ''market'' = ''spot''"
    "to_upper (trim_space (stringField page_fields ''symbol'')) = ''BTCUSDT''"
    by (simp_all add: lowered_def stringField_def page_fields_def gm_get_def string_eval)
  moreover have "int_field page_fields ''start_after_time_ms'' = 60000" "int_field page_fields ''end_time_ms'' = 400000000"
    by (simp_all add: int_field_def numberField_def page_fields_def gm_get_def int_float_roundtrip)
  moreover have "wrap64 120000 = 120000" by (rule wrap64_id) (simp add: in64_def)
  ultimately show ?thesis
    by (simp add: unpackBacktestPagePayload_def unpack_struct_def sample_codec_def step_1m page_query_def backtestPageSize_def binance_if_empty_def)
qed

lemma page_normal: "normalizeKlineQuery page_query = page_query"
  by (simp add: normalizeKlineQuery_def page_query_def string_eval)

lemma page_valid: "validateKlineQuery page_query = None"
  by (simp add: validateKlineQuery_def page_query_def string_eval)

lemma page_stored: "length (stored_bars sample_config long_content page_query) = 6000"
proof -
  have y: "yearsInRange 120000 400000000 = [1970]" by code_simp
  obtain dsn where d: "dsnForYear sample_config ''binance'' 1970 = Inr dsn" using sample_dsn_ok by (auto simp: is_ok_iff)
  have t: "klineTableName ''spot'' ''BTCUSDT'' ''1m'' = ''spot_klines_btcusdt_1m''" by (simp add: klineTableName_def string_eval)
  have "filter (in_range page_query) (map (\<lambda>i. sample_bar (60000 * i)) long_index) = map (\<lambda>i. sample_bar (60000 * i)) long_index"
  proof (rule filter_True)
    have "\<forall>i\<in>set long_index. 2 \<le> i \<and> i \<le> 6001" unfolding long_index_def set_upto by simp
    then show "\<forall>r\<in>set (map (\<lambda>i. sample_bar (60000 * i)) long_index). in_range page_query r"
      by (auto simp: in_range_def page_query_def sample_bar_def unix_milli_time_def millisecond_def)
  qed
  then have "year_rows sample_config long_content page_query 1970 = map (\<lambda>i. sample_bar (60000 * i)) long_index"
    by (simp add: year_rows_def page_query_def d t long_content_def)
  moreover have "length long_index = 6000" unfolding long_index_def length_upto by simp
  ultimately show ?thesis unfolding stored_bars_def by (simp add: page_query_def y)
qed

theorem backtest_page_exact_witness:
  "\<exists>page. dispatch_FetchBacktestPage (sample_platform page_fields\<lparr>pe_klines := Some (\<lambda>_. FetchKlines (table_env long_content) (Some sample_config))\<rparr>)
      (Some \<lparr>type_url = ''page'', any_value = ''''\<rparr>) [] = Some ([E_Fetch page_query], Inr (M_Struct page)) \<and>
    gm_get page ''has_more'' = Some (ABool False) \<and> gm_get page ''count'' = Some (ANum (float_of_int 5000))"
  using backtest_page_exact [OF table_env_serves sample_dsn_ok _ _ _ page_normal page_valid,
      of "sample_platform page_fields\<lparr>pe_klines := Some (\<lambda>_. FetchKlines (table_env long_content) (Some sample_config))\<rparr>" long_content "Some \<lparr>type_url = ''page'', any_value = ''''\<rparr>" "[]"]
  by (simp add: sample_platform_def page_unpacked page_stored) (simp add: sample_codec_def)

end
