(* ===== verification/LiveWorkers.thy ===== *)
theory LiveWorkers
  imports MarketLeases PlatformProxy
begin

text \<open>
  \<open>internal/runtimechannel/kafka_live_delivery.go\<close> and \<open>order_lifecycle_delivery.go\<close>: the two workers that carry
  live bars and order events to the connected runtimes. The bar worker reads and writes the delivery leases of the shared
  store and sends through the RuntimeChannel of its own instance; the broker, the JSON decoder, the clocks and the source of
  lease ids are parameters (\<open>worker_env\<close>). A step that ends in a Go panic is \<open>None\<close>. The order in which Go walks
  a map of topics is a parameter as well.
\<close>

section \<open>Routes and topics\<close>

text \<open>\<open>klineRoute\<close> has the fields of a stream key.\<close>
type_synonym kline_route = market_stream_key

definition klineTopicPrefix :: string where "klineTopicPrefix = ''md.kline''"

definition normalizeRoute :: "kline_route \<Rightarrow> kline_route" where
  "normalizeRoute r = (let kind = to_lower (trim_space (mk_kind r)) in
     \<lparr>mk_exchange = to_lower (trim_space (mk_exchange r)), mk_market = to_lower (trim_space (mk_market r)),
      mk_kind = (if kind = '''' then ''kline'' else kind), mk_symbol = to_upper (trim_space (mk_symbol r)),
      mk_interval = to_lower (trim_space (mk_interval r))\<rparr>)"

definition route_streamKey :: "kline_route \<Rightarrow> string" where
  "route_streamKey r = join ''/'' [mk_exchange r, mk_market r, mk_kind r, mk_symbol r, mk_interval r]"

definition topic_route :: "string \<Rightarrow> string \<Rightarrow> string \<Rightarrow> kline_route" where
  "topic_route exchange market interval = normalizeRoute
     \<lparr>mk_exchange = exchange, mk_market = market, mk_kind = ''kline'', mk_symbol = '''', mk_interval = interval\<rparr>"

definition klineTopic :: "string \<Rightarrow> string \<Rightarrow> string \<Rightarrow> string" where
  "klineTopic exchange market interval = (let r = topic_route exchange market interval in
     klineTopicPrefix @ ''.'' @ mk_exchange r @ ''.'' @ mk_market r @ ''.'' @ mk_interval r)"

fun split_on :: "char \<Rightarrow> string \<Rightarrow> string list" where
  "split_on c [] = [[]]"
| "split_on c (x # xs) = (if x = c then [] # split_on c xs else (case split_on c xs of [] \<Rightarrow> [[x]] | p # ps \<Rightarrow> (x # p) # ps))"

definition parseKlineTopic :: "string \<Rightarrow> kline_route result" where
  "parseKlineTopic topic = (case split_on CHR ''.'' (to_lower (trim_space topic)) of
     [a, b, exchange, market, interval] \<Rightarrow>
       if a @ ''.'' @ b = klineTopicPrefix then Inr (topic_route exchange market interval)
       else Inl (Plain (''not a kline topic: '' @ topic))
   | _ \<Rightarrow> Inl (Plain (''not a kline topic: '' @ topic)))"

lemma split_on_clean: "c \<notin> set x \<Longrightarrow> split_on c (x @ c # y) = x # split_on c y"
  by (induction x) auto

lemma split_on_last: "c \<notin> set x \<Longrightarrow> split_on c x = [x]"
  by (induction x) auto

definition topic_part :: "string \<Rightarrow> bool" where
  "topic_part s \<longleftrightarrow> list_all (\<lambda>c. plain c \<and> \<not> is_upper c \<and> c \<noteq> CHR ''.'') s"

lemma topic_part_simps:
  assumes "topic_part s"
  shows "to_lower s = s" "trim_space s = s" "CHR ''.'' \<notin> set s"
proof -
  have a: "list_all (\<lambda>c. \<not> is_upper c) s" "list_all plain s" "CHR ''.'' \<notin> set s"
    using assms unfolding topic_part_def list_all_iff by blast+
  show "to_lower s = s" "trim_space s = s" "CHR ''.'' \<notin> set s"
    using a by (simp_all only: lower_of_lower trim_no_space not_False_eq_True)
qed

text \<open>The worker reads back from the name of a topic exactly the route it names its topics after.\<close>

theorem kline_topic_roundtrip:
  assumes "topic_part exchange" "topic_part market" "topic_part interval"
  shows "parseKlineTopic (klineTopic exchange market interval) =
    Inr \<lparr>mk_exchange = exchange, mk_market = market, mk_kind = ''kline'', mk_symbol = '''', mk_interval = interval\<rparr>"
proof -
  have r: "topic_route exchange market interval =
    \<lparr>mk_exchange = exchange, mk_market = market, mk_kind = ''kline'', mk_symbol = '''', mk_interval = interval\<rparr>"
    using topic_part_simps [OF assms(1)] topic_part_simps [OF assms(2)] topic_part_simps [OF assms(3)]
    by (simp add: topic_route_def normalizeRoute_def string_eval)
  define t where "t = ''md'' @ CHR ''.'' # ''kline'' @ CHR ''.'' # exchange @ CHR ''.'' # market @ CHR ''.'' # interval"
  have k: "klineTopic exchange market interval = t" by (simp add: klineTopic_def r klineTopicPrefix_def t_def)
  have clean: "list_all plain s" "list_all (\<lambda>c. \<not> is_upper c) s" if "topic_part s" for s
    using that unfolding topic_part_def list_all_iff by blast+
  have literal: "list_all plain ''md.kline.''" "list_all (\<lambda>c. \<not> is_upper c) ''md.kline.''"
    "list_all plain ''.''" "list_all (\<lambda>c. \<not> is_upper c) ''.''" by (simp_all add: plain_def is_space_def is_upper_def)
  have t: "t = ''md.kline.'' @ exchange @ ''.'' @ market @ ''.'' @ interval" by (simp add: t_def)
  have "list_all plain t" "list_all (\<lambda>c. \<not> is_upper c) t"
    unfolding t by (simp_all only: list_all_append clean [OF assms(1)] clean [OF assms(2)] clean [OF assms(3)] literal simp_thms)
  then have c: "to_lower (trim_space t) = t" by (simp add: lower_of_lower trim_no_space)
  have "split_on CHR ''.'' t = [''md'', ''kline'', exchange, market, interval]"
    unfolding t_def using topic_part_simps(3) [OF assms(1)] topic_part_simps(3) [OF assms(2)] topic_part_simps(3) [OF assms(3)]
    by (simp add: split_on_clean split_on_last)
  then show ?thesis by (simp add: parseKlineTopic_def k c r klineTopicPrefix_def)
qed

theorem kline_topic_roundtrip_witness:
  "parseKlineTopic (klineTopic ''binance'' ''spot'' ''1m'') =
    Inr \<lparr>mk_exchange = ''binance'', mk_market = ''spot'', mk_kind = ''kline'', mk_symbol = '''', mk_interval = ''1m''\<rparr>"
  by (rule kline_topic_roundtrip) (simp_all add: topic_part_def plain_def string_eval)

section \<open>The bar worker\<close>

record worker =
  wk_routes :: "(kline_route, session_subscription list) gomap"
  wk_topics :: "(string, nat) gomap"
  wk_next_topic :: nat
  wk_consuming :: "(nat \<times> string \<times> int) list"
  wk_cancelled :: "nat list"
  wk_db :: market_db
  wk_channel :: channel_state
  wk_events :: "notification list"

text \<open>\<open>we_json\<close> is \<open>json.Unmarshal\<close> into a map: a JSON \<open>null\<close> makes it the nil map, \<open>Inr None\<close>.\<close>
record worker_env =
  we_owner :: string
  we_lease_ttl :: duration
  we_now :: go_time
  we_clock :: go_time
  we_lease_id :: "market_db \<Rightarrow> int \<Rightarrow> string"
  we_list :: "market_db \<Rightarrow> session_subscription list result"
  we_lease_error :: "int \<Rightarrow> go_error option"
  we_json :: "string \<Rightarrow> string + fields option"
  we_pack :: "fields \<Rightarrow> any_msg result"
  we_transfer :: "(live_batch \<Rightarrow> go_error option) option"
  we_partitions :: "string \<Rightarrow> int list result"
  we_consume :: "string \<Rightarrow> int \<Rightarrow> go_error option"
  we_topic_order :: "string list \<Rightarrow> string list"
  we_notifier :: bool

definition defaultStreamDeliveryLease :: duration where "defaultStreamDeliveryLease = 30 * second"
definition demoEnvironment :: int where "demoEnvironment = 1"
definition maxDemoKlineDelay :: duration where "maxDemoKlineDelay = minute"

definition NewKafkaLiveDeliveryWorker :: "worker_env \<Rightarrow> market_db \<Rightarrow> channel_state \<Rightarrow> worker_env \<times> worker" where
  "NewKafkaLiveDeliveryWorker env db ch =
     (env\<lparr>we_lease_ttl := (if we_lease_ttl env \<le> 0 then defaultStreamDeliveryLease else we_lease_ttl env)\<rparr>,
      \<lparr>wk_routes = [], wk_topics = [], wk_next_topic = 0, wk_consuming = [], wk_cancelled = [], wk_db = db, wk_channel = ch, wk_events = []\<rparr>)"

definition take_lease :: "worker_env \<Rightarrow> int \<Rightarrow> market_db \<Rightarrow> market_db \<times> delivery_lease result" where
  "take_lease env sub db = (case we_lease_error env sub of
     Some e \<Rightarrow> (db, Inl e)
   | None \<Rightarrow> CreateOrRenewStreamDeliveryLease_row (we_now env) (we_clock env) (we_lease_id env db sub) sub (we_owner env) (we_lease_ttl env) db)"

definition recordDeliveryFailure :: "worker_env \<Rightarrow> int \<Rightarrow> string \<Rightarrow> string \<Rightarrow> string \<Rightarrow> go_error \<Rightarrow> market_db \<Rightarrow> market_db" where
  "recordDeliveryFailure env sub topic key code cause db = RecordStreamDeliveryFailure (we_clock env)
     \<lparr>df_id = 0, df_subscription_id = sub, df_owner = we_owner env, df_topic = topic, df_stream_key = key, df_code = code,
      df_reason = err_text cause, df_first_seen_at = zero_time, df_last_seen_at = we_clock env, df_attempt_count = 1\<rparr> db"

definition sub_route :: "session_subscription \<Rightarrow> kline_route option" where
  "sub_route sub =
     (let r = normalizeRoute (ss_key sub) in
      if ss_status sub \<noteq> '''' \<and> ss_status sub \<noteq> ''active'' then None
      else if mk_exchange r = '''' \<or> mk_market r = '''' \<or> mk_kind r \<noteq> ''kline'' \<or> mk_symbol r = '''' \<or> mk_interval r = '''' then None
      else Some r)"

definition add_route :: "kline_route \<Rightarrow> session_subscription \<Rightarrow> (kline_route, session_subscription list) gomap
    \<Rightarrow> (kline_route, session_subscription list) gomap" where
  "add_route r sub m = gm_set r ((case gm_get m r of None \<Rightarrow> [] | Some ss \<Rightarrow> ss) @ [sub]) m"

text \<open>\<open>errors.Is(err, mdrepo.ErrPermissionDenied)\<close>: the lease is another instance's.\<close>
definition lease_denied :: "go_error \<Rightarrow> bool" where "lease_denied e = errors_Is e ErrPermissionDenied"

fun refresh_loop :: "worker_env \<Rightarrow> session_subscription list \<Rightarrow> (kline_route, session_subscription list) gomap \<Rightarrow> market_db
    \<Rightarrow> market_db \<times> (kline_route, session_subscription list) gomap result" where
  "refresh_loop env [] acc db = (db, Inr acc)"
| "refresh_loop env (sub # subs) acc db = (case sub_route sub of
     None \<Rightarrow> refresh_loop env subs acc db
   | Some r \<Rightarrow> (case take_lease env (ss_id sub) db of
       (db', Inr _) \<Rightarrow> refresh_loop env subs (add_route r (sub\<lparr>ss_key := r\<rparr>) acc) db'
     | (db', Inl e) \<Rightarrow>
         if lease_denied e then refresh_loop env subs acc db'
         else (recordDeliveryFailure env (ss_id sub) (klineTopic (mk_exchange r) (mk_market r) (mk_interval r)) (route_streamKey r) ''lease_error'' e db',
               Inl (error_prefix (''renew stream delivery lease for subscription '' @ format_int (ss_id sub) @ '': '') e))))"

definition refreshSubscriptions :: "worker_env \<Rightarrow> worker \<Rightarrow> worker \<times> go_error option" where
  "refreshSubscriptions env w = (case we_list env (wk_db w) of
     Inl e \<Rightarrow> (w, Some e)
   | Inr subs \<Rightarrow> (case refresh_loop env subs [] (wk_db w) of
       (db, Inl e) \<Rightarrow> (w\<lparr>wk_db := db\<rparr>, Some e)
     | (db, Inr routes) \<Rightarrow> (w\<lparr>wk_db := db, wk_routes := routes\<rparr>, None)))"

definition route_topic :: "kline_route \<Rightarrow> string" where
  "route_topic r = klineTopic (mk_exchange r) (mk_market r) (mk_interval r)"

definition activeTopics :: "worker \<Rightarrow> string list" where
  "activeTopics w = remdups (map (\<lambda>p. route_topic (fst p)) (wk_routes w))"

fun consume_all :: "worker_env \<Rightarrow> nat \<Rightarrow> string \<Rightarrow> int list \<Rightarrow> worker \<Rightarrow> worker \<times> go_error option" where
  "consume_all env i topic [] w = (w, None)"
| "consume_all env i topic (p # ps) w = (case we_consume env topic p of
     Some e \<Rightarrow> (w\<lparr>wk_cancelled := i # wk_cancelled w, wk_topics := gm_del topic (wk_topics w)\<rparr>,
       Some (error_prefix (''consume kafka partition '' @ topic @ ''/'' @ format_int p @ '': '') e))
   | None \<Rightarrow> consume_all env i topic ps (w\<lparr>wk_consuming := wk_consuming w @ [(i, topic, p)]\<rparr>))"

definition startTopicConsumer :: "worker_env \<Rightarrow> string \<Rightarrow> worker \<Rightarrow> worker \<times> go_error option" where
  "startTopicConsumer env topic w = (case we_partitions env topic of
     Inl e \<Rightarrow> (w, Some (error_prefix (''list kafka partitions for '' @ topic @ '': '') e))
   | Inr ps \<Rightarrow> (let i = Suc (wk_next_topic w) in
       consume_all env i topic ps (w\<lparr>wk_next_topic := i, wk_topics := gm_set topic i (wk_topics w)\<rparr>)))"

fun fail_subs :: "worker_env \<Rightarrow> string \<Rightarrow> string \<Rightarrow> string \<Rightarrow> go_error \<Rightarrow> session_subscription list \<Rightarrow> market_db \<Rightarrow> market_db" where
  "fail_subs env topic key code cause [] db = db"
| "fail_subs env topic key code cause (s # ss) db =
     fail_subs env topic key code cause ss (recordDeliveryFailure env (ss_id s) topic key code cause db)"

definition recordTopicConsumerFailure :: "worker_env \<Rightarrow> string \<Rightarrow> go_error \<Rightarrow> worker \<Rightarrow> worker" where
  "recordTopicConsumerFailure env topic cause w = w\<lparr>wk_db := fold (\<lambda>(r, subs) db.
     if route_topic r \<noteq> topic then db else fail_subs env topic (route_streamKey r) ''consumer_start_error'' cause subs db)
     (wk_routes w) (wk_db w)\<rparr>"

fun start_topics :: "worker_env \<Rightarrow> string list \<Rightarrow> worker \<Rightarrow> worker \<times> go_error option" where
  "start_topics env [] w = (w, None)"
| "start_topics env (t # ts) w =
     (if gm_get (wk_topics w) t \<noteq> None then start_topics env ts w
      else (case startTopicConsumer env t w of
          (w', Some e) \<Rightarrow> (recordTopicConsumerFailure env t e w', Some e)
        | (w', None) \<Rightarrow> start_topics env ts w'))"

definition ensureTopicConsumers :: "worker_env \<Rightarrow> worker \<Rightarrow> worker \<times> go_error option" where
  "ensureTopicConsumers env w = start_topics env (we_topic_order env (activeTopics w)) w"

definition stopTopicConsumers :: "worker \<Rightarrow> worker" where
  "stopTopicConsumers w = w\<lparr>wk_cancelled := map snd (wk_topics w) @ wk_cancelled w, wk_topics := []\<rparr>"

text \<open>The loop of \<open>Run\<close> over what its \<open>select\<close> sees: a tick (with what the outside answers then) or the end of the
  context. \<open>None\<close>: still running.\<close>
datatype worker_event = Tick worker_env | Context_done go_error

definition worker_round :: "worker_env \<Rightarrow> worker \<Rightarrow> worker \<times> go_error option" where
  "worker_round env w = (case refreshSubscriptions env w of
     (w', Some e) \<Rightarrow> (w', Some e)
   | (w', None) \<Rightarrow> ensureTopicConsumers env w')"

fun run_loop :: "worker_event list \<Rightarrow> worker \<Rightarrow> worker \<times> go_error option" where
  "run_loop [] w = (w, None)"
| "run_loop (Context_done e # evs) w = (stopTopicConsumers w, Some e)"
| "run_loop (Tick env # evs) w = (case worker_round env w of
     (w', Some e) \<Rightarrow> (w', Some e)
   | (w', None) \<Rightarrow> run_loop evs w')"

definition Run_live :: "bool \<Rightarrow> worker_env \<Rightarrow> go_error option \<Rightarrow> worker_event list \<Rightarrow> worker \<Rightarrow> worker \<times> go_error option" where
  "Run_live brokers env dial evs w =
     (if \<not> brokers then (w, Some (Plain ''market-data kafka brokers are not configured''))
      else if trim_space (we_owner env) = '''' then (w, Some (Plain ''owner instance id is required''))
      else (case dial of
          Some e \<Rightarrow> (w, Some (error_prefix ''create market-data kafka consumer: '' e))
        | None \<Rightarrow> run_loop (Tick env # evs) w))"

text \<open>The end of a partition consumer: \<open>clean\<close> when its context is done.\<close>
definition partition_ends :: "bool \<Rightarrow> nat \<Rightarrow> string \<Rightarrow> worker \<Rightarrow> worker" where
  "partition_ends clean i topic w =
     (if clean \<or> i \<in> set (wk_cancelled w) then w
      else w\<lparr>wk_cancelled := i # wk_cancelled w,
             wk_topics := (if gm_get (wk_topics w) topic = Some i then gm_del topic (wk_topics w) else wk_topics w)\<rparr>)"

section \<open>Bars\<close>

definition string_of_any :: "any_value option \<Rightarrow> string" where
  "string_of_any v = (case v of Some (AStr s) \<Rightarrow> s | _ \<Rightarrow> '''')"

text \<open>The cases \<open>encoding/json\<close> can produce: a number is a \<open>float64\<close>.\<close>
definition int64FromAny :: "any_value option \<Rightarrow> int option" where
  "int64FromAny v = (case v of
     Some (AInt i) \<Rightarrow> Some i
   | Some (ANum w) \<Rightarrow> Some (int64_of_float w)
   | Some (AStr s) \<Rightarrow> atoi (trim_space s)
   | _ \<Rightarrow> None)"

fun first_int :: "fields \<Rightarrow> string list \<Rightarrow> int" where
  "first_int fs [] = 0"
| "first_int fs (k # ks) = (case int64FromAny (gm_get fs k) of Some i \<Rightarrow> i | None \<Rightarrow> first_int fs ks)"

definition klineEventTimeMs :: "fields \<Rightarrow> int" where
  "klineEventTimeMs fs = first_int fs [''timestamp'', ''close_time'', ''close_time_ms'', ''event_time'']"

definition isStaleDemoKline :: "int \<Rightarrow> fields \<Rightarrow> go_time \<Rightarrow> bool" where
  "isStaleDemoKline environment fs now \<longleftrightarrow> environment = demoEnvironment \<and>
     (let t = klineEventTimeMs fs in 0 < t \<and> maxDemoKlineDelay div millisecond < wrap64 (time_unix_milli now - t))"

definition message_symbol :: "string \<Rightarrow> fields \<Rightarrow> string" where
  "message_symbol key fs = (let s = to_upper (trim_space (string_of_any (gm_get fs ''symbol''))) in
     if s = '''' then to_upper (trim_space key) else s)"

definition routeFromKlineMessage :: "worker_env \<Rightarrow> string \<Rightarrow> string \<Rightarrow> string \<Rightarrow> kline_route result" where
  "routeFromKlineMessage env topic key text = (case parseKlineTopic topic of
     Inl e \<Rightarrow> Inl e
   | Inr route \<Rightarrow> (case we_json env text of
       Inl e \<Rightarrow> Inl (Plain e)
     | Inr m \<Rightarrow> (let symbol = message_symbol key (case m of None \<Rightarrow> [] | Some fs \<Rightarrow> fs) in
         if symbol = '''' then Inl (Plain ''kline symbol is required'') else Inr (normalizeRoute (route\<lparr>mk_symbol := symbol\<rparr>)))))"

definition dropped_event :: "session_subscription \<Rightarrow> string \<Rightarrow> int \<Rightarrow> int \<Rightarrow> string \<Rightarrow> go_error \<Rightarrow> notification" where
  "dropped_event sub topic part off key cause =
     \<lparr>nt_schema_version = SchemaVersion, nt_event_id = '''', nt_created_at = zero_time, nt_user_id = ss_user_id sub,
      nt_category = CategorySystem, nt_event_type = EventRuntimeLiveDataDropped, nt_severity = SeverityWarn,
      nt_source_service = ''control-panel-service'', nt_runtime_id = ss_runtime_id sub, nt_runtime_name = '''', nt_portfolio_id = 0,
      nt_strategy_id = 0, nt_session_id = ss_session_id sub, nt_title = ''Live market data dropped'',
      nt_message = ''Live market data was dropped because the runtime channel is backpressured: '' @ key,
      nt_dedupe_key = ''runtime-live-data-dropped:'' @ ss_session_id sub @ '':'' @ key,
      nt_metadata = [(''stream_key'', key), (''topic'', topic), (''partition'', format_int part), (''offset'', format_int off),
        (''cause'', err_text cause)]\<rparr>"

definition notifyLiveDataDropped :: "worker_env \<Rightarrow> session_subscription \<Rightarrow> string \<Rightarrow> int \<Rightarrow> int \<Rightarrow> string \<Rightarrow> go_error \<Rightarrow> worker \<Rightarrow> worker" where
  "notifyLiveDataDropped env sub topic part off key cause w =
     (if \<not> we_notifier env \<or> ss_user_id sub \<le> 0 then w
      else w\<lparr>wk_events := wk_events w @ [dropped_event sub topic part off key cause]\<rparr>)"

definition note_progress :: "worker_env \<Rightarrow> session_subscription \<Rightarrow> string \<Rightarrow> int \<Rightarrow> int \<Rightarrow> string \<Rightarrow> worker \<Rightarrow> worker" where
  "note_progress env sub topic part off key w =
     (case RecordStreamDeliveryProgress (we_now env) (ss_id sub) (we_owner env) topic part off (we_clock env) (wk_db w) of
        (db, Inr _) \<Rightarrow> w\<lparr>wk_db := db\<rparr>
      | (db, Inl e) \<Rightarrow> w\<lparr>wk_db := recordDeliveryFailure env (ss_id sub) topic key ''progress_error'' e db\<rparr>)"

definition sub_batch :: "session_subscription \<Rightarrow> string \<Rightarrow> any_msg \<Rightarrow> live_batch" where
  "sub_batch sub key bar = \<lparr>lb_user = ss_user_id sub, lb_runtime = ss_runtime_id sub, lb_session = ss_session_id sub,
     lb_stream = key, lb_sequence = 0, lb_klines = [bar]\<rparr>"

definition deliver_to :: "worker_env \<Rightarrow> string \<Rightarrow> int \<Rightarrow> int \<Rightarrow> string \<Rightarrow> any_msg \<Rightarrow> session_subscription \<Rightarrow> worker \<Rightarrow> worker" where
  "deliver_to env topic part off key bar sub w =
     (case DeliverLiveKlineBatch (we_transfer env) (we_clock env) (sub_batch sub key bar) (wk_channel w) of
        (ch, None) \<Rightarrow> note_progress env sub topic part off key (w\<lparr>wk_channel := ch\<rparr>)
      | (ch, Some e) \<Rightarrow>
          (let w' = w\<lparr>wk_channel := ch, wk_db := recordDeliveryFailure env (ss_id sub) topic key ''delivery_error'' e (wk_db w)\<rparr>
           in if errors_Is e ErrRuntimeDataBackpressure then notifyLiveDataDropped env sub topic part off key e w' else w'))"

definition serve_sub :: "worker_env \<Rightarrow> string \<Rightarrow> int \<Rightarrow> int \<Rightarrow> string \<Rightarrow> fields \<Rightarrow> any_msg \<Rightarrow> session_subscription \<Rightarrow> worker \<Rightarrow> worker" where
  "serve_sub env topic part off key fs bar sub w = (case take_lease env (ss_id sub) (wk_db w) of
     (db, Inl e) \<Rightarrow>
       if lease_denied e then w\<lparr>wk_db := db\<rparr>
       else w\<lparr>wk_db := recordDeliveryFailure env (ss_id sub) topic key ''lease_error'' e db\<rparr>
   | (db, Inr _) \<Rightarrow>
       if isStaleDemoKline (ss_environment sub) fs (we_clock env) then note_progress env sub topic part off key (w\<lparr>wk_db := db\<rparr>)
       else deliver_to env topic part off key bar sub (w\<lparr>wk_db := db\<rparr>))"

definition route_subs :: "worker \<Rightarrow> kline_route \<Rightarrow> session_subscription list" where
  "route_subs w r = (case gm_get (wk_routes w) r of None \<Rightarrow> [] | Some ss \<Rightarrow> ss)"

definition stamped :: "kline_route \<Rightarrow> fields \<Rightarrow> fields" where
  "stamped r fs = gm_set ''interval'' (AStr (mk_interval r)) (gm_set ''market'' (AStr (mk_market r)) (gm_set ''symbol'' (AStr (mk_symbol r)) fs))"

text \<open>Writing to the nil map a JSON \<open>null\<close> decodes to is the panic.\<close>
definition handleKlineMessage :: "worker_env \<Rightarrow> string \<Rightarrow> string \<Rightarrow> string \<Rightarrow> int \<Rightarrow> int \<Rightarrow> worker \<Rightarrow> (worker \<times> go_error option) option" where
  "handleKlineMessage env topic key text part off w = (case parseKlineTopic topic of
     Inl e \<Rightarrow> Some (w, None)
   | Inr route \<Rightarrow> (case we_json env text of
       Inl e \<Rightarrow> Some (w, Some (Plain e))
     | Inr m \<Rightarrow>
         (let symbol = message_symbol key (case m of None \<Rightarrow> [] | Some fs \<Rightarrow> fs); r = normalizeRoute (route\<lparr>mk_symbol := symbol\<rparr>) in
          if symbol = '''' then Some (w, None)
          else (case m of
              None \<Rightarrow> None
            | Some fs0 \<Rightarrow>
                (let fs = stamped r fs0; subs = route_subs w r in
                 if subs = [] then Some (w, None)
                 else (case we_pack env fs of
                     Inl e \<Rightarrow> Some (w, Some e)
                   | Inr bar \<Rightarrow> Some (fold (serve_sub env topic part off (route_streamKey r) fs bar) subs w, None)))))))"

definition recordMessageDeliveryFailure :: "worker_env \<Rightarrow> string \<Rightarrow> string \<Rightarrow> string \<Rightarrow> go_error \<Rightarrow> worker \<Rightarrow> worker" where
  "recordMessageDeliveryFailure env topic key text cause w = (case routeFromKlineMessage env topic key text of
     Inl e \<Rightarrow> w
   | Inr r \<Rightarrow> w\<lparr>wk_db := fail_subs env topic (route_streamKey r) ''delivery_error'' cause (route_subs w r) (wk_db w)\<rparr>)"

text \<open>One message of \<open>consumePartition\<close>.\<close>
definition consume_message :: "worker_env \<Rightarrow> string \<Rightarrow> string \<Rightarrow> string \<Rightarrow> int \<Rightarrow> int \<Rightarrow> worker \<Rightarrow> worker option" where
  "consume_message env topic key text part off w = (case handleKlineMessage env topic key text part off w of
     None \<Rightarrow> None
   | Some (w', None) \<Rightarrow> Some w'
   | Some (w', Some e) \<Rightarrow> Some (recordMessageDeliveryFailure env topic key text e w'))"

section \<open>The order worker\<close>

record order_route =
  or_user :: int
  or_runtime :: string
  or_session :: string

record order_event =
  oe_id :: int
  oe_any :: "any_msg result"

record order_worker =
  ow_cursor :: "(string, int) gomap"
  ow_channel :: channel_state

fun order_routes :: "session_subscription list \<Rightarrow> string list \<Rightarrow> order_route list" where
  "order_routes [] seen = []"
| "order_routes (s # ss) seen =
     (let r = \<lparr>or_user = ss_user_id s, or_runtime = trim_space (ss_runtime_id s), or_session = trim_space (ss_session_id s)\<rparr>;
          key = or_runtime r @ nul @ or_session r in
      if or_user r \<le> 0 \<or> or_runtime r = '''' \<or> or_session r = '''' then order_routes ss seen
      else if key \<in> set seen then order_routes ss seen
      else r # order_routes ss (key # seen))"

definition activeRoutes :: "session_subscription list \<Rightarrow> order_route list" where
  "activeRoutes subs = order_routes subs []"

definition cursor_of :: "order_worker \<Rightarrow> string \<Rightarrow> int" where
  "cursor_of w s = (case gm_get (ow_cursor w) s of None \<Rightarrow> 0 | Some c \<Rightarrow> c)"

fun pack_events :: "order_event list \<Rightarrow> int \<Rightarrow> any_msg list \<Rightarrow> (any_msg list \<times> int) result" where
  "pack_events [] mx out = Inr (out, mx)"
| "pack_events (e # es) mx out = (case oe_any e of
     Inl err \<Rightarrow> Inl err
   | Inr a \<Rightarrow> pack_events es (if mx < oe_id e then oe_id e else mx) (out @ [a]))"

text \<open>\<open>source session after limit\<close> is the order service.\<close>
definition sync_route :: "(string \<Rightarrow> int \<Rightarrow> int \<Rightarrow> order_event list result) \<Rightarrow> int \<Rightarrow> order_route \<Rightarrow> order_worker \<Rightarrow> order_worker \<times> go_error option" where
  "sync_route source limit r w =
     (let after = cursor_of w (or_session r) in
      case source (or_session r) after limit of
        Inl e \<Rightarrow> (w, Some e)
      | Inr [] \<Rightarrow> (w, None)
      | Inr events \<Rightarrow> (case pack_events events after [] of
          Inl e \<Rightarrow> (w, Some e)
        | Inr (packed, mx) \<Rightarrow>
            (case DeliverOrderLifecycleBatch \<lparr>ob_user = or_user r, ob_runtime = or_runtime r, ob_session = or_session r,
                    ob_sequence = mx, ob_events = packed\<rparr> (ow_channel w) of
               (ch, Some e) \<Rightarrow> (w\<lparr>ow_channel := ch\<rparr>, Some e)
             | (ch, None) \<Rightarrow> (w\<lparr>ow_channel := ch, ow_cursor := gm_set (or_session r) mx (ow_cursor w)\<rparr>, None))))"

fun sync_routes :: "(string \<Rightarrow> int \<Rightarrow> int \<Rightarrow> order_event list result) \<Rightarrow> int \<Rightarrow> order_route list \<Rightarrow> order_worker \<Rightarrow> order_worker \<times> go_error option" where
  "sync_routes source limit [] w = (w, None)"
| "sync_routes source limit (r # rs) w = (case sync_route source limit r w of
     (w', Some e) \<Rightarrow> (w', Some e)
   | (w', None) \<Rightarrow> sync_routes source limit rs w')"

definition SyncOnce :: "session_subscription list result \<Rightarrow> (string \<Rightarrow> int \<Rightarrow> int \<Rightarrow> order_event list result) \<Rightarrow> int \<Rightarrow> order_worker
    \<Rightarrow> order_worker \<times> go_error option" where
  "SyncOnce subs source limit w = (case subs of
     Inl e \<Rightarrow> (w, Some e)
   | Inr ss \<Rightarrow> sync_routes source limit (activeRoutes ss) w)"

definition order_limit :: "int \<Rightarrow> int" where "order_limit l = (if l \<le> 0 then 100 else l)"

text \<open>\<open>Run\<close>: what each tick sees; an error is logged and the loop goes on.\<close>
type_synonym order_tick = "session_subscription list result \<times> (string \<Rightarrow> int \<Rightarrow> int \<Rightarrow> order_event list result)"

fun run_orders :: "int \<Rightarrow> order_tick list \<Rightarrow> order_worker \<Rightarrow> order_worker" where
  "run_orders limit [] w = w"
| "run_orders limit ((subs, source) # ts) w = run_orders limit ts (fst (SyncOnce subs source limit w))"

end
