(* ===== verification/LiveClaims.thy ===== *)
theory LiveClaims
  imports LiveWorkers
begin

text \<open>
  What the two delivery workers achieve together with the lease table and the RuntimeChannel: a bar is carried by the
  instance that holds the lease of its subscription and by no other; an order event is sent before the cursor passes it.
  And where they stop: at a topic that does not exist yet, at a session whose runtime is connected elsewhere, at a message
  that is a JSON \<open>null\<close>.
\<close>

section \<open>Leases along a message\<close>

definition same_leases :: "market_db \<Rightarrow> market_db \<Rightarrow> bool" where
  "same_leases db db' \<longleftrightarrow> dl_holder db' = dl_holder db \<and> (dl_inv db \<longrightarrow> dl_inv db') \<and> md_subs db' = md_subs db"

lemma same_leases_refl [simp]: "same_leases db db"
  by (simp add: same_leases_def)

lemma failure_keeps [simp]: "same_leases db' (recordDeliveryFailure env sub topic key code cause db) \<longleftrightarrow> same_leases db' db"
  by (simp add: same_leases_def recordDeliveryFailure_def RecordStreamDeliveryFailure_def Let_def dl_holder_def dl_inv_def dl_table_def fun_eq_iff)

lemma progress_keeps:
  assumes "RecordStreamDeliveryProgress now sub owner topic part off t db = (db', r)"
  shows "same_leases db db'"
proof -
  let ?hit = "\<lambda>l. dl_active l \<and> dl_subscription_id l = sub \<and> dl_owner l = owner"
  let ?f = "\<lambda>l. l\<lparr>dl_last_delivery_at := Some t, dl_last_topic := topic, dl_last_partition := part,
                dl_last_offset := off, dl_last_heartbeat_at := t, dl_updated_at := now\<rparr>"
  have d: "db' = db \<or> db' = db\<lparr>md_dleases := update_where ?hit ?f (md_dleases db)\<rparr>"
    using assms by (auto simp: RecordStreamDeliveryProgress_def Let_def split: if_splits)
  have t: "filter dl_active (update_where ?hit ?f ls) = update_where ?hit ?f (filter dl_active ls)" for ls
    by (induction ls) (auto simp: update_where_def)
  have r: "map_option (\<lambda>l. (dl_owner l, dl_expires_at l)) (row dl_subscription_id (update_where ?hit ?f ls) k) =
      map_option (\<lambda>l. (dl_owner l, dl_expires_at l)) (row dl_subscription_id ls k)" for ls k
    by (induction ls) (auto simp: update_where_def row_Cons)
  have "dl_holder db' = dl_holder db" using d by (auto simp: dl_holder_def dl_table_def t r fun_eq_iff)
  moreover have "dl_inv db'" if "dl_inv db" using d that by (auto simp: dl_inv_def dl_table_def t intro!: keys_ok_update)
  ultimately show ?thesis using d by (auto simp: same_leases_def)
qed

lemma note_progress_db: "same_leases (wk_db w) (wk_db (note_progress env sub topic part off key w))"
  by (auto simp: note_progress_def dest: progress_keeps split: prod.split sum.split)

lemma deliver_to_db: "same_leases (wk_db w) (wk_db (deliver_to env topic part off key bar sub w))"
  using note_progress_db [of "w\<lparr>wk_channel := ch\<rparr>" env sub topic part off key for ch]
  by (auto simp: deliver_to_def notifyLiveDataDropped_def Let_def split: prod.split option.split)

lemma serve_sub_db:
  "same_leases (fst (take_lease env (ss_id sub) (wk_db w))) (wk_db (serve_sub env topic part off key fs bar sub w))"
proof -
  have "same_leases db (wk_db (note_progress env sub topic part off key (w\<lparr>wk_db := db\<rparr>)))"
    "same_leases db (wk_db (deliver_to env topic part off key bar sub (w\<lparr>wk_db := db\<rparr>)))" for db
    using note_progress_db [of "w\<lparr>wk_db := db\<rparr>"] deliver_to_db [of "w\<lparr>wk_db := db\<rparr>"] by simp_all
  then show ?thesis by (auto simp: serve_sub_def split: prod.split sum.split)
qed

text \<open>A subscription whose lease this instance may take: its row exists, and nobody else holds it now.\<close>
definition takeable :: "worker_env \<Rightarrow> market_db \<Rightarrow> int \<Rightarrow> bool" where
  "takeable env db sub \<longleftrightarrow> list_ex (\<lambda>s. ss_id s = sub) (md_subs db) \<and>
     (case dl_holder db sub of None \<Rightarrow> True | Some (me, t) \<Rightarrow> me = we_owner env \<or> t \<le> we_now env)"

definition lease_until :: "worker_env \<Rightarrow> go_time" where
  "lease_until env = we_clock env + lease_ttl_or_default (we_lease_ttl env)"

definition working :: "worker_env \<Rightarrow> bool" where
  "working env \<longleftrightarrow> we_owner env \<noteq> '''' \<and> (\<forall>s. we_lease_error env s = None) \<and>
     (\<forall>db s. \<not> list_ex (\<lambda>l. dl_id l = we_lease_id env db s) (md_dleases db))"

lemma lease_row: "dl_holder db sub = map_option (\<lambda>l. (dl_owner l, dl_expires_at l))
    (case filter (\<lambda>l. dl_active l \<and> dl_subscription_id l = sub) (md_dleases db) of [] \<Rightarrow> None | l # _ \<Rightarrow> Some l)"
  by (simp only: dl_holder_def dl_table_def filter_row)

lemma lease_taken:
  assumes "working env" "takeable env db sub" "dl_inv db"
  shows "dl_inv (fst (take_lease env sub db)) \<and> md_subs (fst (take_lease env sub db)) = md_subs db \<and>
    dl_holder (fst (take_lease env sub db)) = (dl_holder db)(sub \<mapsto> (we_owner env, lease_until env))"
proof -
  have w: "we_owner env \<noteq> ''''" "we_lease_error env sub = None" "\<not> list_ex (\<lambda>l. dl_id l = we_lease_id env db sub) (md_dleases db)"
    using assms(1) unfolding working_def by blast+
  have "\<exists>db' l. take_lease env sub db = (db', Inr l) \<and> md_subs db' = md_subs db"
    using w assms(2) unfolding take_lease_def takeable_def lease_row
    by (auto simp: CreateOrRenewStreamDeliveryLease_row_def Let_def split: list.splits)
  then obtain db' l where t: "take_lease env sub db = (db', Inr l)" "md_subs db' = md_subs db" by blast
  then have "CreateOrRenewStreamDeliveryLease_row (we_now env) (we_clock env) (we_lease_id env db sub) sub (we_owner env) (we_lease_ttl env) db = (db', Inr l)"
    using w by (simp add: take_lease_def)
  from dl_acquire(1,2) [OF this assms(3)] t show ?thesis by (simp add: lease_until_def)
qed

lemma lease_refused:
  assumes "dl_holder db sub = Some (me, t)" "me \<noteq> we_owner env" "we_now env < t" "we_owner env \<noteq> ''''" "we_lease_error env sub = None"
  shows "\<exists>e. take_lease env sub db = (db, Inl e) \<and> lease_denied e"
  using assms unfolding take_lease_def lease_row
  by (auto simp: CreateOrRenewStreamDeliveryLease_row_def Let_def denied_def lease_denied_def split: list.splits)

section \<open>One instance carries a bar\<close>

text \<open>After a fold over the subscriptions, this instance holds the lease of each of them.\<close>
lemma fold_holds:
  assumes "working env" "dl_inv (wk_db w)" "\<And>s. s \<in> S \<Longrightarrow> takeable env (wk_db w) (ss_id s)" "set subs \<subseteq> S"
  shows "\<forall>s\<in>set subs. dl_holder (wk_db (fold (serve_sub env topic part off key fs bar) subs w)) (ss_id s) = Some (we_owner env, lease_until env)"
proof -
  have "dl_inv (wk_db w') \<and> (\<forall>s\<in>S. takeable env (wk_db w') (ss_id s)) \<and>
      (\<forall>i. dl_holder (wk_db w) i = Some (we_owner env, lease_until env) \<longrightarrow> dl_holder (wk_db w') i = Some (we_owner env, lease_until env)) \<and>
      (\<forall>s\<in>set subs. dl_holder (wk_db w') (ss_id s) = Some (we_owner env, lease_until env))"
    if "w' = fold (serve_sub env topic part off key fs bar) subs w" for w'
    using assms(2-4) that
  proof (induction subs arbitrary: w)
    case (Cons s subs)
    let ?w = "serve_sub env topic part off key fs bar s w"
    have t: "takeable env (wk_db w) (ss_id s)" using Cons.prems by simp
    note taken = lease_taken [OF assms(1) t Cons.prems(1)]
    have same: "same_leases (fst (take_lease env (ss_id s) (wk_db w))) (wk_db ?w)" by (rule serve_sub_db)
    have h: "dl_holder (wk_db ?w) = (dl_holder (wk_db w))(ss_id s \<mapsto> (we_owner env, lease_until env))"
      "dl_inv (wk_db ?w)" "md_subs (wk_db ?w) = md_subs (wk_db w)" using taken same by (simp_all add: same_leases_def)
    have "takeable env (wk_db ?w) (ss_id r)" if "r \<in> S" for r
      using Cons.prems(2) [OF that] unfolding takeable_def h by auto
    moreover have "set subs \<subseteq> S" using Cons.prems by simp
    moreover have "w' = fold (serve_sub env topic part off key fs bar) subs ?w" using Cons.prems by simp
    ultimately have IH: "dl_inv (wk_db w') \<and> (\<forall>s\<in>S. takeable env (wk_db w') (ss_id s)) \<and>
      (\<forall>i. dl_holder (wk_db ?w) i = Some (we_owner env, lease_until env) \<longrightarrow> dl_holder (wk_db w') i = Some (we_owner env, lease_until env)) \<and>
      (\<forall>s\<in>set subs. dl_holder (wk_db w') (ss_id s) = Some (we_owner env, lease_until env))"
      using Cons.IH [of ?w] h(2) by blast
    then show ?case unfolding h(1) by auto
  qed simp
  then show ?thesis by blast
qed

text \<open>A subscription that another instance holds is passed over: nothing is sent, announced or recorded for it.\<close>
lemma fold_passes:
  assumes "we_owner env \<noteq> ''''" "\<And>s. we_lease_error env s = None"
    and "\<And>s. s \<in> set subs \<Longrightarrow> \<exists>me t. dl_holder (wk_db w) (ss_id s) = Some (me, t) \<and> me \<noteq> we_owner env \<and> we_now env < t"
  shows "fold (serve_sub env topic part off key fs bar) subs w = w"
  using assms(3)
proof (induction subs)
  case (Cons s subs)
  obtain me t where "dl_holder (wk_db w) (ss_id s) = Some (me, t)" "me \<noteq> we_owner env" "we_now env < t"
    using Cons.prems [of s] by auto
  from lease_refused [OF this assms(1,2)] obtain e where "take_lease env (ss_id s) (wk_db w) = (wk_db w, Inl e)" "lease_denied e" by blast
  then have "serve_sub env topic part off key fs bar s w = w" by (simp add: serve_sub_def)
  then show ?case using Cons by simp
qed simp

text \<open>C17. When an instance has handled a bar of a stream whose subscriptions it may lease, another instance that handles
  the same bar, or any other bar of the stream, before the leases expire leaves everything as it is: a subscription is
  served by one instance at a time.\<close>

theorem bar_carried_once:
  assumes "working envA" "dl_inv (wk_db w)" "we_json envA text = Inr (Some fs)" "we_pack envA (stamped r fs) = Inr bar"
    and "parseKlineTopic topic = Inr route" "message_symbol key fs \<noteq> ''''" "r = normalizeRoute (route\<lparr>mk_symbol := message_symbol key fs\<rparr>)"
    and "\<And>s. s \<in> set (route_subs w r) \<Longrightarrow> takeable envA (wk_db w) (ss_id s)"
    and "handleKlineMessage envA topic key text part off w = Some (wA, e)"
    and "working envB" "we_owner envB \<noteq> we_owner envA" "we_now envB < lease_until envA"
    and "wk_db wB = wk_db wA" "set (route_subs wB r) \<subseteq> set (route_subs w r)"
    and "we_json envB text' = Inr (Some fs')" "normalizeRoute (route\<lparr>mk_symbol := message_symbol key' fs'\<rparr>) = r"
    and "we_pack envB (stamped r fs') = Inr bar'"
  shows "handleKlineMessage envB topic key' text' part' off' wB = Some (wB, None)"
proof (cases "message_symbol key' fs' = '''' \<or> route_subs wB r = []")
  case True
  then show ?thesis using assms(5,15,16) by (auto simp: handleKlineMessage_def Let_def)
next
  case False
  have "route_subs w r \<noteq> []" using False assms(14) by auto
  then have wA: "wA = fold (serve_sub envA topic part off (route_streamKey r) (stamped r fs) bar) (route_subs w r) w"
    using assms(3-7,9) by (simp add: handleKlineMessage_def Let_def)
  have "\<forall>s\<in>set (route_subs w r). dl_holder (wk_db wA) (ss_id s) = Some (we_owner envA, lease_until envA)"
    unfolding wA by (rule fold_holds [OF assms(1,2,8) subset_refl])
  then have "fold (serve_sub envB topic part' off' (route_streamKey r) (stamped r fs') bar') (route_subs wB r) wB = wB"
    using assms(10-14) by (intro fold_passes) (auto simp: working_def)
  then show ?thesis using False assms(5,15-17) by (simp add: handleKlineMessage_def Let_def)
qed

section \<open>A topic that does not exist yet\<close>

lemma consume_keeps_other: "t \<noteq> topic \<Longrightarrow> gm_get (wk_topics (fst (consume_all env i topic ps w))) t = gm_get (wk_topics w) t"
  by (induction ps arbitrary: w) (auto split: option.split)

lemma start_topics_stops:
  assumes "t \<in> set ts" "gm_get (wk_topics w) t = None" "we_partitions env t = Inl e"
  shows "\<exists>w' e'. start_topics env ts w = (w', Some e')"
  using assms(1,2)
proof (induction ts arbitrary: w)
  case (Cons x ts)
  show ?case
  proof (cases "x = t")
    case True
    then show ?thesis using Cons.prems assms(3) by (simp add: startTopicConsumer_def)
  next
    case False
    then have "t \<in> set ts" using Cons.prems by simp
    moreover have "gm_get (wk_topics (fst (startTopicConsumer env x w))) t = None"
      using False Cons.prems by (auto simp: startTopicConsumer_def consume_keeps_other Let_def split: sum.split)
    ultimately show ?thesis using Cons by (cases "startTopicConsumer env x w") (auto split: option.split)
  qed
qed simp

text \<open>One active stream whose topic the broker does not know yet ends the worker, whatever order the topics are taken in
  and however many ticks would follow: no later refresh, and no topic of any other session, is served any more.\<close>

theorem missing_topic_stops_worker:
  assumes "refreshSubscriptions env w = (w1, None)" "\<And>ts. set (we_topic_order env ts) = set ts"
    and "t \<in> set (activeTopics w1)" "gm_get (wk_topics w1) t = None" "we_partitions env t = Inl e"
  shows "\<exists>w' e'. \<forall>evs. run_loop (Tick env # evs) w = (w', Some e')"
proof -
  have "\<exists>w' e'. ensureTopicConsumers env w1 = (w', Some e')"
    unfolding ensureTopicConsumers_def by (rule start_topics_stops [of t]) (use assms in auto)
  then show ?thesis by (auto simp: worker_round_def assms(1))
qed

text \<open>A message whose value is a JSON \<open>null\<close> makes the handler write to a nil map: the goroutine panics, and with it the
  process, as soon as the key names a symbol.\<close>

theorem null_bar_panics:
  assumes "parseKlineTopic topic = Inr route" "we_json env text = Inr None" "trim_space key \<noteq> ''''"
  shows "consume_message env topic key text part off w = None"
proof -
  have "to_upper (trim_space key) \<noteq> ''''" using assms(3) by (simp add: to_upper_def)
  then show ?thesis using assms by (simp add: consume_message_def handleKlineMessage_def message_symbol_def string_of_any_def Let_def)
qed

section \<open>Order events\<close>

lemma pack_events_ok:
  "pack_events es mx out = Inr (out', mx') \<Longrightarrow>
    \<exists>packed. out' = out @ packed \<and> list_all2 (\<lambda>e a. oe_any e = Inr a) es packed \<and> mx' = fold max (map oe_id es) mx"
proof (induction es arbitrary: mx out)
  case (Cons e es)
  then obtain a where a: "oe_any e = Inr a" "pack_events es (if mx < oe_id e then oe_id e else mx) (out @ [a]) = Inr (out', mx')"
    by (auto split: sum.splits)
  moreover have "(if mx < oe_id e then oe_id e else mx) = max (oe_id e) mx" by (simp add: max_def)
  ultimately have "pack_events es (max (oe_id e) mx) (out @ [a]) = Inr (out', mx')" by simp
  from Cons.IH [OF this] obtain packed where "out' = (out @ [a]) @ packed" "list_all2 (\<lambda>e a. oe_any e = Inr a) es packed"
    "mx' = fold max (map oe_id es) (max (oe_id e) mx)" by blast
  then show ?case using a(1) by (intro exI [of _ "a # packed"]) simp
qed simp

lemma pack_events_total: "(\<And>e. e \<in> set es \<Longrightarrow> \<exists>a. oe_any e = Inr a) \<Longrightarrow> \<exists>r. pack_events es mx out = Inr r"
proof (induction es arbitrary: mx out)
  case (Cons e es)
  obtain a where "oe_any e = Inr a" using Cons.prems [of e] by auto
  then show ?case using Cons by simp
qed simp

text \<open>C18. The cursor of a session passes an order event only after the event has been accepted by the stream of the session's
  runtime, all the events of an answer in one frame that is numbered with the new cursor; an error leaves every cursor
  where it was, so the events come again.\<close>

theorem order_cursor_follows_delivery:
  "case sync_route source limit r w of
     (w', Some e) \<Rightarrow> ow_cursor w' = ow_cursor w
   | (w', None) \<Rightarrow> (case source (or_session r) (cursor_of w (or_session r)) limit of
       Inl e \<Rightarrow> False
     | Inr [] \<Rightarrow> w' = w
     | Inr (ev # evs) \<Rightarrow> \<exists>packed c. list_all2 (\<lambda>e a. oe_any e = Inr a) (ev # evs) packed \<and>
         c = fold max (map oe_id (ev # evs)) (cursor_of w (or_session r)) \<and>
         ow_cursor w' = gm_set (or_session r) c (ow_cursor w) \<and>
         DeliverOrderLifecycleBatch \<lparr>ob_user = or_user r, ob_runtime = or_runtime r, ob_session = or_session r,
           ob_sequence = c, ob_events = packed\<rparr> (ow_channel w) = (ow_channel w', None))"
proof (cases "source (or_session r) (cursor_of w (or_session r)) limit")
  case (Inl e)
  then show ?thesis by (simp add: sync_route_def Let_def)
next
  case (Inr events)
  show ?thesis
  proof (cases events)
    case Nil
    then show ?thesis using Inr by (simp add: sync_route_def Let_def)
  next
    case (Cons ev evs)
    show ?thesis
    proof (cases "pack_events (ev # evs) (cursor_of w (or_session r)) []")
      case e: (Inl e)
      then show ?thesis using Inr Cons by (simp add: sync_route_def Let_def)
    next
      case p: (Inr pm)
      obtain packed mx where pm: "pm = (packed, mx)" by (cases pm)
      from pack_events_ok [OF p [unfolded pm]] have ok:
        "list_all2 (\<lambda>e a. oe_any e = Inr a) (ev # evs) packed" "mx = fold max (map oe_id (ev # evs)) (cursor_of w (or_session r))" by auto
      obtain ch res where d: "DeliverOrderLifecycleBatch \<lparr>ob_user = or_user r, ob_runtime = or_runtime r, ob_session = or_session r,
           ob_sequence = mx, ob_events = packed\<rparr> (ow_channel w) = (ch, res)" by fastforce
      have eq: "sync_route source limit r w = (case res of None \<Rightarrow> (w\<lparr>ow_channel := ch, ow_cursor := gm_set (or_session r) mx (ow_cursor w)\<rparr>, None)
          | Some e \<Rightarrow> (w\<lparr>ow_channel := ch\<rparr>, Some e))"
        unfolding sync_route_def Let_def Inr Cons sum.case list.case p pm prod.case d by (rule refl)
      show ?thesis
      proof (cases res)
        case None
        have "\<exists>packed' c. list_all2 (\<lambda>e a. oe_any e = Inr a) (ev # evs) packed' \<and>
         c = fold max (map oe_id (ev # evs)) (cursor_of w (or_session r)) \<and> gm_set (or_session r) mx (ow_cursor w) = gm_set (or_session r) c (ow_cursor w) \<and>
         DeliverOrderLifecycleBatch \<lparr>ob_user = or_user r, ob_runtime = or_runtime r, ob_session = or_session r,
           ob_sequence = c, ob_events = packed'\<rparr> (ow_channel w) = (ch, None)"
          using ok d None by blast
        then show ?thesis unfolding eq None Inr Cons by simp
      qed (simp add: eq)
    qed
  qed
qed

lemma active_route_ok: "r \<in> set (order_routes ss seen) \<Longrightarrow> 0 < or_user r \<and> or_runtime r \<noteq> '''' \<and> or_session r \<noteq> ''''"
  by (induction ss seen rule: order_routes.induct) (auto simp: Let_def split: if_splits)

text \<open>The order frames of a session that each stream has sent.\<close>

definition of_session :: "string \<Rightarrow> runtime_frame \<Rightarrow> bool" where
  "of_session sid f \<longleftrightarrow> (case payload f of P_OrderUpdateBatch s k n es \<Rightarrow> s = sid | _ \<Rightarrow> False)"

definition order_frames :: "string \<Rightarrow> channel_state \<Rightarrow> runtime_frame list list" where
  "order_frames sid c = map (\<lambda>st. filter (of_session sid) (st_sent st)) (rg_store (cs_registry c))"

text \<open>Ticks among the other goroutines of the instance: before each tick they may have changed the channel state in any way. With the
  last state of the worker come the channel states before and after each tick.\<close>

fun order_ticks :: "int \<Rightarrow> (channel_state \<times> order_tick) list \<Rightarrow> order_worker \<Rightarrow> order_worker \<times> (channel_state \<times> channel_state) list" where
  "order_ticks limit [] w = (w, [])"
| "order_ticks limit ((ch, subs, source) # ts) w =
     (let w' = fst (SyncOnce subs source limit (w\<lparr>ow_channel := ch\<rparr>)); (w2, trace) = order_ticks limit ts w' in (w2, (ch, ow_channel w') # trace))"

lemma run_orders_ticks: "\<exists>chs. length chs = length ts \<and> fst (order_ticks limit (zip chs ts) w) = run_orders limit ts w"
proof (induction limit ts w rule: run_orders.induct)
  case (2 limit subs source ts w)
  then obtain chs where "length chs = length ts" "fst (order_ticks limit (zip chs ts) (fst (SyncOnce subs source limit w))) = run_orders limit ts (fst (SyncOnce subs source limit w))"
    by blast
  then show ?case by (intro exI [of _ "ow_channel w # chs"]) (simp add: Let_def split_beta)
qed simp

lemma send_keeps_others: "\<not> of_session sid fr \<Longrightarrow> order_frames sid (fst (send_at i fr c)) = order_frames sid c"
proof -
  assume fr: "\<not> of_session sid fr"
  let ?g = "\<lambda>st. filter (of_session sid) (st_sent st)" and ?store = "rg_store (cs_registry c)"
  have "?g (fst (sendFrame st fr)) = ?g st" for st using fr by (simp add: sendFrame_def split: option.split)
  then have "map ?g (?store[i := fst (sendFrame (?store ! i) fr)]) = map ?g ?store"
    by (cases "i < length ?store") (simp_all add: map_update list_update_same_conv list_update_beyond)
  then show ?thesis by (simp add: order_frames_def send_at_def update_stream_def)
qed

lemma send_keeps_routes: "FindByRuntimeID (cs_registry (fst (send_at i fr c))) u rid = FindByRuntimeID (cs_registry c) u rid"
proof -
  have r: "st_runtime (fst (sendFrame st fr)) = st_runtime st" for st by (simp add: sendFrame_def split: option.split)
  have "st_runtime (xs[i := fst (sendFrame (xs ! i) fr)] ! j) = st_runtime (xs ! j)" for xs j
    using r by (cases "j = i \<and> i < length xs") (auto simp: nth_list_update list_update_beyond not_less)
  then show ?thesis by (simp add: FindByRuntimeID_def send_at_def update_stream_def split: option.split)
qed

lemma delivery_keeps:
  "ob_session b \<noteq> sid \<Longrightarrow> order_frames sid (fst (DeliverOrderLifecycleBatch b c)) = order_frames sid c"
  "FindByRuntimeID (cs_registry (fst (DeliverOrderLifecycleBatch b c))) u rid = FindByRuntimeID (cs_registry c) u rid"
  by (simp_all add: DeliverOrderLifecycleBatch_def Let_def send_keeps_others of_session_def send_keeps_routes split: option.split)

lemma sync_route_effect:
  assumes "sync_route source limit p w = (w', res)"
  shows "w' = w \<or> (\<exists>b. ob_session b = or_session p \<and> ow_channel w' = fst (DeliverOrderLifecycleBatch b (ow_channel w)) \<and>
     (ow_cursor w' = ow_cursor w \<or> (\<exists>c. ow_cursor w' = gm_set (or_session p) c (ow_cursor w))))"
proof (cases "\<exists>e es packed mx. source (or_session p) (cursor_of w (or_session p)) limit = Inr (e # es) \<and>
    pack_events (e # es) (cursor_of w (or_session p)) [] = Inr (packed, mx)")
  case True
  then obtain e es packed mx where f: "source (or_session p) (cursor_of w (or_session p)) limit = Inr (e # es)"
    "pack_events (e # es) (cursor_of w (or_session p)) [] = Inr (packed, mx)" by blast
  let ?b = "\<lparr>ob_user = or_user p, ob_runtime = or_runtime p, ob_session = or_session p, ob_sequence = mx, ob_events = packed\<rparr>"
  obtain ch r where d: "DeliverOrderLifecycleBatch ?b (ow_channel w) = (ch, r)" by fastforce
  then show ?thesis using assms f
    by (intro disjI2 exI [of _ ?b]) (auto simp: sync_route_def Let_def simp del: pack_events.simps split: option.splits)
next
  case False
  then have "w' = w" using assms by (auto simp: sync_route_def Let_def simp del: pack_events.simps split: sum.splits list.splits prod.splits)
  then show ?thesis ..
qed

text \<open>What a route leaves alone: the cursors and the frames of other sessions, and who is connected.\<close>
lemma route_keeps:
  assumes "sync_route source limit p w = (w', res)" "or_session p \<noteq> sid"
  shows "gm_get (ow_cursor w') sid = gm_get (ow_cursor w) sid" "order_frames sid (ow_channel w') = order_frames sid (ow_channel w)"
    "FindByRuntimeID (cs_registry (ow_channel w')) u rid = FindByRuntimeID (cs_registry (ow_channel w)) u rid"
  using sync_route_effect [OF assms(1)] assms(2) delivery_keeps by auto

lemma stuck_route:
  assumes "FindByRuntimeID (cs_registry (ow_channel w)) (or_user r) (or_runtime r) = None" "0 < or_user r" "or_runtime r \<noteq> ''''" "or_session r \<noteq> ''''"
    and "source (or_session r) (cursor_of w (or_session r)) limit \<noteq> Inr []"
  shows "\<exists>e. sync_route source limit r w = (w, Some e)"
proof (cases "source (or_session r) (cursor_of w (or_session r)) limit")
  case (Inr events)
  then obtain ev evs where ev: "events = ev # evs" using assms(5) by (cases events) auto
  show ?thesis
  proof (cases "pack_events (ev # evs) (cursor_of w (or_session r)) []")
    case p: (Inr pm)
    obtain packed mx where pm: "pm = (packed, mx)" by (cases pm)
    have "packed \<noteq> []" using pack_events_ok [OF p [unfolded pm]] by auto
    then show ?thesis using Inr ev p pm assms(1-4) by (simp add: sync_route_def DeliverOrderLifecycleBatch_def Let_def del: pack_events.simps)
  qed (use Inr ev in \<open>simp add: sync_route_def Let_def del: pack_events.simps\<close>)
qed (simp add: sync_route_def Let_def)

lemma stuck_routes:
  assumes "FindByRuntimeID (cs_registry (ow_channel w)) (or_user r) (or_runtime r) = None" "0 < or_user r" "or_runtime r \<noteq> ''''" "or_session r \<noteq> ''''"
    and "source (or_session r) (cursor_of w (or_session r)) limit \<noteq> Inr []" "or_session r \<notin> or_session ` set pre" "sid \<notin> or_session ` set pre"
  shows "gm_get (ow_cursor (fst (sync_routes source limit (pre @ r # rs) w))) sid = gm_get (ow_cursor w) sid \<and>
    order_frames sid (ow_channel (fst (sync_routes source limit (pre @ r # rs) w))) = order_frames sid (ow_channel w)"
  using assms(1,5,6,7)
proof (induction pre arbitrary: w)
  case Nil
  then show ?case using stuck_route [where source = source and limit = limit, OF Nil(1) assms(2-4) Nil(2)] by auto
next
  case (Cons p pre)
  obtain w' res where w': "sync_route source limit p w = (w', res)" by fastforce
  have ne: "or_session p \<noteq> sid" "or_session p \<noteq> or_session r" using Cons.prems by auto
  note k = route_keeps [OF w' ne(1)] and kr = route_keeps(1,3) [OF w' ne(2)]
  show ?case
  proof (cases res)
    case None
    have "source (or_session r) (cursor_of w' (or_session r)) limit \<noteq> Inr []" using Cons.prems(2) kr(1) by (simp add: cursor_of_def)
    then show ?thesis using Cons.IH [of w'] Cons.prems k kr(2) w' None by simp
  qed (use w' k in simp)
qed

text \<open>C19. A session whose runtime is not connected to this instance (it may be connected to another) starves every session that comes
  after it in the ticks, as long as the order service has something for it, be it events or an error: over any number of ticks, whatever the
  rest of the instance does between them, no tick moves the cursor of such a session or sends a frame with its order events. Only the
  sessions before it in the tick are served.\<close>

theorem stuck_session_starves_others:
  assumes "\<And>ch subs source. (ch, subs, source) \<in> set ticks \<Longrightarrow>
      FindByRuntimeID (cs_registry ch) (or_user r) (or_runtime r) = None \<and>
      (\<exists>ss pre rs. subs = Inr ss \<and> activeRoutes ss = pre @ r # rs \<and> or_session r \<notin> or_session ` set pre \<and> sid \<notin> or_session ` set pre) \<and>
      source (or_session r) (cursor_of w (or_session r)) limit \<noteq> Inr []"
  shows "gm_get (ow_cursor (fst (order_ticks limit ticks w))) sid = gm_get (ow_cursor w) sid \<and>
    (\<forall>(before, after)\<in>set (snd (order_ticks limit ticks w)). order_frames sid after = order_frames sid before)"
proof -
  have "gm_get (ow_cursor (fst (order_ticks limit ticks w'))) sid = gm_get (ow_cursor w') sid \<and>
    (\<forall>(before, after)\<in>set (snd (order_ticks limit ticks w')). order_frames sid after = order_frames sid before)"
    if "cursor_of w' (or_session r) = cursor_of w (or_session r)" for w'
    using assms that
  proof (induction ticks arbitrary: w')
    case (Cons t ticks)
    obtain ch subs source where t: "t = (ch, subs, source)" by (cases t)
    obtain ss pre rs where s: "subs = Inr ss" "activeRoutes ss = pre @ r # rs" "or_session r \<notin> or_session ` set pre" "sid \<notin> or_session ` set pre"
      and free: "FindByRuntimeID (cs_registry ch) (or_user r) (or_runtime r) = None" "source (or_session r) (cursor_of w (or_session r)) limit \<noteq> Inr []"
      using Cons.prems(1) [of ch subs source] t by auto
    have ok: "0 < or_user r" "or_runtime r \<noteq> ''''" "or_session r \<noteq> ''''"
      using active_route_ok [of r ss "[]"] s(2) by (simp_all add: activeRoutes_def)
    let ?w = "w'\<lparr>ow_channel := ch\<rparr>"
    have src: "source (or_session r) (cursor_of ?w (or_session r)) limit \<noteq> Inr []" using free(2) Cons.prems(2) by (simp add: cursor_of_def)
    have one: "SyncOnce subs source limit ?w = sync_routes source limit (pre @ r # rs) ?w" by (simp add: SyncOnce_def s(1,2))
    have f: "FindByRuntimeID (cs_registry (ow_channel ?w)) (or_user r) (or_runtime r) = None" using free(1) by simp
    note k = stuck_routes [where source = source and limit = limit, OF f ok src s(3,4), of rs]
      and kr = stuck_routes [where source = source and limit = limit, OF f ok src s(3,3), of rs]
    have "cursor_of (fst (SyncOnce subs source limit ?w)) (or_session r) = cursor_of w (or_session r)"
      using kr Cons.prems(2) by (simp add: one cursor_of_def)
    then have "gm_get (ow_cursor (fst (order_ticks limit ticks (fst (SyncOnce subs source limit ?w))))) sid = gm_get (ow_cursor (fst (SyncOnce subs source limit ?w))) sid \<and>
        (\<forall>(before, after)\<in>set (snd (order_ticks limit ticks (fst (SyncOnce subs source limit ?w)))). order_frames sid after = order_frames sid before)"
    proof (rule Cons.IH [rotated])
      fix ch' subs' source' assume "(ch', subs', source') \<in> set ticks"
      then show "FindByRuntimeID (cs_registry ch') (or_user r) (or_runtime r) = None \<and>
        (\<exists>ss pre rs. subs' = Inr ss \<and> activeRoutes ss = pre @ r # rs \<and> or_session r \<notin> or_session ` set pre \<and> sid \<notin> or_session ` set pre) \<and>
        source' (or_session r) (cursor_of w (or_session r)) limit \<noteq> Inr []"
        using Cons.prems(1) [of ch' subs' source'] by simp
    qed
    then show ?case using k unfolding one by (simp add: t one Let_def split_beta)
  qed simp
  then show ?thesis by blast
qed

section \<open>Concrete runs\<close>

definition fresh_lease_id :: "market_db \<Rightarrow> int \<Rightarrow> string" where
  "fresh_lease_id db s = ''x'' @ concat (map dl_id (md_dleases db))"

lemma fresh_lease: "\<not> list_ex (\<lambda>l. dl_id l = fresh_lease_id db s) (md_dleases db)"
proof -
  have "length (dl_id l) \<le> length (concat (map dl_id ls))" if "l \<in> set ls" for l ls using that by (induction ls) auto
  then have "length (dl_id l) \<noteq> length (fresh_lease_id db s)" if "l \<in> set (md_dleases db)" for l
    using that by (fastforce simp: fresh_lease_id_def)
  then show ?thesis unfolding list_ex_iff by metis
qed

definition bar_fields :: fields where "bar_fields = [(''symbol'', AStr ''BTCUSDT''), (''interval'', AStr ''1m'')]"

definition sample_worker_env :: "string \<Rightarrow> go_time \<Rightarrow> worker_env" where
  "sample_worker_env owner now = \<lparr>we_owner = owner, we_lease_ttl = 30 * second, we_now = now, we_clock = now, we_lease_id = fresh_lease_id,
     we_list = (\<lambda>db. Inr (md_subs db)), we_lease_error = (\<lambda>_. None),
     we_json = (\<lambda>t. Inr (if t = ''null'' then None else Some bar_fields)), we_pack = (\<lambda>_. Inr \<lparr>type_url = ''bar'', any_value = ''''\<rparr>),
     we_transfer = None, we_partitions = (\<lambda>_. Inl (Plain ''unknown topic'')), we_consume = (\<lambda>_ _. None), we_topic_order = id, we_notifier = True\<rparr>"

definition sample_route :: kline_route where
  "sample_route = \<lparr>mk_exchange = ''binance'', mk_market = ''spot'', mk_kind = ''kline'', mk_symbol = ''BTCUSDT'', mk_interval = ''1m''\<rparr>"

definition sample_sub :: session_subscription where
  "sample_sub = \<lparr>ss_id = 1, ss_user_id = 7, ss_session_id = ''s1'', ss_runtime_id = ''r1'', ss_key = sample_route, ss_environment = 2,
     ss_status = ''active'', ss_created_at = 0, ss_updated_at = 0, ss_released_at = None\<rparr>"

definition sample_worker :: "market_db \<Rightarrow> worker" where
  "sample_worker db = \<lparr>wk_routes = [(sample_route, [sample_sub])], wk_topics = [], wk_next_topic = 0, wk_consuming = [], wk_cancelled = [],
     wk_db = db, wk_channel = sample_state, wk_events = []\<rparr>"

definition sub_db :: market_db where "sub_db = empty_db\<lparr>md_subs := [sample_sub]\<rparr>"

lemma sample_working: "owner \<noteq> '''' \<Longrightarrow> working (sample_worker_env owner now)"
  using fresh_lease by (simp add: working_def sample_worker_env_def)

definition sample_topic :: string where "sample_topic = ''md.kline.binance.spot.1m''"

lemma sample_topic_parsed: "parseKlineTopic sample_topic = Inr (sample_route\<lparr>mk_symbol := ''''\<rparr>)"
  by (simp add: parseKlineTopic_def sample_topic_def klineTopicPrefix_def topic_route_def normalizeRoute_def sample_route_def string_eval)

lemma sample_route_normal: "normalizeRoute sample_route = sample_route"
  by (simp add: normalizeRoute_def sample_route_def string_eval)

lemma sample_symbol: "message_symbol key bar_fields = ''BTCUSDT''"
  by (simp add: message_symbol_def bar_fields_def gm_get_def string_of_any_def string_eval)

theorem bar_carried_once_witness:
  "\<exists>wA e. handleKlineMessage (sample_worker_env ''a'' 0) sample_topic '''' ''bar'' 0 1 (sample_worker sub_db) = Some (wA, e) \<and>
    dl_holder (wk_db wA) 1 = Some (''a'', 30 * second) \<and>
    handleKlineMessage (sample_worker_env ''b'' second) sample_topic '''' ''bar'' 0 2 (sample_worker (wk_db wA)) = Some (sample_worker (wk_db wA), None)"
proof -
  let ?A = "sample_worker_env ''a'' 0" let ?B = "sample_worker_env ''b'' second" let ?w = "sample_worker sub_db"
  let ?fs = "stamped sample_route bar_fields"
  define wA where "wA = fold (serve_sub ?A sample_topic 0 1 (route_streamKey sample_route) ?fs \<lparr>type_url = ''bar'', any_value = ''''\<rparr>) [sample_sub] ?w"
  have r: "sample_route\<lparr>mk_symbol := ''BTCUSDT''\<rparr> = sample_route" "sample_route = normalizeRoute (sample_route\<lparr>mk_symbol := ''BTCUSDT''\<rparr>)"
    using sample_route_normal by (simp_all add: sample_route_def)
  have subs: "route_subs (sample_worker db) sample_route = [sample_sub]" for db by (simp add: route_subs_def sample_worker_def gm_get_def)
  have json: "we_json (sample_worker_env owner now) ''bar'' = Inr (Some bar_fields)" for owner now by (simp add: sample_worker_env_def)
  have pack: "we_pack (sample_worker_env owner now) fs = Inr \<lparr>type_url = ''bar'', any_value = ''''\<rparr>" for owner now fs by (simp add: sample_worker_env_def)
  have run: "handleKlineMessage ?A sample_topic '''' ''bar'' 0 1 ?w = Some (wA, None)"
    by (simp add: handleKlineMessage_def sample_topic_parsed json sample_symbol Let_def r(1) sample_route_normal subs pack wA_def)
  have inv: "dl_inv (wk_db ?w)" by (simp add: sample_worker_def sub_db_def empty_db_def dl_inv_def dl_table_def keys_ok_def)
  have tk: "takeable ?A (wk_db ?w) 1"
    by (simp add: takeable_def sample_worker_def sub_db_def sample_sub_def empty_db_def dl_holder_def dl_table_def)
  have until: "lease_until ?A = 30 * second"
    by (simp add: lease_until_def sample_worker_env_def lease_ttl_or_default_def duration_defs)
  have h: "dl_holder (wk_db wA) 1 = Some (''a'', 30 * second)"
    using fold_holds [OF sample_working inv, where S = "{sample_sub}" and subs = "[sample_sub]"] tk unfolding wA_def
    by (simp add: until sample_sub_def) (simp add: sample_worker_env_def)
  have "handleKlineMessage ?B sample_topic '''' ''bar'' 0 2 (sample_worker (wk_db wA)) = Some (sample_worker (wk_db wA), None)"
    by (rule bar_carried_once [OF sample_working inv json pack sample_topic_parsed _ _ _ run sample_working _ _ _ _ json _ pack, where ?r = sample_route])
      (use tk r in \<open>simp_all add: sample_symbol subs until sample_route_normal\<close>,
       simp_all add: sample_sub_def sample_worker_def sample_worker_env_def duration_defs)
  then show ?thesis using run h by blast
qed

theorem missing_topic_stops_worker_witness:
  "\<exists>w' e'. \<forall>evs. run_loop (Tick (sample_worker_env ''a'' 0) # evs) (sample_worker sub_db) = (w', Some e')"
proof -
  let ?A = "sample_worker_env ''a'' 0"
  obtain db l where t: "take_lease ?A 1 sub_db = (db, Inr l)"
    by (simp add: take_lease_def sample_worker_env_def CreateOrRenewStreamDeliveryLease_row_def sub_db_def sample_sub_def empty_db_def Let_def)
  have s: "sub_route sample_sub = Some sample_route"
    using sample_route_normal by (simp add: sub_route_def sample_sub_def) (simp add: sample_route_def)
  have "refreshSubscriptions ?A (sample_worker sub_db) =
      ((sample_worker sub_db)\<lparr>wk_db := db, wk_routes := add_route sample_route (sample_sub\<lparr>ss_key := sample_route\<rparr>) []\<rparr>, None)"
    using t s by (simp add: refreshSubscriptions_def sample_worker_def) (simp add: sample_worker_env_def sub_db_def empty_db_def sample_sub_def)
  then show ?thesis
    by (rule missing_topic_stops_worker [of _ _ _ "route_topic sample_route"])
      (auto simp: activeTopics_def add_route_def gm_set_def sample_worker_def gm_get_def sample_worker_env_def)
qed

theorem null_bar_panics_witness:
  "consume_message (sample_worker_env ''a'' 0) sample_topic ''btcusdt'' ''null'' 0 1 (sample_worker sub_db) = None"
  by (rule null_bar_panics [OF sample_topic_parsed]) (simp_all add: sample_worker_env_def string_eval)

definition other_sub :: session_subscription where
  "other_sub = sample_sub\<lparr>ss_id := 2, ss_runtime_id := ''gone'', ss_session_id := ''s2''\<rparr>"

definition event_source :: "string \<Rightarrow> int \<Rightarrow> int \<Rightarrow> order_event list result" where
  "event_source s after limit = Inr (filter (\<lambda>e. after < oe_id e) [\<lparr>oe_id = 1, oe_any = Inr \<lparr>type_url = ''fill'', any_value = s\<rparr>\<rparr>])"

theorem stuck_session_starves_others_witness:
  "gm_get (ow_cursor (fst (order_ticks 100 (replicate 3 (sample_state, Inr [other_sub, sample_sub], event_source)) \<lparr>ow_cursor = [], ow_channel = sample_state\<rparr>))) ''s1'' = None"
proof -
  let ?r = "\<lparr>or_user = 7, or_runtime = ''gone'', or_session = ''s2''\<rparr>" and ?w = "\<lparr>ow_cursor = [], ow_channel = sample_state\<rparr>"
  have f: "FindByRuntimeID (cs_registry sample_state) 7 ''gone'' = None" by code_simp
  have a: "activeRoutes [other_sub, sample_sub] = [] @ ?r # [\<lparr>or_user = 7, or_runtime = ''r1'', or_session = ''s1''\<rparr>]"
    by (simp add: activeRoutes_def other_sub_def sample_sub_def string_eval Let_def)
  have e: "event_source ''s2'' 0 100 \<noteq> Inr []" by (simp add: event_source_def)
  let ?ticks = "replicate 3 (sample_state, Inr [other_sub, sample_sub] :: session_subscription list result, event_source)"
  have "gm_get (ow_cursor (fst (order_ticks 100 ?ticks ?w))) ''s1'' = gm_get (ow_cursor ?w) ''s1'' \<and>
    (\<forall>(before, after)\<in>set (snd (order_ticks 100 ?ticks ?w)). order_frames ''s1'' after = order_frames ''s1'' before)"
  proof (rule stuck_session_starves_others [where r = ?r])
    fix ch subs source assume "(ch, subs, source) \<in> set ?ticks"
    then have "ch = sample_state" "subs = Inr [other_sub, sample_sub]" "source = event_source" by auto
    then show "FindByRuntimeID (cs_registry ch) (or_user ?r) (or_runtime ?r) = None \<and>
      (\<exists>ss pre rs. subs = Inr ss \<and> activeRoutes ss = pre @ ?r # rs \<and> or_session ?r \<notin> or_session ` set pre \<and> ''s1'' \<notin> or_session ` set pre) \<and>
      source (or_session ?r) (cursor_of ?w (or_session ?r)) 100 \<noteq> Inr []"
      using a f e by (intro conjI exI [of _ "[other_sub, sample_sub]"] exI [of _ "[]"] exI [of _ "[\<lparr>or_user = 7, or_runtime = ''r1'', or_session = ''s1''\<rparr>]"])
        (simp_all add: cursor_of_def)
  qed
  then show ?thesis by simp
qed

end
