(* ===== verification/Debugger.thy ===== *)
theory Debugger
  imports PlatformPayload RuntimeStore Encodings
begin

text \<open>
  The debugger service (\<open>internal/debugger/service.go\<close>): preparing the workspace of a self-hosted debugger runtime, loading
  a range of bars into it as its active dataset, and starting a replay over that dataset. The database is passed through
  the calls; a command sent to the runtime takes its time, so it answers together with the database as it is found
  afterwards. JSON, random bytes and the clock are the environment's; \<open>None\<close> is a call that does not return.
\<close>

section \<open>The environment\<close>

record workspace_response =
  wr_host_path :: string
  wr_container_path :: string
  wr_template_path :: string
  wr_archived_template_path :: string
  wr_vscode_launch_created :: bool
  wr_vscode_launch_preserved :: bool
  wr_pycharm_doc_created :: bool
  wr_pycharm_doc_preserved :: bool
  wr_prepared_at :: int
  wr_last_error :: string

type_synonym runtime_commander = "int \<Rightarrow> string \<Rightarrow> string \<Rightarrow> string \<Rightarrow> runtime_db \<Rightarrow> runtime_db \<times> string result"

record debug_env =
  de_klines :: "(kline_query \<Rightarrow> kline_row list result) option"
  de_command :: runtime_commander
  de_marshal :: "any_value \<Rightarrow> string option"
  de_unmarshal :: "string \<Rightarrow> string + workspace_response"
  de_random :: "nat \<Rightarrow> string option"
  de_now :: go_time
  de_db_now :: go_time

definition CommandPrepareDebugWorkspace :: string where "CommandPrepareDebugWorkspace = ''prepare_debug_workspace''"
definition CommandLoadDebugDataset :: string where "CommandLoadDebugDataset = ''load_debug_dataset''"
definition MaxDebugDatasetBars :: int where "MaxDebugDatasetBars = 5000"

definition defaultString :: "string \<Rightarrow> string \<Rightarrow> string" where
  "defaultString v fallback = (if trim_space v = '''' then fallback else v)"

definition debug_randomHex :: "debug_env \<Rightarrow> int \<Rightarrow> string" where
  "debug_randomHex env n0 = (let n = (if n0 \<le> 0 then 12 else n0) in
     case de_random env (nat n) of None \<Rightarrow> format_int (wrap64 (de_now env)) | Some b \<Rightarrow> hex_string b)"

definition mapRepoErr :: "go_error \<Rightarrow> go_error" where
  "mapRepoErr e =
     (if errors_Is e ErrNotFound then Status NotFound ''not found''
      else if errors_Is e ErrConflict then Status FailedPrecondition ''conflict''
      else Status Internal (err_text e))"

section \<open>Dates\<close>

definition leap_year :: "int \<Rightarrow> bool" where "leap_year y \<longleftrightarrow> 4 dvd y \<and> (100 dvd y \<longrightarrow> 400 dvd y)"

definition month_lengths :: "int \<Rightarrow> int list" where
  "month_lengths y = [31, if leap_year y then 29 else 28, 31, 30, 31, 30, 31, 31, 30, 31, 30, 31]"

text \<open>Month and day of the month of a day of the year counted from 0.\<close>
fun month_and_day :: "int \<Rightarrow> int list \<Rightarrow> int \<times> int" where
  "month_and_day d [] = (1, d + 1)"
| "month_and_day d (n # ns) = (if d < n then (1, d + 1) else (let (m, k) = month_and_day (d - n) ns in (m + 1, k)))"

definition zero_padded :: "nat \<Rightarrow> int \<Rightarrow> string" where
  "zero_padded w i = (let s = format_int i in replicate (w - length s) (CHR ''0'') @ s)"

text \<open>\<open>Format("20060102-150405")\<close> of a UTC time of the years 0 to 9999.\<close>
definition compact_stamp :: "go_time \<Rightarrow> string" where
  "compact_stamp t =
     (let y = year_of t; since = t - year_start y; (m, d) = month_and_day (since div day) (month_lengths y) in
      zero_padded 4 y @ zero_padded 2 m @ zero_padded 2 d @ ''-'' @
      zero_padded 2 (since mod day div hour) @ zero_padded 2 (since mod hour div minute) @ zero_padded 2 (since mod minute div second))"

lemma compact_stamp_sample: "compact_stamp (1709251199 * second) = ''20240229-235959''"
  by code_simp

section \<open>The runtime of a request\<close>

definition requireDebuggerRuntime :: "int \<Rightarrow> string \<Rightarrow> runtime_db \<Rightarrow> runtime result" where
  "requireDebuggerRuntime uid rid0 db =
     (if uid \<le> 0 then Inl (Status InvalidArgument ''user_id is required'')
      else let rid = trim_space rid0 in
        if rid = '''' then Inl (Status InvalidArgument ''runtime_id is required'')
        else case GetRuntime db rid of
            Inl e \<Rightarrow> Inl (mapRepoErr e)
          | Inr rt \<Rightarrow>
              if UserID rt \<noteq> uid then Inl (Status PermissionDenied ''runtime does not belong to user'')
              else if Source rt \<noteq> SourceSelfHosted then Inl (Status FailedPrecondition ''debugger requires self-hosted runtime'')
              else if Role rt \<noteq> RoleDebugger then Inl (Status FailedPrecondition ''runtime role is not debugger'')
              else if RtStatus rt \<noteq> RuntimeStatusActive then Inl (Status FailedPrecondition ''runtime is not connected'')
              else Inr rt)"

section \<open>The workspace\<close>

record prepare_args =
  pa_user :: int
  pa_runtime :: string
  pa_host_path :: string
  pa_container_path :: string

definition decodeWorkspaceState :: "debug_env \<Rightarrow> string \<Rightarrow> debug_workspace result" where
  "decodeWorkspaceState env raw =
     (case de_unmarshal env (if raw = '''' then ''{}'' else raw) of
        Inl e \<Rightarrow> Inl (Plain (''decode workspace response: '' @ e))
      | Inr r \<Rightarrow> Inr \<lparr>dw_host_path = wr_host_path r, dw_container_path = defaultString (wr_container_path r) ''/workspace'',
          dw_template_path = wr_template_path r, dw_archived_template_path = wr_archived_template_path r,
          dw_vscode_launch_created = wr_vscode_launch_created r, dw_vscode_launch_preserved = wr_vscode_launch_preserved r,
          dw_pycharm_doc_created = wr_pycharm_doc_created r, dw_pycharm_doc_preserved = wr_pycharm_doc_preserved r,
          dw_prepared_at = (if 0 < wr_prepared_at r then Some (unix_milli_time (wr_prepared_at r)) else None),
          dw_last_error = wr_last_error r\<rparr>)"

definition workspace_failed :: "debug_env \<Rightarrow> string \<Rightarrow> go_error \<Rightarrow> runtime_db \<Rightarrow> runtime_db \<times> debug_workspace result" where
  "workspace_failed env rid e db = (fst (MarkDebugWorkspaceError (de_db_now env) rid (err_text e) db), Inl e)"

definition PrepareDebugWorkspace :: "debug_env \<Rightarrow> prepare_args \<Rightarrow> runtime_db \<Rightarrow> runtime_db \<times> debug_workspace result" where
  "PrepareDebugWorkspace env args db =
     (case requireDebuggerRuntime (pa_user args) (pa_runtime args) db of
        Inl e \<Rightarrow> (db, Inl e)
      | Inr rt \<Rightarrow>
          (case de_marshal env (AObj [(''container_path'', AStr (defaultString (pa_container_path args) ''/workspace'')),
                (''host_path'', AStr (trim_space (pa_host_path args)))]) of
             None \<Rightarrow> (db, Inl (Status Internal ''marshal workspace command''))
           | Some pl \<Rightarrow>
               (case de_command env (pa_user args) (RuntimeID rt) CommandPrepareDebugWorkspace pl db of
                  (db1, Inl e) \<Rightarrow> workspace_failed env (RuntimeID rt) e db1
                | (db1, Inr raw) \<Rightarrow>
                    (case decodeWorkspaceState env raw of
                       Inl e \<Rightarrow> workspace_failed env (RuntimeID rt) e db1
                     | Inr state \<Rightarrow>
                         (case SaveDebugWorkspaceState (de_db_now env) (RuntimeID rt) state db1 of
                            (db2, Inl e) \<Rightarrow> (db2, Inl (mapRepoErr e))
                          | (db2, Inr _) \<Rightarrow> (db2, Inr state))))))"

section \<open>The dataset\<close>

record load_args =
  la_user :: int
  la_portfolio :: int
  la_runtime :: string
  la_market :: string
  la_symbol :: string
  la_interval :: string
  la_start :: int
  la_end :: int

definition coverageFailureMessage :: "validation \<Rightarrow> string" where
  "coverageFailureMessage v = (case kv_gaps v of
     [] \<Rightarrow> kv_reason v
   | gap # _ \<Rightarrow> ''missing kline rows: first gap '' @ format_int (vg_start gap) @ ''-'' @ format_int (vg_end gap) @ '' expected='' @
       format_int (vg_count gap) @ '' actual='' @ format_int (kv_actual v) @ ''/'' @ format_int (kv_expected v))"

definition klineRowsToPayload :: "kline_row list \<Rightarrow> any_value list" where
  "klineRowsToPayload = map (\<lambda>row. AObj
     [(''exchange'', AStr (kr_exchange row)), (''market'', AStr (kr_market row)), (''symbol'', AStr (kr_symbol row)),
      (''interval'', AStr (kr_interval row)), (''open_time_ms'', AInt (kr_open_time row)), (''close_time_ms'', AInt (kr_close_time row)),
      (''open'', ANum (kr_open row)), (''high'', ANum (kr_high row)), (''low'', ANum (kr_low row)), (''close'', ANum (kr_close row)),
      (''volume'', ANum (kr_volume row))])"

definition loaded_dataset :: "debug_env \<Rightarrow> load_args \<Rightarrow> string \<Rightarrow> kline_row list \<Rightarrow> debug_dataset" where
  "loaded_dataset env args rid rows =
     \<lparr>dd_dataset_id = ''dbg-'' @ debug_randomHex env 12, dd_user_id = la_user args, dd_portfolio_id = la_portfolio args, dd_runtime_id = rid,
      dd_market = to_lower (trim_space (la_market args)), dd_symbol = to_upper (trim_space (la_symbol args)),
      dd_interval = trim_space (la_interval args), dd_start_at = unix_milli_time (la_start args), dd_end_at = unix_milli_time (la_end args),
      dd_bar_count = int (length rows), dd_coverage_status = ''complete'', dd_loaded_at = de_now env, dd_state = ''active'', dd_last_error = ''''\<rparr>"

definition loadDatasetPayload :: "load_args \<Rightarrow> debug_dataset \<Rightarrow> kline_row list \<Rightarrow> any_value" where
  "loadDatasetPayload args st rows = AObj
     [(''dataset_id'', AStr (dd_dataset_id st)), (''user_id'', AInt (dd_user_id st)), (''portfolio_id'', AInt (dd_portfolio_id st)),
      (''runtime_id'', AStr (dd_runtime_id st)), (''market'', AStr (dd_market st)), (''symbol'', AStr (dd_symbol st)),
      (''interval'', AStr (dd_interval st)), (''start_time_ms'', AInt (la_start args)), (''end_time_ms'', AInt (la_end args)),
      (''bar_count'', AInt (dd_bar_count st)), (''loaded_at_ms'', AInt (time_unix_milli (dd_loaded_at st))),
      (''klines'', AList (klineRowsToPayload rows))]"

definition load_query :: "load_args \<Rightarrow> kline_query" where
  "load_query args = \<lparr>kq_exchange = ''binance'', kq_market = la_market args, kq_symbol = la_symbol args, kq_interval = la_interval args,
     kq_start = la_start args, kq_end = la_end args, kq_limit = MaxDebugDatasetBars\<rparr>"

text \<open>The last step, with complete bars: the runtime is told, and the outcome is recorded.\<close>
definition send_dataset :: "debug_env \<Rightarrow> load_args \<Rightarrow> string \<Rightarrow> kline_row list \<Rightarrow> runtime_db \<Rightarrow> runtime_db \<times> debug_dataset result" where
  "send_dataset env args rid rows db =
     (let state = loaded_dataset env args rid rows in
      case de_marshal env (loadDatasetPayload args state rows) of
        None \<Rightarrow> (db, Inl (Status Internal ''marshal debug dataset''))
      | Some pl \<Rightarrow>
          (case de_command env (la_user args) rid CommandLoadDebugDataset pl db of
             (db1, Inl e) \<Rightarrow> (fst (ReplaceActiveDebugDataset (state\<lparr>dd_state := ''failed'', dd_last_error := err_text e\<rparr>) db1), Inl e)
           | (db1, Inr _) \<Rightarrow>
               (case ReplaceActiveDebugDataset state db1 of
                  (db2, Inl e) \<Rightarrow> (db2, Inl (mapRepoErr e))
                | (db2, Inr _) \<Rightarrow> (db2, Inr state))))"

definition LoadDebugDataset :: "debug_env \<Rightarrow> load_args \<Rightarrow> runtime_db \<Rightarrow> (runtime_db \<times> debug_dataset result) option" where
  "LoadDebugDataset env args db =
     (case requireDebuggerRuntime (la_user args) (la_runtime args) db of
        Inl e \<Rightarrow> Some (db, Inl e)
      | Inr rt \<Rightarrow>
          if la_portfolio args \<le> 0 then Some (db, Inl (Status InvalidArgument ''portfolio_id is required''))
          else case de_klines env of
              None \<Rightarrow> Some (db, Inl (Status FailedPrecondition ''market-data query is not configured''))
            | Some fetch \<Rightarrow>
                (case fetch (load_query args) of
                   Inl e \<Rightarrow> Some (db, Inl (Status FailedPrecondition (''load historical klines: '' @ err_text e)))
                 | Inr rows \<Rightarrow>
                     (case ValidateKlineRows (la_interval args) (la_start args) (la_end args) rows of
                        None \<Rightarrow> None
                      | Some v \<Rightarrow>
                          if \<not> kv_ok v then Some (db, Inl (Status FailedPrecondition (coverageFailureMessage v)))
                          else Some (send_dataset env args (RuntimeID rt) rows db))))"

definition GetRuntimeDebugDataset :: "int \<Rightarrow> string \<Rightarrow> runtime_db \<Rightarrow> debug_dataset result" where
  "GetRuntimeDebugDataset uid rid db =
     (if uid \<le> 0 then Inl (Status InvalidArgument ''user_id is required'')
      else if trim_space rid = '''' then Inl (Status InvalidArgument ''runtime_id is required'')
      else map_sum mapRepoErr id (GetLatestDebugDataset db uid rid))"

section \<open>The replay\<close>

definition StartDebugReplay :: "debug_env \<Rightarrow> int \<Rightarrow> string \<Rightarrow> string \<Rightarrow> runtime_db \<Rightarrow> (string \<times> string \<times> debug_dataset) result" where
  "StartDebugReplay env uid rid requested db =
     (case requireDebuggerRuntime uid rid db of
        Inl e \<Rightarrow> Inl e
      | Inr rt \<Rightarrow>
          (case GetLatestDebugDataset db uid rid of
             Inl e \<Rightarrow> Inl (mapRepoErr e)
           | Inr dataset \<Rightarrow>
               if dd_state dataset \<noteq> ''active'' then Inl (Status FailedPrecondition (''debug dataset is not active: '' @ dd_state dataset))
               else let name = trim_space requested in
                 Inr (''debug-'' @ debug_randomHex env 16,
                   if name = '''' then ''debug-'' @ Name rt @ ''-'' @ compact_stamp (de_now env) else name, dataset)))"


section \<open>What a load leaves behind\<close>

lemma debugger_runtime:
  assumes "requireDebuggerRuntime uid rid db = Inr rt"
  shows "GetRuntime db (trim_space rid) = Inr rt" "UserID rt = uid" "0 < uid" "Source rt = SourceSelfHosted" "Role rt = RoleDebugger"
    "RtStatus rt = RuntimeStatusActive"
  using assms by (auto simp: requireDebuggerRuntime_def Let_def split: if_splits sum.splits)

lemma validated_rows:
  assumes "ValidateKlineRows interval s e rows = Some v" "kv_ok v" "intervalStepMS interval = Inr step" "0 < step" "e < 2 ^ 63"
  shows "0 < s" "s < e" "step dvd e - s" "{x. on_grid e step x \<and> s \<le> x \<and> x < e} \<subseteq> kr_open_time ` set rows"
proof -
  have b: "0 < s \<and> s < e \<and> go_rem (e - s) step = 0"
    using assms(1-4) by (auto simp: ValidateKlineRows_def failed_validation_def split: if_splits)
  moreover have d: "step dvd e - s" using b by (intro dvdI [of _ _ "go_div (e - s) step"]) (simp add: go_rem_def)
  ultimately show "0 < s" "s < e" "step dvd e - s" by auto
  then show "{x. on_grid e step x \<and> s \<le> x \<and> x < e} \<subseteq> kr_open_time ` set rows"
    using validation_exact [of interval step s e rows] assms by auto
qed

text \<open>A complete range has no more bars than were fetched.\<close>
lemma grid_fits:
  assumes "{x. on_grid e step x \<and> s \<le> x \<and> x < e} \<subseteq> kr_open_time ` set rows" "0 < step" "step dvd e - s" "s < e"
  shows "e - s \<le> step * int (length rows)"
proof -
  obtain n where n: "e - s = step * n" using assms(3) by blast
  then have pos: "0 < n" using assms(2,4) by (smt (verit) zero_less_mult_pos)
  have "(\<lambda>k. s + step * int k) ` {0..<nat n} \<subseteq> {x. on_grid e step x \<and> s \<le> x \<and> x < e}"
  proof
    fix x assume "x \<in> (\<lambda>k. s + step * int k) ` {0..<nat n}"
    then obtain k where k: "x = s + step * int k" "k \<in> {0..<nat n}" by blast
    then have "int k < n" using pos by simp
    then have lt: "step * int k < step * n" using assms(2) by simp
    have "e - x = step * (n - int k)" using n k(1) by (simp add: algebra_simps)
    moreover have "x < e" using n k(1) lt by linarith
    ultimately show "x \<in> {x. on_grid e step x \<and> s \<le> x \<and> x < e}"
      using n k(1) assms(2) by (simp add: on_grid_def)
  qed
  then have "(\<lambda>k. s + step * int k) ` {0..<nat n} \<subseteq> set (map kr_open_time rows)" using assms(1) by auto
  then have "card ((\<lambda>k. s + step * int k) ` {0..<nat n}) \<le> card (set (map kr_open_time rows))" by (intro card_mono) simp_all
  also have "\<dots> \<le> length rows" using card_length [of "map kr_open_time rows"] by simp
  finally have "nat n \<le> length rows" using assms(2) by (simp add: card_image inj_on_def)
  then show ?thesis using n pos assms(2) by simp
qed

lemma retired: "filter (\<lambda>d. dd_runtime_id d = rid \<and> active_dataset d) (retire_datasets rid t) = []"
  by (induction t) (simp_all add: retire_datasets_def update_where_def active_dataset_def)

lemma replaced_dataset:
  assumes "ReplaceActiveDebugDataset state db = (db', Inr ())"
  shows "rt_datasets db' = retire_datasets (dd_runtime_id state) (rt_datasets db) @ [state]"
    "filter (\<lambda>d. dd_runtime_id d = dd_runtime_id state \<and> active_dataset d) (rt_datasets db') = (if active_dataset state then [state] else [])"
proof -
  have t: "rt_datasets db' = retire_datasets (dd_runtime_id state) (rt_datasets db) @ [state]"
    using assms by (simp add: ReplaceActiveDebugDataset_def Let_def report_write_def isUniqueViolation_def unique_violation_def conflict_def split: if_splits) auto
  then show "rt_datasets db' = retire_datasets (dd_runtime_id state) (rt_datasets db) @ [state]" .
  show "filter (\<lambda>d. dd_runtime_id d = dd_runtime_id state \<and> active_dataset d) (rt_datasets db') = (if active_dataset state then [state] else [])"
    unfolding t filter_append retired by simp
qed

text \<open>A load that succeeds has found a debugger runtime of the user and bars that fill the range, and has recorded itself.\<close>
lemma load_cases:
  assumes "LoadDebugDataset env args db = Some (db', Inr ds)"
  obtains rt fetch rows v db1 raw where "requireDebuggerRuntime (la_user args) (la_runtime args) db = Inr rt" "0 < la_portfolio args"
    "de_klines env = Some fetch" "fetch (load_query args) = Inr rows"
    "ValidateKlineRows (la_interval args) (la_start args) (la_end args) rows = Some v" "kv_ok v"
    "ds = loaded_dataset env args (RuntimeID rt) rows" "ReplaceActiveDebugDataset ds db1 = (db', Inr ())"
    "\<exists>pl. de_marshal env (loadDatasetPayload args ds rows) = Some pl \<and>
       de_command env (la_user args) (RuntimeID rt) CommandLoadDebugDataset pl db = (db1, Inr raw)"
proof -
  obtain rt where rt: "requireDebuggerRuntime (la_user args) (la_runtime args) db = Inr rt"
    using assms by (auto simp: LoadDebugDataset_def split: sum.splits)
  obtain fetch where f: "0 < la_portfolio args" "de_klines env = Some fetch"
    using assms rt by (auto simp: LoadDebugDataset_def split: option.splits if_splits)
  obtain rows where r: "fetch (load_query args) = Inr rows"
    using assms rt f by (auto simp: LoadDebugDataset_def split: sum.splits)
  obtain v where v: "ValidateKlineRows (la_interval args) (la_start args) (la_end args) rows = Some v" "kv_ok v"
    "send_dataset env args (RuntimeID rt) rows db = (db', Inr ds)"
    using assms rt f r by (auto simp: LoadDebugDataset_def split: option.splits if_splits)
  let ?st = "loaded_dataset env args (RuntimeID rt) rows"
  obtain pl where pl: "de_marshal env (loadDatasetPayload args ?st rows) = Some pl"
    using v(3) by (auto simp: send_dataset_def Let_def split: option.splits)
  obtain db1 raw where c: "de_command env (la_user args) (RuntimeID rt) CommandLoadDebugDataset pl db = (db1, Inr raw)"
    using v(3) pl by (auto simp: send_dataset_def Let_def split: prod.splits sum.splits)
  have "ReplaceActiveDebugDataset ?st db1 = (db', Inr ()) \<and> ds = ?st"
    using v(3) pl c by (auto simp: send_dataset_def Let_def split: prod.splits sum.splits)
  then show thesis using that [OF rt f r v(1,2), of db1 raw] pl c by blast
qed

end
