(* ===== verification/DebuggerClaims.thy ===== *)
theory DebuggerClaims
  imports Debugger RuntimeLifecycle
begin

text \<open>
  What the debugger service promises of the datasets it records: complete bars, at most one active dataset of a runtime,
  and no replay over a dataset whose load failed.
\<close>

section \<open>The active dataset\<close>

text \<open>C23. A dataset is only ever recorded as active for a connected self-hosted debugger of the user, over a range every instant of
  which has a bar among those that were sent to it; it is then the one active dataset of the runtime.\<close>

theorem active_dataset_complete:
  assumes "LoadDebugDataset env args db = Some (db', Inr ds)"
    and "intervalStepMS (la_interval args) = Inr step" "0 < step" "la_end args < 2 ^ 63"
  shows "\<exists>rt rows. GetRuntime db (trim_space (la_runtime args)) = Inr rt \<and> UserID rt = la_user args \<and> Source rt = SourceSelfHosted \<and>
    Role rt = RoleDebugger \<and> RtStatus rt = RuntimeStatusActive \<and>
    (\<exists>pl db1 raw. de_marshal env (loadDatasetPayload args ds rows) = Some pl \<and>
       de_command env (la_user args) (RuntimeID rt) CommandLoadDebugDataset pl db = (db1, Inr raw)) \<and>
    {x. on_grid (la_end args) step x \<and> la_start args \<le> x \<and> x < la_end args} \<subseteq> kr_open_time ` set rows \<and>
    dd_bar_count ds = int (length rows) \<and>
    filter (\<lambda>d. dd_runtime_id d = RuntimeID rt \<and> active_dataset d) (rt_datasets db') = [ds]"
proof -
  obtain rt fetch rows v db1 raw where l: "requireDebuggerRuntime (la_user args) (la_runtime args) db = Inr rt" "0 < la_portfolio args"
    "de_klines env = Some fetch" "fetch (load_query args) = Inr rows"
    "ValidateKlineRows (la_interval args) (la_start args) (la_end args) rows = Some v" "kv_ok v"
    "ds = loaded_dataset env args (RuntimeID rt) rows" "ReplaceActiveDebugDataset ds db1 = (db', Inr ())"
    "\<exists>pl. de_marshal env (loadDatasetPayload args ds rows) = Some pl \<and>
       de_command env (la_user args) (RuntimeID rt) CommandLoadDebugDataset pl db = (db1, Inr raw)"
    by (rule load_cases [OF assms(1)])
  have ds: "dd_bar_count ds = int (length rows)" "dd_runtime_id ds = RuntimeID rt" "active_dataset ds"
    unfolding l(7) by (simp_all add: loaded_dataset_def active_dataset_def)
  have "filter (\<lambda>d. dd_runtime_id d = RuntimeID rt \<and> active_dataset d) (rt_datasets db') = [ds]"
    using replaced_dataset(2) [OF l(8)] ds by simp
  then have "RtStatus rt = RuntimeStatusActive \<and>
    (\<exists>pl db1 raw. de_marshal env (loadDatasetPayload args ds rows) = Some pl \<and>
       de_command env (la_user args) (RuntimeID rt) CommandLoadDebugDataset pl db = (db1, Inr raw)) \<and>
    {x. on_grid (la_end args) step x \<and> la_start args \<le> x \<and> x < la_end args} \<subseteq> kr_open_time ` set rows \<and>
    dd_bar_count ds = int (length rows) \<and>
    filter (\<lambda>d. dd_runtime_id d = RuntimeID rt \<and> active_dataset d) (rt_datasets db') = [ds]"
    using debugger_runtime(6) [OF l(1)] validated_rows(4) [OF l(5,6) assms(2-4)] l(9) ds(1) by iprover
  then show ?thesis using debugger_runtime(1,2,4,5) [OF l(1)] by iprover
qed

text \<open>The bars of a dataset are fetched in one query of at most 5000 rows: over the market-data tables, a load that succeeds never
  spans more than 5000 bars, whatever the tables hold.\<close>

theorem debug_dataset_bounded:
  assumes "LoadDebugDataset env args db = Some (db', Inr ds)"
    and "de_klines env = Some (FetchKlines kenv (Some cfg))" "serves kenv content" "is_ok (dsnForYear cfg ''binance'' 1970)"
    and "intervalStepMS (la_interval args) = Inr step" "0 < step" "la_end args < 2 ^ 63"
  shows "la_end args - la_start args \<le> 5000 * step"
proof -
  obtain rt fetch rows v db1 raw where l: "requireDebuggerRuntime (la_user args) (la_runtime args) db = Inr rt" "0 < la_portfolio args"
    "de_klines env = Some fetch" "fetch (load_query args) = Inr rows"
    "ValidateKlineRows (la_interval args) (la_start args) (la_end args) rows = Some v" "kv_ok v"
    "ds = loaded_dataset env args (RuntimeID rt) rows" "ReplaceActiveDebugDataset ds db1 = (db', Inr ())"
    "\<exists>pl. de_marshal env (loadDatasetPayload args ds rows) = Some pl \<and>
       de_command env (la_user args) (RuntimeID rt) CommandLoadDebugDataset pl db = (db1, Inr raw)"
    by (rule load_cases [OF assms(1)])
  have f: "FetchKlines kenv (Some cfg) (load_query args) = Inr rows" using l(3,4) assms(2) by simp
  then have v: "validateKlineQuery (normalizeKlineQuery (load_query args)) = None"
    by (auto simp: FetchKlines_def Let_def split: option.splits)
  have "kq_limit (normalizeKlineQuery (load_query args)) = 5000"
    by (simp add: normalizeKlineQuery_def load_query_def MaxDebugDatasetBars_def Let_def)
  then have "nat (kline_limit (kq_limit (normalizeKlineQuery (load_query args)))) = 5000"
    by (simp add: kline_limit_def maxKlineFetchLimit_def)
  then have "length rows \<le> 5000" using f fetch_exact [OF assms(3,4) refl v] by auto
  moreover have "la_end args - la_start args \<le> step * int (length rows)"
    using validated_rows [OF l(5,6) assms(5-7)] assms(6) by (intro grid_fits)
  moreover have "step * int (length rows) \<le> step * 5000" using \<open>length rows \<le> 5000\<close> assms(6) by simp
  ultimately show ?thesis by (simp add: mult.commute)
qed

section \<open>A load that fails\<close>

text \<open>The failed row is written when the database takes it.\<close>
definition accepts_dataset :: "runtime_db \<Rightarrow> debug_dataset \<Rightarrow> bool" where
  "accepts_dataset db d \<longleftrightarrow> dataset_row_ok d \<and> dd_dataset_id d \<notin> dd_dataset_id ` set (rt_datasets db) \<and>
     keys_ok dd_dataset_id (rt_datasets db) \<and> keys_ok dd_runtime_id (filter active_dataset (rt_datasets db)) \<and>
     list_ex (\<lambda>r. RuntimeID r = dd_runtime_id d) (rt_rows db)"

lemma keys_retired:
  assumes "keys_ok dd_runtime_id (filter active_dataset t)"
  shows "keys_ok dd_runtime_id (filter active_dataset (retire_datasets rid t))"
proof -
  have "filter active_dataset (retire_datasets rid t) = filter (\<lambda>d. dd_runtime_id d \<noteq> rid) (filter active_dataset t)"
    by (induction t) (auto simp: retire_datasets_def update_where_def active_dataset_def)
  then show ?thesis using assms unfolding keys_ok_def by (simp only: distinct_map_filter)
qed

lemma failed_recorded:
  assumes "accepts_dataset db d" "\<not> active_dataset d"
  shows "snd (ReplaceActiveDebugDataset d db) = Inr ()"
proof -
  have "map dd_dataset_id (retire_datasets rid t) = map dd_dataset_id t" for rid t
    by (simp add: retire_datasets_def update_where_def)
  moreover have "dd_dataset_id d \<notin> set (map dd_dataset_id (rt_datasets db))" using assms(1) by (auto simp: accepts_dataset_def)
  ultimately have "keys_ok dd_dataset_id (retire_datasets (dd_runtime_id d) (rt_datasets db) @ [d])"
    using assms(1) by (simp add: accepts_dataset_def keys_ok_def)
  moreover have "keys_ok dd_runtime_id (filter active_dataset (retire_datasets (dd_runtime_id d) (rt_datasets db) @ [d]))"
    using assms keys_retired by (simp add: accepts_dataset_def)
  ultimately show ?thesis using assms(1) by (simp add: ReplaceActiveDebugDataset_def Let_def accepts_dataset_def)
qed

text \<open>C24. When the runtime refuses or misses its dataset, the load answers the runtime's error, records the attempt as failed, and retires the
  dataset that was active before: no replay can be started until a later load succeeds.\<close>

theorem failed_load_stops_replays:
  assumes "requireDebuggerRuntime (la_user args) (la_runtime args) db = Inr rt" "0 < la_portfolio args"
    and "de_klines env = Some fetch" "fetch (load_query args) = Inr rows"
    and "ValidateKlineRows (la_interval args) (la_start args) (la_end args) rows = Some v" "kv_ok v"
    and "ds = loaded_dataset env args (RuntimeID rt) rows" "de_marshal env (loadDatasetPayload args ds rows) = Some pl"
    and "de_command env (la_user args) (RuntimeID rt) CommandLoadDebugDataset pl db = (db1, Inl e)"
    and "accepts_dataset db1 (ds\<lparr>dd_state := ''failed'', dd_last_error := err_text e\<rparr>)"
  shows "\<exists>db'. LoadDebugDataset env args db = Some (db', Inl e) \<and>
    ds\<lparr>dd_state := ''failed'', dd_last_error := err_text e\<rparr> \<in> set (rt_datasets db') \<and>
    \<not> is_ok (StartDebugReplay env' uid (RuntimeID rt) name db')"
proof -
  let ?f = "ds\<lparr>dd_state := ''failed'', dd_last_error := err_text e\<rparr>"
  define db' where "db' = fst (ReplaceActiveDebugDataset ?f db1)"
  have rid: "dd_runtime_id ?f = RuntimeID rt" and na: "\<not> active_dataset ?f"
    unfolding assms(7) by (simp_all add: loaded_dataset_def active_dataset_def)
  have r: "ReplaceActiveDebugDataset ?f db1 = (db', Inr ())"
    using failed_recorded [OF assms(10) na] by (simp add: db'_def prod_eq_iff)
  have "LoadDebugDataset env args db = Some (db', Inl e)"
    using assms(1-9) by (simp add: LoadDebugDataset_def send_dataset_def db'_def)
  moreover have "?f \<in> set (rt_datasets db')" unfolding replaced_dataset(1) [OF r] by simp
  moreover have "\<not> is_ok (StartDebugReplay env' uid (RuntimeID rt) name db')"
  proof
    assume "is_ok (StartDebugReplay env' uid (RuntimeID rt) name db')"
    then obtain d where d: "GetLatestDebugDataset db' uid (RuntimeID rt) = Inr d" "dd_state d = ''active''"
      by (auto simp: StartDebugReplay_def is_ok_iff Let_def split: sum.splits if_splits)
    then have "d \<in> set (rt_datasets db')" "dd_runtime_id d = RuntimeID rt"
      by (auto simp: GetLatestDebugDataset_def missing_def split: option.splits dest: first_by_Some)
    then have "d \<in> set (filter (\<lambda>d. dd_runtime_id d = RuntimeID rt \<and> active_dataset d) (rt_datasets db'))"
      using d(2) by (simp add: active_dataset_def)
    moreover have "filter (\<lambda>d. dd_runtime_id d = RuntimeID rt \<and> active_dataset d) (rt_datasets db') = []"
      using replaced_dataset(2) [OF r] rid na by simp
    ultimately show False by (metis empty_iff list.set(1))
  qed
  ultimately show ?thesis by blast
qed


section \<open>Concrete loads\<close>

definition sample_load :: load_args where
  "sample_load = \<lparr>la_user = 7, la_portfolio = 3, la_runtime = '' rt1 '', la_market = ''spot'', la_symbol = ''BTCUSDT'', la_interval = ''1m'',
     la_start = 60000, la_end = 180000\<rparr>"

definition debug_runtime :: runtime where "debug_runtime = sample_runtime\<lparr>Role := RoleDebugger\<rparr>"

definition debug_db :: runtime_db where
  "debug_db = \<lparr>rt_rows = [debug_runtime], rt_creds = [], rt_datasets = [], rt_leases = [], rt_failures = [], rt_failure_seq = 0\<rparr>"

definition sample_debug :: "string result \<Rightarrow> debug_env" where
  "sample_debug r = \<lparr>de_klines = Some (FetchKlines (table_env sample_content) (Some sample_config)),
     de_command = (\<lambda>_ _ _ _ db. (db, r)), de_marshal = (\<lambda>_. Some ''{}''), de_unmarshal = (\<lambda>_. Inl ''eof''), de_random = (\<lambda>_. Some ''a''),
     de_now = 500, de_db_now = 500\<rparr>"

definition sample_rows :: "kline_row list" where
  "sample_rows = map (kline_of (load_query sample_load)) [sample_bar 60000, sample_bar 120000]"

lemma sample_load_fetch: "FetchKlines (table_env sample_content) (Some sample_config) (load_query sample_load) = Inr sample_rows"
proof -
  have n: "normalizeKlineQuery (load_query sample_load) = load_query sample_load"
    by (simp add: normalizeKlineQuery_def load_query_def sample_load_def string_eval)
  have v: "validateKlineQuery (load_query sample_load) = None"
    by (simp add: validateKlineQuery_def load_query_def sample_load_def string_eval)
  have y: "yearsInRange 60000 180000 = [1970]" by code_simp
  obtain dsn where d: "dsnForYear sample_config ''binance'' 1970 = Inr dsn" using sample_dsn_ok by (auto simp: is_ok_iff)
  have t: "klineTableName ''spot'' ''BTCUSDT'' ''1m'' = ''spot_klines_btcusdt_1m''" by (simp add: klineTableName_def string_eval)
  have "year_rows sample_config sample_content (load_query sample_load) 1970 = [sample_bar 60000, sample_bar 120000]"
    by (simp add: year_rows_def load_query_def sample_load_def d t sample_content_def in_range_def sample_bar_def unix_milli_time_def millisecond_def)
  moreover have "kq_start (load_query sample_load) = 60000" "kq_end (load_query sample_load) = 180000" "kq_limit (load_query sample_load) = 5000"
    by (simp_all add: load_query_def sample_load_def MaxDebugDatasetBars_def)
  moreover have "kline_limit 5000 = 5000" by (simp add: kline_limit_def maxKlineFetchLimit_def)
  ultimately show ?thesis
    using fetch_exact [OF table_env_serves sample_dsn_ok n v, of sample_content] by (simp add: y sample_rows_def)
qed


lemma sample_opens: "kr_open_time ` set sample_rows = {60000, 120000}"
  by (auto simp: sample_rows_def kline_of_def sample_bar_def time_unix_milli_def millisecond_def)

lemma sample_validated:
  obtains v where "ValidateKlineRows ''1m'' 60000 180000 sample_rows = Some v" "kv_ok v"
proof -
  have "{x. on_grid 180000 60000 x \<and> 60000 \<le> x \<and> x < 180000} \<subseteq> {60000, 120000}"
  proof
    fix x :: int assume "x \<in> {x. on_grid 180000 60000 x \<and> 60000 \<le> x \<and> x < 180000}"
    then obtain k where "180000 - x = 60000 * k" "60000 \<le> x" "x < 180000" by (auto simp: on_grid_def)
    then have "k = 1 \<or> k = 2" "x = 180000 - 60000 * k" by linarith+
    then show "x \<in> {60000, 120000}" by auto
  qed
  then show thesis using validation_exact [OF step_1m, of 60000 180000 sample_rows] that unfolding sample_opens by auto
qed

lemma sample_fields [simp]:
  "de_klines (sample_debug r) = Some (FetchKlines (table_env sample_content) (Some sample_config))"
  "de_command (sample_debug r) uid rid ctype pl db = (db, r)" "de_marshal (sample_debug r) value = Some ''{}''"
  "la_user sample_load = 7" "la_portfolio sample_load = 3" "la_runtime sample_load = '' rt1 ''" "la_interval sample_load = ''1m''"
  "la_start sample_load = 60000" "la_end sample_load = 180000"
  by (simp_all add: sample_debug_def sample_load_def)

lemma sample_required: "requireDebuggerRuntime 7 '' rt1 '' debug_db = Inr debug_runtime"
  by (simp add: requireDebuggerRuntime_def debug_db_def debug_runtime_def sample_runtime_def GetRuntime_def select_one_def string_eval)

lemma sample_loaded:
  "\<exists>ds db'. LoadDebugDataset (sample_debug (Inr '''')) sample_load debug_db = Some (db', Inr ds)"
proof -
  obtain v where v: "ValidateKlineRows ''1m'' 60000 180000 sample_rows = Some v" "kv_ok v" by (rule sample_validated)
  let ?ds = "loaded_dataset (sample_debug (Inr '''')) sample_load (RuntimeID debug_runtime) sample_rows"
  have "dataset_row_ok ?ds" by (simp add: dataset_row_ok_def loaded_dataset_def sample_load_def string_eval)
  moreover have "dd_runtime_id ?ds = RuntimeID debug_runtime" by (simp add: loaded_dataset_def)
  ultimately have "ReplaceActiveDebugDataset ?ds debug_db = (debug_db\<lparr>rt_datasets := [?ds]\<rparr>, Inr ())"
    by (simp add: ReplaceActiveDebugDataset_def debug_db_def retire_datasets_def update_where_def keys_ok_def Let_def)
  then have "send_dataset (sample_debug (Inr '''')) sample_load (RuntimeID debug_runtime) sample_rows debug_db =
      (debug_db\<lparr>rt_datasets := [?ds]\<rparr>, Inr ?ds)"
    by (simp add: send_dataset_def Let_def)
  then show ?thesis
    using sample_load_fetch v by (simp add: LoadDebugDataset_def sample_required)
qed

theorem active_dataset_complete_witness:
  "\<exists>ds db'. LoadDebugDataset (sample_debug (Inr '''')) sample_load debug_db = Some (db', Inr ds) \<and>
    filter (\<lambda>d. dd_runtime_id d = ''rt1'' \<and> active_dataset d) (rt_datasets db') = [ds]"
proof -
  obtain ds db' where l: "LoadDebugDataset (sample_debug (Inr '''')) sample_load debug_db = Some (db', Inr ds)" using sample_loaded by blast
  obtain rt where "GetRuntime debug_db (trim_space (la_runtime sample_load)) = Inr rt"
    "filter (\<lambda>d. dd_runtime_id d = RuntimeID rt \<and> active_dataset d) (rt_datasets db') = [ds]"
    using active_dataset_complete [OF l, of 60000] by (auto simp: step_1m)
  moreover have "RuntimeID debug_runtime = ''rt1''" by (simp add: debug_runtime_def sample_runtime_def)
  ultimately show ?thesis using l debugger_runtime(1) [OF sample_required] by auto
qed

theorem debug_dataset_bounded_witness:
  "\<exists>ds db'. LoadDebugDataset (sample_debug (Inr '''')) sample_load debug_db = Some (db', Inr ds) \<and>
    la_end sample_load - la_start sample_load \<le> 5000 * 60000"
proof -
  obtain ds db' where l: "LoadDebugDataset (sample_debug (Inr '''')) sample_load debug_db = Some (db', Inr ds)" using sample_loaded by blast
  have k: "de_klines (sample_debug (Inr '''')) = Some (FetchKlines (table_env sample_content) (Some sample_config))"
    by simp
  have "la_end sample_load - la_start sample_load \<le> 5000 * 60000"
    by (rule debug_dataset_bounded [OF l k table_env_serves sample_dsn_ok]) (simp_all add: step_1m)
  then show ?thesis using l by blast
qed

theorem failed_load_stops_replays_witness:
  "\<exists>db'. LoadDebugDataset (sample_debug (Inl (Status Unavailable ''runtime is not connected''))) sample_load debug_db = Some (db', Inl (Status Unavailable ''runtime is not connected'')) \<and>
    \<not> is_ok (StartDebugReplay (sample_debug (Inr '''')) 7 ''rt1'' '''' db')"
proof -
  obtain v where v: "ValidateKlineRows ''1m'' 60000 180000 sample_rows = Some v" "kv_ok v" by (rule sample_validated)
  let ?env = "sample_debug (Inl (Status Unavailable ''runtime is not connected''))"
  let ?ds = "loaded_dataset ?env sample_load (RuntimeID debug_runtime) sample_rows"
  have a: "accepts_dataset debug_db (?ds\<lparr>dd_state := ''failed'', dd_last_error := err_text (Status Unavailable ''runtime is not connected'')\<rparr>)"
    by (simp add: accepts_dataset_def debug_db_def keys_ok_def dataset_row_ok_def loaded_dataset_def sample_load_def string_eval)
  have r: "RuntimeID debug_runtime = ''rt1''" by (simp add: debug_runtime_def sample_runtime_def)
  have "\<exists>db'. LoadDebugDataset ?env sample_load debug_db = Some (db', Inl (Status Unavailable ''runtime is not connected'')) \<and>
    ?ds\<lparr>dd_state := ''failed'', dd_last_error := err_text (Status Unavailable ''runtime is not connected'')\<rparr> \<in> set (rt_datasets db') \<and>
    \<not> is_ok (StartDebugReplay (sample_debug (Inr '''')) 7 (RuntimeID debug_runtime) '''' db')"
    by (rule failed_load_stops_replays [where fetch = "FetchKlines (table_env sample_content) (Some sample_config)" and rows = sample_rows and v = v
        and pl = "''{}''" and ?db1.0 = debug_db and rt = debug_runtime]) (simp_all add: sample_required v a [simplified] sample_load_fetch)
  then show ?thesis unfolding r by blast
qed

end
