(* ===== verification/RuntimeRPC.thy ===== *)
theory RuntimeRPC
  imports RuntimeService ChannelCalls Debugger
begin

text \<open>
  \<open>internal/runtime/grpc.go\<close>: the remote procedures of the control plane. A request that is absent is \<open>None\<close>; a response is
  a record of the fields the code sets; a service that is not configured is \<open>None\<close>. Timestamps are seconds and nanoseconds.
\<close>

section \<open>Errors and times\<close>

definition mapErrorToStatus :: "service_error \<Rightarrow> go_error" where
  "mapErrorToStatus e = (case e of
       Svc SvcInvalidArgument m \<Rightarrow> Status InvalidArgument m
     | Svc SvcPermissionDenied m \<Rightarrow> Status PermissionDenied m
     | Svc SvcNotFound m \<Rightarrow> Status NotFound m
     | Svc SvcUnpaired m \<Rightarrow> Status FailedPrecondition m
     | Svc SvcUnhealthy m \<Rightarrow> Status FailedPrecondition m
     | Svc SvcEnded m \<Rightarrow> Status FailedPrecondition m
     | Svc SvcTokenMismatch m \<Rightarrow> Status FailedPrecondition m
     | Svc SvcProvisionerUnavailable m \<Rightarrow> Status FailedPrecondition m
     | Svc SvcRegistrationTimeout m \<Rightarrow> Status FailedPrecondition m
     | Svc SvcQuotaExceeded m \<Rightarrow> Status ResourceExhausted m
     | Svc SvcConflict m \<Rightarrow> Status AlreadyExists m
     | Svc SvcPlanLookupUnavailable m \<Rightarrow> Status Unavailable m
     | Svc SvcSessionLookupUnavailable m \<Rightarrow> Status Unavailable m
     | Other o' \<Rightarrow> Status Unavailable (err_text o'))"

definition request_required :: "'a result" where "request_required = Inl (Status InvalidArgument ''request is required'')"

type_synonym pb_time = "int \<times> int"

definition pb_time :: "go_time \<Rightarrow> pb_time" where "pb_time t = (t div second, t mod second)"

definition wrap32 :: "int \<Rightarrow> int" where "wrap32 n = (n + 2 ^ 31) mod 2 ^ 32 - 2 ^ 31"

section \<open>Rows as messages\<close>

record pb_workspace =
  bw_host_path :: string
  bw_container_path :: string
  bw_template_path :: string
  bw_archived_template_path :: string
  bw_vscode_launch_created :: bool
  bw_vscode_launch_preserved :: bool
  bw_pycharm_doc_created :: bool
  bw_pycharm_doc_preserved :: bool
  bw_prepared_at_ms :: int
  bw_last_error :: string

definition debugWorkspaceToProto :: "debug_workspace \<Rightarrow> pb_workspace" where
  "debugWorkspaceToProto s = \<lparr>bw_host_path = dw_host_path s, bw_container_path = dw_container_path s, bw_template_path = dw_template_path s,
     bw_archived_template_path = dw_archived_template_path s, bw_vscode_launch_created = dw_vscode_launch_created s,
     bw_vscode_launch_preserved = dw_vscode_launch_preserved s, bw_pycharm_doc_created = dw_pycharm_doc_created s,
     bw_pycharm_doc_preserved = dw_pycharm_doc_preserved s,
     bw_prepared_at_ms = (case dw_prepared_at s of None \<Rightarrow> 0 | Some t \<Rightarrow> time_unix_milli t), bw_last_error = dw_last_error s\<rparr>"

record pb_dataset =
  bd_dataset_id :: string
  bd_user_id :: int
  bd_portfolio_id :: int
  bd_runtime_id :: string
  bd_market :: string
  bd_symbol :: string
  bd_interval :: string
  bd_start_ms :: int
  bd_end_ms :: int
  bd_bar_count :: int
  bd_coverage_status :: string
  bd_loaded_at_ms :: int
  bd_state :: string
  bd_last_error :: string

definition debugDatasetToProto :: "debug_dataset \<Rightarrow> pb_dataset" where
  "debugDatasetToProto s = \<lparr>bd_dataset_id = dd_dataset_id s, bd_user_id = dd_user_id s, bd_portfolio_id = dd_portfolio_id s,
     bd_runtime_id = dd_runtime_id s, bd_market = dd_market s, bd_symbol = dd_symbol s, bd_interval = dd_interval s,
     bd_start_ms = time_unix_milli (dd_start_at s), bd_end_ms = time_unix_milli (dd_end_at s), bd_bar_count = dd_bar_count s,
     bd_coverage_status = dd_coverage_status s, bd_loaded_at_ms = time_unix_milli (dd_loaded_at s), bd_state = dd_state s,
     bd_last_error = dd_last_error s\<rparr>"

record pb_runtime =
  br_runtime_id :: string
  br_user_id :: int
  br_name :: string
  br_source :: string
  br_role :: string
  br_endpoint_host :: string
  br_grpc_port :: int
  br_debug_port :: int
  br_capabilities :: "string list"
  br_resource_profile :: string
  br_version :: string
  br_status :: string
  br_created_at :: pb_time
  br_updated_at :: pb_time
  br_credential_key_id :: string
  br_ended_reason :: string
  br_cleanup_status :: string
  br_cleanup_reason :: string
  br_owner_instance_id :: string
  br_debug_workspace :: pb_workspace
  br_debug_dataset :: "pb_dataset option"
  br_paired_at :: "pb_time option"
  br_heartbeat_at :: "pb_time option"
  br_started_at :: "pb_time option"
  br_ended_at :: "pb_time option"
  br_cleanup_at :: "pb_time option"
  br_owner_acquired_at :: "pb_time option"
  br_owner_heartbeat_at :: "pb_time option"

definition runtimeToProto :: "runtime \<Rightarrow> pb_runtime" where
  "runtimeToProto rt = \<lparr>br_runtime_id = RuntimeID rt, br_user_id = UserID rt, br_name = Name rt, br_source = Source rt, br_role = Role rt,
     br_endpoint_host = EndpointHost rt, br_grpc_port = GRPCPort rt, br_debug_port = DebugPort rt, br_capabilities = Capabilities rt,
     br_resource_profile = ResourceProfile rt, br_version = Version rt, br_status = RtStatus rt, br_created_at = pb_time (CreatedAt rt),
     br_updated_at = pb_time (UpdatedAt rt), br_credential_key_id = CredentialKeyID rt, br_ended_reason = EndedReason rt,
     br_cleanup_status = CleanupStatus rt, br_cleanup_reason = CleanupReason rt, br_owner_instance_id = OwnerInstanceID rt,
     br_debug_workspace = debugWorkspaceToProto (DebugWorkspace rt), br_debug_dataset = map_option debugDatasetToProto (DebugDataset rt),
     br_paired_at = map_option pb_time (PairedAt rt), br_heartbeat_at = map_option pb_time (HeartbeatAt rt),
     br_started_at = map_option pb_time (StartedAt rt), br_ended_at = map_option pb_time (EndedAt rt),
     br_cleanup_at = map_option pb_time (CleanupAt rt), br_owner_acquired_at = map_option pb_time (OwnerAcquiredAt rt),
     br_owner_heartbeat_at = map_option pb_time (OwnerHeartbeatAt rt)\<rparr>"

record pb_credential =
  bk_key_id :: string
  bk_user_id :: int
  bk_label :: string
  bk_status :: string
  bk_public_key :: string
  bk_created_at :: pb_time
  bk_role :: string
  bk_consumed_runtime_id :: string
  bk_hosted_internal :: bool
  bk_fingerprint :: string
  bk_issuer :: string
  bk_downloaded_at :: "pb_time option"
  bk_consumed_at :: "pb_time option"
  bk_expires_at :: "pb_time option"
  bk_last_used_at :: "pb_time option"
  bk_revoked_at :: "pb_time option"
  bk_cert_expires_at :: "pb_time option"

definition credentialToProto :: "credential \<Rightarrow> pb_credential" where
  "credentialToProto c = \<lparr>bk_key_id = KeyID c, bk_user_id = CredUserID c, bk_label = Label c, bk_status = CredStatus c,
     bk_public_key = PublicKeyPEM c, bk_created_at = pb_time (CredCreatedAt c), bk_role = CredRole c,
     bk_consumed_runtime_id = ConsumedRuntimeID c, bk_hosted_internal = HostedInternal c, bk_fingerprint = ClientCertFingerprint c,
     bk_issuer = Issuer c, bk_downloaded_at = map_option pb_time (DownloadedAt c), bk_consumed_at = map_option pb_time (ConsumedAt c),
     bk_expires_at = map_option pb_time (ExpiresAt c), bk_last_used_at = map_option pb_time (LastUsedAt c),
     bk_revoked_at = map_option pb_time (RevokedAt c), bk_cert_expires_at = map_option pb_time (ClientCertExpiresAt c)\<rparr>"

record pb_admission_failure =
  ba_id :: int
  ba_user_id :: int
  ba_key_id :: string
  ba_requested_runtime_id :: string
  ba_requested_name :: string
  ba_source :: string
  ba_role :: string
  ba_failure_code :: string
  ba_reason :: string
  ba_consumed_runtime_id :: string
  ba_attempt_count :: int
  ba_first_seen_at :: "pb_time option"
  ba_last_seen_at :: "pb_time option"

definition seen_at :: "go_time \<Rightarrow> pb_time option" where "seen_at t = (if is_zero t then None else Some (pb_time t))"

definition admissionFailureToProto :: "admission_failure \<Rightarrow> pb_admission_failure" where
  "admissionFailureToProto f = \<lparr>ba_id = af_id f, ba_user_id = af_user_id f, ba_key_id = af_key_id f,
     ba_requested_runtime_id = af_requested_runtime_id f, ba_requested_name = af_requested_name f, ba_source = af_source f,
     ba_role = af_role f, ba_failure_code = af_code f, ba_reason = af_reason f, ba_consumed_runtime_id = af_consumed_runtime_id f,
     ba_attempt_count = wrap32 (af_attempt_count f), ba_first_seen_at = seen_at (af_first_seen_at f), ba_last_seen_at = seen_at (af_last_seen_at f)\<rparr>"

section \<open>Runtimes\<close>

record list_request =
  lq_user :: int
  lq_status :: string
  lq_source :: string
  lq_limit :: int
  lq_offset :: int

record list_response =
  lp_runtimes :: "pb_runtime list"
  lp_has_more :: bool
  lp_total :: int

definition ListRuntimes_rpc :: "runtime_env \<Rightarrow> list_request option \<Rightarrow> runtime_db \<Rightarrow> list_response result" where
  "ListRuntimes_rpc env req db = (case req of
     None \<Rightarrow> request_required
   | Some q \<Rightarrow> (case ListRuntimes_service env (lq_user q) (lq_status q) (lq_source q) (lq_limit q) (lq_offset q) db of
       Inl e \<Rightarrow> Inl (mapErrorToStatus e)
     | Inr (rts, n, others) \<Rightarrow> Inr \<lparr>lp_runtimes = map runtimeToProto rts, lp_has_more = others, lp_total = n\<rparr>))"

record runtime_request =
  rq_user :: int
  rq_runtime :: string

definition GetRuntime_rpc :: "runtime_request option \<Rightarrow> runtime_db \<Rightarrow> pb_runtime result" where
  "GetRuntime_rpc req db = (case req of
     None \<Rightarrow> request_required
   | Some q \<Rightarrow> map_sum mapErrorToStatus runtimeToProto (GetRuntime_service (rq_user q) (rq_runtime q) db))"

definition EndRuntime_rpc :: "runtime_env \<Rightarrow> runtime_request option \<Rightarrow> runtime_service \<Rightarrow> runtime_service \<times> pb_runtime result" where
  "EndRuntime_rpc env req rs = (case req of
     None \<Rightarrow> (rs, request_required)
   | Some q \<Rightarrow> map_prod id (map_sum mapErrorToStatus runtimeToProto) (EndRuntime_service env (rq_user q) (rq_runtime q) None rs))"

record route_request = runtime_request +
  rq_role :: string
  rq_environment :: int

definition ResolveRuntimeRouteByID_rpc :: "runtime_env \<Rightarrow> route_request option \<Rightarrow> runtime_service \<Rightarrow> runtime_service \<times> pb_runtime result" where
  "ResolveRuntimeRouteByID_rpc env req rs = (case req of
     None \<Rightarrow> (rs, request_required)
   | Some q \<Rightarrow> map_prod id (map_sum mapErrorToStatus runtimeToProto)
       (ResolveRuntimeRouteByID env (rq_user q) (rq_runtime q) (rq_role q) (rq_environment q) rs))"

record ensure_request =
  nq_user :: int
  nq_name :: string
  nq_profile :: string

text \<open>The call up to its answer or its wait for the registration, and what it answers in the end.\<close>
definition ensure_answer :: "service_error + runtime \<times> bool \<Rightarrow> (pb_runtime \<times> bool) result" where
  "ensure_answer = map_sum mapErrorToStatus (map_prod runtimeToProto id)"

definition EnsureHostedRuntime_rpc :: "runtime_env \<Rightarrow> ensure_request option \<Rightarrow> runtime_service
    \<Rightarrow> runtime_service \<times> ((pb_runtime \<times> bool) result + string \<times> string)" where
  "EnsureHostedRuntime_rpc env req rs = (case req of
     None \<Rightarrow> (rs, Inl request_required)
   | Some q \<Rightarrow> (case ensure_begin env (nq_user q) (nq_name q) (nq_profile q) rs of
       (rs', Ensured r) \<Rightarrow> (rs', Inl (ensure_answer r))
     | (rs', Waiting rid handle) \<Rightarrow> (rs', Inr (rid, handle))))"

definition EnsureHostedRuntime_rpc_end :: "runtime_env \<Rightarrow> string \<Rightarrow> string \<Rightarrow> service_error + runtime \<Rightarrow> runtime_service
    \<Rightarrow> runtime_service \<times> (pb_runtime \<times> bool) result" where
  "EnsureHostedRuntime_rpc_end env rid handle outcome rs = map_prod id ensure_answer (ensure_end env rid handle outcome rs)"

definition ListRuntimeAdmissionFailures_rpc :: "bool \<Rightarrow> (int \<times> int) option \<Rightarrow> runtime_db \<Rightarrow> pb_admission_failure list result" where
  "ListRuntimeAdmissionFailures_rpc configured req db = (case req of
     None \<Rightarrow> request_required
   | Some (uid, limit) \<Rightarrow>
       if \<not> configured then Inl (Status FailedPrecondition ''runtime service is not configured'')
       else map_sum mapErrorToStatus (map admissionFailureToProto) (ListRuntimeAdmissionFailures uid limit db))"

section \<open>Credentials\<close>

definition no_credential_service :: "'a result" where
  "no_credential_service = Inl (Status FailedPrecondition ''credential service is not configured'')"

record issue_request =
  iq_user :: int
  iq_label :: string
  iq_role :: string

record issue_response =
  ip_key_id :: string
  ip_private_key :: string
  ip_public_key :: string
  ip_created_at :: pb_time
  ip_role :: string
  ip_client_cert :: string
  ip_client_key :: string
  ip_server_ca :: string
  ip_cert_expires_at :: "pb_time option"

definition issuedToProto :: "issued_credential \<Rightarrow> issue_response" where
  "issuedToProto i = (let c = ic_credential i in
     \<lparr>ip_key_id = KeyID c, ip_private_key = ic_private_key i, ip_public_key = PublicKeyPEM c, ip_created_at = pb_time (CredCreatedAt c),
      ip_role = CredRole c, ip_client_cert = ic_client_cert i, ip_client_key = ic_client_key i, ip_server_ca = ic_server_ca i,
      ip_cert_expires_at = map_option pb_time (ClientCertExpiresAt c)\<rparr>)"

definition IssueRuntimeCredential_rpc :: "issue_env option \<Rightarrow> issue_request option \<Rightarrow> runtime_db \<Rightarrow> runtime_db \<times> issue_response result" where
  "IssueRuntimeCredential_rpc svc req db = (case svc of
     None \<Rightarrow> (db, no_credential_service)
   | Some env \<Rightarrow> (case req of
       None \<Rightarrow> (db, request_required)
     | Some q \<Rightarrow> map_prod id (map_sum mapCredentialError issuedToProto) (Issue env (iq_user q) (iq_label q) (iq_role q) db)))"

record credentials_request =
  cq_user :: int
  cq_include_revoked :: bool
  cq_include_inactive :: bool
  cq_limit :: int
  cq_offset :: int

definition ListRuntimeCredentials_rpc :: "bool \<Rightarrow> credentials_request option \<Rightarrow> runtime_db \<Rightarrow> (pb_credential list \<times> bool \<times> int) result" where
  "ListRuntimeCredentials_rpc configured req db =
     (if \<not> configured then no_credential_service
      else case req of
        None \<Rightarrow> request_required
      | Some q \<Rightarrow> (let inactive = (cq_include_revoked q \<or> cq_include_inactive q) in
          if 0 < cq_limit q \<or> 0 < cq_offset q
          then map_sum mapCredentialError (\<lambda>(creds, n, others). (map credentialToProto creds, others, n))
            (ListPage (cq_user q) inactive (cq_limit q) (cq_offset q) db)
          else map_sum mapCredentialError (\<lambda>creds. (map credentialToProto creds, False, int (length creds)))
            (List_credentials (cq_user q) inactive db)))"

definition RevokeRuntimeCredential_rpc :: "bool \<Rightarrow> chan_env option \<Rightarrow> go_time \<Rightarrow> (int \<times> string) option \<Rightarrow> channel_service
    \<Rightarrow> channel_service \<times> (pb_credential \<times> int \<times> int) result" where
  "RevokeRuntimeCredential_rpc configured closer db_now req sv =
     (if \<not> configured then (sv, no_credential_service)
      else case req of
        None \<Rightarrow> (sv, request_required)
      | Some (uid, key) \<Rightarrow> map_prod id (map_sum mapCredentialError
          (\<lambda>r. (credentialToProto (rr_credential r), wrap32 (rr_streams_closed r), wrap32 (rr_runtimes_ended r))))
          (Revoke closer db_now uid key sv))"

text \<open>The peer's address is what the transport knows of it.\<close>
definition remoteIPFromContext :: "net_lib \<Rightarrow> string option \<Rightarrow> string" where
  "remoteIPFromContext net peer = (case peer of
     None \<Rightarrow> ''''
   | Some addr \<Rightarrow> (case nl_split_host_port net addr of Some host \<Rightarrow> host | None \<Rightarrow> addr))"

record bootstrap_request =
  oq_user :: int
  oq_runtime :: string
  oq_name :: string
  oq_csr :: string

definition BootstrapBareRuntimeCertificate_rpc :: "runtime_env option \<Rightarrow> string option \<Rightarrow> bootstrap_request option \<Rightarrow> runtime_service
    \<Rightarrow> runtime_service \<times> (bare_certificate \<times> pb_time) result" where
  "BootstrapBareRuntimeCertificate_rpc svc peer req rs = (case svc of
     None \<Rightarrow> (rs, Inl (Status FailedPrecondition ''runtime service is not configured''))
   | Some env \<Rightarrow> (case req of
       None \<Rightarrow> (rs, request_required)
     | Some q \<Rightarrow> map_prod id (map_sum mapErrorToStatus (\<lambda>c. (c, pb_time (bt_expires_at c))))
         (BootstrapBareRuntimeCertificate env (oq_user q) (oq_runtime q) (oq_name q) (oq_csr q) (remoteIPFromContext (re_net env) peer) rs)))"


definition RuntimeChannel_rpc :: "unit result" where
  "RuntimeChannel_rpc = Inl (Status FailedPrecondition ''RuntimeChannel is served on the dedicated runtime_channel_server listener'')"

section \<open>The debugger\<close>

definition with_debugger :: "debug_env option \<Rightarrow> 'q option \<Rightarrow> 's \<Rightarrow> (debug_env \<Rightarrow> 'q \<Rightarrow> 's \<times> 'a result) \<Rightarrow> 's \<times> 'a result" where
  "with_debugger svc req s call = (case req of
     None \<Rightarrow> (s, request_required)
   | Some q \<Rightarrow> (case svc of None \<Rightarrow> (s, Inl (Status FailedPrecondition ''debugger service is not configured'')) | Some env \<Rightarrow> call env q))"

definition PrepareDebugWorkspace_rpc :: "debug_env option \<Rightarrow> prepare_args option \<Rightarrow> runtime_db \<Rightarrow> runtime_db \<times> pb_workspace result" where
  "PrepareDebugWorkspace_rpc svc req db = with_debugger svc req db (\<lambda>env q.
     map_prod id (map_sum id debugWorkspaceToProto) (PrepareDebugWorkspace env q db))"

definition LoadDebugDataset_rpc :: "debug_env option \<Rightarrow> load_args option \<Rightarrow> runtime_db \<Rightarrow> (runtime_db \<times> pb_dataset result) option" where
  "LoadDebugDataset_rpc svc req db = (case (req, svc) of
     (Some q, Some env) \<Rightarrow> map_option (map_prod id (map_sum id debugDatasetToProto)) (LoadDebugDataset env q db)
   | _ \<Rightarrow> Some (with_debugger svc req db (\<lambda>_ _. (db, request_required))))"

definition GetRuntimeDebugDataset_rpc :: "debug_env option \<Rightarrow> runtime_request option \<Rightarrow> runtime_db \<Rightarrow> pb_dataset result" where
  "GetRuntimeDebugDataset_rpc svc req db = snd (with_debugger svc req db (\<lambda>env q.
     (db, map_sum id debugDatasetToProto (GetRuntimeDebugDataset (rq_user q) (rq_runtime q) db))))"

section \<open>Notifications\<close>

abbreviation CategoryStrategy :: string where "CategoryStrategy \<equiv> ''strategy''"
abbreviation CategoryCustom :: string where "CategoryCustom \<equiv> ''custom''"

definition normalizeNotificationCategory_rpc :: "string \<Rightarrow> string" where
  "normalizeNotificationCategory_rpc category = (let c = to_lower (trim_space category) in
     if c = CategorySystem \<or> c = CategoryStrategy then c else CategoryCustom)"

definition normalizeNotificationSeverity_rpc :: "string \<Rightarrow> string" where
  "normalizeNotificationSeverity_rpc severity = (let s = to_lower (trim_space severity) in
     if s = SeverityWarn \<or> s = SeverityError then s else SeverityInfo)"

definition notificationEventType_rpc :: "string \<Rightarrow> string \<Rightarrow> string" where
  "notificationEventType_rpc category severity =
     (if category = CategoryCustom
      then (if severity = SeverityWarn then ''custom.warn'' else if severity = SeverityError then ''custom.error'' else ''custom.info'')
      else if category = CategoryStrategy then ''strategy.message'' else ''system.message'')"

record notification_request = runtime_request +
  gq_category :: string
  gq_severity :: string
  gq_portfolio :: int
  gq_strategy :: int
  gq_session :: string
  gq_title :: string
  gq_message :: string
  gq_dedupe :: string

definition requested_event :: "runtime \<Rightarrow> notification_request \<Rightarrow> notification" where
  "requested_event rt q = (let category = normalizeNotificationCategory_rpc (gq_category q); severity = normalizeNotificationSeverity_rpc (gq_severity q) in
     \<lparr>nt_schema_version = SchemaVersion, nt_event_id = '''', nt_created_at = zero_time, nt_user_id = UserID rt, nt_category = category,
      nt_event_type = notificationEventType_rpc category severity, nt_severity = severity, nt_source_service = '''', nt_runtime_id = RuntimeID rt,
      nt_runtime_name = Name rt, nt_portfolio_id = gq_portfolio q, nt_strategy_id = gq_strategy q, nt_session_id = trim_space (gq_session q),
      nt_title = trim_space (gq_title q), nt_message = trim_space (gq_message q), nt_dedupe_key = trim_space (gq_dedupe q), nt_metadata = []\<rparr>)"

text \<open>The events handed to the publisher, and the answer. The publisher is \<open>None\<close> where there is none.\<close>
definition PublishRuntimeNotification_rpc :: "bool \<Rightarrow> (notification \<Rightarrow> go_error option) option \<Rightarrow> notification_request option \<Rightarrow> runtime_db
    \<Rightarrow> notification list \<times> unit result" where
  "PublishRuntimeNotification_rpc configured publisher req db = (case req of
     None \<Rightarrow> ([], request_required)
   | Some q \<Rightarrow>
       if \<not> configured then ([], Inl (Status FailedPrecondition ''runtime service is not configured''))
       else (case GetRuntime_service (rq_user q) (trim_space (rq_runtime q)) db of
          Inl e \<Rightarrow> ([], Inl (mapErrorToStatus e))
        | Inr rt \<Rightarrow>
            if IsRuntimeTerminalStatus (RtStatus rt)
            then ([], Inl (Status FailedPrecondition (''runtime '' @ RuntimeID rt @ '' is terminal: '' @ RtStatus rt)))
            else if trim_space (gq_message q) = '''' then ([], Inl (Status InvalidArgument ''notification message is required''))
            else (case publisher of
               None \<Rightarrow> ([], Inr ())
             | Some publish \<Rightarrow> ([requested_event rt q], (case publish (requested_event rt q) of
                 Some e \<Rightarrow> Inl (Status Unavailable (''publish notification: '' @ err_text e)) | None \<Rightarrow> Inr ())))))"

section \<open>Strategies\<close>

text \<open>The four calls of a strategy differ in the name of the method; the answer is awaited by \<open>await_unary\<close>.\<close>
record strategy_request =
  tq_user :: int
  tq_runtime :: string
  tq_packed :: "any_msg result"

definition strategy_rpc :: "string \<Rightarrow> bool \<Rightarrow> strategy_request option \<Rightarrow> string \<Rightarrow> int \<Rightarrow> stream_id option \<Rightarrow> channel_service
    \<Rightarrow> channel_service \<times> stream_id result" where
  "strategy_rpc name configured req cid deadline found sv =
     (if \<not> configured then (sv, Inl (Status FailedPrecondition ''runtime channel service is not configured''))
      else case req of
        None \<Rightarrow> (sv, request_required)
      | Some q \<Rightarrow> InvokeStrategyUnaryByRuntimeID (tq_user q) (tq_runtime q) name (tq_packed q) cid deadline found sv)"

definition RunStrategy_rpc :: "bool \<Rightarrow> strategy_request option \<Rightarrow> string \<Rightarrow> int \<Rightarrow> stream_id option \<Rightarrow> channel_service \<Rightarrow> channel_service \<times> stream_id result"
  where "RunStrategy_rpc = strategy_rpc ''RunStrategy''"

definition PreviewRunStrategy_rpc :: "bool \<Rightarrow> strategy_request option \<Rightarrow> string \<Rightarrow> int \<Rightarrow> stream_id option \<Rightarrow> channel_service \<Rightarrow> channel_service \<times> stream_id result"
  where "PreviewRunStrategy_rpc = strategy_rpc ''PreviewRunStrategy''"

definition StopStrategy_rpc :: "bool \<Rightarrow> strategy_request option \<Rightarrow> string \<Rightarrow> int \<Rightarrow> stream_id option \<Rightarrow> channel_service \<Rightarrow> channel_service \<times> stream_id result"
  where "StopStrategy_rpc = strategy_rpc ''StopStrategy''"

definition GetStrategyStatus_rpc :: "bool \<Rightarrow> strategy_request option \<Rightarrow> string \<Rightarrow> int \<Rightarrow> stream_id option \<Rightarrow> channel_service \<Rightarrow> channel_service \<times> stream_id result"
  where "GetStrategyStatus_rpc = strategy_rpc ''GetStrategyStatus''"

end

