(* ===== verification/RPCClaims.thy ===== *)
theory RPCClaims
  imports RuntimeRPC
begin

text \<open>
  What the remote procedures of the control plane show, and to whom: the message of a runtime tells everything about it but
  its token hash, and what is read for a user depends on the user's own rows only.
\<close>

section \<open>Messages and rows\<close>

lemma pb_time_inject [simp]: "pb_time s = pb_time t \<longleftrightarrow> s = t"
proof
  assume "pb_time s = pb_time t"
  then have "s div second = t div second" "s mod second = t mod second" by (simp_all add: pb_time_def)
  then show "s = t" by (metis div_mult_mod_eq)
qed simp

lemma pb_times_inject [simp]: "map_option pb_time s = map_option pb_time t \<longleftrightarrow> s = t"
  by (cases s; cases t) auto

text \<open>What of a runtime is visible: no token hash, and the debugger's times at a millisecond, where the epoch itself means no time.\<close>

definition whole_ms :: "go_time \<Rightarrow> go_time" where "whole_ms t = unix_milli_time (time_unix_milli t)"

definition visible_workspace :: "debug_workspace \<Rightarrow> debug_workspace" where
  "visible_workspace w = w\<lparr>dw_prepared_at := (case dw_prepared_at w of None \<Rightarrow> Some 0 | Some t \<Rightarrow> Some (whole_ms t))\<rparr>"

definition visible_dataset :: "debug_dataset \<Rightarrow> debug_dataset" where
  "visible_dataset d = d\<lparr>dd_start_at := whole_ms (dd_start_at d), dd_end_at := whole_ms (dd_end_at d), dd_loaded_at := whole_ms (dd_loaded_at d)\<rparr>"

definition visible :: "runtime \<Rightarrow> runtime" where
  "visible r = r\<lparr>TokenHash := '''', DebugWorkspace := visible_workspace (DebugWorkspace r),
     DebugDataset := map_option visible_dataset (DebugDataset r)\<rparr>"

lemma whole_ms_eq: "whole_ms s = whole_ms t \<longleftrightarrow> time_unix_milli s = time_unix_milli t"
  by (simp add: whole_ms_def unix_milli_time_def millisecond_def)

lemma whole_ms_zero: "whole_ms t = 0 \<longleftrightarrow> time_unix_milli t = 0" "0 = whole_ms t \<longleftrightarrow> 0 = time_unix_milli t"
  by (auto simp: whole_ms_def unix_milli_time_def millisecond_def)

lemma workspace_seen: "debugWorkspaceToProto w = debugWorkspaceToProto w' \<longleftrightarrow> visible_workspace w = visible_workspace w'"
  by (cases w; cases w') (auto simp: debugWorkspaceToProto_def visible_workspace_def whole_ms_eq whole_ms_zero split: option.splits)

lemma dataset_seen: "debugDatasetToProto d = debugDatasetToProto d' \<longleftrightarrow> visible_dataset d = visible_dataset d'"
  by (cases d; cases d') (auto simp: debugDatasetToProto_def visible_dataset_def whole_ms_eq)

lemma datasets_seen:
  "map_option debugDatasetToProto d = map_option debugDatasetToProto d' \<longleftrightarrow> map_option visible_dataset d = map_option visible_dataset d'"
  by (cases d; cases d') (simp_all add: dataset_seen)


section \<open>What a user can read\<close>

text \<open>The database with nothing in it but the rows of one user.\<close>
definition own :: "int \<Rightarrow> runtime_db \<Rightarrow> runtime_db" where
  "own uid db = db\<lparr>rt_rows := filter (\<lambda>r. UserID r = uid) (rt_rows db), rt_creds := filter (\<lambda>c. CredUserID c = uid) (rt_creds db),
     rt_datasets := filter (\<lambda>d. dd_user_id d = uid) (rt_datasets db), rt_failures := filter (\<lambda>f. af_user_id f = uid) (rt_failures db)\<rparr>"

lemma own_fields [simp]:
  "rt_rows (own uid db) = filter (\<lambda>r. UserID r = uid) (rt_rows db)" "rt_creds (own uid db) = filter (\<lambda>c. CredUserID c = uid) (rt_creds db)"
  "rt_datasets (own uid db) = filter (\<lambda>d. dd_user_id d = uid) (rt_datasets db)"
  "rt_failures (own uid db) = filter (\<lambda>f. af_user_id f = uid) (rt_failures db)"
  by (simp_all add: own_def)

lemma row_own:
  assumes "keys_ok RuntimeID t"
  shows "row RuntimeID (filter (\<lambda>r. UserID r = uid) t) rid =
    (case row RuntimeID t rid of Some r \<Rightarrow> if UserID r = uid then Some r else None | None \<Rightarrow> None)"
  using assms
proof (induction t)
  case (Cons r t)
  have "row RuntimeID t rid = None" if "RuntimeID r = rid"
    using Cons.prems that by (auto simp: keys_ok_def row_None)
  moreover have "row RuntimeID (filter (\<lambda>r. UserID r = uid) t) rid = (case row RuntimeID t rid of Some r \<Rightarrow> if UserID r = uid then Some r else None | None \<Rightarrow> None)"
    using Cons by (simp add: keys_ok_def)
  ultimately show ?case by (auto simp: row_Cons)
qed simp

lemma GetRuntime_own:
  assumes "keys_ok RuntimeID (rt_rows db)"
  shows "GetRuntime_service uid rid (own uid db) = GetRuntime_service uid rid db"
  unfolding GetRuntime_service_def GetRuntime_def select_one_row own_fields row_own [OF assms]
  by (auto split: option.splits)

lemma own_reads:
  "ListRuntimes collate (own uid db) uid st src l n = ListRuntimes collate db uid st src l n"
  "ListRuntimeCredentialsByUser (own uid db) uid inactive = ListRuntimeCredentialsByUser db uid inactive"
  "GetLatestDebugDataset (own uid db) uid rid = GetLatestDebugDataset db uid rid"
  "ListRuntimeAdmissionFailuresByUser (own uid db) uid n = ListRuntimeAdmissionFailuresByUser db uid n"
  by (simp_all add: ListRuntimes_def ListRuntimeCredentialsByUser_def GetLatestDebugDataset_def ListRuntimeAdmissionFailuresByUser_def)

text \<open>C25. What the reading procedures answer a user, errors included, depends on the user's own rows only: the runtimes, credentials,
  refused admissions and datasets of others cannot be told from rows that do not exist.\<close>

theorem reads_depend_on_own_rows:
  assumes "keys_ok RuntimeID (rt_rows db)"
  shows "ListRuntimes_rpc env (Some lq) (own (lq_user lq) db) = ListRuntimes_rpc env (Some lq) db \<and>
    GetRuntime_rpc (Some q) (own (rq_user q) db) = GetRuntime_rpc (Some q) db \<and>
    ListRuntimeCredentials_rpc configured (Some cq) (own (cq_user cq) db) = ListRuntimeCredentials_rpc configured (Some cq) db \<and>
    ListRuntimeAdmissionFailures_rpc configured (Some (uid, n)) (own uid db) = ListRuntimeAdmissionFailures_rpc configured (Some (uid, n)) db \<and>
    GetRuntimeDebugDataset_rpc svc (Some q) (own (rq_user q) db) = GetRuntimeDebugDataset_rpc svc (Some q) db \<and>
    PublishRuntimeNotification_rpc configured publisher (Some nq) (own (rq_user nq) db) = PublishRuntimeNotification_rpc configured publisher (Some nq) db"
proof (intro conjI)
  show "ListRuntimeCredentials_rpc configured (Some cq) (own (cq_user cq) db) = ListRuntimeCredentials_rpc configured (Some cq) db"
    by (simp add: ListRuntimeCredentials_rpc_def ListPage_def List_credentials_def ListRuntimeCredentialsByUserPage_def own_reads Let_def)
  show "GetRuntimeDebugDataset_rpc svc (Some q) (own (rq_user q) db) = GetRuntimeDebugDataset_rpc svc (Some q) db"
    by (simp add: GetRuntimeDebugDataset_rpc_def with_debugger_def GetRuntimeDebugDataset_def own_reads split: option.splits)
qed (simp_all add: ListRuntimes_rpc_def ListRuntimes_service_def own_reads GetRuntime_rpc_def GetRuntime_own [OF assms]
  ListRuntimeAdmissionFailures_rpc_def ListRuntimeAdmissionFailures_def own_reads PublishRuntimeNotification_rpc_def)


definition other_runtime :: runtime where
  "other_runtime = \<lparr>RuntimeID = ''rt2'', CredentialKeyID = ''k2'', UserID = 8, Name = ''beta'', Source = SourceSelfHosted,
     Role = RoleExecutor, EndpointHost = '''', GRPCPort = 0, DebugPort = 0, Capabilities = [], ResourceProfile = ''small'',
     Version = '''', RtStatus = RuntimeStatusActive, TokenHash = '''', PairedAt = None, StartedAt = Some 10, EndedAt = None,
     EndedReason = '''', CleanupStatus = '''', CleanupReason = '''', CleanupAt = None, HeartbeatAt = Some 10, OwnerInstanceID = '''',
     OwnerAcquiredAt = None, OwnerHeartbeatAt = None, DebugWorkspace = empty_workspace, DebugDataset = None, CreatedAt = 10, UpdatedAt = 10\<rparr>"

definition shared_db :: runtime_db where
  "shared_db = \<lparr>rt_rows = [other_runtime], rt_creds = [], rt_datasets = [], rt_leases = [], rt_failures = [], rt_failure_seq = 0\<rparr>"

theorem reads_depend_on_own_rows_witness:
  "GetRuntime_rpc (Some \<lparr>rq_user = 7, rq_runtime = ''rt2''\<rparr>) shared_db = Inl (Status NotFound ''not found'') \<and>
    rt_rows (own 7 shared_db) = []"
proof -
  let ?q = "\<lparr>rq_user = 7, rq_runtime = ''rt2''\<rparr>"
  have "keys_ok RuntimeID (rt_rows shared_db)" by (simp add: shared_db_def keys_ok_def)
  then have "GetRuntime_rpc (Some ?q) (own (rq_user ?q) shared_db) = GetRuntime_rpc (Some ?q) shared_db"
    using reads_depend_on_own_rows [of shared_db _ _ ?q] by blast
  moreover have "rt_rows (own 7 shared_db) = []" by (simp add: shared_db_def other_runtime_def)
  moreover from this have "GetRuntime_rpc (Some ?q) (own (rq_user ?q) shared_db) = Inl (Status NotFound ''not found'')"
    by (simp add: GetRuntime_rpc_def GetRuntime_service_def GetRuntime_def select_one_def bare_def mapErrorToStatus_def del: own_fields)
  ultimately show ?thesis by simp
qed

end

