(* ===== verification/Texts.thy ===== *)
theory Texts
  imports Prelude
begin

text \<open>Functions of Go's \<open>strings\<close> package that several components use: \<open>Fields\<close>, \<open>Split\<close>, \<open>Trim\<close>, \<open>Cut\<close>.\<close>

fun split_by :: "(char \<Rightarrow> bool) \<Rightarrow> string \<Rightarrow> string list" where
  "split_by P [] = [[]]"
| "split_by P (c # cs) = (if P c then [] # split_by P cs else (case split_by P cs of [] \<Rightarrow> [[c]] | w # ws \<Rightarrow> (c # w) # ws))"

text \<open>\<open>Fields\<close> cuts at every white space rune. A byte that starts none is part of a word: no wide rune starts inside another one.\<close>

function split_fields :: "string \<Rightarrow> string list" where
  "split_fields [] = [[]]"
| "split_fields (c # cs) =
     (if space_front (c # cs) \<noteq> 0 then [] # split_fields (drop (space_front (c # cs)) (c # cs))
      else (case split_fields cs of [] \<Rightarrow> [[c]] | w # ws \<Rightarrow> (c # w) # ws))"
  by pat_completeness auto
termination by (relation "measure length") auto

declare split_fields.simps(2) [simp del]

definition go_fields :: "string \<Rightarrow> string list" where
  "go_fields s = filter (\<lambda>w. w \<noteq> []) (split_fields s)"

definition trim_chars :: "string \<Rightarrow> string \<Rightarrow> string" where
  "trim_chars cutset s = rev (dropWhile (\<lambda>c. c \<in> set cutset) (rev (dropWhile (\<lambda>c. c \<in> set cutset) s)))"

text \<open>The part before the last, and the parts around the first occurrence of a character.\<close>

definition before_last :: "char \<Rightarrow> string \<Rightarrow> string" where
  "before_last c s = (if c \<in> set s then rev (tl (dropWhile (\<lambda>x. x \<noteq> c) (rev s))) else s)"

definition cut_at :: "char \<Rightarrow> string \<Rightarrow> (string \<times> string) option" where
  "cut_at c s = (if c \<in> set s then Some (takeWhile (\<lambda>x. x \<noteq> c) s, tl (dropWhile (\<lambda>x. x \<noteq> c) s)) else None)"

text \<open>\<open>EqualFold\<close> against a word of ASCII letters: two letters outside ASCII fold to ASCII ones (the long s and the Kelvin sign).\<close>
fun fold_case :: "string \<Rightarrow> string" where
  "fold_case [] = []"
| "fold_case (c # cs) =
     (if take 2 (c # cs) = [CHR 0xC5, CHR 0xBF] then CHR ''s'' # fold_case (drop 1 cs)
      else if take 3 (c # cs) = [CHR 0xE2, CHR 0x84, CHR 0xAA] then CHR ''k'' # fold_case (drop 2 cs)
      else lower_char c # fold_case cs)"

lemma split_by_not_Nil [simp]: "split_by P s \<noteq> []"
  by (cases s) (auto split: list.splits)

lemma split_fields_not_Nil [simp]: "split_fields s \<noteq> []"
  by (cases s) (auto simp: split_fields.simps(2) split: list.splits)

text \<open>A text that is cut before a byte that continues no rune is cut into the same fields.\<close>

lemma split_fields_append:
  assumes "\<not> continuation (hd s)" "s \<noteq> []"
  shows "split_fields (t @ s) = butlast (split_fields t) @ (last (split_fields t) @ hd (split_fields s)) # tl (split_fields s)"
proof (induction t rule: split_fields.induct)
  case (2 c cs)
  have f: "space_front ((c # cs) @ s) = space_front (c # cs)" using assms by (intro space_front_append) auto
  show ?case
  proof (cases "space_front (c # cs) = 0")
    case True
    then show ?thesis using 2(2) f by (auto simp: split_fields.simps(2) split: list.splits)
  next
    case False
    have "drop (space_front (c # cs)) ((c # cs) @ s) = drop (space_front (c # cs)) (c # cs) @ s"
      using space_front_le [of "c # cs"] by (simp only: drop_append diff_is_0_eq [THEN iffD2] drop_0)
    then show ?thesis using 2(1) [OF False] False f by (simp add: split_fields.simps(2))
  qed
qed simp

lemma split_fields_clean: "no_space w \<Longrightarrow> split_fields w = [w]"
  by (induction w) (auto simp: split_fields.simps(2))

lemma space_front_space: "is_space b \<Longrightarrow> space_front (b # s) = 1"
  by (simp add: space_front_def)

lemma space_not_continuation: "is_space b \<Longrightarrow> \<not> continuation b"
  using continuation_not_space by blast

text \<open>The first field of a text that starts with a word and white space.\<close>
lemma go_fields_first: "w \<noteq> [] \<Longrightarrow> no_space w \<Longrightarrow> is_space b \<Longrightarrow> go_fields (w @ b # s) = w # go_fields s"
  by (simp add: go_fields_def split_fields_append split_fields_clean space_not_continuation split_fields.simps(2) space_front_space)

lemma go_fields_cut: "is_space b \<Longrightarrow> go_fields (t @ b # s) = go_fields t @ go_fields s"
  by (cases "split_fields t" rule: rev_cases)
    (simp_all add: go_fields_def split_fields_append space_not_continuation split_fields.simps(2) space_front_space)

lemma go_fields_last: "w \<noteq> [] \<Longrightarrow> no_space w \<Longrightarrow> go_fields w = [w]"
  by (simp add: go_fields_def split_fields_clean)

lemma go_fields_Nil [simp]: "go_fields [] = []"
  by (simp add: go_fields_def)

text \<open>White space around a text is no field.\<close>

lemma go_fields_space: "s \<noteq> [] \<Longrightarrow> space_front s \<noteq> 0 \<Longrightarrow> go_fields (drop (space_front s) s) = go_fields s"
  by (cases s) (simp_all add: go_fields_def split_fields.simps(2))

lemma go_fields_rear: "r \<noteq> [] \<Longrightarrow> space_rear r \<noteq> 0 \<Longrightarrow> go_fields (rev (drop (space_rear r) r)) = go_fields (rev r)"
proof -
  assume r: "r \<noteq> []" "space_rear r \<noteq> 0"
  then obtain u where u: "rev r = rev (drop (space_rear r) r) @ u" "u \<noteq> []" "\<not> continuation (hd u)" "space_front u = length u"
    using space_rear_rune by blast
  have "split_fields u = [[], []]" using u(2,4) by (cases u) (simp_all add: split_fields.simps(2))
  then show ?thesis unfolding u(1) go_fields_def
    by (cases "split_fields (rev (drop (space_rear r) r))" rule: rev_cases) (simp_all add: split_fields_append [OF u(3,2)])
qed

lemma go_fields_trim: "go_fields (trim_space s) = go_fields s"
proof -
  have front: "f = space_front \<Longrightarrow> go_fields (strip f s) = go_fields s" for f s
    by (induction f s rule: strip.induct) (metis go_fields_space strip.simps)
  have rear: "f = space_rear \<Longrightarrow> go_fields (rev (strip f r)) = go_fields (rev r)" for f r
    by (induction f r rule: strip.induct) (metis go_fields_rear strip.simps)
  show ?thesis unfolding trim_space_def using front rear by simp
qed

lemma trim_chars_id: "(\<And>c. c \<in> set s \<Longrightarrow> c \<notin> set cutset) \<Longrightarrow> trim_chars cutset s = s"
proof -
  assume a: "\<And>c. c \<in> set s \<Longrightarrow> c \<notin> set cutset"
  have "dropWhile (\<lambda>c. c \<in> set cutset) t = t" if "set t \<subseteq> set s" for t
    using that a by (cases t) auto
  then show ?thesis by (simp add: trim_chars_def)
qed

lemma trim_space_word: "w \<noteq> [] \<Longrightarrow> list_all plain w \<Longrightarrow> is_space b \<Longrightarrow> trim_space (w @ [b]) = w"
  using trim_space_space [of "hd w" "tl w" b] by (cases w) (auto simp: list_all_iff)

end
