(* ===== verification/DockerProvisioner.thy ===== *)
theory DockerProvisioner
  imports Texts RuntimeService
begin

text \<open>
  \<open>internal/provision/docker.go\<close>: starting and removing the container of a hosted runtime. Running a command changes a world of
  containers that only the command runner knows; the theory is generic in it. The arguments of \<open>docker run\<close> are the list the
  code builds; Go walks over the map of operator variables in any order, so the configuration holds them as a list in that order.
\<close>

section \<open>State\<close>

type_synonym 'w runner = "string list \<Rightarrow> 'w \<Rightarrow> 'w \<times> string \<times> go_error option"

text \<open>The image, \<open>config.DockerProvisioningConfig\<close>, and the address the container dials.\<close>
record docker_config =
  dk_image :: string
  dk_network_mode :: string
  dk_label_prefix :: string
  dk_runtime_env :: "(string \<times> string) list"
  dk_channel_addr :: string

section \<open>Arguments\<close>

definition isPlatformReservedEnvKey :: "string \<Rightarrow> bool" where
  "isPlatformReservedEnvKey k \<longleftrightarrow> k = ''SERVER_GRPC_ADDR'' \<or> has_prefix k ''RUNTIME_''"

definition needsDockerHostGateway :: "string \<Rightarrow> bool" where
  "needsDockerHostGateway addr \<longleftrightarrow> fold_case (trim_chars ''[]'' (before_last (CHR '':'') (trim_space addr))) = ''host.docker.internal''"

definition credential_json :: "provision_plan \<Rightarrow> string" where
  "credential_json p = json_object [(''key_id'', json_string (pp_credential_key_id p)),
     (''private_key_pem'', json_string (pp_credential_private_key p)), (''version'', ''1'')]"

definition bundle_json :: "provision_plan \<Rightarrow> string" where
  "bundle_json p = json_object [(''client_cert_pem'', json_string (pp_client_cert p)), (''client_key_pem'', json_string (pp_client_key p)),
     (''server_ca_pem'', json_string (pp_server_ca p))]"

text \<open>The variables the platform sets, in their order.\<close>
definition platform_env_vars :: "docker_config \<Rightarrow> provision_plan \<Rightarrow> string list" where
  "platform_env_vars cfg p =
     [''RUNTIME_SOURCE=hosted'', ''RUNTIME_RUNTIME_ID='' @ pp_runtime_id p, ''RUNTIME_NAME='' @ pp_name p,
      ''RUNTIME_RESOURCE_PROFILE='' @ pp_profile_name p, ''RUNTIME_CHANNEL_GRPC_ADDR='' @ dk_channel_addr cfg] @
     (if pp_credential_key_id p \<noteq> '''' \<and> pp_credential_private_key p \<noteq> '''' then [''RUNTIME_CREDENTIAL_JSON='' @ credential_json p] else []) @
     (if pp_client_cert p \<noteq> '''' \<and> pp_client_key p \<noteq> '''' \<and> pp_server_ca p \<noteq> ''''
      then [''RUNTIME_CHANNEL_TLS_ENABLED=true'', ''RUNTIME_CHANNEL_TLS_BUNDLE_JSON='' @ bundle_json p] @
        (if pp_tls_server_name p \<noteq> '''' then [''RUNTIME_CHANNEL_TLS_SERVER_NAME='' @ pp_tls_server_name p] else []) else [])"

definition operator_env_vars :: "docker_config \<Rightarrow> string list" where
  "operator_env_vars cfg = map (\<lambda>(k, v). k @ ''='' @ v) (filter (\<lambda>(k, v). \<not> isPlatformReservedEnvKey k) (dk_runtime_env cfg))"

definition flagged :: "string \<Rightarrow> string list \<Rightarrow> string list" where
  "flagged f vs = concat (map (\<lambda>v. [f, v]) vs)"

definition buildRunArgs :: "docker_config \<Rightarrow> provision_plan \<Rightarrow> string list" where
  "buildRunArgs cfg p =
     (let prefix = (if dk_label_prefix cfg = '''' then ''hushine.runtime'' else dk_label_prefix cfg);
          network = (if dk_network_mode cfg = '''' then ''host'' else dk_network_mode cfg) in
      [''run'', ''-d''] @ flagged ''--name'' [''hushine-runtime-'' @ pp_runtime_id p] @
      flagged ''--label'' [prefix @ ''.runtime_id='' @ pp_runtime_id p, prefix @ ''.user_id='' @ format_int (pp_user_id p),
        prefix @ ''.name='' @ pp_name p, prefix @ ''.resource_profile='' @ pp_profile_name p] @
      (if rp_nano_cpus (pp_limits p) \<noteq> '''' then flagged ''--cpus'' [rp_nano_cpus (pp_limits p)] else []) @
      (if 0 < rp_memory_mb (pp_limits p) then flagged ''--memory'' [format_int (rp_memory_mb (pp_limits p)) @ ''m''] else []) @
      (if 0 < rp_pids_limit (pp_limits p) then flagged ''--pids-limit'' [format_int (rp_pids_limit (pp_limits p))] else []) @
      (if network = ''host'' then flagged ''--network'' [''host'']
       else flagged ''--network'' [network] @
         (if needsDockerHostGateway (dk_channel_addr cfg) then flagged ''--add-host'' [''host.docker.internal:host-gateway''] else [])) @
      flagged ''-e'' (platform_env_vars cfg p) @ flagged ''-e'' (operator_env_vars cfg) @ [dk_image cfg])"

section \<open>Containers\<close>

definition container_char :: "char \<Rightarrow> bool" where
  "container_char c \<longleftrightarrow> (let n = of_char c :: nat in 48 \<le> n \<and> n \<le> 57 \<or> 97 \<le> n \<and> n \<le> 102)"

definition looksLikeContainerID :: "string \<Rightarrow> bool" where
  "looksLikeContainerID s \<longleftrightarrow> 12 \<le> length s \<and> length s \<le> 64 \<and> list_all container_char s"

definition quotes :: string where "quotes = [CHR 0x22, CHR 0x27, CHR 0x60]"

definition partialContainerHandleFromDockerRunOutput :: "string \<Rightarrow> string" where
  "partialContainerHandleFromDockerRunOutput output =
     (case filter looksLikeContainerID (map (trim_chars quotes) (go_fields output)) of [] \<Rightarrow> '''' | c # _ \<Rightarrow> c)"

definition DeprovisionContainer :: "'w runner \<Rightarrow> string \<Rightarrow> 'w \<Rightarrow> 'w \<times> go_error option" where
  "DeprovisionContainer run handle w =
     (if handle = '''' then (w, Some (Plain ''deprovision: empty handle''))
      else let (w', out, e) = run [''rm'', ''-f'', handle] w in (w', e))"

definition provision_failed :: "string \<Rightarrow> go_error" where
  "provision_failed m = Plain (''provision: backend rejected start: '' @ m)"

definition ProvisionContainer :: "'w runner \<Rightarrow> docker_config \<Rightarrow> provision_plan \<Rightarrow> 'w \<Rightarrow> 'w \<times> string result" where
  "ProvisionContainer run cfg p w =
     (if dk_image cfg = '''' then (w, Inl (Plain ''provision: backend not configured: provisioning.image is empty''))
      else if pp_runtime_id p = '''' \<or> pp_user_id p \<le> 0 \<or> pp_name p = ''''
      then (w, Inl (provision_failed ''incomplete Plan (runtime_id / user_id / name required)''))
      else case run (buildRunArgs cfg p) w of
        (w1, out, Some e) \<Rightarrow>
          (let output = trim_space out; handle = partialContainerHandleFromDockerRunOutput output;
               failed = ''docker run failed: '' @ err_text e @ '': '' @ output in
           if handle = '''' then (w1, Inl (provision_failed failed))
           else (case DeprovisionContainer run handle w1 of
              (w2, Some ce) \<Rightarrow> (w2, Inl (provision_failed (failed @ ''; cleanup partial container '' @ handle @ '' failed: '' @ err_text ce)))
            | (w2, None) \<Rightarrow> (w2, Inl (provision_failed failed))))
      | (w1, out, None) \<Rightarrow>
          (let containerID = trim_space out in
           if containerID = '''' then (w1, Inl (provision_failed ''docker run returned empty container id'')) else (w1, Inr containerID)))"

section \<open>Diagnostics\<close>

definition inspect_format :: string where
  "inspect_format = ''state={{.State.Status}} exit={{.State.ExitCode}} error={{.State.Error}} started={{.State.StartedAt}} finished={{.State.FinishedAt}}''"

definition report_part :: "string \<Rightarrow> string \<times> go_error option \<Rightarrow> string list" where
  "report_part name answer = (let (out, e) = answer; text = trim_space out in
     (if text \<noteq> '''' then [name @ '': '' @ text] else []) @ (case e of None \<Rightarrow> [] | Some e \<Rightarrow> [name @ ''_error: '' @ err_text e]))"

text \<open>\<open>redact\<close> replaces what the two regular expressions for secrets match.\<close>
definition Diagnostics :: "'w runner \<Rightarrow> (string \<Rightarrow> string) \<Rightarrow> string \<Rightarrow> 'w \<Rightarrow> 'w \<times> string result" where
  "Diagnostics run redact handle w =
     (if handle = '''' then (w, Inl (Plain ''diagnostics: empty handle''))
      else (let (w1, inspected) = run [''inspect'', ''--format'', inspect_format, handle] w;
                (w2, logged) = run [''logs'', ''--tail'', ''80'', handle] w1;
                parts = report_part ''inspect'' inspected @ report_part ''logs'' logged in
            if parts = [] then (w2, Inr '''')
            else (let out = redact (join '' | '' parts) in
                  (w2, Inr (if 4000 < length out then take 4000 out @ ''...<truncated>'' else out)))))"


section \<open>What the platform sets stays set\<close>

text \<open>The flags of \<open>docker run\<close> between \<open>-d\<close> and the image, each with its value.\<close>
fun flag_pairs :: "string list \<Rightarrow> (string \<times> string) list" where
  "flag_pairs (f # v # rest) = (f, v) # flag_pairs rest"
| "flag_pairs _ = []"

lemma flag_pairs_flagged [simp]: "flag_pairs (flagged f vs @ rest) = map (Pair f) vs @ flag_pairs rest"
  by (induction vs) (simp_all add: flagged_def)

lemma flag_pairs_if [simp]: "flag_pairs ((if b then xs else ys) @ rest) = (if b then flag_pairs (xs @ rest) else flag_pairs (ys @ rest))"
  by simp

lemma operator_vars_free:
  assumes "v \<in> set (operator_env_vars cfg)"
  shows "\<not> has_prefix v ''RUNTIME_''"
proof
  obtain k x where v: "v = k @ CHR ''='' # x" "\<not> has_prefix k ''RUNTIME_''"
    using assms by (auto simp: operator_env_vars_def isPlatformReservedEnvKey_def)
  assume "has_prefix v ''RUNTIME_''"
  then have t: "take 8 (k @ CHR ''='' # x) = ''RUNTIME_''" by (simp add: has_prefix_def v(1) numeral_eq_Suc)
  show False
  proof (cases "8 \<le> length k")
    case True
    then have "take 8 k = ''RUNTIME_''" using t by simp
    then show False using v(2) by (simp add: has_prefix_def numeral_eq_Suc)
  next
    case False
    then have "CHR ''='' \<in> set (take 8 (k @ CHR ''='' # x))" by (cases "8 - length k") auto
    then show False unfolding t by simp
  qed
qed

text \<open>C27. In the command that starts a container, every variable whose name begins with \<open>RUNTIME_\<close> is set by the platform, from the plan and
  its own configuration, whatever variables the operator configured; and the container has the name by which the service removes it.\<close>

theorem platform_variables_not_shadowed:
  "filter (\<lambda>(f, v). f = ''-e'' \<and> has_prefix v ''RUNTIME_'') (flag_pairs (drop 2 (buildRunArgs cfg p))) = map (Pair ''-e'') (platform_env_vars cfg p) \<and>
   (''--name'', hostedRuntimeHandle (pp_runtime_id p)) \<in> set (flag_pairs (drop 2 (buildRunArgs cfg p)))"
proof
  let ?pairs = "flag_pairs (drop 2 (buildRunArgs cfg p))"
  have "filter (\<lambda>v. has_prefix v ''RUNTIME_'') (operator_env_vars cfg) = []"
    using operator_vars_free by (auto simp: filter_empty_conv)
  moreover have "filter (\<lambda>v. has_prefix v ''RUNTIME_'') (platform_env_vars cfg p) = platform_env_vars cfg p"
    by (simp add: platform_env_vars_def has_prefix_def)
  ultimately show "filter (\<lambda>(f, v). f = ''-e'' \<and> has_prefix v ''RUNTIME_'') ?pairs = map (Pair ''-e'') (platform_env_vars cfg p)"
    by (simp add: buildRunArgs_def Let_def filter_map comp_def)
  show "(''--name'', hostedRuntimeHandle (pp_runtime_id p)) \<in> set ?pairs"
    by (simp add: buildRunArgs_def Let_def hostedRuntimeHandle_def)
qed

section \<open>What a start leaves behind\<close>

text \<open>
  What the Docker client does. \<open>run -d\<close> that succeeds has started one new container and printed its id on a line of its own;
  the output is standard output and standard error together, so warnings may stand before and after that line. One that fails, or
  whose client is killed when the context ends, has made one new container or none, and has printed anything. \<open>rm -f\<close>
  removes what its argument refers to (an id, a name or the beginning of an id), a whole id to the container that has it; when it
  reports an error it may have removed it or not. No other client starts or removes containers meanwhile.
\<close>

definition container_id :: "string \<Rightarrow> bool" where "container_id c \<longleftrightarrow> length c = 64 \<and> list_all container_char c"

definition fresh_container :: "string set \<Rightarrow> string set \<Rightarrow> bool" where
  "fresh_container old new \<longleftrightarrow> new = {} \<or> (\<exists>c. new = {c} \<and> container_id c \<and> c \<notin> old)"

definition printed_id :: "string \<Rightarrow> string \<Rightarrow> string \<Rightarrow> string \<Rightarrow> bool" where
  "printed_id out pre c post \<longleftrightarrow> out = pre @ c @ CHR 0x0A # post \<and> (pre = '''' \<or> last pre = CHR 0x0A)"

definition docker_client :: "'w runner \<Rightarrow> ('w \<Rightarrow> string set) \<Rightarrow> ('w \<Rightarrow> string \<Rightarrow> string set) \<Rightarrow> bool" where
  "docker_client run containers refers \<longleftrightarrow> (\<forall>args w w' out e. run args w = (w', out, e) \<longrightarrow>
     (hd args = ''run'' \<longrightarrow> (case e of
         None \<Rightarrow> (\<exists>c pre post. container_id c \<and> printed_id out pre c post \<and> c \<notin> containers w \<and> containers w' = insert c (containers w))
       | Some _ \<Rightarrow> (\<exists>new. fresh_container (containers w) new \<and> containers w' = containers w \<union> new))) \<and>
     (hd args = ''rm'' \<longrightarrow> containers w - refers w (last args) \<subseteq> containers w' \<and>
        containers w' \<subseteq> (if e = None then containers w - refers w (last args) else containers w))) \<and>
   (\<forall>w c. c \<in> containers w \<longrightarrow> refers w c = {c})"

lemma container_char_plain: "container_char c \<Longrightarrow> plain c" "container_char c \<Longrightarrow> c \<notin> set quotes"
  by (auto simp: container_char_def plain_def is_space_def quotes_def Let_def)

lemma container_id_plain:
  assumes "container_id c"
  shows "list_all plain c" "c \<noteq> ''''" "no_space c" "c = hd c # tl c" "\<not> continuation (hd c)"
proof -
  show p: "list_all plain c" and n: "c \<noteq> ''''"
    using assms container_char_plain(1) by (auto simp: container_id_def list_all_iff)
  show "no_space c" by (rule no_space_plain [OF p])
  show h: "c = hd c # tl c" using n by simp
  have "plain (hd c)" using p n by (cases c) auto
  then show "\<not> continuation (hd c)" by (auto simp: plain_def continuation_def Let_def)
qed

text \<open>The id is one of the fields of the output, and the only one exactly when nothing but white space was printed with it.\<close>

lemma printed_fields: "container_id c \<Longrightarrow> printed_id out pre c post \<Longrightarrow> go_fields out = go_fields pre @ c # go_fields post"
proof -
  assume c: "container_id c" and o: "printed_id out pre c post"
  note p = container_id_plain [OF c]
  have id: "go_fields (c @ CHR 0x0A # post) = c # go_fields post"
    by (rule go_fields_first [OF p(2,3)]) (simp add: is_space_def)
  show ?thesis
  proof (cases "pre = ''''")
    case False
    then have "pre = butlast pre @ [CHR 0x0A]" using o by (metis append_butlast_last_id printed_id_def)
    then obtain q where q: "pre = q @ [CHR 0x0A]" by blast
    then have "out = q @ CHR 0x0A # c @ CHR 0x0A # post" using o by (simp add: printed_id_def)
    then show ?thesis using id q go_fields_cut [of "CHR 0x0A" q "c @ CHR 0x0A # post"] go_fields_cut [of "CHR 0x0A" q "[]"]
      by (simp add: is_space_def)
  qed (use o id in \<open>simp add: printed_id_def\<close>)
qed

lemma only_id_printed: "container_id c \<Longrightarrow> trim_space (c @ [CHR 0x0A]) = c"
  using container_id_plain by (intro trim_space_word) (simp_all add: is_space_def)

lemma handle_is_id:
  assumes "container_id c" "printed_id out pre c post"
  shows "pre = '''' \<and> post = '''' \<Longrightarrow> trim_space out = c" "container_id (trim_space out) \<Longrightarrow> go_fields pre = [] \<and> go_fields post = []"
    "trim_space out \<noteq> ''''"
proof -
  show "pre = '''' \<and> post = '''' \<Longrightarrow> trim_space out = c"
    using assms(2) only_id_printed [OF assms(1)] by (simp add: printed_id_def)
  have f: "go_fields (trim_space out) = go_fields pre @ c # go_fields post"
    using printed_fields [OF assms] by (simp add: go_fields_trim)
  show "trim_space out \<noteq> ''''" using f by (auto simp: go_fields_def)
  assume "container_id (trim_space out)"
  then have "go_fields (trim_space out) = [trim_space out]" using container_id_plain by (intro go_fields_last) blast+
  then show "go_fields pre = [] \<and> go_fields post = []" using f by (cases "go_fields pre") auto
qed

definition complete_plan :: "docker_config \<Rightarrow> provision_plan \<Rightarrow> bool" where
  "complete_plan cfg p \<longleftrightarrow> dk_image cfg \<noteq> '''' \<and> pp_runtime_id p \<noteq> '''' \<and> 0 < pp_user_id p \<and> pp_name p \<noteq> ''''"

lemma cleanup_named:
  "contains (err_text (provision_failed (pre @ ''; cleanup partial container '' @ h @ '' failed: '' @ msg))) (''cleanup partial container '' @ h)"
  unfolding contains_iff
  by (rule exI [of _ "''provision: backend rejected start: '' @ pre @ ''; ''"], rule exI [of _ "'' failed: '' @ msg"]) (simp add: provision_failed_def)

lemma ProvisionContainer_failed:
  assumes "complete_plan cfg p" "run (buildRunArgs cfg p) w = (w1, out, Some e)" "ProvisionContainer run cfg p w = (w', r)"
    and "h = partialContainerHandleFromDockerRunOutput out"
  shows "\<exists>err. r = Inl err \<and> (if h = '''' then w' = w1
    else \<exists>msg e2. run [''rm'', ''-f'', h] w1 = (w', msg, e2) \<and> (e2 \<noteq> None \<longrightarrow> contains (err_text err) (''cleanup partial container '' @ h)))"
proof -
  have h: "partialContainerHandleFromDockerRunOutput (trim_space out) = h"
    using assms(4) by (simp add: partialContainerHandleFromDockerRunOutput_def go_fields_trim)
  have g: "\<not> dk_image cfg = ''''" "\<not> (pp_runtime_id p = '''' \<or> pp_user_id p \<le> 0 \<or> pp_name p = '''')"
    using assms(1) by (auto simp: complete_plan_def)
  show ?thesis
  proof (cases "h = ''''")
    case True
    then show ?thesis using assms(2,3) g h by (auto simp: ProvisionContainer_def Let_def)
  next
    case False
    obtain w2 msg e2 where rm: "run [''rm'', ''-f'', h] w1 = (w2, msg, e2)" by (metis surj_pair)
    then have d: "DeprovisionContainer run h w1 = (w2, e2)" using False by (simp add: DeprovisionContainer_def)
    show ?thesis
    proof (cases e2)
      case None
      then show ?thesis using assms(2,3) g h False d rm by (auto simp: ProvisionContainer_def Let_def)
    next
      case (Some ce)
      define failed where "failed = ''docker run failed: '' @ err_text e @ '': '' @ trim_space out"
      have "r = Inl (provision_failed (failed @ ''; cleanup partial container '' @ h @ '' failed: '' @ err_text ce)) \<and> w' = w2"
        using assms(2,3) g h False d Some by (simp add: ProvisionContainer_def Let_def failed_def)
      then show ?thesis using False rm cleanup_named [of failed h "err_text ce"] by (auto simp del: contains.simps)
    qed
  qed
qed



text \<open>A daemon that makes its one container and then fails to start it.\<close>
definition sample_container :: string where "sample_container = replicate 64 (CHR ''a'')"

definition half_start :: "bool runner" where
  "half_start args made =
     (if hd args = ''run'' then (if made then (made, '''', Some (Plain ''exit status 125''))
        else (True, sample_container @ [CHR 0x0A] @ ''no such network'', Some (Plain ''exit status 125'')))
      else if hd args = ''rm'' then (made \<and> last args \<noteq> sample_container, '''', None) else (made, '''', None))"

definition sample_docker :: docker_config where
  "sample_docker = \<lparr>dk_image = ''img'', dk_network_mode = ''net'', dk_label_prefix = '''', dk_runtime_env = [(''RUNTIME_SOURCE'', ''evil'')],
     dk_channel_addr = ''host.docker.internal:50055''\<rparr>"

definition sample_plan :: provision_plan where
  "sample_plan = \<lparr>pp_runtime_id = ''rt-1'', pp_user_id = 7, pp_name = ''alpha'', pp_endpoint_host = '''', pp_grpc_port = 0, pp_image = '''',
     pp_limits = \<lparr>rp_nano_cpus = '''', rp_memory_mb = 0, rp_pids_limit = 0\<rparr>, pp_profile_name = ''small'', pp_capabilities = [],
     pp_control_panel_grpc = '''', pp_credential_key_id = '''', pp_credential_private_key = '''', pp_client_cert = '''', pp_client_key = '''',
     pp_server_ca = '''', pp_tls_server_name = ''''\<rparr>"

abbreviation made_containers :: "bool \<Rightarrow> string set" where "made_containers w \<equiv> (if w then {sample_container} else {})"

lemma sample_container_id: "container_id sample_container"
  by (simp add: container_id_def sample_container_def list_all_length container_char_def)

lemma half_start_client: "docker_client half_start made_containers (\<lambda>w c. {c})"
  using sample_container_id by (auto simp: docker_client_def half_start_def fresh_container_def split: if_splits)

lemma sample_plan_complete: "complete_plan sample_docker sample_plan"
  by (simp add: complete_plan_def sample_docker_def sample_plan_def)

lemma half_start_runs:
  "half_start (buildRunArgs sample_docker sample_plan) False = (True, sample_container @ [CHR 0x0A] @ ''no such network'', Some (Plain ''exit status 125''))"
  by (simp add: half_start_def buildRunArgs_def Let_def)


text \<open>A client that warns before it prints the id: the answer of the start is no container's id, and removes none later.\<close>

definition warning_start :: "bool runner" where
  "warning_start args made = (if hd args = ''run'' \<and> \<not> made then (True, ''WARNING: no swap limit'' @ CHR 0x0A # sample_container @ [CHR 0x0A], None)
     else (made, '''', Some (Plain ''exit status 1'')))"

lemma warning_spoils_handle:
  "\<exists>handle. ProvisionContainer warning_start sample_docker sample_plan False = (True, Inr handle) \<and> handle \<noteq> sample_container"
proof -
  let ?out = "''WARNING: no swap limit'' @ CHR 0x0A # sample_container @ [CHR 0x0A]"
  have r: "warning_start (buildRunArgs sample_docker sample_plan) False = (True, ?out, None)"
    by (simp add: warning_start_def buildRunArgs_def Let_def)
  have p: "printed_id ?out (''WARNING: no swap limit'' @ [CHR 0x0A]) sample_container ''''" by (simp add: printed_id_def)
  note t = handle_is_id [OF sample_container_id p]
  have "no_space ''WARNING:''" by (intro no_space_plain) (simp add: plain_def is_space_def)
  then have "go_fields (''WARNING:'' @ CHR '' '' # ''no swap limit'' @ [CHR 0x0A]) \<noteq> []"
    using go_fields_first [of "''WARNING:''" "CHR '' ''" "''no swap limit'' @ [CHR 0x0A]"] by (simp add: is_space_def)
  then have "\<not> container_id (trim_space ?out)" using t(2) by auto
  then have "trim_space ?out \<noteq> sample_container" using sample_container_id by auto
  moreover have "ProvisionContainer warning_start sample_docker sample_plan False = (True, Inr (trim_space ?out))"
    using t(3) r sample_plan_complete by (simp add: ProvisionContainer_def complete_plan_def)
  ultimately show ?thesis by blast
qed

end
