(* ===== verification/Configuration.thy ===== *)
theory Configuration
  imports Texts PlanLimits RuntimeService KlineQuery
begin

text \<open>
  \<open>internal/config/config.go\<close>: the configuration, its defaults and what the environment overrides. The logging settings belong to a
  library and are a parameter of the type; the YAML decoder is a parameter of \<open>Load\<close>, \<open>time.ParseDuration\<close> one of the overrides.
\<close>

section \<open>The configuration\<close>

record tls_settings =
  tl_enabled :: bool
  tl_cert_file :: string
  tl_key_file :: string
  tl_server_name :: string
  tl_client_ca_file :: string
  tl_client_ca_key_file :: string

record database_settings =
  dc_host :: string
  dc_port :: int
  dc_user :: string
  dc_password :: string
  dc_name :: string
  dc_sslmode :: string

record market_settings =
  mk_host :: string
  mk_port :: int
  mk_user :: string
  mk_password :: string
  mk_database :: string
  mk_sslmode :: string
  mk_live_delivery :: bool
  mk_brokers :: "string list"

record notification_settings =
  nf_enabled :: bool
  nf_brokers :: "string list"
  nf_topic :: string
  nf_client_id :: string

record platform_settings =
  pf_max_hosted :: int
  pf_max_self_hosted :: int
  pf_default_plan :: string
  pf_heartbeat_grace :: int
  pf_death_grace :: int
  pf_bare_death_grace :: int
  pf_bare_enabled :: bool
  pf_bare_allowlist :: "string list"
  pf_bare_ttl :: duration

record docker_settings =
  dp_network_mode :: string
  dp_dial_addr :: string
  dp_runtime_env :: "(string \<times> string) list"
  dp_label_prefix :: string

record 'l config =
  cf_http_addr :: string
  cf_grpc_addr :: string
  cf_channel_addr :: string
  cf_tls :: tls_settings
  cf_database :: database_settings
  cf_market :: market_settings
  cf_portfolio_grpc :: string
  cf_order_grpc :: string
  cf_platform :: platform_settings
  cf_plans :: "string \<rightharpoonup> runtime_plan"
  cf_backend :: string
  cf_provisioning :: provisioning_config
  cf_docker :: docker_settings
  cf_notification :: notification_settings
  cf_log :: 'l

section \<open>Defaults\<close>

definition defaultResourceProfiles :: "string \<rightharpoonup> resource_profile" where
  "defaultResourceProfiles =
     [''small'' \<mapsto> \<lparr>rp_nano_cpus = ''0.5'', rp_memory_mb = 512, rp_pids_limit = 256\<rparr>,
      ''medium'' \<mapsto> \<lparr>rp_nano_cpus = ''1.0'', rp_memory_mb = 1024, rp_pids_limit = 512\<rparr>,
      ''large'' \<mapsto> \<lparr>rp_nano_cpus = ''2.0'', rp_memory_mb = 2048, rp_pids_limit = 1024\<rparr>]"

definition defaultPlans :: "string \<rightharpoonup> runtime_plan" where
  "defaultPlans =
     [''free'' \<mapsto> \<lparr>rp_hosted = 1, rp_self_hosted = 0, rp_routing_enabled = 1, rp_sessions_total = 2, rp_sessions_per_runtime = 2,
        rp_profiles = [''small''], rp_allow_self_hosted = False, rp_allow_ide_debug = False\<rparr>,
      ''developer'' \<mapsto> \<lparr>rp_hosted = 2, rp_self_hosted = 2, rp_routing_enabled = 3, rp_sessions_total = 5, rp_sessions_per_runtime = 3,
        rp_profiles = [''small'', ''medium''], rp_allow_self_hosted = True, rp_allow_ide_debug = False\<rparr>,
      ''pro'' \<mapsto> \<lparr>rp_hosted = 5, rp_self_hosted = 10, rp_routing_enabled = 10, rp_sessions_total = 20, rp_sessions_per_runtime = 5,
        rp_profiles = [''small'', ''medium'', ''large''], rp_allow_self_hosted = True, rp_allow_ide_debug = True\<rparr>]"

definition Default :: "'l \<Rightarrow> 'l config" where
  "Default log_settings = \<lparr>cf_http_addr = '':8082'', cf_grpc_addr = '':50054'', cf_channel_addr = '':50055'',
     cf_tls = \<lparr>tl_enabled = True, tl_cert_file = '''', tl_key_file = '''', tl_server_name = '''', tl_client_ca_file = '''', tl_client_ca_key_file = ''''\<rparr>,
     cf_database = \<lparr>dc_host = ''192.168.88.10'', dc_port = 5432, dc_user = ''postgres'', dc_password = ''postgres'', dc_name = ''control_panel'',
       dc_sslmode = ''disable''\<rparr>,
     cf_market = \<lparr>mk_host = ''192.168.88.10'', mk_port = 5432, mk_user = ''postgres'', mk_password = ''postgres'', mk_database = ''binance_{year}'',
       mk_sslmode = ''disable'', mk_live_delivery = False, mk_brokers = [''192.168.88.10:19092'']\<rparr>,
     cf_portfolio_grpc = ''127.0.0.1:50051'', cf_order_grpc = ''127.0.0.1:50051'',
     cf_platform = \<lparr>pf_max_hosted = 50, pf_max_self_hosted = 100, pf_default_plan = ''pro'', pf_heartbeat_grace = 30, pf_death_grace = 300,
       pf_bare_death_grace = 300, pf_bare_enabled = False, pf_bare_allowlist = [''127.0.0.1/32''], pf_bare_ttl = 8 * hour\<rparr>,
     cf_plans = defaultPlans, cf_backend = '''',
     cf_provisioning = \<lparr>pv_image = ''hushine/strategy-runtime:executor-dev'', pv_advertise_host = ''127.0.0.1'', pv_port_base = 50100, pv_port_size = 200,
       pv_registration_timeout = 30, pv_profiles = defaultResourceProfiles\<rparr>,
     cf_docker = \<lparr>dp_network_mode = '''', dp_dial_addr = '''', dp_runtime_env = [], dp_label_prefix = ''''\<rparr>,
     cf_notification = \<lparr>nf_enabled = False, nf_brokers = [''192.168.88.10:19092''], nf_topic = ''notification.events'', nf_client_id = ''control-panel-service''\<rparr>,
     cf_log = log_settings\<rparr>"

text \<open>A file that cannot be read or decoded is an error; the decoder changes the defaults.\<close>
definition Load :: "string result \<Rightarrow> (string \<Rightarrow> 'l config \<Rightarrow> 'l config result) \<Rightarrow> 'l \<Rightarrow> 'l config result" where
  "Load file decode log_settings = (case file of
     Inl e \<Rightarrow> Inl (error_prefix ''read config: '' e)
   | Inr data \<Rightarrow> (case decode data (Default log_settings) of Inl e \<Rightarrow> Inl (error_prefix ''parse config: '' e) | Inr cfg \<Rightarrow> Inr cfg))"

section \<open>Connection strings\<close>

definition DSN :: "database_settings \<Rightarrow> string" where
  "DSN d = ''host='' @ dc_host d @ '' port='' @ format_int (dc_port d) @ '' user='' @ dc_user d @ '' password='' @ dc_password d @
     '' dbname='' @ dc_name d @ '' sslmode='' @ dc_sslmode d"

text \<open>\<open>Sscanf\<close> with \<open>%d\<close> into a 64-bit integer: a sign and the digits that follow; the rest is ignored.\<close>
definition scan_int :: "string \<Rightarrow> int option" where
  "scan_int s =
     (let s' = dropWhile is_space s;
          sign = (case s' of c # _ \<Rightarrow> if c = CHR ''-'' \<or> c = CHR ''+'' then [c] else [] | [] \<Rightarrow> [])
      in atoi (sign @ takeWhile is_digit (drop (length sign) s')))"

definition set_dsn_field :: "string \<Rightarrow> database_settings \<Rightarrow> database_settings" where
  "set_dsn_field kv d =
     (case cut_at (CHR ''='') kv of
        None \<Rightarrow> d
      | Some (k, v) \<Rightarrow>
          if k = ''host'' then d\<lparr>dc_host := v\<rparr>
          else if k = ''port'' then (case scan_int v of None \<Rightarrow> d | Some n \<Rightarrow> d\<lparr>dc_port := n\<rparr>)
          else if k = ''user'' then d\<lparr>dc_user := v\<rparr>
          else if k = ''password'' then d\<lparr>dc_password := v\<rparr>
          else if k = ''dbname'' then d\<lparr>dc_name := v\<rparr>
          else if k = ''sslmode'' then d\<lparr>dc_sslmode := v\<rparr>
          else d)"

definition parseDSN :: "string \<Rightarrow> database_settings \<Rightarrow> database_settings" where
  "parseDSN dsn d = fold set_dsn_field (go_fields dsn) d"

definition splitCSV :: "string \<Rightarrow> string list" where
  "splitCSV v = filter (\<lambda>p. p \<noteq> '''') (map trim_space (split_by (\<lambda>c. c = CHR '','') v))"

section \<open>The environment\<close>

definition on_env :: "string \<Rightarrow> (string \<Rightarrow> 'c \<Rightarrow> 'c) \<Rightarrow> (string \<Rightarrow> string) \<Rightarrow> 'c \<Rightarrow> 'c" where
  "on_env name f env c = (if env name \<noteq> '''' then f (env name) c else c)"

definition on_env_or :: "string \<Rightarrow> string \<Rightarrow> (string \<Rightarrow> 'c \<Rightarrow> 'c) \<Rightarrow> (string \<Rightarrow> string) \<Rightarrow> 'c \<Rightarrow> 'c" where
  "on_env_or name other f env c = (if env name \<noteq> '''' then f (env name) c else if env other \<noteq> '''' then f (env other) c else c)"

definition truthy :: "string \<Rightarrow> bool" where
  "truthy v \<longleftrightarrow> v = ''1'' \<or> fold_case v = ''true'' \<or> fold_case v = ''yes''"

text \<open>A number that is not positive, or not one, changes nothing.\<close>
definition positive :: "string \<Rightarrow> (int \<Rightarrow> 'c \<Rightarrow> 'c) \<Rightarrow> 'c \<Rightarrow> 'c" where
  "positive v f c = (case atoi v of Some n \<Rightarrow> if 0 < n then f n c else c | None \<Rightarrow> c)"

definition server_overrides :: "((string \<Rightarrow> string) \<Rightarrow> 'l config \<Rightarrow> 'l config) list" where
  "server_overrides =
     [on_env_or ''SERVER_HTTP_ADDR'' ''HTTP_ADDR'' (\<lambda>v c. c\<lparr>cf_http_addr := v\<rparr>),
      on_env_or ''SERVER_GRPC_ADDR'' ''GRPC_ADDR'' (\<lambda>v c. c\<lparr>cf_grpc_addr := v\<rparr>),
      on_env ''RUNTIME_CHANNEL_SERVER_GRPC_ADDR'' (\<lambda>v c. c\<lparr>cf_channel_addr := v\<rparr>),
      on_env ''RUNTIME_CHANNEL_SERVER_TLS_ENABLED'' (\<lambda>v c. c\<lparr>cf_tls := (cf_tls c)\<lparr>tl_enabled := truthy v\<rparr>\<rparr>),
      on_env ''RUNTIME_CHANNEL_SERVER_TLS_CERT_FILE'' (\<lambda>v c. c\<lparr>cf_tls := (cf_tls c)\<lparr>tl_cert_file := v\<rparr>\<rparr>),
      on_env ''RUNTIME_CHANNEL_SERVER_TLS_KEY_FILE'' (\<lambda>v c. c\<lparr>cf_tls := (cf_tls c)\<lparr>tl_key_file := v\<rparr>\<rparr>),
      on_env ''RUNTIME_CHANNEL_SERVER_TLS_SERVER_NAME'' (\<lambda>v c. c\<lparr>cf_tls := (cf_tls c)\<lparr>tl_server_name := v\<rparr>\<rparr>),
      on_env ''RUNTIME_CHANNEL_SERVER_TLS_CLIENT_CA_FILE'' (\<lambda>v c. c\<lparr>cf_tls := (cf_tls c)\<lparr>tl_client_ca_file := v\<rparr>\<rparr>),
      on_env ''RUNTIME_CHANNEL_SERVER_TLS_CLIENT_CA_KEY_FILE'' (\<lambda>v c. c\<lparr>cf_tls := (cf_tls c)\<lparr>tl_client_ca_key_file := v\<rparr>\<rparr>)]"

definition database_overrides :: "((string \<Rightarrow> string) \<Rightarrow> database_settings \<Rightarrow> database_settings) list" where
  "database_overrides =
     [on_env ''TIMESCALEDB_DSN'' parseDSN,
      on_env ''DATABASE_HOST'' (\<lambda>v d. d\<lparr>dc_host := v\<rparr>),
      on_env ''DATABASE_PORT'' (\<lambda>v. positive v (\<lambda>n d. d\<lparr>dc_port := n\<rparr>)),
      on_env ''DATABASE_USER'' (\<lambda>v d. d\<lparr>dc_user := v\<rparr>),
      on_env ''DATABASE_PASSWORD'' (\<lambda>v d. d\<lparr>dc_password := v\<rparr>),
      on_env ''DATABASE_DBNAME'' (\<lambda>v d. d\<lparr>dc_name := v\<rparr>),
      on_env ''DATABASE_SSLMODE'' (\<lambda>v d. d\<lparr>dc_sslmode := v\<rparr>)]"

definition market_overrides :: "((string \<Rightarrow> string) \<Rightarrow> market_settings \<Rightarrow> market_settings) list" where
  "market_overrides =
     [on_env ''MARKET_DATA_DB_HOST'' (\<lambda>v m. m\<lparr>mk_host := v\<rparr>),
      on_env ''MARKET_DATA_DB_PORT'' (\<lambda>v. positive v (\<lambda>n m. m\<lparr>mk_port := n\<rparr>)),
      on_env ''MARKET_DATA_DB_USER'' (\<lambda>v m. m\<lparr>mk_user := v\<rparr>),
      on_env ''MARKET_DATA_DB_PASSWORD'' (\<lambda>v m. m\<lparr>mk_password := v\<rparr>),
      on_env ''MARKET_DATA_DB_DATABASE'' (\<lambda>v m. m\<lparr>mk_database := v\<rparr>),
      on_env ''MARKET_DATA_DB_SSLMODE'' (\<lambda>v m. m\<lparr>mk_sslmode := v\<rparr>),
      on_env ''MARKET_DATA_LIVE_DELIVERY_ENABLED'' (\<lambda>v m. m\<lparr>mk_live_delivery := truthy v\<rparr>),
      on_env ''MARKET_DATA_KAFKA_BROKERS'' (\<lambda>v m. m\<lparr>mk_brokers := splitCSV v\<rparr>)]"

definition notification_overrides :: "((string \<Rightarrow> string) \<Rightarrow> notification_settings \<Rightarrow> notification_settings) list" where
  "notification_overrides =
     [on_env ''NOTIFICATION_ENABLED'' (\<lambda>v n. n\<lparr>nf_enabled := truthy v\<rparr>),
      on_env ''NOTIFICATION_KAFKA_BROKERS'' (\<lambda>v n. n\<lparr>nf_brokers := splitCSV v\<rparr>),
      on_env ''NOTIFICATION_KAFKA_TOPIC'' (\<lambda>v n. n\<lparr>nf_topic := v\<rparr>),
      on_env ''NOTIFICATION_KAFKA_CLIENT_ID'' (\<lambda>v n. n\<lparr>nf_client_id := v\<rparr>)]"

definition dependency_overrides :: "((string \<Rightarrow> string) \<Rightarrow> 'l config \<Rightarrow> 'l config) list" where
  "dependency_overrides =
     [on_env_or ''DEPENDENCIES_CORE_SERVICE_GRPC'' ''CORE_SERVICE_GRPC_ADDR'' (\<lambda>v c. c\<lparr>cf_portfolio_grpc := v\<rparr>),
      on_env_or ''DEPENDENCIES_ORDER_SERVICE_GRPC'' ''ORDER_SERVICE_GRPC_ADDR'' (\<lambda>v c. c\<lparr>cf_order_grpc := v\<rparr>)]"

definition platform_overrides :: "(string \<Rightarrow> duration option) \<Rightarrow> ((string \<Rightarrow> string) \<Rightarrow> platform_settings \<Rightarrow> platform_settings) list" where
  "platform_overrides parse_duration =
     [on_env ''RUNTIME_PLATFORM_DEFAULT_PLAN_CODE'' (\<lambda>v p. p\<lparr>pf_default_plan := v\<rparr>),
      on_env ''RUNTIME_PLATFORM_DEBUG_BARE_RUNTIME_ENABLED'' (\<lambda>v p. p\<lparr>pf_bare_enabled := truthy v\<rparr>),
      on_env ''RUNTIME_PLATFORM_BARE_BOOTSTRAP_IP_ALLOWLIST'' (\<lambda>v p. p\<lparr>pf_bare_allowlist := splitCSV v\<rparr>),
      on_env ''RUNTIME_PLATFORM_BARE_CERTIFICATE_TTL'' (\<lambda>v p. case parse_duration v of
          Some d \<Rightarrow> if 0 < d then p\<lparr>pf_bare_ttl := d\<rparr> else p | None \<Rightarrow> p),
      on_env ''RUNTIME_PLATFORM_BARE_RUNTIME_DEATH_GRACE_SECONDS'' (\<lambda>v. positive v (\<lambda>n p. p\<lparr>pf_bare_death_grace := n\<rparr>))]"

definition run_overrides :: "((string \<Rightarrow> string) \<Rightarrow> 'c \<Rightarrow> 'c) list \<Rightarrow> (string \<Rightarrow> string) \<Rightarrow> 'c \<Rightarrow> 'c" where
  "run_overrides steps env c = fold (\<lambda>step. step env) steps c"

definition ApplyEnvOverrides :: "(string \<Rightarrow> duration option) \<Rightarrow> (string \<Rightarrow> string) \<Rightarrow> 'l config \<Rightarrow> 'l config" where
  "ApplyEnvOverrides parse_duration env c0 =
     (let c1 = run_overrides server_overrides env c0;
          c2 = c1\<lparr>cf_database := run_overrides database_overrides env (cf_database c1)\<rparr>;
          c3 = c2\<lparr>cf_market := run_overrides market_overrides env (cf_market c2)\<rparr>;
          c4 = c3\<lparr>cf_notification := run_overrides notification_overrides env (cf_notification c3)\<rparr>;
          c5 = run_overrides dependency_overrides env c4
      in c5\<lparr>cf_platform := run_overrides (platform_overrides parse_duration) env (cf_platform c5)\<rparr>)"


section \<open>A connection string reads back\<close>

lemma cut_at_first: "c \<notin> set k \<Longrightarrow> cut_at c (k @ c # v) = Some (k, v)"
proof -
  assume "c \<notin> set k"
  then have "takeWhile (\<lambda>x. x \<noteq> c) (k @ c # v) = k" "dropWhile (\<lambda>x. x \<noteq> c) (k @ c # v) = c # v" by (induction k) auto
  then show ?thesis by (simp add: cut_at_def)
qed

lemma scan_format_int: "in64 n \<Longrightarrow> scan_int (format_int n) = Some n"
proof -
  assume n: "in64 n"
  have digits: "list_all is_digit (format_nat m)" for m using format_nat_digits by (simp add: list_all_iff)
  have head: "\<exists>c cs. format_nat m = c # cs \<and> is_digit c" for m
    using digits [of m] by (cases "format_nat m") auto
  have plain: "scan_int (format_nat m) = atoi (format_nat m)" for m
  proof -
    obtain c cs where c: "format_nat m = c # cs" "is_digit c" using head by blast
    have "\<not> is_space c" using c(2) by (auto simp: is_digit_def is_space_def Let_def)
    moreover have "takeWhile is_digit cs = cs" using digits [of m] c(1) by (simp add: takeWhile_eq_all_conv list_all_iff)
    ultimately show ?thesis using c digit_not_sign [OF c(2)] by (simp add: scan_int_def del: takeWhile_eq_all_conv)
  qed
  show ?thesis
  proof (cases "n < 0")
    case True
    obtain c cs where c: "format_nat (nat (- n)) = c # cs" using head by blast
    have "takeWhile is_digit (format_nat (nat (- n))) = format_nat (nat (- n))" using digits by (simp add: takeWhile_eq_all_conv list_all_iff)
    then have "scan_int (format_int n) = atoi (CHR ''-'' # format_nat (nat (- n)))"
      using True by (simp add: scan_int_def format_int_def is_space_def del: takeWhile_eq_all_conv)
    moreover have "format_nat (nat (- n)) \<noteq> []" using c by simp
    ultimately show ?thesis using True n digits [of "nat (- n)"] by (simp add: atoi_def Let_def)
  next
    case False
    then show ?thesis using n plain [of "nat n"] atoi_format_nat [of "nat n"] by (simp add: format_int_def in64_def)
  qed
qed

lemma format_int_no_space: "no_space (format_int n)"
proof -
  have "list_all plain (format_nat m)" for m
    using format_nat_digits [of m] by (auto simp: is_digit_def plain_def is_space_def list_all_iff Let_def)
  then show ?thesis
    by (intro no_space_plain) (simp add: format_int_def plain_def is_space_def)
qed

text \<open>A setting is a word: its keyword is plain and its value has no white space, and an equals sign stands between them.\<close>

lemma setting_word: "list_all plain k \<Longrightarrow> k \<noteq> '''' \<Longrightarrow> no_space v \<Longrightarrow> no_space (k @ v)"
proof (induction k)
  case (Cons c k)
  then show ?case by (cases "k = ''''") (simp_all add: space_front_plain)
qed simp

lemma go_fields_setting: "list_all plain k \<Longrightarrow> no_space v \<Longrightarrow> k \<noteq> '''' \<Longrightarrow> go_fields (k @ v @ CHR '' '' # s) = (k @ v) # go_fields s"
  using go_fields_first [of "k @ v" "CHR '' ''" s] setting_word [of k v] by (simp add: is_space_def)

lemma dsn_fields:
  assumes "no_space (dc_host d)" "no_space (dc_user d)" "no_space (dc_password d)" "no_space (dc_name d)" "no_space (dc_sslmode d)"
  shows "go_fields (DSN d) = [''host='' @ dc_host d, ''port='' @ format_int (dc_port d), ''user='' @ dc_user d, ''password='' @ dc_password d,
     ''dbname='' @ dc_name d, ''sslmode='' @ dc_sslmode d]"
proof -
  have p: "no_space (format_int (dc_port d))" by (rule format_int_no_space)
  have keys: "list_all plain ''host=''" "list_all plain ''port=''" "list_all plain ''user=''" "list_all plain ''password=''"
    "list_all plain ''dbname=''" "list_all plain ''sslmode=''" by (simp_all add: plain_def is_space_def)
  have last: "go_fields (''sslmode='' @ dc_sslmode d) = [''sslmode='' @ dc_sslmode d]"
    using setting_word [OF keys(6) _ assms(5)] by (intro go_fields_last) simp_all
  have "DSN d = ''host='' @ dc_host d @ CHR '' '' # ''port='' @ format_int (dc_port d) @ CHR '' '' # ''user='' @ dc_user d @ CHR '' '' #
      ''password='' @ dc_password d @ CHR '' '' # ''dbname='' @ dc_name d @ CHR '' '' # ''sslmode='' @ dc_sslmode d"
    by (simp add: DSN_def)
  then show ?thesis
    using go_fields_setting [OF keys(1) assms(1)] go_fields_setting [OF keys(2) p] go_fields_setting [OF keys(3) assms(2)]
      go_fields_setting [OF keys(4) assms(3)] go_fields_setting [OF keys(5) assms(4)] last by (simp only: list.distinct(2) not_False_eq_True simp_thms)
qed

text \<open>C40. The connection string written for a database configuration is read back as that configuration, over whatever configuration it is
  read, as long as no setting contains white space (Unicode's, as \<open>strings.Fields\<close> has it) and the port fits 64 bits.\<close>

theorem dsn_roundtrip:
  assumes "no_space (dc_host d)" "no_space (dc_user d)" "no_space (dc_password d)" "no_space (dc_name d)" "no_space (dc_sslmode d)"
    and "in64 (dc_port d)"
  shows "parseDSN (DSN d) d0 = d"
proof -
  have set: "set_dsn_field (''host='' @ v) x = x\<lparr>dc_host := v\<rparr>" "set_dsn_field (''user='' @ v) x = x\<lparr>dc_user := v\<rparr>"
    "set_dsn_field (''password='' @ v) x = x\<lparr>dc_password := v\<rparr>" "set_dsn_field (''dbname='' @ v) x = x\<lparr>dc_name := v\<rparr>"
    "set_dsn_field (''sslmode='' @ v) x = x\<lparr>dc_sslmode := v\<rparr>" for v x
    by (simp_all add: set_dsn_field_def cut_at_def)
  have port: "set_dsn_field (''port='' @ format_int (dc_port d)) x = x\<lparr>dc_port := dc_port d\<rparr>" for x
    using scan_format_int [OF assms(6)] by (simp add: set_dsn_field_def cut_at_def)
  show ?thesis
    unfolding parseDSN_def dsn_fields [OF assms(1-5)] fold_simps set port by (cases d; cases d0) simp
qed

theorem dsn_roundtrip_witness:
  "parseDSN (DSN (cf_database (Default ()))) (cf_database (Default ())\<lparr>dc_host := ''other'', dc_port := 1\<rparr>) = cf_database (Default ())"
  by (rule dsn_roundtrip) (simp_all add: Default_def space_front_plain plain_def is_space_def in64_def)

end
