(* ===== verification/Startup.thy ===== *)
theory Startup
  imports Configuration DockerProvisioner
begin

text \<open>
  What \<open>main\<close> makes of the configuration before it serves: the provisioner, the certificate signer, the transport security of the
  RuntimeChannel listener (\<open>internal/runtimechannel/tls.go\<close>), the settings of the runtime service (\<open>runtime.New\<close>), the plan lookup
  (\<open>internal/portfolioclient\<close>) and the health endpoints (\<open>internal/httpserver\<close>). A \<open>log.Fatalf\<close> is an error; files, key pairs and
  certificate pools are parameters; dialling, listening and logging are left out.
\<close>

section \<open>The provisioner\<close>

definition fallbackString :: "string \<Rightarrow> string \<Rightarrow> string" where "fallbackString v fallback = (if v = '''' then fallback else v)"

definition portFromBindAddr :: "string \<Rightarrow> string" where
  "portFromBindAddr bind =
     (if bind = '''' then '':50055''
      else if CHR '':'' \<in> set bind then CHR '':'' # rev (takeWhile (\<lambda>c. c \<noteq> CHR '':'') (rev bind))
      else CHR '':'' # bind)"

datatype backend = Noop_Backend | Docker_Backend docker_config

definition docker_backend :: "'l config \<Rightarrow> string \<Rightarrow> backend" where
  "docker_backend cfg dial = Docker_Backend \<lparr>dk_image = pv_image (cf_provisioning cfg), dk_network_mode = dp_network_mode (cf_docker cfg),
     dk_label_prefix = dp_label_prefix (cf_docker cfg), dk_runtime_env = dp_runtime_env (cf_docker cfg), dk_channel_addr = dial\<rparr>"

definition chooseProvisioner :: "'l config \<Rightarrow> backend result" where
  "chooseProvisioner cfg =
     (if cf_backend cfg = '''' \<or> cf_backend cfg = ''noop'' then Inr Noop_Backend
      else if cf_backend cfg = ''docker'' then
        (if dp_dial_addr (cf_docker cfg) \<noteq> '''' then Inr (docker_backend cfg (dp_dial_addr (cf_docker cfg)))
         else if fallbackString (dp_network_mode (cf_docker cfg)) ''host'' = ''host''
         then Inr (docker_backend cfg (''127.0.0.1'' @ portFromBindAddr (cf_channel_addr cfg)))
         else Inl (Plain ''provisioning.docker.runtime_channel_dial_addr is required''))
      else Inl (Plain ''unknown provisioning.backend''))"

section \<open>Transport security\<close>

text \<open>Files by path, the signer of a CA's certificate and key, whether a key pair loads, and the pool of a CA file.\<close>
record 's tls_env =
  te_file :: "string \<Rightarrow> string result"
  te_signer :: "string \<Rightarrow> string \<Rightarrow> 's result"
  te_keypair :: "string \<Rightarrow> string \<Rightarrow> go_error option"
  te_pool_ok :: "string \<Rightarrow> bool"

definition runtimeClientCertSignerFromConfig :: "'s tls_env \<Rightarrow> tls_settings \<Rightarrow> 's option result" where
  "runtimeClientCertSignerFromConfig env tls =
     (let certFile = trim_space (tl_client_ca_file tls); keyFile = trim_space (tl_client_ca_key_file tls) in
      if certFile = '''' \<and> keyFile = '''' then Inr None
      else if certFile = '''' then Inl (Plain ''runtime_channel_server.tls.client_ca_file is required when client_ca_key_file is set'')
      else if keyFile = '''' then Inl (Plain ''runtime_channel_server.tls.client_ca_key_file is required when client_ca_file is set'')
      else case te_file env certFile of
        Inl e \<Rightarrow> Inl (error_prefix ''read runtime channel client ca file: '' e)
      | Inr certPEM \<Rightarrow> (case te_file env keyFile of
          Inl e \<Rightarrow> Inl (error_prefix ''read runtime channel client ca key file: '' e)
        | Inr keyPEM \<Rightarrow> (case te_signer env certPEM keyPEM of
            Inl e \<Rightarrow> Inl (error_prefix ''load runtime channel client ca signer: '' e)
          | Inr signer \<Rightarrow> Inr (Some signer))))"

definition runtimeServerCAPEMFromConfig :: "'s tls_env \<Rightarrow> tls_settings \<Rightarrow> string result" where
  "runtimeServerCAPEMFromConfig env tls =
     (let certFile = trim_space (tl_cert_file tls) in
      if certFile = '''' then Inr ''''
      else case te_file env certFile of Inl e \<Rightarrow> Inl (error_prefix ''read runtime channel server ca file: '' e) | Inr pem \<Rightarrow> Inr pem)"

text \<open>Plain text, a server certificate, or certificates of both sides, the client's verified against a pool.\<close>
datatype transport = Insecure | Server_TLS | Mutual_TLS string

definition ServerTLSCredentials :: "'s tls_env \<Rightarrow> tls_settings \<Rightarrow> transport result" where
  "ServerTLSCredentials env tls =
     (if \<not> tl_enabled tls then Inr Insecure
      else if trim_space (tl_cert_file tls) = '''' then Inl (Plain ''runtime channel tls cert_file is required when tls is enabled'')
      else if trim_space (tl_key_file tls) = '''' then Inl (Plain ''runtime channel tls key_file is required when tls is enabled'')
      else case te_keypair env (tl_cert_file tls) (tl_key_file tls) of
        Some e \<Rightarrow> Inl (error_prefix ''load runtime channel tls keypair: '' e)
      | None \<Rightarrow>
          if trim_space (tl_client_ca_file tls) = '''' then Inr Server_TLS
          else (case te_file env (tl_client_ca_file tls) of
             Inl e \<Rightarrow> Inl (error_prefix ''read runtime channel client ca: '' e)
           | Inr pem \<Rightarrow> if te_pool_ok env pem then Inr (Mutual_TLS pem)
               else Inl (Plain ''runtime channel client ca contains no valid certificates'')))"

section \<open>The runtime service\<close>

record service_settings =
  ss_heartbeat_grace :: duration
  ss_death_grace :: duration
  ss_bare_death_grace :: duration
  ss_registration_timeout :: int
  ss_bare :: bare_config
  ss_tls_server_name :: string

text \<open>The settings \<open>main\<close> hands over and the defaults \<open>New\<close> puts for those that are not positive. Durations are 64-bit.\<close>
definition New_settings :: "'l config \<Rightarrow> service_settings" where
  "New_settings cfg =
     (let p = cf_platform cfg;
          positive_or = (\<lambda>d fallback. if d \<le> 0 then fallback else d);
          heartbeat = positive_or (wrap64 (pf_heartbeat_grace p * second)) (30 * second);
          death = positive_or (wrap64 (pf_death_grace p * second)) (5 * minute)
      in \<lparr>ss_heartbeat_grace = heartbeat, ss_death_grace = death,
          ss_bare_death_grace = positive_or (wrap64 (pf_bare_death_grace p * second)) death,
          ss_registration_timeout = positive_or (pv_registration_timeout (cf_provisioning cfg)) 30,
          ss_bare = \<lparr>bc_enabled = pf_bare_enabled p, bc_allowlist = (if pf_bare_allowlist p = [] then [''127.0.0.1/32''] else pf_bare_allowlist p),
            bc_ttl = positive_or (pf_bare_ttl p) (8 * hour)\<rparr>,
          ss_tls_server_name = trim_space (tl_server_name (cf_tls cfg))\<rparr>)"

definition watchdogEvery :: "'l config \<Rightarrow> duration" where
  "watchdogEvery cfg = (let d = go_div (wrap64 (pf_heartbeat_grace (cf_platform cfg) * second)) 2 in if d < 5 * second then 5 * second else d)"

text \<open>The plan code of a user, as the core service answers it: no response, or one without a user, is an error.\<close>
definition GetUserPlanCode :: "(int \<Rightarrow> string option result) \<Rightarrow> int \<Rightarrow> string result" where
  "GetUserPlanCode get_user uid = (case get_user uid of
     Inl e \<Rightarrow> Inl e
   | Inr None \<Rightarrow> Inl (Plain ''core-service returned empty user'')
   | Inr (Some code) \<Rightarrow> Inr code)"

section \<open>Starting\<close>

record 's started =
  st_backend :: backend
  st_signer :: "'s option"
  st_server_ca :: string
  st_settings :: service_settings
  st_transport :: transport

text \<open>The steps that can refuse to start, in their order.\<close>
definition start :: "'s tls_env \<Rightarrow> 'l config \<Rightarrow> 's started result" where
  "start env cfg = bind_res (chooseProvisioner cfg) (\<lambda>be.
     bind_res (runtimeClientCertSignerFromConfig env (cf_tls cfg)) (\<lambda>signer.
     bind_res (runtimeServerCAPEMFromConfig env (cf_tls cfg)) (\<lambda>ca.
     bind_res (ServerTLSCredentials env (cf_tls cfg)) (\<lambda>tr.
     Inr \<lparr>st_backend = be, st_signer = signer, st_server_ca = ca, st_settings = New_settings cfg, st_transport = tr\<rparr>))))"

text \<open>The configuration that is there without a file: built-in defaults and overrides.\<close>
definition load_or_default :: "string result \<Rightarrow> bool \<Rightarrow> (string \<Rightarrow> 'l config \<Rightarrow> 'l config result) \<Rightarrow> 'l \<Rightarrow> (string \<Rightarrow> duration option)
    \<Rightarrow> (string \<Rightarrow> string) \<Rightarrow> 'l config result" where
  "load_or_default file missing_file decode log_settings parse_duration env =
     (case Load file decode log_settings of
        Inr cfg \<Rightarrow> Inr (ApplyEnvOverrides parse_duration env cfg)
      | Inl e \<Rightarrow> if missing_file then Inr (ApplyEnvOverrides parse_duration env (Default log_settings)) else Inl (error_prefix ''load config: '' e))"

section \<open>Health\<close>

text \<open>A JSON body, as the encoder ends it.\<close>
definition body :: "string \<Rightarrow> string \<Rightarrow> string" where "body k v = json_object [(k, json_string v)] @ [CHR 0x0A]"

text \<open>Status and body of \<open>/healthz\<close> and \<open>/readyz\<close>; the state is whether the service was marked ready.\<close>
definition handleHealthz :: "string \<Rightarrow> nat \<times> string" where
  "handleHealthz verb = (if verb \<noteq> ''GET'' then (405, body ''error'' ''method not allowed'')
     else (200, body ''status'' ''ok''))"

definition handleReadyz :: "bool \<Rightarrow> string \<Rightarrow> nat \<times> string" where
  "handleReadyz ready verb = (if verb \<noteq> ''GET'' then (405, body ''error'' ''method not allowed'')
     else if \<not> ready then (503, body ''status'' ''not_ready'')
     else (200, body ''status'' ''ready''))"


section \<open>Who may connect\<close>


definition sample_tls_env :: "string tls_env" where
  "sample_tls_env = \<lparr>te_file = Inr, te_signer = (\<lambda>cert key. Inr cert), te_keypair = (\<lambda>_ _. None), te_pool_ok = (\<lambda>_. True)\<rparr>"

definition sample_start :: "unit config" where
  "sample_start = Default ()\<lparr>cf_tls := \<lparr>tl_enabled = True, tl_cert_file = ''c.pem'', tl_key_file = ''k.pem'', tl_server_name = '''',
     tl_client_ca_file = ''ca.pem'', tl_client_ca_key_file = ''cak.pem''\<rparr>\<rparr>"


text \<open>With a space before the configured path the signer and the channel read two files: the channel would refuse its own certificates.\<close>

lemma padded_path_splits_authority:
  defines "cfg \<equiv> sample_start\<lparr>cf_tls := (cf_tls sample_start)\<lparr>tl_client_ca_file := '' ca.pem''\<rparr>\<rparr>"
  shows "\<exists>s. start sample_tls_env cfg = Inr s \<and> st_signer s = Some ''ca.pem'' \<and> st_transport s = Mutual_TLS '' ca.pem''"
proof -
  have n: "trim_space '' ca.pem'' = ''ca.pem''" "trim_space ''cak.pem'' = ''cak.pem''" "trim_space ''c.pem'' = ''c.pem''" "trim_space ''k.pem'' = ''k.pem''"
    by (simp_all add: trim_eval)
  have "chooseProvisioner cfg = Inr Noop_Backend" by (simp add: cfg_def chooseProvisioner_def sample_start_def Default_def)
  then show ?thesis
    by (simp add: start_def bind_res_def runtimeClientCertSignerFromConfig_def runtimeServerCAPEMFromConfig_def ServerTLSCredentials_def
      sample_tls_env_def cfg_def sample_start_def Default_def n)
qed

end
