(* ===== verification/Spec2Isabelle.thy ===== *)
theory Spec2Isabelle
  imports Prelude Domain Frames ReplayCache StreamRegistry FrameQueue DataWindow LiveDelivery Tables RuntimeCommands TimeModel MarketDataTypes Coverage CoverageMerge KlineQuery KlineValidation StreamKeys CoverageStore CoverageQuery MarketStore ExclusiveLease MarketLeases MarketProto MarketService RuntimeStore RuntimeLifecycle Encodings ChannelAuth RuntimeCert Notification ChannelService ChannelCalls ChannelSafety ChannelWorld ChannelClaims PlanLimits Credentials RuntimeService RuntimeClaims PlatformPayload PlatformProxy PlatformClaims DatasetClaims LiveWorkers LiveClaims Debugger DebuggerClaims RuntimeRPC RPCClaims Texts DockerProvisioner Configuration Startup
begin

text \<open>
  A model of the control-panel service (\<open>src/\<close>): the control plane between users, strategy runtimes and market data. Users get
  credentials; a runtime, hosted in a container or run by its user, opens a RuntimeChannel with a signed HELLO; over that stream it
  receives calls, commands, bars and order events, and calls the platform through a proxy. Beside it stands the control plane of market
  data: streams, requests, leases, the index of what history is covered, and the query of raw bars.

  \<^bold>\<open>Conventions.\<close> An operation of the code is a function from its state to its state and its answer; the state is a record of tables and
  registries, and what the code writes to the outside is a list in it. A Go error is a value (\<open>Domain.go_error\<close>: a sentinel, a gRPC status or
  neither, with its text), \<open>result\<close> is error or value. A row of PostgreSQL is a record; a statement is an update of the list of rows that is
  refused when a constraint or a unique index of \<open>internal/storage/migrations\<close> is violated. \<open>int64\<close> is \<open>int\<close> with \<open>wrap64\<close> where the code can
  overflow, \<open>float64\<close> its 64-bit word, a string the list of its bytes. A Go map with observable order is an association list (\<open>gm_set\<close>). What
  another goroutine does meanwhile is a list of observed events, or the database as it is found afterwards. \<open>None\<close> as the value of a whole call
  means that it panics or never returns; that calls do return is proved separately. Clocks, random bytes, SHA-256, Ed25519, PEM and X.509
  decoding, Kafka, SQL drivers, JSON and protobuf codecs of arbitrary values, the core and order services and Docker are parameters; where a
  theorem relies on them, a hypothesis states what they document, and the theorem's witness runs it on a concrete instance.

  \<^bold>\<open>Foundations.\<close>
  \<^item> \<open>Prelude\<close>: Go maps, 64-bit arithmetic, strings, numbers and their texts. \<open>Texts\<close>: more of the package \<open>strings\<close>. \<open>Encodings\<close>: base64, JSON
    strings and hexadecimal, with their injectivity. \<open>Domain\<close>: \<open>internal/domain\<close>, errors and rows. \<open>Tables\<close>: statements on lists of rows, and the locale
    \<open>lifecycle\<close> (an invariant kept by every step and a view of a row that never changes again).
  \<^item> \<open>TimeModel\<close>: intervals and calendar years. \<open>MarketDataTypes\<close>: \<open>internal/domain/marketdata.go\<close>.

  \<^bold>\<open>Runtime registry\<close> (\<open>internal/repository\<close>).
  \<^item> \<open>RuntimeStore\<close>: \<open>timescale.go\<close> and \<open>runtime_channel_admission.go\<close>. \<open>RuntimeLifecycle\<close>: every write as one step relation; invariants of reachable
    registries, finality of ended runtimes and of spent credentials (interpretations of \<open>lifecycle\<close>). \<open>RuntimeCommands\<close>: \<open>runtime_commands.go\<close>.

  \<^bold>\<open>RuntimeChannel\<close> (\<open>internal/runtimechannel\<close>).
  \<^item> \<open>ReplayCache\<close> (\<open>replay.go\<close>, locale \<open>replay_guard\<close>), \<open>ChannelAuth\<close> (\<open>auth.go\<close>): a HELLO is authentic and accepted once. \<open>RuntimeCert\<close>
    (\<open>internal/runtimecert\<close>): the identity in a client certificate. \<open>Credentials\<close> (\<open>internal/credential\<close>): issue, list and revoke.
  \<^item> \<open>Frames\<close>, \<open>FrameQueue\<close> (locale \<open>two_class_queue\<close>), \<open>DataWindow\<close> (\<open>frame_queue.go\<close>) and \<open>StreamRegistry\<close> (\<open>registry.go\<close>, locale
    \<open>stream_directory\<close>): the live streams, their queues, and the two indices that find them.
  \<^item> \<open>ChannelService\<close> (\<open>service.go\<close>, \<open>status_patch.go\<close>, \<open>runtime_request.go\<close>, \<open>data_backpressure.go\<close>): \<open>Handle\<close> as the turns of its loop.
    \<open>ChannelCalls\<close> (\<open>proxy.go\<close>, \<open>command_dispatch.go\<close>): calls into a runtime. \<open>ChannelSafety\<close>, \<open>ChannelWorld\<close> and \<open>ChannelClaims\<close>: all of them interleaved, and
    what holds in every interleaving.
  \<^item> \<open>LiveDelivery\<close> (\<open>live_delivery.go\<close>) and \<open>LiveWorkers\<close> (\<open>kafka_live_delivery.go\<close>, \<open>order_lifecycle_delivery.go\<close>) with \<open>LiveClaims\<close>: bars and order
    events to sessions.
  \<^item> \<open>PlatformPayload\<close> and \<open>PlatformProxy\<close> (\<open>platform_proxy.go\<close>) with \<open>PlatformClaims\<close> and \<open>DatasetClaims\<close>: what a runtime may ask of the platform. A
    dispatch is a function from the trace of the calls made to a longer trace and an answer.

  \<^bold>\<open>Runtime control plane.\<close>
  \<^item> \<open>PlanLimits\<close> (\<open>internal/plan\<close>), \<open>RuntimeService\<close> (\<open>internal/runtime/service.go\<close>) with \<open>RuntimeClaims\<close>: routes, starts, ends, the watchdog, bare
    runtimes. \<open>EnsureHostedRuntime\<close> is cut where it waits, so that two calls can overlap.
  \<^item> \<open>Debugger\<close> (\<open>internal/debugger\<close>) with \<open>DebuggerClaims\<close>: workspaces, datasets and replays of debugger runtimes.
  \<^item> \<open>RuntimeRPC\<close> (\<open>internal/runtime/grpc.go\<close>) with \<open>RPCClaims\<close>: the remote procedures over these services, their messages and status codes.
  \<^item> \<open>Notification\<close> (\<open>internal/notification\<close>): events. \<open>DockerProvisioner\<close> (\<open>internal/provision/docker.go\<close>): containers, over any command runner.
  \<^item> \<open>Configuration\<close> (\<open>internal/config\<close>) and \<open>Startup\<close> (\<open>cmd/control-panel-service\<close>, \<open>tls.go\<close>, \<open>portfolioclient\<close>, \<open>httpserver\<close>): settings, environment, and what
    a start refuses or decides.

  \<^bold>\<open>Market data\<close> (\<open>internal/marketdata\<close>).
  \<^item> \<open>MarketStore\<close> and \<open>MarketLeases\<close> (\<open>repository/timescale.go\<close>; \<open>ExclusiveLease\<close> is the locale of a lease that one holder keeps until it expires,
    interpreted for delivery and for writer leases). \<open>MarketProto\<close>, \<open>StreamKeys\<close>, \<open>MarketService\<close> (\<open>service.go\<close>): the remote procedures, and the
    invariant that every sequence of them keeps.
  \<^item> \<open>CoverageStore\<close> (locale \<open>coverage_index\<close>: the stored segments refine a set of covered instants), \<open>Coverage\<close>, \<open>CoverageMerge\<close>, \<open>CoverageQuery\<close>
    (\<open>coverage.go\<close>): what is covered, what is missing, and how many bars that is.
  \<^item> \<open>KlineQuery\<close> (\<open>market_data_query.go\<close>), \<open>KlineValidation\<close> (\<open>coverage_validation.go\<close>): reading raw bars from yearly databases, and comparing them
    with the grid of their interval.

  \<^bold>\<open>How the parts meet.\<close> \<open>ChannelService\<close> keeps the registry of \<open>RuntimeStore\<close>, the streams of \<open>StreamRegistry\<close> and the cache of \<open>ReplayCache\<close> in
  one state, which \<open>Credentials\<close> and \<open>RuntimeService\<close> change too: a revocation is followed through database, streams and later HELLOs. The
  frames of a connection lead to \<open>PlatformProxy\<close>, which asks \<open>MarketService\<close> and \<open>KlineQuery\<close>; \<open>LiveWorkers\<close> take the leases of \<open>MarketLeases\<close> and
  deliver through \<open>LiveDelivery\<close>; \<open>Debugger\<close> needs \<open>KlineQuery\<close> and \<open>KlineValidation\<close> to agree before it records a dataset in \<open>RuntimeStore\<close>.

  \<^bold>\<open>Bounds and termination.\<close> Loops that may not end are partial functions into \<open>option\<close> (\<open>grid_loop\<close>, the delivery loop of the proxy, the widening
  of coverage) and are proved to return where the code means them to; the retry of a query and the paging of a listing are functions with a
  measure. No fuel is used. A watchdog or worker is the list of its rounds.

  \<^bold>\<open>Not modelled.\<close> Generated messages, the logger, the tracing headers, dialling and listening, the SQL files and the program that applies them, the
  one-off migration script: input and output around the modelled functions, or generated code. Scanning a row is the identity. The two regular
  expressions that redact container diagnostics, the YAML decoder and \<open>time.ParseDuration\<close> are parameters. Isolation levels are modelled where
  the code reads and writes in separate statements (\<open>RuntimeCommands\<close>, \<open>MarketStore\<close>); a single statement is atomic.
\<close>

end
